(* ===== verification/Prelude.thy ===== *)
theory Prelude
  imports Main "HOL-Library.Word"
begin

text \<open>
  Shared vocabulary of the development: machine integers at their width, Rust strings as
  lists of Unicode scalar values, \<^verbatim>\<open>Result\<close> values as sums with the control flow of the
  \<open>?\<close> operator, and the few list facts that several components use.
\<close>

unbundle bit_operations_syntax

named_theorems result_unfold \<open>inversion of successful and failed Result pipelines\<close>

section \<open>Machine integers and identifiers\<close>

type_synonym u8 = "8 word"
type_synonym u16 = "16 word"
type_synonym u32 = "32 word"
type_synonym i32 = "32 word"
type_synonym i64 = "64 word"

text \<open>A \<^verbatim>\<open>Uuid\<close> is 128 bits; the nil uuid is 0. The id newtypes of \<open>domain/\<close> wrap it.\<close>

type_synonym uuid = "128 word"

text \<open>\<^verbatim>\<open>u16::checked_sub\<close> (any width): \<open>None\<close> on underflow.\<close>

definition checked_sub :: "'w::len word \<Rightarrow> 'w word \<Rightarrow> 'w word option" where
  "checked_sub a b = (if b \<le> a then Some (a - b) else None)"

lemma checked_sub_eq_Some:
  "checked_sub a b = Some c \<longleftrightarrow> b \<le> a \<and> c = a - b"
  by (auto simp: checked_sub_def)

text \<open>An \<^verbatim>\<open>as u8\<close> cast keeps every value below 256.\<close>

lemma unat_u8: "m < 256 \<Longrightarrow> unat (word_of_nat m :: u8) = m"
  by (simp add: unat_of_nat take_bit_eq_mod)

lemma unat_ucast_mod: "unat (ucast w :: 'b::len word) = unat (w :: 'a::len word) mod 2 ^ LENGTH('b)"
  by (simp add: unsigned_ucast_eq take_bit_eq_mod)

lemma unat_drop_bit_div: "unat (drop_bit n w) = unat (w :: 'a::len word) div 2 ^ n"
  by (metis unat_drop_bit_eq drop_bit_eq_div)

lemma unat_u16_less: "unat (w :: u16) < 65536"
  using unsigned_less [of w, where 'a = nat] by simp

section \<open>Strings\<close>

text \<open>
  A Rust \<^verbatim>\<open>String\<close> is a sequence of Unicode scalar values. \<open>lit\<close> gives the value of an
  ASCII literal of the source.
\<close>

type_synonym rstr = "nat list"

definition lit :: "string \<Rightarrow> rstr" where
  "lit s = map of_char s"

lemma lit_eq_iff [simp]: "lit s = lit t \<longleftrightarrow> s = t"
proof -
  have "inj (of_char :: char \<Rightarrow> nat)"
    by (rule injI) simp
  then show ?thesis
    by (simp add: lit_def)
qed

lemma lit_eq_Nil [simp]: "lit s = [] \<longleftrightarrow> s = []" "[] = lit s \<longleftrightarrow> s = []"
  by (auto simp: lit_def)

text \<open>\<^verbatim>\<open>char::is_whitespace\<close>: the Unicode property White_Space.\<close>

definition is_whitespace :: "nat \<Rightarrow> bool" where
  "is_whitespace c \<longleftrightarrow>
     (9 \<le> c \<and> c \<le> 13) \<or> c = 32 \<or> c = 133 \<or> c = 160 \<or> c = 5760 \<or> (8192 \<le> c \<and> c \<le> 8202)
     \<or> c = 8232 \<or> c = 8233 \<or> c = 8239 \<or> c = 8287 \<or> c = 12288"

text \<open>For evaluation: the ASCII cases first.\<close>

lemma is_whitespace_code [code]:
  "is_whitespace c \<longleftrightarrow>
     (if c < 128 then (9 \<le> c \<and> c \<le> 13) \<or> c = 32
      else c = 133 \<or> c = 160 \<or> c = 5760 \<or> (8192 \<le> c \<and> c \<le> 8202)
        \<or> c = 8232 \<or> c = 8233 \<or> c = 8239 \<or> c = 8287 \<or> c = 12288)"
  by (auto simp: is_whitespace_def)

text \<open>\<^verbatim>\<open>str::trim\<close>.\<close>

definition trim :: "rstr \<Rightarrow> rstr" where
  "trim s = rev (dropWhile is_whitespace (rev (dropWhile is_whitespace s)))"

lemma trim_Nil [simp]: "trim [] = []"
  by (simp add: trim_def)

lemma trim_ends:
  assumes "trim s \<noteq> []"
  shows "\<not> is_whitespace (hd (trim s))" "\<not> is_whitespace (last (trim s))"
proof -
  define l where "l = dropWhile is_whitespace s"
  define r where "r = dropWhile is_whitespace (rev l)"
  have t: "trim s = rev r"
    by (simp add: trim_def l_def r_def)
  with assms have r: "r \<noteq> []"
    by simp
  then have "\<not> is_whitespace (hd r)"
    unfolding r_def by (rule hd_dropWhile)
  then show "\<not> is_whitespace (last (trim s))"
    by (simp add: t last_rev)
  obtain w where "rev l = w @ r"
    unfolding r_def by (metis takeWhile_dropWhile_id)
  then have w: "l = rev r @ rev w"
    by (metis rev_append rev_rev_ident)
  with r have "l \<noteq> []"
    by simp
  then have "\<not> is_whitespace (hd l)"
    unfolding l_def by (rule hd_dropWhile)
  moreover from w r have "hd (rev r) = hd l"
    by simp
  ultimately show "\<not> is_whitespace (hd (trim s))"
    by (simp add: t)
qed

lemma trim_id:
  assumes "s \<noteq> [] \<Longrightarrow> \<not> is_whitespace (hd s)" and "s \<noteq> [] \<Longrightarrow> \<not> is_whitespace (last s)"
  shows "trim s = s"
proof (cases "s = []")
  case False
  with assms have "dropWhile is_whitespace s = s"
    by (cases s) auto
  moreover from False assms(2) have "dropWhile is_whitespace (rev s) = rev s"
    by (cases s rule: rev_cases) auto
  ultimately show ?thesis
    by (simp add: trim_def)
qed simp

lemma trim_idem [simp]: "trim (trim s) = trim s"
  by (rule trim_id) (auto dest: trim_ends)

text \<open>\<^verbatim>\<open>str::len\<close> counts UTF-8 bytes, not scalar values.\<close>

definition utf8_len :: "nat \<Rightarrow> nat" where
  "utf8_len c = (if c < 128 then 1 else if c < 2048 then 2 else if c < 65536 then 3 else 4)"

definition str_len :: "rstr \<Rightarrow> nat" where
  "str_len s = sum_list (map utf8_len s)"

definition is_ascii_digit :: "nat \<Rightarrow> bool" where
  "is_ascii_digit c \<longleftrightarrow> 48 \<le> c \<and> c \<le> 57"

definition is_ascii_lowercase :: "nat \<Rightarrow> bool" where
  "is_ascii_lowercase c \<longleftrightarrow> 97 \<le> c \<and> c \<le> 122"

text \<open>\<^verbatim>\<open>Display\<close> of an unsigned integer: decimal digits.\<close>

fun show_nat :: "nat \<Rightarrow> rstr" where
  "show_nat n = (if n < 10 then [48 + n] else show_nat (n div 10) @ [48 + n mod 10])"

declare show_nat.simps [simp del]

section \<open>Results\<close>

text \<open>\<^verbatim>\<open>Result<T, E>\<close> is \<open>'e + 'a\<close>: \<open>Inl\<close> for \<^verbatim>\<open>Err\<close>, \<open>Inr\<close> for \<^verbatim>\<open>Ok\<close>.\<close>

type_synonym ('e, 'a) result = "'e + 'a"

text \<open>\<open>and_then r f\<close> is \<open>let x = r?; f(x)\<close>: the first error is the answer.\<close>

fun and_then :: "('e, 'a) result \<Rightarrow> ('a \<Rightarrow> ('e, 'b) result) \<Rightarrow> ('e, 'b) result" where
  "and_then (Inl e) f = Inl e"
| "and_then (Inr x) f = f x"

fun ok_or :: "'e \<Rightarrow> 'a option \<Rightarrow> ('e, 'a) result" where
  "ok_or e None = Inl e"
| "ok_or e (Some x) = Inr x"

fun map_err :: "('e \<Rightarrow> 'f) \<Rightarrow> ('e, 'a) result \<Rightarrow> ('f, 'a) result" where
  "map_err g (Inl e) = Inl (g e)"
| "map_err g (Inr x) = Inr x"

fun ok :: "('e, 'a) result \<Rightarrow> 'a option" where
  "ok (Inl e) = None"
| "ok (Inr x) = Some x"

text \<open>\<open>ensure b e\<close> is the early return \<open>if !b { return Err(e) }\<close>.\<close>

definition ensure :: "bool \<Rightarrow> 'e \<Rightarrow> ('e, unit) result" where
  "ensure b e = (if b then Inr () else Inl e)"

text \<open>\<open>transpose f v\<close> is \<open>v.map(f).transpose()\<close> on an \<^verbatim>\<open>Option\<close>.\<close>

fun transpose_with :: "('a \<Rightarrow> ('e, 'b) result) \<Rightarrow> 'a option \<Rightarrow> ('e, 'b option) result" where
  "transpose_with f None = Inr None"
| "transpose_with f (Some x) = and_then (f x) (\<lambda>y. Inr (Some y))"

text \<open>\<open>collect_map f xs\<close> is \<open>xs.into_iter().map(f).collect::<Result<Vec<_>, _>>()\<close>.\<close>

fun collect_map :: "('a \<Rightarrow> ('e, 'b) result) \<Rightarrow> 'a list \<Rightarrow> ('e, 'b list) result" where
  "collect_map f [] = Inr []"
| "collect_map f (x # xs) = and_then (f x) (\<lambda>y. and_then (collect_map f xs) (\<lambda>ys. Inr (y # ys)))"

lemma and_then_Inr_iff [result_unfold]:
  "and_then r f = Inr y \<longleftrightarrow> (\<exists>x. r = Inr x \<and> f x = Inr y)"
  by (cases r) auto

lemma and_then_Inl_iff:
  "and_then r f = Inl e \<longleftrightarrow> r = Inl e \<or> (\<exists>x. r = Inr x \<and> f x = Inl e)"
  by (cases r) auto

lemma ok_or_Inr_iff [result_unfold]: "ok_or e v = Inr x \<longleftrightarrow> v = Some x"
  by (cases v) auto

lemma ok_or_Inl_iff: "ok_or e v = Inl d \<longleftrightarrow> v = None \<and> d = e"
  by (cases v) auto

lemma map_err_Inr_iff [result_unfold]: "map_err g r = Inr x \<longleftrightarrow> r = Inr x"
  by (cases r) auto

lemma ensure_Inr_iff [result_unfold]: "ensure b e = Inr u \<longleftrightarrow> b"
  by (simp add: ensure_def)

lemma ensure_simps [simp]: "ensure True e = Inr ()" "ensure False e = Inl e"
  by (simp_all add: ensure_def)

lemma ok_eq_Some_iff [simp]: "ok r = Some x \<longleftrightarrow> r = Inr x"
  by (cases r) auto

lemma transpose_with_Inr_iff [result_unfold]:
  "transpose_with f v = Inr w \<longleftrightarrow>
     (case v of None \<Rightarrow> w = None | Some x \<Rightarrow> \<exists>y. f x = Inr y \<and> w = Some y)"
  by (cases v) (auto simp: and_then_Inr_iff)

lemma collect_map_Inr_length: "collect_map f xs = Inr ys \<Longrightarrow> length ys = length xs"
  by (induction xs arbitrary: ys) (auto simp: and_then_Inr_iff)

lemma collect_map_Inr_set:
  "collect_map f xs = Inr ys \<Longrightarrow> y \<in> set ys \<Longrightarrow> \<exists>x\<in>set xs. f x = Inr y"
  by (induction xs arbitrary: ys) (auto simp: and_then_Inr_iff)

end
