(* ===== verification/Wire_Names.thy ===== *)
theory Wire_Names
  imports Prelude
begin

text \<open>
  The closed enumerations of \<^verbatim>\<open>domain/\<close> that travel as text, in JSON and in database
  columns: \<^verbatim>\<open>UserType\<close>, \<^verbatim>\<open>AssetTrackingMode\<close>, \<^verbatim>\<open>InventoryStatus\<close>, \<^verbatim>\<open>BorrowRequestStatus\<close> and
  \<^verbatim>\<open>MediaKind\<close>, each with its printer and its parser. The locale \<open>wire_name\<close> is the contract
  they share: what is printed parses back, and nothing else parses, up to a normalisation
  of the input (\<open>trim\<close> for three of them, none for the other two).
\<close>

section \<open>The contract of a textual enumeration\<close>

locale wire_name =
  fixes as_str :: "'a \<Rightarrow> rstr"
    and parse :: "rstr \<Rightarrow> 'a option"
    and norm :: "rstr \<Rightarrow> rstr"
  assumes parse_iff: "parse s = Some x \<longleftrightarrow> norm s = as_str x"
    and norm_as_str: "norm (as_str x) = as_str x"
begin

lemma parse_as_str: "parse (as_str x) = Some x"
  by (simp add: parse_iff norm_as_str)

lemma as_str_eq_iff: "as_str x = as_str y \<longleftrightarrow> x = y"
  by (metis option.inject parse_as_str)

lemma parse_stable: "parse s = Some x \<Longrightarrow> as_str x = norm s"
  by (simp add: parse_iff)

lemma parse_None_iff: "parse s = None \<longleftrightarrow> (\<forall>x. norm s \<noteq> as_str x)"
  using parse_iff [of s] by (cases "parse s") auto

end

section \<open>User types\<close>

datatype user_type = Root | SuperAdmin | LabAdmin | User | Guest

fun UserType_as_str :: "user_type \<Rightarrow> rstr" where
  "UserType_as_str Root = lit ''root''"
| "UserType_as_str SuperAdmin = lit ''super_admin''"
| "UserType_as_str LabAdmin = lit ''lab_admin''"
| "UserType_as_str User = lit ''user''"
| "UserType_as_str Guest = lit ''guest''"

definition UserType_parse :: "rstr \<Rightarrow> (rstr, user_type) result" where
  "UserType_parse s =
     (if s = lit ''root'' then Inr Root
      else if s = lit ''super_admin'' then Inr SuperAdmin
      else if s = lit ''lab_admin'' then Inr LabAdmin
      else if s = lit ''user'' then Inr User
      else if s = lit ''guest'' then Inr Guest
      else Inl (s @ lit '' is not a valid user type.''))"

interpretation user_type_name: wire_name UserType_as_str "\<lambda>s. ok (UserType_parse s)" "\<lambda>s. s"
proof
  fix s x
  show "ok (UserType_parse s) = Some x \<longleftrightarrow> s = UserType_as_str x"
    by (cases x) (auto simp: UserType_parse_def)
qed simp

section \<open>Tracking modes\<close>

datatype asset_tracking_mode = Serialized | Quantity

fun AssetTrackingMode_as_str :: "asset_tracking_mode \<Rightarrow> rstr" where
  "AssetTrackingMode_as_str Serialized = lit ''serialized''"
| "AssetTrackingMode_as_str Quantity = lit ''quantity''"

definition AssetTrackingMode_parse :: "rstr \<Rightarrow> (rstr, asset_tracking_mode) result" where
  "AssetTrackingMode_parse s =
     (if trim s = lit ''serialized'' then Inr Serialized
      else if trim s = lit ''quantity'' then Inr Quantity
      else Inl (s @ lit '' is not a valid asset tracking mode.''))"

interpretation tracking_mode_name:
  wire_name AssetTrackingMode_as_str "\<lambda>s. ok (AssetTrackingMode_parse s)" trim
proof
  fix s x
  show "ok (AssetTrackingMode_parse s) = Some x \<longleftrightarrow> trim s = AssetTrackingMode_as_str x"
    by (cases x) (auto simp: AssetTrackingMode_parse_def)
  show "trim (AssetTrackingMode_as_str x) = AssetTrackingMode_as_str x"
    by (cases x) (simp_all add: lit_def trim_def is_whitespace_def)
qed

section \<open>Inventory statuses\<close>

datatype inventory_status = Available | Reserved | Borrowed | Retired | Lost | Consumed

fun InventoryStatus_as_str :: "inventory_status \<Rightarrow> rstr" where
  "InventoryStatus_as_str Available = lit ''available''"
| "InventoryStatus_as_str Reserved = lit ''reserved''"
| "InventoryStatus_as_str Borrowed = lit ''borrowed''"
| "InventoryStatus_as_str Retired = lit ''retired''"
| "InventoryStatus_as_str Lost = lit ''lost''"
| "InventoryStatus_as_str Consumed = lit ''consumed''"

definition InventoryStatus_parse :: "rstr \<Rightarrow> (rstr, inventory_status) result" where
  "InventoryStatus_parse s =
     (if trim s = lit ''available'' then Inr Available
      else if trim s = lit ''reserved'' then Inr Reserved
      else if trim s = lit ''borrowed'' then Inr Borrowed
      else if trim s = lit ''retired'' then Inr Retired
      else if trim s = lit ''lost'' then Inr Lost
      else if trim s = lit ''consumed'' then Inr Consumed
      else Inl (s @ lit '' is not a valid asset inventory status.''))"

interpretation inventory_status_name:
  wire_name InventoryStatus_as_str "\<lambda>s. ok (InventoryStatus_parse s)" trim
proof
  fix s x
  show "ok (InventoryStatus_parse s) = Some x \<longleftrightarrow> trim s = InventoryStatus_as_str x"
    by (cases x) (auto simp: InventoryStatus_parse_def)
  show "trim (InventoryStatus_as_str x) = InventoryStatus_as_str x"
    by (cases x) (simp_all add: lit_def trim_def is_whitespace_def)
qed

section \<open>Borrow request statuses\<close>

datatype borrow_request_status = Pending | Approved | Rejected | Cancelled

fun BorrowRequestStatus_as_str :: "borrow_request_status \<Rightarrow> rstr" where
  "BorrowRequestStatus_as_str Pending = lit ''pending''"
| "BorrowRequestStatus_as_str Approved = lit ''approved''"
| "BorrowRequestStatus_as_str Rejected = lit ''rejected''"
| "BorrowRequestStatus_as_str Cancelled = lit ''cancelled''"

definition BorrowRequestStatus_parse :: "rstr \<Rightarrow> (rstr, borrow_request_status) result" where
  "BorrowRequestStatus_parse s =
     (if trim s = lit ''pending'' then Inr Pending
      else if trim s = lit ''approved'' then Inr Approved
      else if trim s = lit ''rejected'' then Inr Rejected
      else if trim s = lit ''cancelled'' then Inr Cancelled
      else Inl (s @ lit '' is not a valid borrow request status.''))"

interpretation borrow_status_name:
  wire_name BorrowRequestStatus_as_str "\<lambda>s. ok (BorrowRequestStatus_parse s)" trim
proof
  fix s x
  show "ok (BorrowRequestStatus_parse s) = Some x \<longleftrightarrow> trim s = BorrowRequestStatus_as_str x"
    by (cases x) (auto simp: BorrowRequestStatus_parse_def)
  show "trim (BorrowRequestStatus_as_str x) = BorrowRequestStatus_as_str x"
    by (cases x) (simp_all add: lit_def trim_def is_whitespace_def)
qed

section \<open>Media kinds\<close>

datatype media_kind = Continuous | DieCut

fun MediaKind_as_str :: "media_kind \<Rightarrow> rstr" where
  "MediaKind_as_str Continuous = lit ''continuous''"
| "MediaKind_as_str DieCut = lit ''die_cut''"

definition MediaKind_parse :: "rstr \<Rightarrow> media_kind option" where
  "MediaKind_parse value =
     (if value = lit ''continuous'' then Some Continuous
      else if value = lit ''die_cut'' then Some DieCut
      else None)"

interpretation media_kind_name: wire_name MediaKind_as_str MediaKind_parse "\<lambda>s. s"
proof
  fix s x
  show "MediaKind_parse s = Some x \<longleftrightarrow> s = MediaKind_as_str x"
    by (cases x) (auto simp: MediaKind_parse_def)
qed simp

end
