(* ===== verification/Label_Media.thy ===== *)
theory Label_Media
  imports Wire_Names
begin

text \<open>
  \<^verbatim>\<open>label_printing/media.rs\<close> and the constants of \<^verbatim>\<open>label_printing/mod.rs\<close>: the label stocks
  the server can lay out and where their printable area sits on the 720-dot print head.
\<close>

section \<open>Constants of the printer\<close>

definition PINS :: u16 where "PINS = 720"
definition BYTES_PER_ROW :: nat where "BYTES_PER_ROW = 90"
definition INVALIDATE_BYTES :: nat where "INVALIDATE_BYTES = 400"
definition MIN_RASTER_LINES :: u32 where "MIN_RASTER_LINES = 150"
definition MAX_RASTER_LINES :: u32 where "MAX_RASTER_LINES = 11811"
definition MIN_PRINTER_PORT :: u16 where "MIN_PRINTER_PORT = 1024"

section \<open>Media specifications\<close>

fun print_information_code :: "media_kind \<Rightarrow> u8" where
  "print_information_code Continuous = 0x0A"
| "print_information_code DieCut = 0x0B"

record media_spec =
  kind :: media_kind
  width_mm :: u8
  length_mm :: u8
  total_width_dots :: u16
  printable_width_dots :: u16
  printable_length_dots :: u16
  right_margin_dots :: u16
  feed_margin_dots :: u16

definition left_offset_dots :: "media_spec \<Rightarrow> u16 \<Rightarrow> u16 option" where
  "left_offset_dots self bitmap_width_dots =
     Option.bind (checked_sub PINS bitmap_width_dots)
       (\<lambda>d. checked_sub d (right_margin_dots self))"

definition feed_margin_for_print :: "media_spec \<Rightarrow> u16" where
  "feed_margin_for_print self =
     (case kind self of Continuous \<Rightarrow> feed_margin_dots self | DieCut \<Rightarrow> 0)"

definition continuous_media :: "u8 \<Rightarrow> u16 \<Rightarrow> u16 \<Rightarrow> u16 \<Rightarrow> media_spec" where
  "continuous_media width total_dots printable right =
     \<lparr>kind = Continuous, width_mm = width, length_mm = 0, total_width_dots = total_dots,
      printable_width_dots = printable, printable_length_dots = 0,
      right_margin_dots = right, feed_margin_dots = 35\<rparr>"

definition die_cut_media :: "u8 \<Rightarrow> u8 \<Rightarrow> u16 \<Rightarrow> u16 \<Rightarrow> u16 \<Rightarrow> u16 \<Rightarrow> media_spec" where
  "die_cut_media width len total_dots printable printable_len right =
     \<lparr>kind = DieCut, width_mm = width, length_mm = len, total_width_dots = total_dots,
      printable_width_dots = printable, printable_length_dots = printable_len,
      right_margin_dots = right, feed_margin_dots = 0\<rparr>"

definition SUPPORTED_MEDIA :: "media_spec list" where
  "SUPPORTED_MEDIA =
     [continuous_media 29 342 306 6,
      continuous_media 38 449 413 12,
      continuous_media 50 590 554 12,
      continuous_media 62 732 696 12,
      die_cut_media 17 54 201 165 566 0,
      die_cut_media 23 23 272 202 202 42,
      die_cut_media 29 90 342 306 991 6,
      die_cut_media 62 29 732 696 271 12,
      die_cut_media 62 100 732 696 1109 12]"

definition lookup_media :: "media_kind \<Rightarrow> u8 \<Rightarrow> u8 option \<Rightarrow> media_spec option" where
  "lookup_media k width len =
     find (\<lambda>spec. kind spec = k \<and> width_mm spec = width \<and>
             (case k of Continuous \<Rightarrow> True | DieCut \<Rightarrow> len = Some (length_mm spec)))
       SUPPORTED_MEDIA"

section \<open>The printable area fits the print head\<close>

text \<open>
  What the encoder relies on: the bitmap's left offset exists, and offset, printable width
  and right margin together span exactly the 720 dots of the head.
\<close>

definition fits_head :: "media_spec \<Rightarrow> bool" where
  "fits_head m \<longleftrightarrow>
     (\<exists>off. left_offset_dots m (printable_width_dots m) = Some off \<and>
        unat off + unat (printable_width_dots m) + unat (right_margin_dots m) = 720)"

lemma supported_media_fits: "\<forall>m\<in>set SUPPORTED_MEDIA. fits_head m"
  by (simp add: SUPPORTED_MEDIA_def fits_head_def continuous_media_def die_cut_media_def
      left_offset_dots_def checked_sub_def PINS_def)

lemma lookup_media_mem: "lookup_media k w l = Some m \<Longrightarrow> m \<in> set SUPPORTED_MEDIA"
  by (auto simp: lookup_media_def find_Some_iff)

lemma lookup_media_fits: "lookup_media k w l = Some m \<Longrightarrow> fits_head m"
  using supported_media_fits lookup_media_mem by blast

lemma fits_headE:
  assumes "fits_head m"
  obtains off where "left_offset_dots m (printable_width_dots m) = Some off"
    and "unat off + unat (printable_width_dots m) \<le> 720"
  using assms by (auto simp: fits_head_def)

end
