(* ===== verification/Label_PackBits.thy ===== *)
theory Label_PackBits
  imports Label_Media
begin

text \<open>
  The PackBits compressor of \<^verbatim>\<open>label_printing/raster.rs\<close>: \<^verbatim>\<open>run_length\<close>, the two nested loops
  of \<^verbatim>\<open>pack_bits\<close>, and the decoder the module's own tests compare it with.
  A \<^verbatim>\<open>usize\<close> index is a \<open>nat\<close>: it never exceeds the length of a slice.
\<close>

section \<open>Definitions\<close>

definition run_length :: "u8 list \<Rightarrow> nat \<Rightarrow> nat" where
  "run_length data index =
     (let v = data ! index in length (takeWhile (\<lambda>b. b = v) (drop index data)))"

text \<open>The inner loop of the literal branch: where the literal that begins at \<open>start\<close> ends.\<close>

function literal_end :: "u8 list \<Rightarrow> nat \<Rightarrow> nat \<Rightarrow> nat" where
  "literal_end data start index =
     (if index < length data \<and> index - start < 128 \<and> run_length data index < 2
      then literal_end data start (Suc index) else index)"
  by pat_completeness auto
termination
  by (relation "measure (\<lambda>(data, start, index). length data - index)") auto

declare literal_end.simps [simp del]

lemma literal_end_ge: "index \<le> literal_end data start index"
proof (induction data start index rule: literal_end.induct)
  case (1 data start index)
  then show ?case
    by (subst literal_end.simps) auto
qed

lemma literal_end_le: "index \<le> length data \<Longrightarrow> literal_end data start index \<le> length data"
proof (induction data start index rule: literal_end.induct)
  case (1 data start index)
  then show ?case
    by (subst literal_end.simps) auto
qed

lemma literal_end_span:
  "start \<le> index \<Longrightarrow> index - start \<le> 128 \<Longrightarrow> literal_end data start index - start \<le> 128"
proof (induction data start index rule: literal_end.induct)
  case (1 data start index)
  then show ?case
    by (subst literal_end.simps) auto
qed

lemma literal_end_progress:
  assumes "index < length data" and "run_length data index < 2"
  shows "index < literal_end data index index"
  using assms literal_end_ge [of "Suc index" data index]
  by (subst literal_end.simps) auto

text \<open>The outer loop, with the output accumulated as the code does.\<close>

function pack_loop :: "u8 list \<Rightarrow> nat \<Rightarrow> u8 list \<Rightarrow> u8 list" where
  "pack_loop data index out =
     (if index < length data then
        (let run = run_length data index in
         if run \<ge> 2 then
           (let take_n = min run 128 in
            pack_loop data (index + take_n) (out @ [word_of_nat (257 - take_n), data ! index]))
         else
           (let stop = literal_end data index index in
            pack_loop data stop
              (out @ [word_of_nat (stop - index - 1)] @ take (stop - index) (drop index data))))
      else out)"
  by pat_completeness auto
termination
proof (relation "measure (\<lambda>(data, index, out). length data - index)", goal_cases)
  case (2 data index out run take_n)
  then show ?case by auto
next
  case (3 data index out run stop)
  then show ?case
    using literal_end_progress [of index data] literal_end_le [of index data index] by auto
qed simp

declare pack_loop.simps [simp del]

definition pack_bits :: "u8 list \<Rightarrow> u8 list" where
  "pack_bits data = pack_loop data 0 []"

text \<open>
  The decoder of the test module. It reads a control byte: 0 to 127 announces that many
  literal bytes plus one, 129 to 255 one byte repeated \<open>257 - control\<close> times, 128 is a no-op.
  Reading past the end panics: \<open>None\<close>.
\<close>

function unpack_bits :: "u8 list \<Rightarrow> u8 list option" where
  "unpack_bits [] = Some []"
| "unpack_bits (control # rest) =
     (if control \<le> 127 then
        (let count = unat control + 1 in
         if count \<le> length rest
         then map_option (\<lambda>out. take count rest @ out) (unpack_bits (drop count rest))
         else None)
      else if control = 128 then unpack_bits rest
      else
        (let count = 257 - unat control in
         case rest of
           [] \<Rightarrow> None
         | b # rest' \<Rightarrow> map_option (\<lambda>out. replicate count b @ out) (unpack_bits rest')))"
  by pat_completeness auto
termination
  by (relation "measure length") auto

declare unpack_bits.simps(2) [simp del]

section \<open>Facts about runs\<close>

lemma run_length_le: "index < length data \<Longrightarrow> run_length data index \<le> length data - index"
  using length_takeWhile_le [of "\<lambda>b. b = data ! index" "drop index data"]
  by (simp add: run_length_def)

lemma take_run:
  assumes "n \<le> run_length data index"
  shows "take n (drop index data) = replicate n (data ! index)"
proof (rule nth_equalityI)
  have n: "n \<le> length (drop index data)"
    using assms length_takeWhile_le [of "\<lambda>b. b = data ! index" "drop index data"]
    by (simp add: run_length_def Let_def)
  then show "length (take n (drop index data)) = length (replicate n (data ! index))"
    by simp
  fix i assume "i < length (take n (drop index data))"
  with assms n have "i < length (takeWhile (\<lambda>b. b = data ! index) (drop index data))" "i < n"
    by (auto simp: run_length_def Let_def)
  then show "take n (drop index data) ! i = replicate n (data ! index) ! i"
    by (metis (mono_tags, lifting) nth_mem nth_replicate nth_take set_takeWhileD takeWhile_nth)
qed

section \<open>Decoding one packet\<close>

lemma unpack_literal:
  assumes "0 < length lit_bytes" and "length lit_bytes \<le> 128"
  shows "unpack_bits (word_of_nat (length lit_bytes - 1) # lit_bytes @ rest) =
     map_option ((@) lit_bytes) (unpack_bits rest)"
proof -
  define c where "c = (word_of_nat (length lit_bytes - 1) :: u8)"
  have u: "unat c = length lit_bytes - 1"
    unfolding c_def using assms by (intro unat_u8) simp
  with assms have "c \<le> 127" and "unat c + 1 = length lit_bytes"
    by (simp_all add: word_le_nat_alt)
  then show ?thesis
    unfolding c_def [symmetric] by (simp add: unpack_bits.simps(2) Let_def)
qed

lemma unpack_run:
  assumes "2 \<le> n" and "n \<le> 128"
  shows "unpack_bits (word_of_nat (257 - n) # b # rest) =
     map_option ((@) (replicate n b)) (unpack_bits rest)"
proof -
  define c where "c = (word_of_nat (257 - n) :: u8)"
  have u: "unat c = 257 - n"
    unfolding c_def using assms by (intro unat_u8) simp
  with assms have "\<not> c \<le> 127" and "c \<noteq> 128" and "257 - unat c = n"
    by (auto simp: word_le_nat_alt)
  then show ?thesis
    unfolding c_def [symmetric] by (simp add: unpack_bits.simps(2) Let_def)
qed

section \<open>The compressor is inverted by the decoder\<close>

text \<open>
  One iteration of the outer loop emits one packet, and the packet decodes to exactly the
  slice of the data the iteration consumed.
\<close>

lemma pack_loop_run:
  assumes "index < length data" and "2 \<le> run_length data index"
  shows "pack_loop data index out =
     pack_loop data (index + min (run_length data index) 128)
       (out @ [word_of_nat (257 - min (run_length data index) 128), data ! index])"
  using assms by (subst pack_loop.simps) (simp add: Let_def)

lemma pack_loop_literal:
  assumes "index < length data" and "run_length data index < 2"
  shows "pack_loop data index out =
     pack_loop data (literal_end data index index)
       (out @ word_of_nat (literal_end data index index - index - 1) #
          take (literal_end data index index - index) (drop index data))"
  using assms by (subst pack_loop.simps) (simp add: Let_def)

lemma drop_split: "drop i xs = take n (drop i xs) @ drop (i + n) xs"
  by (metis append_take_drop_id drop_drop add.commute)

lemma pack_loop_unpack:
  "index \<le> length data \<Longrightarrow>
     \<exists>packed. pack_loop data index out = out @ packed \<and> unpack_bits packed = Some (drop index data)
       \<and> length packed \<le> 2 * (length data - index)"
proof (induction data index out rule: pack_loop.induct)
  case (1 data index out)
  define run where "run = run_length data index"
  define stop where "stop = literal_end data index index"
  consider (at_end) "index = length data"
    | (repeated) "index < length data" "2 \<le> run"
    | (literal) "index < length data" "run < 2"
    using "1.prems" by linarith
  then show ?case
  proof cases
    case at_end
    then show ?thesis by (subst pack_loop.simps) simp
  next
    case repeated
    define t where "t = min run 128"
    have t: "2 \<le> t" "t \<le> 128" "t \<le> run_length data index" "t \<le> length data - index"
      using repeated run_length_le [of index data] by (auto simp: t_def run_def)
    obtain p where p: "pack_loop data (index + t) (out @ [word_of_nat (257 - t), data ! index])
         = (out @ [word_of_nat (257 - t), data ! index]) @ p"
       "unpack_bits p = Some (drop (index + t) data)" "length p \<le> 2 * (length data - (index + t))"
      using "1.IH"(1) [of run t] repeated t unfolding run_def t_def by fastforce
    have "unpack_bits (word_of_nat (257 - t) # data ! index # p)
         = Some (replicate t (data ! index) @ drop (index + t) data)"
      using unpack_run [OF t(1,2), of "data ! index" p] p(2) by simp
    also have "replicate t (data ! index) @ drop (index + t) data = drop index data"
      using drop_split [of index data t] take_run [OF t(3)] by simp
    finally show ?thesis
      using p(1,3) repeated t pack_loop_run [of index data out] by (auto simp: run_def t_def)
  next
    case literal
    define seg where "seg = take (stop - index) (drop index data)"
    have stop: "index < stop" "stop \<le> length data" "stop - index \<le> 128"
      using literal literal_end_progress [of index data] literal_end_le [of index data index]
        literal_end_span [of index index data] by (auto simp: stop_def run_def)
    then have seg: "length seg = stop - index" by (simp add: seg_def)
    obtain p where p: "pack_loop data stop (out @ word_of_nat (stop - index - 1) # seg)
         = (out @ word_of_nat (stop - index - 1) # seg) @ p"
       "unpack_bits p = Some (drop stop data)" "length p \<le> 2 * (length data - stop)"
      using "1.IH"(2) [of run stop] literal stop unfolding run_def stop_def seg_def by fastforce
    have "unpack_bits (word_of_nat (length seg - 1) # seg @ p) = Some (seg @ drop stop data)"
      using p(2) stop seg by (subst unpack_literal) auto
    also have "seg @ drop stop data = drop index data"
      using drop_split [of index data "stop - index"] stop by (simp add: seg_def)
    finally show ?thesis
      using p(1,3) literal stop seg pack_loop_literal [of index data out]
      by (auto simp: run_def stop_def seg_def)
  qed
qed

lemma pack_bits_unpack: "unpack_bits (pack_bits data) = Some data"
  using pack_loop_unpack [of 0 data "[]"] by (auto simp: pack_bits_def)

lemma pack_bits_length: "length (pack_bits data) \<le> 2 * length data"
  using pack_loop_unpack [of 0 data "[]"] by (auto simp: pack_bits_def)

end
