(* ===== verification/Label_Raster.thy ===== *)
theory Label_Raster
  imports Label_PackBits
begin

text \<open>
  The raster command encoder of \<^verbatim>\<open>label_printing/raster.rs\<close>: from validated page bitmaps to
  the byte stream of one print job. Rust's slice and array indexing panics out of range;
  a panic is \<open>None\<close> here, so that its absence is a theorem.
\<close>

definition ESC :: u8 where "ESC = 0x1B"

section \<open>Pages\<close>

record page =
  width_dots :: u16
  height_dots :: u16
  bitmap :: "u8 list"

datatype raster_error =
    NoPages
  | WidthMismatch u16 u16
  | LengthOutOfRange u16
  | BitmapSizeMismatch u16 u16 nat nat

definition row_bytes :: "u16 \<Rightarrow> nat" where
  "row_bytes w = (unat w + 7) div 8"

definition Page_new :: "media_spec \<Rightarrow> u16 \<Rightarrow> u16 \<Rightarrow> u8 list \<Rightarrow> (raster_error, page) result" where
  "Page_new media w h bits =
     (if w \<noteq> printable_width_dots media then Inl (WidthMismatch w (printable_width_dots media))
      else
        (let height = (ucast h :: u32) in
         if \<not> (MIN_RASTER_LINES \<le> height \<and> height \<le> MAX_RASTER_LINES)
         then Inl (LengthOutOfRange h)
         else
           (let expected = row_bytes w * unat h in
            if length bits \<noteq> expected
            then Inl (BitmapSizeMismatch w h expected (length bits))
            else Inr \<lparr>width_dots = w, height_dots = h, bitmap = bits\<rparr>)))"

definition page_row :: "page \<Rightarrow> nat \<Rightarrow> u8 list option" where
  "page_row self index =
     (let stride = row_bytes (width_dots self);
          start = stride * index
      in if start + stride \<le> length (bitmap self)
         then Some (take stride (drop start (bitmap self))) else None)"

section \<open>Placing a row on the print head\<close>

text \<open>One iteration of the loop of \<^verbatim>\<open>blit_row\<close>, and the loop.\<close>

definition blit_dot :: "u8 list \<Rightarrow> u8 list \<Rightarrow> u16 \<Rightarrow> nat \<Rightarrow> u8 list option" where
  "blit_dot line row left_offset x =
     (let source = x in
      if source div 8 < length row then
        (if row ! (source div 8) AND drop_bit (source mod 8) 0x80 = 0 then Some line
         else
           (let target = unat left_offset + source in
            if target div 8 < length line
            then Some (line[target div 8 := line ! (target div 8) OR drop_bit (target mod 8) 0x80])
            else None))
      else None)"

fun blit_dots :: "u8 list \<Rightarrow> u8 list \<Rightarrow> u16 \<Rightarrow> nat list \<Rightarrow> u8 list option" where
  "blit_dots line row left_offset [] = Some line"
| "blit_dots line row left_offset (x # xs) =
     Option.bind (blit_dot line row left_offset x)
       (\<lambda>line'. blit_dots line' row left_offset xs)"

definition blit_row :: "u8 list \<Rightarrow> u8 list \<Rightarrow> u16 \<Rightarrow> u16 \<Rightarrow> u8 list option" where
  "blit_row line row w left_offset = blit_dots line row left_offset [0..<unat w]"

section \<open>Commands\<close>

definition u16_le_bytes :: "u16 \<Rightarrow> u8 list" where
  "u16_le_bytes w = [ucast w, ucast (drop_bit 8 w)]"

definition u32_le_bytes :: "u32 \<Rightarrow> u8 list" where
  "u32_le_bytes w = [ucast w, ucast (drop_bit 8 w), ucast (drop_bit 16 w), ucast (drop_bit 24 w)]"

definition u8_of_bool :: "bool \<Rightarrow> u8" where
  "u8_of_bool b = (if b then 1 else 0)"

definition status_request :: "u8 list" where
  "status_request = [ESC, 0x69, 0x53]"

definition push_preamble :: "u8 list \<Rightarrow> u8 list" where
  "push_preamble out =
     out @ replicate INVALIDATE_BYTES 0 @ [ESC, 0x40] @ [ESC, 0x69, 0x61, 0x01] @ status_request"

definition push_print_information :: "u8 list \<Rightarrow> media_spec \<Rightarrow> page \<Rightarrow> nat \<Rightarrow> u8 list" where
  "push_print_information out media p page_index =
     out @ [ESC, 0x69, 0x7A]
         @ [0x80 OR 0x02 OR 0x04 OR 0x08 OR 0x40]
         @ [print_information_code (kind media)]
         @ [width_mm media]
         @ [length_mm media]
         @ u32_le_bytes (ucast (height_dots p))
         @ [if page_index = 0 then 0 else 1]
         @ [0x00]"

definition push_mode_commands :: "u8 list \<Rightarrow> bool \<Rightarrow> u8 list" where
  "push_mode_commands out auto_cut =
     out @ [ESC, 0x69, 0x4D] @ [push_bit 6 (u8_of_bool auto_cut)]
         @ [ESC, 0x69, 0x41] @ [1]
         @ [ESC, 0x69, 0x4B] @ [push_bit 3 (u8_of_bool auto_cut)]"

definition push_margins :: "u8 list \<Rightarrow> media_spec \<Rightarrow> u8 list" where
  "push_margins out media =
     out @ [ESC, 0x69, 0x64] @ u16_le_bytes (feed_margin_for_print media)"

definition push_compression :: "u8 list \<Rightarrow> u8 list" where
  "push_compression out = out @ [0x4D, 0x02]"

fun push_rows :: "u8 list \<Rightarrow> page \<Rightarrow> u16 \<Rightarrow> nat list \<Rightarrow> u8 list option" where
  "push_rows out p left_offset [] = Some out"
| "push_rows out p left_offset (index # rest) =
     Option.bind (page_row p index) (\<lambda>row.
     Option.bind (blit_row (replicate BYTES_PER_ROW 0) row (width_dots p) left_offset) (\<lambda>line.
       let compressed = pack_bits line in
       push_rows (out @ [0x67, 0x00, word_of_nat (length compressed)] @ compressed)
         p left_offset rest))"

definition push_raster_rows :: "u8 list \<Rightarrow> media_spec \<Rightarrow> page \<Rightarrow> u8 list option" where
  "push_raster_rows out media p =
     (let left_offset = (case left_offset_dots media (width_dots p) of None \<Rightarrow> 0 | Some d \<Rightarrow> d)
      in push_rows out p left_offset [0..<unat (height_dots p)])"

fun push_pages :: "media_spec \<Rightarrow> bool \<Rightarrow> nat \<Rightarrow> u8 list \<Rightarrow> nat \<Rightarrow> page list \<Rightarrow> u8 list option" where
  "push_pages media auto_cut last_index out index [] = Some out"
| "push_pages media auto_cut last_index out index (p # ps) =
     (let out = push_print_information out media p index;
          out = push_mode_commands out auto_cut;
          out = push_margins out media;
          out = push_compression out
      in Option.bind (push_raster_rows out media p) (\<lambda>out.
           push_pages media auto_cut last_index
             (out @ [if index = last_index then 0x1A else 0x0C]) (Suc index) ps))"

definition encode_job ::
    "media_spec \<Rightarrow> bool \<Rightarrow> page list \<Rightarrow> (raster_error, u8 list) result option" where
  "encode_job media auto_cut pages =
     (if pages = [] then Some (Inl NoPages)
      else map_option Inr
        (push_pages media auto_cut (length pages - 1) (push_preamble []) 0 pages))"

section \<open>Dots of a packed row\<close>

text \<open>Dot \<open>x\<close> of a packed row: rows are packed most significant bit first.\<close>

definition dot :: "u8 list \<Rightarrow> nat \<Rightarrow> bool" where
  "dot bs x \<longleftrightarrow> bit (bs ! (x div 8)) (7 - x mod 8)"

definition page_dot :: "page \<Rightarrow> nat \<Rightarrow> nat \<Rightarrow> bool" where
  "page_dot p x y \<longleftrightarrow> dot (drop (row_bytes (width_dots p) * y) (bitmap p)) x"

lemma msb_mask: "k < 8 \<Longrightarrow> drop_bit k (0x80 :: u8) = 2 ^ (7 - k)"
  using drop_bit_exp_eq [of k 7, where 'a = "8 word"] by simp

lemma test_dot:
  "(bs ! (x div 8) AND drop_bit (x mod 8) (0x80 :: u8) = 0) \<longleftrightarrow> \<not> dot bs x"
proof -
  have "drop_bit (x mod 8) (0x80 :: u8) = 2 ^ (7 - x mod 8)"
    by (rule msb_mask) simp
  then show ?thesis
    by (simp only: dot_def and_exp_eq_0_iff_not_bit)
qed

lemma set_dot:
  assumes "t div 8 < length line"
  shows "dot (line[t div 8 := line ! (t div 8) OR drop_bit (t mod 8) 0x80]) y \<longleftrightarrow> y = t \<or> dot line y"
proof -
  have mask: "drop_bit (t mod 8) (0x80 :: u8) = 2 ^ (7 - t mod 8)"
    by (rule msb_mask) simp
  have "t mod 8 < 8" "y mod 8 < 8"
    by simp_all
  then have "7 - t mod 8 = 7 - y mod 8 \<longleftrightarrow> y mod 8 = t mod 8"
    by linarith
  then have "y = t \<longleftrightarrow> y div 8 = t div 8 \<and> 7 - t mod 8 = 7 - y mod 8"
    by (metis div_mult_mod_eq)
  then show ?thesis
    using assms unfolding mask dot_def
    by (cases "y div 8 = t div 8") (auto simp: bit_or_iff bit_exp_iff)
qed

lemma blit_dots_spec:
  assumes "\<forall>x\<in>set xs. x div 8 < length row"
    and "\<forall>x\<in>set xs. (unat off + x) div 8 < length line"
  shows "\<exists>line'. blit_dots line row off xs = Some line' \<and> length line' = length line
     \<and> (\<forall>y. dot line' y \<longleftrightarrow> dot line y \<or> (\<exists>x\<in>set xs. y = unat off + x \<and> dot row x))"
  using assms
proof (induction xs arbitrary: line)
  case (Cons x xs)
  define line1 where "line1 = (if dot row x
     then line[(unat off + x) div 8 := line ! ((unat off + x) div 8) OR drop_bit ((unat off + x) mod 8) 0x80]
     else line)"
  have step: "blit_dot line row off x = Some line1"
    using Cons.prems by (simp add: blit_dot_def Let_def test_dot line1_def)
  have len: "length line1 = length line"
    by (simp add: line1_def)
  have dots: "dot line1 y \<longleftrightarrow> dot line y \<or> (y = unat off + x \<and> dot row x)" for y
    using Cons.prems by (auto simp: line1_def set_dot)
  obtain line' where "blit_dots line1 row off xs = Some line'" "length line' = length line"
      "\<forall>y. dot line' y \<longleftrightarrow> dot line1 y \<or> (\<exists>x\<in>set xs. y = unat off + x \<and> dot row x)"
    using Cons.IH [of line1] Cons.prems len by auto
  then show ?case
    using step dots by auto
qed simp

lemma dot_blank: "x < 8 * n \<Longrightarrow> \<not> dot (replicate n 0) x"
  by (simp add: dot_def)

section \<open>One print-head line\<close>

text \<open>A page that \<^verbatim>\<open>Page::new\<close> accepted for the given stock.\<close>

definition page_for :: "media_spec \<Rightarrow> page \<Rightarrow> bool" where
  "page_for media p \<longleftrightarrow> Page_new media (width_dots p) (height_dots p) (bitmap p) = Inr p"

definition head_line :: "page \<Rightarrow> u16 \<Rightarrow> nat \<Rightarrow> u8 list option" where
  "head_line p off i =
     Option.bind (page_row p i) (\<lambda>row. blit_row (replicate BYTES_PER_ROW 0) row (width_dots p) off)"

lemma page_forD:
  assumes "page_for media p"
  shows "width_dots p = printable_width_dots media"
    and "length (bitmap p) = row_bytes (width_dots p) * unat (height_dots p)"
  using assms by (auto simp: page_for_def Page_new_def Let_def split: if_splits)

lemma page_row_Some:
  assumes "page_for media p" and "i < unat (height_dots p)"
  shows "page_row p i = Some (take (row_bytes (width_dots p))
           (drop (row_bytes (width_dots p) * i) (bitmap p)))" (is ?row)
    and "row_bytes (width_dots p) * i + row_bytes (width_dots p) \<le> length (bitmap p)" (is ?len)
proof -
  have "row_bytes (width_dots p) * Suc i \<le> row_bytes (width_dots p) * unat (height_dots p)"
    using assms(2) by (intro mult_le_mono2) simp
  then show ?len
    using page_forD(2) [OF assms(1)] by simp
  then show ?row
    by (simp add: page_row_def Let_def)
qed

lemma head_line_spec:
  assumes page: "page_for media p" and i: "i < unat (height_dots p)"
    and fit: "unat off + unat (width_dots p) \<le> 720"
  shows "\<exists>line. head_line p off i = Some line \<and> length line = 90 \<and>
     (\<forall>x<720. dot line x \<longleftrightarrow>
        unat off \<le> x \<and> x < unat off + unat (width_dots p) \<and> page_dot p (x - unat off) i)"
proof -
  define w where "w = unat (width_dots p)"
  define stride where "stride = row_bytes (width_dots p)"
  define row where "row = take stride (drop (stride * i) (bitmap p))"
  have row: "page_row p i = Some row" "length row = stride"
    using page_row_Some [OF page i] by (simp_all add: row_def stride_def)
  have "w \<le> 8 * stride"
    unfolding w_def stride_def row_bytes_def by presburger
  then have in_row: "x div 8 < length row" if "x < w" for x
    using that row(2) by simp
  have in_line: "(unat off + x) div 8 < length (replicate 90 (0::u8))" if "x < w" for x
    using that fit by (simp add: w_def)
  obtain line where line: "blit_dots (replicate 90 0) row off [0..<w] = Some line"
      "length line = 90" "\<And>y. dot line y \<longleftrightarrow>
         dot (replicate 90 0) y \<or> (\<exists>x\<in>set [0..<w]. y = unat off + x \<and> dot row x)"
    using blit_dots_spec [of "[0..<w]" row off "replicate 90 0"] in_row in_line by auto
  have "dot row x \<longleftrightarrow> page_dot p x i" if "x < w" for x
    using in_row [OF that] row(2) by (simp add: dot_def page_dot_def row_def stride_def)
  moreover have "\<not> dot (replicate 90 0) x" if "x < 720" for x
    using dot_blank [of x 90] that by simp
  ultimately have "dot line x \<longleftrightarrow> unat off \<le> x \<and> x < unat off + w \<and> page_dot p (x - unat off) i"
    if "x < 720" for x
    using line(3) [of x] that by (auto simp: le_iff_add)
  then show ?thesis
    using row(1) line(1,2) by (auto simp: head_line_def blit_row_def BYTES_PER_ROW_def w_def)
qed

section \<open>What a printer reads from the stream\<close>

text \<open>
  The wire format, read back: \<open>read_rows n\<close> takes \<open>n\<close> compressed raster rows off the front of
  a stream, \<open>read_page\<close> one page with its commands, \<open>read_job\<close> a whole job. They state the
  protocol independently of the encoder; \<open>job_reads_back\<close> ties the two together.
\<close>

record sheet =
  sheet_kind :: u8
  sheet_width :: u8
  sheet_length :: u8
  sheet_height :: nat
  sheet_continuation :: u8
  sheet_cut :: bool
  sheet_margin :: nat
  sheet_lines :: "u8 list list"
  sheet_final :: bool

definition le_value :: "u8 list \<Rightarrow> nat" where
  "le_value bs = foldr (\<lambda>b n. unat b + 256 * n) bs 0"

fun read_rows :: "nat \<Rightarrow> u8 list \<Rightarrow> (u8 list list \<times> u8 list) option" where
  "read_rows 0 bs = Some ([], bs)"
| "read_rows (Suc n) (g # z # len # rest) =
     (if g = 0x67 \<and> z = 0 \<and> unat len \<le> length rest then
        Option.bind (unpack_bits (take (unat len) rest)) (\<lambda>line.
        Option.bind (read_rows n (drop (unat len) rest)) (\<lambda>(lines, rest').
          Some (line # lines, rest')))
      else None)"
| "read_rows (Suc n) _ = None"

definition page_commands_ok :: "u8 list \<Rightarrow> bool" where
  "page_commands_ok bs \<longleftrightarrow> 32 \<le> length bs \<and>
     take 3 bs = [ESC, 0x69, 0x7A] \<and> take 3 (drop 13 bs) = [ESC, 0x69, 0x4D] \<and>
     take 3 (drop 17 bs) = [ESC, 0x69, 0x41] \<and> take 3 (drop 21 bs) = [ESC, 0x69, 0x4B] \<and>
     take 3 (drop 25 bs) = [ESC, 0x69, 0x64] \<and> take 2 (drop 30 bs) = [0x4D, 0x02]"

definition read_page :: "u8 list \<Rightarrow> (sheet \<times> u8 list) option" where
  "read_page bs =
     (if page_commands_ok bs then
        Option.bind (read_rows (le_value (take 4 (drop 7 bs))) (drop 32 bs)) (\<lambda>(lines, rest).
          case rest of
            t # rest' \<Rightarrow>
              if t = 0x1A \<or> t = 0x0C then
                Some (\<lparr>sheet_kind = bs ! 4, sheet_width = bs ! 5, sheet_length = bs ! 6,
                       sheet_height = le_value (take 4 (drop 7 bs)),
                       sheet_continuation = bs ! 11,
                       sheet_cut = (bs ! 16 = 0x40 \<and> bs ! 24 = 0x08),
                       sheet_margin = le_value (take 2 (drop 28 bs)),
                       sheet_lines = lines, sheet_final = (t = 0x1A)\<rparr>, rest')
              else None
          | [] \<Rightarrow> None)
      else None)"

fun read_pages :: "nat \<Rightarrow> u8 list \<Rightarrow> sheet list option" where
  "read_pages 0 bs = (if bs = [] then Some [] else None)"
| "read_pages (Suc n) bs =
     Option.bind (read_page bs) (\<lambda>(s, rest).
       if sheet_final s \<longleftrightarrow> n = 0 then map_option ((#) s) (read_pages n rest) else None)"

definition read_job :: "nat \<Rightarrow> u8 list \<Rightarrow> sheet list option" where
  "read_job n bs =
     (if take 409 bs = push_preamble [] then read_pages n (drop 409 bs) else None)"

section \<open>Reading back the raster rows\<close>

lemma push_rows_read:
  assumes "\<forall>i\<in>set is. \<exists>l. head_line p off i = Some l \<and> length l = 90"
  shows "\<exists>body lines. push_rows out p off is = Some (out @ body)
     \<and> list_all2 (\<lambda>i l. head_line p off i = Some l) is lines
     \<and> (\<forall>rest. read_rows (length is) (body @ rest) = Some (lines, rest))"
  using assms
proof (induction "is" arbitrary: out)
  case (Cons i "is")
  then obtain l where l: "head_line p off i = Some l" "length l = 90"
    by auto
  then obtain row where row: "page_row p i = Some row"
      "blit_row (replicate BYTES_PER_ROW 0) row (width_dots p) off = Some l"
    by (auto simp: head_line_def bind_eq_Some_conv)
  define packed where "packed = pack_bits l"
  have len: "unat (word_of_nat (length packed) :: u8) = length packed"
    using pack_bits_length [of l] l(2) by (intro unat_u8) (simp add: packed_def)
  define cmd where "cmd = [0x67, 0x00, word_of_nat (length packed)] @ packed"
  obtain body lines where rest:
      "push_rows (out @ cmd) p off is = Some ((out @ cmd) @ body)"
      "list_all2 (\<lambda>i l. head_line p off i = Some l) is lines"
      "\<forall>rest. read_rows (length is) (body @ rest) = Some (lines, rest)"
    using Cons.IH [of "out @ cmd"] Cons.prems by (meson list.set_intros(2))
  have "push_rows out p off (i # is) = Some (out @ cmd @ body)"
    using row rest(1) by (simp add: cmd_def packed_def Let_def)
  moreover have "read_rows (length (i # is)) ((cmd @ body) @ more) = Some (l # lines, more)" for more
    using len rest(3) pack_bits_unpack [of l] by (simp add: cmd_def packed_def)
  moreover have "list_all2 (\<lambda>i l. head_line p off i = Some l) (i # is) (l # lines)"
    using l(1) rest(2) by simp
  ultimately show ?case
    by (intro exI [of _ "cmd @ body"] exI [of _ "l # lines"]) simp
qed simp

section \<open>Reading back a page and a job\<close>

lemma le_value_u16: "le_value (u16_le_bytes w) = unat w"
proof -
  have "unat (ucast (drop_bit 8 w) :: u8) = unat w div 256 mod 256"
    by (simp only: unat_ucast_mod unat_drop_bit_div) simp
  moreover have "unat w div 256 < 256"
    using unat_u16_less [of w] by simp
  moreover have "unat (ucast w :: u8) = unat w mod 256"
    by (simp only: unat_ucast_mod) simp
  ultimately show ?thesis
    by (simp add: le_value_def u16_le_bytes_def)
qed

lemma le_value_u32_of_u16: "le_value (u32_le_bytes (ucast (w :: u16))) = unat w"
proof -
  have w: "unat w < 65536"
    by (rule unat_u16_less)
  then have u: "unat w mod 4294967296 = unat w"
    by simp
  have b: "unat (ucast (drop_bit n (ucast w :: u32)) :: u8) = unat w div 2 ^ n mod 256" for n
    by (simp only: unat_ucast_mod unat_drop_bit_div) (simp add: u)
  have b0: "unat (ucast (ucast w :: u32) :: u8) = unat w mod 256"
    by (simp only: unat_ucast_mod) (simp add: u)
  have "unat w div 256 mod 256 = unat w div 256"
    using w by simp
  then show ?thesis
    using w unfolding le_value_def u32_le_bytes_def
    by (simp only: foldr.simps b b0 o_def id_apply) simp
qed

text \<open>The commands in front of a page's rows are 32 bytes in fixed positions.\<close>

definition page_commands :: "media_spec \<Rightarrow> bool \<Rightarrow> page \<Rightarrow> nat \<Rightarrow> u8 list" where
  "page_commands media auto_cut p index =
     push_compression (push_margins
       (push_mode_commands (push_print_information [] media p index) auto_cut) media)"

lemma push_commands:
  "push_compression (push_margins
     (push_mode_commands (push_print_information out media p index) auto_cut) media)
   = out @ page_commands media auto_cut p index"
  by (simp add: page_commands_def push_compression_def push_margins_def push_mode_commands_def
      push_print_information_def)

lemma page_commands_layout:
  "page_commands media auto_cut p index =
     [ESC, 0x69, 0x7A, 0xCE, print_information_code (kind media), width_mm media, length_mm media]
     @ u32_le_bytes (ucast (height_dots p))
     @ [if index = 0 then 0 else 1, 0,
        ESC, 0x69, 0x4D, if auto_cut then 0x40 else 0, ESC, 0x69, 0x41, 1,
        ESC, 0x69, 0x4B, if auto_cut then 0x08 else 0, ESC, 0x69, 0x64]
     @ u16_le_bytes (feed_margin_for_print media) @ [0x4D, 0x02]"
  by (simp add: page_commands_def push_compression_def push_margins_def push_mode_commands_def
      push_print_information_def u8_of_bool_def)

definition sheet_for :: "media_spec \<Rightarrow> bool \<Rightarrow> page \<Rightarrow> nat \<Rightarrow> bool \<Rightarrow> u8 list list \<Rightarrow> sheet" where
  "sheet_for media auto_cut p index final lines =
     \<lparr>sheet_kind = print_information_code (kind media), sheet_width = width_mm media,
      sheet_length = length_mm media, sheet_height = unat (height_dots p),
      sheet_continuation = (if index = 0 then 0 else 1), sheet_cut = auto_cut,
      sheet_margin = unat (feed_margin_for_print media), sheet_lines = lines,
      sheet_final = final\<rparr>"

lemma read_page_commands:
  assumes "read_rows (unat (height_dots p)) rows = Some (lines, t # rest)"
    and "t = (if final then 0x1A else 0x0C)"
  shows "read_page (page_commands media auto_cut p index @ rows) =
     Some (sheet_for media auto_cut p index final lines, rest)"
proof -
  let ?bs = "page_commands media auto_cut p index @ rows"
  have "page_commands_ok ?bs"
    by (simp add: page_commands_ok_def page_commands_layout u32_le_bytes_def u16_le_bytes_def)
  moreover have "take 4 (drop 7 ?bs) = u32_le_bytes (ucast (height_dots p))"
    by (simp add: page_commands_layout u32_le_bytes_def)
  moreover have "take 2 (drop 28 ?bs) = u16_le_bytes (feed_margin_for_print media)"
    by (simp add: page_commands_layout u32_le_bytes_def u16_le_bytes_def)
  moreover have "drop 32 ?bs = rows" "?bs ! 4 = print_information_code (kind media)"
      "?bs ! 5 = width_mm media" "?bs ! 6 = length_mm media" "?bs ! 11 = (if index = 0 then 0 else 1)"
      "?bs ! 16 = (if auto_cut then 0x40 else 0)" "?bs ! 24 = (if auto_cut then 0x08 else 0)"
    by (simp_all add: page_commands_layout u32_le_bytes_def u16_le_bytes_def)
  ultimately show ?thesis
    using assms by (simp add: read_page_def le_value_u16 le_value_u32_of_u16 sheet_for_def)
qed

text \<open>What a sheet must show of its page: the settings, and every dot of every line.\<close>

definition sheet_shows :: "media_spec \<Rightarrow> bool \<Rightarrow> u16 \<Rightarrow> page \<Rightarrow> nat \<Rightarrow> bool \<Rightarrow> sheet \<Rightarrow> bool" where
  "sheet_shows media auto_cut off p index final s \<longleftrightarrow>
     (\<exists>lines. s = sheet_for media auto_cut p index final lines \<and> length lines = unat (height_dots p) \<and>
       (\<forall>y<unat (height_dots p). length (lines ! y) = 90 \<and>
          (\<forall>x<720. dot (lines ! y) x \<longleftrightarrow>
             unat off \<le> x \<and> x < unat off + unat (width_dots p) \<and> page_dot p (x - unat off) y)))"

lemma push_page_read:
  assumes page: "page_for media p"
    and off: "left_offset_dots media (width_dots p) = Some off"
    and fit: "unat off + unat (width_dots p) \<le> 720"
  shows "\<exists>body s. push_raster_rows out media p = Some (out @ body)
     \<and> sheet_shows media auto_cut off p index final s
     \<and> (\<forall>rest. read_page (page_commands media auto_cut p index @ body @
             (if final then 0x1A else 0x0C) # rest) = Some (s, rest))"
proof -
  define h where "h = unat (height_dots p)"
  have spec: "\<exists>line. head_line p off i = Some line \<and> length line = 90 \<and>
     (\<forall>x<720. dot line x \<longleftrightarrow>
        unat off \<le> x \<and> x < unat off + unat (width_dots p) \<and> page_dot p (x - unat off) i)"
    if "i < h" for i
    using head_line_spec [OF page _ fit] that by (simp add: h_def)
  then have "\<forall>i\<in>set [0..<h]. \<exists>l. head_line p off i = Some l \<and> length l = 90"
    by fastforce
  then obtain body lines where push: "push_rows out p off [0..<h] = Some (out @ body)"
      and ls: "list_all2 (\<lambda>i l. head_line p off i = Some l) [0..<h] lines"
      and read: "\<And>rest. read_rows (length [0..<h]) (body @ rest) = Some (lines, rest)"
    using push_rows_read [of "[0..<h]" p off out] by blast
  have len: "length lines = h"
    using list_all2_lengthD [OF ls] by simp
  have "length (lines ! y) = 90 \<and> (\<forall>x<720. dot (lines ! y) x \<longleftrightarrow>
        unat off \<le> x \<and> x < unat off + unat (width_dots p) \<and> page_dot p (x - unat off) y)"
    if "y < h" for y
    using spec [OF that] list_all2_nthD [OF ls, of y] that by auto
  then have "sheet_shows media auto_cut off p index final
      (sheet_for media auto_cut p index final lines)"
    unfolding sheet_shows_def using len by (intro exI [of _ lines]) (simp add: h_def)
  moreover have "read_page (page_commands media auto_cut p index @ body @
      (if final then 0x1A else 0x0C) # rest) = Some (sheet_for media auto_cut p index final lines, rest)"
    for rest
    by (rule read_page_commands) (use read in \<open>simp_all add: h_def\<close>)
  ultimately show ?thesis
    using push off by (auto simp: push_raster_rows_def h_def)
qed

lemma push_pages_read:
  assumes "\<forall>p\<in>set ps. page_for media p"
    and off: "left_offset_dots media (printable_width_dots media) = Some off"
    and fit: "unat off + unat (printable_width_dots media) \<le> 720"
    and "last_index + 1 = index + length ps"
  shows "\<exists>body sheets. push_pages media auto_cut last_index out index ps = Some (out @ body)
     \<and> read_pages (length ps) body = Some sheets \<and> length sheets = length ps
     \<and> (\<forall>i<length ps. sheet_shows media auto_cut off (ps ! i) (index + i)
           (index + i = last_index) (sheets ! i))"
  using assms(1,4)
proof (induction ps arbitrary: out index)
  case (Cons p ps)
  define final where "final \<longleftrightarrow> index = last_index"
  define t where "t = (if final then 0x1A else 0x0C :: u8)"
  have w: "width_dots p = printable_width_dots media" and page: "page_for media p"
    using Cons.prems page_forD by auto
  obtain body s where page_body:
      "push_raster_rows (out @ page_commands media auto_cut p index) media p
         = Some ((out @ page_commands media auto_cut p index) @ body)"
      "sheet_shows media auto_cut off p index final s"
      "\<And>rest. read_page (page_commands media auto_cut p index @ body @ t # rest) = Some (s, rest)"
    using push_page_read [OF page off [folded w] fit [folded w],
        of "out @ page_commands media auto_cut p index" auto_cut index final]
    unfolding t_def by blast
  define front where "front = page_commands media auto_cut p index @ body @ [t]"
  obtain more sheets where tail:
      "push_pages media auto_cut last_index (out @ front) (Suc index) ps = Some ((out @ front) @ more)"
      "read_pages (length ps) more = Some sheets" "length sheets = length ps"
      "\<forall>i<length ps. sheet_shows media auto_cut off (ps ! i) (Suc index + i)
           (Suc index + i = last_index) (sheets ! i)"
    using Cons.IH [of "Suc index" "out @ front"] Cons.prems by auto
  have "push_pages media auto_cut last_index out index (p # ps) = Some (out @ front @ more)"
    using page_body(1) tail(1) by (simp add: push_commands Let_def front_def t_def final_def)
  moreover have "sheet_final s \<longleftrightarrow> length ps = 0"
    using page_body(2) Cons.prems(2) by (auto simp: sheet_shows_def sheet_for_def final_def)
  then have "read_pages (length (p # ps)) (front @ more) = Some (s # sheets)"
    using page_body(3) tail(2) by (simp add: front_def)
  moreover have "\<forall>i<length (p # ps). sheet_shows media auto_cut off ((p # ps) ! i) (index + i)
      (index + i = last_index) ((s # sheets) ! i)"
    using page_body(2) tail(4) by (auto simp: less_Suc_eq_0_disj final_def)
  ultimately show ?case
    using tail(3) by (intro exI [of _ "front @ more"] exI [of _ "s # sheets"]) simp
qed simp

lemma encode_job_reads_back:
  assumes "fits_head media" and "pages \<noteq> []" and "\<forall>p\<in>set pages. page_for media p"
  shows "\<exists>off job sheets. left_offset_dots media (printable_width_dots media) = Some off
     \<and> encode_job media auto_cut pages = Some (Inr job)
     \<and> read_job (length pages) job = Some sheets \<and> length sheets = length pages
     \<and> (\<forall>i<length pages. sheet_shows media auto_cut off (pages ! i) i
           (i = length pages - 1) (sheets ! i))"
proof -
  obtain off where off: "left_offset_dots media (printable_width_dots media) = Some off"
      "unat off + unat (printable_width_dots media) \<le> 720"
    using assms(1) by (rule fits_headE)
  obtain body sheets where body:
      "push_pages media auto_cut (length pages - 1) (push_preamble []) 0 pages
         = Some (push_preamble [] @ body)"
      "read_pages (length pages) body = Some sheets" "length sheets = length pages"
      "\<forall>i<length pages. sheet_shows media auto_cut off (pages ! i) i
           (i = length pages - 1) (sheets ! i)"
    using push_pages_read [OF assms(3) off, of "length pages - 1" 0 auto_cut "push_preamble []"] assms(2)
    by auto
  have "length (push_preamble []) = 409"
    by (simp add: push_preamble_def INVALIDATE_BYTES_def status_request_def)
  then have "read_job (length pages) (push_preamble [] @ body) = Some sheets"
    using body(2) by (simp add: read_job_def)
  then show ?thesis
    using off(1) body assms(2) by (auto simp: encode_job_def)
qed

end
