(* ===== verification/Label_Status.thy ===== *)
theory Label_Status
  imports Label_Media
begin

text \<open>
  \<^verbatim>\<open>label_printing/status.rs\<close>: the 32-byte status block a printer reports, its faults, and
  the test whether the loaded stock is the one a job was laid out for.
\<close>

section \<open>Faults\<close>

definition STATUS_BLOCK_LEN :: nat where "STATUS_BLOCK_LEN = 32"
definition OFFSET_ERROR_1 :: nat where "OFFSET_ERROR_1 = 8"
definition OFFSET_ERROR_2 :: nat where "OFFSET_ERROR_2 = 9"
definition OFFSET_MEDIA_WIDTH :: nat where "OFFSET_MEDIA_WIDTH = 10"
definition OFFSET_MEDIA_TYPE :: nat where "OFFSET_MEDIA_TYPE = 11"
definition OFFSET_MEDIA_LENGTH :: nat where "OFFSET_MEDIA_LENGTH = 17"

lemmas status_offsets = STATUS_BLOCK_LEN_def OFFSET_ERROR_1_def OFFSET_ERROR_2_def
  OFFSET_MEDIA_WIDTH_def OFFSET_MEDIA_TYPE_def OFFSET_MEDIA_LENGTH_def

datatype status_error = TooShort nat

datatype printer_fault =
    NoMedia | EndOfMedia | CutterJam | MainUnitInUse | PrinterTurnedOff | HighVoltageAdapter
  | FanError | ReplaceMedia | ExpansionBufferFull | CommunicationError
  | CommunicationBufferFull | CoverOpen | CancelKey | CannotFeedMedia | SystemError

definition ERROR_1_FAULTS :: "(nat \<times> printer_fault) list" where
  "ERROR_1_FAULTS =
     [(0, NoMedia), (1, EndOfMedia), (2, CutterJam), (4, MainUnitInUse),
      (5, PrinterTurnedOff), (6, HighVoltageAdapter), (7, FanError)]"

definition ERROR_2_FAULTS :: "(nat \<times> printer_fault) list" where
  "ERROR_2_FAULTS =
     [(0, ReplaceMedia), (1, ExpansionBufferFull), (2, CommunicationError),
      (3, CommunicationBufferFull), (4, CoverOpen), (5, CancelKey),
      (6, CannotFeedMedia), (7, SystemError)]"

fun collect_faults :: "u8 \<Rightarrow> (nat \<times> printer_fault) list \<Rightarrow> printer_fault list \<Rightarrow> printer_fault list" where
  "collect_faults byte [] out = out"
| "collect_faults byte ((bit_no, fault) # table) out =
     collect_faults byte table
       (if byte AND push_bit bit_no 1 \<noteq> 0 then out @ [fault] else out)"

section \<open>The status block\<close>

record printer_status =
  status_media_kind :: "rstr option"
  status_media_width_mm :: u8
  status_media_length_mm :: u8
  faults :: "printer_fault list"

definition PrinterStatus_parse :: "u8 list \<Rightarrow> (status_error, printer_status) result" where
  "PrinterStatus_parse block =
     (if length block < STATUS_BLOCK_LEN then Inl (TooShort (length block))
      else
        (let m = (if block ! OFFSET_MEDIA_TYPE = 0x0A then Some Continuous
                  else if block ! OFFSET_MEDIA_TYPE = 0x0B then Some DieCut
                  else None);
             fs = collect_faults (block ! OFFSET_ERROR_1) ERROR_1_FAULTS [];
             fs = collect_faults (block ! OFFSET_ERROR_2) ERROR_2_FAULTS fs
         in Inr \<lparr>status_media_kind = map_option MediaKind_as_str m,
                 status_media_width_mm = block ! OFFSET_MEDIA_WIDTH,
                 status_media_length_mm = block ! OFFSET_MEDIA_LENGTH,
                 faults = fs\<rparr>))"

definition status_matches :: "printer_status \<Rightarrow> media_spec \<Rightarrow> bool" where
  "status_matches self spec =
     (if status_media_kind self \<noteq> Some (MediaKind_as_str (kind spec)) then False
      else if status_media_width_mm self \<noteq> width_mm spec then False
      else (case kind spec of
              Continuous \<Rightarrow> True
            | DieCut \<Rightarrow> status_media_length_mm self = length_mm spec))"

definition is_ready :: "printer_status \<Rightarrow> bool" where
  "is_ready self \<longleftrightarrow> faults self = []"

section \<open>What the block means\<close>

lemma test_bit_mask: "(w AND push_bit n (1 :: u8) \<noteq> 0) \<longleftrightarrow> bit w n"
  by (simp add: push_bit_eq_mult and_exp_eq_0_iff_not_bit)

lemma collect_faults_eq:
  "collect_faults byte table out = out @ map snd (filter (\<lambda>(n, f). bit byte n) table)"
  by (induction byte table out rule: collect_faults.induct)
    (auto simp only: collect_faults.simps test_bit_mask, auto)

lemma PrinterStatus_parse_faults:
  assumes "PrinterStatus_parse block = Inr st"
  shows "faults st = map snd (filter (\<lambda>(n, f). bit (block ! 8) n) ERROR_1_FAULTS)
           @ map snd (filter (\<lambda>(n, f). bit (block ! 9) n) ERROR_2_FAULTS)"
  using assms by (auto simp: PrinterStatus_parse_def collect_faults_eq status_offsets Let_def
      split: if_splits)

text \<open>A printer is ready exactly when no assigned error bit is set; bit 3 of the first byte is not assigned.\<close>

lemma PrinterStatus_parse_ready:
  assumes "PrinterStatus_parse block = Inr st"
  shows "is_ready st \<longleftrightarrow>
     (\<forall>n<8. n \<noteq> 3 \<longrightarrow> \<not> bit (block ! 8) n) \<and> (\<forall>n<8. \<not> bit (block ! 9) n)"
proof -
  have all8: "(\<forall>n<8. P n) \<longleftrightarrow> list_all P [0, 1, 2, 3, 4, 5, 6, 7]" for P :: "nat \<Rightarrow> bool"
  proof -
    have "(\<forall>n<8. P n) \<longleftrightarrow> list_all P [0..<8]"
      by (auto simp: list_all_iff)
    also have "[0..<8] = [0, 1, 2, 3, 4, 5, 6, 7 :: nat]"
      by (simp add: upt_rec)
    finally show ?thesis .
  qed
  show ?thesis
    unfolding all8
    by (simp add: is_ready_def PrinterStatus_parse_faults [OF assms] filter_empty_conv
        ERROR_1_FAULTS_def ERROR_2_FAULTS_def)
qed

lemma PrinterStatus_parse_matches:
  assumes "PrinterStatus_parse block = Inr st"
  shows "status_matches st spec \<longleftrightarrow>
     block ! 11 = print_information_code (kind spec) \<and> block ! 10 = width_mm spec
     \<and> (kind spec = DieCut \<longrightarrow> block ! 17 = length_mm spec)"
  using assms
  by (cases "kind spec")
    (auto simp: PrinterStatus_parse_def status_matches_def status_offsets Let_def split: if_splits)

end
