(* ===== verification/Label_Transport.thy ===== *)
theory Label_Transport
  imports Label_Raster Label_Status
begin

text \<open>
  \<^verbatim>\<open>label_printing/transport.rs\<close>: the address policy, name resolution, connecting, and the
  two exchanges of a printer session. The resolver and the sockets are outside the
  program: a \<open>network\<close> record of outcomes is a parameter of every definition that uses them.
\<close>

section \<open>Addresses\<close>

text \<open>\<^verbatim>\<open>std::net::IpAddr\<close>, as the numeric value of the address.\<close>

datatype ip_addr = V4 u32 | V6 "128 word"

text \<open>The classification methods of \<^verbatim>\<open>std::net::Ipv4Addr\<close> and \<^verbatim>\<open>Ipv6Addr\<close> that the policy uses.\<close>

definition v4_is_loopback :: "u32 \<Rightarrow> bool" where
  "v4_is_loopback a \<longleftrightarrow> drop_bit 24 a = 127"

definition v4_is_link_local :: "u32 \<Rightarrow> bool" where
  "v4_is_link_local a \<longleftrightarrow> drop_bit 16 a = 0xA9FE"

definition v4_is_multicast :: "u32 \<Rightarrow> bool" where
  "v4_is_multicast a \<longleftrightarrow> 224 \<le> drop_bit 24 a \<and> drop_bit 24 a \<le> 239"

definition v4_is_documentation :: "u32 \<Rightarrow> bool" where
  "v4_is_documentation a \<longleftrightarrow>
     drop_bit 8 a = 0xC00002 \<or> drop_bit 8 a = 0xC63364 \<or> drop_bit 8 a = 0xCB0071"

definition v6_to_ipv4_mapped :: "128 word \<Rightarrow> u32 option" where
  "v6_to_ipv4_mapped a = (if drop_bit 32 a = 0xFFFF then Some (ucast a) else None)"

definition v6_segment0 :: "128 word \<Rightarrow> 128 word" where
  "v6_segment0 a = drop_bit 112 a"

fun ip_is_loopback :: "ip_addr \<Rightarrow> bool" where
  "ip_is_loopback (V4 a) = v4_is_loopback a"
| "ip_is_loopback (V6 a) = (a = 1)"

definition is_blocked_v4 :: "u32 \<Rightarrow> bool" where
  "is_blocked_v4 a \<longleftrightarrow>
     v4_is_loopback a \<or> v4_is_link_local a \<or> a = 0 \<or> a = 0xFFFFFFFF
     \<or> v4_is_multicast a \<or> v4_is_documentation a"

definition is_blocked_v6 :: "128 word \<Rightarrow> bool" where
  "is_blocked_v6 a \<longleftrightarrow>
     (let link_local = (v6_segment0 a AND 0xFFC0 = 0xFE80)
      in a = 1 \<or> a = 0 \<or> v6_segment0 a AND 0xFF00 = 0xFF00 \<or> link_local)"

section \<open>Policy and errors\<close>

record address_policy =
  allow_loopback :: bool

definition STRICT :: address_policy where "STRICT = \<lparr>allow_loopback = False\<rparr>"
definition PERMISSIVE :: address_policy where "PERMISSIVE = \<lparr>allow_loopback = True\<rparr>"

record printer_endpoint =
  host :: rstr
  port :: u16

datatype 'io transport_error =
    BlockedAddress ip_addr
  | BlockedPort u16
  | Unresolvable rstr
  | Unreachable printer_endpoint 'io
  | Io 'io
  | Timeout
  | Status status_error

definition validate_printer_ip ::
    "ip_addr \<Rightarrow> address_policy \<Rightarrow> ('io transport_error, unit) result" where
  "validate_printer_ip address policy =
     (if allow_loopback policy \<and> ip_is_loopback address then Inr ()
      else
        (let blocked = (case address of
             V4 v4 \<Rightarrow> is_blocked_v4 v4
           | V6 v6 \<Rightarrow> (case v6_to_ipv4_mapped v6 of
                 Some mapped \<Rightarrow> is_blocked_v4 mapped
               | None \<Rightarrow> is_blocked_v6 v6))
         in if blocked then Inl (BlockedAddress address) else Inr ()))"

section \<open>The network\<close>

datatype ('io, 'a) io_outcome = IoOk 'a | IoErr 'io | IoTimeout

text \<open>
  \<open>lookup_host\<close> is \<^verbatim>\<open>tokio::net::lookup_host\<close> (\<open>None\<close> for a resolver error), \<open>tcp_connect\<close>
  a connection attempt under its timeout. \<open>tcp_write\<close> and \<open>tcp_read_exact\<close> are asked with
  the payloads the session has written before, so the peer may react to them.
\<close>

record 'io network =
  lookup_host :: "rstr \<Rightarrow> u16 \<Rightarrow> (ip_addr \<times> u16) list option"
  tcp_connect :: "ip_addr \<times> u16 \<Rightarrow> ('io, unit) io_outcome"
  tcp_write :: "ip_addr \<times> u16 \<Rightarrow> u8 list list \<Rightarrow> u8 list \<Rightarrow> ('io, unit) io_outcome"
  tcp_read_exact :: "ip_addr \<times> u16 \<Rightarrow> u8 list list \<Rightarrow> nat \<Rightarrow> ('io, u8 list) io_outcome"

fun validate_all ::
    "(ip_addr \<times> u16) list \<Rightarrow> address_policy \<Rightarrow> ('io transport_error, unit) result" where
  "validate_all [] policy = Inr ()"
| "validate_all (a # as) policy =
     and_then (validate_printer_ip (fst a) policy) (\<lambda>_. validate_all as policy)"

definition resolve ::
    "'io network \<Rightarrow> printer_endpoint \<Rightarrow> address_policy
       \<Rightarrow> ('io transport_error, (ip_addr \<times> u16) list) result" where
  "resolve net endpoint policy =
     (if port endpoint < MIN_PRINTER_PORT then Inl (BlockedPort (port endpoint))
      else
        and_then (ok_or (Unresolvable (host endpoint)) (lookup_host net (host endpoint) (port endpoint)))
          (\<lambda>addresses.
            if addresses = [] then Inl (Unresolvable (host endpoint))
            else and_then (validate_all addresses policy) (\<lambda>_. Inr addresses)))"

fun connect_loop ::
    "'io network \<Rightarrow> printer_endpoint \<Rightarrow> (ip_addr \<times> u16) list \<Rightarrow> 'io option
       \<Rightarrow> ('io transport_error, ip_addr \<times> u16) result" where
  "connect_loop net endpoint [] last_error =
     (case last_error of Some source \<Rightarrow> Inl (Unreachable endpoint source) | None \<Rightarrow> Inl Timeout)"
| "connect_loop net endpoint (address # rest) last_error =
     (case tcp_connect net address of
        IoOk _ \<Rightarrow> Inr address
      | IoErr e \<Rightarrow> connect_loop net endpoint rest (Some e)
      | IoTimeout \<Rightarrow> connect_loop net endpoint rest None)"

definition connect ::
    "'io network \<Rightarrow> printer_endpoint \<Rightarrow> address_policy
       \<Rightarrow> ('io transport_error, ip_addr \<times> u16) result" where
  "connect net endpoint policy =
     and_then (resolve net endpoint policy) (\<lambda>addresses. connect_loop net endpoint addresses None)"

section \<open>A session\<close>

text \<open>
  A session is its peer and the payloads written so far. A failed write still counts as
  written: part of it may have reached the peer.
\<close>

record connection =
  peer :: "ip_addr \<times> u16"
  sent :: "u8 list list"

definition open_session ::
    "'io network \<Rightarrow> printer_endpoint \<Rightarrow> address_policy \<Rightarrow> ('io transport_error, connection) result" where
  "open_session net endpoint policy =
     and_then (connect net endpoint policy) (\<lambda>address. Inr \<lparr>peer = address, sent = []\<rparr>)"

definition session_write ::
    "'io network \<Rightarrow> connection \<Rightarrow> u8 list \<Rightarrow> ('io transport_error, unit) result \<times> connection" where
  "session_write net c payload =
     ((case tcp_write net (peer c) (sent c) payload of
         IoOk _ \<Rightarrow> Inr () | IoErr e \<Rightarrow> Inl (Io e) | IoTimeout \<Rightarrow> Inl Timeout),
      c\<lparr>sent := sent c @ [payload]\<rparr>)"

definition status_request_bytes :: "u8 list" where
  "status_request_bytes = replicate INVALIDATE_BYTES 0 @ [0x1B, 0x40] @ status_request"

definition request_status ::
    "'io network \<Rightarrow> connection \<Rightarrow> ('io transport_error, printer_status) result \<times> connection" where
  "request_status net c =
     (case session_write net c status_request_bytes of
        (Inl e, c') \<Rightarrow> (Inl e, c')
      | (Inr _, c') \<Rightarrow>
          ((case tcp_read_exact net (peer c') (sent c') STATUS_BLOCK_LEN of
              IoErr e \<Rightarrow> Inl (Io e)
            | IoTimeout \<Rightarrow> Inl Timeout
            | IoOk block \<Rightarrow> map_err Status (PrinterStatus_parse block)), c'))"

definition write_job ::
    "'io network \<Rightarrow> connection \<Rightarrow> u8 list \<Rightarrow> ('io transport_error, unit) result \<times> connection" where
  "write_job net c payload = session_write net c payload"

section \<open>No session reaches a forbidden address\<close>

definition allowed_ip :: "address_policy \<Rightarrow> ip_addr \<Rightarrow> bool" where
  "allowed_ip policy a \<longleftrightarrow> validate_printer_ip a policy = (Inr () :: (unit transport_error, unit) result)"

lemma validate_printer_ip_cases:
  "validate_printer_ip a policy =
     (if allowed_ip policy a then Inr () else Inl (BlockedAddress a))"
  by (simp add: allowed_ip_def validate_printer_ip_def Let_def)

lemma validate_all_Inr_iff:
  "validate_all as policy = Inr u \<longleftrightarrow> (\<forall>a\<in>set as. allowed_ip policy (fst a))"
  by (induction as policy rule: validate_all.induct)
    (auto simp: validate_printer_ip_cases and_then_Inr_iff split: if_splits)

lemma validate_all_Inl:
  "validate_all as policy = Inl e \<Longrightarrow>
     \<exists>a\<in>set as. \<not> allowed_ip policy (fst a) \<and> e = BlockedAddress (fst a)"
  by (induction as policy rule: validate_all.induct)
    (auto simp: validate_printer_ip_cases and_then_Inl_iff split: if_splits)

lemma resolve_Inr_iff:
  "resolve net endpoint policy = Inr as \<longleftrightarrow>
     MIN_PRINTER_PORT \<le> port endpoint \<and> lookup_host net (host endpoint) (port endpoint) = Some as
     \<and> as \<noteq> [] \<and> (\<forall>a\<in>set as. allowed_ip policy (fst a))"
  by (auto simp: resolve_def result_unfold validate_all_Inr_iff not_less split: if_splits)

lemma connect_loop_Inr: "connect_loop net endpoint as e = Inr a \<Longrightarrow> a \<in> set as"
  by (induction net endpoint as e rule: connect_loop.induct)
    (auto split: io_outcome.splits option.splits)

lemma open_session_Inr:
  assumes "open_session net endpoint policy = Inr c"
  shows "sent c = []" and "allowed_ip policy (fst (peer c))" and "MIN_PRINTER_PORT \<le> port endpoint"
    and "\<exists>as. lookup_host net (host endpoint) (port endpoint) = Some as \<and> peer c \<in> set as
           \<and> (\<forall>a\<in>set as. allowed_ip policy (fst a))"
proof -
  obtain as where as: "resolve net endpoint policy = Inr as"
      "connect_loop net endpoint as None = Inr (peer c)" "sent c = []"
    using assms by (auto simp: open_session_def connect_def result_unfold)
  then show "sent c = []" by simp
  from as(2) have "peer c \<in> set as" by (rule connect_loop_Inr)
  with as(1) show "allowed_ip policy (fst (peer c))" "MIN_PRINTER_PORT \<le> port endpoint"
    "\<exists>as. lookup_host net (host endpoint) (port endpoint) = Some as \<and> peer c \<in> set as
       \<and> (\<forall>a\<in>set as. allowed_ip policy (fst a))"
    by (auto simp: resolve_Inr_iff)
qed

end
