(* ===== verification/Label_Print.thy ===== *)
theory Label_Print
  imports Label_Transport
begin

text \<open>
  From a print request to the wire: the stock a printer is configured for
  (\<^verbatim>\<open>domain/label_printer_media.rs\<close>), the page expansion and readiness check of
  \<^verbatim>\<open>routes/label_printers/service.rs\<close>, and the order in which \<^verbatim>\<open>print_labels\<close> runs them over
  one connection.
\<close>

section \<open>Configured stock\<close>

text \<open>\<^verbatim>\<open>u8::try_from\<close> on an \<^verbatim>\<open>i32\<close>.\<close>

definition u8_try_from :: "int \<Rightarrow> u8 option" where
  "u8_try_from v = (if 0 \<le> v \<and> v < 256 then Some (word_of_int v) else None)"

definition show_int :: "int \<Rightarrow> rstr" where
  "show_int v = (if v < 0 then lit ''-'' @ show_nat (nat (- v)) else show_nat (nat v))"

definition LabelPrinterMedia_parse :: "rstr \<Rightarrow> int \<Rightarrow> int option \<Rightarrow> (rstr, media_spec) result" where
  "LabelPrinterMedia_parse kind_str width len =
     and_then (ok_or (kind_str @ lit '' is not a supported label media kind.'') (MediaKind_parse kind_str))
       (\<lambda>k.
     and_then (ok_or (show_int width @ lit ''mm is not a supported label width.'') (u8_try_from width))
       (\<lambda>w.
     and_then (transpose_with
         (\<lambda>v. ok_or (show_int v @ lit ''mm is not a supported label length.'') (u8_try_from v)) len)
       (\<lambda>l.
     and_then (case (k, l) of
         (Continuous, Some _) \<Rightarrow> Inl (lit ''Continuous label stock has no fixed length.'')
       | (DieCut, None) \<Rightarrow> Inl (lit ''Die-cut label stock requires a length.'')
       | _ \<Rightarrow> Inr ())
       (\<lambda>_.
     ok_or (case l of
         Some n \<Rightarrow> show_nat (unat w) @ lit ''x'' @ show_nat (unat n) @ lit ''mm die-cut labels are not supported.''
       | None \<Rightarrow> show_nat (unat w) @ lit ''mm continuous labels are not supported.'')
       (lookup_media k w l)))))"

definition media_length :: "media_spec \<Rightarrow> u8 option" where
  "media_length spec = (case kind spec of Continuous \<Rightarrow> None | DieCut \<Rightarrow> Some (length_mm spec))"

section \<open>Errors of a print\<close>

datatype 'io print_error =
    Validation rstr
  | RasterValidation raster_error
  | MediaMismatch rstr rstr
  | NotReady "printer_fault list"
  | Transport "'io transport_error"

definition describe_loaded :: "printer_status \<Rightarrow> rstr" where
  "describe_loaded status =
     (case status_media_kind status of
        None \<Rightarrow> lit ''no label stock''
      | Some k \<Rightarrow>
          if status_media_length_mm status = 0
          then show_nat (unat (status_media_width_mm status)) @ lit ''mm '' @ k @ lit '' stock''
          else show_nat (unat (status_media_width_mm status)) @ lit ''x''
                 @ show_nat (unat (status_media_length_mm status)) @ lit ''mm '' @ k @ lit '' stock'')"

definition describe_expected :: "media_spec \<Rightarrow> rstr" where
  "describe_expected media =
     (case media_length media of
        Some len \<Rightarrow> show_nat (unat (width_mm media)) @ lit ''x'' @ show_nat (unat len) @ lit ''mm ''
                     @ MediaKind_as_str (kind media) @ lit '' stock''
      | None \<Rightarrow> show_nat (unat (width_mm media)) @ lit ''mm ''
                     @ MediaKind_as_str (kind media) @ lit '' stock'')"

definition check_ready :: "printer_status \<Rightarrow> media_spec \<Rightarrow> ('io print_error, unit) result" where
  "check_ready status media =
     (if \<not> is_ready status then Inl (NotReady (faults status))
      else if \<not> status_matches status media
      then Inl (MediaMismatch (describe_loaded status) (describe_expected media))
      else Inr ())"

section \<open>Pages of a request\<close>

definition MAX_LABELS_PER_REQUEST :: nat where "MAX_LABELS_PER_REQUEST = 500"
definition MAX_COPIES :: nat where "MAX_COPIES = 20"

record requested_page =
  requested_width :: u16
  requested_height :: u16
  requested_bitmap :: "u8 list"

fun build_loop ::
    "media_spec \<Rightarrow> u32 \<Rightarrow> page list \<Rightarrow> requested_page list \<Rightarrow> ('io print_error, page list) result" where
  "build_loop spec copies pages [] = Inr pages"
| "build_loop spec copies pages (r # rest) =
     (if printable_length_dots spec \<noteq> 0 \<and> requested_height r \<noteq> printable_length_dots spec
      then Inl (Validation (lit ''Label is '' @ show_nat (unat (requested_height r))
             @ lit '' dots long but '' @ describe_expected spec @ lit '' die-cut labels are ''
             @ show_nat (unat (printable_length_dots spec)) @ lit '' dots.''))
      else
        and_then (map_err RasterValidation
            (Page_new spec (requested_width r) (requested_height r) (requested_bitmap r)))
          (\<lambda>built. build_loop spec copies (pages @ replicate (unat copies) built) rest))"

text \<open>The product saturates on a \<^verbatim>\<open>usize\<close>; a request that long is over the cap either way.\<close>

definition build_pages ::
    "media_spec \<Rightarrow> requested_page list \<Rightarrow> u32 \<Rightarrow> ('io print_error, page list) result" where
  "build_pages spec requested copies =
     (if requested = [] then Inl (Validation (lit ''A print request must contain at least one label.''))
      else if copies = 0 \<or> MAX_COPIES < unat copies
      then Inl (Validation (lit ''Copies must be between 1 and '' @ show_nat MAX_COPIES @ lit ''.''))
      else
        (let total = min (length requested * unat copies) (2 ^ 64 - 1) in
         if MAX_LABELS_PER_REQUEST < total
         then Inl (Validation (lit ''A print request may produce at most '' @ show_nat MAX_LABELS_PER_REQUEST
                @ lit '' labels; this one would produce '' @ show_nat total @ lit ''.''))
         else build_loop spec copies [] requested))"

definition encode_pages ::
    "media_spec \<Rightarrow> bool \<Rightarrow> page list \<Rightarrow> ('io print_error, u8 list) result option" where
  "encode_pages media auto_cut pages =
     map_option (map_err RasterValidation) (encode_job media auto_cut pages)"

definition max_page_bytes :: "media_spec \<Rightarrow> nat" where
  "max_page_bytes media = row_bytes (printable_width_dots media) * unat MAX_RASTER_LINES"

section \<open>Printing over one connection\<close>

text \<open>
  The network part of \<^verbatim>\<open>print_labels\<close>: open, ask for the status, check it, send the job. The
  session is returned with the outcome, so what was written can be stated; \<open>None\<close> for the
  session means that none was opened.
\<close>

definition print_over ::
    "'io network \<Rightarrow> printer_endpoint \<Rightarrow> address_policy \<Rightarrow> media_spec \<Rightarrow> u8 list
       \<Rightarrow> ('io print_error, unit) result \<times> connection option" where
  "print_over net endpoint policy media job =
     (case open_session net endpoint policy of
        Inl e \<Rightarrow> (Inl (Transport e), None)
      | Inr c \<Rightarrow>
          (case request_status net c of
             (Inl e, c') \<Rightarrow> (Inl (Transport e), Some c')
           | (Inr status, c') \<Rightarrow>
               (case check_ready status media of
                  Inl e \<Rightarrow> (Inl e, Some c')
                | Inr _ \<Rightarrow>
                    (case write_job net c' job of
                       (Inl e, c'') \<Rightarrow> (Inl (Transport e), Some c'')
                     | (Inr _, c'') \<Rightarrow> (Inr (), Some c'')))))"

section \<open>Pages that were built can be encoded\<close>

lemma LabelPrinterMedia_parse_lookup:
  "LabelPrinterMedia_parse k w l = Inr m \<Longrightarrow> m \<in> set SUPPORTED_MEDIA"
  by (auto simp: LabelPrinterMedia_parse_def result_unfold dest: lookup_media_mem)

lemma Page_new_page_for: "Page_new media w h bits = Inr p \<Longrightarrow> page_for media p"
  by (auto simp: page_for_def Page_new_def Let_def split: if_splits)

lemma build_loop_Inr:
  assumes "build_loop spec copies pages rs = (Inr out :: ('io print_error, page list) result)"
  shows "\<exists>built. length built = length rs \<and> (\<forall>p\<in>set built. page_for spec p)
     \<and> (\<forall>i<length rs. Page_new spec (requested_width (rs ! i)) (requested_height (rs ! i))
           (requested_bitmap (rs ! i)) = Inr (built ! i))
     \<and> out = pages @ concat (map (replicate (unat copies)) built)"
  using assms
proof (induction spec copies pages rs rule: build_loop.induct)
  case (2 spec copies pages r rest)
  then obtain p where p: "Page_new spec (requested_width r) (requested_height r) (requested_bitmap r) = Inr p"
      "build_loop spec copies (pages @ replicate (unat copies) p) rest
         = (Inr out :: ('io print_error, page list) result)"
      and guard: "\<not> (printable_length_dots spec \<noteq> 0 \<and> requested_height r \<noteq> printable_length_dots spec)"
    by (auto simp: result_unfold split: if_splits)
  obtain built where built: "length built = length rest" "\<forall>p\<in>set built. page_for spec p"
      "\<forall>i<length rest. Page_new spec (requested_width (rest ! i)) (requested_height (rest ! i))
         (requested_bitmap (rest ! i)) = Inr (built ! i)"
      "out = (pages @ replicate (unat copies) p) @ concat (map (replicate (unat copies)) built)"
    using "2.IH" [OF guard p(2)] by blast
  then show ?case
    using p(1) by (intro exI [of _ "p # built"]) (auto simp: nth_Cons' Page_new_page_for)
qed simp

lemma build_pages_Inr:
  assumes "build_pages spec rs copies = (Inr out :: ('io print_error, page list) result)"
  shows "out \<noteq> []" and "\<forall>p\<in>set out. page_for spec p"
    and "length out = length rs * unat copies" and "length out \<le> 500"
    and "1 \<le> unat copies" and "unat copies \<le> 20"
proof -
  from assms have g: "rs \<noteq> []" "copies \<noteq> 0" "unat copies \<le> 20"
      "min (length rs * unat copies) (2 ^ 64 - 1) \<le> 500" "build_loop spec copies [] rs = (Inr out :: ('io print_error, page list) result)"
    by (auto simp: build_pages_def Let_def MAX_COPIES_def MAX_LABELS_PER_REQUEST_def split: if_splits)
  then obtain built where built: "length built = length rs" "\<forall>p\<in>set built. page_for spec p"
      "out = concat (map (replicate (unat copies)) built)"
    using build_loop_Inr by (metis append_Nil)
  show "1 \<le> unat copies"
    using g(2) by (simp add: unat_gt_0 Suc_le_eq)
  show "unat copies \<le> 20" by (rule g(3))
  have "length out = sum_list (map (\<lambda>_. unat copies) built)"
    by (simp add: built(3) length_concat o_def)
  then show len: "length out = length rs * unat copies"
    by (simp add: built(1) sum_list_triv)
  then show "length out \<le> 500"
    using g(4) by simp
  show "out \<noteq> []"
    using len g(1) \<open>1 \<le> unat copies\<close> by auto
  show "\<forall>p\<in>set out. page_for spec p"
    using built(2,3) by auto
qed

end
