(* ===== verification/Label_Properties.thy ===== *)
theory Label_Properties
  imports Label_Print
begin

text \<open>
  What label printing guarantees: a request that is accepted becomes a job the printer reads
  back dot for dot, a job is sent only after the printer reported, on the same connection, that
  it is free of faults and loaded with the configured stock, and no connection reaches a
  forbidden address. The small printer, page and network at the top are the concrete inputs of
  the witnesses.
\<close>

section \<open>Concrete inputs\<close>

definition die_cut_17x54 :: media_spec where
  "die_cut_17x54 = die_cut_media 17 54 201 165 566 0"

definition blank_page :: page where
  "blank_page = \<lparr>width_dots = 165, height_dots = 566, bitmap = replicate 11886 0\<rparr>"

definition blank_request :: requested_page where
  "blank_request = \<lparr>requested_width = 165, requested_height = 566, requested_bitmap = replicate 11886 0\<rparr>"

definition ready_block :: "u8 list" where
  "ready_block = replicate 10 0 @ [17, 0x0B] @ replicate 5 0 @ [54] @ replicate 14 0"

definition lab_printer :: ip_addr where "lab_printer = V4 0x0A000005"

definition lab_network :: "unit network" where
  "lab_network = \<lparr>lookup_host = (\<lambda>_ p. Some [(lab_printer, p)]), tcp_connect = (\<lambda>_. IoOk ()),
     tcp_write = (\<lambda>_ _ _. IoOk ()), tcp_read_exact = (\<lambda>_ _ _. IoOk ready_block)\<rparr>"

definition lab_endpoint :: printer_endpoint where
  "lab_endpoint = \<lparr>host = [108], port = 9100\<rparr>"

lemma die_cut_17x54_lookup: "lookup_media DieCut 17 (Some 54) = Some die_cut_17x54"
  by (simp add: lookup_media_def SUPPORTED_MEDIA_def continuous_media_def die_cut_media_def
      die_cut_17x54_def)

lemma die_cut_17x54_parse: "LabelPrinterMedia_parse (lit ''die_cut'') 17 (Some 54) = Inr die_cut_17x54"
  by (simp add: LabelPrinterMedia_parse_def MediaKind_parse_def u8_try_from_def die_cut_17x54_lookup)

lemma blank_page_new: "Page_new die_cut_17x54 165 566 (replicate 11886 0) = Inr blank_page"
  by (simp add: Page_new_def Let_def die_cut_17x54_def die_cut_media_def row_bytes_def blank_page_def
      MIN_RASTER_LINES_def MAX_RASTER_LINES_def)

lemma blank_page_for: "page_for die_cut_17x54 blank_page"
  using blank_page_new by (simp add: page_for_def blank_page_def)

section \<open>Jobs\<close>

text \<open>
  C1. For every stock the server can look up and every list of pages built for it, the encoder
  never indexes out of range and never fails, and the printer reads its output back as exactly
  those pages: the same settings, first/continuation and last-page marks, cutter and margin, and
  every dot of every line at its place on the 720-dot head.
\<close>

theorem encode_job_prints_the_pages:
  assumes "lookup_media k width len = Some media" and "pages \<noteq> []" and "\<forall>p\<in>set pages. page_for media p"
  shows "\<exists>off job sheets. left_offset_dots media (printable_width_dots media) = Some off
     \<and> encode_job media auto_cut pages = Some (Inr job)
     \<and> read_job (length pages) job = Some sheets \<and> length sheets = length pages
     \<and> (\<forall>i<length pages. sheet_shows media auto_cut off (pages ! i) i
           (i = length pages - 1) (sheets ! i))"
  using assms by (intro encode_job_reads_back lookup_media_fits)

theorem encode_job_prints_the_pages_witness:
  "\<exists>off job sheets. left_offset_dots die_cut_17x54 165 = Some off
     \<and> encode_job die_cut_17x54 True [blank_page] = Some (Inr job)
     \<and> read_job 1 job = Some sheets \<and> length sheets = 1
     \<and> sheet_shows die_cut_17x54 True off blank_page 0 True (sheets ! 0)"
  using encode_job_prints_the_pages [OF die_cut_17x54_lookup, of "[blank_page]" True] blank_page_for
  by (simp add: die_cut_17x54_def die_cut_media_def)

lemma check_ready_Inr: "check_ready st media = Inr u \<longleftrightarrow> is_ready st \<and> status_matches st media"
  by (simp add: check_ready_def)

lemma request_status_cases:
  assumes "request_status net c = (r, c')"
  shows "sent c' = sent c @ [status_request_bytes]" and "peer c' = peer c"
    and "\<And>st. r = Inr st \<Longrightarrow> \<exists>block. tcp_read_exact net (peer c) (sent c') 32 = IoOk block
           \<and> PrinterStatus_parse block = Inr st"
  using assms
  by (auto simp: request_status_def session_write_def STATUS_BLOCK_LEN_def map_err_Inr_iff
      split: prod.splits sum.splits io_outcome.splits)

text \<open>
  C2. The order of a print over the network: whatever the peer does, a session issues the
  status request and then at most the job (a write that fails counts as issued); the job is issued
  only when the block read after the request has no assigned error bit and names the configured
  stock; and the print succeeds only when the job was issued.
\<close>

theorem print_sends_job_only_when_ready:
  assumes "print_over net endpoint policy media job = (outcome, Some c)"
  shows "sent c = [status_request_bytes] \<and> outcome \<noteq> Inr () \<or>
     sent c = [status_request_bytes, job] \<and>
     (\<exists>block. tcp_read_exact net (peer c) [status_request_bytes] 32 = IoOk block \<and> 32 \<le> length block
        \<and> (\<forall>n<8. n \<noteq> 3 \<longrightarrow> \<not> bit (block ! 8) n) \<and> (\<forall>n<8. \<not> bit (block ! 9) n)
        \<and> block ! 11 = print_information_code (kind media) \<and> block ! 10 = width_mm media
        \<and> (kind media = DieCut \<longrightarrow> block ! 17 = length_mm media))"
proof -
  obtain c0 where c0: "open_session net endpoint policy = Inr c0" "sent c0 = []"
    using assms open_session_Inr(1)
    by (fastforce simp: print_over_def split: sum.splits prod.splits)
  obtain r c1 where r: "request_status net c0 = (r, c1)"
    by fastforce
  note c1 = request_status_cases [OF r]
  show ?thesis
  proof (cases "\<exists>st. r = Inr st \<and> check_ready st media = (Inr () :: ('a print_error, unit) result)")
    case True
    then obtain st where st: "r = Inr st" "is_ready st" "status_matches st media"
      by (auto simp: check_ready_Inr)
    then obtain block where block: "tcp_read_exact net (peer c0) (sent c1) 32 = IoOk block"
        "PrinterStatus_parse block = Inr st"
      using c1(3) by blast
    have "32 \<le> length block"
      using block(2) by (auto simp: PrinterStatus_parse_def STATUS_BLOCK_LEN_def split: if_splits)
    moreover have "sent c = [status_request_bytes, job]" "peer c = peer c0"
      using assms c0 r c1(1,2) st
      by (auto simp: print_over_def check_ready_def write_job_def session_write_def
          split: sum.splits prod.splits)
    ultimately show ?thesis
      using block c0(2) c1(1) PrinterStatus_parse_ready [OF block(2)]
        PrinterStatus_parse_matches [OF block(2)] st(2,3) by auto
  next
    case False
    then have "c = c1" "outcome \<noteq> Inr ()"
      using assms c0 r
      by (auto simp: print_over_def split: sum.splits prod.splits)
    then show ?thesis
      using c1(1) c0(2) by simp
  qed
qed

lemma lab_print: "print_over lab_network lab_endpoint STRICT die_cut_17x54 [1] =
   (Inr (), Some \<lparr>peer = (lab_printer, 9100), sent = [status_request_bytes, [1]]\<rparr>)"
  by code_simp

theorem print_sends_job_only_when_ready_witness:
  "\<exists>block. tcp_read_exact lab_network (lab_printer, 9100) [status_request_bytes] 32 = IoOk block
     \<and> block ! 11 = 0x0B \<and> block ! 10 = 17 \<and> block ! 17 = 54"
  using print_sends_job_only_when_ready [OF lab_print]
  by (auto simp: die_cut_17x54_def die_cut_media_def)

definition octets_12 :: "u32 \<Rightarrow> nat" where "octets_12 a = unat a div 2 ^ 16"
definition octets_123 :: "u32 \<Rightarrow> nat" where "octets_123 a = unat a div 2 ^ 8"
definition octet_1 :: "u32 \<Rightarrow> nat" where "octet_1 a = unat a div 2 ^ 24"

lemma is_blocked_v4_octets:
  "is_blocked_v4 a \<longleftrightarrow> octet_1 a = 127 \<or> octets_12 a = 169 * 256 + 254 \<or> a = 0 \<or> a = 0xFFFFFFFF
     \<or> octet_1 a \<in> {224..239} \<or> octets_123 a \<in> {192 * 65536 + 2, 198 * 65536 + 51 * 256 + 100, 203 * 65536 + 113}"
  by (simp add: is_blocked_v4_def v4_is_loopback_def v4_is_link_local_def v4_is_multicast_def
      v4_is_documentation_def octet_1_def octets_12_def octets_123_def word_unat_eq_iff word_le_nat_alt
      unat_drop_bit_div)

text \<open>The IPv4-mapped form \<^verbatim>\<open>::ffff:a.b.c.d\<close> of an IPv4 address.\<close>

definition to_ipv6_mapped :: "u32 \<Rightarrow> 128 word" where
  "to_ipv6_mapped a = push_bit 32 0xFFFF OR ucast a"

lemma high_part: "drop_bit 32 (push_bit 32 h OR ucast (a :: u32) :: 128 word) = take_bit 96 h"
  by (rule bit_word_eqI) (auto simp: bit_simps dest: bit_imp_le_length)

lemma low_part: "ucast (push_bit 32 h OR ucast (a :: u32) :: 128 word) = a"
  by (rule bit_word_eqI) (auto simp: bit_simps)

lemma v4_mapped: "v6_to_ipv4_mapped (to_ipv6_mapped a) = Some a"
  by (simp only: v6_to_ipv4_mapped_def to_ipv6_mapped_def high_part low_part) simp

lemma to_ipv6_mapped_not_1: "to_ipv6_mapped a \<noteq> 1"
proof
  assume "to_ipv6_mapped a = 1"
  then have "v6_to_ipv4_mapped 1 = Some a"
    using v4_mapped [of a] by simp
  then show False
    by (simp add: v6_to_ipv4_mapped_def)
qed

lemma loopback_octet: "v4_is_loopback a \<longleftrightarrow> octet_1 a = 127"
  by (simp add: v4_is_loopback_def octet_1_def word_unat_eq_iff unat_drop_bit_div)

lemma allowed_ip_v4:
  "allowed_ip policy (V4 a) \<longleftrightarrow> allow_loopback policy \<and> octet_1 a = 127 \<or> \<not> is_blocked_v4 a"
  by (simp add: allowed_ip_def validate_printer_ip_def loopback_octet)

lemma loopback_octets:
  "octet_1 a = 127 \<Longrightarrow> octets_12 a \<noteq> 43518 \<and> octets_123 a \<noteq> 12582914 \<and> octets_123 a \<noteq> 12989284
     \<and> octets_123 a \<noteq> 13303921 \<and> a \<noteq> 0 \<and> a \<noteq> 0xFFFFFFFF"
  by (auto simp: octet_1_def octets_12_def octets_123_def word_unat_eq_iff)

lemma allowed_ip_forbids:
  assumes "allowed_ip policy ip" and "ip = V4 a \<or> ip = V6 (to_ipv6_mapped a)"
  shows "octets_12 a \<noteq> 169 * 256 + 254 \<and> a \<noteq> 0 \<and> a \<noteq> 0xFFFFFFFF \<and> octet_1 a \<notin> {224..239}
     \<and> octets_123 a \<notin> {192 * 65536 + 2, 198 * 65536 + 51 * 256 + 100, 203 * 65536 + 113}
     \<and> (octet_1 a = 127 \<longrightarrow> allow_loopback policy \<and> ip = V4 a)"
proof (cases "octet_1 a = 127 \<and> ip = V4 a")
  case True
  then show ?thesis
    using assms(1) loopback_octets [of a] by (auto simp: allowed_ip_v4 is_blocked_v4_octets)
next
  case False
  have "\<not> is_blocked_v4 a"
    using assms False to_ipv6_mapped_not_1 [of a]
    by (auto simp: allowed_ip_v4 allowed_ip_def validate_printer_ip_def v4_mapped loopback_octet split: if_splits)
  then show ?thesis
    using False by (auto simp: is_blocked_v4_octets)
qed

text \<open>The leading bits of an IPv6 address: eight for multicast, ten for link-local.\<close>

definition leading_bits :: "nat \<Rightarrow> 128 word \<Rightarrow> nat" where
  "leading_bits n w = unat w div 2 ^ (128 - n)"

lemma multicast_bits:
  assumes "leading_bits 8 w = 255"
  shows "v6_segment0 w AND 0xFF00 = 0xFF00"
proof -
  have "drop_bit 120 w = mask 8"
    using assms by (simp add: leading_bits_def word_unat_eq_iff unat_drop_bit_div mask_eq_exp_minus_1)
  then have "push_bit 8 (drop_bit 120 w) = push_bit 8 (mask 8)"
    by (rule arg_cong)
  moreover have "v6_segment0 w AND push_bit 8 (mask 8) = push_bit 8 (drop_bit 120 w)"
    by (rule bit_word_eqI) (auto simp: v6_segment0_def bit_simps dest: bit_imp_le_length)
  ultimately show ?thesis
    by (simp add: mask_eq_exp_minus_1)
qed

lemma link_local_bits:
  assumes "leading_bits 10 w = 0x3FA"
  shows "v6_segment0 w AND 0xFFC0 = 0xFE80"
proof -
  have "drop_bit 118 w = 0x3FA"
    using assms by (simp add: leading_bits_def word_unat_eq_iff unat_drop_bit_div)
  then have "push_bit 6 (drop_bit 118 w) = push_bit 6 0x3FA"
    by (rule arg_cong)
  moreover have "v6_segment0 w AND push_bit 6 (mask 10) = push_bit 6 (drop_bit 118 w)"
    by (rule bit_word_eqI) (auto simp: v6_segment0_def bit_simps dest: bit_imp_le_length)
  ultimately show ?thesis
    by (simp add: mask_eq_exp_minus_1)
qed

lemma mapped_leading_bits:
  assumes "v6_to_ipv4_mapped w \<noteq> None"
  shows "leading_bits 8 w \<noteq> 255 \<and> leading_bits 10 w \<noteq> 0x3FA \<and> w \<noteq> 0"
proof -
  have d: "unat w div 2 ^ 32 = 0xFFFF"
    using assms by (simp add: v6_to_ipv4_mapped_def word_unat_eq_iff unat_drop_bit_div split: if_splits)
  have "unat w < 2 ^ 48"
  proof (rule ccontr)
    assume "\<not> unat w < 2 ^ 48"
    then have "2 ^ 48 div 2 ^ 32 \<le> unat w div 2 ^ 32"
      by (intro div_le_mono) simp
    with d show False
      by simp
  qed
  with d show ?thesis
    by (auto simp: leading_bits_def)
qed

lemma allowed_ip_v6:
  assumes "allowed_ip policy (V6 w)"
  shows "w \<noteq> 0 \<and> leading_bits 8 w \<noteq> 255 \<and> leading_bits 10 w \<noteq> 0x3FA \<and> (w = 1 \<longrightarrow> allow_loopback policy)"
proof (cases "w = 1 \<and> allow_loopback policy")
  case True
  then show ?thesis
    by (simp add: leading_bits_def)
next
  case False
  have "v6_to_ipv4_mapped w \<noteq> None \<or> \<not> is_blocked_v6 w"
    using assms False by (auto simp: allowed_ip_def validate_printer_ip_def split: if_splits option.splits)
  then show ?thesis
  proof
    assume m: "v6_to_ipv4_mapped w \<noteq> None"
    then have "w \<noteq> 1"
      by (auto simp: v6_to_ipv4_mapped_def)
    then show ?thesis
      using mapped_leading_bits [OF m] by simp
  next
    assume "\<not> is_blocked_v6 w"
    then show ?thesis
      using multicast_bits [of w] link_local_bits [of w] by (auto simp: is_blocked_v6_def Let_def)
  qed
qed

text \<open>
  C3. No session reaches a forbidden address. When a session exists, the port is 1024 or above
  and every address the name resolved to, not only the one connected to, is allowed. An IPv4
  address is outside the link-local range (which holds the cloud metadata service), the multicast
  and documentation ranges, and is not the unspecified or the broadcast address; written as an
  IPv4-mapped IPv6 address it is held to the same rules, and then loopback is refused under either
  policy. An IPv6 address is not unspecified, not multicast (\<^verbatim>\<open>ff00::/8\<close>) and not link-local
  (\<^verbatim>\<open>fe80::/10\<close>). The loopback addresses of both families only pass under the permissive policy.
\<close>

theorem no_session_to_forbidden_address:
  assumes "print_over net endpoint policy media job = (outcome, Some c)"
  shows "1024 \<le> unat (port endpoint) \<and>
    (\<exists>as. lookup_host net (host endpoint) (port endpoint) = Some as \<and> peer c \<in> set as \<and>
      (\<forall>(ip, p)\<in>set as. (\<forall>a. ip = V4 a \<or> ip = V6 (to_ipv6_mapped a) \<longrightarrow>
         octets_12 a \<noteq> 169 * 256 + 254 \<and> a \<noteq> 0 \<and> a \<noteq> 0xFFFFFFFF \<and> octet_1 a \<notin> {224..239}
         \<and> octets_123 a \<notin> {192 * 65536 + 2, 198 * 65536 + 51 * 256 + 100, 203 * 65536 + 113}
         \<and> (octet_1 a = 127 \<longrightarrow> allow_loopback policy \<and> ip = V4 a))
       \<and> (\<forall>w. ip = V6 w \<longrightarrow> w \<noteq> 0 \<and> leading_bits 8 w \<noteq> 0xFF \<and> leading_bits 10 w \<noteq> 0x3FA
         \<and> (w = 1 \<longrightarrow> allow_loopback policy))))"
proof -
  obtain c0 where c0: "open_session net endpoint policy = Inr c0" "peer c = peer c0"
    using assms request_status_cases(2)
    by (fastforce simp: print_over_def write_job_def session_write_def split: sum.splits prod.splits)
  obtain as where as: "lookup_host net (host endpoint) (port endpoint) = Some as" "peer c \<in> set as"
      "\<forall>a\<in>set as. allowed_ip policy (fst a)"
    using open_session_Inr(4) [OF c0(1)] c0(2) by auto
  have "1024 \<le> unat (port endpoint)"
    using open_session_Inr(3) [OF c0(1)] by (simp add: MIN_PRINTER_PORT_def word_le_nat_alt)
  moreover have "\<forall>(ip, p)\<in>set as. (\<forall>a. ip = V4 a \<or> ip = V6 (to_ipv6_mapped a) \<longrightarrow>
         octets_12 a \<noteq> 169 * 256 + 254 \<and> a \<noteq> 0 \<and> a \<noteq> 0xFFFFFFFF \<and> octet_1 a \<notin> {224..239}
         \<and> octets_123 a \<notin> {192 * 65536 + 2, 198 * 65536 + 51 * 256 + 100, 203 * 65536 + 113}
         \<and> (octet_1 a = 127 \<longrightarrow> allow_loopback policy \<and> ip = V4 a))
       \<and> (\<forall>w. ip = V6 w \<longrightarrow> w \<noteq> 0 \<and> leading_bits 8 w \<noteq> 0xFF \<and> leading_bits 10 w \<noteq> 0x3FA
         \<and> (w = 1 \<longrightarrow> allow_loopback policy))"
  proof clarify
    fix ip p
    assume "(ip, p) \<in> set as"
    then have ok: "allowed_ip policy ip"
      using as(3) by fastforce
    show "(\<forall>a. ip = V4 a \<or> ip = V6 (to_ipv6_mapped a) \<longrightarrow>
         octets_12 a \<noteq> 169 * 256 + 254 \<and> a \<noteq> 0 \<and> a \<noteq> 0xFFFFFFFF \<and> octet_1 a \<notin> {224..239}
         \<and> octets_123 a \<notin> {192 * 65536 + 2, 198 * 65536 + 51 * 256 + 100, 203 * 65536 + 113}
         \<and> (octet_1 a = 127 \<longrightarrow> allow_loopback policy \<and> ip = V4 a))
       \<and> (\<forall>w. ip = V6 w \<longrightarrow> w \<noteq> 0 \<and> leading_bits 8 w \<noteq> 0xFF \<and> leading_bits 10 w \<noteq> 0x3FA
         \<and> (w = 1 \<longrightarrow> allow_loopback policy))"
      using allowed_ip_forbids [OF ok] allowed_ip_v6 [of policy] ok by blast
  qed
  ultimately show ?thesis
    using as(1,2) by blast
qed

theorem no_session_to_forbidden_address_witness:
  "octets_12 0x0A000005 \<noteq> 169 * 256 + 254 \<and> octet_1 0x0A000005 \<noteq> 127"
  using no_session_to_forbidden_address [OF lab_print]
  by (auto simp: lab_network_def lab_printer_def lab_endpoint_def STRICT_def)

lemma concat_replicate_nth:
  "i < length xs * n \<Longrightarrow> concat (map (replicate n) xs) ! i = xs ! (i div n)"
proof (induction xs arbitrary: i)
  case (Cons x xs)
  then show ?case
    by (cases "i < n"; cases "n = 0") (auto simp: nth_append le_div_geq less_diff_conv2)
qed simp

lemma build_loop_lengths:
  assumes "build_loop spec copies pages rs = (Inr out :: ('io print_error, page list) result)"
  shows "\<forall>r\<in>set rs. printable_length_dots spec = 0 \<or> requested_height r = printable_length_dots spec"
  using assms
  by (induction spec copies pages rs rule: build_loop.induct) (auto simp: result_unfold split: if_splits)

lemma build_pages_nth:
  assumes "build_pages spec rs copies = (Inr out :: ('io print_error, page list) result)"
    and "i < length out"
  shows "let r = rs ! (i div unat copies) in r \<in> set rs
     \<and> Page_new spec (requested_width r) (requested_height r) (requested_bitmap r) = Inr (out ! i)
     \<and> (printable_length_dots spec = 0 \<or> requested_height r = printable_length_dots spec)"
proof -
  have len: "length out = length rs * unat copies" and pos: "0 < unat copies"
    using build_pages_Inr(3,5) [OF assms(1)] by simp_all
  have loop: "build_loop spec copies [] rs = (Inr out :: ('io print_error, page list) result)"
    using assms(1) by (auto simp: build_pages_def Let_def split: if_splits)
  obtain built where built: "length built = length rs"
      "\<forall>i<length rs. Page_new spec (requested_width (rs ! i)) (requested_height (rs ! i))
         (requested_bitmap (rs ! i)) = Inr (built ! i)"
      "out = concat (map (replicate (unat copies)) built)"
    using build_loop_Inr [OF loop] by auto
  have "i div unat copies < length rs"
    using assms(2) len pos by (simp add: div_less_iff_less_mult)
  moreover have "out ! i = built ! (i div unat copies)"
    using built(1,3) assms(2) len by (simp add: concat_replicate_nth)
  ultimately show ?thesis
    using built(2) build_loop_lengths [OF loop] by (auto simp: Let_def)
qed

lemma supported_length_dots:
  "m \<in> set SUPPORTED_MEDIA \<Longrightarrow> kind m = DieCut \<Longrightarrow> printable_length_dots m \<noteq> 0"
  by (auto simp: SUPPORTED_MEDIA_def continuous_media_def die_cut_media_def)

lemma Page_new_Inr:
  "Page_new media w h bits = Inr p \<longleftrightarrow>
     p = \<lparr>width_dots = w, height_dots = h, bitmap = bits\<rparr> \<and> w = printable_width_dots media
     \<and> 150 \<le> unat h \<and> unat h \<le> 11811 \<and> length bits = row_bytes w * unat h"
proof -
  have "unat (ucast h :: u32) = unat h"
    using unat_u16_less [of h] by (simp only: unat_ucast_mod) simp
  then show ?thesis
    by (auto simp: Page_new_def Let_def MIN_RASTER_LINES_def MAX_RASTER_LINES_def word_le_nat_alt)
qed

text \<open>
  What a print request expands to: between 1 and 20 copies of each requested label, in the
  order of the request, at most 500 labels, each one the requested bitmap at the stock's width
  and, for die-cut stock, at the stock's length; and the job for them is always produced.
\<close>

theorem accepted_request_is_encodable:
  assumes "LabelPrinterMedia_parse kind_str width len = Inr media"
    and "build_pages media requested copies = (Inr pages :: (unit print_error, page list) result)"
  shows "1 \<le> unat copies \<and> unat copies \<le> 20 \<and> length pages = length requested * unat copies
     \<and> length pages \<le> 500
     \<and> (\<forall>i<length pages. let r = requested ! (i div unat copies) in
          pages ! i = \<lparr>width_dots = requested_width r, height_dots = requested_height r,
                      bitmap = requested_bitmap r\<rparr>
          \<and> requested_width r = printable_width_dots media
          \<and> 150 \<le> unat (requested_height r) \<and> unat (requested_height r) \<le> 11811
          \<and> (kind media = DieCut \<longrightarrow> requested_height r = printable_length_dots media)
          \<and> length (requested_bitmap r) = row_bytes (requested_width r) * unat (requested_height r))
     \<and> (\<exists>job. encode_pages media auto_cut pages = Some (Inr job :: (unit print_error, u8 list) result))"
proof -
  have media: "media \<in> set SUPPORTED_MEDIA"
    using assms(1) by (rule LabelPrinterMedia_parse_lookup)
  note built = build_pages_Inr [OF assms(2)]
  have "\<exists>job. encode_pages media auto_cut pages = Some (Inr job :: (unit print_error, u8 list) result)"
    using encode_job_reads_back [of media pages auto_cut] built(1,2) media supported_media_fits
    by (auto simp: encode_pages_def)
  moreover have "let r = requested ! (i div unat copies) in
          pages ! i = \<lparr>width_dots = requested_width r, height_dots = requested_height r,
                      bitmap = requested_bitmap r\<rparr>
          \<and> requested_width r = printable_width_dots media
          \<and> 150 \<le> unat (requested_height r) \<and> unat (requested_height r) \<le> 11811
          \<and> (kind media = DieCut \<longrightarrow> requested_height r = printable_length_dots media)
          \<and> length (requested_bitmap r) = row_bytes (requested_width r) * unat (requested_height r)"
    if "i < length pages" for i
    using build_pages_nth [OF assms(2) that] supported_length_dots [OF media]
    by (auto simp: Let_def Page_new_Inr)
  ultimately show ?thesis
    using built(3-6) by blast
qed

lemma blank_request_pages:
  "build_pages die_cut_17x54 [blank_request] 2 = (Inr [blank_page, blank_page] :: (unit print_error, page list) result)"
proof -
  have "printable_length_dots die_cut_17x54 = 566"
    by (simp add: die_cut_17x54_def die_cut_media_def)
  moreover have "replicate 2 blank_page = [blank_page, blank_page]"
    by (simp add: numeral_2_eq_2)
  ultimately show ?thesis
    by (simp add: build_pages_def Let_def MAX_COPIES_def MAX_LABELS_PER_REQUEST_def blank_request_def
        blank_page_new)
qed

theorem accepted_request_is_encodable_witness:
  "\<exists>job. encode_pages die_cut_17x54 True [blank_page, blank_page] = Some (Inr job :: (unit print_error, u8 list) result)"
  using accepted_request_is_encodable [OF die_cut_17x54_parse blank_request_pages] by blast

text \<open>
  C4. The run-length compression of raster lines loses nothing, and it never needs more than
  twice the input, so that the length of a 90-byte line fits the one length byte of its command.
\<close>

theorem pack_bits_lossless:
  "unpack_bits (pack_bits data) = Some data \<and> length (pack_bits data) \<le> 2 * length data
   \<and> (length data = BYTES_PER_ROW \<longrightarrow>
        unat (word_of_nat (length (pack_bits data)) :: u8) = length (pack_bits data))"
  using pack_bits_unpack [of data] pack_bits_length [of data]
  by (auto simp: BYTES_PER_ROW_def intro!: unat_u8)

theorem pack_bits_lossless_witness:
  "unat (word_of_nat (length (pack_bits (replicate 90 0))) :: u8) = length (pack_bits (replicate 90 0))"
  using pack_bits_lossless [of "replicate 90 0"] by (simp add: BYTES_PER_ROW_def)

text \<open>
  What a status block means: one of 32 bytes or more is always understood, a shorter one
  never; the printer counts as ready exactly when none of the fifteen assigned error bits is
  set, and as loaded with a stock exactly when the type, width and, for die-cut stock, length
  bytes are those of the stock.
\<close>

theorem status_block_meaning:
  "case PrinterStatus_parse block of
      Inl e \<Rightarrow> e = TooShort (length block) \<and> length block < 32
    | Inr st \<Rightarrow> 32 \<le> length block
        \<and> (is_ready st \<longleftrightarrow> (\<forall>n<8. n \<noteq> 3 \<longrightarrow> \<not> bit (block ! 8) n) \<and> (\<forall>n<8. \<not> bit (block ! 9) n))
        \<and> (\<forall>spec. status_matches st spec \<longleftrightarrow>
             block ! 11 = print_information_code (kind spec) \<and> block ! 10 = width_mm spec
             \<and> (kind spec = DieCut \<longrightarrow> block ! 17 = length_mm spec))"
proof (cases "PrinterStatus_parse block")
  case (Inr st)
  then have "32 \<le> length block"
    by (auto simp: PrinterStatus_parse_def STATUS_BLOCK_LEN_def split: if_splits)
  with Inr show ?thesis
    using PrinterStatus_parse_ready [of block st] PrinterStatus_parse_matches [of block st] by simp
qed (auto simp: PrinterStatus_parse_def STATUS_BLOCK_LEN_def Let_def split: if_splits)

lemma ready_block_bytes:
  "ready_block ! 11 = 0x0B" "ready_block ! 10 = 17" "ready_block ! 17 = 54"
  by code_simp+

theorem status_block_meaning_witness:
  "\<exists>st. PrinterStatus_parse ready_block = Inr st \<and> status_matches st die_cut_17x54"
proof -
  have "32 \<le> length ready_block"
    by (simp add: ready_block_def)
  then obtain st where st: "PrinterStatus_parse ready_block = Inr st"
    by (auto simp: PrinterStatus_parse_def STATUS_BLOCK_LEN_def Let_def)
  then have "status_matches st die_cut_17x54"
    using status_block_meaning [of ready_block]
    by (simp add: ready_block_bytes die_cut_17x54_def die_cut_media_def)
  with st show ?thesis by blast
qed

lemma u8_try_from_Some: "u8_try_from v = Some w \<longleftrightarrow> v = uint w"
proof
  assume "u8_try_from v = Some w"
  then show "v = uint w"
    by (auto simp: u8_try_from_def uint_word_of_int split: if_splits)
next
  assume "v = uint w"
  moreover have "0 \<le> uint w" "uint w < 256"
    using uint_bounded [of w] by simp_all
  ultimately show "u8_try_from v = Some w"
    by (simp add: u8_try_from_def)
qed

lemma lookup_media_iff:
  "lookup_media k w l = Some m \<longleftrightarrow>
     m \<in> set SUPPORTED_MEDIA \<and> kind m = k \<and> width_mm m = w \<and> (k = DieCut \<longrightarrow> l = Some (length_mm m))"
proof
  assume "lookup_media k w l = Some m"
  then show "m \<in> set SUPPORTED_MEDIA \<and> kind m = k \<and> width_mm m = w \<and> (k = DieCut \<longrightarrow> l = Some (length_mm m))"
    unfolding lookup_media_def by (cases k) (auto simp: find_Some_iff)
next
  have "\<forall>m\<in>set SUPPORTED_MEDIA. lookup_media (kind m) (width_mm m)
          (if kind m = DieCut then Some (length_mm m) else l) = Some m"
    by (simp add: lookup_media_def SUPPORTED_MEDIA_def continuous_media_def die_cut_media_def)
  moreover assume m: "m \<in> set SUPPORTED_MEDIA \<and> kind m = k \<and> width_mm m = w
     \<and> (k = DieCut \<longrightarrow> l = Some (length_mm m))"
  ultimately have "lookup_media (kind m) (width_mm m)
          (if kind m = DieCut then Some (length_mm m) else l) = Some m"
    by blast
  moreover have "(if kind m = DieCut then Some (length_mm m) else l) = l"
    using m by simp
  ultimately show "lookup_media k w l = Some m"
    using m by metis
qed

lemma LabelPrinterMedia_parse_Inr:
  assumes "LabelPrinterMedia_parse kind_str width len = Inr m"
  obtains k w l where "MediaKind_parse kind_str = Some k" and "width = uint w"
    and "transpose_with (\<lambda>v. ok_or (show_int v @ lit ''mm is not a supported label length.'') (u8_try_from v)) len = Inr l"
    and "l = None \<longleftrightarrow> k = Continuous" and "lookup_media k w l = Some m"
proof -
  have shape: "(case (k, l) of
         (Continuous, Some _) \<Rightarrow> Inl e | (DieCut, None) \<Rightarrow> Inl e' | _ \<Rightarrow> Inr ()) = Inr u
     \<longleftrightarrow> (l = None \<longleftrightarrow> k = Continuous)" for k l u and e e' :: rstr
    by (cases k; cases l) auto
  show thesis
    using assms
    unfolding LabelPrinterMedia_parse_def and_then_Inr_iff ok_or_Inr_iff u8_try_from_Some shape
    apply (elim exE conjE)
    apply (rule that)
        apply assumption+
    done
qed

text \<open>
  C5. Configured stock: a kind, width and length taken from the database are accepted exactly
  when they are those of a stock the server can lay out, and name exactly that stock.
\<close>

theorem LabelPrinterMedia_parse_iff:
  "LabelPrinterMedia_parse kind_str width len = Inr m \<longleftrightarrow>
     m \<in> set SUPPORTED_MEDIA \<and> kind_str = MediaKind_as_str (kind m) \<and> width = uint (width_mm m)
     \<and> len = map_option uint (media_length m)"
proof
  assume "LabelPrinterMedia_parse kind_str width len = Inr m"
  then obtain k w l where p: "MediaKind_parse kind_str = Some k" "width = uint w"
      and l: "transpose_with (\<lambda>v. ok_or (show_int v @ lit ''mm is not a supported label length.'') (u8_try_from v)) len = Inr l"
      and shape: "l = None \<longleftrightarrow> k = Continuous"
      and m: "lookup_media k w l = Some m"
    by (rule LabelPrinterMedia_parse_Inr)
  have "len = map_option uint l"
    using l by (cases len) (auto simp: result_unfold u8_try_from_Some)
  moreover note p m shape
  ultimately show "m \<in> set SUPPORTED_MEDIA \<and> kind_str = MediaKind_as_str (kind m) \<and> width = uint (width_mm m)
     \<and> len = map_option uint (media_length m)"
    by (cases k) (auto simp: lookup_media_iff media_length_def media_kind_name.parse_iff)
next
  assume m: "m \<in> set SUPPORTED_MEDIA \<and> kind_str = MediaKind_as_str (kind m) \<and> width = uint (width_mm m)
     \<and> len = map_option uint (media_length m)"
  have "u8_try_from (uint v) = Some v" for v
    by (simp add: u8_try_from_Some)
  moreover have "lookup_media (kind m) (width_mm m) (media_length m) = Some m"
    using m by (cases "kind m") (auto simp: lookup_media_iff media_length_def)
  ultimately show "LabelPrinterMedia_parse kind_str width len = Inr m"
    using m media_kind_name.parse_as_str [of "kind m"]
    by (cases "kind m") (simp_all add: LabelPrinterMedia_parse_def media_length_def)
qed

end
