(* ===== verification/Float64.thy ===== *)
theory Float64
  imports Complex_Main Prelude
begin

text \<open>
  The \<^verbatim>\<open>f64\<close> values the inventory code computes with: a finite value is the rational it
  denotes, and an arithmetic result is the exact one rounded to nearest, ties to even, at 53
  significant bits (fewer below the normal range), as IEEE 754 binary64 prescribes. The two
  zeros are one value here: the code compares its results and divides by positive numbers only.
\<close>

datatype f64 = Fin rat | PosInf | NegInf | NaN

section \<open>Rounding\<close>

text \<open>The largest \<open>k\<close> with \<open>2 ^ k \<le> n\<close>, for a positive \<open>n\<close>.\<close>

function log2_int :: "int \<Rightarrow> nat" where
  "log2_int n = (if n < 2 then 0 else Suc (log2_int (n div 2)))"
  by auto
termination by (relation "measure nat") auto

declare log2_int.simps [simp del]

definition pow2 :: "int \<Rightarrow> rat" where
  "pow2 e = (if 0 \<le> e then 2 ^ nat e else 1 / 2 ^ nat (- e))"

definition floor_log2 :: "rat \<Rightarrow> int" where
  "floor_log2 q =
     (let (n, d) = quotient_of q;
          k = int (log2_int n) - int (log2_int d)
      in if pow2 k \<le> q then k else k - 1)"

definition round_half_even :: "rat \<Rightarrow> int" where
  "round_half_even q =
     (let f = \<lfloor>q\<rfloor>; r = q - of_int f
      in if r < 1 / 2 \<or> (r = 1 / 2 \<and> even f) then f else f + 1)"

definition max_f64 :: rat where
  "max_f64 = of_int ((2 ^ 53 - 1) * 2 ^ 971)"

definition round_f64 :: "rat \<Rightarrow> f64" where
  "round_f64 q =
     (if q = 0 then Fin 0
      else
        (let e = max (floor_log2 \<bar>q\<bar> - 52) (- 1074);
             m = of_int (round_half_even (\<bar>q\<bar> / pow2 e)) * pow2 e
         in if max_f64 < m then (if 0 < q then PosInf else NegInf)
            else Fin (if 0 < q then m else - m)))"

section \<open>Operations\<close>

fun is_finite :: "f64 \<Rightarrow> bool" where
  "is_finite (Fin q) = True"
| "is_finite _ = False"

fun f64_neg :: "f64 \<Rightarrow> f64" where
  "f64_neg (Fin q) = Fin (- q)"
| "f64_neg PosInf = NegInf"
| "f64_neg NegInf = PosInf"
| "f64_neg NaN = NaN"

fun f64_add :: "f64 \<Rightarrow> f64 \<Rightarrow> f64" where
  "f64_add NaN _ = NaN"
| "f64_add _ NaN = NaN"
| "f64_add (Fin p) (Fin q) = round_f64 (p + q)"
| "f64_add PosInf NegInf = NaN"
| "f64_add NegInf PosInf = NaN"
| "f64_add PosInf _ = PosInf"
| "f64_add _ PosInf = PosInf"
| "f64_add NegInf _ = NegInf"
| "f64_add _ NegInf = NegInf"

definition f64_sub :: "f64 \<Rightarrow> f64 \<Rightarrow> f64" where
  "f64_sub x y = f64_add x (f64_neg y)"

text \<open>
  Products and quotients. An infinite operand takes the sign of the other one; with one zero, a
  quotient by zero is taken as one by \<open>+0\<close>, and the code only divides by positive scales.
\<close>

definition f64_inf :: "rat \<Rightarrow> f64" where
  "f64_inf sign = (if 0 < sign then PosInf else if sign < 0 then NegInf else NaN)"

fun f64_sign :: "f64 \<Rightarrow> rat" where
  "f64_sign (Fin q) = q"
| "f64_sign PosInf = 1"
| "f64_sign NegInf = - 1"
| "f64_sign NaN = 0"

fun f64_mul :: "f64 \<Rightarrow> f64 \<Rightarrow> f64" where
  "f64_mul (Fin p) (Fin q) = round_f64 (p * q)"
| "f64_mul x y = f64_inf (f64_sign x * f64_sign y)"

fun f64_div :: "f64 \<Rightarrow> f64 \<Rightarrow> f64" where
  "f64_div (Fin p) (Fin q) = (if q = 0 then f64_inf p else round_f64 (p / q))"
| "f64_div NaN _ = NaN"
| "f64_div _ NaN = NaN"
| "f64_div (Fin p) _ = Fin 0"
| "f64_div x (Fin q) = f64_inf (f64_sign x * (if q < 0 then - 1 else 1))"
| "f64_div _ _ = NaN"

text \<open>\<^verbatim>\<open>x < y\<close>: false as soon as one side is a NaN.\<close>

fun f64_less :: "f64 \<Rightarrow> f64 \<Rightarrow> bool" where
  "f64_less NaN _ = False"
| "f64_less _ NaN = False"
| "f64_less (Fin p) (Fin q) = (p < q)"
| "f64_less NegInf y = (y \<noteq> NegInf)"
| "f64_less PosInf _ = False"
| "f64_less _ PosInf = True"
| "f64_less _ NegInf = False"

definition f64_less_eq :: "f64 \<Rightarrow> f64 \<Rightarrow> bool" where
  "f64_less_eq x y \<longleftrightarrow> f64_less x y \<or> (x = y \<and> x \<noteq> NaN)"

section \<open>Integers are exact\<close>

lemma log2_int_bounds:
  "0 < n \<Longrightarrow> 2 ^ log2_int n \<le> n \<and> n < 2 ^ Suc (log2_int n)"
proof (induction n rule: log2_int.induct)
  case (1 n)
  show ?case
  proof (cases "n < 2")
    case False
    then have "2 ^ log2_int (n div 2) \<le> n div 2 \<and> n div 2 < 2 ^ Suc (log2_int (n div 2))"
      using 1 by simp
    then have "2 * 2 ^ log2_int (n div 2) \<le> n" "n < 2 * 2 ^ Suc (log2_int (n div 2))"
      by linarith+
    then show ?thesis
      using False by (simp add: log2_int.simps [of n])
  qed (use 1 in \<open>simp add: log2_int.simps [of n]\<close>)
qed

lemma log2_int_le:
  assumes "0 < n" and "n \<le> 2 ^ k"
  shows "log2_int n \<le> k"
proof -
  have "(2 :: int) ^ log2_int n \<le> 2 ^ k"
    using log2_int_bounds [OF assms(1)] assms(2) by linarith
  then show ?thesis
    by simp
qed

lemma floor_log2_int_le:
  assumes "0 < n" and "n \<le> 2 ^ 53"
  shows "floor_log2 (of_int n) \<le> 53"
proof -
  have "log2_int n \<le> 53"
    using assms by (rule log2_int_le)
  moreover have "log2_int 1 = 0"
    by (simp add: log2_int.simps)
  ultimately show ?thesis
    by (simp add: floor_log2_def Let_def)
qed

lemma round_half_even_of_int [simp]: "round_half_even (of_int n) = n"
  by (simp add: round_half_even_def)

text \<open>An integer is exact at every exponent up to 0, and at exponent 1 when it is \<open>2 ^ 53\<close>.\<close>

lemma scaled_exact:
  assumes "0 < n" and "n \<le> 2 ^ 53" and "e = max (floor_log2 (of_int n) - 52) (- 1074)"
  shows "of_int (round_half_even (of_int n / pow2 e)) * pow2 e = (of_int n :: rat)"
proof (cases "e \<le> 0")
  case True
  then have "(of_int n :: rat) / pow2 e = of_int (n * 2 ^ nat (- e))"
    using True by (auto simp: pow2_def)
  then have "of_int (round_half_even (of_int n / pow2 e)) = (of_int (n * 2 ^ nat (- e)) :: rat)"
    using round_half_even_of_int by metis
  then show ?thesis
    using True by (auto simp: pow2_def)
next
  case False
  with assms(3) floor_log2_int_le [OF assms(1,2)] have e: "e = 1" "floor_log2 (of_int n) = 53"
    by linarith+
  have l: "log2_int n \<le> 53"
    using assms(1,2) by (rule log2_int_le)
  have one: "log2_int 1 = 0"
    by (simp add: log2_int.simps)
  have "log2_int n = 53"
    using e(2) l by (auto simp: floor_log2_def Let_def one split: if_splits)
  then have "n = 2 ^ 53"
    using log2_int_bounds [of n] assms(1,2) by simp
  then have "(of_int n :: rat) / pow2 e = of_int (2 ^ 52)"
    by (simp add: e(1) pow2_def)
  then have "of_int (round_half_even (of_int n / pow2 e)) = (of_int (2 ^ 52) :: rat)"
    using round_half_even_of_int by metis
  then show ?thesis
    by (simp add: e(1) pow2_def \<open>n = 2 ^ 53\<close>)
qed

lemma max_f64_ge: "(2 ^ 53 :: rat) \<le> max_f64"
proof -
  have "(2 ^ 53 :: int) \<le> (2 ^ 53 - 1) * 2 ^ 971"
    by simp
  then have "(of_int (2 ^ 53) :: rat) \<le> of_int ((2 ^ 53 - 1) * 2 ^ 971)"
    by (rule of_int_le_iff [THEN iffD2])
  then show ?thesis
    by (simp only: max_f64_def of_int_power of_int_numeral)
qed

theorem round_f64_of_int:
  assumes "\<bar>n\<bar> \<le> 2 ^ 53"
  shows "round_f64 (of_int n) = Fin (of_int n)"
proof (cases "n = 0")
  case True
  then show ?thesis by (simp add: round_f64_def)
next
  case False
  have a: "\<bar>of_int n :: rat\<bar> = of_int \<bar>n\<bar>"
    by simp
  have s: "of_int (round_half_even (of_int \<bar>n\<bar> / pow2 (max (floor_log2 (of_int \<bar>n\<bar>) - 52) (- 1074))))
      * pow2 (max (floor_log2 (of_int \<bar>n\<bar>) - 52) (- 1074)) = (of_int \<bar>n\<bar> :: rat)"
    using False assms by (intro scaled_exact) auto
  have "(of_int \<bar>n\<bar> :: rat) \<le> of_int (2 ^ 53)"
    using assms by (rule of_int_le_iff [THEN iffD2])
  then have "\<not> max_f64 < (of_int \<bar>n\<bar> :: rat)"
    using max_f64_ge by simp
  then show ?thesis
    using False unfolding round_f64_def Let_def a s by (auto simp: abs_if)
qed

lemma f64_add_of_int:
  "\<bar>m + n\<bar> \<le> 2 ^ 53 \<Longrightarrow> f64_add (Fin (of_int m)) (Fin (of_int n)) = Fin (of_int (m + n))"
  using round_f64_of_int [of "m + n"] by simp

lemma f64_sub_of_int:
  "\<bar>m - n\<bar> \<le> 2 ^ 53 \<Longrightarrow> f64_sub (Fin (of_int m)) (Fin (of_int n)) = Fin (of_int (m - n))"
  using round_f64_of_int [of "m - n"] by (simp add: f64_sub_def)

end
