(* ===== verification/Database.thy ===== *)
theory Database
  imports Float64 Wire_Names
begin

text \<open>
  The database as the modelled statements see it: one record per table with the columns those
  statements read or write, one list of rows per table, and the outcome of a statement as a
  result. A request runs its statements inside one transaction: a step is a function from the
  database to a result and the next database, and a transaction that fails leaves the database
  as it was. Row locks have no effect on a run taken alone and are not represented. Losing the
  connection is not represented either: the server answers every statement.
\<close>

named_theorems tx_unfold \<open>inversion of successful transaction steps\<close>

section \<open>Tables\<close>

text \<open>A time is the number of microseconds since the epoch, the resolution of \<^verbatim>\<open>timestamptz\<close>.\<close>

record laboratory_row =
  la_laboratory_id :: uuid
  la_name :: rstr
  la_address :: rstr
  la_description :: "rstr option"
  la_contact :: "rstr option"
  la_created_at :: int
  la_updated_at :: int

record user_type_row =
  ut_user_type_id :: uuid
  ut_name :: rstr

record user_row =
  us_user_id :: uuid
  us_username :: rstr
  us_password_hash :: rstr
  us_user_type_id :: uuid
  us_laboratory_id :: "uuid option"
  us_email :: "rstr option"
  us_phone_number :: "rstr option"
  us_description :: "rstr option"
  us_created_at :: int
  us_last_login_at :: "int option"
  us_is_federation_shadow :: bool

record unit_row =
  un_unit_id :: uuid
  un_laboratory_id :: uuid
  un_code :: rstr
  un_name :: rstr
  un_symbol :: rstr
  un_dimension :: rstr
  un_scale_to_base :: f64
  un_allow_decimal :: bool
  un_created_at :: int

text \<open>
  The two trees. A path is kept in its text form, the labels joined by dots, which is the form the
  program reads and writes (\<^verbatim>\<open>path::text\<close>, \<^verbatim>\<open>$n::text::ltree\<close>).
\<close>

record location_row =
  lo_location_id :: uuid
  lo_laboratory_id :: uuid
  lo_parent_location_id :: "uuid option"
  lo_name :: rstr
  lo_code :: rstr
  lo_path :: rstr
  lo_depth :: i32
  lo_description :: "rstr option"
  lo_created_at :: int
  lo_updated_at :: int

record category_row =
  ca_category_id :: uuid
  ca_laboratory_id :: uuid
  ca_parent_category_id :: "uuid option"
  ca_name :: rstr
  ca_code :: rstr
  ca_path :: rstr
  ca_depth :: i32
  ca_description :: "rstr option"
  ca_created_at :: int
  ca_updated_at :: int

text \<open>
  The assignments of parameters to categories. The table also has a column for single assets and
  one for a unit of the assignment; no statement of the program writes either.
\<close>

record assignment_row =
  ag_assignment_id :: uuid
  ag_laboratory_id :: uuid
  ag_parameter_type_id :: uuid
  ag_category_id :: uuid
  ag_applies_to_descendants :: bool
  ag_is_required :: bool
  ag_sort_order :: i32
  ag_created_at :: int

record parameter_type_row =
  pt_parameter_type_id :: uuid
  pt_laboratory_id :: uuid
  pt_code :: rstr
  pt_name :: rstr
  pt_data_type :: rstr
  pt_unit_dimension :: "rstr option"
  pt_default_unit_id :: "uuid option"
  pt_description :: "rstr option"
  pt_created_at :: int
  pt_updated_at :: int

record option_row =
  po_option_id :: uuid
  po_parameter_type_id :: uuid
  po_code :: rstr
  po_label :: rstr
  po_sort_order :: i32

text \<open>The value columns of a stored value, by the data type they belong to. A date is a day number.\<close>

record value_columns =
  vc_text :: "rstr option"
  vc_number :: "f64 option"
  vc_number_in_base :: "f64 option"
  vc_range_start :: "f64 option"
  vc_range_end :: "f64 option"
  vc_range_start_in_base :: "f64 option"
  vc_range_end_in_base :: "f64 option"
  vc_unit_id :: "uuid option"
  vc_boolean :: "bool option"
  vc_date :: "int option"
  vc_option_id :: "uuid option"

record value_row =
  pv_value_id :: uuid
  pv_laboratory_id :: uuid
  pv_asset_id :: uuid
  pv_parameter_type_id :: uuid
  pv_data_type :: rstr
  pv_columns :: value_columns
  pv_created_at :: int
  pv_updated_at :: int

record asset_row =
  as_asset_id :: uuid
  as_laboratory_id :: uuid
  as_tracking_mode :: rstr
  as_category_id :: "uuid option"
  as_name :: rstr
  as_model :: "rstr option"
  as_manufacturer :: "rstr option"
  as_inventory_unit_id :: uuid
  as_public_notes :: "rstr option"
  as_internal_notes :: "rstr option"
  as_created_at :: int
  as_updated_at :: int

record inventory_row =
  ii_inventory_item_id :: uuid
  ii_asset_id :: uuid
  ii_laboratory_id :: uuid
  ii_tracking_mode :: rstr
  ii_serial_number :: "rstr option"
  ii_batch_number :: "rstr option"
  ii_quantity_on_hand :: rat
  ii_quantity_allocated :: rat
  ii_location_id :: "uuid option"
  ii_status :: rstr
  ii_public_notes :: "rstr option"
  ii_internal_notes :: "rstr option"
  ii_created_at :: int
  ii_updated_at :: int
  ii_last_stocktake_at :: "int option"

record upload_row =
  up_upload_id :: uuid
  up_laboratory_id :: uuid
  up_storage_backend :: rstr
  up_storage_key :: rstr
  up_original_file_name :: rstr
  up_mime_type :: "rstr option"
  up_file_size_bytes :: i64
  up_sha256_hex :: rstr
  up_uploaded_by_user_id :: uuid
  up_created_at :: int
  up_expires_at :: int
  up_consumed_at :: "int option"

record file_row =
  fi_file_id :: uuid
  fi_laboratory_id :: uuid
  fi_storage_backend :: rstr
  fi_storage_key :: rstr
  fi_original_file_name :: rstr
  fi_mime_type :: "rstr option"
  fi_file_size_bytes :: i64
  fi_sha256_hex :: rstr
  fi_uploaded_by_user_id :: "uuid option"
  fi_created_at :: int

record attachment_row =
  at_attachment_id :: uuid
  at_laboratory_id :: uuid
  at_file_id :: uuid
  at_asset_id :: "uuid option"
  at_inventory_item_id :: "uuid option"
  at_display_name :: rstr
  at_description :: "rstr option"
  at_is_public :: bool
  at_assigned_by_user_id :: "uuid option"
  at_created_at :: int
  at_updated_at :: int

record printer_row =
  pr_printer_id :: uuid
  pr_laboratory_id :: uuid
  pr_name :: rstr
  pr_host :: rstr
  pr_port :: i32
  pr_model :: rstr
  pr_media_kind :: rstr
  pr_media_width_mm :: i32
  pr_media_length_mm :: "i32 option"
  pr_auto_cut :: bool
  pr_created_at :: int
  pr_updated_at :: int

record code_row =
  rc_registration_code_id :: uuid
  rc_laboratory_id :: uuid
  rc_code_hmac :: rstr
  rc_created_by_user_id :: uuid
  rc_created_at :: int
  rc_expires_at :: int
  rc_consumed_at :: "int option"
  rc_revoked_at :: "int option"

record guest_link_row =
  gl_link_id :: uuid
  gl_local_guest_user_id :: uuid
  gl_local_laboratory_id :: uuid

record borrow_row =
  br_borrow_request_id :: uuid
  br_local_laboratory_id :: uuid
  br_inventory_item_id :: uuid
  br_requester_user_id :: "uuid option"
  br_requester_username :: rstr
  br_requester_user_type :: rstr
  br_requester_guest_link_id :: "uuid option"
  br_request_note :: "rstr option"
  br_status :: rstr
  br_reviewed_by_user_id :: "uuid option"
  br_reviewed_by_username :: "rstr option"
  br_reviewed_by_user_type :: "rstr option"
  br_reviewed_at :: "int option"
  br_decision_note :: "rstr option"
  br_created_at :: int
  br_updated_at :: int

section \<open>Inventory items as the program reads them\<close>

text \<open>\<^verbatim>\<open>InventoryItemRow\<close>: the columns of an item with those of its asset, quantities as \<^verbatim>\<open>f64\<close>.\<close>

record inventory_item =
  it_inventory_item_id :: uuid
  it_asset_id :: uuid
  it_laboratory_id :: uuid
  it_tracking_mode :: rstr
  it_serial_number :: "rstr option"
  it_batch_number :: "rstr option"
  it_quantity_on_hand :: f64
  it_quantity_allocated :: f64
  it_location_id :: "uuid option"
  it_status :: rstr
  it_public_notes :: "rstr option"
  it_internal_notes :: "rstr option"
  it_created_at :: int
  it_updated_at :: int
  it_last_stocktake_at :: "int option"
  it_asset_category_id :: "uuid option"
  it_asset_name :: rstr
  it_asset_model :: "rstr option"
  it_asset_manufacturer :: "rstr option"
  it_asset_inventory_unit_id :: uuid

section \<open>Assets and their values as the program reads them\<close>

text \<open>
  Joined rows. \<^verbatim>\<open>AssetRow\<close> is an asset with the number of its items and the sums of their quantities;
  \<^verbatim>\<open>AssetInventoryItemRow\<close> is an item with its quantities as \<^verbatim>\<open>f64\<close>. A stored value is read with
  columns of its asset by the parameter routes, with columns of its parameter by the asset routes,
  and with its option, if it has one, by both.
\<close>

record asset_view =
  av_asset :: asset_row
  av_inventory_item_count :: int
  av_quantity_on_hand :: f64
  av_quantity_allocated :: f64

record asset_item =
  ai_item :: inventory_row
  ai_quantity_on_hand :: f64
  ai_quantity_allocated :: f64

record parameter_value =
  vv_row :: value_row
  vv_asset_name :: rstr
  vv_asset_model :: "rstr option"
  vv_option_code :: "rstr option"
  vv_option_label :: "rstr option"

record asset_value =
  aw_row :: value_row
  aw_code :: rstr
  aw_name :: rstr
  aw_unit_dimension :: "rstr option"
  aw_default_unit_id :: "uuid option"
  aw_option_code :: "rstr option"
  aw_option_label :: "rstr option"

section \<open>Attachments and accounts as the program reads them\<close>

text \<open>
  \<^verbatim>\<open>AttachmentRow\<close> joins an attachment with its file, \<^verbatim>\<open>UserRow\<close> an account with the names of its type
  and its laboratory.
\<close>

record attachment_view =
  tv_attachment :: attachment_row
  tv_file :: file_row

record user_view =
  uv_user :: user_row
  uv_user_type_name :: rstr
  uv_laboratory_name :: "rstr option"

section \<open>The audit log\<close>

datatype audit_action =
    Audit_Create | Audit_Update | Audit_Delete | Audit_Adjust | Audit_Move | Audit_Stocktake
  | Audit_Allocate | Audit_ReleaseAllocation | Audit_Print

fun AuditAction_as_str :: "audit_action \<Rightarrow> rstr" where
  "AuditAction_as_str Audit_Create = lit ''create''"
| "AuditAction_as_str Audit_Update = lit ''update''"
| "AuditAction_as_str Audit_Delete = lit ''delete''"
| "AuditAction_as_str Audit_Adjust = lit ''adjust''"
| "AuditAction_as_str Audit_Move = lit ''move''"
| "AuditAction_as_str Audit_Stocktake = lit ''stocktake''"
| "AuditAction_as_str Audit_Allocate = lit ''allocate''"
| "AuditAction_as_str Audit_ReleaseAllocation = lit ''release_allocation''"
| "AuditAction_as_str Audit_Print = lit ''print''"

datatype audit_resource =
    Res_Laboratory | Res_User | Res_GuestRegistrationCode | Res_AssetCategory | Res_Location
  | Res_Asset | Res_AssetParameter | Res_InventoryItem | Res_BorrowRequest | Res_Attachment
  | Res_Unit | Res_FederationTrust | Res_FederationGuestLink | Res_LabelPrinter

fun AuditResource_as_str :: "audit_resource \<Rightarrow> rstr" where
  "AuditResource_as_str Res_Laboratory = lit ''laboratory''"
| "AuditResource_as_str Res_User = lit ''user''"
| "AuditResource_as_str Res_GuestRegistrationCode = lit ''guest_registration_code''"
| "AuditResource_as_str Res_AssetCategory = lit ''asset_category''"
| "AuditResource_as_str Res_Location = lit ''location''"
| "AuditResource_as_str Res_Asset = lit ''asset''"
| "AuditResource_as_str Res_AssetParameter = lit ''asset_parameter''"
| "AuditResource_as_str Res_InventoryItem = lit ''inventory_item''"
| "AuditResource_as_str Res_BorrowRequest = lit ''borrow_request''"
| "AuditResource_as_str Res_Attachment = lit ''attachment''"
| "AuditResource_as_str Res_Unit = lit ''unit''"
| "AuditResource_as_str Res_FederationTrust = lit ''federation_trust''"
| "AuditResource_as_str Res_FederationGuestLink = lit ''federation_guest_link''"
| "AuditResource_as_str Res_LabelPrinter = lit ''label_printer''"

text \<open>
  The \<^verbatim>\<open>details\<close> of an entry. Each constructor is one JSON builder of the model modules, its
  arguments the values that builder embeds.
\<close>

datatype audit_details =
    Details_create_items "uuid list"
  | Details_update_item inventory_item
  | Details_delete_item inventory_item "uuid list"
  | Details_split inventory_item "inventory_item option" inventory_item
  | Details_merge inventory_item "inventory_item list" "uuid list"
  | Details_borrow uuid uuid rstr "rstr option"
  | Details_create_location uuid
  | Details_update_location location_row
  | Details_delete_locations "location_row list" "uuid list"
  | Details_create_category uuid
  | Details_update_category category_row "assignment_row list"
  | Details_delete_categories "category_row list" "uuid list" "assignment_row list"
  | Details_create_unit uuid
  | Details_update_unit unit_row
  | Details_delete_unit unit_row
  | Details_create_parameter uuid
  | Details_update_parameter parameter_type_row "option_row list" "parameter_value list"
  | Details_delete_parameter parameter_type_row "option_row list" "assignment_row list" "parameter_value list"
  | Details_create_asset uuid
  | Details_update_asset asset_view "asset_value list"
  | Details_delete_asset asset_view "asset_item list" "asset_value list" "uuid list"
  | Details_create_attachment uuid uuid rstr
  | Details_update_attachment attachment_view
  | Details_delete_attachment attachment_view
  | Details_create_user uuid
  | Details_register_guest uuid uuid uuid uuid
  | Details_update_user user_view
  | Details_delete_user user_view
  | Details_create_code uuid uuid int
  | Details_replaced_code uuid int
  | Details_consumed_code uuid uuid
  | Details_create_laboratory uuid
  | Details_update_laboratory laboratory_row
  | Details_delete_laboratory laboratory_row
  | Details_create_printer uuid
  | Details_update_printer printer_row
  | Details_delete_printer printer_row
  | Details_print_labels printer_row nat u32

text \<open>The id and the time of an entry are generated on insertion and read by no modelled code.\<close>

record audit_row =
  au_actor_user_id :: "uuid option"
  au_action :: rstr
  au_resource_type :: rstr
  au_resource_id :: "uuid option"
  au_details :: audit_details

record database =
  laboratory_rows :: "laboratory_row list"
  user_types :: "user_type_row list"
  users :: "user_row list"
  unit_dimensions :: "rstr list"
  units :: "unit_row list"
  locations :: "location_row list"
  asset_categories :: "category_row list"
  asset_parameter_types :: "parameter_type_row list"
  parameter_options :: "option_row list"
  parameter_assignments :: "assignment_row list"
  parameter_values :: "value_row list"
  assets :: "asset_row list"
  inventory_items :: "inventory_row list"
  file_uploads :: "upload_row list"
  files :: "file_row list"
  attachments :: "attachment_row list"
  label_printers :: "printer_row list"
  guest_links :: "guest_link_row list"
  registration_codes :: "code_row list"
  borrow_requests :: "borrow_row list"
  audit_logs :: "audit_row list"

abbreviation laboratories :: "database \<Rightarrow> uuid list" where
  "laboratories db \<equiv> map la_laboratory_id (laboratory_rows db)"

text \<open>
  What a request draws from its surroundings: the time \<^verbatim>\<open>now()\<close> of its transaction, its \<open>i\<close>-th
  \<^verbatim>\<open>Uuid::new_v4()\<close>, the server's two numeric casts (\<open>None\<close> when the cast is an error of the
  statement), the number of grapheme clusters of a string, whether the server can store and
  index a path of these labels (it limits their number and the size of an index entry), the text
  forms of ids and dates (\<^verbatim>\<open>Uuid::parse_str\<close>, the text of an id in JSON,
  \<^verbatim>\<open>NaiveDate::parse_from_str\<close> with the format \<^verbatim>\<open>%Y-%m-%d\<close>, \<^verbatim>\<open>NaiveDate::to_string\<close>), the collation of
  the database, as the sort key of a text, the clock of the program (\<^verbatim>\<open>Utc::now()\<close>), the hash it makes
  of a password (\<open>None\<close> when hashing fails), whether the validation library takes a text for an
  e-mail address, the digest of a registration code under the secret of the server, its \<open>i\<close>-th random
  draw of a code, the hexadecimal SHA-256 digest of a file, and the standard base64 decoding.
\<close>

record env =
  env_now :: int
  env_new_v4 :: "nat \<Rightarrow> uuid"
  float8_numeric :: "f64 \<Rightarrow> rat option"
  numeric_float8 :: "rat \<Rightarrow> f64 option"
  graphemes_count :: "rstr \<Rightarrow> nat"
  ltree_storable :: "rstr list \<Rightarrow> bool"
  Uuid_parse_str :: "rstr \<Rightarrow> uuid option"
  Uuid_to_string :: "uuid \<Rightarrow> rstr"
  NaiveDate_parse :: "rstr \<Rightarrow> int option"
  NaiveDate_to_string :: "int \<Rightarrow> rstr"
  collation_key :: "rstr \<Rightarrow> nat list"
  env_clock :: int
  hash_password :: "rstr \<Rightarrow> rstr option"
  validate_email :: "rstr \<Rightarrow> bool"
  hash_code :: "rstr \<Rightarrow> rstr"
  draw_code :: "nat \<Rightarrow> nat"
  sha256_hex :: "u8 list \<Rightarrow> rstr"
  base64_decode :: "rstr \<Rightarrow> u8 list option"

section \<open>Statements over rows\<close>

text \<open>\<^verbatim>\<open>fetch_optional\<close>: the first row that matches.\<close>

definition fetch_optional :: "('row \<Rightarrow> bool) \<Rightarrow> 'row list \<Rightarrow> 'row option" where
  "fetch_optional matches rows = find matches rows"

text \<open>\<^verbatim>\<open>UPDATE t SET ... WHERE matches\<close>.\<close>

definition update_rows :: "('row \<Rightarrow> bool) \<Rightarrow> ('row \<Rightarrow> 'row) \<Rightarrow> 'row list \<Rightarrow> 'row list" where
  "update_rows matches change rows = map (\<lambda>r. if matches r then change r else r) rows"

lemma fetch_optional_Some:
  "fetch_optional p rows = Some r \<Longrightarrow> r \<in> set rows \<and> p r"
  by (auto simp: fetch_optional_def find_Some_iff)

lemma fetch_optional_None: "fetch_optional p rows = None \<longleftrightarrow> (\<forall>r\<in>set rows. \<not> p r)"
  by (auto simp: fetch_optional_def find_None_iff)

lemma fetch_optional_unique:
  assumes "distinct (map key rows)" and "r \<in> set rows"
  shows "fetch_optional (\<lambda>x. key x = key r) rows = Some r"
proof (cases "fetch_optional (\<lambda>x. key x = key r) rows")
  case None
  with assms(2) show ?thesis
    by (auto simp: fetch_optional_None)
next
  case (Some x)
  then have "x \<in> set rows" "key x = key r"
    using fetch_optional_Some by fast+
  with assms have "x = r"
    by (auto simp: distinct_map dest: inj_onD)
  with Some show ?thesis
    by simp
qed

lemma length_update_rows [simp]: "length (update_rows p f rows) = length rows"
  by (simp add: update_rows_def)

lemma set_update_rows:
  "set (update_rows p f rows) = f ` {r \<in> set rows. p r} \<union> {r \<in> set rows. \<not> p r}"
  by (auto simp: update_rows_def)

text \<open>
  An \<^verbatim>\<open>UPDATE\<close> that writes no key column: it addresses the rows it means to, keeps the keys of
  the table, and is read back by key.
\<close>

locale row_update =
  fixes key :: "'row \<Rightarrow> 'k" and change :: "'row \<Rightarrow> 'row"
  assumes key_change: "key (change r) = key r"
begin

lemma keys: "map key (update_rows p change rows) = map key rows"
  by (simp add: update_rows_def key_change)

lemma distinct_keys: "distinct (map key (update_rows p change rows)) = distinct (map key rows)"
  by (simp add: keys)

lemma read_back:
  "fetch_optional (\<lambda>r. key r = k) (update_rows (\<lambda>r. key r = k) change rows)
     = map_option change (fetch_optional (\<lambda>r. key r = k) rows)"
  by (induction rows) (auto simp: fetch_optional_def update_rows_def key_change)

lemma read_other:
  "k' \<noteq> k \<Longrightarrow>
   fetch_optional (\<lambda>r. key r = k') (update_rows (\<lambda>r. key r = k) change rows)
     = fetch_optional (\<lambda>r. key r = k') rows"
  by (induction rows) (auto simp: fetch_optional_def update_rows_def key_change)

end

section \<open>Statement errors\<close>

datatype sql_error =
    UniqueViolation rstr
  | ForeignKeyViolation
  | CheckViolation
  | OtherSqlError rstr

section \<open>Transactions\<close>

type_synonym ('e, 'a) tx = "database \<Rightarrow> ('e, 'a \<times> database) result"

definition tx_return :: "'a \<Rightarrow> ('e, 'a) tx" where
  "tx_return x = (\<lambda>db. Inr (x, db))"

definition tx_bind :: "('e, 'a) tx \<Rightarrow> ('a \<Rightarrow> ('e, 'b) tx) \<Rightarrow> ('e, 'b) tx" where
  "tx_bind m f = (\<lambda>db. and_then (m db) (\<lambda>(x, db'). f x db'))"

text \<open>A query that writes nothing, and a step that does not touch the database.\<close>

definition tx_read :: "(database \<Rightarrow> ('e, 'a) result) \<Rightarrow> ('e, 'a) tx" where
  "tx_read q = (\<lambda>db. map_sum id (\<lambda>x. (x, db)) (q db))"

definition tx_lift :: "('e, 'a) result \<Rightarrow> ('e, 'a) tx" where
  "tx_lift r = tx_read (\<lambda>_. r)"

definition tx_write :: "(database \<Rightarrow> ('e, database) result) \<Rightarrow> ('e, unit) tx" where
  "tx_write w = (\<lambda>db. map_sum id (\<lambda>db'. ((), db')) (w db))"

definition tx_map_err :: "('e \<Rightarrow> 'f) \<Rightarrow> ('e, 'a) tx \<Rightarrow> ('f, 'a) tx" where
  "tx_map_err g m = (\<lambda>db. map_err g (m db))"

fun tx_for_each :: "('a \<Rightarrow> ('e, 'b) tx) \<Rightarrow> 'a list \<Rightarrow> ('e, 'b list) tx" where
  "tx_for_each f [] = tx_return []"
| "tx_for_each f (x # xs) =
     tx_bind (f x) (\<lambda>y. tx_bind (tx_for_each f xs) (\<lambda>ys. tx_return (y # ys)))"

text \<open>\<^verbatim>\<open>begin\<close> to \<^verbatim>\<open>commit\<close>: dropping the transaction on an error rolls it back.\<close>

definition transaction :: "('e, 'a) tx \<Rightarrow> database \<Rightarrow> ('e, 'a) result \<times> database" where
  "transaction body db =
     (case body db of Inl e \<Rightarrow> (Inl e, db) | Inr (x, db') \<Rightarrow> (Inr x, db'))"

lemma tx_return_Inr [tx_unfold]: "tx_return x db = Inr (y, db') \<longleftrightarrow> y = x \<and> db' = db"
  by (auto simp: tx_return_def)

lemma tx_bind_Inr [tx_unfold]:
  "tx_bind m f db = Inr (y, db'') \<longleftrightarrow> (\<exists>x db'. m db = Inr (x, db') \<and> f x db' = Inr (y, db''))"
  by (auto simp: tx_bind_def and_then_Inr_iff)

lemma tx_bind_Inl:
  "tx_bind m f db = Inl e \<longleftrightarrow>
     m db = Inl e \<or> (\<exists>x db'. m db = Inr (x, db') \<and> f x db' = Inl e)"
  by (auto simp: tx_bind_def and_then_Inl_iff)

lemma tx_read_Inr [tx_unfold]: "tx_read q db = Inr (x, db') \<longleftrightarrow> q db = Inr x \<and> db' = db"
  by (cases "q db") (auto simp: tx_read_def)

lemma tx_read_Inl [simp]: "tx_read q db = Inl e \<longleftrightarrow> q db = Inl e"
  by (cases "q db") (auto simp: tx_read_def)

lemma tx_lift_Inr [tx_unfold]: "tx_lift r db = Inr (x, db') \<longleftrightarrow> r = Inr x \<and> db' = db"
  by (simp add: tx_lift_def tx_read_Inr)

lemma tx_lift_Inl [simp]: "tx_lift r db = Inl e \<longleftrightarrow> r = Inl e"
  by (simp add: tx_lift_def)

lemma tx_write_Inr [tx_unfold]: "tx_write w db = Inr (u, db') \<longleftrightarrow> w db = Inr db'"
  by (cases "w db") (auto simp: tx_write_def)

lemma tx_map_err_Inr [tx_unfold]: "tx_map_err g m db = Inr p \<longleftrightarrow> m db = Inr p"
  by (simp add: tx_map_err_def map_err_Inr_iff)

lemma tx_step:
  "tx_bind m f db = (case m db of Inl e \<Rightarrow> Inl e | Inr (x, db') \<Rightarrow> f x db')"
  by (auto simp: tx_bind_def split: sum.split)

lemma transaction_Inr:
  "transaction body db = (Inr x, db') \<longleftrightarrow> body db = Inr (x, db')"
  by (auto simp: transaction_def split: sum.splits)

lemma transaction_Inl:
  "transaction body db = (Inl e, db') \<longleftrightarrow> body db = Inl e \<and> db' = db"
  by (auto simp: transaction_def split: sum.splits)

text \<open>\<^verbatim>\<open>record_audit\<close>. Its only constraint is the reference to the acting user.\<close>

definition record_audit ::
    "uuid \<Rightarrow> audit_action \<Rightarrow> audit_resource \<Rightarrow> uuid option \<Rightarrow> audit_details
       \<Rightarrow> (sql_error, unit) tx" where
  "record_audit actor_user_id action resource_type resource_id details =
     tx_write (\<lambda>db.
       if \<exists>u\<in>set (users db). us_user_id u = actor_user_id
       then Inr (db\<lparr>audit_logs := audit_logs db @
              [\<lparr>au_actor_user_id = Some actor_user_id, au_action = AuditAction_as_str action,
                au_resource_type = AuditResource_as_str resource_type,
                au_resource_id = resource_id, au_details = details\<rparr>]\<rparr>)
       else Inl ForeignKeyViolation)"

lemma record_audit_Inr [tx_unfold]:
  "record_audit a act res i d db = Inr (u, db') \<longleftrightarrow>
     (\<exists>v\<in>set (users db). us_user_id v = a) \<and>
     db' = db\<lparr>audit_logs := audit_logs db @
       [\<lparr>au_actor_user_id = Some a, au_action = AuditAction_as_str act,
         au_resource_type = AuditResource_as_str res, au_resource_id = i, au_details = d\<rparr>]\<rparr>"
  by (auto simp: record_audit_def tx_write_Inr)

section \<open>Runs\<close>

text \<open>A transition system with an invariant: what every step keeps, every run keeps.\<close>

locale invariant_system =
  fixes step :: "'s \<Rightarrow> 's \<Rightarrow> bool" and inv :: "'s \<Rightarrow> bool" and keeps :: "'s \<Rightarrow> 's \<Rightarrow> bool"
  assumes inv_step: "inv s \<Longrightarrow> step s t \<Longrightarrow> inv t"
    and keeps_step: "inv s \<Longrightarrow> step s t \<Longrightarrow> keeps s t"
    and keeps_refl: "keeps s s"
    and keeps_trans: "keeps s t \<Longrightarrow> keeps t u \<Longrightarrow> keeps s u"
begin

lemma run: "step\<^sup>*\<^sup>* s t \<Longrightarrow> inv s \<Longrightarrow> inv t \<and> keeps s t"
proof (induction rule: rtranclp_induct)
  case base
  then show ?case by (simp add: keeps_refl)
next
  case (step t u)
  then show ?case
    using inv_step keeps_step keeps_trans by blast
qed

end

end
