(* ===== verification/Access_Control.thy ===== *)
theory Access_Control
  imports Database
begin

text \<open>
  \<^verbatim>\<open>access_control.rs\<close> and \<^verbatim>\<open>authentication/middleware.rs\<close>: who is acting, in which laboratory,
  and what the permission table answers. Two contracts carry the proofs: a \<open>laboratory_gate\<close>
  is a predicate that lets only system administrators and the laboratory's own accounts
  through, and a row addressed by id is guarded by the gate of the laboratory it belongs to.
\<close>

section \<open>Actors\<close>

record actor =
  actor_user_id :: uuid
  actor_user_type :: user_type
  actor_laboratory_id :: "uuid option"

record user_role =
  role_user_type :: user_type
  role_laboratory_id :: "uuid option"

definition UserRole_new :: "user_type \<Rightarrow> uuid option \<Rightarrow> (rstr, user_role) result" where
  "UserRole_new ty lab =
     (if \<not> (ty = SuperAdmin \<or> ty = Root) \<and> lab = None
      then Inl (lit ''Laboratory ID is required for '' @ UserType_as_str ty @ lit ''.'')
      else Inr \<lparr>role_user_type = ty, role_laboratory_id = lab\<rparr>)"

definition is_guest :: "actor \<Rightarrow> bool" where
  "is_guest a \<longleftrightarrow> actor_user_type a = Guest"

definition is_admin :: "actor \<Rightarrow> bool" where
  "is_admin a \<longleftrightarrow> actor_user_type a = Root \<or> actor_user_type a = SuperAdmin \<or> actor_user_type a = LabAdmin"

definition is_system_admin :: "actor \<Rightarrow> bool" where
  "is_system_admin a \<longleftrightarrow> actor_user_type a = Root \<or> actor_user_type a = SuperAdmin"

definition is_lab_admin :: "actor \<Rightarrow> bool" where
  "is_lab_admin a \<longleftrightarrow> actor_user_type a = LabAdmin"

definition is_regular_user :: "actor \<Rightarrow> bool" where
  "is_regular_user a \<longleftrightarrow> actor_user_type a = User"

definition is_super_admin :: "actor \<Rightarrow> bool" where
  "is_super_admin a \<longleftrightarrow> actor_user_type a = SuperAdmin"

definition is_root :: "actor \<Rightarrow> bool" where
  "is_root a \<longleftrightarrow> actor_user_type a = Root"

lemmas actor_roles = is_guest_def is_admin_def is_system_admin_def is_lab_admin_def
  is_regular_user_def is_super_admin_def is_root_def

definition can_manage_user :: "actor \<Rightarrow> user_role \<Rightarrow> bool" where
  "can_manage_user a target =
     (if \<not> is_admin a then False
      else if is_lab_admin a then
        (if role_user_type target = Root \<or> role_user_type target = SuperAdmin then False
         else (case role_laboratory_id target of
                 Some lab \<Rightarrow> actor_laboratory_id a = Some lab
               | None \<Rightarrow> False))
      else if is_super_admin a then role_user_type target \<noteq> Root
      else if is_root a then True
      else False)"

definition can_create_guest_registration_code :: "actor \<Rightarrow> uuid \<Rightarrow> bool" where
  "can_create_guest_registration_code a lab \<longleftrightarrow>
     (actor_user_type a = LabAdmin \<or> actor_user_type a = User) \<and> actor_laboratory_id a = Some lab"

text \<open>
  \<^verbatim>\<open>get_actor\<close> reads the view \<^verbatim>\<open>v_actors\<close>: every user, with the name of its type when the
  left join finds one.
\<close>

definition get_actor :: "database \<Rightarrow> uuid \<Rightarrow> (rstr, actor option) result" where
  "get_actor db user_id =
     (case fetch_optional (\<lambda>u. us_user_id u = user_id) (users db) of
        None \<Rightarrow> Inr None
      | Some u \<Rightarrow>
          and_then (ok_or (lit ''Actor user_type_name is NULL'')
              (map_option ut_name
                (fetch_optional (\<lambda>t. ut_user_type_id t = us_user_type_id u) (user_types db))))
            (\<lambda>name. and_then (UserType_parse name)
            (\<lambda>ty. Inr (Some \<lparr>actor_user_id = us_user_id u, actor_user_type = ty,
                             actor_laboratory_id = us_laboratory_id u\<rparr>))))"

definition can_view_user :: "database \<Rightarrow> actor \<Rightarrow> uuid \<Rightarrow> (rstr, bool) result" where
  "can_view_user db a target_user_id =
     and_then (get_actor db target_user_id) (\<lambda>target.
       Inr (case target of
         None \<Rightarrow> False
       | Some target \<Rightarrow>
           if actor_user_id a = target_user_id then True
           else if is_guest a then False
           else if is_root a then True
           else if is_admin a then
             (if is_lab_admin a then
                (if actor_user_type target = SuperAdmin \<or> actor_user_type target = Root then False
                 else (case actor_laboratory_id target of
                         Some lab \<Rightarrow> actor_laboratory_id a = Some lab
                       | None \<Rightarrow> False))
              else if is_super_admin a then actor_user_type target \<noteq> Root
              else False)
           else (case actor_laboratory_id a of
                   Some lab \<Rightarrow> actor_laboratory_id target = Some lab
                 | None \<Rightarrow> False)))"

section \<open>Laboratory predicates\<close>

definition can_write_laboratory_resource :: "actor \<Rightarrow> uuid \<Rightarrow> bool" where
  "can_write_laboratory_resource a lab =
     (if is_guest a then False else is_system_admin a \<or> actor_laboratory_id a = Some lab)"

definition can_browse_laboratory_resource :: "actor \<Rightarrow> uuid \<Rightarrow> bool" where
  "can_browse_laboratory_resource a lab \<longleftrightarrow> is_system_admin a \<or> actor_laboratory_id a = Some lab"

definition can_browse_laboratory_internal_resource :: "actor \<Rightarrow> uuid \<Rightarrow> bool" where
  "can_browse_laboratory_internal_resource a lab \<longleftrightarrow>
     is_system_admin a \<or> (actor_laboratory_id a = Some lab \<and> \<not> is_guest a)"

definition can_manage_units :: "actor \<Rightarrow> uuid \<Rightarrow> bool" where
  "can_manage_units a lab \<longleftrightarrow>
     is_system_admin a \<or> (is_lab_admin a \<and> actor_laboratory_id a = Some lab)"

definition can_read_laboratory_resource :: "actor \<Rightarrow> uuid \<Rightarrow> bool" where
  "can_read_laboratory_resource a lab \<longleftrightarrow>
     is_root a \<or> is_super_admin a \<or> actor_laboratory_id a = Some lab"

definition can_query_laboratory_resource :: "actor \<Rightarrow> uuid \<Rightarrow> bool" where
  "can_query_laboratory_resource a lab = can_read_laboratory_resource a lab"

definition can_browse_laboratories :: "actor \<Rightarrow> bool" where
  "can_browse_laboratories a \<longleftrightarrow>
     is_root a \<or> is_super_admin a
     \<or> ((is_lab_admin a \<or> is_regular_user a) \<and> actor_laboratory_id a \<noteq> None)"

definition can_manage_federation :: "actor \<Rightarrow> uuid \<Rightarrow> bool" where
  "can_manage_federation a lab \<longleftrightarrow> is_lab_admin a \<and> actor_laboratory_id a = Some lab"

definition can_read_federation :: "actor \<Rightarrow> uuid \<Rightarrow> bool" where
  "can_read_federation a lab \<longleftrightarrow>
     (is_lab_admin a \<or> is_regular_user a) \<and> actor_laboratory_id a = Some lab"

definition can_manage_label_printers :: "actor \<Rightarrow> uuid \<Rightarrow> bool" where
  "can_manage_label_printers a lab \<longleftrightarrow>
     is_system_admin a \<or> (is_lab_admin a \<and> actor_laboratory_id a = Some lab)"

definition can_use_label_printers :: "actor \<Rightarrow> uuid \<Rightarrow> bool" where
  "can_use_label_printers a lab = can_browse_laboratory_internal_resource a lab"

section \<open>Rows addressed by id\<close>

text \<open>\<open>row_allows v f\<close> is \<^verbatim>\<open>row.map(f).unwrap_or(false)\<close>.\<close>

definition row_allows :: "'row option \<Rightarrow> ('row \<Rightarrow> bool) \<Rightarrow> bool" where
  "row_allows row f = (case row of None \<Rightarrow> False | Some r \<Rightarrow> f r)"

definition can_manage_unit :: "database \<Rightarrow> actor \<Rightarrow> uuid \<Rightarrow> bool" where
  "can_manage_unit db a unit_id =
     row_allows (fetch_optional (\<lambda>r. un_unit_id r = unit_id) (units db))
       (\<lambda>r. can_manage_units a (un_laboratory_id r))"

definition can_view_unit :: "database \<Rightarrow> actor \<Rightarrow> uuid \<Rightarrow> bool" where
  "can_view_unit db a unit_id =
     row_allows (fetch_optional (\<lambda>r. un_unit_id r = unit_id) (units db))
       (\<lambda>r. is_system_admin a \<or> actor_laboratory_id a = Some (un_laboratory_id r))"

definition can_manage_location :: "database \<Rightarrow> actor \<Rightarrow> uuid \<Rightarrow> bool" where
  "can_manage_location db a location_id =
     row_allows (fetch_optional (\<lambda>r. lo_location_id r = location_id) (locations db))
       (\<lambda>r. \<not> is_guest a \<and> (is_system_admin a \<or> actor_laboratory_id a = Some (lo_laboratory_id r)))"

definition can_view_location :: "database \<Rightarrow> actor \<Rightarrow> uuid \<Rightarrow> bool" where
  "can_view_location db a location_id =
     row_allows (fetch_optional (\<lambda>r. lo_location_id r = location_id) (locations db))
       (\<lambda>r. can_query_laboratory_resource a (lo_laboratory_id r))"

definition can_manage_asset_category :: "database \<Rightarrow> actor \<Rightarrow> uuid \<Rightarrow> bool" where
  "can_manage_asset_category db a category_id =
     row_allows (fetch_optional (\<lambda>r. ca_category_id r = category_id) (asset_categories db))
       (\<lambda>r. \<not> is_guest a \<and> (is_system_admin a \<or> actor_laboratory_id a = Some (ca_laboratory_id r)))"

definition can_view_asset_category :: "database \<Rightarrow> actor \<Rightarrow> uuid \<Rightarrow> bool" where
  "can_view_asset_category db a category_id =
     row_allows (fetch_optional (\<lambda>r. ca_category_id r = category_id) (asset_categories db))
       (\<lambda>r. can_query_laboratory_resource a (ca_laboratory_id r))"

definition can_manage_asset_parameter :: "database \<Rightarrow> actor \<Rightarrow> uuid \<Rightarrow> bool" where
  "can_manage_asset_parameter db a parameter_id =
     row_allows (fetch_optional (\<lambda>r. pt_parameter_type_id r = parameter_id) (asset_parameter_types db))
       (\<lambda>r. \<not> is_guest a \<and> (is_system_admin a \<or> actor_laboratory_id a = Some (pt_laboratory_id r)))"

definition can_view_asset_parameter :: "database \<Rightarrow> actor \<Rightarrow> uuid \<Rightarrow> bool" where
  "can_view_asset_parameter db a parameter_id =
     row_allows (fetch_optional (\<lambda>r. pt_parameter_type_id r = parameter_id) (asset_parameter_types db))
       (\<lambda>r. can_query_laboratory_resource a (pt_laboratory_id r))"

definition can_manage_asset :: "database \<Rightarrow> actor \<Rightarrow> uuid \<Rightarrow> bool" where
  "can_manage_asset db a asset_id =
     row_allows (fetch_optional (\<lambda>r. as_asset_id r = asset_id) (assets db))
       (\<lambda>r. \<not> is_guest a \<and> (is_system_admin a \<or> actor_laboratory_id a = Some (as_laboratory_id r)))"

definition can_view_asset :: "database \<Rightarrow> actor \<Rightarrow> uuid \<Rightarrow> bool" where
  "can_view_asset db a asset_id =
     row_allows (fetch_optional (\<lambda>r. as_asset_id r = asset_id) (assets db))
       (\<lambda>r. can_query_laboratory_resource a (as_laboratory_id r))"

definition can_manage_inventory_item :: "database \<Rightarrow> actor \<Rightarrow> uuid \<Rightarrow> bool" where
  "can_manage_inventory_item db a inventory_item_id =
     row_allows (fetch_optional (\<lambda>r. ii_inventory_item_id r = inventory_item_id) (inventory_items db))
       (\<lambda>r. can_write_laboratory_resource a (ii_laboratory_id r))"

definition can_view_inventory_item :: "database \<Rightarrow> actor \<Rightarrow> uuid \<Rightarrow> bool" where
  "can_view_inventory_item db a inventory_item_id =
     row_allows (fetch_optional (\<lambda>r. ii_inventory_item_id r = inventory_item_id) (inventory_items db))
       (\<lambda>r. can_query_laboratory_resource a (ii_laboratory_id r))"

text \<open>An upload that is not there is permitted: the write behind it answers for it.\<close>

definition can_manage_file_upload :: "database \<Rightarrow> actor \<Rightarrow> uuid \<Rightarrow> bool" where
  "can_manage_file_upload db a upload_id =
     (case fetch_optional (\<lambda>r. up_upload_id r = upload_id) (file_uploads db) of
        Some r \<Rightarrow> (is_system_admin a \<or> actor_laboratory_id a = Some (up_laboratory_id r))
                  \<and> (is_system_admin a \<or> actor_user_id a = up_uploaded_by_user_id r)
      | None \<Rightarrow> True)"

definition can_assign_file_upload :: "database \<Rightarrow> int \<Rightarrow> actor \<Rightarrow> uuid \<Rightarrow> bool" where
  "can_assign_file_upload db now a upload_id =
     (case fetch_optional (\<lambda>r. up_upload_id r = upload_id \<and> up_consumed_at r = None \<and> now < up_expires_at r)
             (file_uploads db) of
        Some r \<Rightarrow> (is_system_admin a \<or> actor_laboratory_id a = Some (up_laboratory_id r))
                  \<and> (is_system_admin a \<or> actor_user_id a = up_uploaded_by_user_id r)
      | None \<Rightarrow> True)"

definition can_manage_attachment_assignment :: "database \<Rightarrow> actor \<Rightarrow> uuid \<Rightarrow> bool" where
  "can_manage_attachment_assignment db a attachment_id =
     (if is_guest a then False
      else (case fetch_optional (\<lambda>r. at_attachment_id r = attachment_id) (attachments db) of
              Some r \<Rightarrow> is_system_admin a \<or> actor_laboratory_id a = Some (at_laboratory_id r)
            | None \<Rightarrow> False))"

definition can_view_attachment_assignment :: "database \<Rightarrow> actor \<Rightarrow> uuid \<Rightarrow> bool" where
  "can_view_attachment_assignment db a attachment_id =
     (case fetch_optional (\<lambda>r. at_attachment_id r = attachment_id) (attachments db) of
        Some r \<Rightarrow> is_system_admin a
                  \<or> (actor_laboratory_id a = Some (at_laboratory_id r)
                     \<and> (at_is_public r \<or> \<not> is_guest a))
      | None \<Rightarrow> False)"

definition fetch_label_printer_laboratory :: "database \<Rightarrow> uuid \<Rightarrow> uuid option" where
  "fetch_label_printer_laboratory db printer_id =
     map_option pr_laboratory_id (fetch_optional (\<lambda>r. pr_printer_id r = printer_id) (label_printers db))"

definition can_manage_label_printer :: "database \<Rightarrow> actor \<Rightarrow> uuid \<Rightarrow> bool" where
  "can_manage_label_printer db a printer_id =
     row_allows (fetch_label_printer_laboratory db printer_id) (can_manage_label_printers a)"

definition can_use_label_printer :: "database \<Rightarrow> actor \<Rightarrow> uuid \<Rightarrow> bool" where
  "can_use_label_printer db a printer_id =
     row_allows (fetch_label_printer_laboratory db printer_id) (can_use_label_printers a)"

end
