(* ===== verification/Permissions.thy ===== *)
theory Permissions
  imports Access_Control
begin

text \<open>
  The permission table \<^verbatim>\<open>validate_permission\<close>, the laboratory a request is scoped to
  (\<^verbatim>\<open>LaboratoryContext\<close>), and the middleware that puts the actor into a request; with the two
  contracts every laboratory-scoped answer of the table is an instance of.
\<close>

section \<open>The table\<close>

datatype resource_type =
    Laboratory_resource | User_resource | GuestRegistrationCode_resource | Unit_resource
  | Location_resource | Asset_resource | InventoryItem_resource | AssetCategory_resource
  | AssetParameter_resource | AttachmentAssignment_resource | FileUpload_resource
  | Federation_resource | LabelPrinter_resource

datatype action =
    Assign uuid | Create uuid | CreateUser user_role | Delete uuid | DeleteUser user_role
  | Read uuid | Browse uuid | BrowseInternal uuid | Update uuid | UpdateUser user_role user_role

definition permit_laboratory :: "actor \<Rightarrow> action \<Rightarrow> bool" where
  "permit_laboratory a act =
     (case act of
        Create _ \<Rightarrow> is_system_admin a
      | Delete _ \<Rightarrow> is_system_admin a
      | Read lab \<Rightarrow> is_system_admin a \<or> (is_lab_admin a \<and> actor_laboratory_id a = Some lab)
      | Browse _ \<Rightarrow> can_browse_laboratories a
      | Update lab \<Rightarrow> is_system_admin a \<or> (is_lab_admin a \<and> actor_laboratory_id a = Some lab)
      | _ \<Rightarrow> False)"

definition permit_user :: "database \<Rightarrow> actor \<Rightarrow> action \<Rightarrow> (rstr, bool) result" where
  "permit_user db a act =
     (case act of
        CreateUser role \<Rightarrow> Inr (can_manage_user a role)
      | DeleteUser role \<Rightarrow> Inr (can_manage_user a role)
      | Read user_id \<Rightarrow> can_view_user db a user_id
      | UpdateUser target_role update_role \<Rightarrow>
          Inr (can_manage_user a target_role \<and> can_manage_user a update_role)
      | _ \<Rightarrow> Inr False)"

definition permit_guest_registration_code :: "actor \<Rightarrow> action \<Rightarrow> bool" where
  "permit_guest_registration_code a act =
     (case act of Create lab \<Rightarrow> can_create_guest_registration_code a lab | _ \<Rightarrow> False)"

definition permit_unit :: "database \<Rightarrow> actor \<Rightarrow> action \<Rightarrow> bool" where
  "permit_unit db a act =
     (case act of
        Create lab \<Rightarrow> can_manage_units a lab
      | Delete i \<Rightarrow> can_manage_unit db a i
      | Read i \<Rightarrow> can_view_unit db a i
      | Browse lab \<Rightarrow> can_browse_laboratory_resource a lab
      | Update i \<Rightarrow> can_manage_unit db a i
      | _ \<Rightarrow> False)"

definition permit_label_printer :: "database \<Rightarrow> actor \<Rightarrow> action \<Rightarrow> bool" where
  "permit_label_printer db a act =
     (case act of
        Create lab \<Rightarrow> can_manage_label_printers a lab
      | Update i \<Rightarrow> can_manage_label_printer db a i
      | Delete i \<Rightarrow> can_manage_label_printer db a i
      | Browse lab \<Rightarrow> can_use_label_printers a lab
      | Read i \<Rightarrow> can_use_label_printer db a i
      | _ \<Rightarrow> False)"

definition permit_location :: "database \<Rightarrow> actor \<Rightarrow> action \<Rightarrow> bool" where
  "permit_location db a act =
     (case act of
        Create lab \<Rightarrow> can_write_laboratory_resource a lab
      | Delete i \<Rightarrow> can_manage_location db a i
      | Read i \<Rightarrow> can_view_location db a i
      | Browse lab \<Rightarrow> can_query_laboratory_resource a lab
      | Update i \<Rightarrow> can_manage_location db a i
      | _ \<Rightarrow> False)"

definition permit_asset :: "database \<Rightarrow> actor \<Rightarrow> action \<Rightarrow> bool" where
  "permit_asset db a act =
     (case act of
        Create lab \<Rightarrow> can_write_laboratory_resource a lab
      | Delete i \<Rightarrow> can_manage_asset db a i
      | Read i \<Rightarrow> can_view_asset db a i
      | Browse lab \<Rightarrow> can_query_laboratory_resource a lab
      | BrowseInternal lab \<Rightarrow> can_read_laboratory_resource a lab
      | Update i \<Rightarrow> can_manage_asset db a i
      | _ \<Rightarrow> False)"

definition permit_inventory_item :: "database \<Rightarrow> actor \<Rightarrow> action \<Rightarrow> bool" where
  "permit_inventory_item db a act =
     (case act of
        Create lab \<Rightarrow> can_write_laboratory_resource a lab
      | Delete i \<Rightarrow> can_manage_inventory_item db a i
      | Read i \<Rightarrow> can_view_inventory_item db a i
      | Browse lab \<Rightarrow> can_query_laboratory_resource a lab
      | BrowseInternal lab \<Rightarrow> can_read_laboratory_resource a lab
      | Update i \<Rightarrow> can_manage_inventory_item db a i
      | _ \<Rightarrow> False)"

definition permit_asset_category :: "database \<Rightarrow> actor \<Rightarrow> action \<Rightarrow> bool" where
  "permit_asset_category db a act =
     (case act of
        Create lab \<Rightarrow> can_write_laboratory_resource a lab
      | Delete i \<Rightarrow> can_manage_asset_category db a i
      | Read i \<Rightarrow> can_view_asset_category db a i
      | Browse lab \<Rightarrow> can_query_laboratory_resource a lab
      | Update i \<Rightarrow> can_manage_asset_category db a i
      | _ \<Rightarrow> False)"

definition permit_asset_parameter :: "database \<Rightarrow> actor \<Rightarrow> action \<Rightarrow> bool" where
  "permit_asset_parameter db a act =
     (case act of
        Create lab \<Rightarrow> can_write_laboratory_resource a lab
      | Delete i \<Rightarrow> can_manage_asset_parameter db a i
      | Read i \<Rightarrow> can_view_asset_parameter db a i
      | Browse lab \<Rightarrow> can_query_laboratory_resource a lab
      | Update i \<Rightarrow> can_manage_asset_parameter db a i
      | _ \<Rightarrow> False)"

definition permit_file_upload :: "database \<Rightarrow> int \<Rightarrow> actor \<Rightarrow> action \<Rightarrow> bool" where
  "permit_file_upload db now a act =
     (case act of
        Create lab \<Rightarrow> can_write_laboratory_resource a lab
      | Delete i \<Rightarrow> can_manage_file_upload db a i
      | Read _ \<Rightarrow> True
      | Browse lab \<Rightarrow> can_browse_laboratory_resource a lab
      | Assign i \<Rightarrow> can_assign_file_upload db now a i
      | _ \<Rightarrow> False)"

definition permit_attachment_assignment :: "database \<Rightarrow> actor \<Rightarrow> action \<Rightarrow> bool" where
  "permit_attachment_assignment db a act =
     (case act of
        Create lab \<Rightarrow> can_write_laboratory_resource a lab
      | Delete i \<Rightarrow> can_manage_attachment_assignment db a i
      | Read i \<Rightarrow> can_view_attachment_assignment db a i
      | Browse lab \<Rightarrow> can_query_laboratory_resource a lab
      | BrowseInternal lab \<Rightarrow> can_browse_laboratory_internal_resource a lab
      | Update i \<Rightarrow> can_manage_attachment_assignment db a i
      | _ \<Rightarrow> False)"

definition permit_federation :: "actor \<Rightarrow> action \<Rightarrow> bool" where
  "permit_federation a act =
     (case act of
        Create lab \<Rightarrow> can_manage_federation a lab
      | Update lab \<Rightarrow> can_manage_federation a lab
      | Delete lab \<Rightarrow> can_manage_federation a lab
      | BrowseInternal lab \<Rightarrow> can_manage_federation a lab
      | Browse lab \<Rightarrow> can_read_federation a lab
      | _ \<Rightarrow> False)"

definition validate_permission ::
    "database \<Rightarrow> int \<Rightarrow> actor \<Rightarrow> resource_type \<Rightarrow> action \<Rightarrow> (rstr, bool) result" where
  "validate_permission db now a resource act =
     (case resource of
        Laboratory_resource \<Rightarrow> Inr (permit_laboratory a act)
      | User_resource \<Rightarrow> permit_user db a act
      | GuestRegistrationCode_resource \<Rightarrow> Inr (permit_guest_registration_code a act)
      | Unit_resource \<Rightarrow> Inr (permit_unit db a act)
      | LabelPrinter_resource \<Rightarrow> Inr (permit_label_printer db a act)
      | Location_resource \<Rightarrow> Inr (permit_location db a act)
      | Asset_resource \<Rightarrow> Inr (permit_asset db a act)
      | InventoryItem_resource \<Rightarrow> Inr (permit_inventory_item db a act)
      | AssetCategory_resource \<Rightarrow> Inr (permit_asset_category db a act)
      | AssetParameter_resource \<Rightarrow> Inr (permit_asset_parameter db a act)
      | FileUpload_resource \<Rightarrow> Inr (permit_file_upload db now a act)
      | AttachmentAssignment_resource \<Rightarrow> Inr (permit_attachment_assignment db a act)
      | Federation_resource \<Rightarrow> Inr (permit_federation a act))"

section \<open>The laboratory of a request\<close>

datatype http_error =
    Http_BadRequest rstr | Http_Unauthorized rstr | Http_Forbidden rstr | Http_Internal rstr

text \<open>A request as the extractors see it: the actor the middleware stored, and the route.\<close>

record request =
  rq_actor :: "actor option"
  rq_match_info :: "rstr \<Rightarrow> rstr option"

record laboratory_context =
  ctx_actor :: actor
  ctx_laboratory_id :: uuid

definition Actor_from_request :: "request \<Rightarrow> (http_error, actor) result" where
  "Actor_from_request req = ok_or (Http_Unauthorized (lit ''Authentication required'')) (rq_actor req)"

text \<open>\<open>parse_uuid\<close> is \<^verbatim>\<open>Uuid::parse_str\<close> of the \<^verbatim>\<open>uuid\<close> crate.\<close>

definition LaboratoryContext_from_request ::
    "(rstr \<Rightarrow> (rstr, uuid) result) \<Rightarrow> request \<Rightarrow> (http_error, laboratory_context) result" where
  "LaboratoryContext_from_request parse_uuid req =
     (case rq_actor req of
        None \<Rightarrow> Inl (Http_Unauthorized (lit ''Authentication required''))
      | Some a \<Rightarrow>
          (case rq_match_info req (lit ''laboratory_id'') of
             Some raw \<Rightarrow>
               if \<not> is_system_admin a
               then Inl (Http_Forbidden (lit ''System administrator permissions are required''))
               else (case parse_uuid raw of
                       Inr lab \<Rightarrow> Inr \<lparr>ctx_actor = a, ctx_laboratory_id = lab\<rparr>
                     | Inl e \<Rightarrow> Inl (Http_BadRequest e))
           | None \<Rightarrow>
               (case actor_laboratory_id a of
                  Some lab \<Rightarrow>
                    if \<not> is_system_admin a then Inr \<lparr>ctx_actor = a, ctx_laboratory_id = lab\<rparr>
                    else Inl (Http_Forbidden (lit ''A laboratory-scoped user is required''))
                | None \<Rightarrow> Inl (Http_Forbidden (lit ''A laboratory-scoped user is required'')))))"

text \<open>The extractor \<^verbatim>\<open>route_uuid!\<close> generates for an id newtype.\<close>

definition route_uuid ::
    "(rstr \<Rightarrow> (rstr, uuid) result) \<Rightarrow> rstr \<Rightarrow> request \<Rightarrow> (http_error, uuid) result" where
  "route_uuid parse_uuid parameter req =
     (case rq_match_info req parameter of
        None \<Rightarrow> Inl (Http_BadRequest (lit ''Missing route parameter: '' @ parameter))
      | Some value \<Rightarrow> map_err Http_BadRequest (parse_uuid value))"

definition authorization_actor :: "laboratory_context \<Rightarrow> actor" where
  "authorization_actor ctx =
     (if is_system_admin (ctx_actor ctx)
      then \<lparr>actor_user_id = actor_user_id (ctx_actor ctx), actor_user_type = LabAdmin,
            actor_laboratory_id = Some (ctx_laboratory_id ctx)\<rparr>
      else ctx_actor ctx)"

section \<open>Middleware\<close>

text \<open>
  What the session store answered for the user id, and the outcome: the next request, or the
  response. The flag of \<open>reject_anonymous_users\<close> says that the session is purged.
\<close>

definition reject_anonymous_users ::
    "database \<Rightarrow> (rstr, uuid option) result \<Rightarrow> request \<Rightarrow> (http_error, request) result \<times> bool" where
  "reject_anonymous_users db session_user req =
     (case session_user of
        Inl e \<Rightarrow> (Inl (Http_Internal e), False)
      | Inr None \<Rightarrow> (Inl (Http_Unauthorized (lit ''Authentication required'')), False)
      | Inr (Some user_id) \<Rightarrow>
          (case get_actor db user_id of
             Inl e \<Rightarrow> (Inl (Http_Internal e), False)
           | Inr None \<Rightarrow> (Inl (Http_Unauthorized (lit ''Authentication required'')), True)
           | Inr (Some a) \<Rightarrow> (Inr (req\<lparr>rq_actor := Some a\<rparr>), False)))"

definition reject_non_laboratory_users :: "request \<Rightarrow> (http_error, request) result" where
  "reject_non_laboratory_users req =
     (if row_allows (rq_actor req) (\<lambda>a. actor_laboratory_id a \<noteq> None \<and> \<not> is_system_admin a)
      then Inr req else Inl (Http_Forbidden (lit ''A laboratory-scoped user is required'')))"

definition reject_non_system_admins :: "request \<Rightarrow> (http_error, request) result" where
  "reject_non_system_admins req =
     (if row_allows (rq_actor req) is_system_admin
      then Inr req else Inl (Http_Forbidden (lit ''System administrator permissions are required'')))"

section \<open>Laboratory gates\<close>

definition lab_member :: "actor \<Rightarrow> uuid \<Rightarrow> bool" where
  "lab_member a lab \<longleftrightarrow> is_system_admin a \<or> actor_laboratory_id a = Some lab"

text \<open>A gate lets only system administrators and the laboratory's own accounts through.\<close>

locale laboratory_gate =
  fixes allowed :: "actor \<Rightarrow> uuid \<Rightarrow> bool"
  assumes scoped: "allowed a lab \<Longrightarrow> is_system_admin a \<or> actor_laboratory_id a = Some lab"
begin

lemma own_laboratory_only:
  "\<lbrakk>\<not> is_system_admin a; actor_laboratory_id a \<noteq> Some lab\<rbrakk> \<Longrightarrow> \<not> allowed a lab"
  using scoped by blast

text \<open>A row guarded by the gate of its laboratory.\<close>

lemma as_member: "row_allows row (allowed a) \<Longrightarrow> row_allows row (lab_member a)"
  using scoped by (auto simp: row_allows_def lab_member_def split: option.splits)

lemma guarded_row:
  assumes "row_allows row (\<lambda>r. allowed a (lab_of r))" and "\<not> is_system_admin a"
  shows "\<exists>r. row = Some r \<and> actor_laboratory_id a = Some (lab_of r)"
  using assms scoped by (auto simp: row_allows_def split: option.splits)

end

text \<open>A staff gate turns guests away as well.\<close>

locale staff_gate = laboratory_gate +
  assumes no_guest: "allowed a lab \<Longrightarrow> \<not> is_guest a"
begin

lemma guarded_row_staff:
  "row_allows row (\<lambda>r. allowed a (lab_of r)) \<Longrightarrow> \<not> is_guest a"
  using no_guest by (auto simp: row_allows_def split: option.splits)

end

definition lab_staff :: "actor \<Rightarrow> uuid \<Rightarrow> bool" where
  "lab_staff a lab \<longleftrightarrow> \<not> is_guest a \<and> (is_system_admin a \<or> actor_laboratory_id a = Some lab)"

interpretation browse: laboratory_gate can_browse_laboratory_resource
  by unfold_locales (auto simp: can_browse_laboratory_resource_def)

interpretation query: laboratory_gate can_query_laboratory_resource
  by unfold_locales
    (auto simp: can_query_laboratory_resource_def can_read_laboratory_resource_def actor_roles)

interpretation member: laboratory_gate lab_member
  by unfold_locales (auto simp: lab_member_def)

interpretation staff: staff_gate lab_staff
  by unfold_locales (auto simp: lab_staff_def)

interpretation writing: staff_gate can_write_laboratory_resource
  by unfold_locales (auto simp: can_write_laboratory_resource_def split: if_splits)

interpretation manage_units: staff_gate can_manage_units
  by unfold_locales (auto simp: can_manage_units_def actor_roles)

interpretation manage_printers: staff_gate can_manage_label_printers
  by unfold_locales (auto simp: can_manage_label_printers_def actor_roles)

interpretation use_printers: staff_gate can_use_label_printers
  by unfold_locales (auto simp: can_use_label_printers_def
      can_browse_laboratory_internal_resource_def actor_roles)

interpretation manage_federation: staff_gate can_manage_federation
  by unfold_locales (auto simp: can_manage_federation_def actor_roles)

interpretation read_federation: staff_gate can_read_federation
  by unfold_locales (auto simp: can_read_federation_def actor_roles)

interpretation registration_codes: staff_gate can_create_guest_registration_code
  by unfold_locales (auto simp: can_create_guest_registration_code_def actor_roles)

section \<open>Rows stay inside their laboratory\<close>

text \<open>The laboratory of the row an id names, for the resources whose rows a laboratory owns.\<close>

definition row_laboratory :: "database \<Rightarrow> resource_type \<Rightarrow> uuid \<Rightarrow> uuid option" where
  "row_laboratory db resource i =
     (case resource of
        Unit_resource \<Rightarrow>
          map_option un_laboratory_id (fetch_optional (\<lambda>r. un_unit_id r = i) (units db))
      | Location_resource \<Rightarrow>
          map_option lo_laboratory_id (fetch_optional (\<lambda>r. lo_location_id r = i) (locations db))
      | Asset_resource \<Rightarrow>
          map_option as_laboratory_id (fetch_optional (\<lambda>r. as_asset_id r = i) (assets db))
      | InventoryItem_resource \<Rightarrow>
          map_option ii_laboratory_id
            (fetch_optional (\<lambda>r. ii_inventory_item_id r = i) (inventory_items db))
      | AssetCategory_resource \<Rightarrow>
          map_option ca_laboratory_id (fetch_optional (\<lambda>r. ca_category_id r = i) (asset_categories db))
      | AssetParameter_resource \<Rightarrow>
          map_option pt_laboratory_id
            (fetch_optional (\<lambda>r. pt_parameter_type_id r = i) (asset_parameter_types db))
      | AttachmentAssignment_resource \<Rightarrow>
          map_option at_laboratory_id (fetch_optional (\<lambda>r. at_attachment_id r = i) (attachments db))
      | LabelPrinter_resource \<Rightarrow> fetch_label_printer_laboratory db i
      | _ \<Rightarrow> None)"

definition owned_by_laboratory :: "resource_type \<Rightarrow> bool" where
  "owned_by_laboratory resource \<longleftrightarrow>
     resource \<in> {Unit_resource, Location_resource, Asset_resource, InventoryItem_resource,
       AssetCategory_resource, AssetParameter_resource, AttachmentAssignment_resource,
       LabelPrinter_resource}"

text \<open>Each row guard is \<open>row_allows\<close> of one gate.\<close>

lemma row_guards:
  "can_manage_unit db a i = row_allows (row_laboratory db Unit_resource i) (can_manage_units a)"
  "can_view_unit db a i = row_allows (row_laboratory db Unit_resource i) (lab_member a)"
  "can_manage_location db a i = row_allows (row_laboratory db Location_resource i) (lab_staff a)"
  "can_view_location db a i
     = row_allows (row_laboratory db Location_resource i) (can_query_laboratory_resource a)"
  "can_manage_asset_category db a i = row_allows (row_laboratory db AssetCategory_resource i) (lab_staff a)"
  "can_view_asset_category db a i
     = row_allows (row_laboratory db AssetCategory_resource i) (can_query_laboratory_resource a)"
  "can_manage_asset_parameter db a i = row_allows (row_laboratory db AssetParameter_resource i) (lab_staff a)"
  "can_view_asset_parameter db a i
     = row_allows (row_laboratory db AssetParameter_resource i) (can_query_laboratory_resource a)"
  "can_manage_asset db a i = row_allows (row_laboratory db Asset_resource i) (lab_staff a)"
  "can_view_asset db a i
     = row_allows (row_laboratory db Asset_resource i) (can_query_laboratory_resource a)"
  "can_manage_inventory_item db a i
     = row_allows (row_laboratory db InventoryItem_resource i) (can_write_laboratory_resource a)"
  "can_view_inventory_item db a i
     = row_allows (row_laboratory db InventoryItem_resource i) (can_query_laboratory_resource a)"
  "can_manage_attachment_assignment db a i
     = row_allows (row_laboratory db AttachmentAssignment_resource i) (lab_staff a)"
  "can_manage_label_printer db a i
     = row_allows (row_laboratory db LabelPrinter_resource i) (can_manage_label_printers a)"
  "can_use_label_printer db a i
     = row_allows (row_laboratory db LabelPrinter_resource i) (can_use_label_printers a)"
  by (auto simp: row_allows_def row_laboratory_def can_manage_unit_def can_view_unit_def
      can_manage_location_def can_view_location_def can_manage_asset_category_def
      can_view_asset_category_def can_manage_asset_parameter_def can_view_asset_parameter_def
      can_manage_asset_def can_view_asset_def can_manage_inventory_item_def
      can_view_inventory_item_def can_manage_attachment_assignment_def can_manage_label_printer_def
      can_use_label_printer_def lab_member_def lab_staff_def
      split: option.splits)

lemma can_view_attachment_row:
  "can_view_attachment_assignment db a i \<Longrightarrow>
     row_allows (row_laboratory db AttachmentAssignment_resource i) (lab_member a)"
  by (auto simp: row_allows_def row_laboratory_def can_view_attachment_assignment_def lab_member_def
      split: option.splits)

lemma permit_row_member:
  assumes "owned_by_laboratory resource" and "act = Read i \<or> act = Update i \<or> act = Delete i"
    and "validate_permission db now a resource act = Inr True"
  shows "row_allows (row_laboratory db resource i) (lab_member a)"
  using assms
  by (auto simp: owned_by_laboratory_def validate_permission_def permit_unit_def
      permit_label_printer_def permit_location_def permit_asset_def permit_inventory_item_def
      permit_asset_category_def permit_asset_parameter_def permit_attachment_assignment_def row_guards
      dest: can_view_attachment_row query.as_member staff.as_member writing.as_member
        manage_units.as_member manage_printers.as_member use_printers.as_member)

lemma permit_row_own_laboratory:
  assumes "owned_by_laboratory resource" and "act = Read i \<or> act = Update i \<or> act = Delete i"
    and "validate_permission db now a resource act = Inr True" and "\<not> is_system_admin a"
  shows "row_laboratory db resource i \<noteq> None \<and> row_laboratory db resource i = actor_laboratory_id a"
  using member.guarded_row [of "row_laboratory db resource i" a "\<lambda>l. l"] permit_row_member [OF assms(1-3)]
    assms(4) by auto

lemma authorization_actor_scoped:
  assumes "LaboratoryContext_from_request parse_uuid req = Inr ctx"
  shows "\<not> is_system_admin (authorization_actor ctx)"
    and "actor_laboratory_id (authorization_actor ctx) = Some (ctx_laboratory_id ctx)"
  using assms
  by (auto simp: LaboratoryContext_from_request_def authorization_actor_def actor_roles
      split: option.splits if_splits sum.splits)

section \<open>Guests only read\<close>

lemma guest_permissions:
  assumes "is_guest a" and "resource \<noteq> FileUpload_resource"
    and "validate_permission db now a resource act = Inr True"
  shows "(\<exists>i. act = Read i) \<or> (\<exists>lab. act = Browse lab) \<or> (\<exists>lab. act = BrowseInternal lab)"
proof (rule ccontr)
  assume n: "\<not> ?thesis"
  have g: "\<not> lab_staff a l" "\<not> can_write_laboratory_resource a l" "\<not> can_manage_units a l"
      "\<not> can_manage_label_printers a l" "\<not> can_manage_federation a l"
      "\<not> can_create_guest_registration_code a l" for l
    using assms(1) staff.no_guest writing.no_guest manage_units.no_guest manage_printers.no_guest
      manage_federation.no_guest registration_codes.no_guest by blast+
  moreover have "\<not> is_system_admin a" "\<not> is_lab_admin a" "\<not> can_manage_user a role" for role
    using assms(1) by (auto simp: actor_roles can_manage_user_def)
  ultimately show False
    using assms(2,3) n
    by (cases resource; cases act)
      (auto simp: validate_permission_def permit_laboratory_def permit_user_def
        permit_guest_registration_code_def permit_unit_def permit_label_printer_def permit_location_def
        permit_asset_def permit_inventory_item_def permit_asset_category_def permit_asset_parameter_def
        permit_attachment_assignment_def permit_federation_def row_guards row_allows_def
        split: option.splits)
qed

section \<open>Managing accounts\<close>

lemma can_manage_user_iff:
  "can_manage_user a target \<longleftrightarrow>
     (case actor_user_type a of
        Root \<Rightarrow> True
      | SuperAdmin \<Rightarrow> role_user_type target \<noteq> Root
      | LabAdmin \<Rightarrow> role_user_type target \<in> {LabAdmin, User, Guest}
          \<and> actor_laboratory_id a \<noteq> None \<and> role_laboratory_id target = actor_laboratory_id a
      | User \<Rightarrow> False
      | Guest \<Rightarrow> False)"
  by (cases "role_user_type target")
    (auto simp: can_manage_user_def actor_roles split: user_type.splits option.splits)

end
