(* ===== verification/Inventory_Domain.thy ===== *)
theory Inventory_Domain
  imports Database
begin

text \<open>
  What an inventory request asks for, after validation: \<^verbatim>\<open>domain/new_inventory_item.rs\<close>,
  \<^verbatim>\<open>domain/update_inventory_item.rs\<close>, \<^verbatim>\<open>domain/inventory_item_commands.rs\<close> and
  \<^verbatim>\<open>domain/inventory_item_serial_number.rs\<close>.
\<close>

section \<open>Optional texts and updates\<close>

definition normalize_optional_text :: "rstr option \<Rightarrow> rstr option" where
  "normalize_optional_text v =
     (case map_option trim v of Some t \<Rightarrow> if t \<noteq> [] then Some t else None | None \<Rightarrow> None)"

datatype 'a nullable_update = Unchanged | Set_to 'a | Clear

fun resolve_update :: "'a nullable_update \<Rightarrow> 'a option \<Rightarrow> 'a option" where
  "resolve_update Unchanged current = current"
| "resolve_update (Set_to v) current = Some v"
| "resolve_update Clear current = None"

definition is_changed :: "'a nullable_update \<Rightarrow> bool" where
  "is_changed u = (case u of Unchanged \<Rightarrow> False | _ \<Rightarrow> True)"

fun into_nullable_update :: "'a option option \<Rightarrow> 'a nullable_update" where
  "into_nullable_update (Some (Some v)) = Set_to v"
| "into_nullable_update (Some None) = Clear"
| "into_nullable_update None = Unchanged"

fun nullable_text :: "rstr option option \<Rightarrow> rstr nullable_update" where
  "nullable_text (Some (Some v)) =
     (case normalize_optional_text (Some v) of Some t \<Rightarrow> Set_to t | None \<Rightarrow> Clear)"
| "nullable_text (Some None) = Clear"
| "nullable_text None = Unchanged"

text \<open>A text that is stored is trimmed and not empty.\<close>

definition clean_text :: "rstr option \<Rightarrow> bool" where
  "clean_text v = (case v of None \<Rightarrow> True | Some t \<Rightarrow> t \<noteq> [] \<and> trim t = t)"

lemma normalize_optional_text_clean: "clean_text (normalize_optional_text v)"
  by (auto simp: clean_text_def normalize_optional_text_def split: option.splits)

lemma normalize_optional_text_id: "clean_text v \<Longrightarrow> normalize_optional_text v = v"
  by (auto simp: clean_text_def normalize_optional_text_def split: option.splits)

lemma nullable_text_clean:
  "clean_text current \<Longrightarrow> clean_text (resolve_update (nullable_text v) current)"
proof (cases v rule: nullable_text.cases)
  case (1 t)
  then show ?thesis
    using normalize_optional_text_clean [of "Some t"]
    by (cases "normalize_optional_text (Some t)") (auto simp: clean_text_def)
qed (auto simp: clean_text_def)

section \<open>Serial numbers\<close>

text \<open>The characters \<^verbatim>\<open>/ \ " < > { }\<close>.\<close>

definition forbidden_characters :: "nat list" where
  "forbidden_characters = [47, 92, 34, 60, 62, 123, 125]"

definition SerialNumber_parse :: "env \<Rightarrow> rstr \<Rightarrow> (rstr, rstr) result" where
  "SerialNumber_parse env s =
     (let trimmed = trim s
      in if trimmed = [] \<or> 256 < graphemes_count env trimmed
            \<or> list_ex (\<lambda>c. c \<in> set forbidden_characters) trimmed
         then Inl (s @ lit '' is not a valid inventory item serial number.'')
         else Inr trimmed)"

lemma SerialNumber_parse_Inr:
  "SerialNumber_parse env s = Inr t \<longleftrightarrow>
     t = trim s \<and> t \<noteq> [] \<and> graphemes_count env t \<le> 256 \<and> (\<forall>c\<in>set t. c \<notin> set forbidden_characters)"
  by (auto simp: SerialNumber_parse_def Let_def list_ex_iff)

datatype serial_source = Explicit "rstr list" | Generate u16

definition SerialSource_explicit :: "env \<Rightarrow> rstr list \<Rightarrow> (rstr, serial_source) result" where
  "SerialSource_explicit env values =
     (if values = [] then Inl (lit ''serial_numbers cannot be empty'')
      else if 200 < length values then Inl (lit ''serial_numbers cannot contain more than 200 values'')
      else and_then (collect_map (SerialNumber_parse env) values)
             (\<lambda>parsed. if \<not> distinct parsed then Inl (lit ''serial_numbers cannot contain duplicates'')
                       else Inr (Explicit parsed)))"

text \<open>The count is an \<^verbatim>\<open>i64\<close>; the final cast truncates to 16 bits.\<close>

definition SerialSource_generate :: "i64 \<Rightarrow> (rstr, serial_source) result" where
  "SerialSource_generate count =
     (if count \<le>s 0 then Inl (lit ''count must be positive'')
      else if 200 <s count then Inl (lit ''count cannot exceed 200'')
      else Inr (Generate (ucast count)))"

definition SerialSource_parse ::
    "env \<Rightarrow> rstr list option \<Rightarrow> rstr list option \<Rightarrow> i64 option \<Rightarrow> (rstr, serial_source) result" where
  "SerialSource_parse env serial_items serial_numbers count =
     (case (serial_items, serial_numbers, count) of
        (Some items, None, None) \<Rightarrow> SerialSource_explicit env items
      | (None, Some items, None) \<Rightarrow> SerialSource_explicit env items
      | (None, None, Some c) \<Rightarrow> SerialSource_generate c
      | (None, None, None) \<Rightarrow>
          Inl (lit ''serialized creation requires serial_items, serial_numbers, or count'')
      | _ \<Rightarrow> Inl (lit ''serialized creation accepts serial_items, serial_numbers, or count, not more than one''))"

section \<open>New items\<close>

definition domain_validate_quantities :: "f64 \<Rightarrow> f64 \<Rightarrow> (rstr, unit) result" where
  "domain_validate_quantities on_hand allocated =
     (if \<not> is_finite on_hand then Inl (lit ''quantity_on_hand must be finite'')
      else if \<not> is_finite allocated then Inl (lit ''quantity_allocated must be finite'')
      else if f64_less on_hand (Fin 0) then Inl (lit ''quantity_on_hand must be non-negative'')
      else if f64_less allocated (Fin 0) then Inl (lit ''quantity_allocated must be non-negative'')
      else if f64_less on_hand allocated then Inl (lit ''quantity_allocated cannot exceed quantity_on_hand'')
      else Inr ())"

record new_item =
  ni_serial_number :: "rstr option"
  ni_batch_number :: "rstr option"
  ni_quantity_on_hand :: f64
  ni_quantity_allocated :: f64
  ni_location_id :: "uuid option"
  ni_status :: inventory_status
  ni_public_notes :: "rstr option"
  ni_internal_notes :: "rstr option"

definition NewItem_serialized ::
    "rstr \<Rightarrow> rstr option \<Rightarrow> uuid option \<Rightarrow> inventory_status \<Rightarrow> rstr option \<Rightarrow> rstr option \<Rightarrow> new_item" where
  "NewItem_serialized serial_number batch_number location_id status public_notes internal_notes =
     \<lparr>ni_serial_number = Some serial_number,
      ni_batch_number = normalize_optional_text batch_number,
      ni_quantity_on_hand = Fin 1, ni_quantity_allocated = Fin 0,
      ni_location_id = location_id, ni_status = status,
      ni_public_notes = normalize_optional_text public_notes,
      ni_internal_notes = normalize_optional_text internal_notes\<rparr>"

definition NewItem_quantity ::
    "rstr option \<Rightarrow> f64 \<Rightarrow> f64 \<Rightarrow> uuid option \<Rightarrow> inventory_status \<Rightarrow> rstr option \<Rightarrow> rstr option
       \<Rightarrow> (rstr, new_item) result" where
  "NewItem_quantity batch_number on_hand allocated location_id status public_notes internal_notes =
     and_then (domain_validate_quantities on_hand allocated) (\<lambda>_.
       Inr \<lparr>ni_serial_number = None,
            ni_batch_number = normalize_optional_text batch_number,
            ni_quantity_on_hand = on_hand, ni_quantity_allocated = allocated,
            ni_location_id = location_id, ni_status = status,
            ni_public_notes = normalize_optional_text public_notes,
            ni_internal_notes = normalize_optional_text internal_notes\<rparr>)"

text \<open>\<^verbatim>\<open>status.as_deref().map(InventoryStatus::parse).transpose()?.unwrap_or(Available)\<close>.\<close>

definition parse_status_or_available :: "rstr option \<Rightarrow> (rstr, inventory_status) result" where
  "parse_status_or_available status =
     and_then (transpose_with InventoryStatus_parse status)
       (\<lambda>s. Inr (case s of Some s \<Rightarrow> s | None \<Rightarrow> Available))"

definition NewItem_parse_for_tracking_mode ::
    "env \<Rightarrow> asset_tracking_mode \<Rightarrow> rstr option \<Rightarrow> rstr option \<Rightarrow> f64 option \<Rightarrow> f64 option \<Rightarrow> uuid option
       \<Rightarrow> rstr option \<Rightarrow> rstr option \<Rightarrow> rstr option \<Rightarrow> (rstr, new_item) result" where
  "NewItem_parse_for_tracking_mode env mode serial_number batch_number on_hand allocated
       location_id status public_notes internal_notes =
     and_then (parse_status_or_available status) (\<lambda>status.
       case mode of
         Serialized \<Rightarrow>
           if on_hand \<noteq> None \<or> allocated \<noteq> None
           then Inl (lit ''Serialized inventory items cannot specify quantity fields'')
           else
             and_then (ok_or (lit ''Serialized inventory items require serial_number'') serial_number)
               (\<lambda>s. and_then (SerialNumber_parse env s) (\<lambda>serial.
                  Inr (NewItem_serialized serial batch_number location_id status public_notes internal_notes)))
       | Quantity \<Rightarrow>
           if serial_number \<noteq> None
           then Inl (lit ''Quantity-tracked inventory items cannot specify serial_number'')
           else
             and_then (ok_or (lit ''Quantity-tracked inventory items require quantity_on_hand'') on_hand)
               (\<lambda>q. NewItem_quantity batch_number q (case allocated of Some a \<Rightarrow> a | None \<Rightarrow> Fin 0)
                      location_id status public_notes internal_notes))"

datatype new_items =
    New_Serialized serial_source "rstr option" "uuid option" inventory_status "rstr option" "rstr option"
  | New_Quantity new_item

definition NewItems_parse ::
    "env \<Rightarrow> asset_tracking_mode \<Rightarrow> rstr list option \<Rightarrow> rstr list option \<Rightarrow> i64 option \<Rightarrow> rstr option
       \<Rightarrow> f64 option \<Rightarrow> f64 option \<Rightarrow> uuid option \<Rightarrow> rstr option \<Rightarrow> rstr option \<Rightarrow> rstr option
       \<Rightarrow> (rstr, new_items) result" where
  "NewItems_parse env mode serial_items serial_numbers count batch_number on_hand allocated
       location_id status public_notes internal_notes =
     and_then (parse_status_or_available status) (\<lambda>status.
       case mode of
         Serialized \<Rightarrow>
           if on_hand \<noteq> None \<or> allocated \<noteq> None
           then Inl (lit ''Serialized inventory items cannot specify quantity fields'')
           else
             and_then (SerialSource_parse env serial_items serial_numbers count) (\<lambda>source.
               Inr (New_Serialized source (normalize_optional_text batch_number) location_id status
                      (normalize_optional_text public_notes) (normalize_optional_text internal_notes)))
       | Quantity \<Rightarrow>
           if serial_items \<noteq> None \<or> serial_numbers \<noteq> None \<or> count \<noteq> None
           then Inl (lit ''Quantity-tracked inventory items cannot specify serial_items, serial_numbers, or count'')
           else
             and_then (ok_or (lit ''Quantity-tracked inventory items require quantity_on_hand'') on_hand)
               (\<lambda>q. and_then (NewItem_quantity batch_number q (case allocated of Some a \<Rightarrow> a | None \<Rightarrow> Fin 0)
                      location_id status public_notes internal_notes) (\<lambda>item. Inr (New_Quantity item))))"

fun NewItems_location_id :: "new_items \<Rightarrow> uuid option" where
  "NewItems_location_id (New_Serialized _ _ location_id _ _ _) = location_id"
| "NewItems_location_id (New_Quantity item) = ni_location_id item"

section \<open>Patches and commands\<close>

record update_item =
  up_serial_number :: "rstr option"
  up_batch_number :: "rstr nullable_update"
  up_quantity_on_hand :: "f64 option"
  up_quantity_allocated :: "f64 option"
  up_location_id :: "uuid nullable_update"
  up_status :: "inventory_status option"
  up_public_notes :: "rstr nullable_update"
  up_internal_notes :: "rstr nullable_update"

definition UpdateItem_parse ::
    "env \<Rightarrow> rstr option \<Rightarrow> rstr option option \<Rightarrow> f64 option \<Rightarrow> f64 option \<Rightarrow> uuid option option
       \<Rightarrow> rstr option \<Rightarrow> rstr option option \<Rightarrow> rstr option option \<Rightarrow> (rstr, update_item) result" where
  "UpdateItem_parse env serial_number batch_number on_hand allocated location_id status
       public_notes internal_notes =
     and_then (transpose_with (\<lambda>q. domain_validate_quantities q (Fin 0)) on_hand) (\<lambda>_.
     and_then (transpose_with (\<lambda>q. domain_validate_quantities q q) allocated) (\<lambda>_.
     and_then (transpose_with (SerialNumber_parse env) serial_number) (\<lambda>serial.
     and_then (transpose_with InventoryStatus_parse status) (\<lambda>status.
       Inr \<lparr>up_serial_number = serial, up_batch_number = nullable_text batch_number,
            up_quantity_on_hand = on_hand, up_quantity_allocated = allocated,
            up_location_id = into_nullable_update location_id, up_status = status,
            up_public_notes = nullable_text public_notes,
            up_internal_notes = nullable_text internal_notes\<rparr>))))"

definition has_batch_updates :: "update_item \<Rightarrow> bool" where
  "has_batch_updates p \<longleftrightarrow>
     up_batch_number p \<noteq> Unchanged \<or> up_location_id p \<noteq> Unchanged \<or> up_status p \<noteq> None
     \<or> up_public_notes p \<noteq> Unchanged \<or> up_internal_notes p \<noteq> Unchanged"

definition InventoryItemIds_parse :: "uuid list \<Rightarrow> (rstr, uuid list) result" where
  "InventoryItemIds_parse values =
     (if values = [] then Inl (lit ''inventory_item_ids cannot be empty'')
      else if card (set values) \<noteq> length values
      then Inl (lit ''inventory_item_ids cannot contain duplicates'')
      else Inr values)"

record split_command =
  sp_quantity :: f64
  sp_batch_number :: "rstr nullable_update"
  sp_location_id :: "uuid nullable_update"
  sp_status :: "inventory_status option"
  sp_public_notes :: "rstr option"
  sp_internal_notes :: "rstr option"

definition Split_parse ::
    "f64 \<Rightarrow> rstr option option \<Rightarrow> uuid option option \<Rightarrow> rstr option \<Rightarrow> rstr option \<Rightarrow> rstr option
       \<Rightarrow> (rstr, split_command) result" where
  "Split_parse quantity batch_number location_id status public_notes internal_notes =
     (if \<not> is_finite quantity \<or> f64_less_eq quantity (Fin 0)
      then Inl (lit ''quantity must be positive and finite'')
      else and_then (transpose_with InventoryStatus_parse status) (\<lambda>status.
        Inr \<lparr>sp_quantity = quantity, sp_batch_number = nullable_text batch_number,
             sp_location_id = into_nullable_update location_id, sp_status = status,
             sp_public_notes = normalize_optional_text public_notes,
             sp_internal_notes = normalize_optional_text internal_notes\<rparr>))"

record merge_command =
  mg_target_inventory_item_id :: uuid
  mg_source_inventory_item_ids :: "uuid list"

definition Merge_parse :: "uuid \<Rightarrow> uuid list \<Rightarrow> (rstr, merge_command) result" where
  "Merge_parse target sources =
     and_then (InventoryItemIds_parse sources) (\<lambda>sources.
       if list_ex (\<lambda>source. source = target) sources
       then Inl (lit ''target_inventory_item_id cannot be included in source_inventory_item_ids'')
       else Inr \<lparr>mg_target_inventory_item_id = target, mg_source_inventory_item_ids = sources\<rparr>)"

section \<open>What validation establishes\<close>

lemma domain_validate_quantities_Inr:
  "domain_validate_quantities h a = Inr u \<longleftrightarrow>
     (\<exists>p q. h = Fin p \<and> a = Fin q \<and> 0 \<le> q \<and> q \<le> p)"
  by (cases h; cases a) (auto simp: domain_validate_quantities_def)

lemma InventoryItemIds_parse_Inr:
  "InventoryItemIds_parse ids = Inr ids' \<longleftrightarrow> ids' = ids \<and> ids \<noteq> [] \<and> distinct ids"
  by (auto simp: InventoryItemIds_parse_def distinct_card dest: card_distinct)

lemma Split_parse_Inr:
  assumes "Split_parse quantity batch location status public internal = Inr c"
  shows "\<exists>q. sp_quantity c = Fin q \<and> 0 < q" and "sp_quantity c = quantity"
    and "clean_text b \<Longrightarrow> clean_text (resolve_update (sp_batch_number c) b)"
    and "clean_text (sp_public_notes c)" and "clean_text (sp_internal_notes c)"
  using assms
  by (cases quantity; auto simp: Split_parse_def f64_less_eq_def result_unfold nullable_text_clean
      normalize_optional_text_clean split: if_splits)+

lemma Merge_parse_Inr:
  "Merge_parse target sources = Inr c \<longleftrightarrow>
     c = \<lparr>mg_target_inventory_item_id = target, mg_source_inventory_item_ids = sources\<rparr>
     \<and> sources \<noteq> [] \<and> distinct (target # sources)"
  by (auto simp: Merge_parse_def result_unfold InventoryItemIds_parse_Inr list_ex_iff)

lemma SerialSource_explicit_Inr:
  assumes "SerialSource_explicit env vs = Inr src"
  shows "\<exists>ss. src = Explicit ss \<and> 0 < length ss \<and> length ss \<le> 200 \<and> distinct ss
           \<and> (\<forall>s\<in>set ss. s \<noteq> [] \<and> trim s = s)"
proof -
  obtain ss where ss: "vs \<noteq> []" "length vs \<le> 200" "collect_map (SerialNumber_parse env) vs = Inr ss"
      "distinct ss" "src = Explicit ss"
    using assms by (auto simp: SerialSource_explicit_def result_unfold not_less split: if_splits)
  have "length ss = length vs"
    by (rule collect_map_Inr_length [OF ss(3)])
  moreover have "\<forall>s\<in>set ss. s \<noteq> [] \<and> trim s = s"
    by (auto simp: SerialNumber_parse_Inr dest!: collect_map_Inr_set [OF ss(3)])
  ultimately show ?thesis
    using ss by auto
qed

lemma SerialSource_generate_Inr:
  assumes "SerialSource_generate c = Inr src"
  shows "\<exists>n. src = Generate n \<and> 1 \<le> unat n \<and> unat n \<le> 200 \<and> sint c = int (unat n)"
proof -
  have c: "0 < sint c" "sint c \<le> 200" "src = Generate (ucast c)"
    using assms by (auto simp: SerialSource_generate_def word_sless_alt word_sle_eq split: if_splits)
  have "uint c = take_bit 64 (sint c)"
    using uint_sint [of c] by simp
  also have "\<dots> = sint c"
    using c by (simp add: take_bit_int_eq_self)
  finally have "uint c = sint c" .
  then have "unat c = nat (sint c)"
    by (metis nat_uint_eq)
  then have "unat (ucast c :: u16) = nat (sint c)"
    using c by (simp add: unat_ucast_mod)
  then show ?thesis
    using c by (intro exI [of _ "ucast c"]) auto
qed

end
