(* ===== verification/Inventory_Queries.thy ===== *)
theory Inventory_Queries
  imports Inventory_Domain
begin

text \<open>
  The table \<^verbatim>\<open>asset_inventory_items\<close> with the constraints of its migration, and the statements of
  \<^verbatim>\<open>routes/inventory_items/queries.rs\<close>. A statement either violates a constraint or yields the
  next database; \<open>inventory_ok\<close> collects what the constraints keep true.
\<close>

datatype db_error =
    DbValidation rstr
  | DbNotFound rstr
  | DbConflict rstr
  | DbUnexpected rstr

definition serial_index :: rstr where
  "serial_index = lit ''idx_asset_inventory_items_unique_asset_serial_number''"

definition aggregate_index :: rstr where
  "aggregate_index = lit ''idx_asset_inventory_items_unique_quantity_aggregate''"

definition pkey_index :: rstr where
  "pkey_index = lit ''asset_inventory_items_pkey''"

fun map_database_error :: "sql_error \<Rightarrow> db_error" where
  "map_database_error (UniqueViolation constraint) =
     (if constraint = serial_index
      then DbConflict (lit ''Inventory item serial number already exists for this asset'')
      else if constraint = aggregate_index
      then DbConflict (lit ''Inventory item already exists for this quantity aggregate'')
      else DbConflict (lit ''Inventory item already exists''))"
| "map_database_error ForeignKeyViolation = DbValidation (lit ''Invalid referenced record'')"
| "map_database_error CheckViolation = DbValidation (lit ''Invalid inventory item data'')"
| "map_database_error (OtherSqlError e) = DbUnexpected e"

section \<open>Constraints of the table\<close>

text \<open>\<^verbatim>\<open>btrim\<close> strips spaces only.\<close>

definition btrim :: "rstr \<Rightarrow> rstr" where
  "btrim s = rev (dropWhile (\<lambda>c. c = 32) (rev (dropWhile (\<lambda>c. c = 32) s)))"

definition inventory_checks :: "inventory_row \<Rightarrow> bool" where
  "inventory_checks r \<longleftrightarrow>
     (ii_tracking_mode r = lit ''serialized'' \<or> ii_tracking_mode r = lit ''quantity'')
     \<and> 0 \<le> ii_quantity_on_hand r \<and> 0 \<le> ii_quantity_allocated r
     \<and> ii_quantity_allocated r \<le> ii_quantity_on_hand r
     \<and> ii_status r \<in> {lit ''available'', lit ''reserved'', lit ''borrowed'', lit ''retired'',
                       lit ''lost'', lit ''consumed''}
     \<and> (case ii_batch_number r of None \<Rightarrow> True | Some b \<Rightarrow> btrim b \<noteq> [])
     \<and> ((ii_tracking_mode r = lit ''serialized''
           \<and> (case ii_serial_number r of None \<Rightarrow> False | Some s \<Rightarrow> btrim s \<noteq> [])
           \<and> ii_quantity_on_hand r = 1
           \<and> (ii_quantity_allocated r = 0 \<or> ii_quantity_allocated r = 1))
        \<or> (ii_tracking_mode r = lit ''quantity'' \<and> ii_serial_number r = None))"

definition coalesce :: "'a option \<Rightarrow> 'a \<Rightarrow> 'a" where
  "coalesce v d = (case v of None \<Rightarrow> d | Some x \<Rightarrow> x)"

definition serial_clash :: "inventory_row \<Rightarrow> inventory_row \<Rightarrow> bool" where
  "serial_clash r s \<longleftrightarrow>
     ii_serial_number r \<noteq> None \<and> ii_serial_number s = ii_serial_number r
     \<and> ii_laboratory_id s = ii_laboratory_id r \<and> ii_asset_id s = ii_asset_id r"

definition aggregate_clash :: "inventory_row \<Rightarrow> inventory_row \<Rightarrow> bool" where
  "aggregate_clash r s \<longleftrightarrow>
     ii_tracking_mode r = lit ''quantity'' \<and> ii_tracking_mode s = lit ''quantity''
     \<and> ii_laboratory_id s = ii_laboratory_id r \<and> ii_asset_id s = ii_asset_id r
     \<and> coalesce (ii_batch_number s) [] = coalesce (ii_batch_number r) []
     \<and> coalesce (ii_location_id s) 0 = coalesce (ii_location_id r) 0
     \<and> ii_status s = ii_status r"

definition references_ok :: "database \<Rightarrow> inventory_row \<Rightarrow> bool" where
  "references_ok db r \<longleftrightarrow>
     (\<exists>a\<in>set (assets db). as_asset_id a = ii_asset_id r \<and> as_laboratory_id a = ii_laboratory_id r
        \<and> as_tracking_mode a = ii_tracking_mode r)
     \<and> (case ii_location_id r of None \<Rightarrow> True
        | Some l \<Rightarrow> \<exists>x\<in>set (locations db). lo_location_id x = l \<and> lo_laboratory_id x = ii_laboratory_id r)"

text \<open>
  The checks a written row goes through, in the server's order: \<^verbatim>\<open>CHECK\<close>, the unique indexes
  in the order they were created, the foreign keys. \<open>others\<close> are the other rows of the table.
\<close>

definition constraint_error :: "database \<Rightarrow> inventory_row list \<Rightarrow> inventory_row \<Rightarrow> sql_error option" where
  "constraint_error db others r =
     (if \<not> inventory_checks r then Some CheckViolation
      else if \<exists>s\<in>set others. ii_inventory_item_id s = ii_inventory_item_id r
      then Some (UniqueViolation pkey_index)
      else if \<exists>s\<in>set others. serial_clash r s then Some (UniqueViolation serial_index)
      else if \<exists>s\<in>set others. aggregate_clash r s then Some (UniqueViolation aggregate_index)
      else if \<not> references_ok db r then Some ForeignKeyViolation
      else None)"

definition insert_row :: "inventory_row \<Rightarrow> database \<Rightarrow> (sql_error, database) result" where
  "insert_row r db =
     (case constraint_error db (inventory_items db) r of
        Some e \<Rightarrow> Inl e
      | None \<Rightarrow> Inr (db\<lparr>inventory_items := inventory_items db @ [r]\<rparr>))"

text \<open>\<^verbatim>\<open>UPDATE ... WHERE inventory_item_id = $1\<close>; no such row is no error.\<close>

definition update_row_by_id ::
    "uuid \<Rightarrow> (inventory_row \<Rightarrow> inventory_row) \<Rightarrow> database \<Rightarrow> (sql_error, database) result" where
  "update_row_by_id i change db =
     (case fetch_optional (\<lambda>r. ii_inventory_item_id r = i) (inventory_items db) of
        None \<Rightarrow> Inr db
      | Some r \<Rightarrow>
          (case constraint_error db (filter (\<lambda>s. ii_inventory_item_id s \<noteq> i) (inventory_items db)) (change r) of
             Some e \<Rightarrow> Inl e
           | None \<Rightarrow> Inr (db\<lparr>inventory_items :=
                 update_rows (\<lambda>r. ii_inventory_item_id r = i) change (inventory_items db)\<rparr>)))"

section \<open>Reads\<close>

text \<open>The rows joined with their assets, and the projection every read shares.\<close>

definition joined_items :: "database \<Rightarrow> (inventory_row \<times> asset_row) list" where
  "joined_items db =
     concat (map (\<lambda>r. map (\<lambda>a. (r, a)) (filter (\<lambda>a. as_asset_id a = ii_asset_id r) (assets db)))
       (inventory_items db))"

definition cast_error :: rstr where "cast_error = lit ''numeric value out of range''"

definition item_of_row :: "env \<Rightarrow> inventory_row \<times> asset_row \<Rightarrow> (rstr, inventory_item) result" where
  "item_of_row env = (\<lambda>(r, a).
     and_then (ok_or cast_error (numeric_float8 env (ii_quantity_on_hand r))) (\<lambda>on_hand.
     and_then (ok_or cast_error (numeric_float8 env (ii_quantity_allocated r))) (\<lambda>allocated.
       Inr \<lparr>it_inventory_item_id = ii_inventory_item_id r, it_asset_id = ii_asset_id r,
            it_laboratory_id = ii_laboratory_id r, it_tracking_mode = ii_tracking_mode r,
            it_serial_number = ii_serial_number r, it_batch_number = ii_batch_number r,
            it_quantity_on_hand = on_hand, it_quantity_allocated = allocated,
            it_location_id = ii_location_id r, it_status = ii_status r,
            it_public_notes = ii_public_notes r, it_internal_notes = ii_internal_notes r,
            it_created_at = ii_created_at r, it_updated_at = ii_updated_at r,
            it_last_stocktake_at = ii_last_stocktake_at r,
            it_asset_category_id = as_category_id a, it_asset_name = as_name a,
            it_asset_model = as_model a, it_asset_manufacturer = as_manufacturer a,
            it_asset_inventory_unit_id = as_inventory_unit_id a\<rparr>)))"

definition fetch_inventory_item :: "env \<Rightarrow> uuid \<Rightarrow> database \<Rightarrow> (rstr, inventory_item option) result" where
  "fetch_inventory_item env i db =
     transpose_with (item_of_row env)
       (fetch_optional (\<lambda>p. ii_inventory_item_id (fst p) = i) (joined_items db))"

text \<open>The locking read returns the same row.\<close>

definition fetch_inventory_item_for_update ::
    "env \<Rightarrow> uuid \<Rightarrow> database \<Rightarrow> (rstr, inventory_item option) result" where
  "fetch_inventory_item_for_update env i db = fetch_inventory_item env i db"

definition fetch_inventory_items_for_update ::
    "env \<Rightarrow> uuid list \<Rightarrow> database \<Rightarrow> (rstr, inventory_item list) result" where
  "fetch_inventory_items_for_update env ids db =
     collect_map (item_of_row env)
       (sort_key (\<lambda>p. ii_inventory_item_id (fst p))
         (filter (\<lambda>p. ii_inventory_item_id (fst p) \<in> set ids) (joined_items db)))"

definition find_quantity_aggregate_for_update ::
    "env \<Rightarrow> uuid \<Rightarrow> uuid \<Rightarrow> rstr option \<Rightarrow> uuid option \<Rightarrow> rstr \<Rightarrow> uuid option \<Rightarrow> database
       \<Rightarrow> (rstr, inventory_item option) result" where
  "find_quantity_aggregate_for_update env lab asset batch location status exclude db =
     transpose_with (item_of_row env)
       (fetch_optional
         (\<lambda>p. ii_tracking_mode (fst p) = lit ''quantity'' \<and> ii_laboratory_id (fst p) = lab
              \<and> ii_asset_id (fst p) = asset \<and> ii_batch_number (fst p) = batch
              \<and> ii_location_id (fst p) = location \<and> ii_status (fst p) = status
              \<and> (exclude = None \<or> Some (ii_inventory_item_id (fst p)) \<noteq> exclude))
         (joined_items db))"

text \<open>\<^verbatim>\<open>'^#[0-9]+$'\<close>, and the integer behind the sign; a value over \<^verbatim>\<open>int4\<close> is a cast error.\<close>

fun digits_value :: "nat \<Rightarrow> rstr \<Rightarrow> nat" where
  "digits_value acc [] = acc"
| "digits_value acc (c # cs) = digits_value (10 * acc + (c - 48)) cs"

definition is_generated_serial :: "rstr \<Rightarrow> bool" where
  "is_generated_serial s \<longleftrightarrow> s \<noteq> [] \<and> hd s = 35 \<and> tl s \<noteq> [] \<and> list_all is_ascii_digit (tl s)"

definition generated_serials :: "uuid \<Rightarrow> database \<Rightarrow> rstr list" where
  "generated_serials asset db =
     filter is_generated_serial
       (List.map_filter ii_serial_number (filter (\<lambda>r. ii_asset_id r = asset) (inventory_items db)))"

definition max_generated_serial_number :: "uuid \<Rightarrow> database \<Rightarrow> (rstr, nat) result" where
  "max_generated_serial_number asset db =
     (let values = map (\<lambda>s. digits_value 0 (tl s)) (generated_serials asset db)
      in if \<exists>v\<in>set values. 2147483647 < v then Inl (lit ''integer out of range'')
         else Inr (foldl max 0 values))"

definition fetch_asset_laboratory_id :: "uuid \<Rightarrow> database \<Rightarrow> uuid option" where
  "fetch_asset_laboratory_id asset db =
     map_option as_laboratory_id (fetch_optional (\<lambda>a. as_asset_id a = asset) (assets db))"

text \<open>\<^verbatim>\<open>AssetForInventoryRow\<close>.\<close>

record asset_for_inventory =
  af_asset_id :: uuid
  af_laboratory_id :: uuid
  af_tracking_mode :: rstr

definition fetch_asset_for_inventory_for_update :: "uuid \<Rightarrow> database \<Rightarrow> asset_for_inventory option" where
  "fetch_asset_for_inventory_for_update asset db =
     map_option (\<lambda>a. \<lparr>af_asset_id = as_asset_id a, af_laboratory_id = as_laboratory_id a,
                      af_tracking_mode = as_tracking_mode a\<rparr>)
       (fetch_optional (\<lambda>a. as_asset_id a = asset) (assets db))"

definition validate_location :: "uuid \<Rightarrow> uuid \<Rightarrow> database \<Rightarrow> (db_error, unit) result" where
  "validate_location lab location db =
     (case fetch_optional (\<lambda>l. lo_laboratory_id l = lab \<and> lo_location_id l = location) (locations db) of
        Some _ \<Rightarrow> Inr ()
      | None \<Rightarrow> Inl (DbValidation (lit ''Inventory item location does not belong to this laboratory'')))"

section \<open>Writes\<close>

text \<open>\<^verbatim>\<open>trim_optional\<close>.\<close>

definition trim_optional :: "rstr option \<Rightarrow> rstr option" where
  "trim_optional v = (case v of None \<Rightarrow> None | Some s \<Rightarrow> if trim s \<noteq> [] then Some (trim s) else None)"

definition to_numeric :: "env \<Rightarrow> f64 \<Rightarrow> (sql_error, rat) result" where
  "to_numeric env q = ok_or (OtherSqlError cast_error) (float8_numeric env q)"

definition insert_inventory_item_row ::
    "env \<Rightarrow> uuid \<Rightarrow> uuid \<Rightarrow> uuid \<Rightarrow> rstr \<Rightarrow> rstr option \<Rightarrow> rstr option \<Rightarrow> f64 \<Rightarrow> f64 \<Rightarrow> uuid option \<Rightarrow> rstr
       \<Rightarrow> rstr option \<Rightarrow> rstr option \<Rightarrow> (db_error, unit) tx" where
  "insert_inventory_item_row env i asset lab mode serial batch on_hand allocated location status
       public_notes internal_notes =
     tx_map_err map_database_error (tx_write (\<lambda>db.
       and_then (to_numeric env on_hand) (\<lambda>h.
       and_then (to_numeric env allocated) (\<lambda>a.
         insert_row
           \<lparr>ii_inventory_item_id = i, ii_asset_id = asset, ii_laboratory_id = lab,
            ii_tracking_mode = mode, ii_serial_number = trim_optional serial,
            ii_batch_number = trim_optional batch, ii_quantity_on_hand = h,
            ii_quantity_allocated = a, ii_location_id = location, ii_status = status,
            ii_public_notes = trim_optional public_notes,
            ii_internal_notes = trim_optional internal_notes,
            ii_created_at = env_now env, ii_updated_at = env_now env,
            ii_last_stocktake_at = None\<rparr> db))))"

text \<open>The three \<^verbatim>\<open>UPDATE\<close>s of an item, as changes of a row.\<close>

definition set_columns ::
    "rstr option \<Rightarrow> rstr option \<Rightarrow> rat \<Rightarrow> rat \<Rightarrow> uuid option \<Rightarrow> rstr \<Rightarrow> rstr option \<Rightarrow> rstr option \<Rightarrow> int
       \<Rightarrow> inventory_row \<Rightarrow> inventory_row" where
  "set_columns serial batch on_hand allocated location status public_notes internal_notes now r =
     r\<lparr>ii_serial_number := serial, ii_batch_number := batch, ii_quantity_on_hand := on_hand,
       ii_quantity_allocated := allocated, ii_location_id := location, ii_status := status,
       ii_public_notes := public_notes, ii_internal_notes := internal_notes, ii_updated_at := now\<rparr>"

definition set_on_hand :: "rat \<Rightarrow> int \<Rightarrow> inventory_row \<Rightarrow> inventory_row" where
  "set_on_hand on_hand now r = r\<lparr>ii_quantity_on_hand := on_hand, ii_updated_at := now\<rparr>"

definition add_quantities :: "rat \<Rightarrow> rat \<Rightarrow> int \<Rightarrow> inventory_row \<Rightarrow> inventory_row" where
  "add_quantities dq da now r =
     r\<lparr>ii_quantity_on_hand := ii_quantity_on_hand r + dq,
       ii_quantity_allocated := ii_quantity_allocated r + da, ii_updated_at := now\<rparr>"

definition update_inventory_item_in_database ::
    "env \<Rightarrow> uuid \<Rightarrow> rstr option \<Rightarrow> rstr option \<Rightarrow> f64 \<Rightarrow> f64 \<Rightarrow> uuid option \<Rightarrow> rstr \<Rightarrow> rstr option
       \<Rightarrow> rstr option \<Rightarrow> (db_error, unit) tx" where
  "update_inventory_item_in_database env i serial batch on_hand allocated location status
       public_notes internal_notes =
     tx_map_err map_database_error (tx_write (\<lambda>db.
       and_then (to_numeric env on_hand) (\<lambda>h.
       and_then (to_numeric env allocated) (\<lambda>a.
         update_row_by_id i
           (set_columns serial batch h a location status public_notes internal_notes (env_now env)) db))))"

definition set_quantity_on_hand_in_database :: "env \<Rightarrow> uuid \<Rightarrow> f64 \<Rightarrow> (db_error, unit) tx" where
  "set_quantity_on_hand_in_database env i on_hand =
     tx_map_err map_database_error (tx_write (\<lambda>db.
       and_then (to_numeric env on_hand) (\<lambda>h. update_row_by_id i (set_on_hand h (env_now env)) db)))"

definition add_quantities_in_database :: "env \<Rightarrow> uuid \<Rightarrow> f64 \<Rightarrow> f64 \<Rightarrow> (db_error, unit) tx" where
  "add_quantities_in_database env i dq da =
     tx_map_err map_database_error (tx_write (\<lambda>db.
       and_then (to_numeric env dq) (\<lambda>dq.
       and_then (to_numeric env da) (\<lambda>da. update_row_by_id i (add_quantities dq da (env_now env)) db))))"

text \<open>Attachments and borrow requests of a deleted item go with it (\<^verbatim>\<open>ON DELETE CASCADE\<close>).\<close>

definition delete_inventory_item_from_database :: "uuid \<Rightarrow> (db_error, unit) tx" where
  "delete_inventory_item_from_database i =
     tx_write (\<lambda>db. Inr (
       if \<exists>r\<in>set (inventory_items db). ii_inventory_item_id r = i
       then db\<lparr>inventory_items := filter (\<lambda>r. ii_inventory_item_id r \<noteq> i) (inventory_items db),
               attachments := filter (\<lambda>a. at_inventory_item_id a \<noteq> Some i) (attachments db),
               borrow_requests := filter (\<lambda>b. br_inventory_item_id b \<noteq> i) (borrow_requests db)\<rparr>
       else db))"

text \<open>
  The assignments of the item and their files, returned as attachment id and storage key. A
  file another assignment still names cannot be deleted.
\<close>

definition delete_inventory_item_attachments :: "uuid \<Rightarrow> (rstr, (uuid \<times> rstr) list) tx" where
  "delete_inventory_item_attachments i = (\<lambda>db.
     let deleted = filter (\<lambda>a. at_inventory_item_id a = Some i) (attachments db);
         kept = filter (\<lambda>a. at_inventory_item_id a \<noteq> Some i) (attachments db);
         named = (\<lambda>f. fi_file_id f \<in> at_file_id ` set deleted)
     in if \<exists>a\<in>set kept. \<exists>f\<in>set (files db). named f \<and> at_file_id a = fi_file_id f
        then Inl (lit ''Failed to delete inventory item attachments'')
        else Inr (sort_key fst (concat (map (\<lambda>a. map (\<lambda>f. (at_attachment_id a, fi_storage_key f))
                     (filter (\<lambda>f. fi_file_id f = at_file_id a) (files db))) deleted)),
                  db\<lparr>attachments := kept, files := filter (\<lambda>f. \<not> named f) (files db)\<rparr>))"

definition move_attachment :: "uuid \<Rightarrow> int \<Rightarrow> attachment_row \<Rightarrow> attachment_row" where
  "move_attachment i now a = a\<lparr>at_inventory_item_id := Some i, at_updated_at := now\<rparr>"

definition move_inventory_item_attachments :: "env \<Rightarrow> uuid list \<Rightarrow> uuid \<Rightarrow> (rstr, uuid list) tx" where
  "move_inventory_item_attachments env from_ids to_id = (\<lambda>db.
     let moves = (\<lambda>a. case at_inventory_item_id a of None \<Rightarrow> False | Some i \<Rightarrow> i \<in> set from_ids);
         moved = filter moves (attachments db)
     in if \<exists>a\<in>set moved. \<not> (\<exists>r\<in>set (inventory_items db).
               ii_inventory_item_id r = to_id \<and> ii_laboratory_id r = at_laboratory_id a)
        then Inl (lit ''Failed to move inventory item attachments'')
        else Inr (map at_attachment_id moved,
                  db\<lparr>attachments := update_rows moves (move_attachment to_id (env_now env)) (attachments db)\<rparr>))"

interpretation set_columns: row_update ii_inventory_item_id
    "set_columns serial batch h a location status pn inn now" for serial batch h a location status pn inn now
  by unfold_locales (simp add: set_columns_def)

interpretation set_on_hand: row_update ii_inventory_item_id "set_on_hand h now" for h now
  by unfold_locales (simp add: set_on_hand_def)

interpretation add_quantities: row_update ii_inventory_item_id "add_quantities dq da now" for dq da now
  by unfold_locales (simp add: add_quantities_def)

interpretation move_attachment: row_update at_attachment_id "move_attachment i now" for i now
  by unfold_locales (simp add: move_attachment_def)

end
