(* ===== verification/Inventory_Invariant.thy ===== *)
theory Inventory_Invariant
  imports Inventory_Queries
begin

text \<open>
  What the constraints of \<^verbatim>\<open>asset_inventory_items\<close> keep true, and what the statements return in
  such a database: every write preserves \<open>inventory_ok\<close>, a written row is read back as written,
  and no statement touches a row it does not name.
\<close>

definition inventory_ok :: "database \<Rightarrow> bool" where
  "inventory_ok db \<longleftrightarrow>
     distinct (map ii_inventory_item_id (inventory_items db))
     \<and> distinct (map as_asset_id (assets db))
     \<and> (\<forall>r\<in>set (inventory_items db). inventory_checks r \<and> references_ok db r)
     \<and> (\<forall>r\<in>set (inventory_items db). \<forall>s\<in>set (inventory_items db).
          ii_inventory_item_id r \<noteq> ii_inventory_item_id s \<longrightarrow> \<not> serial_clash r s \<and> \<not> aggregate_clash r s)"

text \<open>The row an id names, and its asset.\<close>

definition item_row :: "database \<Rightarrow> uuid \<Rightarrow> inventory_row option" where
  "item_row db i = fetch_optional (\<lambda>r. ii_inventory_item_id r = i) (inventory_items db)"

definition asset_row_of :: "database \<Rightarrow> uuid \<Rightarrow> asset_row option" where
  "asset_row_of db a = fetch_optional (\<lambda>x. as_asset_id x = a) (assets db)"

section \<open>Reading in a consistent database\<close>

lemma inventory_ok_ids: "inventory_ok db \<Longrightarrow> distinct (map ii_inventory_item_id (inventory_items db))"
  by (simp add: inventory_ok_def)

lemma inventory_ok_row:
  assumes "inventory_ok db" and "r \<in> set (inventory_items db)"
  shows "inventory_checks r" and "references_ok db r"
  using assms by (auto simp: inventory_ok_def)

lemma item_row_Some:
  "item_row db i = Some r \<Longrightarrow> r \<in> set (inventory_items db) \<and> ii_inventory_item_id r = i"
  unfolding item_row_def by (rule fetch_optional_Some)

lemma item_row_mem:
  "inventory_ok db \<Longrightarrow> r \<in> set (inventory_items db) \<Longrightarrow> item_row db (ii_inventory_item_id r) = Some r"
  unfolding item_row_def by (rule fetch_optional_unique [OF inventory_ok_ids])

lemma filter_unique_key:
  assumes "distinct (map key xs)" and "x \<in> set xs"
  shows "filter (\<lambda>y. key y = key x) xs = [x]"
  using assms by (induction xs) (auto simp: filter_empty_conv image_iff)

lemma asset_of_item:
  assumes "inventory_ok db" and "r \<in> set (inventory_items db)"
  shows "\<exists>a. asset_row_of db (ii_asset_id r) = Some a \<and> a \<in> set (assets db)
           \<and> as_laboratory_id a = ii_laboratory_id r \<and> as_tracking_mode a = ii_tracking_mode r
           \<and> filter (\<lambda>a. as_asset_id a = ii_asset_id r) (assets db) = [a]"
proof -
  obtain a where a: "a \<in> set (assets db)" "as_asset_id a = ii_asset_id r"
      "as_laboratory_id a = ii_laboratory_id r" "as_tracking_mode a = ii_tracking_mode r"
    using inventory_ok_row(2) [OF assms] by (auto simp: references_ok_def)
  have d: "distinct (map as_asset_id (assets db))"
    using assms(1) by (simp add: inventory_ok_def)
  show ?thesis
    using fetch_optional_unique [OF d a(1)] filter_unique_key [OF d a(1)] a
    by (auto simp: asset_row_of_def)
qed

lemma joined_items_map:
  assumes "inventory_ok db"
  shows "joined_items db = map (\<lambda>r. (r, the (asset_row_of db (ii_asset_id r)))) (inventory_items db)"
proof -
  have "map (\<lambda>a. (r, a)) (filter (\<lambda>a. as_asset_id a = ii_asset_id r) (assets db))
      = [(r, the (asset_row_of db (ii_asset_id r)))]" if "r \<in> set (inventory_items db)" for r
    using asset_of_item [OF assms that] by auto
  then have "map (\<lambda>r. map (\<lambda>a. (r, a)) (filter (\<lambda>a. as_asset_id a = ii_asset_id r) (assets db)))
        (inventory_items db)
      = map (\<lambda>r. [(r, the (asset_row_of db (ii_asset_id r)))]) (inventory_items db)"
    by (rule map_cong [OF refl])
  then show ?thesis
    by (simp only: joined_items_def concat_map_singleton)
qed

lemma find_map: "find p (map f xs) = map_option f (find (p \<circ> f) xs)"
  by (induction xs) auto

lemma fetch_joined:
  assumes "inventory_ok db"
  shows "fetch_optional (\<lambda>p. P (fst p)) (joined_items db)
    = map_option (\<lambda>r. (r, the (asset_row_of db (ii_asset_id r)))) (fetch_optional P (inventory_items db))"
  by (simp add: joined_items_map [OF assms] fetch_optional_def find_map o_def)

lemma fetch_optional_filter:
  "(\<And>x. P x \<Longrightarrow> Q x) \<Longrightarrow> fetch_optional P (filter Q xs) = fetch_optional P xs"
  by (induction xs) (auto simp: fetch_optional_def)

definition item_view :: "env \<Rightarrow> database \<Rightarrow> inventory_row \<Rightarrow> (rstr, inventory_item) result" where
  "item_view env db r = item_of_row env (r, the (asset_row_of db (ii_asset_id r)))"

lemma fetch_inventory_item_eq:
  assumes "inventory_ok db"
  shows "fetch_inventory_item env i db = transpose_with (item_view env db) (item_row db i)"
  using fetch_joined [OF assms, of "\<lambda>r. ii_inventory_item_id r = i"]
  by (cases "item_row db i") (simp_all add: fetch_inventory_item_def item_row_def item_view_def)

lemma item_of_row_columns:
  assumes "item_of_row env (r, a) = Inr it"
  shows "it_inventory_item_id it = ii_inventory_item_id r" "it_asset_id it = ii_asset_id r"
    "it_laboratory_id it = ii_laboratory_id r" "it_tracking_mode it = ii_tracking_mode r"
    "it_serial_number it = ii_serial_number r" "it_batch_number it = ii_batch_number r"
    "it_location_id it = ii_location_id r" "it_status it = ii_status r"
    "it_public_notes it = ii_public_notes r" "it_internal_notes it = ii_internal_notes r"
    "numeric_float8 env (ii_quantity_on_hand r) = Some (it_quantity_on_hand it)"
    "numeric_float8 env (ii_quantity_allocated r) = Some (it_quantity_allocated it)"
  using assms by (auto simp: item_of_row_def result_unfold)

lemmas item_view_columns =
  item_of_row_columns [of env r "the (asset_row_of db (ii_asset_id r))", folded item_view_def] for env r db

lemma fetch_inventory_item_Some:
  assumes "inventory_ok db" and "fetch_inventory_item env i db = Inr (Some it)"
  shows "\<exists>r. item_row db i = Some r \<and> item_view env db r = Inr it"
  using assms by (auto simp: fetch_inventory_item_eq transpose_with_Inr_iff split: option.splits)

section \<open>Writing\<close>

lemma constraint_error_None:
  "constraint_error db others r = None \<longleftrightarrow>
     inventory_checks r \<and> references_ok db r \<and>
     (\<forall>s\<in>set others. ii_inventory_item_id s \<noteq> ii_inventory_item_id r
        \<and> \<not> serial_clash r s \<and> \<not> aggregate_clash r s)"
  by (auto simp: constraint_error_def)

lemma serial_clash_sym: "serial_clash r s = serial_clash s r"
  by (auto simp: serial_clash_def)

lemma aggregate_clash_sym: "aggregate_clash r s = aggregate_clash s r"
  by (auto simp: aggregate_clash_def)

lemma references_ok_frame [simp]:
  "references_ok (db\<lparr>inventory_items := rows\<rparr>) r = references_ok db r"
  by (simp add: references_ok_def split: option.split)

lemma insert_row_Inr:
  "insert_row r db = Inr db' \<longleftrightarrow>
     constraint_error db (inventory_items db) r = None
     \<and> db' = db\<lparr>inventory_items := inventory_items db @ [r]\<rparr>"
  by (auto simp: insert_row_def split: option.splits)

lemma insert_row_ok:
  assumes "inventory_ok db" and "insert_row r db = Inr db'"
  shows "inventory_ok db'"
  using assms
  by (auto simp: inventory_ok_def insert_row_Inr constraint_error_None serial_clash_sym aggregate_clash_sym)

lemma update_row_by_id_Inr:
  "update_row_by_id i change db = Inr db' \<longleftrightarrow>
     (case item_row db i of
        None \<Rightarrow> db' = db
      | Some r \<Rightarrow>
          constraint_error db (filter (\<lambda>s. ii_inventory_item_id s \<noteq> i) (inventory_items db)) (change r) = None
          \<and> db' = db\<lparr>inventory_items :=
               update_rows (\<lambda>r. ii_inventory_item_id r = i) change (inventory_items db)\<rparr>)"
  by (auto simp: update_row_by_id_def item_row_def split: option.splits)

lemma update_row_by_id_ok:
  assumes ok: "inventory_ok db" and upd: "update_row_by_id i change db = Inr db'"
    and key: "row_update ii_inventory_item_id change"
  shows "inventory_ok db'"
proof (cases "item_row db i")
  case None
  with ok upd show ?thesis
    by (simp add: update_row_by_id_Inr)
next
  case (Some r)
  note key_change = row_update.key_change [OF key]
  let ?rows = "update_rows (\<lambda>r. ii_inventory_item_id r = i) change (inventory_items db)"
  have r: "r \<in> set (inventory_items db)" "ii_inventory_item_id r = i"
    using item_row_Some [OF Some] by auto
  have c: "inventory_checks (change r)" "references_ok db (change r)"
      "\<And>s. s \<in> set (inventory_items db) \<Longrightarrow> ii_inventory_item_id s \<noteq> i \<Longrightarrow>
         \<not> serial_clash (change r) s \<and> \<not> aggregate_clash (change r) s"
      and db': "db' = db\<lparr>inventory_items := ?rows\<rparr>"
    using upd Some by (auto simp: update_row_by_id_Inr constraint_error_None key_change r(2))
  have only: "s = r" if "s \<in> set (inventory_items db)" "ii_inventory_item_id s = i" for s
    using item_row_mem [OF ok that(1)] Some that(2) by simp
  have rows: "s = change r \<or> (s \<in> set (inventory_items db) \<and> ii_inventory_item_id s \<noteq> i)"
    if "s \<in> set ?rows" for s
    using that only by (auto simp: set_update_rows)
  have "\<not> serial_clash s t \<and> \<not> aggregate_clash s t"
    if "s \<in> set ?rows" "t \<in> set ?rows" "ii_inventory_item_id s \<noteq> ii_inventory_item_id t" for s t
    using rows [OF that(1)] rows [OF that(2)] that(3) ok c(3)
    by (auto simp: inventory_ok_def key_change r(2) serial_clash_sym aggregate_clash_sym)
  moreover have "inventory_checks s \<and> references_ok db s" if "s \<in> set ?rows" for s
    using rows [OF that] c(1,2) ok by (auto simp: inventory_ok_def)
  ultimately show ?thesis
    using ok row_update.distinct_keys [OF key] by (auto simp: db' inventory_ok_def)
qed

lemma update_row_read_back:
  assumes "update_row_by_id i change db = Inr db'" and "row_update ii_inventory_item_id change"
  shows "item_row db' i = map_option change (item_row db i)"
    and "j \<noteq> i \<Longrightarrow> item_row db' j = item_row db j"
  using assms(1) row_update.read_back [OF assms(2), of i "inventory_items db"]
    row_update.read_other [OF assms(2), of j i "inventory_items db"]
  by (auto simp: update_row_by_id_Inr item_row_def split: option.splits)

lemma update_row_frame:
  "update_row_by_id i change db = Inr db' \<Longrightarrow> \<exists>rows. db' = db\<lparr>inventory_items := rows\<rparr>"
proof (cases "item_row db i")
  case None
  assume "update_row_by_id i change db = Inr db'"
  with None have "db' = db\<lparr>inventory_items := inventory_items db\<rparr>"
    by (simp add: update_row_by_id_Inr)
  then show ?thesis by blast
qed (auto simp: update_row_by_id_Inr)

text \<open>The statements themselves: a successful one is its row operation.\<close>

lemma to_numeric_Inr [tx_unfold]: "to_numeric env q = Inr v \<longleftrightarrow> float8_numeric env q = Some v"
  by (simp add: to_numeric_def ok_or_Inr_iff)

lemma update_inventory_item_in_database_Inr [tx_unfold]:
  "update_inventory_item_in_database env i serial batch on_hand allocated location status pn inn db
     = Inr (u, db') \<longleftrightarrow>
   (\<exists>h a. float8_numeric env on_hand = Some h \<and> float8_numeric env allocated = Some a
      \<and> update_row_by_id i (set_columns serial batch h a location status pn inn (env_now env)) db = Inr db')"
  by (auto simp: update_inventory_item_in_database_def tx_unfold and_then_Inr_iff)

lemma set_quantity_on_hand_in_database_Inr [tx_unfold]:
  "set_quantity_on_hand_in_database env i on_hand db = Inr (u, db') \<longleftrightarrow>
   (\<exists>h. float8_numeric env on_hand = Some h
      \<and> update_row_by_id i (set_on_hand h (env_now env)) db = Inr db')"
  by (auto simp: set_quantity_on_hand_in_database_def tx_unfold and_then_Inr_iff)

lemma add_quantities_in_database_Inr [tx_unfold]:
  "add_quantities_in_database env i dq da db = Inr (u, db') \<longleftrightarrow>
   (\<exists>q a. float8_numeric env dq = Some q \<and> float8_numeric env da = Some a
      \<and> update_row_by_id i (add_quantities q a (env_now env)) db = Inr db')"
  by (auto simp: add_quantities_in_database_def tx_unfold and_then_Inr_iff)

lemma insert_inventory_item_row_Inr [tx_unfold]:
  "insert_inventory_item_row env i asset lab mode serial batch on_hand allocated location status pn inn db
     = Inr (u, db') \<longleftrightarrow>
   (\<exists>h a. float8_numeric env on_hand = Some h \<and> float8_numeric env allocated = Some a
      \<and> insert_row
           \<lparr>ii_inventory_item_id = i, ii_asset_id = asset, ii_laboratory_id = lab,
            ii_tracking_mode = mode, ii_serial_number = trim_optional serial,
            ii_batch_number = trim_optional batch, ii_quantity_on_hand = h,
            ii_quantity_allocated = a, ii_location_id = location, ii_status = status,
            ii_public_notes = trim_optional pn, ii_internal_notes = trim_optional inn,
            ii_created_at = env_now env, ii_updated_at = env_now env,
            ii_last_stocktake_at = None\<rparr> db = Inr db')"
  by (auto simp: insert_inventory_item_row_def tx_unfold and_then_Inr_iff)

lemma delete_inventory_item_ok:
  assumes "inventory_ok db" and "delete_inventory_item_from_database i db = Inr (u, db')"
  shows "inventory_ok db'" and "item_row db' i = None" and "j \<noteq> i \<Longrightarrow> item_row db' j = item_row db j"
proof -
  have db': "db' = db \<or> db' = db\<lparr>inventory_items := filter (\<lambda>r. ii_inventory_item_id r \<noteq> i) (inventory_items db),
               attachments := filter (\<lambda>a. at_inventory_item_id a \<noteq> Some i) (attachments db),
               borrow_requests := filter (\<lambda>b. br_inventory_item_id b \<noteq> i) (borrow_requests db)\<rparr>"
      and rows: "inventory_items db' = filter (\<lambda>r. ii_inventory_item_id r \<noteq> i) (inventory_items db)"
    using assms(2)
    by (auto simp: delete_inventory_item_from_database_def tx_unfold filter_id_conv split: if_splits)
  have "references_ok db' r = references_ok db r" "assets db' = assets db" for r
    using db' by (auto simp: references_ok_def split: option.split)
  then show "inventory_ok db'"
    using assms(1) by (auto simp: inventory_ok_def rows distinct_map_filter)
  show "item_row db' i = None"
    by (auto simp: item_row_def rows fetch_optional_None)
  show "item_row db' j = item_row db j" if "j \<noteq> i"
    using that unfolding item_row_def rows by (intro fetch_optional_filter) auto
qed

section \<open>Stock of an asset\<close>

definition stock_on_hand :: "database \<Rightarrow> uuid \<Rightarrow> rat" where
  "stock_on_hand db a =
     sum_list (map ii_quantity_on_hand (filter (\<lambda>r. ii_asset_id r = a) (inventory_items db)))"

lemma stock_update:
  assumes "update_row_by_id i change db = Inr db'" and "inventory_ok db" and "item_row db i = Some r"
    and "ii_asset_id (change r) = ii_asset_id r"
  shows "stock_on_hand db' a = stock_on_hand db a
    + (if ii_asset_id r = a then ii_quantity_on_hand (change r) - ii_quantity_on_hand r else 0)"
proof -
  have db': "inventory_items db' = update_rows (\<lambda>r. ii_inventory_item_id r = i) change (inventory_items db)"
    using assms(1,3) by (simp add: update_row_by_id_Inr)
  have upd: "sum_list (map ii_quantity_on_hand (filter (\<lambda>r. ii_asset_id r = a)
        (update_rows (\<lambda>r. ii_inventory_item_id r = i) change rows)))
      = sum_list (map ii_quantity_on_hand (filter (\<lambda>r. ii_asset_id r = a) rows))
        + (if ii_asset_id r = a then ii_quantity_on_hand (change r) - ii_quantity_on_hand r else 0)"
    if "distinct (map ii_inventory_item_id rows)" "fetch_optional (\<lambda>r. ii_inventory_item_id r = i) rows = Some r"
    for rows
    using that
  proof (induction rows)
    case (Cons x xs)
    show ?case
    proof (cases "ii_inventory_item_id x = i")
      case True
      with Cons.prems have x: "x = r" "update_rows (\<lambda>r. ii_inventory_item_id r = i) change xs = xs"
        by (auto simp: fetch_optional_def update_rows_def image_iff intro!: map_idI)
      then show ?thesis
        using True assms(4) by (simp add: update_rows_def)
    next
      case False
      with Cons show ?thesis
        by (simp add: fetch_optional_def update_rows_def)
    qed
  qed (simp add: fetch_optional_def)
  show ?thesis
    using upd [OF inventory_ok_ids [OF assms(2)]] assms(3) by (simp add: stock_on_hand_def db' item_row_def)
qed

lemma stock_insert:
  "stock_on_hand (db\<lparr>inventory_items := inventory_items db @ [r]\<rparr>) a
     = stock_on_hand db a + (if ii_asset_id r = a then ii_quantity_on_hand r else 0)"
  by (simp add: stock_on_hand_def)

lemma stock_frame [simp]: "stock_on_hand (db\<lparr>audit_logs := l\<rparr>) a = stock_on_hand db a"
  by (simp add: stock_on_hand_def)

end
