(* ===== verification/Inventory_Service.thy ===== *)
theory Inventory_Service
  imports Inventory_Invariant
begin

text \<open>
  \<^verbatim>\<open>routes/inventory_items/service.rs\<close>: the rules of the inventory flows and the statements they
  chain. A write answers with the row it wrote, read back.
\<close>

section \<open>Validation\<close>

definition validate_requested_ids :: "uuid list \<Rightarrow> inventory_item list \<Rightarrow> (db_error, unit) result" where
  "validate_requested_ids requested_ids rows =
     (if requested_ids = [] then Inl (DbValidation (lit ''inventory_item_ids cannot be empty''))
      else if card (set requested_ids) \<noteq> length requested_ids
      then Inl (DbValidation (lit ''inventory_item_ids cannot contain duplicates''))
      else if length rows \<noteq> length requested_ids
      then Inl (DbNotFound (lit ''One or more inventory items were not found''))
      else Inr ())"

definition validate_status :: "rstr option \<Rightarrow> (rstr, rstr option) result" where
  "validate_status status =
     transpose_with (\<lambda>s. and_then (InventoryStatus_parse s) (\<lambda>s. Inr (InventoryStatus_as_str s))) status"

definition validate_quantity_item :: "inventory_item \<Rightarrow> (rstr, unit) result" where
  "validate_quantity_item row =
     (if it_tracking_mode row = lit ''quantity'' then Inr ()
      else Inl (lit ''Operation only applies to quantity-tracked inventory items''))"

definition validate_quantities :: "f64 \<Rightarrow> f64 \<Rightarrow> (rstr, unit) result" where
  "validate_quantities on_hand allocated =
     (if f64_less on_hand (Fin 0) then Inl (lit ''quantity_on_hand must be non-negative'')
      else if f64_less allocated (Fin 0) then Inl (lit ''quantity_allocated must be non-negative'')
      else if f64_less on_hand allocated then Inl (lit ''quantity_allocated cannot exceed quantity_on_hand'')
      else Inr ())"

definition validate_patch_against_tracking_mode ::
    "update_item \<Rightarrow> asset_tracking_mode \<Rightarrow> (db_error, unit) result" where
  "validate_patch_against_tracking_mode patch mode =
     (case mode of
        Serialized \<Rightarrow>
          if up_quantity_on_hand patch \<noteq> None \<or> up_quantity_allocated patch \<noteq> None
          then Inl (DbValidation (lit ''Serialized inventory items cannot update quantity fields''))
          else Inr ()
      | Quantity \<Rightarrow>
          if up_serial_number patch \<noteq> None
          then Inl (DbValidation (lit ''Quantity-tracked inventory items cannot update serial_number''))
          else Inr ())"

text \<open>\<^verbatim>\<open>if let Some(location_id) = ... { validate_location(...)?; }\<close>.\<close>

definition validate_optional_location :: "uuid \<Rightarrow> uuid option \<Rightarrow> (db_error, unit) tx" where
  "validate_optional_location lab location =
     (case location of Some l \<Rightarrow> tx_read (validate_location lab l) | None \<Rightarrow> tx_return ())"

section \<open>Writes\<close>

text \<open>Both operands are widened to \<^verbatim>\<open>i64\<close>, so the sum of an \<^verbatim>\<open>i32\<close> and a \<^verbatim>\<open>u16\<close> is exact.\<close>

definition next_serial_numbers :: "uuid \<Rightarrow> u16 \<Rightarrow> database \<Rightarrow> (rstr, rstr list) result" where
  "next_serial_numbers asset count db =
     and_then (max_generated_serial_number asset db) (\<lambda>max_serial.
       Inr (map (\<lambda>offset. lit ''#'' @ show_nat (max_serial + offset)) [1..<Suc (unat count)]))"

definition reread_inventory_item :: "env \<Rightarrow> uuid \<Rightarrow> rstr \<Rightarrow> (db_error, inventory_item) tx" where
  "reread_inventory_item env i what =
     tx_bind (tx_map_err DbUnexpected (tx_read (fetch_inventory_item_for_update env i)))
       (\<lambda>row. tx_lift (ok_or (DbUnexpected (what @ lit '' inventory item not found'')) row))"

definition insert_inventory_item ::
    "env \<Rightarrow> uuid \<Rightarrow> uuid \<Rightarrow> uuid \<Rightarrow> rstr \<Rightarrow> rstr option \<Rightarrow> rstr option \<Rightarrow> f64 \<Rightarrow> f64 \<Rightarrow> uuid option \<Rightarrow> rstr
       \<Rightarrow> rstr option \<Rightarrow> rstr option \<Rightarrow> (db_error, inventory_item) tx" where
  "insert_inventory_item env new_id asset lab mode serial batch on_hand allocated location status
       public_notes internal_notes =
     tx_bind (insert_inventory_item_row env new_id asset lab mode serial batch on_hand allocated
                location status public_notes internal_notes)
       (\<lambda>_. reread_inventory_item env new_id (lit ''Created''))"

definition apply_inventory_item_patch ::
    "env \<Rightarrow> inventory_item \<Rightarrow> update_item \<Rightarrow> (db_error, inventory_item) tx" where
  "apply_inventory_item_patch env existing patch =
     tx_bind (tx_lift (map_err DbValidation (AssetTrackingMode_parse (it_tracking_mode existing))))
       (\<lambda>mode.
     tx_bind (tx_lift (validate_patch_against_tracking_mode patch mode)) (\<lambda>_.
       let serial = (case up_serial_number patch of
                       Some s \<Rightarrow> Some s | None \<Rightarrow> it_serial_number existing);
           batch = resolve_update (up_batch_number patch) (it_batch_number existing);
           location = resolve_update (up_location_id patch) (it_location_id existing);
           status = (case up_status patch of
                       Some s \<Rightarrow> InventoryStatus_as_str s | None \<Rightarrow> it_status existing);
           on_hand = coalesce (up_quantity_on_hand patch) (it_quantity_on_hand existing);
           allocated = coalesce (up_quantity_allocated patch) (it_quantity_allocated existing);
           public_notes = resolve_update (up_public_notes patch) (it_public_notes existing);
           internal_notes = resolve_update (up_internal_notes patch) (it_internal_notes existing)
       in
     tx_bind (validate_optional_location (it_laboratory_id existing) location) (\<lambda>_.
     tx_bind (tx_lift (map_err DbValidation (validate_quantities on_hand allocated))) (\<lambda>_.
     tx_bind (update_inventory_item_in_database env (it_inventory_item_id existing) serial batch
                on_hand allocated location status public_notes internal_notes)
       (\<lambda>_. reread_inventory_item env (it_inventory_item_id existing) (lit ''Updated''))))))"

definition set_quantity_on_hand :: "env \<Rightarrow> uuid \<Rightarrow> f64 \<Rightarrow> (db_error, inventory_item) tx" where
  "set_quantity_on_hand env i on_hand =
     tx_bind (set_quantity_on_hand_in_database env i on_hand)
       (\<lambda>_. reread_inventory_item env i (lit ''Updated''))"

definition add_quantities_to_item :: "env \<Rightarrow> uuid \<Rightarrow> f64 \<Rightarrow> f64 \<Rightarrow> (db_error, inventory_item) tx" where
  "add_quantities_to_item env i dq da =
     tx_bind (add_quantities_in_database env i dq da)
       (\<lambda>_. reread_inventory_item env i (lit ''Updated''))"

section \<open>What the flows guarantee\<close>

lemma validate_requested_ids_Inr [tx_unfold]:
  "validate_requested_ids ids rows = Inr u \<longleftrightarrow> ids \<noteq> [] \<and> distinct ids \<and> length rows = length ids"
  by (auto simp: validate_requested_ids_def distinct_card dest: card_distinct)

lemma validate_quantity_item_Inr [tx_unfold]:
  "validate_quantity_item row = Inr u \<longleftrightarrow> it_tracking_mode row = lit ''quantity''"
  by (simp add: validate_quantity_item_def)

lemma validate_optional_location_Inr [tx_unfold]:
  "validate_optional_location lab location db = Inr (u, db') \<longleftrightarrow>
     db' = db \<and> (case location of None \<Rightarrow> True
       | Some l \<Rightarrow> \<exists>x\<in>set (locations db). lo_location_id x = l \<and> lo_laboratory_id x = lab)"
  by (auto simp: validate_optional_location_def validate_location_def tx_unfold fetch_optional_None
      dest: fetch_optional_Some split: option.splits)

lemma reread_inventory_item_Inr [tx_unfold]:
  "reread_inventory_item env i what db = Inr (it, db') \<longleftrightarrow>
     db' = db \<and> fetch_inventory_item env i db = Inr (Some it)"
  by (auto simp: reread_inventory_item_def tx_unfold ok_or_Inr_iff fetch_inventory_item_for_update_def)

lemma set_quantity_on_hand_Inr:
  assumes "set_quantity_on_hand env i q db = Inr (it, db')" and "inventory_ok db"
  shows "\<exists>h r. float8_numeric env q = Some h \<and> item_row db i = Some r
     \<and> item_row db' i = Some (set_on_hand h (env_now env) r)
     \<and> item_view env db' (set_on_hand h (env_now env) r) = Inr it
     \<and> update_row_by_id i (set_on_hand h (env_now env)) db = Inr db'"
    and "inventory_ok db'" and "j \<noteq> i \<Longrightarrow> item_row db' j = item_row db j"
    and "\<exists>rows. db' = db\<lparr>inventory_items := rows\<rparr>"
proof -
  obtain h where h: "float8_numeric env q = Some h"
      "update_row_by_id i (set_on_hand h (env_now env)) db = Inr db'"
      "fetch_inventory_item env i db' = Inr (Some it)"
    using assms(1) by (auto simp: set_quantity_on_hand_def tx_unfold)
  note k = set_on_hand.row_update_axioms
  show ok: "inventory_ok db'"
    by (rule update_row_by_id_ok [OF assms(2) h(2) k])
  show "j \<noteq> i \<Longrightarrow> item_row db' j = item_row db j"
    by (rule update_row_read_back(2) [OF h(2) k])
  show "\<exists>rows. db' = db\<lparr>inventory_items := rows\<rparr>"
    by (rule update_row_frame [OF h(2)])
  show "\<exists>h r. float8_numeric env q = Some h \<and> item_row db i = Some r
     \<and> item_row db' i = Some (set_on_hand h (env_now env) r)
     \<and> item_view env db' (set_on_hand h (env_now env) r) = Inr it
     \<and> update_row_by_id i (set_on_hand h (env_now env)) db = Inr db'"
    using fetch_inventory_item_Some [OF ok h(3)] update_row_read_back(1) [OF h(2) k] h(1,2) by auto
qed

lemma add_quantities_to_item_Inr:
  assumes "add_quantities_to_item env i dq da db = Inr (it, db')" and "inventory_ok db"
  shows "\<exists>q a r. float8_numeric env dq = Some q \<and> float8_numeric env da = Some a
     \<and> item_row db i = Some r \<and> item_row db' i = Some (add_quantities q a (env_now env) r)
     \<and> item_view env db' (add_quantities q a (env_now env) r) = Inr it
     \<and> update_row_by_id i (add_quantities q a (env_now env)) db = Inr db'"
    and "inventory_ok db'" and "j \<noteq> i \<Longrightarrow> item_row db' j = item_row db j"
    and "\<exists>rows. db' = db\<lparr>inventory_items := rows\<rparr>"
proof -
  obtain q a where h: "float8_numeric env dq = Some q" "float8_numeric env da = Some a"
      "update_row_by_id i (add_quantities q a (env_now env)) db = Inr db'"
      "fetch_inventory_item env i db' = Inr (Some it)"
    using assms(1) by (auto simp: add_quantities_to_item_def tx_unfold)
  note k = add_quantities.row_update_axioms
  show ok: "inventory_ok db'"
    by (rule update_row_by_id_ok [OF assms(2) h(3) k])
  show "j \<noteq> i \<Longrightarrow> item_row db' j = item_row db j"
    by (rule update_row_read_back(2) [OF h(3) k])
  show "\<exists>rows. db' = db\<lparr>inventory_items := rows\<rparr>"
    by (rule update_row_frame [OF h(3)])
  show "\<exists>q a r. float8_numeric env dq = Some q \<and> float8_numeric env da = Some a
     \<and> item_row db i = Some r \<and> item_row db' i = Some (add_quantities q a (env_now env) r)
     \<and> item_view env db' (add_quantities q a (env_now env) r) = Inr it
     \<and> update_row_by_id i (add_quantities q a (env_now env)) db = Inr db'"
    using fetch_inventory_item_Some [OF ok h(4)] update_row_read_back(1) [OF h(3) k] h(1-3) by auto
qed

lemma item_row_insert:
  assumes "insert_row r db = Inr db'"
  shows "item_row db (ii_inventory_item_id r) = None"
    and "item_row db' (ii_inventory_item_id r) = Some r"
    and "j \<noteq> ii_inventory_item_id r \<Longrightarrow> item_row db' j = item_row db j"
proof -
  have n: "\<forall>s\<in>set (inventory_items db). ii_inventory_item_id s \<noteq> ii_inventory_item_id r"
      and db': "db' = db\<lparr>inventory_items := inventory_items db @ [r]\<rparr>"
    using assms by (auto simp: insert_row_Inr constraint_error_None)
  from n show new: "item_row db (ii_inventory_item_id r) = None"
    by (simp add: item_row_def fetch_optional_None)
  have app: "fetch_optional P (xs @ [r])
      = (case fetch_optional P xs of None \<Rightarrow> if P r then Some r else None | Some x \<Rightarrow> Some x)"
    for P :: "inventory_row \<Rightarrow> bool" and xs
    by (induction xs) (auto simp: fetch_optional_def)
  show "item_row db' (ii_inventory_item_id r) = Some r"
    using new by (simp add: item_row_def db' app)
  show "j \<noteq> ii_inventory_item_id r \<Longrightarrow> item_row db' j = item_row db j"
    by (auto simp: item_row_def db' app split: option.split)
qed

lemma insert_inventory_item_Inr:
  assumes "insert_inventory_item env i asset lab mode serial batch on_hand allocated location status pn inn db
      = Inr (it, db')" and "inventory_ok db"
  shows "\<exists>h a r. float8_numeric env on_hand = Some h \<and> float8_numeric env allocated = Some a
     \<and> item_row db' i = Some r \<and> item_view env db' r = Inr it
     \<and> r = \<lparr>ii_inventory_item_id = i, ii_asset_id = asset, ii_laboratory_id = lab,
            ii_tracking_mode = mode, ii_serial_number = trim_optional serial,
            ii_batch_number = trim_optional batch, ii_quantity_on_hand = h,
            ii_quantity_allocated = a, ii_location_id = location, ii_status = status,
            ii_public_notes = trim_optional pn, ii_internal_notes = trim_optional inn,
            ii_created_at = env_now env, ii_updated_at = env_now env, ii_last_stocktake_at = None\<rparr>
     \<and> db' = db\<lparr>inventory_items := inventory_items db @ [r]\<rparr>"
    and "inventory_ok db'" and "item_row db i = None"
    and "j \<noteq> i \<Longrightarrow> item_row db' j = item_row db j"
    and "it_inventory_item_id it = i"
proof -
  obtain h a where h: "float8_numeric env on_hand = Some h" "float8_numeric env allocated = Some a"
      and ins: "insert_row
           \<lparr>ii_inventory_item_id = i, ii_asset_id = asset, ii_laboratory_id = lab,
            ii_tracking_mode = mode, ii_serial_number = trim_optional serial,
            ii_batch_number = trim_optional batch, ii_quantity_on_hand = h,
            ii_quantity_allocated = a, ii_location_id = location, ii_status = status,
            ii_public_notes = trim_optional pn, ii_internal_notes = trim_optional inn,
            ii_created_at = env_now env, ii_updated_at = env_now env, ii_last_stocktake_at = None\<rparr> db
          = Inr db'" (is "insert_row ?r db = _")
      and f: "fetch_inventory_item env i db' = Inr (Some it)"
    using assms(1) by (auto simp: insert_inventory_item_def tx_unfold)
  show ok: "inventory_ok db'"
    by (rule insert_row_ok [OF assms(2) ins])
  show "item_row db i = None" and "j \<noteq> i \<Longrightarrow> item_row db' j = item_row db j"
    using item_row_insert [OF ins] by auto
  have new: "item_row db' i = Some ?r"
    using item_row_insert(2) [OF ins] by simp
  then have view: "item_view env db' ?r = Inr it"
    using fetch_inventory_item_Some [OF ok f] by simp
  then show "it_inventory_item_id it = i"
    using item_view_columns(1) [OF view] by simp
  show "\<exists>h a r. float8_numeric env on_hand = Some h \<and> float8_numeric env allocated = Some a
     \<and> item_row db' i = Some r \<and> item_view env db' r = Inr it
     \<and> r = \<lparr>ii_inventory_item_id = i, ii_asset_id = asset, ii_laboratory_id = lab,
            ii_tracking_mode = mode, ii_serial_number = trim_optional serial,
            ii_batch_number = trim_optional batch, ii_quantity_on_hand = h,
            ii_quantity_allocated = a, ii_location_id = location, ii_status = status,
            ii_public_notes = trim_optional pn, ii_internal_notes = trim_optional inn,
            ii_created_at = env_now env, ii_updated_at = env_now env, ii_last_stocktake_at = None\<rparr>
     \<and> db' = db\<lparr>inventory_items := inventory_items db @ [r]\<rparr>"
    using h new view ins by (auto simp: insert_row_Inr)
qed

end
