(* ===== verification/Handlers.thy ===== *)
theory Handlers
  imports Permissions Inventory_Service
begin

text \<open>
  What the request handlers share: their error type with its status codes, the permission check
  that opens them, the response built from a row, and the casts the server promises. The
  handlers each declare an error enum with these five cases; one type stands for them.
\<close>

datatype handler_error =
    ValidationError rstr
  | Forbidden rstr
  | NotFound rstr
  | ConflictError rstr
  | UnexpectedError rstr

fun status_code :: "handler_error \<Rightarrow> nat" where
  "status_code (ValidationError _) = 400"
| "status_code (Forbidden _) = 403"
| "status_code (NotFound _) = 404"
| "status_code (ConflictError _) = 409"
| "status_code (UnexpectedError _) = 500"

fun from_db_error :: "db_error \<Rightarrow> handler_error" where
  "from_db_error (DbValidation m) = ValidationError m"
| "from_db_error (DbNotFound m) = NotFound m"
| "from_db_error (DbConflict m) = ConflictError m"
| "from_db_error (DbUnexpected e) = UnexpectedError e"

text \<open>A delete answers a constraint it runs into with a conflict.\<close>

fun delete_from_db_error :: "db_error \<Rightarrow> handler_error" where
  "delete_from_db_error (DbValidation m) = ConflictError m"
| "delete_from_db_error (DbNotFound m) = NotFound m"
| "delete_from_db_error (DbConflict m) = ConflictError m"
| "delete_from_db_error (DbUnexpected e) = UnexpectedError e"

definition unexpected :: "('e, 'a) tx \<Rightarrow> (handler_error, 'a) tx" where
  "unexpected m = tx_map_err (\<lambda>_. UnexpectedError []) m"

definition require_permission ::
    "env \<Rightarrow> actor \<Rightarrow> resource_type \<Rightarrow> action \<Rightarrow> rstr \<Rightarrow> database \<Rightarrow> (handler_error, unit) result" where
  "require_permission env a resource act message db =
     (case validate_permission db (env_now env) a resource act of
        Inl e \<Rightarrow> Inl (UnexpectedError e)
      | Inr True \<Rightarrow> Inr ()
      | Inr False \<Rightarrow> Inl (Forbidden message))"

text \<open>A check whose refusal is answered with an error of the handler's choice.\<close>

definition require_permission_or ::
    "env \<Rightarrow> actor \<Rightarrow> resource_type \<Rightarrow> action \<Rightarrow> handler_error \<Rightarrow> database \<Rightarrow> (handler_error, unit) result" where
  "require_permission_or env a resource act refused db =
     (case validate_permission db (env_now env) a resource act of
        Inl e \<Rightarrow> Inl (UnexpectedError e)
      | Inr True \<Rightarrow> Inr ()
      | Inr False \<Rightarrow> Inl refused)"

fun require_all_permissions ::
    "env \<Rightarrow> actor \<Rightarrow> resource_type \<Rightarrow> (uuid \<Rightarrow> action) \<Rightarrow> rstr \<Rightarrow> uuid list \<Rightarrow> database
       \<Rightarrow> (handler_error, unit) result" where
  "require_all_permissions env a resource act message [] db = Inr ()"
| "require_all_permissions env a resource act message (i # is) db =
     and_then (require_permission env a resource (act i) message db)
       (\<lambda>_. require_all_permissions env a resource act message is db)"

text \<open>\<^verbatim>\<open>InventoryItemResponse::from_row\<close>: the row, with the internal notes only on demand.\<close>

definition InventoryItemResponse_from_row :: "inventory_item \<Rightarrow> bool \<Rightarrow> inventory_item" where
  "InventoryItemResponse_from_row row include_internal_notes =
     row\<lparr>it_internal_notes := (if include_internal_notes then it_internal_notes row else None)\<rparr>"

text \<open>A handler: what runs before the transaction, then the transaction.\<close>

definition run_handler ::
    "(handler_error, 'c) result \<Rightarrow> ('c \<Rightarrow> (handler_error, 'a) tx) \<Rightarrow> database
       \<Rightarrow> (handler_error, 'a) result \<times> database" where
  "run_handler checked body db =
     (case checked of Inl e \<Rightarrow> (Inl e, db) | Inr c \<Rightarrow> transaction (body c) db)"

section \<open>Reading a handler's outcome\<close>

lemma run_handler_Inr:
  "run_handler checked body db = (Inr x, db') \<longleftrightarrow> (\<exists>c. checked = Inr c \<and> body c db = Inr (x, db'))"
  by (auto simp: run_handler_def transaction_Inr split: sum.splits)

lemma run_handler_Inl: "run_handler checked body db = (Inl e, db') \<Longrightarrow> db' = db"
  by (auto simp: run_handler_def transaction_Inl split: sum.splits)

lemma unexpected_Inr [tx_unfold]: "unexpected m db = Inr p \<longleftrightarrow> m db = Inr p"
  by (simp add: unexpected_def tx_map_err_Inr)

lemma require_permission_Inr [tx_unfold]:
  "require_permission env a resource act message db = Inr u \<longleftrightarrow>
     validate_permission db (env_now env) a resource act = Inr True"
  by (auto simp: require_permission_def split: sum.splits bool.splits)

lemma tx_case_prod: "case_prod f p db = Inr q \<longleftrightarrow> (\<exists>a b. p = (a, b) \<and> f a b db = Inr q)"
  by (cases p) simp

lemma require_permission_or_Inr [tx_unfold]:
  "require_permission_or env a resource act refused db = Inr u \<longleftrightarrow>
     validate_permission db (env_now env) a resource act = Inr True"
  by (auto simp: require_permission_or_def split: sum.splits bool.splits)

lemma require_all_permissions_Inr [tx_unfold]:
  "require_all_permissions env a resource act message ids db = Inr u \<longleftrightarrow>
     (\<forall>i\<in>set ids. validate_permission db (env_now env) a resource (act i) = Inr True)"
  by (induction ids) (auto simp: and_then_Inr_iff require_permission_Inr)

lemma record_audit_entry:
  "record_audit a act res i d db = Inr (u, db') \<Longrightarrow>
     \<exists>e. db' = db\<lparr>audit_logs := audit_logs db @ [e]\<rparr> \<and> au_actor_user_id e = Some a
       \<and> au_resource_id e = i \<and> au_details e = d"
  by (auto simp: record_audit_Inr)

section \<open>Laboratories of the touched rows\<close>

definition scoped_context :: "laboratory_context \<Rightarrow> bool" where
  "scoped_context ctx \<longleftrightarrow>
     (\<exists>parse_uuid req. LaboratoryContext_from_request parse_uuid req = Inr ctx)"

lemma permitted_row_in_scope:
  assumes "scoped_context ctx" and "owned_by_laboratory resource"
    and "act = Read i \<or> act = Update i \<or> act = Delete i"
    and "validate_permission db now (authorization_actor ctx) resource act = Inr True"
  shows "row_laboratory db resource i = Some (ctx_laboratory_id ctx)"
proof -
  obtain parse_uuid req where "LaboratoryContext_from_request parse_uuid req = Inr ctx"
    using assms(1) by (auto simp: scoped_context_def)
  note s = authorization_actor_scoped [OF this]
  show ?thesis
    using permit_row_own_laboratory [OF assms(2-4) s(1)] s(2) by auto
qed

lemma permitted_item_in_scope:
  assumes "scoped_context ctx" and "act = Read i \<or> act = Update i \<or> act = Delete i"
    and "validate_permission db now (authorization_actor ctx) InventoryItem_resource act = Inr True"
  shows "\<exists>r. item_row db i = Some r \<and> ii_laboratory_id r = ctx_laboratory_id ctx"
  using permitted_row_in_scope [OF assms(1) _ assms(2,3)]
  by (auto simp: owned_by_laboratory_def row_laboratory_def item_row_def)

section \<open>The server's casts\<close>

text \<open>
  Documented behaviour of the two casts the quantities go through: they are exact on integers
  of at most 15 decimal digits.
\<close>

definition casts_exact :: "env \<Rightarrow> bool" where
  "casts_exact env \<longleftrightarrow>
     (\<forall>n. \<bar>n\<bar> < 10 ^ 15 \<longrightarrow>
        float8_numeric env (Fin (of_int n)) = Some (of_int n)
        \<and> numeric_float8 env (of_int n) = Some (Fin (of_int n)))"

lemma casts_exactD:
  assumes "casts_exact env" and "\<bar>n\<bar> < 10 ^ 15"
  shows "float8_numeric env (Fin (of_int n)) = Some (of_int n)"
    and "numeric_float8 env (of_int n) = Some (Fin (of_int n))"
  using assms by (auto simp: casts_exact_def)

end
