(* ===== verification/Witness_Data.thy ===== *)
theory Witness_Data
  imports Handlers
begin

text \<open>
  A small laboratory: the concrete database, surroundings and requests the witnesses of the
  properties evaluate on. The two casts are exact where a value has an \<^verbatim>\<open>f64\<close> of the same value,
  as the server's are on the quantities used here.
\<close>

definition lab_1 :: uuid where "lab_1 = 1"

definition admin_1 :: actor where
  "admin_1 = \<lparr>actor_user_id = 11, actor_user_type = LabAdmin, actor_laboratory_id = Some lab_1\<rparr>"

definition guest_1 :: actor where
  "guest_1 = \<lparr>actor_user_id = 12, actor_user_type = Guest, actor_laboratory_id = Some lab_1\<rparr>"

definition root_actor :: actor where
  "root_actor = \<lparr>actor_user_id = 10, actor_user_type = Root, actor_laboratory_id = None\<rparr>"

definition admin_ctx :: laboratory_context where
  "admin_ctx = \<lparr>ctx_actor = admin_1, ctx_laboratory_id = lab_1\<rparr>"

definition guest_ctx :: laboratory_context where
  "guest_ctx = \<lparr>ctx_actor = guest_1, ctx_laboratory_id = lab_1\<rparr>"

definition admin_request :: request where
  "admin_request = \<lparr>rq_actor = Some admin_1, rq_match_info = (\<lambda>_. None)\<rparr>"

definition plain_request :: request where
  "plain_request = \<lparr>rq_actor = None, rq_match_info = (\<lambda>_. None)\<rparr>"

definition no_uuid :: "rstr \<Rightarrow> (rstr, uuid) result" where
  "no_uuid s = Inl s"

definition env_1 :: env where
  "env_1 = \<lparr>env_now = 100, env_new_v4 = (\<lambda>i. 1000 + of_nat i),
     float8_numeric = (\<lambda>x. case x of Fin q \<Rightarrow> Some q | _ \<Rightarrow> None),
     numeric_float8 = (\<lambda>q. Some (Fin q)), graphemes_count = length,
     ltree_storable = (\<lambda>p. length p \<le> 100), Uuid_parse_str = (\<lambda>s. Some (of_nat (length s))),
     Uuid_to_string = (\<lambda>i. replicate (unat i) 48), NaiveDate_parse = (\<lambda>s. Some (if hd (s @ [48]) = 45 then 1 - int (length s) else int (length s))),
     NaiveDate_to_string = (\<lambda>d. if d < 0 then 45 # replicate (nat (- d)) 48 else replicate (nat d) 48), collation_key = id,
     env_clock = 100, hash_password = (\<lambda>p. Some (rev p)), validate_email = (\<lambda>s. 64 \<in> set s),
     hash_code = id, draw_code = id, sha256_hex = (\<lambda>_. []), base64_decode = (\<lambda>s. Some (map of_nat s))\<rparr>"

definition solvent :: asset_row where
  "solvent = \<lparr>as_asset_id = 20, as_laboratory_id = lab_1, as_tracking_mode = lit ''quantity'',
     as_category_id = None, as_name = lit ''solvent'', as_model = None, as_manufacturer = None,
     as_inventory_unit_id = 5, as_public_notes = None,
     as_internal_notes = None, as_created_at = 1, as_updated_at = 1\<rparr>"

definition balance :: asset_row where
  "balance = \<lparr>as_asset_id = 21, as_laboratory_id = lab_1, as_tracking_mode = lit ''serialized'',
     as_category_id = None, as_name = lit ''balance'', as_model = None, as_manufacturer = None,
     as_inventory_unit_id = 5, as_public_notes = None,
     as_internal_notes = None, as_created_at = 1, as_updated_at = 1\<rparr>"

definition stock_row :: "uuid \<Rightarrow> rat \<Rightarrow> rat \<Rightarrow> rstr \<Rightarrow> inventory_row" where
  "stock_row i on_hand allocated status =
     \<lparr>ii_inventory_item_id = i, ii_asset_id = 20, ii_laboratory_id = lab_1,
      ii_tracking_mode = lit ''quantity'', ii_serial_number = None, ii_batch_number = None,
      ii_quantity_on_hand = on_hand, ii_quantity_allocated = allocated, ii_location_id = None,
      ii_status = status, ii_public_notes = None, ii_internal_notes = Some (lit ''toxic''),
      ii_created_at = 1, ii_updated_at = 1, ii_last_stocktake_at = None\<rparr>"

definition balance_row :: "uuid \<Rightarrow> rstr \<Rightarrow> inventory_row" where
  "balance_row i serial =
     \<lparr>ii_inventory_item_id = i, ii_asset_id = 21, ii_laboratory_id = lab_1,
      ii_tracking_mode = lit ''serialized'', ii_serial_number = Some serial, ii_batch_number = None,
      ii_quantity_on_hand = 1, ii_quantity_allocated = 0, ii_location_id = None,
      ii_status = lit ''available'', ii_public_notes = None, ii_internal_notes = None,
      ii_created_at = 1, ii_updated_at = 1, ii_last_stocktake_at = None\<rparr>"

definition plain_parameter :: "uuid \<Rightarrow> rstr \<Rightarrow> rstr \<Rightarrow> parameter_type_row" where
  "plain_parameter i code data_type =
     \<lparr>pt_parameter_type_id = i, pt_laboratory_id = lab_1, pt_code = code, pt_name = code,
      pt_data_type = data_type, pt_unit_dimension = None, pt_default_unit_id = None,
      pt_description = None, pt_created_at = 1, pt_updated_at = 1\<rparr>"

definition plain_user :: "uuid \<Rightarrow> rstr \<Rightarrow> uuid \<Rightarrow> uuid option \<Rightarrow> user_row" where
  "plain_user i name user_type lab =
     \<lparr>us_user_id = i, us_username = name, us_password_hash = lit ''x'', us_user_type_id = user_type,
      us_laboratory_id = lab, us_email = None, us_phone_number = None, us_description = None,
      us_created_at = 1, us_last_login_at = None, us_is_federation_shadow = False\<rparr>"

text \<open>Ten units of solvent, two of them allocated, and the balance \<open>#7\<close>.\<close>

definition db_1 :: database where
  "db_1 = \<lparr>laboratory_rows = [\<lparr>la_laboratory_id = lab_1, la_name = lit ''lab'', la_address = lit ''here'',
       la_description = None, la_contact = None, la_created_at = 1, la_updated_at = 1\<rparr>],
      user_types = [\<lparr>ut_user_type_id = 1, ut_name = lit ''root''\<rparr>,
       \<lparr>ut_user_type_id = 2, ut_name = lit ''lab_admin''\<rparr>, \<lparr>ut_user_type_id = 3, ut_name = lit ''guest''\<rparr>],
     users = [plain_user 10 (lit ''root'') 1 None,
       plain_user 11 (lit ''ada'') 2 (Some lab_1),
       plain_user 12 (lit ''guy'') 3 (Some lab_1)],
     unit_dimensions = [], units = [], locations = [], asset_categories = [], asset_parameter_types = [],
     parameter_options = [], parameter_assignments = [], parameter_values = [],
     assets = [solvent, balance],
     inventory_items = [stock_row 40 10 2 (lit ''available''), balance_row 41 (lit ''#7'')],
     file_uploads = [], files = [], attachments = [], label_printers = [], guest_links = [], registration_codes = [],
     borrow_requests = [], audit_logs = []\<rparr>"

lemmas witness_data = lab_1_def admin_1_def guest_1_def root_actor_def admin_ctx_def guest_ctx_def
  admin_request_def plain_request_def env_1_def solvent_def balance_def stock_row_def balance_row_def plain_user_def db_1_def

lemma admin_context: "LaboratoryContext_from_request no_uuid admin_request = Inr admin_ctx"
  by (simp add: LaboratoryContext_from_request_def witness_data actor_roles)

lemma admin_scoped: "scoped_context admin_ctx"
  using admin_context by (auto simp: scoped_context_def)

lemma admin_authorization: "authorization_actor admin_ctx = admin_1"
  by (simp add: authorization_actor_def witness_data actor_roles)

lemma env_1_exact: "casts_exact env_1"
  by (simp add: casts_exact_def env_1_def)

lemma db_1_ok: "inventory_ok db_1"
  by code_simp

lemma db_1_row_40: "item_row db_1 40 = Some (stock_row 40 10 2 (lit ''available''))"
  by (simp add: item_row_def fetch_optional_def db_1_def stock_row_def)

end
