(* ===== verification/Permission_Properties.thy ===== *)
theory Permission_Properties
  imports Witness_Data
begin

text \<open>
  Who may do what: the laboratory a request is confined to, what guests and account managers
  can never do, and where the acting account comes from.
\<close>

lemma permitted_for_laboratory:
  assumes "owned_by_laboratory resource" and "validate_permission db now a resource act = Inr True"
    and "act = Create lab \<or> act = Browse lab \<or> act = BrowseInternal lab" and "\<not> is_system_admin a"
  shows "actor_laboratory_id a = Some lab"
  using assms
  by (auto simp: owned_by_laboratory_def validate_permission_def permit_unit_def
      permit_label_printer_def permit_location_def permit_asset_def permit_inventory_item_def
      permit_asset_category_def permit_asset_parameter_def permit_attachment_assignment_def
      can_query_laboratory_resource_def can_browse_laboratory_internal_resource_def
      dest: query.scoped [unfolded can_query_laboratory_resource_def] browse.scoped writing.scoped
        manage_units.scoped manage_printers.scoped use_printers.scoped)

lemma permitted_actions:
  assumes "owned_by_laboratory resource" and "validate_permission db now a resource act = Inr True"
  shows "(\<exists>i. act = Read i \<or> act = Update i \<or> act = Delete i)
    \<or> (\<exists>lab. act = Create lab \<or> act = Browse lab \<or> act = BrowseInternal lab)"
  using assms
  by (cases act) (auto simp: owned_by_laboratory_def validate_permission_def permit_unit_def
      permit_label_printer_def permit_location_def permit_asset_def permit_inventory_item_def
      permit_asset_category_def permit_asset_parameter_def permit_attachment_assignment_def)

text \<open>
  C6. A laboratory request is confined to its laboratory: whatever the permission table grants
  the actor the handlers authorise with, on units, locations, assets, inventory items, asset
  categories, asset parameters, attachments and label printers, concerns a row of the laboratory
  of the request, or a listing of or creation in it. This holds for system administrators too.
\<close>

theorem permitted_stays_in_laboratory:
  assumes "LaboratoryContext_from_request parse_uuid req = Inr ctx" and "owned_by_laboratory resource"
    and "validate_permission db now (authorization_actor ctx) resource act = Inr True"
  shows "case act of
      Read i \<Rightarrow> row_laboratory db resource i = Some (ctx_laboratory_id ctx)
    | Update i \<Rightarrow> row_laboratory db resource i = Some (ctx_laboratory_id ctx)
    | Delete i \<Rightarrow> row_laboratory db resource i = Some (ctx_laboratory_id ctx)
    | Create lab \<Rightarrow> lab = ctx_laboratory_id ctx
    | Browse lab \<Rightarrow> lab = ctx_laboratory_id ctx
    | BrowseInternal lab \<Rightarrow> lab = ctx_laboratory_id ctx
    | _ \<Rightarrow> False"
proof -
  note s = authorization_actor_scoped [OF assms(1)]
  have scoped: "scoped_context ctx"
    using assms(1) by (auto simp: scoped_context_def)
  consider i where "act = Read i \<or> act = Update i \<or> act = Delete i"
    | lab where "act = Create lab \<or> act = Browse lab \<or> act = BrowseInternal lab"
    using permitted_actions [OF assms(2,3)] by blast
  then show ?thesis
  proof cases
    case (1 i)
    then show ?thesis
      using permitted_row_in_scope [OF scoped assms(2) 1 assms(3)] by auto
  next
    case (2 lab)
    then show ?thesis
      using permitted_for_laboratory [OF assms(2,3) 2 s(1)] s(2) by auto
  qed
qed

theorem permitted_stays_in_laboratory_witness:
  "row_laboratory db_1 InventoryItem_resource 40 = Some lab_1"
proof -
  have "validate_permission db_1 100 (authorization_actor admin_ctx) InventoryItem_resource (Update 40) = Inr True"
    unfolding admin_authorization by code_simp
  from permitted_stays_in_laboratory [OF admin_context _ this] show ?thesis
    by (simp add: owned_by_laboratory_def admin_ctx_def)
qed

lemma guest_reads_own_account:
  assumes "is_guest a" and "validate_permission db now a User_resource (Read i) = Inr True"
  shows "i = actor_user_id a"
proof (rule ccontr)
  assume "i \<noteq> actor_user_id a"
  then have "can_view_user db a i \<noteq> Inr True"
    using assms(1) by (cases "get_actor db i") (auto simp: can_view_user_def split: option.splits)
  then show False
    using assms(2) by (simp add: validate_permission_def permit_user_def)
qed

lemma guest_resources:
  assumes "is_guest a" and "resource \<noteq> FileUpload_resource"
    and "validate_permission db now a resource act = Inr True"
  shows "resource = User_resource \<or> owned_by_laboratory resource \<and> resource \<noteq> LabelPrinter_resource"
  using guest_permissions [OF assms] assms
  by (cases resource)
     (auto simp: owned_by_laboratory_def validate_permission_def permit_laboratory_def permit_label_printer_def
        permit_guest_registration_code_def permit_federation_def can_browse_laboratories_def can_read_federation_def can_manage_federation_def
        can_use_label_printer_def can_use_label_printers_def can_browse_laboratory_internal_resource_def
        row_allows_def actor_roles split: option.splits)

lemma guest_attachment_public:
  assumes "is_guest a" and "validate_permission db now a AttachmentAssignment_resource (Read i) = Inr True"
  shows "\<exists>r\<in>set (attachments db). at_attachment_id r = i \<and> at_is_public r"
  using assms
  by (auto simp: validate_permission_def permit_attachment_assignment_def can_view_attachment_assignment_def actor_roles
      split: option.splits dest!: fetch_optional_Some)

text \<open>
  C7. Guests only read, and only what is theirs to read. On every resource but uploads, what the
  permission table grants a guest is: to read its own account; to read a row of its own
  laboratory, and among the attachments only public ones; to browse its own laboratory. It is
  granted nothing on laboratories, registration codes, label printers and the federation, and
  never a creation, a change or a deletion.
\<close>

theorem guests_only_read:
  assumes "is_guest a" and "resource \<noteq> FileUpload_resource"
    and "validate_permission db now a resource act = Inr True"
  shows "resource = User_resource \<and> act = Read (actor_user_id a)
    \<or> owned_by_laboratory resource \<and> resource \<noteq> LabelPrinter_resource
      \<and> ((\<exists>i. act = Read i \<and> row_laboratory db resource i \<noteq> None \<and> row_laboratory db resource i = actor_laboratory_id a
            \<and> (resource = AttachmentAssignment_resource \<longrightarrow>
                 (\<exists>r\<in>set (attachments db). at_attachment_id r = i \<and> at_is_public r)))
        \<or> (\<exists>lab. (act = Browse lab \<or> act = BrowseInternal lab) \<and> actor_laboratory_id a = Some lab))"
proof -
  have member: "\<not> is_system_admin a"
    using assms(1) by (auto simp: actor_roles)
  consider i where "act = Read i" | lab where "act = Browse lab \<or> act = BrowseInternal lab"
    using guest_permissions [OF assms] by blast
  then show ?thesis
  proof cases
    case (1 i)
    from guest_resources [OF assms] show ?thesis
    proof
      assume "resource = User_resource"
      then show ?thesis
        using guest_reads_own_account [OF assms(1)] assms(3) 1 by blast
    next
      assume own: "owned_by_laboratory resource \<and> resource \<noteq> LabelPrinter_resource"
      then show ?thesis
        using permit_row_own_laboratory [of resource act i db now a] assms(3) member 1
          guest_attachment_public [OF assms(1), of db now i] by blast
    qed
  next
    case (2 lab)
    have "resource \<noteq> User_resource"
      using assms(3) 2 by (auto simp: validate_permission_def permit_user_def)
    then have own: "owned_by_laboratory resource \<and> resource \<noteq> LabelPrinter_resource"
      using guest_resources [OF assms] by blast
    then have "actor_laboratory_id a = Some lab"
      using permitted_for_laboratory [OF _ assms(3) _ member] 2 by blast
    then show ?thesis
      using own 2 by blast
  qed
qed

theorem guests_only_read_witness:
  "row_laboratory db_1 InventoryItem_resource 40 = Some lab_1"
proof -
  have g: "is_guest guest_1"
    by (simp add: is_guest_def guest_1_def)
  have p: "validate_permission db_1 100 guest_1 InventoryItem_resource (Read 40) = Inr True"
    by code_simp
  show ?thesis
    using guests_only_read [OF g _ p] by (auto simp: guest_1_def)
qed

definition user_rank :: "user_type \<Rightarrow> nat" where
  "user_rank ty = (case ty of Root \<Rightarrow> 4 | SuperAdmin \<Rightarrow> 3 | LabAdmin \<Rightarrow> 2 | User \<Rightarrow> 1 | Guest \<Rightarrow> 0)"

text \<open>
  C8. Managing accounts never escalates: an account that may create, delete or update accounts
  is an administrator, the roles involved, the one an update gives included, are at most its
  own, and for a laboratory administrator they belong to its own laboratory.
\<close>

theorem account_management_never_escalates:
  assumes "validate_permission db now a User_resource act = Inr True"
    and "act \<in> {CreateUser role, DeleteUser role, UpdateUser role other, UpdateUser other role}"
  shows "is_admin a \<and> user_rank (role_user_type role) \<le> user_rank (actor_user_type a)
    \<and> (is_lab_admin a \<longrightarrow> role_laboratory_id role \<noteq> None \<and> role_laboratory_id role = actor_laboratory_id a)"
proof -
  have "can_manage_user a role"
    using assms by (auto simp: validate_permission_def permit_user_def)
  then show ?thesis
    unfolding can_manage_user_iff
    by (cases "actor_user_type a"; cases "role_user_type role") (auto simp: actor_roles user_rank_def)
qed

theorem account_management_never_escalates_witness:
  "user_rank Guest \<le> user_rank LabAdmin"
proof -
  have "validate_permission db_1 100 admin_1 User_resource
      (CreateUser \<lparr>role_user_type = Guest, role_laboratory_id = Some lab_1\<rparr>) = Inr True"
    by code_simp
  from account_management_never_escalates [OF this, of "\<lparr>role_user_type = Guest, role_laboratory_id = Some lab_1\<rparr>"]
  show ?thesis
    by (simp add: admin_1_def)
qed

text \<open>
  The acting account is the session's: when a request passes the session check and its
  laboratory is determined, the session named a user, the actor is that user as the database
  has it, the account the handlers authorise with has the same id, is never a system
  administrator and is bound to the laboratory of the request. A scoped account gets its own
  laboratory and cannot name one in the route; a system administrator gets the one it names.
\<close>

theorem request_identity:
  assumes "reject_anonymous_users db session_user req = (Inr req', purge)"
    and "LaboratoryContext_from_request parse_uuid req' = Inr ctx"
  shows "\<not> purge \<and> (\<exists>user_id. session_user = Inr (Some user_id)
        \<and> get_actor db user_id = Inr (Some (ctx_actor ctx)) \<and> actor_user_id (ctx_actor ctx) = user_id)
    \<and> actor_user_id (authorization_actor ctx) = actor_user_id (ctx_actor ctx)
    \<and> \<not> is_system_admin (authorization_actor ctx)
    \<and> actor_laboratory_id (authorization_actor ctx) = Some (ctx_laboratory_id ctx)
    \<and> (if is_system_admin (ctx_actor ctx)
       then \<exists>raw. rq_match_info req (lit ''laboratory_id'') = Some raw \<and> parse_uuid raw = Inr (ctx_laboratory_id ctx)
       else rq_match_info req (lit ''laboratory_id'') = None
         \<and> actor_laboratory_id (ctx_actor ctx) = Some (ctx_laboratory_id ctx))"
proof -
  obtain user_id a where a: "session_user = Inr (Some user_id)" "get_actor db user_id = Inr (Some a)"
      "req' = req\<lparr>rq_actor := Some a\<rparr>" "\<not> purge"
    using assms(1) by (auto simp: reject_anonymous_users_def split: sum.splits option.splits)
  have "actor_user_id a = user_id"
    using a(2) by (auto simp: get_actor_def fetch_optional_def find_Some_iff result_unfold split: option.splits)
  moreover have "actor_user_id (authorization_actor ctx) = actor_user_id (ctx_actor ctx)"
    by (simp add: authorization_actor_def)
  ultimately show ?thesis
    using a assms(2) authorization_actor_scoped [OF assms(2)]
    by (auto simp: LaboratoryContext_from_request_def split: option.splits if_splits sum.splits)
qed

theorem request_identity_witness:
  "\<not> is_system_admin (authorization_actor admin_ctx) \<and> get_actor db_1 11 = Inr (Some admin_1)"
proof -
  have "get_actor db_1 11 = Inr (Some admin_1)"
    by code_simp
  then have "reject_anonymous_users db_1 (Inr (Some 11)) plain_request = (Inr admin_request, False)"
    by (simp add: reject_anonymous_users_def plain_request_def admin_request_def)
  from request_identity [OF this admin_context] \<open>get_actor db_1 11 = _\<close> show ?thesis
    by simp
qed

end
