(* ===== verification/Inventory_Split.thy ===== *)
theory Inventory_Split
  imports Handlers
begin

text \<open>
  \<^verbatim>\<open>routes/inventory_items/split.rs\<close>: part of a quantity item moves to another batch, location or
  status, into the row that already holds that combination or into a new one.
\<close>

text \<open>The payload after deserialization.\<close>

record split_payload =
  pl_quantity :: f64
  pl_batch_number :: "rstr option option"
  pl_location_id :: "uuid option option"
  pl_status :: "rstr option"
  pl_public_notes :: "rstr option"
  pl_internal_notes :: "rstr option"

definition split_target_status :: "split_command \<Rightarrow> inventory_item \<Rightarrow> rstr" where
  "split_target_status command source =
     (case sp_status command of Some s \<Rightarrow> InventoryStatus_as_str s | None \<Rightarrow> it_status source)"

definition or_else :: "'a option \<Rightarrow> 'a option \<Rightarrow> 'a option" where
  "or_else v w = (case v of None \<Rightarrow> w | Some x \<Rightarrow> Some x)"

text \<open>The write of the target: into the aggregate that is there, or as a new row.\<close>

definition write_split_target ::
    "env \<Rightarrow> split_command \<Rightarrow> inventory_item \<Rightarrow> rstr option \<Rightarrow> uuid option \<Rightarrow> rstr
       \<Rightarrow> inventory_item option \<Rightarrow> (db_error, inventory_item) tx" where
  "write_split_target env command source_before batch location status target_before =
     (case target_before of
        Some target \<Rightarrow>
          add_quantities_to_item env (it_inventory_item_id target) (sp_quantity command) (Fin 0)
      | None \<Rightarrow>
          insert_inventory_item env (env_new_v4 env 0) (it_asset_id source_before)
            (it_laboratory_id source_before) (lit ''quantity'') None batch (sp_quantity command)
            (Fin 0) location status
            (or_else (sp_public_notes command) (it_public_notes source_before))
            (or_else (sp_internal_notes command) (it_internal_notes source_before)))"

definition split_in_transaction ::
    "env \<Rightarrow> laboratory_context \<Rightarrow> uuid \<Rightarrow> split_command \<Rightarrow> (handler_error, inventory_item \<times> inventory_item) tx" where
  "split_in_transaction env ctx inventory_item_id command =
     tx_bind (unexpected (tx_read (fetch_inventory_item_for_update env inventory_item_id))) (\<lambda>found.
     tx_bind (tx_lift (ok_or (NotFound (lit ''Inventory item not found'')) found)) (\<lambda>source_before.
     tx_bind (tx_lift (map_err ValidationError (validate_quantity_item source_before))) (\<lambda>_.
     tx_bind (tx_lift (ensure
         (\<not> f64_less (f64_sub (it_quantity_on_hand source_before) (it_quantity_allocated source_before))
              (sp_quantity command))
         (ValidationError (lit ''Split quantity cannot exceed unallocated quantity'')))) (\<lambda>_.
     let status = split_target_status command source_before;
         batch = resolve_update (sp_batch_number command) (it_batch_number source_before);
         location = resolve_update (sp_location_id command) (it_location_id source_before)
     in
     tx_bind (tx_map_err from_db_error
         (validate_optional_location (it_laboratory_id source_before) location)) (\<lambda>_.
     tx_bind (tx_lift (ensure
         (\<not> (batch = it_batch_number source_before \<and> location = it_location_id source_before
              \<and> status = it_status source_before))
         (ValidationError (lit ''Split target must differ by batch, location, or status'')))) (\<lambda>_.
     tx_bind (unexpected (tx_read (find_quantity_aggregate_for_update env (it_laboratory_id source_before)
         (it_asset_id source_before) batch location status (Some (it_inventory_item_id source_before)))))
       (\<lambda>target_before.
     tx_bind (tx_map_err from_db_error (set_quantity_on_hand env (it_inventory_item_id source_before)
         (f64_sub (it_quantity_on_hand source_before) (sp_quantity command)))) (\<lambda>source_after.
     tx_bind (tx_map_err from_db_error
         (write_split_target env command source_before batch location status target_before))
       (\<lambda>target_after.
     tx_bind (unexpected (record_audit (actor_user_id (ctx_actor ctx)) Audit_Adjust Res_InventoryItem
         (Some (it_inventory_item_id source_after))
         (Details_split source_before target_before target_after))) (\<lambda>_.
     tx_return (InventoryItemResponse_from_row source_after True,
                InventoryItemResponse_from_row target_after True)))))))))))"

definition split_inventory_item ::
    "env \<Rightarrow> laboratory_context \<Rightarrow> uuid \<Rightarrow> split_payload \<Rightarrow> database
       \<Rightarrow> (handler_error, inventory_item \<times> inventory_item) result \<times> database" where
  "split_inventory_item env ctx inventory_item_id payload db =
     run_handler
       (and_then (require_permission env (authorization_actor ctx) InventoryItem_resource
            (Update inventory_item_id) (lit ''You are not allowed to split this inventory item.'') db)
          (\<lambda>_. map_err ValidationError
            (Split_parse (pl_quantity payload) (pl_batch_number payload) (pl_location_id payload)
              (pl_status payload) (pl_public_notes payload) (pl_internal_notes payload))))
       (split_in_transaction env ctx inventory_item_id) db"

section \<open>A successful split\<close>

text \<open>The rows a split writes, and the audit entry it leaves.\<close>

lemma find_quantity_aggregate_Inr:
  assumes "find_quantity_aggregate_for_update env lab asset batch location status (Some ex) db = Inr (Some it)"
    and "inventory_ok db"
  shows "\<exists>r. item_row db (it_inventory_item_id it) = Some r \<and> it_inventory_item_id it \<noteq> ex
     \<and> ii_inventory_item_id r = it_inventory_item_id it
     \<and> ii_laboratory_id r = lab \<and> ii_asset_id r = asset \<and> ii_batch_number r = batch
     \<and> ii_location_id r = location \<and> ii_status r = status"
proof -
  define P :: "inventory_row \<Rightarrow> bool" where "P = (\<lambda>r. ii_tracking_mode r = lit ''quantity'' \<and> ii_laboratory_id r = lab
      \<and> ii_asset_id r = asset \<and> ii_batch_number r = batch
      \<and> ii_location_id r = location \<and> ii_status r = status
      \<and> (Some ex = None \<or> Some (ii_inventory_item_id r) \<noteq> Some ex))"
  have "transpose_with (item_of_row env) (map_option (\<lambda>r. (r, the (asset_row_of db (ii_asset_id r))))
      (fetch_optional P (inventory_items db))) = Inr (Some it)"
    using assms fetch_joined [OF assms(2), of P] by (simp add: find_quantity_aggregate_for_update_def P_def)
  then obtain r where r: "fetch_optional P (inventory_items db) = Some r"
      "item_of_row env (r, the (asset_row_of db (ii_asset_id r))) = Inr it"
    by (auto simp: transpose_with_Inr_iff split: option.splits)
  have "r \<in> set (inventory_items db)" "P r"
    using fetch_optional_Some [OF r(1)] by auto
  then show ?thesis
    using item_row_mem [OF assms(2)] item_of_row_columns(1) [OF r(2)] by (auto simp: P_def)
qed

lemma split_in_transaction_steps:
  assumes "split_in_transaction env ctx i command db = Inr (out, db')"
  obtains sb tb sa ta db1 db2 batch location status where
    "fetch_inventory_item env i db = Inr (Some sb)"
    "it_tracking_mode sb = lit ''quantity''"
    "\<not> f64_less (f64_sub (it_quantity_on_hand sb) (it_quantity_allocated sb)) (sp_quantity command)"
    "\<not> (batch = it_batch_number sb \<and> location = it_location_id sb \<and> status = it_status sb)"
    "find_quantity_aggregate_for_update env (it_laboratory_id sb) (it_asset_id sb) batch location status
       (Some (it_inventory_item_id sb)) db = Inr tb"
    "set_quantity_on_hand env (it_inventory_item_id sb)
       (f64_sub (it_quantity_on_hand sb) (sp_quantity command)) db = Inr (sa, db1)"
    "write_split_target env command sb batch location status tb db1 = Inr (ta, db2)"
    "db' = db2\<lparr>audit_logs := audit_logs db2 @
       [\<lparr>au_actor_user_id = Some (actor_user_id (ctx_actor ctx)), au_action = AuditAction_as_str Audit_Adjust,
         au_resource_type = AuditResource_as_str Res_InventoryItem,
         au_resource_id = Some (it_inventory_item_id sa), au_details = Details_split sb tb ta\<rparr>]\<rparr>"
    "out = (InventoryItemResponse_from_row sa True, InventoryItemResponse_from_row ta True)"
  using assms unfolding split_in_transaction_def Let_def tx_unfold map_err_Inr_iff ok_or_Inr_iff
    ensure_Inr_iff fetch_inventory_item_for_update_def
  apply (elim exE bexE conjE)
  apply hypsubst
  apply (rule that)
  apply assumption+
  done

text \<open>The target row, whether it was there before or not.\<close>

lemma write_split_target_Inr:
  assumes "write_split_target env command sb batch location status tb db = Inr (ta, db')"
    and "inventory_ok db" and "\<And>t. tb = Some t \<Longrightarrow> item_row db (it_inventory_item_id t) \<noteq> None"
  shows "inventory_ok db'" and "\<exists>rows. db' = db\<lparr>inventory_items := rows\<rparr>"
    and "\<exists>n z t'. float8_numeric env (sp_quantity command) = Some n
      \<and> float8_numeric env (Fin 0) = Some z \<and> ii_inventory_item_id t' = it_inventory_item_id ta
      \<and> (case tb of Some t \<Rightarrow> it_inventory_item_id t = it_inventory_item_id ta
           | None \<Rightarrow> item_row db (it_inventory_item_id ta) = None)
      \<and> item_row db' (it_inventory_item_id ta) = Some t'
      \<and> (\<forall>a. stock_on_hand db' a = stock_on_hand db a + (if ii_asset_id t' = a then n else 0))
      \<and> (case item_row db (it_inventory_item_id ta) of
            None \<Rightarrow> ii_quantity_on_hand t' = n \<and> ii_quantity_allocated t' = z
              \<and> ii_laboratory_id t' = it_laboratory_id sb \<and> ii_asset_id t' = it_asset_id sb
              \<and> ii_tracking_mode t' = lit ''quantity''
              \<and> ii_batch_number t' = trim_optional batch \<and> ii_location_id t' = location
              \<and> ii_status t' = status
          | Some t \<Rightarrow> t' = add_quantities n z (env_now env) t)" (is ?target)
    and "j \<noteq> it_inventory_item_id ta \<Longrightarrow> item_row db' j = item_row db j"
proof -
  have "inventory_ok db' \<and> (\<exists>rows. db' = db\<lparr>inventory_items := rows\<rparr>) \<and> ?target
      \<and> (\<forall>j. j \<noteq> it_inventory_item_id ta \<longrightarrow> item_row db' j = item_row db j)"
  proof (cases tb)
    case None
    with assms(1) have "insert_inventory_item env (env_new_v4 env 0) (it_asset_id sb) (it_laboratory_id sb)
        (lit ''quantity'') None batch (sp_quantity command) (Fin 0) location status
        (or_else (sp_public_notes command) (it_public_notes sb))
        (or_else (sp_internal_notes command) (it_internal_notes sb)) db = Inr (ta, db')"
      by (simp add: write_split_target_def)
    note i = insert_inventory_item_Inr [OF this assms(2)]
    show ?thesis
      using i(1) None i(2,3,5) i(4) by (auto simp: i(5) stock_insert)
  next
    case (Some t)
    with assms(1) have "add_quantities_to_item env (it_inventory_item_id t) (sp_quantity command) (Fin 0) db
        = Inr (ta, db')"
      by (simp add: write_split_target_def)
    note i = add_quantities_to_item_Inr [OF this assms(2)]
    obtain n z r where r: "float8_numeric env (sp_quantity command) = Some n"
        "float8_numeric env (Fin 0) = Some z" "item_row db (it_inventory_item_id t) = Some r"
        "item_row db' (it_inventory_item_id t) = Some (add_quantities n z (env_now env) r)"
        "item_view env db' (add_quantities n z (env_now env) r) = Inr ta"
        "update_row_by_id (it_inventory_item_id t) (add_quantities n z (env_now env)) db = Inr db'"
      using i(1) by blast
    have "it_inventory_item_id ta = it_inventory_item_id t"
      using item_view_columns(1) [OF r(5)] item_row_Some [OF r(3)] by (simp add: add_quantities_def)
    moreover have "\<forall>a. stock_on_hand db' a = stock_on_hand db a + (if ii_asset_id r = a then n else 0)"
      using stock_update [OF r(6) assms(2) r(3)] by (simp add: add_quantities_def)
    ultimately show ?thesis
      using Some r i(2,4) i(3) item_row_Some [OF r(3)]
      by (intro conjI exI [of _ n] exI [of _ z] exI [of _ "add_quantities n z (env_now env) r"])
        (auto simp: add_quantities_def)
  qed
  then show "inventory_ok db'" and "\<exists>rows. db' = db\<lparr>inventory_items := rows\<rparr>" and ?target
    and "j \<noteq> it_inventory_item_id ta \<Longrightarrow> item_row db' j = item_row db j"
    by blast+
qed

text \<open>What a split leaves behind.\<close>

lemma split_in_transaction_Inr:
  assumes "split_in_transaction env ctx i command db = Inr (out, db')" and ok: "inventory_ok db"
  obtains src x y h n z t' where
    "inventory_ok db'" and "item_row db i = Some src" and "ii_tracking_mode src = lit ''quantity''"
    and "numeric_float8 env (ii_quantity_on_hand src) = Some x"
    and "numeric_float8 env (ii_quantity_allocated src) = Some y"
    and "\<not> f64_less (f64_sub x y) (sp_quantity command)"
    and "float8_numeric env (f64_sub x (sp_quantity command)) = Some h"
    and "float8_numeric env (sp_quantity command) = Some n" and "float8_numeric env (Fin 0) = Some z"
    and "item_row db' i = Some (set_on_hand h (env_now env) src)"
    and "item_row db' (ii_inventory_item_id t') = Some t'" and "ii_inventory_item_id t' \<noteq> i"
    and "ii_laboratory_id t' = ii_laboratory_id src" and "ii_asset_id t' = ii_asset_id src"
    and "case item_row db (ii_inventory_item_id t') of
           None \<Rightarrow> ii_quantity_on_hand t' = n \<and> ii_quantity_allocated t' = z
         | Some t \<Rightarrow> t' = add_quantities n z (env_now env) t"
    and "\<And>j. j \<noteq> i \<Longrightarrow> j \<noteq> ii_inventory_item_id t' \<Longrightarrow> item_row db' j = item_row db j"
    and "\<And>a. stock_on_hand db' a = stock_on_hand db a
           + (if ii_asset_id src = a then h - ii_quantity_on_hand src + n else 0)"
proof -
  from assms(1) obtain sb tb sa ta db1 db2 batch location status where
      f: "fetch_inventory_item env i db = Inr (Some sb)"
      and mode: "it_tracking_mode sb = lit ''quantity''"
      and amount: "\<not> f64_less (f64_sub (it_quantity_on_hand sb) (it_quantity_allocated sb)) (sp_quantity command)"
      and find: "find_quantity_aggregate_for_update env (it_laboratory_id sb) (it_asset_id sb) batch location status
         (Some (it_inventory_item_id sb)) db = Inr tb"
      and s1: "set_quantity_on_hand env (it_inventory_item_id sb)
         (f64_sub (it_quantity_on_hand sb) (sp_quantity command)) db = Inr (sa, db1)"
      and s2: "write_split_target env command sb batch location status tb db1 = Inr (ta, db2)"
      and db': "\<exists>l. db' = db2\<lparr>audit_logs := l\<rparr>"
    by (rule split_in_transaction_steps) blast
  obtain src where src: "item_row db i = Some src" "item_view env db src = Inr sb"
    using fetch_inventory_item_Some [OF ok f] by blast
  note v = item_view_columns [OF src(2)]
  have id: "ii_inventory_item_id src = i"
    using item_row_Some [OF src(1)] by simp
  obtain h where h: "float8_numeric env (f64_sub (it_quantity_on_hand sb) (sp_quantity command)) = Some h"
      "item_row db1 i = Some (set_on_hand h (env_now env) src)"
      "update_row_by_id i (set_on_hand h (env_now env)) db = Inr db1"
    using set_quantity_on_hand_Inr(1) [OF s1 ok] src(1) v(1) id by auto
  note ok1 = set_quantity_on_hand_Inr(2) [OF s1 ok]
  have other1: "item_row db1 j = item_row db j" if "j \<noteq> i" for j
    using set_quantity_on_hand_Inr(3) [OF s1 ok] that v(1) id by simp
  have stock1: "stock_on_hand db1 a = stock_on_hand db a
      + (if ii_asset_id src = a then h - ii_quantity_on_hand src else 0)" for a
    using stock_update [OF h(3) ok src(1)] by (simp add: set_on_hand_def)
  have tgt: "\<exists>r. item_row db (it_inventory_item_id t) = Some r \<and> it_inventory_item_id t \<noteq> i
      \<and> ii_laboratory_id r = it_laboratory_id sb \<and> ii_asset_id r = it_asset_id sb"
    if "tb = Some t" for t
    using find_quantity_aggregate_Inr [OF find [unfolded that] ok] v(1) id by auto
  have present: "item_row db1 (it_inventory_item_id t) \<noteq> None" if "tb = Some t" for t
    using tgt [OF that] other1 by auto
  note w = write_split_target_Inr [OF s2 ok1 present]
  obtain n z t' where t': "float8_numeric env (sp_quantity command) = Some n"
      "float8_numeric env (Fin 0) = Some z" "ii_inventory_item_id t' = it_inventory_item_id ta"
      "case tb of Some t \<Rightarrow> it_inventory_item_id t = it_inventory_item_id ta
         | None \<Rightarrow> item_row db1 (it_inventory_item_id ta) = None"
      "item_row db2 (it_inventory_item_id ta) = Some t'"
      "\<forall>a. stock_on_hand db2 a = stock_on_hand db1 a + (if ii_asset_id t' = a then n else 0)"
      "case item_row db1 (it_inventory_item_id ta) of
            None \<Rightarrow> ii_quantity_on_hand t' = n \<and> ii_quantity_allocated t' = z
              \<and> ii_laboratory_id t' = it_laboratory_id sb \<and> ii_asset_id t' = it_asset_id sb
              \<and> ii_tracking_mode t' = lit ''quantity''
              \<and> ii_batch_number t' = trim_optional batch \<and> ii_location_id t' = location
              \<and> ii_status t' = status
          | Some t \<Rightarrow> t' = add_quantities n z (env_now env) t"
    using w(3) by blast
  have ne: "it_inventory_item_id ta \<noteq> i"
    using t'(4) tgt h(2) by (cases tb) auto
  have same: "ii_laboratory_id t' = ii_laboratory_id src" "ii_asset_id t' = ii_asset_id src"
    using t'(4,7) tgt other1 [OF ne] v(2,3) by (cases tb; auto simp: add_quantities_def)+
  have rows: "item_row db' = item_row db2" "stock_on_hand db' = stock_on_hand db2"
      "inventory_ok db' = inventory_ok db2"
    using db' by (auto simp: item_row_def stock_on_hand_def inventory_ok_def references_ok_def fun_eq_iff
        split: option.split)
  show thesis
  proof (rule that [of src "it_quantity_on_hand sb" "it_quantity_allocated sb" h n z t'])
    show "case item_row db (ii_inventory_item_id t') of
           None \<Rightarrow> ii_quantity_on_hand t' = n \<and> ii_quantity_allocated t' = z
         | Some t \<Rightarrow> t' = add_quantities n z (env_now env) t"
      using t'(3,7) other1 [OF ne] by (auto split: option.splits)
    show "item_row db' j = item_row db j" if "j \<noteq> i" "j \<noteq> ii_inventory_item_id t'" for j
      using that w(4) [of j] other1 [of j] t'(3) rows(1) by simp
    show "stock_on_hand db' a = stock_on_hand db a
           + (if ii_asset_id src = a then h - ii_quantity_on_hand src + n else 0)" for a
      using t'(6) stock1 [of a] same(2) rows(2) by simp
    show "item_row db' i = Some (set_on_hand h (env_now env) src)"
      using w(4) [of i] h(2) ne rows(1) by simp
  qed (use rows w(1) src(1) v mode amount h(1) t'(1-3,5) ne same in \<open>simp_all\<close>)
qed

end
