(* ===== verification/Inventory_Properties.thy ===== *)
theory Inventory_Properties
  imports Witness_Data Inventory_Split
begin

text \<open>
  What a split guarantees, from the request to the database after the commit: conservation of
  stock, and the rows it may touch.
\<close>

section \<open>Splitting\<close>

definition move_three :: split_payload where
  "move_three = \<lparr>pl_quantity = Fin 3, pl_batch_number = None, pl_location_id = None,
     pl_status = Some (lit ''reserved''), pl_public_notes = None, pl_internal_notes = None\<rparr>"

lemma split_inventory_item_Inr:
  assumes "split_inventory_item env ctx i payload db = (Inr out, db')"
  obtains command where "validate_permission db (env_now env) (authorization_actor ctx) InventoryItem_resource (Update i) = Inr True"
    and "sp_quantity command = pl_quantity payload" and "\<exists>q. pl_quantity payload = Fin q \<and> 0 < q"
    and "split_in_transaction env ctx i command db = Inr (out, db')"
proof -
  obtain c where c: "validate_permission db (env_now env) (authorization_actor ctx) InventoryItem_resource (Update i) = Inr True"
      "Split_parse (pl_quantity payload) (pl_batch_number payload) (pl_location_id payload) (pl_status payload)
         (pl_public_notes payload) (pl_internal_notes payload) = Inr c"
      "split_in_transaction env ctx i c db = Inr (out, db')"
    using assms by (auto simp: split_inventory_item_def run_handler_Inr and_then_Inr_iff map_err_Inr_iff tx_unfold)
  then show thesis
    using that [of c] Split_parse_Inr(1,2) [OF c(2)] by simp
qed

text \<open>
  C9. Splitting conserves stock: when an item with a whole-number stock below 10^15 is split by
  a whole number, at most the unallocated part moves, the source keeps the rest and its
  allocation, and the total on hand of every asset is what it was. The quantities pass through
  64-bit floats and the server's numeric casts, which are taken to be exact on such integers.
\<close>

theorem split_conserves_stock:
  assumes "inventory_ok db" and "casts_exact env"
    and "split_inventory_item env ctx i payload db = (Inr out, db')"
    and "item_row db i = Some src" and "ii_quantity_on_hand src = of_int on_hand"
    and "ii_quantity_allocated src = of_int allocated" and "on_hand < 10 ^ 15"
    and "pl_quantity payload = Fin (of_int moved)"
  shows "0 < moved \<and> moved \<le> on_hand - allocated
    \<and> (\<exists>src'. item_row db' i = Some src' \<and> ii_quantity_on_hand src' = of_int (on_hand - moved)
         \<and> ii_quantity_allocated src' = of_int allocated)
    \<and> stock_on_hand db' asset = stock_on_hand db asset"
proof -
  obtain command where c: "sp_quantity command = Fin (of_int moved)" "0 < moved"
      and t: "split_in_transaction env ctx i command db = Inr (out, db')"
    using assms(3,8) by (auto elim!: split_inventory_item_Inr)
  obtain r x y h n z t' where s: "inventory_ok db'" "item_row db i = Some r" "ii_tracking_mode r = lit ''quantity''"
      "numeric_float8 env (ii_quantity_on_hand r) = Some x"
      "numeric_float8 env (ii_quantity_allocated r) = Some y"
      "\<not> f64_less (f64_sub x y) (sp_quantity command)"
      "float8_numeric env (f64_sub x (sp_quantity command)) = Some h"
      "float8_numeric env (sp_quantity command) = Some n" "float8_numeric env (Fin 0) = Some z"
      "item_row db' i = Some (set_on_hand h (env_now env) r)"
      "item_row db' (ii_inventory_item_id t') = Some t'" "ii_inventory_item_id t' \<noteq> i"
      "ii_laboratory_id t' = ii_laboratory_id r" "ii_asset_id t' = ii_asset_id r"
      "case item_row db (ii_inventory_item_id t') of
           None \<Rightarrow> ii_quantity_on_hand t' = n \<and> ii_quantity_allocated t' = z
         | Some t \<Rightarrow> t' = add_quantities n z (env_now env) t"
      "\<And>j. j \<noteq> i \<Longrightarrow> j \<noteq> ii_inventory_item_id t' \<Longrightarrow> item_row db' j = item_row db j"
      "\<And>a. stock_on_hand db' a = stock_on_hand db a
           + (if ii_asset_id r = a then h - ii_quantity_on_hand r + n else 0)"
    by (rule split_in_transaction_Inr [OF t assms(1)]) blast
  have r: "r = src"
    using s(2) assms(4) by simp
  have "inventory_checks src"
    using item_row_Some [OF assms(4)] inventory_ok_row(1) [OF assms(1)] by blast
  then have "0 \<le> ii_quantity_on_hand src \<and> 0 \<le> ii_quantity_allocated src
      \<and> ii_quantity_allocated src \<le> ii_quantity_on_hand src"
    by (simp only: inventory_checks_def)
  then have b: "0 \<le> on_hand" "0 \<le> allocated" "allocated \<le> on_hand"
    by (simp_all add: assms(5,6))
  have "x = Fin (of_int on_hand)" "y = Fin (of_int allocated)"
    using s(4,5) casts_exactD(2) [OF assms(2), of on_hand] casts_exactD(2) [OF assms(2), of allocated] b assms(7)
    by (simp_all add: r assms(5,6))
  moreover have "f64_sub (Fin (of_int on_hand)) (Fin (of_int allocated)) = Fin (of_int (on_hand - allocated))"
    using b assms(7) by (intro f64_sub_of_int) simp
  ultimately have le: "moved \<le> on_hand - allocated"
    using s(6) by (simp add: c(1) del: of_int_diff)
  then have "f64_sub x (sp_quantity command) = Fin (of_int (on_hand - moved))"
    using b c(2) assms(7) \<open>x = _\<close> unfolding c(1) by (simp only:) (intro f64_sub_of_int, simp)
  then have "h = of_int (on_hand - moved)" "n = of_int moved"
    using s(7,8) casts_exactD(1) [OF assms(2), of "on_hand - moved"] casts_exactD(1) [OF assms(2), of moved]
      b c le assms(7) by simp_all
  then show ?thesis
    using le c(2) s(10,17) r assms(5,6) by (simp add: set_on_hand_def)
qed

definition move_three_command :: split_command where
  "move_three_command = \<lparr>sp_quantity = Fin 3, sp_batch_number = Unchanged, sp_location_id = Unchanged,
     sp_status = Some Reserved, sp_public_notes = None, sp_internal_notes = None\<rparr>"

lemma move_three_parse:
  "Split_parse (Fin 3) None None (Some (lit ''reserved'')) None None = Inr move_three_command"
  using inventory_status_name.parse_as_str [of Reserved]
  by (simp add: Split_parse_def f64_less_eq_def move_three_command_def
      normalize_optional_text_def)

lemma move_three_permitted:
  "require_permission env_1 (authorization_actor admin_ctx) InventoryItem_resource (Update 40) message db_1 = Inr ()"
proof -
  have "validate_permission db_1 100 (authorization_actor admin_ctx) InventoryItem_resource (Update 40) = Inr True"
    by code_simp
  then show ?thesis
    by (simp add: require_permission_def env_1_def)
qed

lemma move_three_runs: "\<exists>out db'. split_inventory_item env_1 admin_ctx 40 move_three db_1 = (Inr out, db')"
proof -
  have "case split_in_transaction env_1 admin_ctx 40 move_three_command db_1 of Inr _ \<Rightarrow> True | _ \<Rightarrow> False"
    by code_simp
  then show ?thesis
    by (auto simp: split_inventory_item_def move_three_def move_three_parse run_handler_def
        transaction_def move_three_permitted split: sum.splits)
qed

theorem split_conserves_stock_witness:
  "\<exists>out db'. split_inventory_item env_1 admin_ctx 40 move_three db_1 = (Inr out, db')
     \<and> stock_on_hand db' 20 = stock_on_hand db_1 20"
proof -
  obtain out db' where run: "split_inventory_item env_1 admin_ctx 40 move_three db_1 = (Inr out, db')"
    using move_three_runs by blast
  have "ii_quantity_on_hand (stock_row 40 10 2 (lit ''available'')) = of_int 10"
    "ii_quantity_allocated (stock_row 40 10 2 (lit ''available'')) = of_int 2"
    "pl_quantity move_three = Fin (of_int 3)"
    by (simp_all add: stock_row_def move_three_def)
  from split_conserves_stock [OF db_1_ok env_1_exact run db_1_row_40 this(1,2) _ this(3)] run
  show ?thesis by auto
qed

text \<open>
  What a split may touch: the database stays consistent with its schema, both rows belong to
  the laboratory of the request and to the same asset, the target is another row than the source,
  either new with nothing allocated or an existing row that only gains stock, of the source only
  the stock and the time of the update change, and every other item is as it was.
\<close>

theorem split_touches_two_rows:
  assumes "inventory_ok db" and "LaboratoryContext_from_request parse_uuid req = Inr ctx"
    and "split_inventory_item env ctx i payload db = (Inr out, db')"
  shows "inventory_ok db' \<and>
    (\<exists>src src' t'. item_row db i = Some src \<and> ii_laboratory_id src = ctx_laboratory_id ctx
       \<and> ii_tracking_mode src = lit ''quantity''
       \<and> item_row db' i = Some src'
       \<and> src' = src\<lparr>ii_quantity_on_hand := ii_quantity_on_hand src', ii_updated_at := env_now env\<rparr>
       \<and> ii_inventory_item_id t' \<noteq> i \<and> item_row db' (ii_inventory_item_id t') = Some t'
       \<and> ii_laboratory_id t' = ctx_laboratory_id ctx \<and> ii_asset_id t' = ii_asset_id src
       \<and> (case item_row db (ii_inventory_item_id t') of
             None \<Rightarrow> float8_numeric env (Fin 0) = Some (ii_quantity_allocated t')
           | Some t \<Rightarrow> \<exists>n z. float8_numeric env (pl_quantity payload) = Some n
               \<and> float8_numeric env (Fin 0) = Some z \<and> t' = add_quantities n z (env_now env) t)
       \<and> (\<forall>j. j \<noteq> i \<and> j \<noteq> ii_inventory_item_id t' \<longrightarrow> item_row db' j = item_row db j))"
proof -
  have scoped: "scoped_context ctx"
    using assms(2) by (auto simp: scoped_context_def)
  obtain command where perm: "validate_permission db (env_now env) (authorization_actor ctx)
        InventoryItem_resource (Update i) = Inr True"
      and c: "sp_quantity command = pl_quantity payload"
      and t: "split_in_transaction env ctx i command db = Inr (out, db')"
    using assms(3) by (auto elim!: split_inventory_item_Inr)
  obtain src x y h n z t' where s: "inventory_ok db'" "item_row db i = Some src" "ii_tracking_mode src = lit ''quantity''"
      "numeric_float8 env (ii_quantity_on_hand src) = Some x"
      "numeric_float8 env (ii_quantity_allocated src) = Some y"
      "\<not> f64_less (f64_sub x y) (sp_quantity command)"
      "float8_numeric env (f64_sub x (sp_quantity command)) = Some h"
      "float8_numeric env (sp_quantity command) = Some n" "float8_numeric env (Fin 0) = Some z"
      "item_row db' i = Some (set_on_hand h (env_now env) src)"
      "item_row db' (ii_inventory_item_id t') = Some t'" "ii_inventory_item_id t' \<noteq> i"
      "ii_laboratory_id t' = ii_laboratory_id src" "ii_asset_id t' = ii_asset_id src"
      "case item_row db (ii_inventory_item_id t') of
           None \<Rightarrow> ii_quantity_on_hand t' = n \<and> ii_quantity_allocated t' = z
         | Some t \<Rightarrow> t' = add_quantities n z (env_now env) t"
      "\<And>j. j \<noteq> i \<Longrightarrow> j \<noteq> ii_inventory_item_id t' \<Longrightarrow> item_row db' j = item_row db j"
      "\<And>a. stock_on_hand db' a = stock_on_hand db a
           + (if ii_asset_id src = a then h - ii_quantity_on_hand src + n else 0)"
    by (rule split_in_transaction_Inr [OF t assms(1)]) blast
  have lab: "ii_laboratory_id src = ctx_laboratory_id ctx"
    using permitted_item_in_scope [OF scoped _ perm] s(2) by auto
  have target: "case item_row db (ii_inventory_item_id t') of
       None \<Rightarrow> float8_numeric env (Fin 0) = Some (ii_quantity_allocated t')
     | Some t \<Rightarrow> \<exists>n z. float8_numeric env (pl_quantity payload) = Some n
         \<and> float8_numeric env (Fin 0) = Some z \<and> t' = add_quantities n z (env_now env) t"
    using s(8,9,15) c by (cases "item_row db (ii_inventory_item_id t')") auto
  have "set_on_hand h (env_now env) src
      = src\<lparr>ii_quantity_on_hand := ii_quantity_on_hand (set_on_hand h (env_now env) src), ii_updated_at := env_now env\<rparr>"
    by (simp add: set_on_hand_def)
  moreover have "\<forall>j. j \<noteq> i \<and> j \<noteq> ii_inventory_item_id t' \<longrightarrow> item_row db' j = item_row db j"
    using s(16) by blast
  moreover have "ii_laboratory_id t' = ctx_laboratory_id ctx"
    using s(13) lab by simp
  ultimately show ?thesis
    using s(1-3,10-12,14) lab target by blast
qed

theorem split_touches_two_rows_witness:
  "\<exists>out db' t'. split_inventory_item env_1 admin_ctx 40 move_three db_1 = (Inr out, db')
     \<and> ii_inventory_item_id t' \<noteq> 40 \<and> item_row db' (ii_inventory_item_id t') = Some t'
     \<and> ii_laboratory_id t' = lab_1"
proof -
  obtain out db' where run: "split_inventory_item env_1 admin_ctx 40 move_three db_1 = (Inr out, db')"
    using move_three_runs by blast
  show ?thesis
    using split_touches_two_rows [OF db_1_ok admin_context run] run by (auto simp: admin_ctx_def)
qed

end
