(* ===== verification/Inventory_Merge.thy ===== *)
theory Inventory_Merge
  imports Handlers
begin

text \<open>
  \<^verbatim>\<open>routes/inventory_items/merge.rs\<close>: the source items are folded into the target. The rows it
  accepts agree in every column of the unique aggregate index, so in a database that satisfies
  its schema there are never two of them: the last section proves that no merge succeeds.
\<close>

definition find_row :: "inventory_item list \<Rightarrow> uuid \<Rightarrow> rstr \<Rightarrow> (handler_error, inventory_item) result" where
  "find_row rows i label =
     ok_or (NotFound (label @ lit '' inventory item not found''))
       (find (\<lambda>row. it_inventory_item_id row = i) rows)"

definition validate_merge_compatible :: "inventory_item \<Rightarrow> inventory_item \<Rightarrow> (handler_error, unit) result" where
  "validate_merge_compatible target source =
     (if it_laboratory_id target = it_laboratory_id source \<and> it_asset_id target = it_asset_id source
         \<and> it_batch_number target = it_batch_number source
         \<and> it_location_id target = it_location_id source \<and> it_status target = it_status source
      then Inr ()
      else Inl (ValidationError
        (lit ''Source inventory items must match target asset, batch, location, and status'')))"

text \<open>The loop over the sources: found, counted by quantity, compatible with the target.\<close>

definition merge_sources ::
    "inventory_item list \<Rightarrow> inventory_item \<Rightarrow> uuid list \<Rightarrow> (handler_error, inventory_item list) result" where
  "merge_sources rows target source_ids =
     collect_map (\<lambda>i.
       and_then (find_row rows i (lit ''Source'')) (\<lambda>source.
       and_then (map_err ValidationError (validate_quantity_item source)) (\<lambda>_.
       and_then (validate_merge_compatible target source) (\<lambda>_. Inr source)))) source_ids"

definition f64_sum :: "f64 list \<Rightarrow> f64" where
  "f64_sum xs = foldl f64_add (Fin 0) xs"

definition merge_in_transaction ::
    "env \<Rightarrow> laboratory_context \<Rightarrow> merge_command \<Rightarrow> (handler_error, inventory_item) tx" where
  "merge_in_transaction env ctx command =
     (let target_id = mg_target_inventory_item_id command;
          source_ids = mg_source_inventory_item_ids command;
          all_ids = target_id # source_ids
      in
     tx_bind (unexpected (tx_read (fetch_inventory_items_for_update env all_ids))) (\<lambda>rows.
     tx_bind (tx_lift (map_err from_db_error (validate_requested_ids all_ids rows))) (\<lambda>_.
     tx_bind (tx_lift (find_row rows target_id (lit ''Target''))) (\<lambda>target_before.
     tx_bind (tx_lift (map_err ValidationError (validate_quantity_item target_before))) (\<lambda>_.
     tx_bind (tx_lift (merge_sources rows target_before source_ids)) (\<lambda>sources.
     let quantity_delta = f64_sum (map it_quantity_on_hand sources);
         allocated_delta = f64_sum (map it_quantity_allocated sources);
         merged_ids = map it_inventory_item_id sources
     in
     tx_bind (unexpected (move_inventory_item_attachments env merged_ids
                (it_inventory_item_id target_before))) (\<lambda>moved.
     tx_bind (tx_map_err from_db_error (add_quantities_to_item env (it_inventory_item_id target_before)
                quantity_delta allocated_delta)) (\<lambda>target_after.
     tx_bind (tx_map_err from_db_error (tx_for_each delete_inventory_item_from_database merged_ids)) (\<lambda>_.
     tx_bind (unexpected (record_audit (actor_user_id (ctx_actor ctx)) Audit_Adjust Res_InventoryItem
         (Some (it_inventory_item_id target_after)) (Details_merge target_before sources moved))) (\<lambda>_.
     tx_return (InventoryItemResponse_from_row target_after True)))))))))))"

definition merge_inventory_items ::
    "env \<Rightarrow> laboratory_context \<Rightarrow> uuid \<Rightarrow> uuid list \<Rightarrow> database
       \<Rightarrow> (handler_error, inventory_item) result \<times> database" where
  "merge_inventory_items env ctx target_id source_ids db =
     run_handler
       (and_then (map_err ValidationError (Merge_parse target_id source_ids)) (\<lambda>command.
          and_then (require_all_permissions env (authorization_actor ctx) InventoryItem_resource Update
              (lit ''You don't have permission to merge these inventory items.'')
              (mg_target_inventory_item_id command # mg_source_inventory_item_ids command) db)
            (\<lambda>_. Inr command)))
       (merge_in_transaction env ctx) db"

section \<open>The schema leaves nothing to merge\<close>

lemma fetched_item_row:
  assumes "inventory_ok db" and "fetch_inventory_items_for_update env ids db = Inr rows"
    and "it \<in> set rows"
  shows "\<exists>r\<in>set (inventory_items db). it_inventory_item_id it = ii_inventory_item_id r
    \<and> it_laboratory_id it = ii_laboratory_id r \<and> it_asset_id it = ii_asset_id r
    \<and> it_tracking_mode it = ii_tracking_mode r \<and> it_batch_number it = ii_batch_number r
    \<and> it_location_id it = ii_location_id r \<and> it_status it = ii_status r"
proof -
  obtain r a where "(r, a) \<in> set (joined_items db)" "item_of_row env (r, a) = Inr it"
    using collect_map_Inr_set [OF assms(2) [unfolded fetch_inventory_items_for_update_def] assms(3)] by auto
  then show ?thesis
    using item_of_row_columns [of env r a it] by (auto simp: joined_items_map [OF assms(1)])
qed

lemma find_row_Inr: "find_row rows i label = Inr it \<Longrightarrow> it \<in> set rows \<and> it_inventory_item_id it = i"
  by (auto simp: find_row_def ok_or_Inr_iff find_Some_iff)

lemma compatible_rows_clash:
  assumes "inventory_ok db" and "fetch_inventory_items_for_update env ids db = Inr rows"
    and "t \<in> set rows" and "s \<in> set rows"
    and "validate_quantity_item t = Inr u" and "validate_quantity_item s = Inr v"
    and "validate_merge_compatible t s = Inr w"
  shows "it_inventory_item_id s = it_inventory_item_id t"
  using fetched_item_row [OF assms(1,2,3)] fetched_item_row [OF assms(1,2,4)] assms(1,5-7)
  by (auto simp: inventory_ok_def aggregate_clash_def validate_quantity_item_Inr
      validate_merge_compatible_def split: if_splits) metis+

lemma merge_in_transaction_fails:
  assumes "inventory_ok db" and "Merge_parse target_id source_ids = Inr command"
  shows "merge_in_transaction env ctx command db \<noteq> Inr (out, db')"
proof
  assume m: "merge_in_transaction env ctx command db = Inr (out, db')"
  have c: "source_ids \<noteq> []" "target_id \<notin> set source_ids" "mg_target_inventory_item_id command = target_id"
      "mg_source_inventory_item_ids command = source_ids"
    using assms(2) by (auto simp: Merge_parse_Inr)
  obtain rows t where r: "fetch_inventory_items_for_update env (target_id # source_ids) db = Inr rows"
      "find_row rows target_id (lit ''Target'') = Inr t" "validate_quantity_item t = Inr ()"
      "\<exists>sources. merge_sources rows t source_ids = Inr sources"
    using m by (auto simp: merge_in_transaction_def Let_def tx_unfold map_err_Inr_iff c)
  from r(4) obtain sources where src: "merge_sources rows t source_ids = Inr sources" ..
  then have "length sources = length source_ids"
    unfolding merge_sources_def by (rule collect_map_Inr_length)
  then obtain s where s: "s \<in> set sources"
    using c(1) by (cases sources) auto
  obtain i where i: "i \<in> set source_ids" "find_row rows i (lit ''Source'') = Inr s"
      "validate_quantity_item s = Inr ()" "validate_merge_compatible t s = Inr ()"
    using collect_map_Inr_set [OF src [unfolded merge_sources_def] s]
    by (auto simp: and_then_Inr_iff map_err_Inr_iff)
  have "i = target_id"
    using compatible_rows_clash [OF assms(1) r(1) _ _ r(3) i(3,4)] find_row_Inr [OF r(2)] find_row_Inr [OF i(2)]
    by auto
  with i(1) c(2) show False by simp
qed

end
