(* ===== verification/Inventory_Update.thy ===== *)
theory Inventory_Update
  imports Handlers
begin

text \<open>
  \<^verbatim>\<open>routes/inventory_items/update.rs\<close> and \<^verbatim>\<open>batch_update.rs\<close>: a patch applied to one item, and one
  patch applied to a set of items, all of them or none.
\<close>

record update_payload =
  upl_serial_number :: "rstr option"
  upl_batch_number :: "rstr option option"
  upl_quantity_on_hand :: "f64 option"
  upl_quantity_allocated :: "f64 option"
  upl_location_id :: "uuid option option"
  upl_status :: "rstr option"
  upl_public_notes :: "rstr option option"
  upl_internal_notes :: "rstr option option"

definition update_in_transaction ::
    "env \<Rightarrow> laboratory_context \<Rightarrow> uuid \<Rightarrow> update_item \<Rightarrow> (handler_error, inventory_item) tx" where
  "update_in_transaction env ctx inventory_item_id patch =
     tx_bind (unexpected (tx_read (fetch_inventory_item_for_update env inventory_item_id))) (\<lambda>found.
     tx_bind (tx_lift (ok_or (NotFound (lit ''Inventory item not found'')) found)) (\<lambda>existing.
     tx_bind (tx_map_err from_db_error (apply_inventory_item_patch env existing patch)) (\<lambda>updated.
     tx_bind (unexpected (record_audit (actor_user_id (ctx_actor ctx)) Audit_Update Res_InventoryItem
         (Some (it_inventory_item_id updated)) (Details_update_item existing))) (\<lambda>_.
     tx_return (InventoryItemResponse_from_row updated True)))))"

definition update_inventory_item ::
    "env \<Rightarrow> laboratory_context \<Rightarrow> uuid \<Rightarrow> update_payload \<Rightarrow> database
       \<Rightarrow> (handler_error, inventory_item) result \<times> database" where
  "update_inventory_item env ctx inventory_item_id payload db =
     run_handler
       (and_then (require_permission env (authorization_actor ctx) InventoryItem_resource
            (Update inventory_item_id) (lit ''You are not allowed to update this inventory item.'') db)
          (\<lambda>_. map_err ValidationError
            (UpdateItem_parse env (upl_serial_number payload) (upl_batch_number payload)
              (upl_quantity_on_hand payload) (upl_quantity_allocated payload) (upl_location_id payload)
              (upl_status payload) (upl_public_notes payload) (upl_internal_notes payload))))
       (update_in_transaction env ctx inventory_item_id) db"

record batch_update_payload =
  bp_inventory_item_ids :: "uuid list"
  bp_batch_number :: "rstr option option"
  bp_location_id :: "uuid option option"
  bp_status :: "rstr option"
  bp_public_notes :: "rstr option option"
  bp_internal_notes :: "rstr option option"

definition batch_update_in_transaction ::
    "env \<Rightarrow> laboratory_context \<Rightarrow> uuid list \<Rightarrow> update_item \<Rightarrow> (handler_error, inventory_item list) tx" where
  "batch_update_in_transaction env ctx ids patch =
     tx_bind (unexpected (tx_read (fetch_inventory_items_for_update env ids))) (\<lambda>existing_items.
     tx_bind (tx_lift (map_err from_db_error (validate_requested_ids ids existing_items))) (\<lambda>_.
     tx_bind (tx_for_each (\<lambda>existing.
         tx_bind (tx_map_err from_db_error (apply_inventory_item_patch env existing patch)) (\<lambda>updated.
         tx_bind (unexpected (record_audit (actor_user_id (ctx_actor ctx)) Audit_Update Res_InventoryItem
             (Some (it_inventory_item_id updated)) (Details_update_item existing))) (\<lambda>_.
         tx_return updated))) existing_items) (\<lambda>updated_items.
     tx_return (map (\<lambda>item. InventoryItemResponse_from_row item True) updated_items))))"

definition batch_update_inventory_items ::
    "env \<Rightarrow> laboratory_context \<Rightarrow> batch_update_payload \<Rightarrow> database
       \<Rightarrow> (handler_error, inventory_item list) result \<times> database" where
  "batch_update_inventory_items env ctx payload db =
     run_handler
       (and_then (map_err ValidationError (InventoryItemIds_parse (bp_inventory_item_ids payload))) (\<lambda>ids.
        and_then (map_err ValidationError
            (UpdateItem_parse env None (bp_batch_number payload) None None (bp_location_id payload)
              (bp_status payload) (bp_public_notes payload) (bp_internal_notes payload))) (\<lambda>patch.
        and_then (ensure (has_batch_updates patch)
            (ValidationError (lit ''Batch update requires at least one update field''))) (\<lambda>_.
        and_then (require_all_permissions env (authorization_actor ctx) InventoryItem_resource Update
            (lit ''You don't have permission to update these inventory items.'') ids db) (\<lambda>_.
          Inr (ids, patch))))))
       (\<lambda>(ids, patch). batch_update_in_transaction env ctx ids patch) db"

section \<open>A successful patch\<close>

text \<open>The columns a patch leaves in a row whose quantities are read back as they are stored.\<close>

definition patched_row :: "update_item \<Rightarrow> rat \<Rightarrow> rat \<Rightarrow> int \<Rightarrow> inventory_row \<Rightarrow> inventory_row" where
  "patched_row patch on_hand allocated now r =
     set_columns
       (case up_serial_number patch of Some s \<Rightarrow> Some s | None \<Rightarrow> ii_serial_number r)
       (resolve_update (up_batch_number patch) (ii_batch_number r)) on_hand allocated
       (resolve_update (up_location_id patch) (ii_location_id r))
       (case up_status patch of Some s \<Rightarrow> InventoryStatus_as_str s | None \<Rightarrow> ii_status r)
       (resolve_update (up_public_notes patch) (ii_public_notes r))
       (resolve_update (up_internal_notes patch) (ii_internal_notes r)) now r"

lemma apply_inventory_item_patch_Inr:
  assumes "apply_inventory_item_patch env existing patch db = Inr (updated, db')" and ok: "inventory_ok db"
    and row: "item_row db i = Some r" and view: "item_view env db r = Inr existing"
  obtains h a where
    "float8_numeric env (coalesce (up_quantity_on_hand patch) (it_quantity_on_hand existing)) = Some h"
    and "float8_numeric env (coalesce (up_quantity_allocated patch) (it_quantity_allocated existing)) = Some a"
    and "inventory_ok db'" and "item_row db' i = Some (patched_row patch h a (env_now env) r)"
    and "item_view env db' (patched_row patch h a (env_now env) r) = Inr updated"
    and "\<And>j. j \<noteq> i \<Longrightarrow> item_row db' j = item_row db j"
    and "\<exists>rows. db' = db\<lparr>inventory_items := rows\<rparr>"
    and "ii_tracking_mode r = lit ''serialized'' \<Longrightarrow> up_quantity_on_hand patch = None \<and> up_quantity_allocated patch = None"
    and "ii_tracking_mode r = lit ''quantity'' \<Longrightarrow> up_serial_number patch = None"
proof -
  note v = item_view_columns [OF view]
  have id: "it_inventory_item_id existing = i"
    using item_row_Some [OF row] v(1) by simp
  obtain mode checked h a where
      m: "AssetTrackingMode_parse (it_tracking_mode existing) = Inr mode"
      "validate_patch_against_tracking_mode patch mode = Inr checked"
      and h: "float8_numeric env (coalesce (up_quantity_on_hand patch) (it_quantity_on_hand existing)) = Some h"
      "float8_numeric env (coalesce (up_quantity_allocated patch) (it_quantity_allocated existing)) = Some a"
      and u: "update_row_by_id i (set_columns
         (case up_serial_number patch of Some s \<Rightarrow> Some s | None \<Rightarrow> it_serial_number existing)
         (resolve_update (up_batch_number patch) (it_batch_number existing)) h a
         (resolve_update (up_location_id patch) (it_location_id existing))
         (case up_status patch of Some s \<Rightarrow> InventoryStatus_as_str s | None \<Rightarrow> it_status existing)
         (resolve_update (up_public_notes patch) (it_public_notes existing))
         (resolve_update (up_internal_notes patch) (it_internal_notes existing)) (env_now env)) db = Inr db'"
      and f: "fetch_inventory_item env i db' = Inr (Some updated)"
    using assms(1) unfolding apply_inventory_item_patch_def Let_def tx_unfold map_err_Inr_iff id
    apply (elim exE conjE)
    apply hypsubst
    apply (rule that)
    apply assumption+
    done
  note k = set_columns.row_update_axioms
  note ok' = update_row_by_id_ok [OF ok u k]
  have new: "item_row db' i = Some (patched_row patch h a (env_now env) r)"
    using update_row_read_back(1) [OF u k] row by (simp add: patched_row_def v cong: option.case_cong)
  have modes: "AssetTrackingMode_parse (lit ''serialized'') = Inr Serialized"
      "AssetTrackingMode_parse (lit ''quantity'') = Inr Quantity"
    by (simp_all add: AssetTrackingMode_parse_def lit_def trim_def is_whitespace_def)
  show thesis
  proof (rule that [OF h ok' new])
    show "item_view env db' (patched_row patch h a (env_now env) r) = Inr updated"
      using fetch_inventory_item_Some [OF ok' f] new by auto
    show "item_row db' j = item_row db j" if "j \<noteq> i" for j
      by (rule update_row_read_back(2) [OF u k that])
    show "\<exists>rows. db' = db\<lparr>inventory_items := rows\<rparr>"
      by (rule update_row_frame [OF u])
    show "up_quantity_on_hand patch = None \<and> up_quantity_allocated patch = None"
      if "ii_tracking_mode r = lit ''serialized''"
      using m that v(4) by (auto simp: modes validate_patch_against_tracking_mode_def split: if_splits)
    show "up_serial_number patch = None" if "ii_tracking_mode r = lit ''quantity''"
      using m that v(4) by (auto simp: modes validate_patch_against_tracking_mode_def split: if_splits)
  qed
qed

lemma inventory_ok_audit [simp]: "inventory_ok (db\<lparr>audit_logs := l\<rparr>) = inventory_ok db"
  by (simp add: inventory_ok_def references_ok_def split: option.split)

lemma item_row_audit [simp]: "item_row (db\<lparr>audit_logs := l\<rparr>) i = item_row db i"
  by (simp add: item_row_def)

lemma update_in_transaction_Inr:
  assumes "update_in_transaction env ctx i patch db = Inr (out, db')" and ok: "inventory_ok db"
  obtains r existing h a where "item_row db i = Some r" and "item_view env db r = Inr existing"
    and "float8_numeric env (coalesce (up_quantity_on_hand patch) (it_quantity_on_hand existing)) = Some h"
    and "float8_numeric env (coalesce (up_quantity_allocated patch) (it_quantity_allocated existing)) = Some a"
    and "inventory_ok db'" and "item_row db' i = Some (patched_row patch h a (env_now env) r)"
    and "\<And>j. j \<noteq> i \<Longrightarrow> item_row db' j = item_row db j"
    and "audit_logs db' = audit_logs db @ [\<lparr>au_actor_user_id = Some (actor_user_id (ctx_actor ctx)),
           au_action = lit ''update'', au_resource_type = lit ''inventory_item'',
           au_resource_id = Some i, au_details = Details_update_item existing\<rparr>]"
proof -
  obtain existing updated db1 where f: "fetch_inventory_item env i db = Inr (Some existing)"
      and p: "apply_inventory_item_patch env existing patch db = Inr (updated, db1)"
      and db': "db' = db1\<lparr>audit_logs := audit_logs db1 @
         [\<lparr>au_actor_user_id = Some (actor_user_id (ctx_actor ctx)), au_action = AuditAction_as_str Audit_Update,
           au_resource_type = AuditResource_as_str Res_InventoryItem,
           au_resource_id = Some (it_inventory_item_id updated), au_details = Details_update_item existing\<rparr>]\<rparr>"
    using assms(1) unfolding update_in_transaction_def fetch_inventory_item_for_update_def tx_unfold ok_or_Inr_iff
    by (elim exE conjE bexE) blast
  obtain r where r: "item_row db i = Some r" "item_view env db r = Inr existing"
    using fetch_inventory_item_Some [OF ok f] by blast
  show thesis
  proof (rule apply_inventory_item_patch_Inr [OF p ok r], goal_cases)
    case (1 h a)
    have "it_inventory_item_id updated = i"
      using item_view_columns(1) [OF 1(5)] item_row_Some [OF 1(4)] by simp
    then show ?case
      using 1 r by (intro that [of r existing h a]) (auto simp: db')
  qed
qed

section \<open>A successful batch\<close>

definition with_items_and_log :: "database \<Rightarrow> database \<Rightarrow> bool" where
  "with_items_and_log db db' \<longleftrightarrow>
     (\<exists>rows log. db' = db\<lparr>inventory_items := rows, audit_logs := log\<rparr>)"

lemma with_items_and_log_refl: "with_items_and_log db db"
  unfolding with_items_and_log_def
  by (rule exI [of _ "inventory_items db"], rule exI [of _ "audit_logs db"]) simp

lemma with_items_and_log_view:
  "with_items_and_log db db' \<Longrightarrow> item_view env db' = item_view env db"
  by (auto simp: with_items_and_log_def item_view_def asset_row_of_def fun_eq_iff)

lemma with_items_and_log_trans:
  assumes "with_items_and_log db db'" and "with_items_and_log db' db''"
  shows "with_items_and_log db db''"
proof -
  obtain rows log where "db'' = db'\<lparr>inventory_items := rows, audit_logs := log\<rparr>"
    using assms(2) by (auto simp: with_items_and_log_def)
  with assms(1) have "db'' = db\<lparr>inventory_items := rows, audit_logs := log\<rparr>"
    by (auto simp: with_items_and_log_def)
  then show ?thesis
    unfolding with_items_and_log_def by blast
qed

text \<open>
  Every item of the batch carries the patch, every other item is as it was, and the log has one
  entry per item.
\<close>

lemma batch_loop:
  assumes "tx_for_each (\<lambda>existing.
         tx_bind (tx_map_err from_db_error (apply_inventory_item_patch env existing patch)) (\<lambda>updated.
         tx_bind (unexpected (record_audit actor Audit_Update Res_InventoryItem
             (Some (it_inventory_item_id updated)) (Details_update_item existing))) (\<lambda>_.
         tx_return updated))) items db = Inr (outs, db')"
    and "inventory_ok db" and "distinct (map it_inventory_item_id items)"
    and "\<And>it. it \<in> set items \<Longrightarrow>
           \<exists>r. item_row db (it_inventory_item_id it) = Some r \<and> item_view env db r = Inr it"
  shows "inventory_ok db' \<and> with_items_and_log db db'
    \<and> (\<forall>j. j \<notin> it_inventory_item_id ` set items \<longrightarrow> item_row db' j = item_row db j)
    \<and> (\<forall>it\<in>set items. \<exists>r h a. item_row db (it_inventory_item_id it) = Some r
         \<and> item_row db' (it_inventory_item_id it) = Some (patched_row patch h a (env_now env) r)
         \<and> float8_numeric env (coalesce (up_quantity_on_hand patch) (it_quantity_on_hand it)) = Some h
         \<and> float8_numeric env (coalesce (up_quantity_allocated patch) (it_quantity_allocated it)) = Some a)
    \<and> map au_resource_id (audit_logs db') =
        map au_resource_id (audit_logs db) @ map (\<lambda>it. Some (it_inventory_item_id it)) items"
  using assms
proof (induction items arbitrary: db outs)
  case Nil
  then show ?case
    using with_items_and_log_refl [of db] by (simp add: tx_unfold)
next
  case (Cons it items)
  let ?i = "it_inventory_item_id it"
  obtain updated db1 u db2 outs' where
      p: "apply_inventory_item_patch env it patch db = Inr (updated, db1)"
      and log: "record_audit actor Audit_Update Res_InventoryItem
             (Some (it_inventory_item_id updated)) (Details_update_item it) db1 = Inr (u, db2)"
      and rest: "tx_for_each (\<lambda>existing.
         tx_bind (tx_map_err from_db_error (apply_inventory_item_patch env existing patch)) (\<lambda>updated.
         tx_bind (unexpected (record_audit actor Audit_Update Res_InventoryItem
             (Some (it_inventory_item_id updated)) (Details_update_item existing))) (\<lambda>_.
         tx_return updated))) items db2 = Inr (outs', db')"
    using Cons.prems(1) unfolding tx_for_each.simps tx_bind_Inr tx_map_err_Inr unexpected_Inr tx_return_Inr
    apply (elim exE conjE)
    apply hypsubst
    apply (rule that)
    apply assumption+
    done
  from log have l: "\<exists>e. db2 = db1\<lparr>audit_logs := audit_logs db1 @ [e]\<rparr>
      \<and> au_resource_id e = Some (it_inventory_item_id updated)"
    using record_audit_entry by blast
  obtain r where r: "item_row db ?i = Some r" "item_view env db r = Inr it"
    using Cons.prems(4) by auto
  obtain h a where u: "float8_numeric env (coalesce (up_quantity_on_hand patch) (it_quantity_on_hand it)) = Some h"
      "float8_numeric env (coalesce (up_quantity_allocated patch) (it_quantity_allocated it)) = Some a"
      "inventory_ok db1" "item_row db1 ?i = Some (patched_row patch h a (env_now env) r)"
      "item_view env db1 (patched_row patch h a (env_now env) r) = Inr updated"
      "\<And>j. j \<noteq> ?i \<Longrightarrow> item_row db1 j = item_row db j" "\<exists>rows. db1 = db\<lparr>inventory_items := rows\<rparr>"
    by (rule apply_inventory_item_patch_Inr [OF p Cons.prems(2) r]) blast
  have id: "it_inventory_item_id updated = ?i"
    using item_view_columns(1) [OF u(5)] item_row_Some [OF u(4)] by simp
  have db2: "inventory_ok db2" "item_row db2 = item_row db1" "with_items_and_log db db2"
      "map au_resource_id (audit_logs db2) = map au_resource_id (audit_logs db) @ [Some ?i]"
    using l u(3,7) by (auto simp: with_items_and_log_def item_row_def fun_eq_iff id)
  have "\<exists>r. item_row db2 (it_inventory_item_id t) = Some r \<and> item_view env db2 r = Inr t"
    if "t \<in> set items" for t
  proof -
    have "it_inventory_item_id t \<noteq> ?i"
      using Cons.prems(3) that by (metis distinct.simps(2) image_eqI list.map(2) list.set_map)
    then show ?thesis
      using Cons.prems(4) [of t] that u(6) db2(2) with_items_and_log_view [OF db2(3)] by simp
  qed
  with Cons.IH [OF rest db2(1)] Cons.prems(3) have ih: "inventory_ok db'" "with_items_and_log db2 db'"
      "\<forall>j. j \<notin> it_inventory_item_id ` set items \<longrightarrow> item_row db' j = item_row db2 j"
      "\<forall>it\<in>set items. \<exists>r h a. item_row db2 (it_inventory_item_id it) = Some r
         \<and> item_row db' (it_inventory_item_id it) = Some (patched_row patch h a (env_now env) r)
         \<and> float8_numeric env (coalesce (up_quantity_on_hand patch) (it_quantity_on_hand it)) = Some h
         \<and> float8_numeric env (coalesce (up_quantity_allocated patch) (it_quantity_allocated it)) = Some a"
      "map au_resource_id (audit_logs db') =
        map au_resource_id (audit_logs db2) @ map (\<lambda>it. Some (it_inventory_item_id it)) items"
    by auto
  have new: "?i \<notin> it_inventory_item_id ` set items"
    using Cons.prems(3) by simp
  have "\<exists>r h a. item_row db (it_inventory_item_id t) = Some r
         \<and> item_row db' (it_inventory_item_id t) = Some (patched_row patch h a (env_now env) r)
         \<and> float8_numeric env (coalesce (up_quantity_on_hand patch) (it_quantity_on_hand t)) = Some h
         \<and> float8_numeric env (coalesce (up_quantity_allocated patch) (it_quantity_allocated t)) = Some a"
    if "t \<in> set (it # items)" for t
  proof (cases "t = it")
    case True
    then show ?thesis
      using r(1) u(1,2,4) ih(3) new db2(2) by auto
  next
    case False
    with that have t: "t \<in> set items" by simp
    then have "it_inventory_item_id t \<noteq> ?i"
      using new by (metis image_eqI)
    then show ?thesis
      using ih(4) t u(6) db2(2) by force
  qed
  then show ?case
    using ih(1,3,5) new db2 u(6) with_items_and_log_trans [OF db2(3) ih(2)] by auto
qed

end
