(* ===== verification/File_Storage.thy ===== *)
theory File_Storage
  imports Prelude
begin

text \<open>
  \<^verbatim>\<open>domain/file_storage_key.rs\<close> and the part of \<^verbatim>\<open>file_storage/\<close> that maps a storage key to a path
  below the storage root, reads it and removes it. A path is the list of its components, and
  the disk maps paths to contents; which operations the operating system refuses is a
  parameter. Writing an upload and hashing it are in \<open>File_Uploads\<close>.
\<close>

section \<open>Keys and paths\<close>

text \<open>\<^verbatim>\<open>str::split('/')\<close>: always at least one segment.\<close>

fun split_at :: "nat \<Rightarrow> rstr \<Rightarrow> rstr list" where
  "split_at sep [] = [[]]"
| "split_at sep (c # cs) =
     (if c = sep then [] # split_at sep cs
      else (case split_at sep cs of [] \<Rightarrow> [[c]] | s # ss \<Rightarrow> (c # s) # ss))"

text \<open>\<^verbatim>\<open>char::is_control\<close>: the Unicode category Cc.\<close>

definition is_control :: "nat \<Rightarrow> bool" where
  "is_control c \<longleftrightarrow> c \<le> 31 \<or> (127 \<le> c \<and> c \<le> 159)"

definition FileStorageKey_parse :: "rstr \<Rightarrow> (rstr, rstr) result" where
  "FileStorageKey_parse s =
     (let value = trim s
      in if value \<noteq> [] \<and> str_len value \<le> 512
            \<and> list_all (\<lambda>segment. segment \<noteq> [] \<and> segment \<noteq> lit ''.'' \<and> segment \<noteq> lit ''..''
                 \<and> 92 \<notin> set segment \<and> \<not> list_ex is_control segment) (split_at 47 value)
         then Inr value else Inl (lit ''attachment storage key is invalid''))"

type_synonym path = "rstr list"
type_synonym disk = "path \<rightharpoonup> u8 list"

record local_storage =
  st_root :: path
  st_refused :: "path \<Rightarrow> bool"

fun push_segments :: "path \<Rightarrow> rstr list \<Rightarrow> (rstr, path) result" where
  "push_segments p [] = Inr p"
| "push_segments p (segment # rest) =
     (if segment = [] \<or> segment = lit ''.'' \<or> segment = lit ''..'' \<or> 92 \<in> set segment \<or> 47 \<in> set segment
      then Inl (lit ''Invalid attachment storage key'')
      else push_segments (p @ [segment]) rest)"

definition path_for_key :: "local_storage \<Rightarrow> rstr \<Rightarrow> (rstr, path) result" where
  "path_for_key st key = push_segments (st_root st) (split_at 47 key)"

definition storage_read :: "local_storage \<Rightarrow> rstr \<Rightarrow> disk \<Rightarrow> (rstr, u8 list) result" where
  "storage_read st key disk =
     and_then (path_for_key st key) (\<lambda>p.
       if st_refused st p then Inl (lit ''Failed to read attachment object'')
       else ok_or (lit ''Failed to read attachment object'') (disk p))"

text \<open>A file that is not there counts as removed. Removing the emptied directory is best effort.\<close>

definition storage_delete :: "local_storage \<Rightarrow> rstr \<Rightarrow> disk \<Rightarrow> (rstr, unit) result \<times> disk" where
  "storage_delete st key disk =
     (case path_for_key st key of
        Inl e \<Rightarrow> (Inl e, disk)
      | Inr p \<Rightarrow>
          if disk p \<noteq> None \<and> st_refused st p
          then (Inl (lit ''Failed to delete attachment object''), disk)
          else (Inr (), disk(p := None)))"

text \<open>\<^verbatim>\<open>delete_storage_objects\<close>: stops at the first object it cannot delete.\<close>

fun delete_storage_objects ::
    "local_storage \<Rightarrow> rstr list \<Rightarrow> disk \<Rightarrow> (rstr, unit) result \<times> disk" where
  "delete_storage_objects st [] disk = (Inr (), disk)"
| "delete_storage_objects st (stored # rest) disk =
     (case FileStorageKey_parse stored of
        Inl e \<Rightarrow> (Inl e, disk)
      | Inr key \<Rightarrow>
          (case storage_delete st key disk of
             (Inl e, disk') \<Rightarrow> (Inl e, disk')
           | (Inr _, disk') \<Rightarrow> delete_storage_objects st rest disk'))"

section \<open>No key leaves the root\<close>

definition plain_segment :: "rstr \<Rightarrow> bool" where
  "plain_segment s \<longleftrightarrow> s \<noteq> [] \<and> s \<noteq> lit ''.'' \<and> s \<noteq> lit ''..'' \<and> 47 \<notin> set s \<and> 92 \<notin> set s"

lemma push_segments_Inr:
  "push_segments p segs = Inr q \<longleftrightarrow> q = p @ segs \<and> (\<forall>s\<in>set segs. plain_segment s)"
  by (induction p segs rule: push_segments.induct) (auto simp: plain_segment_def)

lemma split_at_ne [simp]: "split_at sep s \<noteq> []"
  by (cases s) (auto split: list.splits)

lemma split_at_no_sep: "t \<in> set (split_at sep s) \<Longrightarrow> sep \<notin> set t"
  by (induction sep s arbitrary: t rule: split_at.induct) (auto split: if_splits list.splits)

lemma path_for_key_Inr:
  "path_for_key st key = Inr p \<longleftrightarrow>
     p = st_root st @ split_at 47 key \<and> (\<forall>s\<in>set (split_at 47 key). plain_segment s)"
  by (simp add: path_for_key_def push_segments_Inr)

lemma FileStorageKey_has_path:
  assumes "FileStorageKey_parse s = Inr key"
  shows "path_for_key st key = Inr (st_root st @ split_at 47 key)"
proof -
  have "\<forall>t\<in>set (split_at 47 key). t \<noteq> [] \<and> t \<noteq> lit ''.'' \<and> t \<noteq> lit ''..'' \<and> 92 \<notin> set t"
    using assms by (auto simp: FileStorageKey_parse_def Let_def list_all_iff split: if_splits)
  then show ?thesis
    using split_at_no_sep [of _ 47 key] by (auto simp: path_for_key_Inr plain_segment_def)
qed

lemma delete_storage_objects_outside:
  assumes "delete_storage_objects st keys disk = (r, disk')"
    and "\<And>segs. p = st_root st @ segs \<Longrightarrow> \<exists>s\<in>set segs. \<not> plain_segment s"
  shows "disk' p = disk p"
  using assms
proof (induction st keys disk rule: delete_storage_objects.induct)
  case (2 st stored rest disk)
  show ?case
  proof (cases "FileStorageKey_parse stored")
    case (Inr key)
    note pk = FileStorageKey_has_path [OF Inr, of st]
    from pk have "p \<noteq> st_root st @ split_at 47 key"
      using "2.prems"(2) by (auto simp: path_for_key_Inr)
    then show ?thesis
      using 2 Inr pk by (auto simp: storage_delete_def split: if_splits)
  qed (use 2 in simp)
qed simp

section \<open>What a deletion leaves on disk\<close>

text \<open>Where the object of a stored key is, if the key is one.\<close>

definition object_path :: "local_storage \<Rightarrow> rstr \<Rightarrow> path option" where
  "object_path st stored =
     (case FileStorageKey_parse stored of Inl _ \<Rightarrow> None | Inr key \<Rightarrow> Some (st_root st @ split_at 47 key))"

text \<open>The stored key is one, and nothing keeps the operating system from removing its object.\<close>

definition removable :: "local_storage \<Rightarrow> disk \<Rightarrow> rstr \<Rightarrow> bool" where
  "removable st disk stored \<longleftrightarrow>
     (\<exists>p. object_path st stored = Some p \<and> (disk p = None \<or> \<not> st_refused st p))"

lemma object_path_iff:
  "object_path st stored = Some p \<longleftrightarrow>
     (\<exists>key. FileStorageKey_parse stored = Inr key \<and> path_for_key st key = Inr p)"
  using FileStorageKey_has_path by (fastforce simp: object_path_def split: sum.splits)

lemma delete_storage_objects_step:
  "delete_storage_objects st (stored # rest) disk =
     (case object_path st stored of
        None \<Rightarrow> (case FileStorageKey_parse stored of Inl e \<Rightarrow> (Inl e, disk) | Inr _ \<Rightarrow> (Inr (), disk))
      | Some p \<Rightarrow> if disk p \<noteq> None \<and> st_refused st p
                  then (Inl (lit ''Failed to delete attachment object''), disk)
                  else delete_storage_objects st rest (disk(p := None)))"
  using FileStorageKey_has_path by (auto simp: object_path_def storage_delete_def split: sum.splits)

lemma delete_storage_objects_elsewhere:
  assumes "delete_storage_objects st keys disk = (r, disk')" and "\<forall>k\<in>set keys. object_path st k \<noteq> Some p"
  shows "disk' p = disk p"
  using assms
proof (induction keys arbitrary: disk)
  case (Cons k keys)
  have "delete_storage_objects st keys (disk(q := None)) = (r, disk') \<Longrightarrow> disk' p = (disk(q := None)) p" for q
    using Cons by simp
  then show ?case
    using Cons.prems unfolding delete_storage_objects_step
    by (auto split: option.splits sum.splits if_splits)
qed simp

lemma storage_objects_gone:
  assumes "delete_storage_objects st keys disk = (Inr u, disk')" and "k \<in> set keys"
    and "object_path st k = Some p"
  shows "disk' p = None"
proof -
  have "disk' p = None" if "delete_storage_objects st ks disk1 = (Inr u, disk')" "disk1 p = None" for ks disk1
    using that
  proof (induction ks arbitrary: disk1)
    case (Cons k ks)
    then show ?case
      unfolding delete_storage_objects_step by (fastforce split: option.splits sum.splits if_splits)
  qed simp
  then show ?thesis
    using assms
  proof (induction keys arbitrary: disk)
    case (Cons k' keys)
    then show ?case
      unfolding delete_storage_objects_step
      by (cases "k' = k") (fastforce simp: object_path_def split: option.splits sum.splits if_splits)+
  qed simp
qed

text \<open>The deletion succeeds exactly when every object can be removed.\<close>

lemma delete_storage_objects_succeeds:
  "fst (delete_storage_objects st keys disk) = Inr () \<longleftrightarrow> (\<forall>k\<in>set keys. removable st disk k)"
proof (induction keys arbitrary: disk)
  case (Cons k keys)
  show ?case
  proof (cases "object_path st k")
    case None
    then show ?thesis
      by (auto simp: object_path_def removable_def split: sum.splits)
  next
    case (Some p)
    show ?thesis
    proof (cases "disk p \<noteq> None \<and> st_refused st p")
      case True
      then show ?thesis
        using Some by (auto simp: delete_storage_objects_step removable_def simp del: delete_storage_objects.simps)
    next
      case False
      have "removable st (disk(p := None)) x = removable st disk x" for x
        using False by (auto simp: removable_def)
      then show ?thesis
        using Some False Cons by (auto simp: delete_storage_objects_step removable_def simp del: delete_storage_objects.simps)
    qed
  qed
qed simp

end
