(* ===== verification/Inventory_Delete.thy ===== *)
theory Inventory_Delete
  imports Handlers File_Storage
begin

text \<open>
  \<^verbatim>\<open>routes/inventory_items/delete.rs\<close> and \<^verbatim>\<open>batch_delete.rs\<close>. The stored files go after the commit, so
  a failure to remove one is answered with an error although the items are gone.
\<close>

definition allocated_conflict :: handler_error where
  "allocated_conflict = ConflictError (lit ''Cannot delete inventory items with allocated quantity'')"

text \<open>One item: its attachments, the row, the audit entry. Returns what is left to remove from disk.\<close>

definition delete_one_item :: "laboratory_context \<Rightarrow> inventory_item \<Rightarrow> (handler_error, (uuid \<times> rstr) list) tx" where
  "delete_one_item ctx item =
     tx_bind (unexpected (delete_inventory_item_attachments (it_inventory_item_id item))) (\<lambda>deleted.
     tx_bind (tx_map_err delete_from_db_error
         (delete_inventory_item_from_database (it_inventory_item_id item))) (\<lambda>_.
     tx_bind (unexpected (record_audit (actor_user_id (ctx_actor ctx)) Audit_Delete Res_InventoryItem
         (Some (it_inventory_item_id item)) (Details_delete_item item (map fst deleted)))) (\<lambda>_.
     tx_return deleted)))"

definition delete_in_transaction ::
    "env \<Rightarrow> laboratory_context \<Rightarrow> uuid \<Rightarrow> (handler_error, (uuid \<times> rstr) list) tx" where
  "delete_in_transaction env ctx inventory_item_id =
     tx_bind (unexpected (tx_read (fetch_inventory_item_for_update env inventory_item_id))) (\<lambda>found.
     tx_bind (tx_lift (ok_or (NotFound (lit ''Inventory item not found'')) found)) (\<lambda>item.
     tx_bind (tx_lift (ensure (\<not> f64_less (Fin 0) (it_quantity_allocated item)) allocated_conflict)) (\<lambda>_.
     delete_one_item ctx item)))"

text \<open>After the commit: the files.\<close>

definition after_commit ::
    "local_storage \<Rightarrow> (handler_error, (uuid \<times> rstr) list) result \<times> database \<Rightarrow> disk
       \<Rightarrow> (handler_error, unit) result \<times> database \<times> disk" where
  "after_commit st outcome disk =
     (case outcome of
        (Inl e, db) \<Rightarrow> (Inl e, db, disk)
      | (Inr deleted, db) \<Rightarrow>
          (case delete_storage_objects st (map snd deleted) disk of
             (Inl e, disk') \<Rightarrow> (Inl (UnexpectedError e), db, disk')
           | (Inr _, disk') \<Rightarrow> (Inr (), db, disk')))"

definition delete_inventory_item ::
    "env \<Rightarrow> local_storage \<Rightarrow> laboratory_context \<Rightarrow> uuid \<Rightarrow> database \<Rightarrow> disk
       \<Rightarrow> (handler_error, unit) result \<times> database \<times> disk" where
  "delete_inventory_item env st ctx inventory_item_id db disk =
     after_commit st
       (run_handler
         (require_permission env (authorization_actor ctx) InventoryItem_resource
            (Delete inventory_item_id) (lit ''You are not allowed to delete this inventory item.'') db)
         (\<lambda>_. delete_in_transaction env ctx inventory_item_id) db) disk"

definition batch_delete_in_transaction ::
    "env \<Rightarrow> laboratory_context \<Rightarrow> uuid list \<Rightarrow> (handler_error, (uuid \<times> rstr) list) tx" where
  "batch_delete_in_transaction env ctx ids =
     tx_bind (unexpected (tx_read (fetch_inventory_items_for_update env ids))) (\<lambda>items.
     tx_bind (tx_lift (map_err from_db_error (validate_requested_ids ids items))) (\<lambda>_.
     tx_bind (tx_lift (ensure (\<not> list_ex (\<lambda>item. f64_less (Fin 0) (it_quantity_allocated item)) items)
         allocated_conflict)) (\<lambda>_.
     tx_bind (tx_for_each (delete_one_item ctx) items) (\<lambda>deleted.
     tx_return (concat deleted)))))"

definition batch_delete_inventory_items ::
    "env \<Rightarrow> local_storage \<Rightarrow> laboratory_context \<Rightarrow> uuid list \<Rightarrow> database \<Rightarrow> disk
       \<Rightarrow> (handler_error, unit) result \<times> database \<times> disk" where
  "batch_delete_inventory_items env st ctx inventory_item_ids db disk =
     after_commit st
       (run_handler
         (and_then (map_err ValidationError (InventoryItemIds_parse inventory_item_ids)) (\<lambda>ids.
          and_then (require_all_permissions env (authorization_actor ctx) InventoryItem_resource Delete
              (lit ''You don't have permission to delete these inventory items.'') ids db) (\<lambda>_.
            Inr ids)))
         (batch_delete_in_transaction env ctx) db) disk"

section \<open>A successful deletion\<close>

lemma delete_attachments_Inr:
  assumes "delete_inventory_item_attachments i db = Inr (deleted, db')"
  shows "attachments db' = filter (\<lambda>a. at_inventory_item_id a \<noteq> Some i) (attachments db)"
    and "inventory_items db' = inventory_items db" and "assets db' = assets db"
    and "locations db' = locations db" and "borrow_requests db' = borrow_requests db"
    and "audit_logs db' = audit_logs db" and "users db' = users db"
    and "files db' = filter (\<lambda>f. fi_file_id f \<notin> at_file_id ` {a \<in> set (attachments db). at_inventory_item_id a = Some i}) (files db)"
    and "set (map snd deleted) = fi_storage_key ` (set (files db) - set (files db'))"
  using assms by (auto simp: delete_inventory_item_attachments_def Let_def image_iff split: if_splits) force+

lemma delete_one_item_Inr:
  assumes "delete_one_item ctx item db = Inr (deleted, db')" and "inventory_ok db"
    and row: "item_row db (it_inventory_item_id item) = Some r"
  shows "inventory_ok db'" and "item_row db' (it_inventory_item_id item) = None"
    and "j \<noteq> it_inventory_item_id item \<Longrightarrow> item_row db' j = item_row db j"
    and "attachments db' = filter (\<lambda>a. at_inventory_item_id a \<noteq> Some (it_inventory_item_id item)) (attachments db)"
    and "borrow_requests db' = filter (\<lambda>b. br_inventory_item_id b \<noteq> it_inventory_item_id item) (borrow_requests db)"
    and "files db' = filter (\<lambda>f. fi_file_id f \<notin> at_file_id ` {a \<in> set (attachments db).
           at_inventory_item_id a = Some (it_inventory_item_id item)}) (files db)"
    and "set (map snd deleted) = fi_storage_key ` (set (files db) - set (files db'))"
    and "\<exists>e. audit_logs db' = audit_logs db @ [e] \<and> au_resource_id e = Some (it_inventory_item_id item)
           \<and> au_details e = Details_delete_item item (map fst deleted)"
proof -
  let ?i = "it_inventory_item_id item"
  obtain db1 u db2 v where a: "delete_inventory_item_attachments ?i db = Inr (deleted, db1)"
      and d: "delete_inventory_item_from_database ?i db1 = Inr (u, db2)"
      and log: "record_audit (actor_user_id (ctx_actor ctx)) Audit_Delete Res_InventoryItem (Some ?i)
        (Details_delete_item item (map fst deleted)) db2 = Inr (v, db')"
    using assms(1) unfolding delete_one_item_def tx_bind_Inr tx_map_err_Inr unexpected_Inr tx_return_Inr
    by blast
  have db': "\<exists>e. db' = db2\<lparr>audit_logs := audit_logs db2 @ [e]\<rparr> \<and> au_resource_id e = Some ?i
        \<and> au_details e = Details_delete_item item (map fst deleted)"
    using record_audit_entry [OF log] by blast
  note at = delete_attachments_Inr [OF a]
  have ok1: "inventory_ok db1" and row1: "item_row db1 = item_row db"
    using assms(2) at(2-4) by (auto simp: inventory_ok_def references_ok_def item_row_def fun_eq_iff split: option.split)
  note del = delete_inventory_item_ok [OF ok1 d]
  have there: "\<exists>r\<in>set (inventory_items db1). ii_inventory_item_id r = ?i"
    using row item_row_Some row1 by (metis item_row_Some)
  have db2: "attachments db2 = filter (\<lambda>a. at_inventory_item_id a \<noteq> Some ?i) (attachments db1)"
      "borrow_requests db2 = filter (\<lambda>b. br_inventory_item_id b \<noteq> ?i) (borrow_requests db1)"
      "audit_logs db2 = audit_logs db1" "files db2 = files db1"
    using d there by (auto simp: delete_inventory_item_from_database_def tx_unfold split: if_splits)
  have e: "inventory_ok db' = inventory_ok db2" "item_row db' = item_row db2"
    using db' by (auto simp: inventory_ok_def references_ok_def item_row_def fun_eq_iff split: option.split)
  show "inventory_ok db'" "item_row db' ?i = None"
    using del(1,2) e by simp_all
  show "j \<noteq> ?i \<Longrightarrow> item_row db' j = item_row db j"
    using del(3) [of j] e row1 by simp
  show "attachments db' = filter (\<lambda>a. at_inventory_item_id a \<noteq> Some ?i) (attachments db)"
    "borrow_requests db' = filter (\<lambda>b. br_inventory_item_id b \<noteq> ?i) (borrow_requests db)"
    "files db' = filter (\<lambda>f. fi_file_id f \<notin> at_file_id ` {a \<in> set (attachments db). at_inventory_item_id a = Some ?i}) (files db)"
    "set (map snd deleted) = fi_storage_key ` (set (files db) - set (files db'))"
    using db' db2(1,2,4) at(1,5,8,9) by auto
  show "\<exists>e. audit_logs db' = audit_logs db @ [e] \<and> au_resource_id e = Some ?i
           \<and> au_details e = Details_delete_item item (map fst deleted)"
    using db' db2(3) at(6) by auto
qed

lemma delete_in_transaction_Inr:
  assumes "delete_in_transaction env ctx i db = Inr (deleted, db')" and ok: "inventory_ok db"
  obtains r item where "item_row db i = Some r" and "item_view env db r = Inr item"
    and "\<not> f64_less (Fin 0) (it_quantity_allocated item)" and "delete_one_item ctx item db = Inr (deleted, db')"
    and "it_inventory_item_id item = i"
proof -
  obtain item where f: "fetch_inventory_item env i db = Inr (Some item)"
      and g: "\<not> f64_less (Fin 0) (it_quantity_allocated item)" "delete_one_item ctx item db = Inr (deleted, db')"
    using assms(1)
    by (auto simp: delete_in_transaction_def fetch_inventory_item_for_update_def tx_unfold ok_or_Inr_iff
        ensure_Inr_iff)
  obtain r where r: "item_row db i = Some r" "item_view env db r = Inr item"
    using fetch_inventory_item_Some [OF ok f] by blast
  moreover have "it_inventory_item_id item = i"
    using item_view_columns(1) [OF r(2)] item_row_Some [OF r(1)] by simp
  ultimately show thesis
    using that g by blast
qed

end
