(* ===== verification/Inventory_Create.thy ===== *)
theory Inventory_Create
  imports Handlers
begin

text \<open>
  The rows \<^verbatim>\<open>routes/inventory_items/create.rs\<close> writes for an asset it has read: the payload is parsed
  for the tracking mode of the asset, and one row is inserted per serial number or one row for a
  quantity. Generated serial numbers continue the \<^verbatim>\<open>#N\<close> sequence of the asset. The handler around
  it, which also claims uploads as attachments, is in \<open>Inventory_Creation\<close>.
\<close>

definition insert_new_inventory_item ::
    "env \<Rightarrow> uuid \<Rightarrow> asset_for_inventory \<Rightarrow> rstr \<Rightarrow> new_item \<Rightarrow> (handler_error, inventory_item) tx" where
  "insert_new_inventory_item env new_id asset mode item =
     tx_map_err from_db_error
       (insert_inventory_item env new_id (af_asset_id asset) (af_laboratory_id asset) mode
         (ni_serial_number item) (ni_batch_number item) (ni_quantity_on_hand item)
         (ni_quantity_allocated item) (ni_location_id item) (InventoryStatus_as_str (ni_status item))
         (ni_public_notes item) (ni_internal_notes item))"

fun serials_of_source ::
    "env \<Rightarrow> uuid \<Rightarrow> serial_source \<Rightarrow> database \<Rightarrow> (handler_error, rstr list) result" where
  "serials_of_source env asset (Explicit values) db = Inr values"
| "serials_of_source env asset (Generate count) db =
     and_then (map_err UnexpectedError (next_serial_numbers asset count db))
       (\<lambda>generated. map_err ValidationError (collect_map (SerialNumber_parse env) generated))"

text \<open>The \<open>i\<close>-th inserted row takes the \<open>i\<close>-th id the request draws.\<close>

definition insert_serialized_items ::
    "env \<Rightarrow> asset_for_inventory \<Rightarrow> serial_source \<Rightarrow> rstr option \<Rightarrow> uuid option \<Rightarrow> inventory_status
       \<Rightarrow> rstr option \<Rightarrow> rstr option \<Rightarrow> (handler_error, inventory_item list) tx" where
  "insert_serialized_items env asset source batch location status public_notes internal_notes =
     tx_bind (tx_read (serials_of_source env (af_asset_id asset) source)) (\<lambda>serial_numbers.
     tx_for_each (\<lambda>(i, serial).
         insert_new_inventory_item env (env_new_v4 env i) asset (lit ''serialized'')
           (NewItem_serialized serial batch location status public_notes internal_notes))
       (enumerate 0 serial_numbers))"

record create_payload =
  cp_serial_items :: "rstr list option"
  cp_serial_numbers :: "rstr list option"
  cp_count :: "i64 option"
  cp_batch_number :: "rstr option"
  cp_quantity_on_hand :: "f64 option"
  cp_quantity_allocated :: "f64 option"
  cp_location_id :: "uuid option"
  cp_status :: "rstr option"
  cp_public_notes :: "rstr option"
  cp_internal_notes :: "rstr option"

definition parse_creation :: "env \<Rightarrow> create_payload \<Rightarrow> asset_tracking_mode \<Rightarrow> (rstr, new_items) result" where
  "parse_creation env payload mode =
     NewItems_parse env mode (cp_serial_items payload) (cp_serial_numbers payload) (cp_count payload)
       (cp_batch_number payload) (cp_quantity_on_hand payload) (cp_quantity_allocated payload)
       (cp_location_id payload) (cp_status payload) (cp_public_notes payload) (cp_internal_notes payload)"

definition insert_creation ::
    "env \<Rightarrow> asset_for_inventory \<Rightarrow> new_items \<Rightarrow> (handler_error, inventory_item list) tx" where
  "insert_creation env asset creation =
     (case creation of
        New_Serialized source batch location status public_notes internal_notes \<Rightarrow>
          insert_serialized_items env asset source batch location status public_notes internal_notes
      | New_Quantity item \<Rightarrow>
          tx_bind (insert_new_inventory_item env (env_new_v4 env 0) asset (lit ''quantity'') item)
            (\<lambda>row. tx_return [row]))"

definition create_rows ::
    "env \<Rightarrow> asset_for_inventory \<Rightarrow> create_payload \<Rightarrow> (handler_error, inventory_item list) tx" where
  "create_rows env asset payload =
     tx_bind (tx_lift (map_err ValidationError (AssetTrackingMode_parse (af_tracking_mode asset)))) (\<lambda>mode.
     tx_bind (tx_lift (map_err ValidationError (parse_creation env payload mode))) (\<lambda>creation.
     tx_bind (tx_map_err from_db_error
         (validate_optional_location (af_laboratory_id asset) (NewItems_location_id creation))) (\<lambda>_.
     insert_creation env asset creation)))"

section \<open>Decimal serial numbers\<close>

lemma is_ascii_digit_48: "k < 10 \<Longrightarrow> is_ascii_digit (48 + k)"
  by (simp add: is_ascii_digit_def)

lemma show_nat_digits: "list_all is_ascii_digit (show_nat n)"
  by (induction n rule: show_nat.induct) (subst show_nat.simps, auto simp: is_ascii_digit_48)

lemma show_nat_ne [simp]: "show_nat n \<noteq> []"
  by (subst show_nat.simps) simp

lemma digits_value_append: "digits_value acc (xs @ [c]) = 10 * digits_value acc xs + (c - 48)"
  by (induction xs arbitrary: acc) auto

lemma digits_value_show_nat: "digits_value 0 (show_nat n) = n"
proof (induction n rule: show_nat.induct)
  case (1 n)
  show ?case
  proof (cases "n < 10")
    case False
    then have "digits_value 0 (show_nat n) = 10 * (n div 10) + n mod 10"
      using 1 by (subst show_nat.simps) (simp add: digits_value_append)
    then show ?thesis by simp
  qed (subst show_nat.simps, simp)
qed

lemma lit_hash: "lit ''#'' = [35]"
  by (simp add: lit_def)

lemma generated_serial:
  "is_generated_serial (lit ''#'' @ show_nat n)" "digits_value 0 (tl (lit ''#'' @ show_nat n)) = n"
  using show_nat_digits by (auto simp: lit_hash is_generated_serial_def digits_value_show_nat)

lemma foldl_max_ge: "x \<in> set xs \<or> x \<le> a \<Longrightarrow> x \<le> foldl max a (xs :: nat list)"
proof (induction xs arbitrary: a)
  case (Cons y ys)
  then have "x \<in> set ys \<or> x \<le> max a y"
    by (auto simp: le_max_iff_disj)
  then show ?case
    using Cons.IH by simp
qed simp

section \<open>Generated numbers are new\<close>

lemma next_serial_numbers_Inr:
  assumes "next_serial_numbers asset count db = Inr ss"
  obtains m where "max_generated_serial_number asset db = Inr m"
    and "ss = map (\<lambda>k. lit ''#'' @ show_nat (m + k)) [1..<Suc (unat count)]" and "m \<le> 2147483647"
proof -
  obtain m where m: "max_generated_serial_number asset db = Inr m"
      "ss = map (\<lambda>k. lit ''#'' @ show_nat (m + k)) [1..<Suc (unat count)]"
    using assms by (auto simp: next_serial_numbers_def and_then_Inr_iff)
  have f: "foldl max a xs \<le> b" if "\<forall>x\<in>set xs. x \<le> b" "a \<le> b" for a b :: nat and xs
    using that by (induction xs arbitrary: a) auto
  have "m \<le> 2147483647"
    using m(1) unfolding max_generated_serial_number_def Let_def
    by (auto split: if_splits intro!: f simp: not_less)
  with m show thesis by (rule that)
qed

lemma max_generated_bound:
  assumes "max_generated_serial_number asset db = Inr m" and "r \<in> set (inventory_items db)"
    and "ii_asset_id r = asset" and "ii_serial_number r = Some s" and "is_generated_serial s"
  shows "digits_value 0 (tl s) \<le> m"
proof -
  have "s \<in> set (generated_serials asset db)"
    using assms(2-5) by (force simp: generated_serials_def List.map_filter_def)
  then show ?thesis
    using assms(1) unfolding max_generated_serial_number_def Let_def
    by (auto split: if_splits intro!: foldl_max_ge)
qed

lemma next_serial_numbers_fresh:
  assumes "next_serial_numbers asset count db = Inr ss"
  shows "length ss = unat count" and "distinct ss"
    and "r \<in> set (inventory_items db) \<Longrightarrow> ii_asset_id r = asset \<Longrightarrow> s \<in> set ss \<Longrightarrow> ii_serial_number r \<noteq> Some s"
proof -
  obtain m where m: "max_generated_serial_number asset db = Inr m"
      "ss = map (\<lambda>k. lit ''#'' @ show_nat (m + k)) [1..<Suc (unat count)]"
    by (rule next_serial_numbers_Inr [OF assms])
  show "length ss = unat count"
    by (simp add: m(2))
  have "inj_on (\<lambda>k. lit ''#'' @ show_nat (m + k)) A" for A
    by (rule inj_onI) (metis add_left_cancel generated_serial(2))
  then show "distinct ss"
    by (simp add: m(2) distinct_map)
  assume r: "r \<in> set (inventory_items db)" "ii_asset_id r = asset" "s \<in> set ss"
  then obtain k where k: "s = lit ''#'' @ show_nat (m + k)" "1 \<le> k"
    by (auto simp: m(2))
  show "ii_serial_number r \<noteq> Some s"
    using max_generated_bound [OF m(1) r(1,2), of s] generated_serial [of "m + k"] k by auto
qed

lemma next_serial_numbers_overflow:
  assumes "r \<in> set (inventory_items db)" and "ii_asset_id r = asset" and "ii_serial_number r = Some s"
    and "is_generated_serial s" and "2147483647 < digits_value 0 (tl s)"
  shows "next_serial_numbers asset count db = Inl (lit ''integer out of range'')"
proof -
  have "s \<in> set (generated_serials asset db)"
    using assms(1-4) by (force simp: generated_serials_def List.map_filter_def)
  then show ?thesis
    using assms(5) by (auto simp: next_serial_numbers_def max_generated_serial_number_def Let_def)
qed

section \<open>A successful creation only adds rows\<close>

text \<open>\<open>extends_items db db' asset lab rows\<close>: the given items are new rows of the asset, nothing else changed.\<close>

definition extends_items :: "database \<Rightarrow> database \<Rightarrow> uuid \<Rightarrow> uuid \<Rightarrow> inventory_item list \<Rightarrow> bool" where
  "extends_items db db' asset lab created \<longleftrightarrow>
     inventory_ok db'
     \<and> (\<exists>rows. db' = db\<lparr>inventory_items := inventory_items db @ rows\<rparr>
          \<and> map ii_inventory_item_id rows = map it_inventory_item_id created
          \<and> (\<forall>r\<in>set rows. ii_asset_id r = asset \<and> ii_laboratory_id r = lab))"

lemma extends_items_Cons:
  assumes "extends_items db db1 asset lab [x]" and "extends_items db1 db' asset lab xs"
  shows "extends_items db db' asset lab (x # xs)"
proof -
  obtain r where r: "db1 = db\<lparr>inventory_items := inventory_items db @ r\<rparr>"
      "map ii_inventory_item_id r = [it_inventory_item_id x]"
      "\<forall>r\<in>set r. ii_asset_id r = asset \<and> ii_laboratory_id r = lab"
    using assms(1) by (auto simp: extends_items_def)
  obtain rs where rs: "db' = db1\<lparr>inventory_items := inventory_items db1 @ rs\<rparr>"
      "map ii_inventory_item_id rs = map it_inventory_item_id xs"
      "\<forall>r\<in>set rs. ii_asset_id r = asset \<and> ii_laboratory_id r = lab"
    using assms(2) by (auto simp: extends_items_def)
  show ?thesis
    using assms(2) r rs unfolding extends_items_def
    by (intro conjI exI [of _ "r @ rs"]) auto
qed

lemma insert_new_inventory_item_extends:
  assumes "insert_new_inventory_item env new_id asset mode item db = Inr (it, db')" and "inventory_ok db"
  shows "extends_items db db' (af_asset_id asset) (af_laboratory_id asset) [it]"
proof -
  have i: "insert_inventory_item env new_id (af_asset_id asset) (af_laboratory_id asset) mode
         (ni_serial_number item) (ni_batch_number item) (ni_quantity_on_hand item)
         (ni_quantity_allocated item) (ni_location_id item) (InventoryStatus_as_str (ni_status item))
         (ni_public_notes item) (ni_internal_notes item) db = Inr (it, db')"
    using assms(1) by (simp add: insert_new_inventory_item_def tx_unfold)
  obtain r where "db' = db\<lparr>inventory_items := inventory_items db @ [r]\<rparr>"
      "ii_inventory_item_id r = new_id" "ii_asset_id r = af_asset_id asset"
      "ii_laboratory_id r = af_laboratory_id asset"
    using insert_inventory_item_Inr(1) [OF i assms(2)] by auto
  then show ?thesis
    using insert_inventory_item_Inr(2,5) [OF i assms(2)] unfolding extends_items_def
    by (intro conjI exI [of _ "[r]"]) auto
qed

lemma insert_loop_extends:
  assumes "tx_for_each (\<lambda>(i, serial). insert_new_inventory_item env (new_id i) asset mode (mk serial)) xs db
      = Inr (created, db')" and "inventory_ok db"
  shows "extends_items db db' (af_asset_id asset) (af_laboratory_id asset) created \<and> length created = length xs"
  using assms
proof (induction xs arbitrary: db created)
  case Nil
  then show ?case
    by (auto simp: tx_unfold extends_items_def)
next
  case (Cons x xs)
  obtain it db1 rest where step: "insert_new_inventory_item env (new_id (fst x)) asset mode (mk (snd x)) db = Inr (it, db1)"
      and loop: "tx_for_each (\<lambda>(i, serial). insert_new_inventory_item env (new_id i) asset mode (mk serial)) xs db1
        = Inr (rest, db')" and c: "created = it # rest"
    using Cons.prems(1) by (auto simp: tx_unfold split: prod.splits)
  note e = insert_new_inventory_item_extends [OF step Cons.prems(2)]
  then have "inventory_ok db1"
    by (simp add: extends_items_def)
  then show ?case
    using Cons.IH [OF loop] extends_items_Cons [OF e] c by simp
qed

lemma create_rows_Inr:
  assumes "create_rows env af payload db = Inr (created, db')" and "inventory_ok db"
    and af: "fetch_asset_for_inventory_for_update asset_id db = Some af"
  obtains a where "a \<in> set (assets db)" and "as_asset_id a = asset_id"
    and "extends_items db db' asset_id (as_laboratory_id a) created" and "created \<noteq> []"
proof -
  obtain mode creation where mode: "AssetTrackingMode_parse (af_tracking_mode af) = Inr mode"
      and creation: "parse_creation env payload mode = Inr creation"
      and ins: "insert_creation env af creation db = Inr (created, db')"
    using assms(1)
    by (auto simp: create_rows_def tx_unfold map_err_Inr_iff)
  obtain a where a: "a \<in> set (assets db)" "as_asset_id a = asset_id" "af_asset_id af = asset_id"
      "af_laboratory_id af = as_laboratory_id a"
    using af by (auto simp: fetch_asset_for_inventory_for_update_def dest: fetch_optional_Some)
  have "extends_items db db' asset_id (as_laboratory_id a) created \<and> created \<noteq> []"
  proof (cases creation)
    case (New_Quantity item)
    then obtain it where it: "insert_new_inventory_item env (env_new_v4 env 0) af (lit ''quantity'') item db = Inr (it, db')"
        "created = [it]"
      using ins by (auto simp: insert_creation_def tx_unfold)
    show ?thesis
      using insert_new_inventory_item_extends [OF it(1) assms(2)] it(2) a by simp
  next
    case (New_Serialized source batch location status pn inn)
    then obtain ss where ss: "serials_of_source env asset_id source db = Inr ss"
        "tx_for_each (\<lambda>(i, serial). insert_new_inventory_item env (env_new_v4 env i) af (lit ''serialized'')
           (NewItem_serialized serial batch location status pn inn)) (enumerate 0 ss) db = Inr (created, db')"
      using ins a(3) by (auto simp: insert_creation_def insert_serialized_items_def tx_unfold)
    have "SerialSource_parse env (cp_serial_items payload) (cp_serial_numbers payload) (cp_count payload) = Inr source"
      using creation New_Serialized
      by (cases mode) (auto simp: parse_creation_def NewItems_parse_def and_then_Inr_iff split: if_splits)
    then have "ss \<noteq> []"
    proof (cases source)
      case (Explicit vs)
      with ss(1) have "ss = vs" by simp
      moreover from \<open>SerialSource_parse _ _ _ _ = _\<close> Explicit have "\<exists>items. SerialSource_explicit env items = Inr (Explicit vs)"
        by (auto simp: SerialSource_parse_def SerialSource_generate_def split: option.splits if_splits)
      ultimately show ?thesis
        by (auto dest!: SerialSource_explicit_Inr)
    next
      case (Generate n)
      with \<open>SerialSource_parse _ _ _ _ = _\<close> have "\<exists>c. SerialSource_generate c = Inr (Generate n)"
        by (auto simp: SerialSource_parse_def SerialSource_explicit_def and_then_Inr_iff split: option.splits if_splits)
      then have "1 \<le> unat n"
        by (auto dest!: SerialSource_generate_Inr)
      moreover obtain gs where "next_serial_numbers asset_id n db = Inr gs" "collect_map (SerialNumber_parse env) gs = Inr ss"
        using ss(1) Generate by (auto simp: and_then_Inr_iff map_err_Inr_iff)
      ultimately show ?thesis
        using next_serial_numbers_fresh(1) collect_map_Inr_length by fastforce
    qed
    then show ?thesis
      using insert_loop_extends [OF ss(2) assms(2)] a by auto
  qed
  with a show thesis
    using that by blast
qed

end
