(* ===== verification/Inventory_Get.thy ===== *)
theory Inventory_Get
  imports Handlers
begin

text \<open>\<^verbatim>\<open>routes/inventory_items/get.rs\<close>: one item, with its internal notes for who may browse them.\<close>

definition get_inventory_item ::
    "env \<Rightarrow> laboratory_context \<Rightarrow> uuid \<Rightarrow> database \<Rightarrow> (handler_error, inventory_item) result" where
  "get_inventory_item env ctx inventory_item_id db =
     (let a = authorization_actor ctx in
      and_then (require_permission env a InventoryItem_resource (Read inventory_item_id)
          (lit ''You are not allowed to get this inventory item.'') db) (\<lambda>_.
      and_then (map_err UnexpectedError (fetch_inventory_item env inventory_item_id db)) (\<lambda>found.
      and_then (ok_or (NotFound (lit ''Inventory item not found'')) found) (\<lambda>item.
      and_then (map_err UnexpectedError (validate_permission db (env_now env) a InventoryItem_resource
          (BrowseInternal (it_laboratory_id item)))) (\<lambda>include_internal_notes.
        Inr (InventoryItemResponse_from_row item include_internal_notes))))))"

lemma read_permission_shows_internal_notes:
  assumes "inventory_ok db" and "get_inventory_item env ctx i db = Inr out"
  obtains r where "item_row db i = Some r" and "it_internal_notes out = ii_internal_notes r"
proof -
  let ?a = "authorization_actor ctx"
  obtain item inc_notes where p: "validate_permission db (env_now env) ?a InventoryItem_resource (Read i) = Inr True"
      and f: "fetch_inventory_item env i db = Inr (Some item)"
      and inc: "validate_permission db (env_now env) ?a InventoryItem_resource
        (BrowseInternal (it_laboratory_id item)) = Inr inc_notes"
      and out: "out = InventoryItemResponse_from_row item inc_notes"
    using assms(2)
    by (auto simp: get_inventory_item_def Let_def and_then_Inr_iff map_err_Inr_iff ok_or_Inr_iff tx_unfold)
  obtain r where r: "item_row db i = Some r" "item_view env db r = Inr item"
    using fetch_inventory_item_Some [OF assms(1) f] by blast
  note v = item_view_columns [OF r(2)]
  have "can_read_laboratory_resource ?a (ii_laboratory_id r)"
    using p r(1)
    by (simp add: validate_permission_def permit_inventory_item_def row_guards row_allows_def row_laboratory_def
        item_row_def can_query_laboratory_resource_def)
  then have "inc_notes"
    using inc v(3) by (simp add: validate_permission_def permit_inventory_item_def)
  then show thesis
    using that r(1) v(10) by (simp add: out InventoryItemResponse_from_row_def)
qed

end
