(* ===== verification/Inventory_Effects.thy ===== *)
theory Inventory_Effects
  imports Witness_Data Inventory_Split Inventory_Merge Inventory_Update Inventory_Delete Inventory_Create Inventory_Get
begin

text \<open>
  What the other inventory handlers do to the database, from the request to the state after the
  commit: merges that the schema rules out, the columns a patch writes, what a deletion leaves
  behind, the serial numbers a creation draws, and what a read discloses.
\<close>

section \<open>Merging\<close>

text \<open>
  C10. No merge succeeds: in a database that satisfies the schema, whatever the target and the
  sources, the request is refused and nothing changes. The rows a merge accepts agree in every
  column of the unique index on quantity aggregates, so they cannot be two.
\<close>

theorem merge_never_succeeds:
  assumes "inventory_ok db"
  shows "\<exists>e. merge_inventory_items env ctx target_id source_ids db = (Inl e, db)"
proof (cases "merge_inventory_items env ctx target_id source_ids db")
  case (Pair r db')
  show ?thesis
  proof (cases r)
    case (Inl e)
    then show ?thesis
      using Pair run_handler_Inl by (fastforce simp: merge_inventory_items_def)
  next
    case (Inr out)
    then obtain command where "Merge_parse target_id source_ids = Inr command"
        "merge_in_transaction env ctx command db = Inr (out, db')"
      using Pair by (auto simp: merge_inventory_items_def run_handler_Inr result_unfold)
    then show ?thesis
      using merge_in_transaction_fails [OF assms] by blast
  qed
qed

theorem merge_never_succeeds_witness:
  "\<exists>e. merge_inventory_items env_1 admin_ctx 40 [41] db_1 = (Inl e, db_1)"
  using merge_never_succeeds [OF db_1_ok] by blast

section \<open>Updating\<close>

lemma patched_row_keeps:
  "ii_inventory_item_id (patched_row patch h a now r) = ii_inventory_item_id r"
  "ii_asset_id (patched_row patch h a now r) = ii_asset_id r"
  "ii_laboratory_id (patched_row patch h a now r) = ii_laboratory_id r"
  "ii_tracking_mode (patched_row patch h a now r) = ii_tracking_mode r"
  "ii_created_at (patched_row patch h a now r) = ii_created_at r"
  "ii_last_stocktake_at (patched_row patch h a now r) = ii_last_stocktake_at r"
  "ii_quantity_on_hand (patched_row patch h a now r) = h"
  "ii_quantity_allocated (patched_row patch h a now r) = a"
  "ii_location_id (patched_row patch h a now r) = resolve_update (up_location_id patch) (ii_location_id r)"
  "ii_serial_number (patched_row patch h a now r)
     = (case up_serial_number patch of Some s \<Rightarrow> Some s | None \<Rightarrow> ii_serial_number r)"
  "ii_batch_number (patched_row patch h a now r) = resolve_update (up_batch_number patch) (ii_batch_number r)"
  "ii_public_notes (patched_row patch h a now r) = resolve_update (up_public_notes patch) (ii_public_notes r)"
  "ii_internal_notes (patched_row patch h a now r) = resolve_update (up_internal_notes patch) (ii_internal_notes r)"
  "ii_status (patched_row patch h a now r)
     = (case up_status patch of Some s \<Rightarrow> InventoryStatus_as_str s | None \<Rightarrow> ii_status r)"
  by (simp_all add: patched_row_def set_columns_def)

lemma exact_quantity_kept:
  assumes "casts_exact env" and "0 \<le> n" and "n < 10 ^ 15"
    and "numeric_float8 env (of_int n) = Some q" and "float8_numeric env q = Some h"
  shows "h = of_int n"
  using casts_exactD [OF assms(1), of n] assms(2-5) by simp

text \<open>
  C11. An update writes the item it names and nothing else: the item belongs to the laboratory
  of the request, its identity, asset, laboratory and tracking mode stay, location and status
  take the value of the patch when it names one and are kept otherwise, a whole-number stock the
  patch does not name is kept, every other item is as it was, the schema still holds, and the
  audit log gains exactly one entry, by the account that really acted, with the item as it was before.
\<close>

theorem update_writes_only_the_patch:
  assumes "inventory_ok db" and "LaboratoryContext_from_request parse_uuid req = Inr ctx"
    and "casts_exact env" and "update_inventory_item env ctx i payload db = (Inr out, db')"
  shows "inventory_ok db' \<and>
    (\<exists>patch r r' existing. UpdateItem_parse env (upl_serial_number payload) (upl_batch_number payload)
         (upl_quantity_on_hand payload) (upl_quantity_allocated payload) (upl_location_id payload)
         (upl_status payload) (upl_public_notes payload) (upl_internal_notes payload) = Inr patch
       \<and> item_row db i = Some r \<and> ii_laboratory_id r = ctx_laboratory_id ctx \<and> item_row db' i = Some r'
       \<and> ii_asset_id r' = ii_asset_id r \<and> ii_laboratory_id r' = ii_laboratory_id r
       \<and> ii_tracking_mode r' = ii_tracking_mode r \<and> ii_created_at r' = ii_created_at r
       \<and> ii_location_id r' = resolve_update (up_location_id patch) (ii_location_id r)
       \<and> ii_status r' = (case up_status patch of Some s \<Rightarrow> InventoryStatus_as_str s | None \<Rightarrow> ii_status r)
       \<and> (\<forall>n. up_quantity_on_hand patch = None \<and> ii_quantity_on_hand r = of_int n \<and> n < 10 ^ 15
            \<longrightarrow> ii_quantity_on_hand r' = of_int n)
       \<and> (\<forall>j. j \<noteq> i \<longrightarrow> item_row db' j = item_row db j)
       \<and> item_view env db r = Inr existing
       \<and> audit_logs db' = audit_logs db @ [\<lparr>au_actor_user_id = Some (actor_user_id (ctx_actor ctx)),
            au_action = lit ''update'', au_resource_type = lit ''inventory_item'',
            au_resource_id = Some i, au_details = Details_update_item existing\<rparr>])"
proof -
  have scoped: "scoped_context ctx"
    using assms(2) by (auto simp: scoped_context_def)
  obtain patch where perm: "validate_permission db (env_now env) (authorization_actor ctx) InventoryItem_resource (Update i) = Inr True"
      and patch: "UpdateItem_parse env (upl_serial_number payload) (upl_batch_number payload)
         (upl_quantity_on_hand payload) (upl_quantity_allocated payload) (upl_location_id payload)
         (upl_status payload) (upl_public_notes payload) (upl_internal_notes payload) = Inr patch"
      and t: "update_in_transaction env ctx i patch db = Inr (out, db')"
    using assms(4) by (auto simp: update_inventory_item_def run_handler_Inr and_then_Inr_iff map_err_Inr_iff tx_unfold)
  obtain r existing h a where u: "item_row db i = Some r" "item_view env db r = Inr existing"
      "float8_numeric env (coalesce (up_quantity_on_hand patch) (it_quantity_on_hand existing)) = Some h"
      "float8_numeric env (coalesce (up_quantity_allocated patch) (it_quantity_allocated existing)) = Some a"
      "inventory_ok db'" "item_row db' i = Some (patched_row patch h a (env_now env) r)"
      "\<And>j. j \<noteq> i \<Longrightarrow> item_row db' j = item_row db j"
      "audit_logs db' = audit_logs db @ [\<lparr>au_actor_user_id = Some (actor_user_id (ctx_actor ctx)),
           au_action = lit ''update'', au_resource_type = lit ''inventory_item'',
           au_resource_id = Some i, au_details = Details_update_item existing\<rparr>]"
    by (rule update_in_transaction_Inr [OF t assms(1)]) blast
  have lab: "ii_laboratory_id r = ctx_laboratory_id ctx"
    using permitted_item_in_scope [OF scoped _ perm] u(1) by auto
  have "h = of_int n" if q: "up_quantity_on_hand patch = None" "ii_quantity_on_hand r = of_int n" "n < 10 ^ 15" for n
  proof -
    have "inventory_checks r"
      using item_row_Some [OF u(1)] inventory_ok_row(1) [OF assms(1)] by blast
    then have "0 \<le> ii_quantity_on_hand r"
      by (simp only: inventory_checks_def)
    then have "0 \<le> n"
      by (simp add: q(2))
    then show ?thesis
      using exact_quantity_kept [OF assms(3)] q u(3) item_view_columns(11) [OF u(2)] by (simp add: coalesce_def)
  qed
  then show ?thesis
    using lab patch u(1,2,5-8) patched_row_keeps by (intro conjI exI [of _ patch] exI [of _ r]
        exI [of _ "patched_row patch h a (env_now env) r"] exI [of _ existing]) auto
qed

definition mark_lost :: update_payload where
  "mark_lost = \<lparr>upl_serial_number = None, upl_batch_number = None, upl_quantity_on_hand = None,
     upl_quantity_allocated = None, upl_location_id = None, upl_status = Some (lit ''lost''),
     upl_public_notes = None, upl_internal_notes = None\<rparr>"

lemma item_40_permitted:
  "act = Update 40 \<or> act = Delete 40 \<Longrightarrow>
     require_permission env_1 (authorization_actor admin_ctx) InventoryItem_resource act message db_1 = Inr ()"
proof -
  have "validate_permission db_1 100 (authorization_actor admin_ctx) InventoryItem_resource (Update 40) = Inr True"
    "validate_permission db_1 100 (authorization_actor admin_ctx) InventoryItem_resource (Delete 40) = Inr True"
    by code_simp+
  then show "act = Update 40 \<or> act = Delete 40 \<Longrightarrow> ?thesis"
    by (auto simp: require_permission_def env_1_def)
qed

lemma mark_lost_runs: "\<exists>out db'. update_inventory_item env_1 admin_ctx 40 mark_lost db_1 = (Inr out, db')"
proof -
  have "case UpdateItem_parse env_1 None None None None None (Some (lit ''lost'')) None None of
        Inr patch \<Rightarrow> (case update_in_transaction env_1 admin_ctx 40 patch db_1 of Inr _ \<Rightarrow> True | _ \<Rightarrow> False)
      | Inl _ \<Rightarrow> False"
    by code_simp
  then show ?thesis
    by (auto simp: update_inventory_item_def mark_lost_def run_handler_def transaction_def
        item_40_permitted split: sum.splits)
qed

theorem update_writes_only_the_patch_witness:
  "\<exists>out db' r'. update_inventory_item env_1 admin_ctx 40 mark_lost db_1 = (Inr out, db')
     \<and> item_row db' 40 = Some r' \<and> ii_laboratory_id r' = lab_1"
proof -
  obtain out db' where run: "update_inventory_item env_1 admin_ctx 40 mark_lost db_1 = (Inr out, db')"
    using mark_lost_runs by blast
  show ?thesis
    using update_writes_only_the_patch [OF db_1_ok admin_context env_1_exact run] run by (auto simp: admin_ctx_def)
qed

section \<open>Updating a set of items\<close>

lemma fetched_items:
  assumes ok: "inventory_ok db" and f: "fetch_inventory_items_for_update env ids db = Inr items"
    and n: "length items = length ids" and d: "distinct ids"
  shows "distinct (map it_inventory_item_id items)" and "it_inventory_item_id ` set items = set ids"
    and "\<And>it. it \<in> set items \<Longrightarrow> \<exists>r. item_row db (it_inventory_item_id it) = Some r \<and> item_view env db r = Inr it"
proof -
  define rows where "rows = sort_key (\<lambda>p. ii_inventory_item_id (fst p))
         (filter (\<lambda>p. ii_inventory_item_id (fst p) \<in> set ids) (joined_items db))"
  have c: "collect_map (item_of_row env) rows = Inr items"
    using f by (simp add: fetch_inventory_items_for_update_def rows_def)
  have set_rows: "set rows = {p \<in> set (joined_items db). ii_inventory_item_id (fst p) \<in> set ids}"
    by (simp add: rows_def)
  have keys: "map it_inventory_item_id items = map (\<lambda>p. ii_inventory_item_id (fst p)) rows"
    using c by (induction rows arbitrary: items) (auto simp: and_then_Inr_iff dest: item_of_row_columns(1))
  have "map (\<lambda>p. ii_inventory_item_id (fst p)) (joined_items db) = map ii_inventory_item_id (inventory_items db)"
    by (simp add: joined_items_map [OF ok] o_def)
  then have "distinct (map (\<lambda>p. ii_inventory_item_id (fst p)) (joined_items db))"
    using ok by (simp add: inventory_ok_def)
  then have "distinct (map (\<lambda>p. ii_inventory_item_id (fst p)) rows)"
    by (simp add: rows_def distinct_map inj_on_def)
  then show dist: "distinct (map it_inventory_item_id items)"
    by (simp add: keys)
  have "it_inventory_item_id ` set items \<subseteq> set ids"
    using keys set_rows by (metis (no_types, lifting) image_set image_subsetI mem_Collect_eq)
  moreover have "card (it_inventory_item_id ` set items) = card (set ids)"
    using distinct_card [OF dist] distinct_card [OF d] n by simp
  ultimately show "it_inventory_item_id ` set items = set ids"
    by (simp add: card_subset_eq)
  show "\<exists>r. item_row db (it_inventory_item_id it) = Some r \<and> item_view env db r = Inr it" if it: "it \<in> set items" for it
  proof -
    obtain p where p: "p \<in> set rows" "item_of_row env p = Inr it"
      using collect_map_Inr_set [OF c it] by blast
    then obtain r where r: "p = (r, the (asset_row_of db (ii_asset_id r)))" "r \<in> set (inventory_items db)"
      using set_rows joined_items_map [OF ok] by auto
    then show ?thesis
      using p(2) item_of_row_columns(1) [of env r "snd p" it] item_row_mem [OF ok r(2)]
      by (auto simp: item_view_def)
  qed
qed

text \<open>A stored quantity that no patch names is read and written back, exactly when it is whole and below 10^15.\<close>

lemma unpatched_quantities:
  assumes "casts_exact env" and "inventory_ok db" and "item_row db i = Some r" and "item_view env db r = Inr it"
    and "float8_numeric env (it_quantity_on_hand it) = Some h" and "float8_numeric env (it_quantity_allocated it) = Some a"
    and "n < 10 ^ 15"
  shows "ii_quantity_on_hand r = of_int n \<Longrightarrow> h = of_int n"
    and "ii_quantity_allocated r = of_int n \<Longrightarrow> a = of_int n"
proof -
  have "inventory_checks r"
    using item_row_Some [OF assms(3)] inventory_ok_row(1) [OF assms(2)] by blast
  then have q: "0 \<le> ii_quantity_on_hand r" "0 \<le> ii_quantity_allocated r"
    by (simp_all only: inventory_checks_def)
  note v = item_view_columns(11,12) [OF assms(4)]
  show "h = of_int n" if "ii_quantity_on_hand r = of_int n"
    using exact_quantity_kept [OF assms(1), of n] q(1) v(1) assms(5,7) that by simp
  show "a = of_int n" if "ii_quantity_allocated r = of_int n"
    using exact_quantity_kept [OF assms(1), of n] q(2) v(2) assms(6,7) that by simp
qed

lemma batch_patch:
  assumes "UpdateItem_parse env None batch None None location status pn inn = Inr patch"
  shows "up_serial_number patch = None" "up_quantity_on_hand patch = None" "up_quantity_allocated patch = None"
  using assms by (auto simp: UpdateItem_parse_def and_then_Inr_iff)

text \<open>
  C12. A batch update is all or nothing and exact: when it succeeds, the patch is the one parsed
  from the payload, every requested item is in the laboratory of the request and has batch
  number, location, status and notes as that patch says (the value it names, or the old one) and
  every other column as before, where a quantity is kept if it is whole and below 10^15; no other
  item changed, the schema still holds, and the audit log names each requested item once more and
  nothing else. When it fails, the database is the one before.
\<close>

theorem batch_update_all_or_nothing:
  assumes "inventory_ok db" and "LaboratoryContext_from_request parse_uuid req = Inr ctx"
    and "batch_update_inventory_items env ctx payload db = (outcome, db')"
  shows "case outcome of
      Inl e \<Rightarrow> db' = db
    | Inr out \<Rightarrow> inventory_ok db' \<and> (\<exists>patch order.
        UpdateItem_parse env None (bp_batch_number payload) None None (bp_location_id payload)
          (bp_status payload) (bp_public_notes payload) (bp_internal_notes payload) = Inr patch
        \<and> has_batch_updates patch
        \<and> (\<forall>i\<in>set (bp_inventory_item_ids payload). \<exists>r r'. item_row db i = Some r
             \<and> ii_laboratory_id r = ctx_laboratory_id ctx \<and> item_row db' i = Some r'
             \<and> ii_batch_number r' = resolve_update (up_batch_number patch) (ii_batch_number r)
             \<and> ii_location_id r' = resolve_update (up_location_id patch) (ii_location_id r)
             \<and> ii_status r' = (case up_status patch of Some s \<Rightarrow> InventoryStatus_as_str s | None \<Rightarrow> ii_status r)
             \<and> ii_public_notes r' = resolve_update (up_public_notes patch) (ii_public_notes r)
             \<and> ii_internal_notes r' = resolve_update (up_internal_notes patch) (ii_internal_notes r)
             \<and> ii_asset_id r' = ii_asset_id r \<and> ii_laboratory_id r' = ii_laboratory_id r
             \<and> ii_tracking_mode r' = ii_tracking_mode r \<and> ii_serial_number r' = ii_serial_number r
             \<and> ii_created_at r' = ii_created_at r \<and> ii_last_stocktake_at r' = ii_last_stocktake_at r
             \<and> (\<forall>n. casts_exact env \<and> n < 10 ^ 15 \<longrightarrow>
                  (ii_quantity_on_hand r = of_int n \<longrightarrow> ii_quantity_on_hand r' = of_int n)
                  \<and> (ii_quantity_allocated r = of_int n \<longrightarrow> ii_quantity_allocated r' = of_int n)))
        \<and> (\<forall>j. j \<notin> set (bp_inventory_item_ids payload) \<longrightarrow> item_row db' j = item_row db j)
        \<and> distinct order \<and> set order = set (bp_inventory_item_ids payload)
        \<and> map au_resource_id (audit_logs db') = map au_resource_id (audit_logs db) @ map Some order)"
proof (cases outcome)
  case (Inl e)
  then show ?thesis
    using assms(3) run_handler_Inl by (fastforce simp: batch_update_inventory_items_def)
next
  case (Inr out)
  have scoped: "scoped_context ctx"
    using assms(2) by (auto simp: scoped_context_def)
  let ?ids = "bp_inventory_item_ids payload"
  obtain patch where ids: "?ids \<noteq> []" "distinct ?ids" and b: "has_batch_updates patch"
      and patch: "UpdateItem_parse env None (bp_batch_number payload) None None (bp_location_id payload)
          (bp_status payload) (bp_public_notes payload) (bp_internal_notes payload) = Inr patch"
      and perm: "\<forall>i\<in>set ?ids. validate_permission db (env_now env) (authorization_actor ctx)
          InventoryItem_resource (Update i) = Inr True"
      and t: "batch_update_in_transaction env ctx ?ids patch db = Inr (out, db')"
    using assms(3) unfolding Inr batch_update_inventory_items_def run_handler_Inr and_then_Inr_iff
      map_err_Inr_iff InventoryItemIds_parse_Inr require_all_permissions_Inr
    by (auto simp: ensure_Inr_iff)
  then obtain items outs db1 where f: "fetch_inventory_items_for_update env ?ids db = Inr items"
      and n: "length items = length ?ids"
      and loop: "tx_for_each (\<lambda>existing.
         tx_bind (tx_map_err from_db_error (apply_inventory_item_patch env existing patch)) (\<lambda>updated.
         tx_bind (unexpected (record_audit (actor_user_id (ctx_actor ctx)) Audit_Update Res_InventoryItem
             (Some (it_inventory_item_id updated)) (Details_update_item existing))) (\<lambda>_.
         tx_return updated))) items db = Inr (outs, db')"
    unfolding batch_update_in_transaction_def by (auto simp: tx_unfold map_err_Inr_iff)
  note fetched = fetched_items [OF assms(1) f n ids(2)]
  have l: "inventory_ok db' \<and> with_items_and_log db db'
    \<and> (\<forall>j. j \<notin> it_inventory_item_id ` set items \<longrightarrow> item_row db' j = item_row db j)
    \<and> (\<forall>it\<in>set items. \<exists>r h a. item_row db (it_inventory_item_id it) = Some r
         \<and> item_row db' (it_inventory_item_id it) = Some (patched_row patch h a (env_now env) r)
         \<and> float8_numeric env (coalesce (up_quantity_on_hand patch) (it_quantity_on_hand it)) = Some h
         \<and> float8_numeric env (coalesce (up_quantity_allocated patch) (it_quantity_allocated it)) = Some a)
    \<and> map au_resource_id (audit_logs db') =
        map au_resource_id (audit_logs db) @ map (\<lambda>it. Some (it_inventory_item_id it)) items"
    by (rule batch_loop [OF loop assms(1) fetched(1) fetched(3)])
  note none = batch_patch [OF patch]
  have row: "\<exists>r h a. item_row db i = Some r \<and> ii_laboratory_id r = ctx_laboratory_id ctx
      \<and> item_row db' i = Some (patched_row patch h a (env_now env) r)
      \<and> (\<forall>n. casts_exact env \<and> n < 10 ^ 15 \<longrightarrow>
            (ii_quantity_on_hand r = of_int n \<longrightarrow> h = of_int n) \<and> (ii_quantity_allocated r = of_int n \<longrightarrow> a = of_int n))"
    if i: "i \<in> set ?ids" for i
  proof -
    obtain it where it: "it \<in> set items" "it_inventory_item_id it = i"
      using i fetched(2) by (metis imageE)
    then obtain r h a where r: "item_row db i = Some r" "item_row db' i = Some (patched_row patch h a (env_now env) r)"
        "float8_numeric env (it_quantity_on_hand it) = Some h" "float8_numeric env (it_quantity_allocated it) = Some a"
      using l by (auto simp: none coalesce_def)
    have v: "item_view env db r = Inr it"
      using fetched(3) [OF it(1)] it(2) r(1) by auto
    have "ii_laboratory_id r = ctx_laboratory_id ctx"
      using permitted_item_in_scope [OF scoped _ perm [rule_format, OF i]] r(1) by auto
    then show ?thesis
      using r unpatched_quantities [OF _ assms(1) r(1) v r(3,4)] by blast
  qed
  have items: "\<exists>r r'. item_row db i = Some r
             \<and> ii_laboratory_id r = ctx_laboratory_id ctx \<and> item_row db' i = Some r'
             \<and> ii_batch_number r' = resolve_update (up_batch_number patch) (ii_batch_number r)
             \<and> ii_location_id r' = resolve_update (up_location_id patch) (ii_location_id r)
             \<and> ii_status r' = (case up_status patch of Some s \<Rightarrow> InventoryStatus_as_str s | None \<Rightarrow> ii_status r)
             \<and> ii_public_notes r' = resolve_update (up_public_notes patch) (ii_public_notes r)
             \<and> ii_internal_notes r' = resolve_update (up_internal_notes patch) (ii_internal_notes r)
             \<and> ii_asset_id r' = ii_asset_id r \<and> ii_laboratory_id r' = ii_laboratory_id r
             \<and> ii_tracking_mode r' = ii_tracking_mode r \<and> ii_serial_number r' = ii_serial_number r
             \<and> ii_created_at r' = ii_created_at r \<and> ii_last_stocktake_at r' = ii_last_stocktake_at r
             \<and> (\<forall>n. casts_exact env \<and> n < 10 ^ 15 \<longrightarrow>
                  (ii_quantity_on_hand r = of_int n \<longrightarrow> ii_quantity_on_hand r' = of_int n)
                  \<and> (ii_quantity_allocated r = of_int n \<longrightarrow> ii_quantity_allocated r' = of_int n))"
    if "i \<in> set ?ids" for i
    using row [OF that] by (elim exE conjE) (intro exI conjI; assumption?; simp add: patched_row_keeps none)
  show ?thesis
    unfolding Inr sum.case
    by (intro conjI exI [of _ patch] exI [of _ "map it_inventory_item_id items"])
       (use l b patch items fetched(1,2) in \<open>simp_all add: o_def\<close>)
qed

definition mark_both :: batch_update_payload where
  "mark_both = \<lparr>bp_inventory_item_ids = [41, 40], bp_batch_number = None, bp_location_id = None,
     bp_status = Some (lit ''lost''), bp_public_notes = None, bp_internal_notes = None\<rparr>"

lemma mark_both_runs: "\<exists>out db'. batch_update_inventory_items env_1 admin_ctx mark_both db_1 = (Inr out, db')"
proof -
  have "case batch_update_inventory_items env_1 admin_ctx mark_both db_1 of (Inr _, _) \<Rightarrow> True | _ \<Rightarrow> False"
    by code_simp
  then show ?thesis
    by (auto split: prod.splits sum.splits)
qed

theorem batch_update_all_or_nothing_witness:
  "\<exists>out db' r. batch_update_inventory_items env_1 admin_ctx mark_both db_1 = (Inr out, db')
     \<and> item_row db_1 41 = Some r \<and> ii_laboratory_id r = lab_1"
proof -
  obtain out db' where run: "batch_update_inventory_items env_1 admin_ctx mark_both db_1 = (Inr out, db')"
    using mark_both_runs by blast
  show ?thesis
    using batch_update_all_or_nothing [OF db_1_ok admin_context run] run
    by (auto simp: mark_both_def admin_ctx_def)
qed

section \<open>Deleting\<close>

text \<open>
  C13. Deleting an item: either the request is refused and neither the database nor the stored
  files change, or the item, which belonged to the laboratory of the request and had nothing
  allocated, is gone with exactly its attachments and the files they name, every other item,
  attachment and file is as it was, the schema holds, and one audit entry keeps the item. The
  objects go after the commit: the request succeeds exactly when the object of every removed file
  can be removed, and then all of them are gone; otherwise it is answered with an internal error
  although the item is gone. No object of a file that stays is touched.
\<close>

theorem delete_removes_one_item:
  assumes "inventory_ok db" and "LaboratoryContext_from_request parse_uuid req = Inr ctx"
    and "delete_inventory_item env st ctx i db disk = (outcome, db', disk')"
  shows "(db' = db \<and> disk' = disk \<and> (\<exists>e. outcome = Inl e))
    \<or> (inventory_ok db' \<and> item_row db' i = None
       \<and> (\<exists>r item e deleted. item_row db i = Some r \<and> ii_laboratory_id r = ctx_laboratory_id ctx
            \<and> item_view env db r = Inr item \<and> \<not> f64_less (Fin 0) (it_quantity_allocated item)
            \<and> audit_logs db' = audit_logs db @ [e] \<and> au_resource_id e = Some i
            \<and> au_details e = Details_delete_item item deleted)
       \<and> (\<forall>j. j \<noteq> i \<longrightarrow> item_row db' j = item_row db j)
       \<and> attachments db' = filter (\<lambda>a. at_inventory_item_id a \<noteq> Some i) (attachments db)
       \<and> files db' = filter (\<lambda>f. fi_file_id f \<notin> at_file_id `
             {a \<in> set (attachments db). at_inventory_item_id a = Some i}) (files db)
       \<and> (if \<forall>f\<in>set (files db) - set (files db'). removable st disk (fi_storage_key f)
           then outcome = Inr ()
             \<and> (\<forall>f\<in>set (files db) - set (files db'). \<forall>p. object_path st (fi_storage_key f) = Some p \<longrightarrow> disk' p = None)
           else \<exists>m. outcome = Inl (UnexpectedError m))
       \<and> (\<forall>p. (\<forall>f\<in>set (files db) - set (files db'). object_path st (fi_storage_key f) \<noteq> Some p) \<longrightarrow> disk' p = disk p)
       \<and> (\<forall>p. (\<forall>segs. p = st_root st @ segs \<longrightarrow> (\<exists>s\<in>set segs. \<not> plain_segment s)) \<longrightarrow> disk' p = disk p))"
proof -
  have scoped: "scoped_context ctx"
    using assms(2) by (auto simp: scoped_context_def)
  let ?run = "run_handler
         (require_permission env (authorization_actor ctx) InventoryItem_resource
            (Delete i) (lit ''You are not allowed to delete this inventory item.'') db)
         (\<lambda>_. delete_in_transaction env ctx i) db"
  obtain res db1 where run: "?run = (res, db1)"
    by fastforce
  show ?thesis
  proof (cases res)
    case (Inl e)
    then have "db1 = db"
      using run_handler_Inl run by blast
    then show ?thesis
      using assms(3) run Inl by (auto simp: delete_inventory_item_def after_commit_def)
  next
    case (Inr deleted)
    then have perm: "validate_permission db (env_now env) (authorization_actor ctx) InventoryItem_resource (Delete i) = Inr True"
        and t: "delete_in_transaction env ctx i db = Inr (deleted, db1)"
      using run by (auto simp: run_handler_Inr require_permission_Inr)
    obtain r item where d: "item_row db i = Some r" "item_view env db r = Inr item"
        "\<not> f64_less (Fin 0) (it_quantity_allocated item)" "delete_one_item ctx item db = Inr (deleted, db1)"
        "it_inventory_item_id item = i"
      by (rule delete_in_transaction_Inr [OF t assms(1)])
    note one = delete_one_item_Inr [OF d(4) assms(1), unfolded d(5), OF d(1)]
    have lab: "ii_laboratory_id r = ctx_laboratory_id ctx"
      using permitted_item_in_scope [OF scoped _ perm] d(1) by auto
    obtain r2 disk2 where gone: "delete_storage_objects st (map snd deleted) disk = (r2, disk2)"
      by fastforce
    have out: "db' = db1" "disk' = disk2"
        "outcome = (case r2 of Inl m \<Rightarrow> Inl (UnexpectedError m) | Inr _ \<Rightarrow> Inr ())"
      using assms(3) run Inr gone
      by (auto simp: delete_inventory_item_def after_commit_def split: sum.splits)
    let ?gone = "set (files db) - set (files db')"
    have keys: "set (map snd deleted) = fi_storage_key ` ?gone"
      using one(7) out(1) by simp
    have success: "r2 = Inr () \<longleftrightarrow> (\<forall>f\<in>?gone. removable st disk (fi_storage_key f))"
      using delete_storage_objects_succeeds [of st "map snd deleted" disk] unfolding gone keys by simp
    have result: "if \<forall>f\<in>?gone. removable st disk (fi_storage_key f)
           then outcome = Inr () \<and> (\<forall>f\<in>?gone. \<forall>p. object_path st (fi_storage_key f) = Some p \<longrightarrow> disk' p = None)
           else \<exists>m. outcome = Inl (UnexpectedError m)"
    proof (cases r2)
      case (Inl m)
      then show ?thesis
        using success out(3) by auto
    next
      case (Inr u)
      then have "disk' p = None" if "f \<in> ?gone" "object_path st (fi_storage_key f) = Some p" for f p
        using storage_objects_gone [of st "map snd deleted" disk u disk2] gone keys that out(2) by auto
      then show ?thesis
        using success out(3) Inr by auto
    qed
    have kept: "disk' p = disk p" if "\<forall>f\<in>?gone. object_path st (fi_storage_key f) \<noteq> Some p" for p
    proof -
      have "\<forall>k\<in>set (map snd deleted). object_path st k \<noteq> Some p"
        unfolding keys using that by blast
      then show ?thesis
        using delete_storage_objects_elsewhere [OF gone] out(2) by simp
    qed
    have files: "disk' p = disk p" if "\<forall>segs. p = st_root st @ segs \<longrightarrow> (\<exists>s\<in>set segs. \<not> plain_segment s)" for p
      using delete_storage_objects_outside [OF gone] that out(2) by blast
    have entry: "\<exists>e deleted. audit_logs db' = audit_logs db @ [e] \<and> au_resource_id e = Some i
            \<and> au_details e = Details_delete_item item deleted"
      using one(8) out(1) by blast
    show ?thesis
    proof (rule disjI2, intro conjI)
      show "\<exists>r item e deleted. item_row db i = Some r \<and> ii_laboratory_id r = ctx_laboratory_id ctx
            \<and> item_view env db r = Inr item \<and> \<not> f64_less (Fin 0) (it_quantity_allocated item)
            \<and> audit_logs db' = audit_logs db @ [e] \<and> au_resource_id e = Some i
            \<and> au_details e = Details_delete_item item deleted"
        using lab d(1-3) entry by blast
    qed (use one(1-6) result kept files out(1) in \<open>simp_all\<close>)
  qed
qed

definition lab_storage :: local_storage where
  "lab_storage = \<lparr>st_root = [lit ''data''], st_refused = (\<lambda>_. False)\<rparr>"

lemma balance_deleted:
  "\<exists>db' disk'. delete_inventory_item env_1 lab_storage admin_ctx 41 db_1 (\<lambda>_. None) = (Inr (), db', disk')"
proof -
  have "case delete_inventory_item env_1 lab_storage admin_ctx 41 db_1 (\<lambda>_. None) of (Inr _, _, _) \<Rightarrow> True | _ \<Rightarrow> False"
    by code_simp
  then show ?thesis
    by (auto split: prod.splits sum.splits)
qed

theorem delete_removes_one_item_witness:
  "\<exists>db' disk'. delete_inventory_item env_1 lab_storage admin_ctx 41 db_1 (\<lambda>_. None) = (Inr (), db', disk')
     \<and> item_row db' 41 = None \<and> item_row db' 40 = item_row db_1 40"
proof -
  obtain db' disk' where run: "delete_inventory_item env_1 lab_storage admin_ctx 41 db_1 (\<lambda>_. None) = (Inr (), db', disk')"
    using balance_deleted by blast
  show ?thesis
    using delete_removes_one_item [OF db_1_ok admin_context run] run by auto
qed

section \<open>Serial numbers\<close>

text \<open>
  C14. Generated serial numbers: as many as asked for, each of the generated form \<open>#N\<close>, all
  different and none of them in use by an item of the asset.
\<close>

theorem generated_serials_fresh:
  assumes "next_serial_numbers asset_id count db = Inr serials"
  shows "length serials = unat count \<and> distinct serials
    \<and> (\<forall>s\<in>set serials. is_generated_serial s
         \<and> (\<forall>r\<in>set (inventory_items db). ii_asset_id r = asset_id \<longrightarrow> ii_serial_number r \<noteq> Some s))"
proof -
  have "\<forall>s\<in>set serials. is_generated_serial s"
  proof (rule next_serial_numbers_Inr [OF assms])
    fix m
    assume "serials = map (\<lambda>k. lit ''#'' @ show_nat (m + k)) [1..<Suc (unat count)]"
    then show ?thesis
      using generated_serial(1) by auto
  qed
  then show ?thesis
    using next_serial_numbers_fresh [OF assms] by blast
qed

theorem generated_serials_fresh_witness:
  "distinct [lit ''#8'', lit ''#9''] \<and> next_serial_numbers 21 2 db_1 = Inr [lit ''#8'', lit ''#9'']"
proof -
  have "generated_serials 21 db_1 = [lit ''#7'']"
    by (simp add: generated_serials_def db_1_def stock_row_def balance_row_def List.map_filter_simps
        is_generated_serial_def is_ascii_digit_def lit_def)
  then have "max_generated_serial_number 21 db_1 = Inr 7"
    by (simp add: max_generated_serial_number_def lit_def)
  then have "next_serial_numbers 21 2 db_1 = Inr [lit ''#8'', lit ''#9'']"
    by (simp add: next_serial_numbers_def show_nat.simps lit_def upt_rec)
  from generated_serials_fresh [OF this] this show ?thesis by blast
qed

section \<open>Reading\<close>

text \<open>
  Whoever may read an item is shown its internal notes: the second check, which decides
  whether they are included, is granted to everyone the first check lets through, guests included.
\<close>

theorem internal_notes_always_shown:
  assumes "inventory_ok db" and "get_inventory_item env ctx i db = Inr out"
  shows "\<exists>r. item_row db i = Some r \<and> it_internal_notes out = ii_internal_notes r"
  using read_permission_shows_internal_notes [OF assms] by blast

theorem internal_notes_always_shown_witness:
  "\<exists>out. get_inventory_item env_1 guest_ctx 40 db_1 = Inr out \<and> it_internal_notes out = Some (lit ''toxic'')"
proof -
  have "case get_inventory_item env_1 guest_ctx 40 db_1 of Inr _ \<Rightarrow> True | _ \<Rightarrow> False"
    by code_simp
  then obtain out where run: "get_inventory_item env_1 guest_ctx 40 db_1 = Inr out"
    by (auto split: sum.splits)
  show ?thesis
    using internal_notes_always_shown [OF db_1_ok run] run db_1_row_40 by (auto simp: stock_row_def)
qed

text \<open>
  Items that do not exist and items of another laboratory are answered alike, and the answer
  is 403 Forbidden: for reads, updates, splits and deletions, with the database unchanged.
\<close>

theorem foreign_items_forbidden:
  assumes "LaboratoryContext_from_request parse_uuid req = Inr ctx"
    and "\<forall>r. item_row db i = Some r \<longrightarrow> ii_laboratory_id r \<noteq> ctx_laboratory_id ctx"
  shows "(\<exists>e. get_inventory_item env ctx i db = Inl e \<and> status_code e = 403)
    \<and> (\<exists>e. update_inventory_item env ctx i update db = (Inl e, db) \<and> status_code e = 403)
    \<and> (\<exists>e. split_inventory_item env ctx i split db = (Inl e, db) \<and> status_code e = 403)
    \<and> (\<exists>e. delete_inventory_item env st ctx i db disk = (Inl e, db, disk) \<and> status_code e = 403)"
proof -
  have scoped: "scoped_context ctx"
    using assms(1) by (auto simp: scoped_context_def)
  have denied: "validate_permission db now (authorization_actor ctx) InventoryItem_resource act = Inr False"
    if "act = Read i \<or> act = Update i \<or> act = Delete i" for act now
  proof -
    obtain b where b: "validate_permission db now (authorization_actor ctx) InventoryItem_resource act = Inr b"
      by (simp add: validate_permission_def)
    then have "\<not> b"
      using permitted_item_in_scope [OF scoped that, of db now] assms(2) by auto
    with b show ?thesis by simp
  qed
  then show ?thesis
    by (simp add: get_inventory_item_def Let_def update_inventory_item_def split_inventory_item_def
        delete_inventory_item_def after_commit_def run_handler_def require_permission_def)
qed

theorem foreign_items_forbidden_witness:
  "\<exists>e. get_inventory_item env_1 admin_ctx 99 db_1 = Inl e \<and> status_code e = 403"
  using foreign_items_forbidden [OF admin_context, of db_1 99 env_1]
  by (simp add: item_row_def fetch_optional_def db_1_def stock_row_def balance_row_def)

end
