(* ===== verification/Path_Tree.thy ===== *)
theory Path_Tree
  imports Database "HOL-Library.Sublist" "HOL-Library.List_Lexorder"
begin

text \<open>
  Trees stored as rows with a materialised path, the representation locations and asset
  categories share. First the paths: their text, their labels, the prefix test the program runs
  on texts. Then the abstract tree: a list of nodes with parent pointers, its invariant, what the
  prefix order means in terms of the pointers, and the three changes the program makes (a new
  leaf, a moved subtree, a removed subtree), each of which keeps the invariant. The contract
  \<open>tree_table\<close> connects a table of rows with its nodes.
\<close>

section \<open>Paths as texts and as labels\<close>

text \<open>The labels of an \<^verbatim>\<open>ltree\<close>, from its text and back.\<close>

fun path_labels :: "rstr \<Rightarrow> rstr list" where
  "path_labels [] = [[]]"
| "path_labels (c # cs) =
     (if c = 46 then [] # path_labels cs
      else (case path_labels cs of [] \<Rightarrow> [[c]] | l # ls \<Rightarrow> (c # l) # ls))"

fun path_text :: "rstr list \<Rightarrow> rstr" where
  "path_text [] = []"
| "path_text [l] = l"
| "path_text (l # m # ls) = l @ 46 # path_text (m # ls)"

text \<open>
  \<^verbatim>\<open>path_is_self_or_descendant\<close>, the same in both services: equal, or the rest after the root
  starts with a dot.
\<close>

fun strip_prefix :: "rstr \<Rightarrow> rstr \<Rightarrow> rstr option" where
  "strip_prefix [] s = Some s"
| "strip_prefix (p # ps) [] = None"
| "strip_prefix (p # ps) (c # cs) = (if c = p then strip_prefix ps cs else None)"

definition path_is_self_or_descendant :: "rstr \<Rightarrow> rstr \<Rightarrow> bool" where
  "path_is_self_or_descendant candidate_path root_path \<longleftrightarrow>
     candidate_path = root_path
     \<or> (case strip_prefix root_path candidate_path of
          Some rest \<Rightarrow> rest \<noteq> [] \<and> hd rest = 46
        | None \<Rightarrow> False)"

lemma path_labels_ne [simp]: "path_labels p \<noteq> []"
  by (induction p) (auto split: list.split)

lemma path_labels_plain: "46 \<notin> set l \<Longrightarrow> path_labels l = [l]"
  by (induction l) auto

lemma path_labels_dot: "path_labels (p @ 46 # q) = path_labels p @ path_labels q"
proof (induction p)
  case (Cons c p)
  obtain l ls where "path_labels p = l # ls"
    using path_labels_ne [of p] by (cases "path_labels p") auto
  with Cons show ?case
    by simp
qed simp

lemma path_labels_text:
  assumes "ls \<noteq> []" and "\<forall>l\<in>set ls. 46 \<notin> set l"
  shows "path_labels (path_text ls) = ls"
  using assms by (induction ls rule: path_text.induct) (auto simp: path_labels_plain path_labels_dot)

lemma path_text_cons: "ls \<noteq> [] \<Longrightarrow> path_text (l # ls) = l @ 46 # path_text ls"
  by (cases ls) auto

lemma path_text_labels [simp]: "path_text (path_labels p) = p"
proof (induction p)
  case (Cons c p)
  obtain l ls where p: "path_labels p = l # ls"
    using path_labels_ne [of p] by (cases "path_labels p") auto
  with Cons show ?case
    by (cases ls) (auto simp: path_text_cons)
qed simp

lemma path_labels_eq_iff [simp]: "path_labels p = path_labels q \<longleftrightarrow> p = q"
  by (metis path_text_labels)

lemma path_labels_no_dot: "l \<in> set (path_labels p) \<Longrightarrow> 46 \<notin> set l"
  by (induction p arbitrary: l) (auto split: if_splits list.splits)

lemma path_text_append:
  "ls \<noteq> [] \<Longrightarrow> ms \<noteq> [] \<Longrightarrow> path_text (ls @ ms) = path_text ls @ 46 # path_text ms"
  by (induction ls rule: path_text.induct) (auto simp: path_text_cons)

lemma strip_prefix_Some: "strip_prefix p s = Some r \<longleftrightarrow> s = p @ r"
  by (induction p s rule: strip_prefix.induct) auto

text \<open>The test on texts is the prefix order on labels, which is \<^verbatim>\<open><@\<close> of the database.\<close>

lemma path_test_prefix:
  "path_is_self_or_descendant p q \<longleftrightarrow> prefix (path_labels q) (path_labels p)"
proof
  assume "path_is_self_or_descendant p q"
  then consider "p = q" | s where "p = q @ 46 # s"
    by (auto simp: path_is_self_or_descendant_def strip_prefix_Some neq_Nil_conv split: option.splits)
  then show "prefix (path_labels q) (path_labels p)"
    by cases (auto simp: path_labels_dot)
next
  assume "prefix (path_labels q) (path_labels p)"
  then obtain ms where ms: "path_labels p = path_labels q @ ms"
    by (auto simp: prefix_def)
  show "path_is_self_or_descendant p q"
  proof (cases "ms = []")
    case True
    with ms show ?thesis
      by (simp add: path_is_self_or_descendant_def)
  next
    case False
    from ms have "path_text (path_labels p) = path_text (path_labels q @ ms)"
      by simp
    with False have "p = q @ 46 # path_text ms"
      by (simp add: path_text_append)
    then have "strip_prefix q p = Some (46 # path_text ms)"
      by (simp add: strip_prefix_Some)
    then show ?thesis
      by (simp add: path_is_self_or_descendant_def)
  qed
qed

text \<open>\<^verbatim>\<open>$n::text::ltree\<close>: the labels, when the server takes them.\<close>

definition ltree_cast :: "env \<Rightarrow> rstr \<Rightarrow> (sql_error, rstr list) result" where
  "ltree_cast env t =
     (if ltree_storable env (path_labels t) then Inr (path_labels t)
      else Inl (OtherSqlError (lit ''invalid ltree'')))"

text \<open>The check \<^verbatim>\<open>code ~ '^[a-z][a-z0-9_]{0,63}$'\<close>.\<close>

definition is_code_char :: "nat \<Rightarrow> bool" where
  "is_code_char c \<longleftrightarrow> is_ascii_lowercase c \<or> is_ascii_digit c \<or> c = 95"

definition code_check :: "rstr \<Rightarrow> bool" where
  "code_check code \<longleftrightarrow>
     (case code of [] \<Rightarrow> False
      | c # cs \<Rightarrow> is_ascii_lowercase c \<and> list_all is_code_char cs \<and> length cs \<le> 63)"

lemma code_check_no_dot: "code_check code \<Longrightarrow> 46 \<notin> set code"
  by (auto simp: code_check_def is_code_char_def is_ascii_lowercase_def is_ascii_digit_def list_all_iff
      split: list.splits)

section \<open>Writes under constraints\<close>

text \<open>
  \<^verbatim>\<open>UPDATE t SET ... WHERE key IN ks\<close>: row after row, each checked against the other rows as
  they are at that moment, which is when a unique index is checked.
\<close>

definition write_row ::
    "('row list \<Rightarrow> 'row \<Rightarrow> sql_error option) \<Rightarrow> ('row \<Rightarrow> uuid) \<Rightarrow> ('row \<Rightarrow> 'row) \<Rightarrow> uuid \<Rightarrow> 'row list
       \<Rightarrow> (sql_error, 'row list) result" where
  "write_row violated key change k rows =
     (case fetch_optional (\<lambda>r. key r = k) rows of
        None \<Rightarrow> Inr rows
      | Some r \<Rightarrow>
          (case violated (filter (\<lambda>x. key x \<noteq> k) rows) (change r) of
             Some e \<Rightarrow> Inl e
           | None \<Rightarrow> Inr (update_rows (\<lambda>r. key r = k) change rows)))"

fun write_rows ::
    "('row list \<Rightarrow> 'row \<Rightarrow> sql_error option) \<Rightarrow> ('row \<Rightarrow> uuid) \<Rightarrow> ('row \<Rightarrow> 'row) \<Rightarrow> uuid list \<Rightarrow> 'row list
       \<Rightarrow> (sql_error, 'row list) result" where
  "write_rows violated key change [] rows = Inr rows"
| "write_rows violated key change (k # ks) rows =
     and_then (write_row violated key change k rows) (write_rows violated key change ks)"

lemma update_rows_id: "(\<And>r. r \<in> set rows \<Longrightarrow> \<not> p r) \<Longrightarrow> update_rows p f rows = rows"
  by (simp add: update_rows_def map_idI)

lemma write_row_Inr:
  assumes "write_row violated key change k rows = Inr rows'"
  shows "rows' = update_rows (\<lambda>r. key r = k) change rows"
proof (cases "fetch_optional (\<lambda>r. key r = k) rows")
  case None
  with assms show ?thesis
    by (auto simp: write_row_def fetch_optional_None update_rows_id)
qed (use assms in \<open>auto simp: write_row_def split: option.splits\<close>)

lemma write_rows_Inr:
  assumes "write_rows violated key change ks rows = Inr rows'" and "distinct ks"
    and "\<And>r. key (change r) = key r"
  shows "rows' = update_rows (\<lambda>r. key r \<in> set ks) change rows"
  using assms(1,2)
proof (induction ks arbitrary: rows)
  case (Cons k ks)
  then obtain mid where mid: "write_row violated key change k rows = Inr mid"
      and rest: "write_rows violated key change ks mid = Inr rows'"
    by (auto simp: and_then_Inr_iff)
  have "rows' = update_rows (\<lambda>r. key r \<in> set ks) change (update_rows (\<lambda>r. key r = k) change rows)"
    using Cons.IH [OF rest] Cons.prems(2) write_row_Inr [OF mid] by simp
  also have "\<dots> = update_rows (\<lambda>r. key r \<in> set (k # ks)) change rows"
    using Cons.prems(2) assms(3) by (auto simp: update_rows_def)
  finally show ?case .
qed (simp add: update_rows_def)

text \<open>Every row that was written passed the checks.\<close>

lemma write_rows_checked:
  assumes "write_rows violated key change ks rows = Inr rows'" and "distinct ks" and "distinct (map key rows)"
    and "\<And>r. key (change r) = key r" and "r \<in> set rows" and "key r \<in> set ks"
  shows "\<exists>others. violated others (change r) = None"
  using assms(1-3,5,6)
proof (induction ks arbitrary: rows)
  case (Cons k ks)
  then obtain mid where mid: "write_row violated key change k rows = Inr mid"
      and rest: "write_rows violated key change ks mid = Inr rows'"
    by (auto simp: and_then_Inr_iff)
  have mid_rows: "mid = update_rows (\<lambda>r. key r = k) change rows"
    by (rule write_row_Inr [OF mid])
  show ?case
  proof (cases "key r = k")
    case True
    with Cons.prems(3,4) have "fetch_optional (\<lambda>x. key x = k) rows = Some r"
      using fetch_optional_unique [of key rows r] by simp
    with mid show ?thesis
      by (auto simp: write_row_def split: option.splits)
  next
    case False
    have "map key mid = map key rows"
      using assms(4) by (simp add: mid_rows update_rows_def)
    moreover from False Cons.prems(4) have "r \<in> set mid"
      by (simp add: mid_rows set_update_rows)
    ultimately show ?thesis
      using Cons.IH [OF rest] Cons.prems False by simp
  qed
qed simp

text \<open>The rows of an \<^verbatim>\<open>UPDATE\<close> are those its condition selects before it starts.\<close>

lemma update_rows_cong:
  "(\<And>r. r \<in> set rows \<Longrightarrow> p r = q r) \<Longrightarrow> update_rows p f rows = update_rows q f rows"
  by (simp add: update_rows_def)

lemma fetch_written_row:
  assumes "key (change x) = k" and "fetch_optional (\<lambda>r. key r = k) rows = Some x"
  shows "fetch_optional (\<lambda>r. key r = k) (update_rows (\<lambda>r. key r = k) change rows) = Some (change x)"
  using assms by (induction rows) (auto simp: fetch_optional_def update_rows_def split: if_splits)

lemma write_selected_rows:
  assumes "write_rows violated key change (map key (filter p rows)) rows = Inr rows'"
    and "distinct (map key rows)" and "\<And>r. key (change r) = key r"
  shows "rows' = update_rows p change rows"
    and "r \<in> set rows \<Longrightarrow> p r \<Longrightarrow> \<exists>others. violated others (change r) = None"
proof -
  let ?ks = "map key (filter p rows)"
  have d: "distinct ?ks"
    using assms(2) by (rule distinct_map_filter)
  have "rows' = update_rows (\<lambda>r. key r \<in> set ?ks) change rows"
    by (rule write_rows_Inr [OF assms(1) d assms(3)])
  also have "\<dots> = update_rows p change rows"
    using assms(2) by (intro update_rows_cong) (auto simp: distinct_map dest: inj_onD)
  finally show "rows' = update_rows p change rows" .
  show "r \<in> set rows \<Longrightarrow> p r \<Longrightarrow> \<exists>others. violated others (change r) = None"
    by (rule write_rows_checked [OF assms(1) d assms(2,3)]) auto
qed

text \<open>A row that an \<^verbatim>\<open>UPDATE\<close> does not address is read back unchanged.\<close>

lemma fetch_other_rows:
  assumes "\<And>r. key (change r) = key r"
  shows "fetch_optional (\<lambda>r. key r = i) (update_rows (\<lambda>r. p r \<and> key r \<noteq> i) change rows)
           = fetch_optional (\<lambda>r. key r = i) rows"
  by (induction rows) (auto simp: fetch_optional_def update_rows_def assms)

section \<open>Trees of nodes\<close>

record node =
  nd_id :: uuid
  nd_laboratory_id :: uuid
  nd_parent_id :: "uuid option"
  nd_code :: rstr
  nd_path :: "rstr list"
  nd_depth :: i32

definition depth_of :: "rstr list \<Rightarrow> i32" where
  "depth_of path = word_of_nat (length path) - 1"

text \<open>
  A node hangs off its parent: same laboratory, the path of the parent with the own code
  appended. A root's path is its code.
\<close>

definition hangs :: "node list \<Rightarrow> node \<Rightarrow> bool" where
  "hangs ns n \<longleftrightarrow>
     (case nd_parent_id n of
        None \<Rightarrow> nd_path n = [nd_code n]
      | Some p \<Rightarrow> \<exists>m\<in>set ns. nd_id m = p \<and> nd_laboratory_id m = nd_laboratory_id n
                      \<and> nd_path n = nd_path m @ [nd_code n])"

definition node_key :: "node \<Rightarrow> uuid \<times> rstr list" where
  "node_key n = (nd_laboratory_id n, nd_path n)"

definition tree_ok :: "node list \<Rightarrow> bool" where
  "tree_ok ns \<longleftrightarrow>
     distinct (map nd_id ns)
     \<and> distinct (map node_key ns)
     \<and> (\<forall>n\<in>set ns. hangs ns n \<and> code_check (nd_code n) \<and> nd_depth n = depth_of (nd_path n))"

text \<open>A node and everything below it, by the parent pointers alone.\<close>

inductive below :: "node list \<Rightarrow> uuid \<Rightarrow> uuid \<Rightarrow> bool" for ns where
  self: "n \<in> set ns \<Longrightarrow> below ns (nd_id n) (nd_id n)"
| child: "n \<in> set ns \<Longrightarrow> nd_parent_id n = Some p \<Longrightarrow> below ns p r \<Longrightarrow> below ns (nd_id n) r"

definition in_tree :: "uuid \<Rightarrow> rstr list \<Rightarrow> node \<Rightarrow> bool" where
  "in_tree lab rt n \<longleftrightarrow> nd_laboratory_id n = lab \<and> prefix rt (nd_path n)"

lemma tree_ok_id: "tree_ok ns \<Longrightarrow> n \<in> set ns \<Longrightarrow> m \<in> set ns \<Longrightarrow> nd_id n = nd_id m \<Longrightarrow> n = m"
  by (auto simp: tree_ok_def distinct_map dest: inj_onD)

lemma tree_ok_path:
  "tree_ok ns \<Longrightarrow> n \<in> set ns \<Longrightarrow> m \<in> set ns \<Longrightarrow> nd_laboratory_id n = nd_laboratory_id m
   \<Longrightarrow> nd_path n = nd_path m \<Longrightarrow> n = m"
  by (rule inj_onD [of node_key "set ns"]) (auto simp: tree_ok_def distinct_map node_key_def)

lemma tree_ok_node:
  assumes "tree_ok ns" and "n \<in> set ns"
  shows "hangs ns n" and "code_check (nd_code n)" and "nd_depth n = depth_of (nd_path n)"
  using assms by (auto simp: tree_ok_def)

lemma tree_ok_parent:
  assumes "tree_ok ns" and "n \<in> set ns" and "nd_parent_id n = Some p"
  obtains m where "m \<in> set ns" and "nd_id m = p" and "nd_laboratory_id m = nd_laboratory_id n"
    and "nd_path n = nd_path m @ [nd_code n]"
  using tree_ok_node(1) [OF assms(1,2)] assms(3) by (auto simp: hangs_def)

lemma hangs_child:
  "m \<in> set ns \<Longrightarrow> nd_parent_id n = Some (nd_id m) \<Longrightarrow> nd_laboratory_id m = nd_laboratory_id n
   \<Longrightarrow> nd_path n = nd_path m @ [nd_code n] \<Longrightarrow> hangs ns n"
  by (auto simp: hangs_def)

lemma hangs_path: "hangs ns n \<Longrightarrow> nd_path n \<noteq> [] \<and> last (nd_path n) = nd_code n"
  by (auto simp: hangs_def split: option.splits)

lemma tree_ok_root: "tree_ok ns \<Longrightarrow> n \<in> set ns \<Longrightarrow> nd_parent_id n = None \<Longrightarrow> nd_path n = [nd_code n]"
  by (auto simp: tree_ok_def hangs_def)

text \<open>Every prefix of a stored path is the path of a stored node: nothing is missing above a node.\<close>

lemma ancestor_exists:
  assumes ok: "tree_ok ns" and "n \<in> set ns" and "prefix q (nd_path n)" and "q \<noteq> []"
  shows "\<exists>m\<in>set ns. nd_laboratory_id m = nd_laboratory_id n \<and> nd_path m = q \<and> below ns (nd_id n) (nd_id m)"
  using assms(2-)
proof (induction "length (nd_path n)" arbitrary: n)
  case 0
  then show ?case
    using hangs_path [OF tree_ok_node(1) [OF ok]] by fastforce
next
  case (Suc k)
  show ?case
  proof (cases "q = nd_path n")
    case True
    with Suc.prems(1) show ?thesis
      by (auto intro: below.self)
  next
    case False
    show ?thesis
    proof (cases "nd_parent_id n")
      case None
      with tree_ok_root [OF ok Suc.prems(1)] Suc.prems(2,3) False show ?thesis
        by (auto simp: prefix_Cons)
    next
      case (Some p)
      from ok Suc.prems(1) Some obtain m where m: "m \<in> set ns" "nd_id m = p"
          "nd_laboratory_id m = nd_laboratory_id n" "nd_path n = nd_path m @ [nd_code n]"
        by (rule tree_ok_parent)
      with False Suc.prems(2) have "prefix q (nd_path m)"
        by simp
      with Suc.hyps m Suc.prems(3) obtain a where "a \<in> set ns" "nd_laboratory_id a = nd_laboratory_id m"
          "nd_path a = q" "below ns (nd_id m) (nd_id a)"
        by fastforce
      with m Some Suc.prems(1) show ?thesis
        by (auto intro: below.child)
    qed
  qed
qed

lemma below_prefix:
  assumes "below ns i j" and ok: "tree_ok ns" and "n \<in> set ns" and "nd_id n = i"
    and "m \<in> set ns" and "nd_id m = j"
  shows "in_tree (nd_laboratory_id m) (nd_path m) n"
  using assms(1,3-)
proof (induction arbitrary: n rule: below.induct)
  case (self k)
  then have "n = m"
    using tree_ok_id [OF ok] by metis
  then show ?case
    by (simp add: in_tree_def)
next
  case (child k p r)
  then have n: "n = k"
    using tree_ok_id [OF ok] by metis
  from ok child.hyps(1,2) obtain q where q: "q \<in> set ns" "nd_id q = p"
      "nd_laboratory_id q = nd_laboratory_id k" "nd_path k = nd_path q @ [nd_code k]"
    by (rule tree_ok_parent)
  with child.IH [OF q(1,2) child.prems(3,4)] show ?case
    by (auto simp: in_tree_def n)
qed

text \<open>The prefix order on paths, within a laboratory, is the order of the parent pointers.\<close>

lemma below_iff:
  assumes "tree_ok ns" and "n \<in> set ns" and "m \<in> set ns"
  shows "below ns (nd_id n) (nd_id m) \<longleftrightarrow> in_tree (nd_laboratory_id m) (nd_path m) n"
proof
  assume "in_tree (nd_laboratory_id m) (nd_path m) n"
  moreover have "nd_path m \<noteq> []"
    using hangs_path tree_ok_node(1) [OF assms(1,3)] by blast
  ultimately obtain a where "a \<in> set ns" "nd_laboratory_id a = nd_laboratory_id m" "nd_path a = nd_path m"
      "below ns (nd_id n) (nd_id a)"
    using ancestor_exists [OF assms(1,2), of "nd_path m"] by (auto simp: in_tree_def)
  with tree_ok_path [OF assms(1) _ assms(3)] show "below ns (nd_id n) (nd_id m)"
    by metis
qed (use below_prefix assms in blast)

text \<open>No node is below itself by a detour: following parents ends.\<close>

lemma parent_shorter:
  assumes "tree_ok ns" and "n \<in> set ns" and "nd_parent_id n = Some (nd_id m)" and "m \<in> set ns"
  shows "length (nd_path n) = Suc (length (nd_path m))"
  using assms tree_ok_parent tree_ok_id by (metis length_append_singleton)

lemma parents_wf:
  assumes "tree_ok ns"
  shows "wf {(m, n). n \<in> set ns \<and> m \<in> set ns \<and> nd_parent_id n = Some (nd_id m)}"
proof (rule wf_subset)
  show "wf (measure (\<lambda>n. length (nd_path n)))"
    by simp
qed (use parent_shorter [OF assms] in auto)

section \<open>The three changes\<close>

lemma tree_insert:
  assumes ok: "tree_ok ns" and fresh: "nd_id n \<notin> nd_id ` set ns"
    and path: "\<And>m. m \<in> set ns \<Longrightarrow> nd_laboratory_id m = nd_laboratory_id n \<Longrightarrow> nd_path m \<noteq> nd_path n"
    and n: "hangs ns n" "code_check (nd_code n)" "nd_depth n = depth_of (nd_path n)"
  shows "tree_ok (ns @ [n])"
proof -
  have "hangs (ns @ [n]) m" if "hangs ns m" for m
    using that by (auto simp: hangs_def split: option.splits)
  then have "\<forall>m\<in>set (ns @ [n]). hangs (ns @ [n]) m \<and> code_check (nd_code m) \<and> nd_depth m = depth_of (nd_path m)"
    using n ok by (simp add: tree_ok_def)
  moreover have "node_key n \<notin> node_key ` set ns"
    using path by (fastforce simp: node_key_def)
  then have "distinct (map node_key (ns @ [n]))"
    using ok by (simp add: tree_ok_def)
  ultimately show ?thesis
    using ok fresh by (simp add: tree_ok_def)
qed

lemma tree_prune:
  assumes ok: "tree_ok ns"
  shows "tree_ok (filter (\<lambda>n. \<not> in_tree lab rt n) ns)"
proof -
  let ?kept = "filter (\<lambda>n. \<not> in_tree lab rt n) ns"
  have "hangs ?kept n" if n: "n \<in> set ns" and out: "\<not> in_tree lab rt n" for n
  proof (cases "nd_parent_id n")
    case None
    with tree_ok_root [OF ok n] show ?thesis
      by (simp add: hangs_def)
  next
    case (Some p)
    from ok n Some obtain m where m: "m \<in> set ns" "nd_id m = p" "nd_laboratory_id m = nd_laboratory_id n"
        "nd_path n = nd_path m @ [nd_code n]"
      by (rule tree_ok_parent)
    with out have "\<not> in_tree lab rt m"
      by (auto simp: in_tree_def)
    with m Some show ?thesis
      by (auto simp: hangs_def)
  qed
  moreover have "distinct (map nd_id ?kept)" "distinct (map node_key ?kept)"
    using ok by (simp_all add: tree_ok_def distinct_map_filter)
  ultimately show ?thesis
    using ok by (auto simp: tree_ok_def)
qed

text \<open>
  Moving \<open>x\<close> with everything below it: \<open>x\<close> gets a new parent, code and path, the nodes below
  keep theirs but for the part of the path above.
\<close>

definition rehang :: "rstr list \<Rightarrow> rstr list \<Rightarrow> rstr list \<Rightarrow> rstr list" where
  "rehang old new path = new @ drop (length old) path"

definition move_node :: "node \<Rightarrow> uuid option \<Rightarrow> rstr \<Rightarrow> rstr list \<Rightarrow> node \<Rightarrow> node" where
  "move_node x parent code path n =
     (if nd_id n = nd_id x
      then n\<lparr>nd_parent_id := parent, nd_code := code, nd_path := path, nd_depth := depth_of path\<rparr>
      else if in_tree (nd_laboratory_id x) (nd_path x) n
      then n\<lparr>nd_path := rehang (nd_path x) path (nd_path n),
             nd_depth := depth_of (rehang (nd_path x) path (nd_path n))\<rparr>
      else n)"

lemma move_node_keeps [simp]:
  "nd_id (move_node x parent code path n) = nd_id n"
  "nd_laboratory_id (move_node x parent code path n) = nd_laboratory_id n"
  by (simp_all add: move_node_def)

lemma move_node_other:
  "nd_id n \<noteq> nd_id x \<Longrightarrow> nd_parent_id (move_node x parent code path n) = nd_parent_id n
     \<and> nd_code (move_node x parent code path n) = nd_code n"
  by (simp add: move_node_def)

lemma rehang_same: "prefix old p \<Longrightarrow> rehang old old p = p"
  by (auto simp: rehang_def prefix_def)

lemma rehang_prefix: "prefix old p \<Longrightarrow> prefix old q \<Longrightarrow> rehang old new p = rehang old new q \<Longrightarrow> p = q"
  by (auto simp: rehang_def prefix_def)

lemma move_node_same:
  "nd_depth n = depth_of (nd_path n) \<Longrightarrow> nd_id n \<noteq> nd_id x \<Longrightarrow> move_node x parent code (nd_path x) n = n"
  by (cases n) (simp add: move_node_def in_tree_def rehang_same)

text \<open>
  Where the new place is legal: the code is one, the path hangs off a parent of the same
  laboratory that is not in the moved subtree, and no other node has that path.
\<close>

definition legal_place :: "node list \<Rightarrow> node \<Rightarrow> uuid option \<Rightarrow> rstr \<Rightarrow> rstr list \<Rightarrow> bool" where
  "legal_place ns x parent code path \<longleftrightarrow>
     code_check code
     \<and> (case parent of
          None \<Rightarrow> path = [code]
        | Some p \<Rightarrow> \<exists>m\<in>set ns. nd_id m = p \<and> nd_laboratory_id m = nd_laboratory_id x
            \<and> \<not> prefix (nd_path x) (nd_path m) \<and> path = nd_path m @ [code])
     \<and> (\<forall>n\<in>set ns. nd_id n \<noteq> nd_id x \<longrightarrow> nd_laboratory_id n = nd_laboratory_id x \<longrightarrow> nd_path n \<noteq> path)"

lemma legal_placeI:
  assumes "code_check code" and "parent = map_option nd_id q" and "path = (case q of None \<Rightarrow> [] | Some m \<Rightarrow> nd_path m) @ [code]"
    and "\<And>m. q = Some m \<Longrightarrow> m \<in> set ns \<and> nd_laboratory_id m = nd_laboratory_id x \<and> \<not> prefix (nd_path x) (nd_path m)"
    and "\<And>n. n \<in> set ns \<Longrightarrow> nd_id n \<noteq> nd_id x \<Longrightarrow> nd_laboratory_id n = nd_laboratory_id x \<Longrightarrow> nd_path n \<noteq> path"
  shows "legal_place ns x parent code path"
  using assms by (cases q) (auto simp: legal_place_def)

text \<open>Unless the path stays, the old and the new place are not above one another.\<close>

lemma legal_place_apart:
  assumes ok: "tree_ok ns" and x: "x \<in> set ns" and legal: "legal_place ns x parent code path"
    and "path \<noteq> nd_path x"
  shows "\<not> prefix (nd_path x) path" and "\<not> prefix path (nd_path x)"
proof -
  have xne: "nd_path x \<noteq> []"
    using hangs_path tree_ok_node(1) [OF ok x] by blast
  show "\<not> prefix (nd_path x) path"
    using legal assms(4) xne by (auto simp: legal_place_def prefix_Cons split: option.splits)
  show "\<not> prefix path (nd_path x)"
  proof
    assume p: "prefix path (nd_path x)"
    have "path \<noteq> []"
      using legal by (auto simp: legal_place_def split: option.splits)
    with ancestor_exists [OF ok x p] obtain m where m: "m \<in> set ns"
        "nd_laboratory_id m = nd_laboratory_id x" "nd_path m = path"
      by blast
    with legal have "nd_id m = nd_id x"
      by (auto simp: legal_place_def)
    with tree_ok_id [OF ok m(1) x] m assms(4) show False
      by simp
  qed
qed

lemma tree_move:
  assumes ok: "tree_ok ns" and x: "x \<in> set ns" and legal: "legal_place ns x parent code path"
  shows "tree_ok (map (move_node x parent code path) ns)"
proof -
  let ?m = "move_node x parent code path"
  let ?old = "nd_path x" and ?lab = "nd_laboratory_id x"
  have same_id: "n = x" if "n \<in> set ns" "nd_id n = nd_id x" for n
    using tree_ok_id [OF ok that(1) x that(2)] .
  have mx: "nd_path (?m x) = path" "nd_code (?m x) = code" "nd_parent_id (?m x) = parent"
    by (simp_all add: move_node_def)
  have inside: "nd_path (?m n) = rehang ?old path (nd_path n)" if "in_tree ?lab ?old n" "n \<in> set ns" for n
    using that same_id [of n] by (auto simp: move_node_def in_tree_def rehang_def)
  have outside: "?m n = n" if "\<not> in_tree ?lab ?old n" "n \<in> set ns" for n
    using that same_id [of n] by (auto simp: move_node_def in_tree_def)
  have x_in: "in_tree ?lab ?old x"
    by (simp add: in_tree_def)
  have hang: "hangs (map ?m ns) (?m n)" if n: "n \<in> set ns" for n
  proof (cases "n = x")
    case True
    show ?thesis
    proof (cases parent)
      case None
      with legal mx show ?thesis
        by (simp add: True hangs_def legal_place_def)
    next
      case (Some p)
      with legal obtain m where m: "m \<in> set ns" "nd_id m = p" "nd_laboratory_id m = ?lab"
          "\<not> prefix ?old (nd_path m)" "path = nd_path m @ [code]"
        by (auto simp: legal_place_def)
      then have "?m m = m"
        by (intro outside) (simp_all add: in_tree_def)
      with m(1) have "m \<in> set (map ?m ns)"
        by force
      then show ?thesis
        by (rule hangs_child) (use m Some mx in \<open>simp_all add: True\<close>)
    qed
  next
    case False
    with same_id n have ne: "nd_id n \<noteq> nd_id x"
      by blast
    note keep = move_node_other [OF ne, of parent code path]
    show ?thesis
    proof (cases "nd_parent_id n")
      case None
      have "\<not> in_tree ?lab ?old n"
      proof
        assume "in_tree ?lab ?old n"
        with tree_ok_root [OF ok n None] hangs_path [OF tree_ok_node(1) [OF ok x]]
        have "nd_path n = ?old" "nd_laboratory_id n = ?lab"
          by (auto simp: in_tree_def prefix_Cons)
        with tree_ok_path [OF ok n x] False show False
          by simp
      qed
      with outside n None tree_ok_root [OF ok n None] show ?thesis
        by (simp add: hangs_def)
    next
      case (Some p)
      from ok n Some obtain q where q: "q \<in> set ns" "nd_id q = p" "nd_laboratory_id q = nd_laboratory_id n"
          "nd_path n = nd_path q @ [nd_code n]"
        by (rule tree_ok_parent)
      have iff: "in_tree ?lab ?old q \<longleftrightarrow> in_tree ?lab ?old n"
        using q tree_ok_path [OF ok n x] False by (auto simp: in_tree_def)
      have "nd_path (?m n) = nd_path (?m q) @ [nd_code n]"
      proof (cases "in_tree ?lab ?old q")
        case True
        then have "prefix ?old (nd_path q)"
          by (simp add: in_tree_def)
        then have "rehang ?old path (nd_path n) = rehang ?old path (nd_path q) @ [nd_code n]"
          by (auto simp: rehang_def q(4) prefix_def)
        with True iff inside n q(1) show ?thesis
          by simp
      next
        case False
        with iff outside n q(1,4) show ?thesis
          by simp
      qed
      moreover have "?m q \<in> set (map ?m ns)"
        using q by simp
      ultimately show ?thesis
        using q keep Some by (intro hangs_child [of "?m q"]) simp_all
    qed
  qed
  have code: "code_check (nd_code (?m n))" "nd_depth (?m n) = depth_of (nd_path (?m n))" if "n \<in> set ns" for n
    using tree_ok_node(2,3) [OF ok that] legal by (auto simp: move_node_def legal_place_def)
  have "n = k" if n: "n \<in> set ns" and k: "k \<in> set ns" and eq: "node_key (?m n) = node_key (?m k)" for n k
  proof -
    have lab: "nd_laboratory_id n = nd_laboratory_id k" and path: "nd_path (?m n) = nd_path (?m k)"
      using eq by (simp_all add: node_key_def)
    have no_clash: "nd_path (?m a) \<noteq> nd_path b"
      if a: "a \<in> set ns" "in_tree ?lab ?old a" and b: "b \<in> set ns" "nd_laboratory_id b = ?lab" "\<not> in_tree ?lab ?old b" for a b
    proof
      assume "nd_path (?m a) = nd_path b"
      then have b_path: "nd_path b = path @ drop (length ?old) (nd_path a)"
        using inside [OF a(2,1)] by (simp add: rehang_def)
      have moved: "path \<noteq> ?old"
        using b b_path by (auto simp: in_tree_def)
      have "path \<noteq> []"
        using legal by (auto simp: legal_place_def split: option.splits)
      with ancestor_exists [OF ok b(1), of path] b_path obtain c where c: "c \<in> set ns"
          "nd_laboratory_id c = ?lab" "nd_path c = path"
        using b(2) by auto
      then have "nd_id c = nd_id x"
        using legal by (auto simp: legal_place_def)
      with same_id c moved show False
        by auto
    qed
    show ?thesis
    proof (cases "in_tree ?lab ?old n"; cases "in_tree ?lab ?old k")
      assume i: "in_tree ?lab ?old n" "in_tree ?lab ?old k"
      with path inside n k have "rehang ?old path (nd_path n) = rehang ?old path (nd_path k)"
        by simp
      with i rehang_prefix have "nd_path n = nd_path k"
        by (auto simp: in_tree_def)
      with tree_ok_path [OF ok n k lab] show ?thesis .
    next
      assume "in_tree ?lab ?old n" "\<not> in_tree ?lab ?old k"
      with no_clash [OF n _ k] outside [OF _ k] path lab show ?thesis
        by (auto simp: in_tree_def)
    next
      assume "\<not> in_tree ?lab ?old n" "in_tree ?lab ?old k"
      with no_clash [OF k _ n] outside [OF _ n] path lab show ?thesis
        by (auto simp: in_tree_def)
    next
      assume "\<not> in_tree ?lab ?old n" "\<not> in_tree ?lab ?old k"
      with outside n k path tree_ok_path [OF ok n k lab] show ?thesis
        by simp
    qed
  qed
  moreover have "distinct ns"
    using ok by (auto simp: tree_ok_def distinct_map)
  ultimately have "distinct (map node_key (map ?m ns))"
    by (auto simp: distinct_map intro!: inj_onI)
  moreover have "map nd_id (map ?m ns) = map nd_id ns"
    by simp
  ultimately show ?thesis
    using ok hang code unfolding tree_ok_def by (simp only: set_map ball_simps) simp
qed

text \<open>What a rewritten path reads back as, and the depth of a child.\<close>

lemma rehang_labels:
  assumes "new \<noteq> []" and "\<forall>l\<in>set new. 46 \<notin> set l"
  shows "path_labels (path_text (rehang old new (path_labels p))) = rehang old new (path_labels p)"
  using assms path_labels_no_dot [of _ p] in_set_dropD by (fastforce simp: rehang_def intro!: path_labels_text)

lemma depth_of_snoc: "p \<noteq> [] \<Longrightarrow> depth_of (p @ [c]) = depth_of p + 1"
  by (simp add: depth_of_def)

section \<open>Tables that store a tree\<close>

text \<open>
  The contract between a table and its nodes: \<open>node_of\<close> reads a row as a node, \<open>rehang_row\<close> is
  the \<^verbatim>\<open>SET\<close> clause of the statement that rewrites the paths below a moved row.
\<close>

locale tree_table =
  fixes node_of :: "'row \<Rightarrow> node" and rehang_row :: "rstr list \<Rightarrow> rstr list \<Rightarrow> 'row \<Rightarrow> 'row"
  assumes rehang_row: "\<lbrakk>new \<noteq> []; \<forall>l\<in>set new. 46 \<notin> set l\<rbrakk> \<Longrightarrow>
    node_of (rehang_row old new r) = (node_of r)\<lparr>nd_path := rehang old new (nd_path (node_of r)),
      nd_depth := depth_of (rehang old new (nd_path (node_of r)))\<rparr>"
begin

abbreviation row_id :: "'row \<Rightarrow> uuid" where
  "row_id r \<equiv> nd_id (node_of r)"

lemma row_eq:
  "tree_ok (map node_of rows) \<Longrightarrow> r \<in> set rows \<Longrightarrow> x \<in> set rows \<Longrightarrow> row_id r = row_id x \<Longrightarrow> r = x"
  by (rule inj_onD [of row_id "set rows"]) (auto simp: tree_ok_def distinct_map comp_def)

text \<open>The two statements of a move do to the rows what \<open>move_node\<close> does to the nodes.\<close>

lemma moved_rows:
  assumes ok: "tree_ok (map node_of rows)" and x: "x \<in> set rows"
    and place: "node_of (place x) = (node_of x)\<lparr>nd_parent_id := parent, nd_code := code,
                  nd_path := new, nd_depth := depth_of new\<rparr>"
    and new: "new \<noteq> []" "\<forall>l\<in>set new. 46 \<notin> set l"
  shows "map node_of (update_rows (\<lambda>r. in_tree (nd_laboratory_id (node_of x)) (nd_path (node_of x)) (node_of r)
             \<and> row_id r \<noteq> row_id x) (rehang_row (nd_path (node_of x)) new)
           (update_rows (\<lambda>r. row_id r = row_id x) place rows))
         = map (move_node (node_of x) parent code new) (map node_of rows)"
proof -
  have placed: "row_id (place x) = row_id x"
    by (simp add: place)
  show ?thesis
    unfolding update_rows_def map_map
  proof (rule map_cong [OF refl], goal_cases)
    case (1 r)
    show ?case
    proof (cases "r = x")
      case True
      then show ?thesis
        by (simp add: placed place move_node_def)
    next
      case False
      with row_eq [OF ok 1 x] have "row_id r \<noteq> row_id x"
        by blast
      then show ?thesis
        by (simp add: move_node_def rehang_row [OF new])
    qed
  qed
qed

lemma placed_rows:
  assumes ok: "tree_ok (map node_of rows)" and x: "x \<in> set rows"
    and place: "node_of (place x) = (node_of x)\<lparr>nd_parent_id := parent, nd_code := code,
                  nd_path := nd_path (node_of x), nd_depth := depth_of (nd_path (node_of x))\<rparr>"
  shows "map node_of (update_rows (\<lambda>r. row_id r = row_id x) place rows)
         = map (move_node (node_of x) parent code (nd_path (node_of x))) (map node_of rows)"
proof -
  have "move_node (node_of x) parent code (nd_path (node_of x)) (node_of r) = node_of r"
    if "r \<in> set rows" "row_id r \<noteq> row_id x" for r
    by (rule move_node_same [OF tree_ok_node(3) [OF ok] that(2)]) (simp add: that(1))
  note other = this
  show ?thesis
    unfolding update_rows_def map_map
  proof (rule map_cong [OF refl], goal_cases)
    case (1 r)
    show ?case
    proof (cases "r = x")
      case True
      then show ?thesis
        by (simp add: place move_node_def)
    next
      case False
      with row_eq [OF ok 1 x] have "row_id r \<noteq> row_id x"
        by blast
      with other [OF 1] show ?thesis
        by simp
    qed
  qed
qed

text \<open>
  A whole move: the row is placed, and then, unless its path stayed, the paths below are rewritten.
  \<open>fits\<close> is what the checks of the two statements establish of the rows they write.
\<close>

lemma moved_table:
  assumes ok: "tree_ok (map node_of rows)" and x: "x \<in> set rows"
    and legal: "legal_place (map node_of rows) (node_of x) parent code new"
    and new: "\<forall>l\<in>set new. 46 \<notin> set l"
    and place: "node_of (place x) = (node_of x)\<lparr>nd_parent_id := parent, nd_code := code,
                  nd_path := new, nd_depth := depth_of new\<rparr>" and fit: "fits (place x)"
    and two: "(rows2 = update_rows (\<lambda>r. row_id r = row_id x) place rows \<and> new = nd_path (node_of x))
      \<or> (rows2 = update_rows (\<lambda>r. in_tree (nd_laboratory_id (node_of x)) (nd_path (node_of x)) (node_of r)
                   \<and> row_id r \<noteq> row_id x) (rehang_row (nd_path (node_of x)) new)
                 (update_rows (\<lambda>r. row_id r = row_id x) place rows)
         \<and> (\<forall>r\<in>set (update_rows (\<lambda>r. row_id r = row_id x) place rows).
              in_tree (nd_laboratory_id (node_of x)) (nd_path (node_of x)) (node_of r) \<and> row_id r \<noteq> row_id x
              \<longrightarrow> fits (rehang_row (nd_path (node_of x)) new r)))"
  shows "map node_of rows2 = map (move_node (node_of x) parent code new) (map node_of rows)"
    and "tree_ok (map node_of rows2)"
    and "\<forall>r\<in>set rows2. r \<in> set rows \<or> fits r"
    and "fetch_optional (\<lambda>r. row_id r = row_id x) rows2 = Some (place x)"
proof -
  let ?rows1 = "update_rows (\<lambda>r. row_id r = row_id x) place rows"
  have "new \<noteq> []"
    using legal by (auto simp: legal_place_def split: option.splits)
  note moved = moved_rows [where place = place, OF ok x place this new]
  show nodes: "map node_of rows2 = map (move_node (node_of x) parent code new) (map node_of rows)"
    using two
  proof (elim disjE conjE)
    assume rows2: "rows2 = ?rows1" and same: "new = nd_path (node_of x)"
    show ?thesis
      using placed_rows [where place = place, OF ok x place [unfolded same]] by (simp only: rows2 same)
  qed (simp only: moved)
  have "node_of x \<in> set (map node_of rows)"
    using x by simp
  from tree_move [OF ok this legal] show "tree_ok (map node_of rows2)"
    by (simp only: nodes)
  have rows1: "r = place x \<or> r \<in> set rows" if "r \<in> set ?rows1" for r
    using that row_eq [OF ok _ x] by (auto simp: set_update_rows)
  show "\<forall>r\<in>set rows2. r \<in> set rows \<or> fits r"
    using two
  proof (elim disjE conjE)
    assume "rows2 = ?rows1"
    with rows1 fit show ?thesis by blast
  next
    assume rows2: "rows2 = update_rows (\<lambda>r. in_tree (nd_laboratory_id (node_of x)) (nd_path (node_of x)) (node_of r)
                   \<and> row_id r \<noteq> row_id x) (rehang_row (nd_path (node_of x)) new) ?rows1"
      and written: "\<forall>r\<in>set ?rows1. in_tree (nd_laboratory_id (node_of x)) (nd_path (node_of x)) (node_of r) \<and> row_id r \<noteq> row_id x
              \<longrightarrow> fits (rehang_row (nd_path (node_of x)) new r)"
    show ?thesis
    proof
      fix r
      assume "r \<in> set rows2"
      then show "r \<in> set rows \<or> fits r"
        unfolding rows2 set_update_rows [of _ _ ?rows1] using rows1 fit written by blast
    qed
  qed
  have "row_id (rehang_row old new r) = row_id r" for old r
    by (simp add: rehang_row [OF \<open>new \<noteq> []\<close> new])
  note other = fetch_other_rows [of row_id, OF this]
  have "row_id (place x) = row_id x"
    by (simp add: place)
  moreover have "distinct (map row_id rows)"
    using ok by (simp add: tree_ok_def o_def)
  then have "fetch_optional (\<lambda>r. row_id r = row_id x) rows = Some x"
    using x by (rule fetch_optional_unique)
  ultimately have "fetch_optional (\<lambda>r. row_id r = row_id x) ?rows1 = Some (place x)"
    by (rule fetch_written_row)
  then show "fetch_optional (\<lambda>r. row_id r = row_id x) rows2 = Some (place x)"
    using two by (elim disjE conjE) (simp_all only: other)
qed

end

end
