(* ===== verification/Units.thy ===== *)
theory Units
  imports Path_Tree Handlers "HOL-Library.Product_Lexorder"
begin

text \<open>
  \<^verbatim>\<open>routes/units/\<close> and the unit types of \<^verbatim>\<open>domain/\<close>: the units of a laboratory, their scale to the
  base unit of a dimension, the statements of \<^verbatim>\<open>queries.rs\<close> and the five handlers.
\<close>

section \<open>Codes, names, symbols\<close>

text \<open>
  The parsers of unit codes, unit dimensions and parameter codes are the same up to their messages:
  a trimmed identifier of at most 64 bytes, a lower-case letter first.
\<close>

definition parse_identifier :: "rstr \<Rightarrow> rstr \<Rightarrow> rstr \<Rightarrow> (rstr, rstr) result" where
  "parse_identifier required invalid s =
     (let code = trim s
      in case code of
           [] \<Rightarrow> Inl required
         | first # chars \<Rightarrow>
             if \<not> is_ascii_lowercase first then Inl (s @ invalid)
             else if 64 < str_len code \<or> \<not> list_all is_code_char chars then Inl (s @ invalid)
             else Inr code)"

definition UnitCode_parse :: "rstr \<Rightarrow> (rstr, rstr) result" where
  "UnitCode_parse = parse_identifier (lit ''code is required'') (lit '' is not a valid unit code.'')"

definition UnitDimension_parse :: "rstr \<Rightarrow> (rstr, rstr) result" where
  "UnitDimension_parse =
     parse_identifier (lit ''dimension is required'') (lit '' is not a valid unit dimension.'')"

text \<open>Names and symbols: trimmed, not empty, bounded in grapheme clusters, without some characters.\<close>

definition parse_name :: "env \<Rightarrow> nat \<Rightarrow> nat list \<Rightarrow> rstr \<Rightarrow> rstr \<Rightarrow> (rstr, rstr) result" where
  "parse_name env limit forbidden invalid s =
     (let trimmed = trim s
      in if trimmed = [] \<or> limit < graphemes_count env trimmed
            \<or> list_ex (\<lambda>c. c \<in> set forbidden) trimmed
         then Inl (s @ invalid)
         else Inr trimmed)"

definition UnitName_parse :: "env \<Rightarrow> rstr \<Rightarrow> (rstr, rstr) result" where
  "UnitName_parse env = parse_name env 128 forbidden_characters (lit '' is not a valid unit name.'')"

definition UnitSymbol_parse :: "env \<Rightarrow> rstr \<Rightarrow> (rstr, rstr) result" where
  "UnitSymbol_parse env = parse_name env 32 [] (lit '' is not a valid unit symbol.'')"

lemma length_le_str_len: "length s \<le> str_len s"
  by (induction s) (auto simp: str_len_def utf8_len_def)

lemma parse_identifier_Inr:
  assumes "parse_identifier required invalid s = Inr t"
  shows "t = trim s \<and> code_check t"
  using assms length_le_str_len [of t]
  by (auto simp: parse_identifier_def Let_def code_check_def split: list.splits if_splits)

lemma parse_name_Inr:
  "parse_name env limit forbidden invalid s = Inr t \<longleftrightarrow>
     t = trim s \<and> t \<noteq> [] \<and> graphemes_count env t \<le> limit \<and> (\<forall>c\<in>set t. c \<notin> set forbidden)"
  by (auto simp: parse_name_def Let_def list_ex_iff)

definition validate_scale_to_base :: "f64 \<Rightarrow> (rstr, unit) result" where
  "validate_scale_to_base scale =
     ensure (is_finite scale \<and> f64_less (Fin 0) scale) (lit ''scale_to_base must be greater than zero'')"

text \<open>The JSON of a creation, which after validation is the \<^verbatim>\<open>NewUnit\<close>, and of an update.\<close>

record new_unit =
  nu_code :: rstr
  nu_name :: rstr
  nu_symbol :: rstr
  nu_dimension :: rstr
  nu_scale_to_base :: f64
  nu_allow_decimal :: bool

definition NewUnit_try_from :: "env \<Rightarrow> new_unit \<Rightarrow> (rstr, new_unit) result" where
  "NewUnit_try_from env p =
     and_then (UnitCode_parse (nu_code p)) (\<lambda>code.
     and_then (UnitName_parse env (nu_name p)) (\<lambda>name.
     and_then (UnitSymbol_parse env (nu_symbol p)) (\<lambda>symbol.
     and_then (UnitDimension_parse (nu_dimension p)) (\<lambda>dimension.
     and_then (validate_scale_to_base (nu_scale_to_base p)) (\<lambda>_.
     Inr (p\<lparr>nu_code := code, nu_name := name, nu_symbol := symbol, nu_dimension := dimension\<rparr>))))))"

record unit_change =
  uu_code :: "rstr option"
  uu_name :: "rstr option"
  uu_symbol :: "rstr option"
  uu_dimension :: "rstr option"
  uu_scale_to_base :: "f64 option"
  uu_allow_decimal :: "bool option"

definition UpdateUnit_try_from :: "env \<Rightarrow> unit_change \<Rightarrow> (rstr, unit_change) result" where
  "UpdateUnit_try_from env p =
     and_then (transpose_with UnitCode_parse (uu_code p)) (\<lambda>code.
     and_then (transpose_with (UnitName_parse env) (uu_name p)) (\<lambda>name.
     and_then (transpose_with (UnitSymbol_parse env) (uu_symbol p)) (\<lambda>symbol.
     and_then (transpose_with UnitDimension_parse (uu_dimension p)) (\<lambda>dimension.
     and_then (case uu_scale_to_base p of Some s \<Rightarrow> validate_scale_to_base s | None \<Rightarrow> Inr ()) (\<lambda>_.
     Inr (p\<lparr>uu_code := code, uu_name := name, uu_symbol := symbol, uu_dimension := dimension\<rparr>))))))"

section \<open>Errors and constraints of the table\<close>

text \<open>
  A foreign key violation names its constraint where the program looks at it; \<^verbatim>\<open>UnitDatabaseError\<close>
  has the cases of \<open>db_error\<close> but \<open>DbNotFound\<close>.
\<close>

definition unit_code_key :: rstr where "unit_code_key = lit ''units_laboratory_id_code_key''"
definition dimension_fkey :: rstr where "dimension_fkey = lit ''units_dimension_fkey''"

fun map_unit_error :: "rstr option \<Rightarrow> sql_error \<Rightarrow> db_error" where
  "map_unit_error fkey (UniqueViolation constraint) =
     (if constraint = unit_code_key then DbConflict (lit ''Unit code already exists'')
      else DbConflict (lit ''Unit already exists''))"
| "map_unit_error fkey CheckViolation = DbValidation (lit ''Invalid unit'')"
| "map_unit_error fkey ForeignKeyViolation =
     (if fkey = Some dimension_fkey then DbValidation (lit ''Invalid unit dimension'')
      else DbValidation (lit ''Invalid referenced record''))"
| "map_unit_error fkey (OtherSqlError e) = DbUnexpected e"

fun map_unit_delete_error :: "sql_error \<Rightarrow> db_error" where
  "map_unit_delete_error ForeignKeyViolation = DbConflict (lit ''Unit is referenced by other records'')"
| "map_unit_delete_error e = map_unit_error None e"

definition unit_checks :: "unit_row \<Rightarrow> bool" where
  "unit_checks r \<longleftrightarrow>
     un_code r \<noteq> [] \<and> un_name r \<noteq> [] \<and> un_symbol r \<noteq> [] \<and> f64_less (Fin 0) (un_scale_to_base r)"

text \<open>The two foreign keys of a row, the laboratory before the dimension.\<close>

definition unit_fkey :: "database \<Rightarrow> unit_row \<Rightarrow> rstr option" where
  "unit_fkey db r =
     (if un_laboratory_id r \<notin> set (laboratories db) then Some (lit ''units_laboratory_id_fkey'')
      else if un_dimension r \<notin> set (unit_dimensions db) then Some dimension_fkey
      else None)"

definition unit_violation :: "database \<Rightarrow> unit_row list \<Rightarrow> unit_row \<Rightarrow> sql_error option" where
  "unit_violation db others r =
     (if \<not> unit_checks r then Some CheckViolation
      else if \<exists>s\<in>set others. un_unit_id s = un_unit_id r then Some (UniqueViolation (lit ''units_pkey''))
      else if \<exists>s\<in>set others. un_laboratory_id s = un_laboratory_id r \<and> un_code s = un_code r
      then Some (UniqueViolation unit_code_key)
      else if unit_fkey db r \<noteq> None then Some ForeignKeyViolation
      else None)"

section \<open>Statements\<close>

definition fetch_unit :: "uuid \<Rightarrow> database \<Rightarrow> unit_row option" where
  "fetch_unit i db = fetch_optional (\<lambda>r. un_unit_id r = i) (units db)"

definition fetch_unit_for_update :: "uuid \<Rightarrow> database \<Rightarrow> unit_row option" where
  "fetch_unit_for_update i db = fetch_unit i db"

definition fetch_units :: "env \<Rightarrow> uuid \<Rightarrow> database \<Rightarrow> unit_row list" where
  "fetch_units env lab db =
     sort_key (\<lambda>r. (collation_key env (un_dimension r), collation_key env (un_code r)))
       (filter (\<lambda>r. un_laboratory_id r = lab) (units db))"

definition insert_unit :: "env \<Rightarrow> uuid \<Rightarrow> uuid \<Rightarrow> new_unit \<Rightarrow> (db_error, unit_row) tx" where
  "insert_unit env i lab new =
     (let row = \<lparr>un_unit_id = i, un_laboratory_id = lab, un_code = nu_code new, un_name = nu_name new,
          un_symbol = nu_symbol new, un_dimension = nu_dimension new,
          un_scale_to_base = nu_scale_to_base new, un_allow_decimal = nu_allow_decimal new,
          un_created_at = env_now env\<rparr>
      in tx_bind (tx_write (\<lambda>db.
             case unit_violation db (units db) row of
               Some e \<Rightarrow> Inl (map_unit_error (unit_fkey db row) e)
             | None \<Rightarrow> Inr (db\<lparr>units := units db @ [row]\<rparr>)))
           (\<lambda>_. tx_return row))"

definition set_unit :: "unit_change \<Rightarrow> unit_row \<Rightarrow> unit_row" where
  "set_unit change r =
     r\<lparr>un_code := coalesce (uu_code change) (un_code r), un_name := coalesce (uu_name change) (un_name r),
       un_symbol := coalesce (uu_symbol change) (un_symbol r),
       un_dimension := coalesce (uu_dimension change) (un_dimension r),
       un_scale_to_base := coalesce (uu_scale_to_base change) (un_scale_to_base r),
       un_allow_decimal := coalesce (uu_allow_decimal change) (un_allow_decimal r)\<rparr>"

text \<open>\<^verbatim>\<open>fetch_one\<close> of the statement's row, which is the row after the change.\<close>

definition update_unit_in_database :: "uuid \<Rightarrow> unit_change \<Rightarrow> (db_error, unit_row) tx" where
  "update_unit_in_database i change =
     tx_bind (tx_write (\<lambda>db.
         map_sum (\<lambda>e. map_unit_error
               (case fetch_unit i db of Some r \<Rightarrow> unit_fkey db (set_unit change r) | None \<Rightarrow> None) e)
           (\<lambda>rows. db\<lparr>units := rows\<rparr>)
           (write_row (unit_violation db) un_unit_id (set_unit change) i (units db))))
       (\<lambda>_. tx_read (\<lambda>db. ok_or (DbUnexpected (lit ''no rows returned'')) (fetch_unit i db)))"

text \<open>The rows of other tables that measure in a unit; none of the keys cascades.\<close>

definition unit_in_use :: "database \<Rightarrow> uuid \<Rightarrow> bool" where
  "unit_in_use db i \<longleftrightarrow>
     (\<exists>a\<in>set (assets db). as_inventory_unit_id a = i)
     \<or> (\<exists>t\<in>set (asset_parameter_types db). pt_default_unit_id t = Some i)
     \<or> (\<exists>v\<in>set (parameter_values db). vc_unit_id (pv_columns v) = Some i)"

definition delete_unit_from_database :: "uuid \<Rightarrow> (db_error, unit) tx" where
  "delete_unit_from_database i =
     tx_map_err map_unit_delete_error (tx_write (\<lambda>db.
       if (\<exists>r\<in>set (units db). un_unit_id r = i) \<and> unit_in_use db i then Inl ForeignKeyViolation
       else Inr (db\<lparr>units := filter (\<lambda>r. un_unit_id r \<noteq> i) (units db)\<rparr>)))"

section \<open>Handlers\<close>

definition unit_not_found :: handler_error where
  "unit_not_found = NotFound (lit ''Unit not found'')"

definition create_unit_in_transaction :: "env \<Rightarrow> laboratory_context \<Rightarrow> new_unit \<Rightarrow> (handler_error, unit_row) tx" where
  "create_unit_in_transaction env ctx new =
     tx_bind (tx_map_err from_db_error (insert_unit env (env_new_v4 env 0) (ctx_laboratory_id ctx) new)) (\<lambda>row.
     tx_bind (unexpected (record_audit (actor_user_id (ctx_actor ctx)) Audit_Create Res_Unit
         (Some (un_unit_id row)) (Details_create_unit (un_unit_id row)))) (\<lambda>_.
     tx_return row))"

definition create_unit ::
    "env \<Rightarrow> laboratory_context \<Rightarrow> new_unit \<Rightarrow> database \<Rightarrow> (handler_error, unit_row) result \<times> database" where
  "create_unit env ctx payload db =
     run_handler
       (and_then (require_permission env (ctx_actor ctx) Unit_resource (Create (ctx_laboratory_id ctx))
            (lit ''You don't have permission to create units.'') db) (\<lambda>_.
        map_err ValidationError (NewUnit_try_from env payload)))
       (create_unit_in_transaction env ctx) db"

definition update_unit_in_transaction ::
    "laboratory_context \<Rightarrow> uuid \<Rightarrow> unit_change \<Rightarrow> (handler_error, unit_row) tx" where
  "update_unit_in_transaction ctx unit_id change =
     tx_bind (tx_read (\<lambda>db. ok_or unit_not_found (fetch_unit_for_update unit_id db))) (\<lambda>existing.
     tx_bind (tx_map_err from_db_error (update_unit_in_database (un_unit_id existing) change)) (\<lambda>row.
     tx_bind (unexpected (record_audit (actor_user_id (ctx_actor ctx)) Audit_Update Res_Unit
         (Some (un_unit_id row)) (Details_update_unit existing))) (\<lambda>_.
     tx_return row)))"

definition update_unit ::
    "env \<Rightarrow> laboratory_context \<Rightarrow> uuid \<Rightarrow> unit_change \<Rightarrow> database
       \<Rightarrow> (handler_error, unit_row) result \<times> database" where
  "update_unit env ctx unit_id payload db =
     run_handler
       (and_then (require_permission env (authorization_actor ctx) Unit_resource (Update unit_id)
            (lit ''You are not allowed to update this unit.'') db) (\<lambda>_.
        map_err ValidationError (UpdateUnit_try_from env payload)))
       (update_unit_in_transaction ctx unit_id) db"

text \<open>The check of a deletion runs after the row was found, and is answered like a missing row.\<close>

definition delete_unit_in_transaction ::
    "env \<Rightarrow> laboratory_context \<Rightarrow> uuid \<Rightarrow> (handler_error, unit) tx" where
  "delete_unit_in_transaction env ctx unit_id =
     tx_bind (tx_read (\<lambda>db. ok_or unit_not_found (fetch_unit_for_update unit_id db))) (\<lambda>existing.
     tx_bind (tx_read (require_permission_or env (authorization_actor ctx) Unit_resource (Delete unit_id)
         unit_not_found)) (\<lambda>_.
     tx_bind (tx_map_err from_db_error (delete_unit_from_database (un_unit_id existing))) (\<lambda>_.
     unexpected (record_audit (actor_user_id (ctx_actor ctx)) Audit_Delete Res_Unit
         (Some (un_unit_id existing)) (Details_delete_unit existing)))))"

definition delete_unit ::
    "env \<Rightarrow> laboratory_context \<Rightarrow> uuid \<Rightarrow> database \<Rightarrow> (handler_error, unit) result \<times> database" where
  "delete_unit env ctx unit_id db = transaction (delete_unit_in_transaction env ctx unit_id) db"

definition get_unit :: "env \<Rightarrow> laboratory_context \<Rightarrow> uuid \<Rightarrow> database \<Rightarrow> (handler_error, unit_row) result" where
  "get_unit env ctx unit_id db =
     and_then (require_permission_or env (authorization_actor ctx) Unit_resource (Read unit_id)
         unit_not_found db) (\<lambda>_.
     ok_or unit_not_found (fetch_unit unit_id db))"

definition list_units :: "env \<Rightarrow> laboratory_context \<Rightarrow> database \<Rightarrow> (handler_error, unit_row list) result" where
  "list_units env ctx db =
     and_then (require_permission env (ctx_actor ctx) Unit_resource (Browse (ctx_laboratory_id ctx))
         (lit ''You don't have permission to view units.'') db) (\<lambda>_.
     Inr (fetch_units env (ctx_laboratory_id ctx) db))"

end
