(* ===== verification/Parameter_Values.thy ===== *)
theory Parameter_Values
  imports Units
begin

text \<open>
  Values of asset parameters: \<^verbatim>\<open>domain/asset_parameter_data_type.rs\<close>, the parser of JSON values in
  \<^verbatim>\<open>domain/asset_parameter_value.rs\<close>, and \<^verbatim>\<open>routes/shared/parameter_values.rs\<close>, which turns a
  parsed value into the columns of a stored row and converts numbers to the base unit.
\<close>

section \<open>Data types\<close>

datatype data_type = Text | Number | Range | Boolean | Date | Enum

fun DataType_as_str :: "data_type \<Rightarrow> rstr" where
  "DataType_as_str Text = lit ''text''"
| "DataType_as_str Number = lit ''number''"
| "DataType_as_str Range = lit ''range''"
| "DataType_as_str Boolean = lit ''boolean''"
| "DataType_as_str Date = lit ''date''"
| "DataType_as_str Enum = lit ''enum''"

definition DataType_parse :: "rstr \<Rightarrow> (rstr, data_type) result" where
  "DataType_parse s =
     (if trim s = lit ''text'' then Inr Text
      else if trim s = lit ''number'' then Inr Number
      else if trim s = lit ''range'' then Inr Range
      else if trim s = lit ''boolean'' then Inr Boolean
      else if trim s = lit ''date'' then Inr Date
      else if trim s = lit ''enum'' then Inr Enum
      else Inl (s @ lit '' is not a valid asset parameter data type.''))"

interpretation data_type_name: wire_name DataType_as_str "\<lambda>s. ok (DataType_parse s)" trim
proof
  fix s x
  show "ok (DataType_parse s) = Some x \<longleftrightarrow> trim s = DataType_as_str x"
    by (cases x) (auto simp: DataType_parse_def)
  show "trim (DataType_as_str x) = DataType_as_str x"
    by (cases x) (simp_all add: lit_def trim_def is_whitespace_def)
qed

section \<open>JSON\<close>

text \<open>
  A parsed JSON document. A number stands for the finite \<^verbatim>\<open>f64\<close> that \<^verbatim>\<open>as_f64\<close> reads from it; the
  members of an object have distinct names.
\<close>

datatype json =
    JNull
  | JBool bool
  | JNumber rat
  | JString rstr
  | JArray "json list"
  | JObject "(rstr \<times> json) list"

fun json_get :: "rstr \<Rightarrow> json \<Rightarrow> json option" where
  "json_get field (JObject members) = map_of members field"
| "json_get field _ = None"

fun as_str :: "json \<Rightarrow> rstr option" where
  "as_str (JString s) = Some s"
| "as_str _ = None"

fun as_f64 :: "json \<Rightarrow> f64 option" where
  "as_f64 (JNumber q) = Some (Fin q)"
| "as_f64 _ = None"

fun as_bool :: "json \<Rightarrow> bool option" where
  "as_bool (JBool b) = Some b"
| "as_bool _ = None"

text \<open>\<^verbatim>\<open>value.get(field).and_then(read)\<close>, and \<^verbatim>\<open>first_some\<close> on options.\<close>

definition get_as :: "(json \<Rightarrow> 'a option) \<Rightarrow> rstr \<Rightarrow> json \<Rightarrow> 'a option" where
  "get_as read field value = Option.bind (json_get field value) read"

fun first_some :: "'a option \<Rightarrow> 'a option \<Rightarrow> 'a option" where
  "first_some (Some x) _ = Some x"
| "first_some None y = y"

section \<open>Parsing a value\<close>

datatype parameter_input =
    TextValue rstr
  | NumberValue f64 "uuid option"
  | RangeValue f64 f64 "uuid option"
  | BooleanValue bool
  | DateValue int
  | EnumValue uuid

definition parse_text :: "json \<Rightarrow> (rstr, rstr) result" where
  "parse_text value =
     ok_or (lit ''Text parameter value must be a string'')
       (first_some (as_str value) (get_as as_str (lit ''text'') value))"

definition parse_uuid_field :: "env \<Rightarrow> json \<Rightarrow> rstr \<Rightarrow> (rstr, uuid option) result" where
  "parse_uuid_field env value field =
     (let wrong = field @ lit '' must be a uuid string''
      in and_then (transpose_with (\<lambda>v. ok_or wrong (as_str v)) (json_get field value)) (\<lambda>text.
         transpose_with (\<lambda>s. ok_or wrong (Uuid_parse_str env s)) text))"

definition parse_unit_id :: "env \<Rightarrow> json \<Rightarrow> (rstr, uuid option) result" where
  "parse_unit_id env value = parse_uuid_field env value (lit ''unit_id'')"

definition parse_number :: "env \<Rightarrow> json \<Rightarrow> (rstr, f64 \<times> uuid option) result" where
  "parse_number env value =
     (case as_f64 value of
        Some number \<Rightarrow> Inr (number, None)
      | None \<Rightarrow>
          and_then (ok_or (lit ''Number parameter value must include number'')
              (get_as as_f64 (lit ''number'') value)) (\<lambda>number.
          and_then (parse_unit_id env value) (\<lambda>unit_id.
          Inr (number, unit_id))))"

definition parse_range :: "env \<Rightarrow> json \<Rightarrow> (rstr, f64 \<times> f64 \<times> uuid option) result" where
  "parse_range env value =
     and_then (ok_or (lit ''Range parameter value must include range_start'')
         (Option.bind (first_some (json_get (lit ''range_start'') value) (json_get (lit ''start'') value)) as_f64)) (\<lambda>start.
     and_then (ok_or (lit ''Range parameter value must include range_end'')
         (Option.bind (first_some (json_get (lit ''range_end'') value) (json_get (lit ''end'') value)) as_f64)) (\<lambda>finish.
     and_then (parse_unit_id env value) (\<lambda>unit_id.
     Inr (start, finish, unit_id))))"

definition parse_boolean :: "json \<Rightarrow> (rstr, bool) result" where
  "parse_boolean value =
     ok_or (lit ''Boolean parameter value must be a boolean'')
       (first_some (as_bool value) (get_as as_bool (lit ''boolean'') value))"

definition parse_date :: "env \<Rightarrow> json \<Rightarrow> (rstr, int) result" where
  "parse_date env value =
     and_then (ok_or (lit ''Date parameter value must be an ISO date string'')
         (first_some (as_str value) (get_as as_str (lit ''date'') value))) (\<lambda>date.
     ok_or (lit ''Invalid date parameter value'') (NaiveDate_parse env date))"

definition parse_option :: "env \<Rightarrow> json \<Rightarrow> (rstr, uuid) result" where
  "parse_option env value =
     (case as_str value of
        Some option_id \<Rightarrow> ok_or (lit ''Invalid enum option id'') (Uuid_parse_str env option_id)
      | None \<Rightarrow>
          and_then (parse_uuid_field env value (lit ''option_id'')) (\<lambda>option_id.
          ok_or (lit ''Enum parameter value requires option_id'') option_id))"

fun AssetParameterValue_parse :: "env \<Rightarrow> data_type \<Rightarrow> json \<Rightarrow> (rstr, parameter_input) result" where
  "AssetParameterValue_parse env Text value = and_then (parse_text value) (\<lambda>t. Inr (TextValue t))"
| "AssetParameterValue_parse env Number value =
     and_then (parse_number env value) (\<lambda>(number, unit_id). Inr (NumberValue number unit_id))"
| "AssetParameterValue_parse env Range value =
     and_then (parse_range env value) (\<lambda>(start, finish, unit_id).
       if f64_less finish start then Inl (lit ''range_start cannot exceed range_end'')
       else Inr (RangeValue start finish unit_id))"
| "AssetParameterValue_parse env Boolean value = and_then (parse_boolean value) (\<lambda>b. Inr (BooleanValue b))"
| "AssetParameterValue_parse env Date value = and_then (parse_date env value) (\<lambda>d. Inr (DateValue d))"
| "AssetParameterValue_parse env Enum value = and_then (parse_option env value) (\<lambda>i. Inr (EnumValue i))"

section \<open>From a value to columns\<close>

text \<open>\<^verbatim>\<open>ParameterValueError\<close> has the cases \<open>DbValidation\<close> and \<open>DbUnexpected\<close> of \<open>db_error\<close>.\<close>

record value_definition =
  pd_parameter_type_id :: uuid
  pd_data_type :: rstr
  pd_unit_dimension :: "rstr option"
  pd_default_unit_id :: "uuid option"

record resolved_value =
  rv_parameter_type_id :: uuid
  rv_data_type :: rstr
  rv_columns :: value_columns

definition no_columns :: value_columns where
  "no_columns =
     \<lparr>vc_text = None, vc_number = None, vc_number_in_base = None, vc_range_start = None,
      vc_range_end = None, vc_range_start_in_base = None, vc_range_end_in_base = None,
      vc_unit_id = None, vc_boolean = None, vc_date = None, vc_option_id = None\<rparr>"

definition fetch_parameter_unit :: "uuid \<Rightarrow> database \<Rightarrow> (db_error, unit_row) result" where
  "fetch_parameter_unit i db =
     ok_or (DbValidation (lit ''Unit not found'')) (fetch_optional (\<lambda>r. un_unit_id r = i) (units db))"

definition validate_option :: "uuid \<Rightarrow> uuid \<Rightarrow> database \<Rightarrow> (db_error, unit) result" where
  "validate_option parameter_type_id option_id db =
     ensure (fetch_optional (\<lambda>r. po_parameter_type_id r = parameter_type_id \<and> po_option_id r = option_id)
               (parameter_options db) \<noteq> None)
       (DbValidation (lit ''Asset parameter option not found''))"

definition normalize_unit_value ::
    "value_definition \<Rightarrow> uuid option \<Rightarrow> f64 \<Rightarrow> database \<Rightarrow> (db_error, uuid option \<times> f64 option) result" where
  "normalize_unit_value d unit_id value db =
     (case first_some unit_id (pd_default_unit_id d) of
        None \<Rightarrow> Inr (None, None)
      | Some i \<Rightarrow>
          and_then (fetch_parameter_unit i db) (\<lambda>found.
          case pd_unit_dimension d of
            Some dimension \<Rightarrow>
              if dimension = un_dimension found
              then Inr (Some (un_unit_id found), Some (f64_mul value (un_scale_to_base found)))
              else Inl (DbValidation
                     (lit ''Parameter value unit dimension does not match parameter definition''))
          | None \<Rightarrow> Inl (DbValidation (lit ''Parameter value unit is not allowed for this parameter''))))"

fun resolve_columns ::
    "value_definition \<Rightarrow> parameter_input \<Rightarrow> database \<Rightarrow> (db_error, value_columns) result" where
  "resolve_columns d (TextValue text) db = Inr (no_columns\<lparr>vc_text := Some text\<rparr>)"
| "resolve_columns d (NumberValue number unit_id) db =
     and_then (normalize_unit_value d unit_id number db) (\<lambda>(unit_id, number_base).
     Inr (no_columns\<lparr>vc_number := Some number, vc_number_in_base := number_base, vc_unit_id := unit_id\<rparr>))"
| "resolve_columns d (RangeValue start finish unit_id) db =
     and_then (normalize_unit_value d unit_id start db) (\<lambda>(unit_id, start_base).
     and_then (normalize_unit_value d unit_id finish db) (\<lambda>(_, base_end).
     Inr (no_columns\<lparr>vc_range_start := Some start, vc_range_end := Some finish,
            vc_range_start_in_base := start_base, vc_range_end_in_base := base_end, vc_unit_id := unit_id\<rparr>)))"
| "resolve_columns d (BooleanValue b) db = Inr (no_columns\<lparr>vc_boolean := Some b\<rparr>)"
| "resolve_columns d (DateValue date) db = Inr (no_columns\<lparr>vc_date := Some date\<rparr>)"
| "resolve_columns d (EnumValue option_id) db =
     and_then (validate_option (pd_parameter_type_id d) option_id db) (\<lambda>_.
     Inr (no_columns\<lparr>vc_option_id := Some option_id\<rparr>))"

definition resolve_parameter_value ::
    "env \<Rightarrow> value_definition \<Rightarrow> json \<Rightarrow> database \<Rightarrow> (db_error, resolved_value) result" where
  "resolve_parameter_value env d value db =
     and_then (map_err (\<lambda>_. DbValidation (lit ''Invalid asset parameter data type''))
         (DataType_parse (pd_data_type d))) (\<lambda>dt.
     and_then (map_err DbValidation (AssetParameterValue_parse env dt value)) (\<lambda>input.
     and_then (resolve_columns d input db) (\<lambda>columns.
     Inr \<lparr>rv_parameter_type_id = pd_parameter_type_id d, rv_data_type = pd_data_type d, rv_columns = columns\<rparr>)))"

section \<open>What a row means\<close>

text \<open>The reading of the columns of a type; columns of other types play no part in it.\<close>

fun read_columns :: "data_type \<Rightarrow> value_columns \<Rightarrow> parameter_input option" where
  "read_columns Text c = map_option TextValue (vc_text c)"
| "read_columns Number c = map_option (\<lambda>n. NumberValue n (vc_unit_id c)) (vc_number c)"
| "read_columns Range c =
     (case (vc_range_start c, vc_range_end c) of
        (Some s, Some e) \<Rightarrow> Some (RangeValue s e (vc_unit_id c))
      | _ \<Rightarrow> None)"
| "read_columns Boolean c = map_option BooleanValue (vc_boolean c)"
| "read_columns Date c = map_option DateValue (vc_date c)"
| "read_columns Enum c = map_option EnumValue (vc_option_id c)"

text \<open>A parsed value in the unit it is stored in: the given one, or the default of the parameter.\<close>

fun in_stored_unit :: "value_definition \<Rightarrow> parameter_input \<Rightarrow> parameter_input" where
  "in_stored_unit d (NumberValue n u) = NumberValue n (first_some u (pd_default_unit_id d))"
| "in_stored_unit d (RangeValue s e u) = RangeValue s e (first_some u (pd_default_unit_id d))"
| "in_stored_unit d v = v"

text \<open>The base columns agree with the scale of the unit, of the dimension of the parameter.\<close>

definition base_columns_ok :: "database \<Rightarrow> rstr option \<Rightarrow> value_columns \<Rightarrow> bool" where
  "base_columns_ok db dimension c \<longleftrightarrow>
     (case vc_unit_id c of
        None \<Rightarrow> vc_number_in_base c = None \<and> vc_range_start_in_base c = None \<and> vc_range_end_in_base c = None
      | Some i \<Rightarrow>
          (\<exists>u\<in>set (units db). un_unit_id u = i \<and> dimension = Some (un_dimension u)
             \<and> vc_number_in_base c = map_option (\<lambda>n. f64_mul n (un_scale_to_base u)) (vc_number c)
             \<and> vc_range_start_in_base c = map_option (\<lambda>n. f64_mul n (un_scale_to_base u)) (vc_range_start c)
             \<and> vc_range_end_in_base c = map_option (\<lambda>n. f64_mul n (un_scale_to_base u)) (vc_range_end c)))"

text \<open>
  The JSON of a stored value in a response, the same in both modules. \<^verbatim>\<open>json!\<close> writes \<^verbatim>\<open>null\<close> for
  \<^verbatim>\<open>None\<close> and for a number that is not finite.
\<close>

definition json_opt :: "('a \<Rightarrow> json) \<Rightarrow> 'a option \<Rightarrow> json" where
  "json_opt f v = (case v of None \<Rightarrow> JNull | Some x \<Rightarrow> f x)"

fun json_f64 :: "f64 \<Rightarrow> json" where
  "json_f64 (Fin q) = JNumber q"
| "json_f64 _ = JNull"

definition json_uuid :: "env \<Rightarrow> uuid \<Rightarrow> json" where
  "json_uuid env i = JString (Uuid_to_string env i)"

definition parameter_value_json ::
    "env \<Rightarrow> rstr \<Rightarrow> value_columns \<Rightarrow> rstr option \<Rightarrow> rstr option \<Rightarrow> json" where
  "parameter_value_json env dt c option_code option_label =
     (if dt = lit ''text'' then JObject [(lit ''text'', json_opt JString (vc_text c))]
      else if dt = lit ''number'' then
        JObject [(lit ''number'', json_opt json_f64 (vc_number c)),
                 (lit ''number_in_base'', json_opt json_f64 (vc_number_in_base c)),
                 (lit ''unit_id'', json_opt (json_uuid env) (vc_unit_id c))]
      else if dt = lit ''range'' then
        JObject [(lit ''range_start'', json_opt json_f64 (vc_range_start c)),
                 (lit ''range_end'', json_opt json_f64 (vc_range_end c)),
                 (lit ''range_start_in_base'', json_opt json_f64 (vc_range_start_in_base c)),
                 (lit ''range_end_in_base'', json_opt json_f64 (vc_range_end_in_base c)),
                 (lit ''unit_id'', json_opt (json_uuid env) (vc_unit_id c))]
      else if dt = lit ''boolean'' then JObject [(lit ''boolean'', json_opt JBool (vc_boolean c))]
      else if dt = lit ''date'' then
        JObject [(lit ''date'', json_opt (\<lambda>d. JString (NaiveDate_to_string env d)) (vc_date c))]
      else if dt = lit ''enum'' then
        JObject [(lit ''option_id'', json_opt (json_uuid env) (vc_option_id c)),
                 (lit ''option_code'', json_opt JString option_code),
                 (lit ''option_label'', json_opt JString option_label)]
      else JNull)"

text \<open>The checks of the table, as the second migration leaves them.\<close>

fun columns_present :: "data_type \<Rightarrow> value_columns \<Rightarrow> bool" where
  "columns_present Text c = (vc_text c \<noteq> None)"
| "columns_present Number c = (vc_number c \<noteq> None)"
| "columns_present Range c =
     (case (vc_range_start c, vc_range_end c) of
        (Some s, Some e) \<Rightarrow> f64_less_eq s e
      | _ \<Rightarrow> False)"
| "columns_present Boolean c = (vc_boolean c \<noteq> None)"
| "columns_present Date c = (vc_date c \<noteq> None)"
| "columns_present Enum c = (vc_option_id c \<noteq> None)"

definition value_checks :: "rstr \<Rightarrow> value_columns \<Rightarrow> bool" where
  "value_checks dt c \<longleftrightarrow>
     (case ok (DataType_parse dt) of None \<Rightarrow> False | Some k \<Rightarrow> columns_present k c)
     \<and> (case (vc_range_start_in_base c, vc_range_end_in_base c) of
          (Some s, Some e) \<Rightarrow> f64_less_eq s e
        | _ \<Rightarrow> True)"

section \<open>Resolved values\<close>

fun value_type :: "parameter_input \<Rightarrow> data_type" where
  "value_type (TextValue _) = Text"
| "value_type (NumberValue _ _) = Number"
| "value_type (RangeValue _ _ _) = Range"
| "value_type (BooleanValue _) = Boolean"
| "value_type (DateValue _) = Date"
| "value_type (EnumValue _) = Enum"

lemma parsed_value_type: "AssetParameterValue_parse env dt value = Inr v \<Longrightarrow> value_type v = dt"
  by (cases dt) (auto simp: and_then_Inr_iff split: prod.splits if_splits)

lemma parsed_range_ordered:
  assumes "AssetParameterValue_parse env dt value = Inr (RangeValue s e u)"
  shows "f64_less_eq s e"
proof -
  have "\<exists>p q. s = Fin p \<and> e = Fin q \<and> \<not> q < p"
    using assms parsed_value_type [OF assms]
    by (auto simp: and_then_Inr_iff parse_range_def ok_or_Inr_iff bind_eq_Some_conv
        elim!: as_f64.elims split: prod.splits if_splits)
  then show ?thesis
    by (auto simp: f64_less_eq_def)
qed

lemma normalize_unit_value_Inr:
  assumes "normalize_unit_value d unit_id x db = Inr (i, base)"
  shows "i = first_some unit_id (pd_default_unit_id d)"
    and "case i of None \<Rightarrow> base = None
       | Some k \<Rightarrow> \<exists>u\<in>set (units db). un_unit_id u = k \<and> fetch_optional (\<lambda>r. un_unit_id r = k) (units db) = Some u
            \<and> pd_unit_dimension d = Some (un_dimension u)
            \<and> base = Some (f64_mul x (un_scale_to_base u))"
proof -
  have "i = first_some unit_id (pd_default_unit_id d) \<and> (case i of None \<Rightarrow> base = None
       | Some k \<Rightarrow> \<exists>u\<in>set (units db). un_unit_id u = k \<and> fetch_optional (\<lambda>r. un_unit_id r = k) (units db) = Some u
            \<and> pd_unit_dimension d = Some (un_dimension u)
            \<and> base = Some (f64_mul x (un_scale_to_base u)))"
  proof (cases "first_some unit_id (pd_default_unit_id d)")
    case (Some k)
    with assms obtain u dim where u: "fetch_optional (\<lambda>r. un_unit_id r = k) (units db) = Some u"
        "pd_unit_dimension d = Some dim" "dim = un_dimension u"
        "i = Some (un_unit_id u)" "base = Some (f64_mul x (un_scale_to_base u))"
      by (auto simp: normalize_unit_value_def fetch_parameter_unit_def and_then_Inr_iff ok_or_Inr_iff
          split: option.splits if_splits)
    with Some fetch_optional_Some [OF u(1)] show ?thesis
      by auto
  qed (use assms in \<open>simp add: normalize_unit_value_def\<close>)
  then show "i = first_some unit_id (pd_default_unit_id d)"
    and "case i of None \<Rightarrow> base = None
       | Some k \<Rightarrow> \<exists>u\<in>set (units db). un_unit_id u = k \<and> fetch_optional (\<lambda>r. un_unit_id r = k) (units db) = Some u
            \<and> pd_unit_dimension d = Some (un_dimension u)
            \<and> base = Some (f64_mul x (un_scale_to_base u))"
    by blast+
qed

lemma or_else_stable [simp]: "first_some (first_some u v) v = first_some u v"
  by (cases u; cases v) auto

lemma resolve_columns_Inr:
  assumes "resolve_columns d v db = Inr c"
  shows "read_columns (value_type v) c = Some (in_stored_unit d v) \<and> base_columns_ok db (pd_unit_dimension d) c"
proof (cases v)
  case (NumberValue n u)
  with assms obtain i b where n: "normalize_unit_value d u n db = Inr (i, b)"
      and c: "c = no_columns\<lparr>vc_number := Some n, vc_number_in_base := b, vc_unit_id := i\<rparr>"
    by (auto simp: and_then_Inr_iff)
  show ?thesis
  proof (cases i)
    case None
    with normalize_unit_value_Inr [OF n] show ?thesis
      by (simp add: NumberValue c base_columns_ok_def no_columns_def)
  next
    case (Some k)
    with normalize_unit_value_Inr(2) [OF n] obtain w where "w \<in> set (units db)" "un_unit_id w = k"
        "pd_unit_dimension d = Some (un_dimension w)" "b = Some (f64_mul n (un_scale_to_base w))"
      by auto
    then show ?thesis
      using Some normalize_unit_value_Inr(1) [OF n]
      by (auto simp: NumberValue c base_columns_ok_def no_columns_def intro!: bexI [of _ w])
  qed
next
  case (RangeValue s e u)
  with assms obtain i b j b' where n: "normalize_unit_value d u s db = Inr (i, b)"
        "normalize_unit_value d i e db = Inr (j, b')"
      and c: "c = no_columns\<lparr>vc_range_start := Some s, vc_range_end := Some e, vc_range_start_in_base := b,
           vc_range_end_in_base := b', vc_unit_id := i\<rparr>"
    by (auto simp: and_then_Inr_iff)
  have "j = i"
    using normalize_unit_value_Inr(1) [OF n(1)] normalize_unit_value_Inr(1) [OF n(2)] by simp
  show ?thesis
  proof (cases i)
    case None
    with \<open>j = i\<close> normalize_unit_value_Inr [OF n(1)] normalize_unit_value_Inr(2) [OF n(2)] show ?thesis
      by (simp add: RangeValue c base_columns_ok_def no_columns_def)
  next
    case (Some k)
    with normalize_unit_value_Inr(2) [OF n(1)] obtain w where w: "w \<in> set (units db)" "un_unit_id w = k"
        "fetch_optional (\<lambda>r. un_unit_id r = k) (units db) = Some w"
        "pd_unit_dimension d = Some (un_dimension w)" "b = Some (f64_mul s (un_scale_to_base w))"
      by auto
    moreover from Some \<open>j = i\<close> normalize_unit_value_Inr(2) [OF n(2)] w(3)
    have "b' = Some (f64_mul e (un_scale_to_base w))"
      by auto
    ultimately show ?thesis
      using Some normalize_unit_value_Inr(1) [OF n(1)]
      by (auto simp: RangeValue c base_columns_ok_def no_columns_def intro!: bexI [of _ w])
  qed
qed (use assms in \<open>auto simp: base_columns_ok_def no_columns_def and_then_Inr_iff\<close>)

text \<open>
  The stored columns are the value that was sent, in the unit it was sent in or the default one,
  with base columns that agree with the scale of that unit.
\<close>

lemma resolve_parameter_value_Inr:
  assumes "resolve_parameter_value env d value db = Inr rv"
  obtains dt v where "DataType_parse (pd_data_type d) = Inr dt" "AssetParameterValue_parse env dt value = Inr v"
    "rv_parameter_type_id rv = pd_parameter_type_id d" "rv_data_type rv = pd_data_type d"
    "resolve_columns d v db = Inr (rv_columns rv)"
    "read_columns dt (rv_columns rv) = Some (in_stored_unit d v)"
    "base_columns_ok db (pd_unit_dimension d) (rv_columns rv)"
proof -
  from assms obtain dt v c where p: "DataType_parse (pd_data_type d) = Inr dt"
      "AssetParameterValue_parse env dt value = Inr v" "resolve_columns d v db = Inr c"
      "rv = \<lparr>rv_parameter_type_id = pd_parameter_type_id d, rv_data_type = pd_data_type d, rv_columns = c\<rparr>"
    by (auto simp: resolve_parameter_value_def and_then_Inr_iff map_err_Inr_iff)
  with resolve_columns_Inr [OF p(3)] parsed_value_type [OF p(2)] show ?thesis
    by (intro that [of dt v]) auto
qed

end
