(* ===== verification/Asset_Parameters.thy ===== *)
theory Asset_Parameters
  imports Parameter_Values
begin

text \<open>
  \<^verbatim>\<open>routes/asset_parameters/\<close> and its types of \<^verbatim>\<open>domain/\<close>: the definitions of the parameters a
  laboratory states about its assets, the options of the enumerations among them, the migration
  of the stored values when a parameter changes its data type. The statements of \<^verbatim>\<open>queries.rs\<close>, the
  flows of \<^verbatim>\<open>service.rs\<close>, the six handlers.
\<close>

section \<open>Names, codes, payloads\<close>

definition AssetParameterCode_parse :: "rstr \<Rightarrow> (rstr, rstr) result" where
  "AssetParameterCode_parse =
     parse_identifier (lit ''code is required'') (lit '' is not a valid asset parameter code.'')"

definition AssetParameterName_parse :: "env \<Rightarrow> rstr \<Rightarrow> (rstr, rstr) result" where
  "AssetParameterName_parse env =
     parse_name env 256 forbidden_characters (lit '' is not a valid asset parameter name.'')"

definition AssetParameterOptionLabel_parse :: "env \<Rightarrow> rstr \<Rightarrow> (rstr, rstr) result" where
  "AssetParameterOptionLabel_parse env =
     parse_name env 256 [] (lit '' is not a valid asset parameter option label.'')"

text \<open>An option as sent, with the id of a stored option in an update only, and after validation.\<close>

record option_payload =
  op_option_id :: "uuid option"
  op_code :: rstr
  op_label :: rstr
  op_sort_order :: "i32 option"

record option_input =
  oi_option_id :: "uuid option"
  oi_code :: rstr
  oi_label :: rstr
  oi_sort_order :: i32

definition AssetParameterOption_try_from :: "env \<Rightarrow> option_payload \<Rightarrow> (rstr, option_input) result" where
  "AssetParameterOption_try_from env p =
     and_then (AssetParameterCode_parse (op_code p)) (\<lambda>code.
     and_then (AssetParameterOptionLabel_parse env (op_label p)) (\<lambda>label.
     Inr \<lparr>oi_option_id = op_option_id p, oi_code = code, oi_label = label,
          oi_sort_order = coalesce (op_sort_order p) 0\<rparr>))"

record parameter_payload =
  pp_code :: rstr
  pp_name :: rstr
  pp_data_type :: rstr
  pp_unit_dimension :: "rstr option"
  pp_default_unit_id :: "uuid option"
  pp_description :: "rstr option"
  pp_options :: "option_payload list option"

record new_parameter =
  np_code :: rstr
  np_name :: rstr
  np_data_type :: data_type
  np_unit_dimension :: "rstr option"
  np_default_unit_id :: "uuid option"
  np_description :: "rstr option"
  np_options :: "option_input list"

definition NewAssetParameter_try_from :: "env \<Rightarrow> parameter_payload \<Rightarrow> (rstr, new_parameter) result" where
  "NewAssetParameter_try_from env p =
     and_then (collect_map (AssetParameterOption_try_from env) (coalesce (pp_options p) [])) (\<lambda>options.
     and_then (AssetParameterCode_parse (pp_code p)) (\<lambda>code.
     and_then (AssetParameterName_parse env (pp_name p)) (\<lambda>name.
     and_then (DataType_parse (pp_data_type p)) (\<lambda>dt.
     and_then (transpose_with UnitDimension_parse (pp_unit_dimension p)) (\<lambda>dimension.
     Inr \<lparr>np_code = code, np_name = name, np_data_type = dt, np_unit_dimension = dimension,
          np_default_unit_id = pp_default_unit_id p, np_description = pp_description p,
          np_options = options\<rparr>)))))"

text \<open>The migration of one value: no target removes it.\<close>

type_synonym value_migration = "uuid \<times> json option"

record parameter_change_payload =
  cq_code :: "rstr option"
  cq_name :: "rstr option"
  cq_data_type :: "rstr option"
  cq_unit_dimension :: "rstr option option"
  cq_default_unit_id :: "uuid option option"
  cq_description :: "rstr option option"
  cq_options :: "option_payload list option"
  cq_value_migrations :: "(uuid \<times> json) list option"

record parameter_change =
  ch_code :: "rstr option"
  ch_name :: "rstr option"
  ch_data_type :: "data_type option"
  ch_unit_dimension :: "rstr nullable_update"
  ch_default_unit_id :: "uuid nullable_update"
  ch_description :: "rstr nullable_update"
  ch_options :: "option_input list option"
  ch_value_migrations :: "value_migration list option"

definition ValueMigration_from :: "uuid \<times> json \<Rightarrow> value_migration" where
  "ValueMigration_from m = (fst m, if snd m = JNull then None else Some (snd m))"

definition UpdateAssetParameter_try_from ::
    "env \<Rightarrow> parameter_change_payload \<Rightarrow> (rstr, parameter_change) result" where
  "UpdateAssetParameter_try_from env p =
     and_then (case cq_unit_dimension p of
           Some (Some d) \<Rightarrow> and_then (UnitDimension_parse d) (\<lambda>d. Inr (Set_to d))
         | Some None \<Rightarrow> Inr Clear
         | None \<Rightarrow> Inr Unchanged) (\<lambda>dimension.
     and_then (transpose_with (collect_map (AssetParameterOption_try_from env)) (cq_options p)) (\<lambda>options.
     and_then (transpose_with AssetParameterCode_parse (cq_code p)) (\<lambda>code.
     and_then (transpose_with (AssetParameterName_parse env) (cq_name p)) (\<lambda>name.
     and_then (transpose_with DataType_parse (cq_data_type p)) (\<lambda>dt.
     Inr \<lparr>ch_code = code, ch_name = name, ch_data_type = dt, ch_unit_dimension = dimension,
          ch_default_unit_id = into_nullable_update (cq_default_unit_id p),
          ch_description = into_nullable_update (cq_description p), ch_options = options,
          ch_value_migrations = map_option (map ValueMigration_from) (cq_value_migrations p)\<rparr>)))))"

section \<open>Errors and constraints of the tables\<close>

definition parameter_code_key :: rstr where
  "parameter_code_key = lit ''asset_parameter_types_laboratory_id_code_key''"

definition option_code_key :: rstr where
  "option_code_key = lit ''asset_parameter_options_parameter_type_id_code_key''"

fun map_parameter_error :: "sql_error \<Rightarrow> db_error" where
  "map_parameter_error (UniqueViolation constraint) =
     (if constraint = parameter_code_key
      then DbConflict (lit ''Asset parameter code already exists in this laboratory'')
      else if constraint = option_code_key
      then DbConflict (lit ''Asset parameter option code already exists'')
      else DbConflict (lit ''Asset parameter already exists''))"
| "map_parameter_error ForeignKeyViolation = DbValidation (lit ''Invalid referenced record'')"
| "map_parameter_error CheckViolation = DbValidation (lit ''Invalid asset parameter'')"
| "map_parameter_error (OtherSqlError e) = DbUnexpected e"

fun map_option_delete_error :: "sql_error \<Rightarrow> db_error" where
  "map_option_delete_error ForeignKeyViolation =
     DbConflict (lit ''Asset parameter option is referenced by asset values'')"
| "map_option_delete_error e = map_parameter_error e"

definition numeric_type :: "rstr \<Rightarrow> bool" where
  "numeric_type dt \<longleftrightarrow> dt = lit ''number'' \<or> dt = lit ''range''"

text \<open>The data type is of a type of the database that has just the six names.\<close>

definition parameter_checks :: "parameter_type_row \<Rightarrow> bool" where
  "parameter_checks r \<longleftrightarrow>
     pt_data_type r \<in> DataType_as_str ` {Text, Number, Range, Boolean, Date, Enum}
     \<and> code_check (pt_code r) \<and> pt_name r \<noteq> []
     \<and> (numeric_type (pt_data_type r) \<or> (pt_unit_dimension r = None \<and> pt_default_unit_id r = None))"

definition parameter_violation ::
    "database \<Rightarrow> parameter_type_row list \<Rightarrow> parameter_type_row \<Rightarrow> sql_error option" where
  "parameter_violation db others r =
     (if \<not> parameter_checks r then Some CheckViolation
      else if \<exists>s\<in>set others. pt_parameter_type_id s = pt_parameter_type_id r
      then Some (UniqueViolation (lit ''asset_parameter_types_pkey''))
      else if \<exists>s\<in>set others. pt_laboratory_id s = pt_laboratory_id r \<and> pt_code s = pt_code r
      then Some (UniqueViolation parameter_code_key)
      else if \<not> (pt_laboratory_id r \<in> set (laboratories db)
                 \<and> (case pt_unit_dimension r of None \<Rightarrow> True | Some d \<Rightarrow> d \<in> set (unit_dimensions db))
                 \<and> (case pt_default_unit_id r of None \<Rightarrow> True
                    | Some u \<Rightarrow> \<exists>w\<in>set (units db). un_unit_id w = u))
      then Some ForeignKeyViolation
      else None)"

definition option_violation :: "database \<Rightarrow> option_row list \<Rightarrow> option_row \<Rightarrow> sql_error option" where
  "option_violation db others r =
     (if po_code r = [] \<or> po_label r = [] then Some CheckViolation
      else if \<exists>s\<in>set others. po_option_id s = po_option_id r
      then Some (UniqueViolation (lit ''asset_parameter_options_pkey''))
      else if \<exists>s\<in>set others. po_parameter_type_id s = po_parameter_type_id r \<and> po_code s = po_code r
      then Some (UniqueViolation option_code_key)
      else if \<not> (\<exists>t\<in>set (asset_parameter_types db). pt_parameter_type_id t = po_parameter_type_id r)
      then Some ForeignKeyViolation
      else None)"

text \<open>
  A value row when it is written. The key to its parameter and data type is checked at the end of
  the transaction.
\<close>

definition value_violation :: "database \<Rightarrow> value_row list \<Rightarrow> value_row \<Rightarrow> sql_error option" where
  "value_violation db others r =
     (if \<not> value_checks (pv_data_type r) (pv_columns r) then Some CheckViolation
      else if \<exists>s\<in>set others. pv_value_id s = pv_value_id r
      then Some (UniqueViolation (lit ''asset_parameter_values_pkey''))
      else if \<exists>s\<in>set others. pv_asset_id s = pv_asset_id r \<and> pv_parameter_type_id s = pv_parameter_type_id r
      then Some (UniqueViolation (lit ''asset_parameter_values_asset_id_parameter_type_id_key''))
      else if \<not> (pv_laboratory_id r \<in> set (laboratories db)
                 \<and> (\<exists>a\<in>set (assets db). as_asset_id a = pv_asset_id r)
                 \<and> (case vc_unit_id (pv_columns r) of None \<Rightarrow> True
                    | Some u \<Rightarrow> \<exists>w\<in>set (units db). un_unit_id w = u)
                 \<and> (case vc_option_id (pv_columns r) of None \<Rightarrow> True
                    | Some i \<Rightarrow> \<exists>q\<in>set (parameter_options db).
                         po_option_id q = i \<and> po_parameter_type_id q = pv_parameter_type_id r))
      then Some ForeignKeyViolation
      else None)"

definition deferred_ok :: "database \<Rightarrow> bool" where
  "deferred_ok db \<longleftrightarrow>
     (\<forall>v\<in>set (parameter_values db). \<exists>t\<in>set (asset_parameter_types db).
        pt_parameter_type_id t = pv_parameter_type_id v \<and> pt_data_type t = pv_data_type v)"

text \<open>\<^verbatim>\<open>transaction.commit()\<close>, where the deferred key is checked.\<close>

definition commit :: "(handler_error, unit) tx" where
  "commit = tx_read (\<lambda>db. ensure (deferred_ok db) (UnexpectedError (lit ''Failed to commit SQL transaction'')))"

lemma commit_Inr [tx_unfold]: "commit db = Inr (u, db') \<longleftrightarrow> deferred_ok db \<and> db' = db"
  by (auto simp: commit_def tx_unfold ensure_Inr_iff)

section \<open>Statements\<close>

definition fetch_asset_parameter :: "uuid \<Rightarrow> database \<Rightarrow> parameter_type_row option" where
  "fetch_asset_parameter i db = fetch_optional (\<lambda>r. pt_parameter_type_id r = i) (asset_parameter_types db)"

definition fetch_asset_parameter_for_update :: "uuid \<Rightarrow> database \<Rightarrow> parameter_type_row option" where
  "fetch_asset_parameter_for_update i db = fetch_asset_parameter i db"

definition fetch_asset_parameters :: "env \<Rightarrow> uuid \<Rightarrow> database \<Rightarrow> parameter_type_row list" where
  "fetch_asset_parameters env lab db =
     sort_key (\<lambda>r. collation_key env (pt_code r))
       (filter (\<lambda>r. pt_laboratory_id r = lab) (asset_parameter_types db))"

definition insert_asset_parameter ::
    "env \<Rightarrow> uuid \<Rightarrow> uuid \<Rightarrow> rstr \<Rightarrow> rstr \<Rightarrow> data_type \<Rightarrow> rstr option \<Rightarrow> uuid option \<Rightarrow> rstr option
       \<Rightarrow> (db_error, parameter_type_row) tx" where
  "insert_asset_parameter env i lab code name dt dimension default_unit description =
     (let row = \<lparr>pt_parameter_type_id = i, pt_laboratory_id = lab, pt_code = code, pt_name = name,
          pt_data_type = DataType_as_str dt, pt_unit_dimension = dimension,
          pt_default_unit_id = default_unit, pt_description = description,
          pt_created_at = env_now env, pt_updated_at = env_now env\<rparr>
      in tx_bind (tx_map_err map_parameter_error (tx_write (\<lambda>db.
             case parameter_violation db (asset_parameter_types db) row of
               Some e \<Rightarrow> Inl e
             | None \<Rightarrow> Inr (db\<lparr>asset_parameter_types := asset_parameter_types db @ [row]\<rparr>))))
           (\<lambda>_. tx_return row))"

definition set_parameter ::
    "rstr \<Rightarrow> rstr \<Rightarrow> data_type \<Rightarrow> rstr option \<Rightarrow> uuid option \<Rightarrow> rstr option \<Rightarrow> int
       \<Rightarrow> parameter_type_row \<Rightarrow> parameter_type_row" where
  "set_parameter code name dt dimension default_unit description now r =
     r\<lparr>pt_code := code, pt_name := name, pt_data_type := DataType_as_str dt, pt_unit_dimension := dimension,
       pt_default_unit_id := default_unit, pt_description := description, pt_updated_at := now\<rparr>"

definition update_asset_parameter_in_database ::
    "env \<Rightarrow> uuid \<Rightarrow> rstr \<Rightarrow> rstr \<Rightarrow> data_type \<Rightarrow> rstr option \<Rightarrow> uuid option \<Rightarrow> rstr option
       \<Rightarrow> (db_error, parameter_type_row) tx" where
  "update_asset_parameter_in_database env i code name dt dimension default_unit description =
     tx_bind (tx_map_err map_parameter_error (tx_write (\<lambda>db.
         and_then (write_row (parameter_violation db) pt_parameter_type_id
             (set_parameter code name dt dimension default_unit description (env_now env)) i
             (asset_parameter_types db))
           (\<lambda>rows. Inr (db\<lparr>asset_parameter_types := rows\<rparr>)))))
       (\<lambda>_. tx_read (\<lambda>db. ok_or (DbUnexpected (lit ''no rows returned'')) (fetch_asset_parameter i db)))"

text \<open>Options, assignments and values go with their parameter (\<^verbatim>\<open>ON DELETE CASCADE\<close>); nothing else refers to it.\<close>

definition delete_asset_parameter_from_database :: "uuid \<Rightarrow> (db_error, unit) tx" where
  "delete_asset_parameter_from_database i =
     tx_write (\<lambda>db. Inr (db\<lparr>
       asset_parameter_types := filter (\<lambda>r. pt_parameter_type_id r \<noteq> i) (asset_parameter_types db),
       parameter_options := filter (\<lambda>r. po_parameter_type_id r \<noteq> i) (parameter_options db),
       parameter_assignments := filter (\<lambda>r. ag_parameter_type_id r \<noteq> i) (parameter_assignments db),
       parameter_values := filter (\<lambda>r. pv_parameter_type_id r \<noteq> i) (parameter_values db)\<rparr>))"

definition fetch_asset_parameter_options :: "env \<Rightarrow> uuid \<Rightarrow> database \<Rightarrow> option_row list" where
  "fetch_asset_parameter_options env i db =
     sort_key (\<lambda>r. (sint (po_sort_order r), collation_key env (po_label r), collation_key env (po_code r)))
       (filter (\<lambda>r. po_parameter_type_id r = i) (parameter_options db))"

definition fetch_asset_parameter_options_for_update :: "env \<Rightarrow> uuid \<Rightarrow> database \<Rightarrow> option_row list" where
  "fetch_asset_parameter_options_for_update env i db = fetch_asset_parameter_options env i db"

text \<open>The three insertions of an option differ in where code, label and sort order come from.\<close>

definition insert_option_row ::
    "uuid \<Rightarrow> uuid \<Rightarrow> rstr \<Rightarrow> rstr \<Rightarrow> i32 \<Rightarrow> (db_error, option_row) tx" where
  "insert_option_row i parameter_id code label sort_order =
     (let row = \<lparr>po_option_id = i, po_parameter_type_id = parameter_id, po_code = code, po_label = label,
          po_sort_order = sort_order\<rparr>
      in tx_bind (tx_map_err map_parameter_error (tx_write (\<lambda>db.
             case option_violation db (parameter_options db) row of
               Some e \<Rightarrow> Inl e
             | None \<Rightarrow> Inr (db\<lparr>parameter_options := parameter_options db @ [row]\<rparr>))))
           (\<lambda>_. tx_return row))"

definition insert_new_asset_parameter_option :: "uuid \<Rightarrow> uuid \<Rightarrow> option_input \<Rightarrow> (db_error, option_row) tx" where
  "insert_new_asset_parameter_option i parameter_id option =
     insert_option_row i parameter_id (oi_code option) (oi_label option) (oi_sort_order option)"

definition insert_asset_parameter_option :: "uuid \<Rightarrow> uuid \<Rightarrow> option_input \<Rightarrow> (db_error, unit) tx" where
  "insert_asset_parameter_option i parameter_id option =
     tx_bind (insert_option_row i parameter_id (oi_code option) (oi_label option) (oi_sort_order option))
       (\<lambda>_. tx_return ())"

definition insert_migrated_asset_parameter_option :: "uuid \<Rightarrow> uuid \<Rightarrow> rstr \<Rightarrow> rstr \<Rightarrow> (db_error, uuid) tx" where
  "insert_migrated_asset_parameter_option i parameter_id code label =
     tx_bind (insert_option_row i parameter_id code label 0) (\<lambda>row. tx_return (po_option_id row))"

definition change_option :: "option_input \<Rightarrow> option_row \<Rightarrow> option_row" where
  "change_option option r =
     r\<lparr>po_code := oi_code option, po_label := oi_label option, po_sort_order := oi_sort_order option\<rparr>"

definition update_asset_parameter_option :: "uuid \<Rightarrow> option_input \<Rightarrow> (db_error, unit) tx" where
  "update_asset_parameter_option i option =
     tx_map_err map_parameter_error (tx_write (\<lambda>db.
       and_then (write_row (option_violation db) po_option_id (change_option option) i (parameter_options db))
         (\<lambda>rows. Inr (db\<lparr>parameter_options := rows\<rparr>))))"

text \<open>The options of a parameter outside a set; a value that picked one of them keeps it.\<close>

definition drop_options :: "uuid \<Rightarrow> uuid list \<Rightarrow> (sql_error, unit) tx" where
  "drop_options parameter_id kept =
     tx_write (\<lambda>db.
       let gone = (\<lambda>r. po_parameter_type_id r = parameter_id \<and> po_option_id r \<notin> set kept)
       in if \<exists>r\<in>set (parameter_options db). gone r
               \<and> (\<exists>v\<in>set (parameter_values db). pv_parameter_type_id v = po_parameter_type_id r
                    \<and> vc_option_id (pv_columns v) = Some (po_option_id r))
          then Inl ForeignKeyViolation
          else Inr (db\<lparr>parameter_options := filter (\<lambda>r. \<not> gone r) (parameter_options db)\<rparr>))"

definition delete_removed_asset_parameter_options :: "uuid \<Rightarrow> uuid list \<Rightarrow> (db_error, unit) tx" where
  "delete_removed_asset_parameter_options parameter_id retained =
     tx_map_err map_option_delete_error (drop_options parameter_id retained)"

definition delete_asset_parameter_options :: "uuid \<Rightarrow> (db_error, unit) tx" where
  "delete_asset_parameter_options parameter_id = tx_map_err map_option_delete_error (drop_options parameter_id [])"

text \<open>\<^verbatim>\<open>ORDER BY assets.name, assets.model, asset_id\<close>, an absent model last.\<close>

definition value_order :: "env \<Rightarrow> parameter_value \<Rightarrow> nat list \<times> (nat \<times> nat list) \<times> uuid" where
  "value_order env v =
     (collation_key env (vv_asset_name v),
      (case vv_asset_model v of None \<Rightarrow> (1, []) | Some m \<Rightarrow> (0, collation_key env m)),
      pv_asset_id (vv_row v))"

definition value_with_asset :: "database \<Rightarrow> value_row \<Rightarrow> asset_row \<Rightarrow> parameter_value" where
  "value_with_asset db v a =
     (let picked = (case vc_option_id (pv_columns v) of None \<Rightarrow> None
            | Some i \<Rightarrow> fetch_optional (\<lambda>q. po_option_id q = i) (parameter_options db))
      in \<lparr>vv_row = v, vv_asset_name = as_name a, vv_asset_model = as_model a,
          vv_option_code = map_option po_code picked, vv_option_label = map_option po_label picked\<rparr>)"

definition fetch_asset_parameter_values :: "env \<Rightarrow> uuid \<Rightarrow> database \<Rightarrow> parameter_value list" where
  "fetch_asset_parameter_values env i db =
     sort_key (value_order env)
       (concat (map (\<lambda>v. map (value_with_asset db v) (filter (\<lambda>a. as_asset_id a = pv_asset_id v) (assets db)))
          (filter (\<lambda>v. pv_parameter_type_id v = i) (parameter_values db))))"

definition fetch_asset_parameter_values_for_update :: "env \<Rightarrow> uuid \<Rightarrow> database \<Rightarrow> parameter_value list" where
  "fetch_asset_parameter_values_for_update env i db = fetch_asset_parameter_values env i db"

definition fetch_asset_parameter_option_id_by_code :: "uuid \<Rightarrow> rstr \<Rightarrow> database \<Rightarrow> uuid option" where
  "fetch_asset_parameter_option_id_by_code parameter_id code db =
     map_option po_option_id
       (fetch_optional (\<lambda>r. po_parameter_type_id r = parameter_id \<and> po_code r = code) (parameter_options db))"

definition fetch_asset_parameter_assignments_for_update :: "uuid \<Rightarrow> database \<Rightarrow> assignment_row list" where
  "fetch_asset_parameter_assignments_for_update i db =
     sort_key (\<lambda>r. (ag_created_at r, ag_assignment_id r))
       (filter (\<lambda>r. ag_parameter_type_id r = i) (parameter_assignments db))"

definition fetch_unit_dimension_for_update :: "uuid \<Rightarrow> database \<Rightarrow> rstr option" where
  "fetch_unit_dimension_for_update i db =
     map_option un_dimension (fetch_optional (\<lambda>r. un_unit_id r = i) (units db))"

text \<open>
  The columns of the new type are replaced, those of the others stay, but for the option, which
  is cleared by every other type.
\<close>

definition migrate_columns :: "data_type \<Rightarrow> value_columns \<Rightarrow> value_columns \<Rightarrow> value_columns" where
  "migrate_columns dt new c =
     \<lparr>vc_text = (if dt = Text then vc_text new else vc_text c),
      vc_number = (if dt = Number then vc_number new else vc_number c),
      vc_number_in_base = (if dt = Number then vc_number_in_base new else vc_number_in_base c),
      vc_range_start = (if dt = Range then vc_range_start new else vc_range_start c),
      vc_range_end = (if dt = Range then vc_range_end new else vc_range_end c),
      vc_range_start_in_base = (if dt = Range then vc_range_start_in_base new else vc_range_start_in_base c),
      vc_range_end_in_base = (if dt = Range then vc_range_end_in_base new else vc_range_end_in_base c),
      vc_unit_id = (if dt = Number \<or> dt = Range then vc_unit_id new else vc_unit_id c),
      vc_boolean = (if dt = Boolean then vc_boolean new else vc_boolean c),
      vc_date = (if dt = Date then vc_date new else vc_date c),
      vc_option_id = (if dt = Enum then vc_option_id new else None)\<rparr>"

definition migrate_row :: "env \<Rightarrow> data_type \<Rightarrow> value_columns \<Rightarrow> value_row \<Rightarrow> value_row" where
  "migrate_row env dt new r =
     r\<lparr>pv_data_type := DataType_as_str dt, pv_columns := migrate_columns dt new (pv_columns r),
       pv_updated_at := env_now env\<rparr>"

definition migrate_asset_parameter_value_in_database ::
    "env \<Rightarrow> uuid \<Rightarrow> data_type \<Rightarrow> resolved_value \<Rightarrow> (db_error, unit) tx" where
  "migrate_asset_parameter_value_in_database env value_id dt value =
     tx_map_err map_parameter_error (tx_write (\<lambda>db.
       and_then (write_row (value_violation db) pv_value_id (migrate_row env dt (rv_columns value)) value_id
           (parameter_values db))
         (\<lambda>rows. Inr (db\<lparr>parameter_values := rows\<rparr>))))"

definition delete_asset_parameter_value_from_database :: "uuid \<Rightarrow> (db_error, unit) tx" where
  "delete_asset_parameter_value_from_database value_id =
     tx_write (\<lambda>db. Inr (db\<lparr>parameter_values :=
       filter (\<lambda>v. pv_value_id v \<noteq> value_id) (parameter_values db)\<rparr>))"

end
