(* ===== verification/Asset_Categories.thy ===== *)
theory Asset_Categories
  imports Path_Tree Handlers "HOL-Library.Product_Lexorder"
begin

text \<open>
  \<^verbatim>\<open>routes/asset_categories/\<close> and the category types of \<^verbatim>\<open>domain/\<close>: a second tree of the same shape
  as the locations, whose nodes carry the parameters their assets must state. The statements of
  \<^verbatim>\<open>queries.rs\<close>, the flows of \<^verbatim>\<open>service.rs\<close>, the five handlers. \<^verbatim>\<open>AssetCategoryDatabaseError\<close> has the
  cases of \<open>db_error\<close> but \<open>DbNotFound\<close>.
\<close>

section \<open>Names and codes\<close>

definition AssetCategoryName_parse :: "env \<Rightarrow> rstr \<Rightarrow> (rstr, rstr) result" where
  "AssetCategoryName_parse env s =
     (let trimmed = trim s
      in if trimmed = [] \<or> 256 < graphemes_count env trimmed
            \<or> list_ex (\<lambda>c. c \<in> set forbidden_characters) trimmed
         then Inl (s @ lit '' is not a valid asset category name.'')
         else Inr trimmed)"

definition AssetCategoryCode_parse :: "rstr \<Rightarrow> (rstr, rstr) result" where
  "AssetCategoryCode_parse s =
     (let code = trim s
      in case code of
           [] \<Rightarrow> Inl (lit ''code is required'')
         | first # chars \<Rightarrow>
             if \<not> is_ascii_lowercase first then Inl (s @ lit '' is not a valid asset category code.'')
             else if 64 < str_len code \<or> \<not> list_all is_code_char chars
             then Inl (s @ lit '' is not a valid asset category code.'')
             else Inr code)"

record new_category =
  nc_parent_category_id :: "uuid option"
  nc_name :: rstr
  nc_code :: rstr
  nc_description :: "rstr option"

definition NewAssetCategory_try_from :: "env \<Rightarrow> new_category \<Rightarrow> (rstr, new_category) result" where
  "NewAssetCategory_try_from env p =
     and_then (AssetCategoryName_parse env (nc_name p)) (\<lambda>name.
     and_then (AssetCategoryCode_parse (nc_code p)) (\<lambda>code.
     Inr (p\<lparr>nc_name := name, nc_code := code\<rparr>)))"

record category_payload =
  cp_parent_category_id :: "uuid option option"
  cp_name :: "rstr option"
  cp_code :: "rstr option"
  cp_description :: "rstr option option"

record category_change =
  uc_parent_category_id :: "uuid nullable_update"
  uc_name :: "rstr option"
  uc_code :: "rstr option"
  uc_description :: "rstr nullable_update"

definition UpdateAssetCategory_try_from :: "env \<Rightarrow> category_payload \<Rightarrow> (rstr, category_change) result" where
  "UpdateAssetCategory_try_from env p =
     and_then (transpose_with (AssetCategoryName_parse env) (cp_name p)) (\<lambda>name.
     and_then (transpose_with AssetCategoryCode_parse (cp_code p)) (\<lambda>code.
     Inr \<lparr>uc_parent_category_id = into_nullable_update (cp_parent_category_id p), uc_name = name,
          uc_code = code, uc_description = into_nullable_update (cp_description p)\<rparr>))"

section \<open>Errors and constraints of the table\<close>

definition category_name_index :: rstr where "category_name_index = lit ''uq_asset_categories_sibling_name''"
definition category_code_index :: rstr where "category_code_index = lit ''uq_asset_categories_sibling_code''"
definition category_path_index :: rstr where "category_path_index = lit ''uq_asset_categories_path''"

fun map_category_error :: "sql_error \<Rightarrow> db_error" where
  "map_category_error (UniqueViolation constraint) =
     (if constraint = category_name_index
      then DbConflict (lit ''Asset category name already exists under this parent'')
      else if constraint = category_code_index
      then DbConflict (lit ''Asset category code already exists under this parent'')
      else if constraint = category_path_index
      then DbConflict (lit ''Asset category path already exists'')
      else DbConflict (lit ''Asset category already exists''))"
| "map_category_error ForeignKeyViolation = DbValidation (lit ''Invalid laboratory'')"
| "map_category_error CheckViolation = DbUnexpected (lit ''check violation'')"
| "map_category_error (OtherSqlError e) = DbUnexpected e"

fun map_category_delete_error :: "sql_error \<Rightarrow> db_error" where
  "map_category_delete_error ForeignKeyViolation = DbConflict (lit ''Asset category is referenced by other records'')"
| "map_category_delete_error e = map_category_error e"

text \<open>
  A written row against the others, in the server's order: the \<^verbatim>\<open>ltree\<close> is formed, the \<^verbatim>\<open>CHECK\<close>s,
  the unique indexes as they were created, the foreign keys.
\<close>

definition category_siblings :: "category_row \<Rightarrow> category_row \<Rightarrow> bool" where
  "category_siblings r s \<longleftrightarrow>
     ca_laboratory_id s = ca_laboratory_id r
     \<and> coalesce (ca_parent_category_id s) 0 = coalesce (ca_parent_category_id r) 0"

definition category_violation :: "env \<Rightarrow> database \<Rightarrow> category_row list \<Rightarrow> category_row \<Rightarrow> sql_error option" where
  "category_violation env db others r =
     (if \<not> ltree_storable env (path_labels (ca_path r)) then Some (OtherSqlError (lit ''invalid ltree''))
      else if ca_name r = [] \<or> \<not> code_check (ca_code r) then Some CheckViolation
      else if \<exists>s\<in>set others. ca_category_id s = ca_category_id r
      then Some (UniqueViolation (lit ''asset_categories_pkey''))
      else if \<exists>s\<in>set others. category_siblings r s \<and> ca_name s = ca_name r
      then Some (UniqueViolation category_name_index)
      else if \<exists>s\<in>set others. category_siblings r s \<and> ca_code s = ca_code r
      then Some (UniqueViolation category_code_index)
      else if \<exists>s\<in>set others. ca_laboratory_id s = ca_laboratory_id r \<and> ca_path s = ca_path r
      then Some (UniqueViolation category_path_index)
      else if \<not> (ca_laboratory_id r \<in> set (laboratories db)
                 \<and> (case ca_parent_category_id r of None \<Rightarrow> True
                    | Some p \<Rightarrow> \<exists>s\<in>set (r # others). ca_category_id s = p))
      then Some ForeignKeyViolation
      else None)"

section \<open>Statements\<close>

definition fetch_category :: "uuid \<Rightarrow> database \<Rightarrow> category_row option" where
  "fetch_category i db = fetch_optional (\<lambda>r. ca_category_id r = i) (asset_categories db)"

definition fetch_category_for_update :: "uuid \<Rightarrow> database \<Rightarrow> category_row option" where
  "fetch_category_for_update i db = fetch_category i db"

text \<open>\<^verbatim>\<open>laboratory_id = $1 AND path <@ $2\<close>.\<close>

definition category_in_tree :: "uuid \<Rightarrow> rstr \<Rightarrow> category_row \<Rightarrow> bool" where
  "category_in_tree lab root_path r \<longleftrightarrow>
     ca_laboratory_id r = lab \<and> prefix (path_labels root_path) (path_labels (ca_path r))"

definition fetch_categories :: "uuid \<Rightarrow> rstr option \<Rightarrow> database \<Rightarrow> category_row list" where
  "fetch_categories lab root_path db =
     sort_key (\<lambda>r. path_labels (ca_path r))
       (filter (\<lambda>r. ca_laboratory_id r = lab
          \<and> (case root_path of None \<Rightarrow> True | Some rt \<Rightarrow> category_in_tree lab rt r)) (asset_categories db))"

definition fetch_category_tree_for_update :: "uuid \<Rightarrow> rstr \<Rightarrow> database \<Rightarrow> category_row list" where
  "fetch_category_tree_for_update lab root_path db =
     sort_key (\<lambda>r. path_labels (ca_path r)) (filter (category_in_tree lab root_path) (asset_categories db))"

definition insert_category ::
    "env \<Rightarrow> uuid \<Rightarrow> uuid \<Rightarrow> uuid option \<Rightarrow> rstr \<Rightarrow> rstr \<Rightarrow> rstr \<Rightarrow> i32 \<Rightarrow> rstr option \<Rightarrow> (db_error, category_row) tx" where
  "insert_category env i lab parent name code path depth description =
     (let row = \<lparr>ca_category_id = i, ca_laboratory_id = lab, ca_parent_category_id = parent, ca_name = name,
          ca_code = code, ca_path = path, ca_depth = depth, ca_description = description,
          ca_created_at = env_now env, ca_updated_at = env_now env\<rparr>
      in tx_bind (tx_map_err map_category_error (tx_write (\<lambda>db.
             case category_violation env db (asset_categories db) row of
               Some e \<Rightarrow> Inl e
             | None \<Rightarrow> Inr (db\<lparr>asset_categories := asset_categories db @ [row]\<rparr>))))
           (\<lambda>_. tx_return row))"

definition place_category ::
    "uuid option \<Rightarrow> rstr \<Rightarrow> rstr \<Rightarrow> rstr \<Rightarrow> i32 \<Rightarrow> rstr option \<Rightarrow> int \<Rightarrow> category_row \<Rightarrow> category_row" where
  "place_category parent name code path depth description now r =
     r\<lparr>ca_parent_category_id := parent, ca_name := name, ca_code := code, ca_path := path,
       ca_depth := depth, ca_description := description, ca_updated_at := now\<rparr>"

definition update_category_in_database ::
    "env \<Rightarrow> uuid \<Rightarrow> uuid option \<Rightarrow> rstr \<Rightarrow> rstr \<Rightarrow> rstr \<Rightarrow> i32 \<Rightarrow> rstr option \<Rightarrow> (db_error, category_row) tx" where
  "update_category_in_database env i parent name code path depth description =
     tx_bind (tx_map_err map_category_error (tx_write (\<lambda>db.
         and_then (write_row (category_violation env db) ca_category_id
             (place_category parent name code path depth description (env_now env)) i (asset_categories db))
           (\<lambda>rows. Inr (db\<lparr>asset_categories := rows\<rparr>)))))
       (\<lambda>_. tx_read (\<lambda>db. ok_or (DbUnexpected (lit ''no rows returned'')) (fetch_category i db)))"

text \<open>
  \<^verbatim>\<open>$2::ltree || subpath(path, nlevel($3::ltree))\<close> and the depth that follows from it. The rows
  are chosen before any is written.
\<close>

definition rehang_category :: "env \<Rightarrow> rstr list \<Rightarrow> rstr list \<Rightarrow> category_row \<Rightarrow> category_row" where
  "rehang_category env old_path new_path r =
     (let path = new_path @ drop (length old_path) (path_labels (ca_path r))
      in r\<lparr>ca_path := path_text path, ca_depth := word_of_nat (length path) - 1,
           ca_updated_at := env_now env\<rparr>)"

definition update_category_descendant_paths :: "env \<Rightarrow> uuid \<Rightarrow> uuid \<Rightarrow> rstr \<Rightarrow> rstr \<Rightarrow> (db_error, unit) tx" where
  "update_category_descendant_paths env lab i old_path new_path =
     tx_map_err map_category_error (tx_write (\<lambda>db.
       and_then (ltree_cast env new_path) (\<lambda>new_labels.
       and_then (ltree_cast env old_path) (\<lambda>old_labels.
       let ids = map ca_category_id
             (filter (\<lambda>r. category_in_tree lab old_path r \<and> ca_category_id r \<noteq> i) (asset_categories db))
       in and_then (write_rows (category_violation env db) ca_category_id
              (rehang_category env old_labels new_labels) ids (asset_categories db))
            (\<lambda>rows. Inr (db\<lparr>asset_categories := rows\<rparr>))))))"

section \<open>Parameter assignments\<close>

text \<open>The JSON of an assignment, the validated input, and the response.\<close>

record assignment_payload =
  gp_parameter_type_id :: uuid
  gp_applies_to_descendants :: "bool option"
  gp_is_required :: "bool option"
  gp_sort_order :: "i32 option"

record assignment_input =
  gi_parameter_type_id :: uuid
  gi_applies_to_descendants :: bool
  gi_is_required :: bool
  gi_sort_order :: i32

record assignment_response =
  gr_assignment_id :: uuid
  gr_parameter_type_id :: uuid
  gr_applies_to_descendants :: bool
  gr_is_required :: bool
  gr_sort_order :: i32

definition AssignmentResponse_from :: "assignment_row \<Rightarrow> assignment_response" where
  "AssignmentResponse_from r =
     \<lparr>gr_assignment_id = ag_assignment_id r, gr_parameter_type_id = ag_parameter_type_id r,
      gr_applies_to_descendants = ag_applies_to_descendants r, gr_is_required = ag_is_required r,
      gr_sort_order = ag_sort_order r\<rparr>"

text \<open>\<^verbatim>\<open>AssetCategoryResponse::from_parts\<close>: the row and its assignments.\<close>

definition AssetCategoryResponse_from_parts ::
    "category_row \<Rightarrow> assignment_row list \<Rightarrow> category_row \<times> assignment_response list" where
  "AssetCategoryResponse_from_parts r assignments = (r, map AssignmentResponse_from assignments)"

fun parse_assignments_loop ::
    "uuid list \<Rightarrow> assignment_input list \<Rightarrow> assignment_payload list \<Rightarrow> (rstr, assignment_input list) result" where
  "parse_assignments_loop seen parsed [] = Inr parsed"
| "parse_assignments_loop seen parsed (a # as) =
     (if gp_parameter_type_id a \<in> set seen then Inl (lit ''Asset parameter assignments must be unique'')
      else parse_assignments_loop (gp_parameter_type_id a # seen)
             (parsed @ [\<lparr>gi_parameter_type_id = gp_parameter_type_id a,
                gi_applies_to_descendants = coalesce (gp_applies_to_descendants a) True,
                gi_is_required = coalesce (gp_is_required a) True,
                gi_sort_order = coalesce (gp_sort_order a) 0\<rparr>]) as)"

definition parse_parameter_assignments :: "assignment_payload list \<Rightarrow> (rstr, assignment_input list) result" where
  "parse_parameter_assignments assignments = parse_assignments_loop [] [] assignments"

text \<open>\<^verbatim>\<open>ORDER BY sort_order, parameter_type_id\<close>, on signed and unsigned integers.\<close>

definition assignment_order :: "assignment_row \<Rightarrow> int \<times> uuid" where
  "assignment_order r = (sint (ag_sort_order r), ag_parameter_type_id r)"

definition fetch_category_assignments :: "uuid \<Rightarrow> database \<Rightarrow> assignment_row list" where
  "fetch_category_assignments category_id db =
     sort_key assignment_order (filter (\<lambda>r. ag_category_id r = category_id) (parameter_assignments db))"

text \<open>Grouped by category: the map from a category to its rows, in order.\<close>

definition fetch_assignments_for_categories :: "uuid list \<Rightarrow> database \<Rightarrow> uuid \<Rightarrow> assignment_row list" where
  "fetch_assignments_for_categories category_ids db category_id =
     (if category_id \<in> set category_ids then fetch_category_assignments category_id db else [])"

definition fetch_assignments_for_categories_for_update :: "uuid list \<Rightarrow> database \<Rightarrow> assignment_row list" where
  "fetch_assignments_for_categories_for_update category_ids db =
     sort_key (\<lambda>r. (ag_category_id r, assignment_order r))
       (filter (\<lambda>r. ag_category_id r \<in> set category_ids) (parameter_assignments db))"

definition fetch_asset_parameter_ids_for_laboratory :: "uuid \<Rightarrow> uuid list \<Rightarrow> database \<Rightarrow> uuid list" where
  "fetch_asset_parameter_ids_for_laboratory lab ids db =
     map pt_parameter_type_id
       (filter (\<lambda>t. pt_laboratory_id t = lab \<and> pt_parameter_type_id t \<in> set ids) (asset_parameter_types db))"

definition assignment_violation :: "database \<Rightarrow> assignment_row \<Rightarrow> sql_error option" where
  "assignment_violation db r =
     (if \<exists>s\<in>set (parameter_assignments db). ag_assignment_id s = ag_assignment_id r
      then Some (UniqueViolation (lit ''asset_parameter_assignments_pkey''))
      else if \<exists>s\<in>set (parameter_assignments db). ag_category_id s = ag_category_id r
                \<and> ag_parameter_type_id s = ag_parameter_type_id r
      then Some (UniqueViolation (lit ''uq_asset_param_assignment_category''))
      else if \<not> (ag_laboratory_id r \<in> set (laboratories db)
                 \<and> (\<exists>t\<in>set (asset_parameter_types db). pt_parameter_type_id t = ag_parameter_type_id r)
                 \<and> (\<exists>c\<in>set (asset_categories db). ca_category_id c = ag_category_id r))
      then Some ForeignKeyViolation
      else None)"

text \<open>These two statements map no constraint: every error is unexpected.\<close>

definition insert_category_assignment ::
    "env \<Rightarrow> uuid \<Rightarrow> uuid \<Rightarrow> uuid \<Rightarrow> assignment_input \<Rightarrow> (db_error, assignment_row) tx" where
  "insert_category_assignment env i lab category_id assignment =
     (let row = \<lparr>ag_assignment_id = i, ag_laboratory_id = lab,
          ag_parameter_type_id = gi_parameter_type_id assignment, ag_category_id = category_id,
          ag_applies_to_descendants = gi_applies_to_descendants assignment,
          ag_is_required = gi_is_required assignment, ag_sort_order = gi_sort_order assignment,
          ag_created_at = env_now env\<rparr>
      in tx_bind (tx_map_err (\<lambda>_. DbUnexpected (lit ''Failed to insert asset category parameter assignment''))
             (tx_write (\<lambda>db. case assignment_violation db row of
                 Some e \<Rightarrow> Inl e
               | None \<Rightarrow> Inr (db\<lparr>parameter_assignments := parameter_assignments db @ [row]\<rparr>))))
           (\<lambda>_. tx_return row))"

definition delete_category_assignments :: "uuid \<Rightarrow> (db_error, unit) tx" where
  "delete_category_assignments category_id =
     tx_write (\<lambda>db. Inr (db\<lparr>parameter_assignments :=
       filter (\<lambda>r. ag_category_id r \<noteq> category_id) (parameter_assignments db)\<rparr>))"

definition validate_parameter_assignments :: "uuid \<Rightarrow> assignment_input list \<Rightarrow> (db_error, unit) tx" where
  "validate_parameter_assignments lab assignments =
     (let ids = map gi_parameter_type_id assignments
      in tx_read (\<lambda>db. ensure (length (fetch_asset_parameter_ids_for_laboratory lab ids db) = length ids)
           (DbValidation (lit ''Asset parameter does not belong to this laboratory''))))"

text \<open>\<open>first\<close> is the number of ids the request has drawn before.\<close>

definition insert_parameter_assignments ::
    "env \<Rightarrow> nat \<Rightarrow> uuid \<Rightarrow> uuid \<Rightarrow> assignment_input list \<Rightarrow> (db_error, assignment_row list) tx" where
  "insert_parameter_assignments env first lab category_id assignments =
     tx_bind (tx_for_each (\<lambda>(i, assignment).
         insert_category_assignment env (env_new_v4 env i) lab category_id assignment)
       (enumerate first assignments)) (\<lambda>rows.
     tx_return (sort_key assignment_order rows))"

definition replace_parameter_assignments ::
    "env \<Rightarrow> uuid \<Rightarrow> uuid \<Rightarrow> assignment_input list \<Rightarrow> (db_error, assignment_row list) tx" where
  "replace_parameter_assignments env lab category_id assignments =
     tx_bind (delete_category_assignments category_id) (\<lambda>_.
     insert_parameter_assignments env 0 lab category_id assignments)"

section \<open>Assets filed under a tree of categories\<close>

definition filed_in_tree :: "database \<Rightarrow> uuid \<Rightarrow> rstr \<Rightarrow> asset_row \<Rightarrow> bool" where
  "filed_in_tree db lab root_path a \<longleftrightarrow>
     as_laboratory_id a = lab
     \<and> (\<exists>r\<in>set (asset_categories db). category_in_tree lab root_path r \<and> as_category_id a = Some (ca_category_id r))"

definition fetch_asset_ids_in_tree :: "uuid \<Rightarrow> rstr \<Rightarrow> database \<Rightarrow> uuid list" where
  "fetch_asset_ids_in_tree lab root_path db =
     sort (map as_asset_id (filter (filed_in_tree db lab root_path) (assets db)))"

text \<open>No constraint of \<^verbatim>\<open>assets\<close> reads the category, so this statement cannot fail.\<close>

definition clear_category :: "int \<Rightarrow> asset_row \<Rightarrow> asset_row" where
  "clear_category now a = a\<lparr>as_category_id := None, as_updated_at := now\<rparr>"

definition clear_asset_categories_in_tree :: "env \<Rightarrow> uuid \<Rightarrow> rstr \<Rightarrow> (db_error, unit) tx" where
  "clear_asset_categories_in_tree env lab root_path =
     tx_write (\<lambda>db. Inr (db\<lparr>assets :=
       update_rows (filed_in_tree db lab root_path) (clear_category (env_now env)) (assets db)\<rparr>))"

text \<open>The assignments of a deleted category go with it (\<^verbatim>\<open>ON DELETE CASCADE\<close>).\<close>

definition delete_category_tree :: "uuid \<Rightarrow> rstr \<Rightarrow> (db_error, unit) tx" where
  "delete_category_tree lab root_path =
     tx_map_err map_category_delete_error (tx_write (\<lambda>db.
       let gone = filter (category_in_tree lab root_path) (asset_categories db);
           kept = filter (\<lambda>r. \<not> category_in_tree lab root_path r) (asset_categories db);
           names_gone = (\<lambda>p. case p of None \<Rightarrow> False | Some i \<Rightarrow> i \<in> ca_category_id ` set gone)
       in if (\<exists>r\<in>set kept. names_gone (ca_parent_category_id r))
             \<or> (\<exists>a\<in>set (assets db). names_gone (as_category_id a))
          then Inl ForeignKeyViolation
          else Inr (db\<lparr>asset_categories := kept,
                 parameter_assignments := filter (\<lambda>r. \<not> names_gone (Some (ag_category_id r)))
                   (parameter_assignments db)\<rparr>)))"

section \<open>Flows\<close>

text \<open>The depth of a child is an \<^verbatim>\<open>i32\<close> addition.\<close>

fun build_category_path_and_depth :: "category_row option \<Rightarrow> rstr \<Rightarrow> rstr \<times> i32" where
  "build_category_path_and_depth (Some parent) code = (ca_path parent @ lit ''.'' @ code, ca_depth parent + 1)"
| "build_category_path_and_depth None code = (code, 0)"

fun resolve_new_category_parent :: "uuid \<Rightarrow> uuid option \<Rightarrow> (db_error, category_row option) tx" where
  "resolve_new_category_parent lab None = tx_return None"
| "resolve_new_category_parent lab (Some parent_category_id) =
     tx_bind (tx_read (\<lambda>db. ok_or (DbValidation (lit ''Parent category not found''))
         (fetch_category_for_update parent_category_id db))) (\<lambda>parent.
     tx_bind (tx_lift (ensure (ca_laboratory_id parent = lab)
         (DbValidation (lit ''Parent category does not belong to this laboratory'')))) (\<lambda>_.
     tx_return (Some parent)))"

fun resolve_moved_category_parent :: "category_row \<Rightarrow> uuid option \<Rightarrow> (db_error, category_row option) tx" where
  "resolve_moved_category_parent existing None = tx_return None"
| "resolve_moved_category_parent existing (Some parent_category_id) =
     tx_bind (tx_lift (ensure (parent_category_id \<noteq> ca_category_id existing)
         (DbValidation (lit ''Asset category cannot be moved under itself'')))) (\<lambda>_.
     tx_bind (tx_read (\<lambda>db. ok_or (DbValidation (lit ''Parent category not found''))
         (fetch_category_for_update parent_category_id db))) (\<lambda>parent.
     tx_bind (tx_lift (ensure (ca_laboratory_id parent = ca_laboratory_id existing)
         (DbValidation (lit ''Parent category does not belong to this laboratory'')))) (\<lambda>_.
     tx_bind (tx_lift (ensure (\<not> path_is_self_or_descendant (ca_path parent) (ca_path existing))
         (DbValidation (lit ''Asset category cannot be moved under one of its descendants'')))) (\<lambda>_.
     tx_return (Some parent)))))"

definition move_category ::
    "env \<Rightarrow> category_row \<Rightarrow> uuid option \<Rightarrow> rstr \<Rightarrow> rstr \<Rightarrow> rstr \<Rightarrow> i32 \<Rightarrow> rstr option \<Rightarrow> (db_error, category_row) tx" where
  "move_category env existing parent name code path depth description =
     tx_bind (update_category_in_database env (ca_category_id existing) parent name code path depth description)
       (\<lambda>updated.
     tx_bind (if ca_path updated \<noteq> ca_path existing \<or> ca_depth updated \<noteq> ca_depth existing
              then update_category_descendant_paths env (ca_laboratory_id existing) (ca_category_id existing)
                     (ca_path existing) (ca_path updated)
              else tx_return ()) (\<lambda>_.
     tx_return updated))"

definition delete_category_subtree :: "env \<Rightarrow> uuid \<Rightarrow> rstr \<Rightarrow> (db_error, uuid list) tx" where
  "delete_category_subtree env lab root_path =
     tx_bind (tx_read (\<lambda>db. Inr (fetch_asset_ids_in_tree lab root_path db))) (\<lambda>cleared.
     tx_bind (clear_asset_categories_in_tree env lab root_path) (\<lambda>_.
     tx_bind (delete_category_tree lab root_path) (\<lambda>_.
     tx_return cleared)))"

section \<open>Handlers\<close>

definition category_not_found :: handler_error where
  "category_not_found = NotFound (lit ''Asset category not found'')"

definition create_category_in_transaction ::
    "env \<Rightarrow> laboratory_context \<Rightarrow> new_category \<Rightarrow> assignment_input list
       \<Rightarrow> (handler_error, category_row \<times> assignment_response list) tx" where
  "create_category_in_transaction env ctx new assignments =
     tx_bind (tx_map_err from_db_error
         (resolve_new_category_parent (ctx_laboratory_id ctx) (nc_parent_category_id new))) (\<lambda>parent.
     tx_bind (tx_map_err from_db_error
         (validate_parameter_assignments (ctx_laboratory_id ctx) assignments)) (\<lambda>_.
     let (path, depth) = build_category_path_and_depth parent (nc_code new) in
     tx_bind (tx_map_err from_db_error (insert_category env (env_new_v4 env 0) (ctx_laboratory_id ctx)
         (nc_parent_category_id new) (nc_name new) (nc_code new) path depth (nc_description new))) (\<lambda>category.
     tx_bind (tx_map_err from_db_error (insert_parameter_assignments env 1 (ca_laboratory_id category)
         (ca_category_id category) assignments)) (\<lambda>rows.
     tx_bind (unexpected (record_audit (actor_user_id (ctx_actor ctx)) Audit_Create Res_AssetCategory
         (Some (ca_category_id category)) (Details_create_category (ca_category_id category)))) (\<lambda>_.
     tx_return (AssetCategoryResponse_from_parts category rows))))))"

definition create_asset_category ::
    "env \<Rightarrow> laboratory_context \<Rightarrow> new_category \<Rightarrow> assignment_payload list option \<Rightarrow> database
       \<Rightarrow> (handler_error, category_row \<times> assignment_response list) result \<times> database" where
  "create_asset_category env ctx payload payload_assignments db =
     run_handler
       (and_then (require_permission env (ctx_actor ctx) AssetCategory_resource
            (Create (ctx_laboratory_id ctx)) (lit ''You don't have permission to create asset categories.'') db) (\<lambda>_.
        and_then (map_err ValidationError (parse_parameter_assignments (coalesce payload_assignments []))) (\<lambda>assignments.
        and_then (map_err ValidationError (NewAssetCategory_try_from env payload)) (\<lambda>new.
        Inr (new, assignments)))))
       (\<lambda>(new, assignments). create_category_in_transaction env ctx new assignments) db"

definition update_category_in_transaction ::
    "env \<Rightarrow> laboratory_context \<Rightarrow> uuid \<Rightarrow> category_change \<Rightarrow> assignment_input list option
       \<Rightarrow> (handler_error, category_row \<times> assignment_response list) tx" where
  "update_category_in_transaction env ctx category_id change assignments =
     tx_bind (tx_read (\<lambda>db. ok_or category_not_found (fetch_category_for_update category_id db))) (\<lambda>existing.
     tx_bind (tx_read (\<lambda>db. Inr (fetch_category_assignments (ca_category_id existing) db))) (\<lambda>existing_assignments.
     tx_bind (case assignments of
           Some as \<Rightarrow> tx_map_err from_db_error (validate_parameter_assignments (ca_laboratory_id existing) as)
         | None \<Rightarrow> tx_return ()) (\<lambda>_.
     let name = coalesce (uc_name change) (ca_name existing);
         code = coalesce (uc_code change) (ca_code existing);
         parent_category_id = resolve_update (uc_parent_category_id change) (ca_parent_category_id existing);
         description = resolve_update (uc_description change) (ca_description existing)
     in
     tx_bind (tx_map_err from_db_error (resolve_moved_category_parent existing parent_category_id)) (\<lambda>parent.
     let (path, depth) = build_category_path_and_depth parent code in
     tx_bind (tx_map_err from_db_error
         (move_category env existing parent_category_id name code path depth description)) (\<lambda>updated.
     tx_bind (case assignments of
           Some as \<Rightarrow> tx_map_err from_db_error
               (replace_parameter_assignments env (ca_laboratory_id updated) (ca_category_id updated) as)
         | None \<Rightarrow> tx_return existing_assignments) (\<lambda>rows.
     tx_bind (unexpected (record_audit (actor_user_id (ctx_actor ctx)) Audit_Update Res_AssetCategory
         (Some (ca_category_id updated)) (Details_update_category existing existing_assignments))) (\<lambda>_.
     tx_return (AssetCategoryResponse_from_parts updated rows))))))))"

definition update_asset_category ::
    "env \<Rightarrow> laboratory_context \<Rightarrow> uuid \<Rightarrow> category_payload \<Rightarrow> assignment_payload list option \<Rightarrow> database
       \<Rightarrow> (handler_error, category_row \<times> assignment_response list) result \<times> database" where
  "update_asset_category env ctx category_id payload payload_assignments db =
     run_handler
       (and_then (require_permission env (authorization_actor ctx) AssetCategory_resource
            (Update category_id) (lit ''You are not allowed to update this asset category.'') db) (\<lambda>_.
        and_then (map_err ValidationError (transpose_with parse_parameter_assignments payload_assignments)) (\<lambda>assignments.
        and_then (map_err ValidationError (UpdateAssetCategory_try_from env payload)) (\<lambda>change.
        Inr (change, assignments)))))
       (\<lambda>(change, assignments). update_category_in_transaction env ctx category_id change assignments) db"

definition delete_category_in_transaction ::
    "env \<Rightarrow> laboratory_context \<Rightarrow> uuid \<Rightarrow> (handler_error, unit) tx" where
  "delete_category_in_transaction env ctx category_id =
     tx_bind (tx_read (\<lambda>db. ok_or category_not_found (fetch_category_for_update category_id db))) (\<lambda>existing.
     tx_bind (tx_read (\<lambda>db. Inr (fetch_category_tree_for_update (ca_laboratory_id existing) (ca_path existing) db)))
       (\<lambda>tree.
     tx_bind (tx_read (\<lambda>db. Inr (fetch_assignments_for_categories_for_update (map ca_category_id tree) db)))
       (\<lambda>assignments.
     tx_bind (tx_map_err from_db_error
         (delete_category_subtree env (ca_laboratory_id existing) (ca_path existing))) (\<lambda>cleared.
     unexpected (record_audit (actor_user_id (ctx_actor ctx)) Audit_Delete Res_AssetCategory
         (Some (ca_category_id existing)) (Details_delete_categories tree cleared assignments))))))"

definition delete_asset_category ::
    "env \<Rightarrow> laboratory_context \<Rightarrow> uuid \<Rightarrow> database \<Rightarrow> (handler_error, unit) result \<times> database" where
  "delete_asset_category env ctx category_id db =
     run_handler
       (require_permission env (authorization_actor ctx) AssetCategory_resource
          (Delete category_id) (lit ''You are not allowed to delete this asset category.'') db)
       (\<lambda>_. delete_category_in_transaction env ctx category_id) db"

definition get_asset_category ::
    "env \<Rightarrow> laboratory_context \<Rightarrow> uuid \<Rightarrow> database
       \<Rightarrow> (handler_error, category_row \<times> assignment_response list) result" where
  "get_asset_category env ctx category_id db =
     and_then (require_permission env (authorization_actor ctx) AssetCategory_resource
         (Read category_id) (lit ''You are not allowed to get this asset category.'') db) (\<lambda>_.
     and_then (ok_or category_not_found (fetch_category category_id db)) (\<lambda>category.
     Inr (AssetCategoryResponse_from_parts category (fetch_category_assignments (ca_category_id category) db))))"

definition root_category_not_found :: handler_error where
  "root_category_not_found = NotFound (lit ''Root asset category not found'')"

definition list_asset_categories ::
    "env \<Rightarrow> laboratory_context \<Rightarrow> uuid option \<Rightarrow> database
       \<Rightarrow> (handler_error, (category_row \<times> assignment_response list) list) result" where
  "list_asset_categories env ctx root_category_id db =
     and_then (require_permission env (ctx_actor ctx) AssetCategory_resource (Browse (ctx_laboratory_id ctx))
         (lit ''You don't have permission to view asset categories.'') db) (\<lambda>_.
     and_then (case root_category_id of
           Some i \<Rightarrow>
             and_then (ok_or root_category_not_found (fetch_category i db)) (\<lambda>found.
             and_then (ensure (ca_laboratory_id found = ctx_laboratory_id ctx) root_category_not_found) (\<lambda>_.
             Inr (Some (ca_path found))))
         | None \<Rightarrow> Inr None) (\<lambda>root_path.
     let categories = fetch_categories (ctx_laboratory_id ctx) root_path db;
         by_category = fetch_assignments_for_categories (map ca_category_id categories) db
     in Inr (map (\<lambda>c. AssetCategoryResponse_from_parts c (by_category (ca_category_id c))) categories)))"

end
