(* ===== verification/File_Uploads.thy ===== *)
theory File_Uploads
  imports Handlers File_Storage Path_Tree
begin

text \<open>
  \<^verbatim>\<open>routes/file_uploads/\<close>, the part of \<^verbatim>\<open>file_storage/\<close> that stores an upload, and the parsers of
  \<^verbatim>\<open>domain/\<close> they use. A multipart request is the list of its fields as the framework's parser
  delivers them, each with its chunks; a failure of the parser is an error in the place where
  the program meets it. The digest of the stored bytes is a parameter of the surroundings.
\<close>

section \<open>Names, sizes and digests\<close>

text \<open>Trimmed text of at most \<open>limit\<close> grapheme clusters, without control or forbidden characters.\<close>

definition parse_plain :: "env \<Rightarrow> nat \<Rightarrow> nat list \<Rightarrow> rstr \<Rightarrow> rstr \<Rightarrow> (rstr, rstr) result" where
  "parse_plain env limit forbidden kind s =
     (let trimmed = trim s
      in if trimmed = [] \<or> graphemes_count env trimmed > limit
            \<or> list_ex (\<lambda>c. is_control c \<or> c \<in> set forbidden) trimmed
         then Inl (s @ lit '' is not a valid '' @ kind @ lit ''.'') else Inr trimmed)"

definition FileName_parse :: "env \<Rightarrow> rstr \<Rightarrow> (rstr, rstr) result" where
  "FileName_parse env s = parse_plain env 255 [47, 92] (lit ''file name'') s"

definition is_ascii_alphabetic :: "nat \<Rightarrow> bool" where
  "is_ascii_alphabetic c \<longleftrightarrow> is_ascii_lowercase c \<or> (65 \<le> c \<and> c \<le> 90)"

definition is_ascii_hexdigit :: "nat \<Rightarrow> bool" where
  "is_ascii_hexdigit c \<longleftrightarrow> is_ascii_digit c \<or> (97 \<le> c \<and> c \<le> 102) \<or> (65 \<le> c \<and> c \<le> 70)"

definition to_ascii_lowercase :: "rstr \<Rightarrow> rstr" where
  "to_ascii_lowercase s = map (\<lambda>c. if 65 \<le> c \<and> c \<le> 90 then c + 32 else c) s"

definition FileSha256_parse :: "rstr \<Rightarrow> (rstr, rstr) result" where
  "FileSha256_parse s =
     (let value = trim s
      in if str_len value = 64 \<and> list_all is_ascii_hexdigit value then Inr (to_ascii_lowercase value)
         else Inl (lit ''attachment sha256 must be a 64-character hex digest''))"

definition FileSize_parse :: "i64 \<Rightarrow> (rstr, i64) result" where
  "FileSize_parse n = (if 0 < sint n then Inr n else Inl (lit ''file size must be positive''))"

datatype storage_backend = Local

fun StorageBackend_as_str :: "storage_backend \<Rightarrow> rstr" where
  "StorageBackend_as_str Local = lit ''local''"

definition StorageBackend_parse :: "rstr \<Rightarrow> (rstr, storage_backend) result" where
  "StorageBackend_parse s =
     (if trim s = lit ''local'' then Inr Local
      else Inl (s @ lit '' is not a supported attachment storage backend.''))"

record stored_file =
  sf_storage_backend :: storage_backend
  sf_storage_key :: rstr
  sf_file_size_bytes :: i64
  sf_sha256_hex :: rstr

section \<open>Storing an upload\<close>

record file_storage =
  fs_backend :: storage_backend
  fs_local :: local_storage
  fs_max_file_size_bytes :: nat
  fs_upload_token_ttl_minutes :: nat

text \<open>
  \<^verbatim>\<open>Path::extension\<close> of a name without separators: what follows the last dot, unless there is no
  dot or nothing before it.
\<close>

definition path_extension :: "rstr \<Rightarrow> rstr option" where
  "path_extension name =
     (case split_at 46 name of
        [_] \<Rightarrow> None
      | segments \<Rightarrow> if concat (butlast segments) = [] \<and> length segments = 2 then None else Some (last segments))"

definition file_extension :: "rstr \<Rightarrow> rstr option" where
  "file_extension name =
     (case path_extension name of
        None \<Rightarrow> None
      | Some e \<Rightarrow>
          (let extension = to_ascii_lowercase (trim e)
           in if extension = [] \<or> str_len extension > 16
                 \<or> \<not> list_all (\<lambda>c. is_ascii_alphabetic c \<or> is_ascii_digit c) extension
              then None else Some extension))"

definition object_key :: "env \<Rightarrow> uuid \<Rightarrow> uuid \<Rightarrow> rstr \<Rightarrow> rstr" where
  "object_key env laboratory_id object_id file_name =
     lit ''labs/'' @ Uuid_to_string env laboratory_id @ lit ''/objects/'' @ Uuid_to_string env object_id
       @ lit ''/'' @ file_name"

definition local_store_upload ::
    "env \<Rightarrow> local_storage \<Rightarrow> uuid \<Rightarrow> rstr \<Rightarrow> u8 list \<Rightarrow> disk \<Rightarrow> (rstr, stored_file) result \<times> disk" where
  "local_store_upload env st laboratory_id original_file_name bytes disk =
     (case and_then (FileSha256_parse (sha256_hex env bytes)) (\<lambda>sha.
           let file_name = (case file_extension original_file_name of
                              Some extension \<Rightarrow> sha @ lit ''.'' @ extension
                            | None \<Rightarrow> sha)
           in and_then (FileStorageKey_parse (object_key env laboratory_id (env_new_v4 env 0) file_name)) (\<lambda>key.
              and_then (path_for_key st key) (\<lambda>p. Inr (sha, key, p)))) of
        Inl e \<Rightarrow> (Inl e, disk)
      | Inr (sha, key, p) \<Rightarrow>
          if st_refused st p then (Inl (lit ''Failed to write attachment object''), disk)
          else (and_then (FileSize_parse (of_nat (length bytes))) (\<lambda>n.
                  Inr \<lparr>sf_storage_backend = Local, sf_storage_key = key, sf_file_size_bytes = n,
                       sf_sha256_hex = sha\<rparr>),
                disk(p \<mapsto> bytes)))"

definition store_upload ::
    "env \<Rightarrow> file_storage \<Rightarrow> uuid \<Rightarrow> rstr \<Rightarrow> u8 list \<Rightarrow> disk \<Rightarrow> (rstr, stored_file) result \<times> disk" where
  "store_upload env fs laboratory_id original_file_name bytes disk =
     (if bytes = [] then (Inl (lit ''File uploads cannot be empty''), disk)
      else if length bytes > fs_max_file_size_bytes fs
      then (Inl (lit ''File upload exceeds configured size limit''), disk)
      else (case fs_backend fs of
              Local \<Rightarrow> local_store_upload env (fs_local fs) laboratory_id original_file_name bytes disk))"

section \<open>Statements\<close>

definition sha_check :: "rstr \<Rightarrow> bool" where
  "sha_check s \<longleftrightarrow> length s = 64 \<and> list_all (\<lambda>c. is_ascii_digit c \<or> (97 \<le> c \<and> c \<le> 102)) s"

definition upload_checks :: "upload_row \<Rightarrow> bool" where
  "upload_checks r \<longleftrightarrow>
     up_storage_backend r = lit ''local'' \<and> up_original_file_name r \<noteq> [] \<and> 0 < sint (up_file_size_bytes r)
     \<and> up_storage_key r \<noteq> [] \<and> sha_check (up_sha256_hex r) \<and> up_created_at r < up_expires_at r"

definition same_upload_key :: "upload_row \<Rightarrow> upload_row \<Rightarrow> bool" where
  "same_upload_key r s \<longleftrightarrow> up_storage_key r = up_storage_key s"

definition upload_violation :: "database \<Rightarrow> upload_row list \<Rightarrow> upload_row \<Rightarrow> sql_error option" where
  "upload_violation db others r =
     (if \<not> upload_checks r then Some CheckViolation
      else if \<exists>s\<in>set others. up_upload_id s = up_upload_id r \<or> same_upload_key r s
      then Some (UniqueViolation (lit ''file_uploads''))
      else if \<not> (up_laboratory_id r \<in> set (laboratories db)
                \<and> (\<exists>u\<in>set (users db). us_user_id u = up_uploaded_by_user_id r))
      then Some ForeignKeyViolation
      else None)"

definition fetch_file_upload_for_update :: "uuid \<Rightarrow> database \<Rightarrow> upload_row option" where
  "fetch_file_upload_for_update i db = fetch_optional (\<lambda>r. up_upload_id r = i) (file_uploads db)"

definition insert_file_upload ::
    "env \<Rightarrow> uuid \<Rightarrow> uuid \<Rightarrow> uuid \<Rightarrow> rstr \<Rightarrow> rstr option \<Rightarrow> stored_file \<Rightarrow> int \<Rightarrow> (handler_error, upload_row) tx" where
  "insert_file_upload env i laboratory_id uploaded_by original_file_name mime_type stored expires_at =
     (let row = \<lparr>up_upload_id = i, up_laboratory_id = laboratory_id,
          up_storage_backend = StorageBackend_as_str (sf_storage_backend stored),
          up_storage_key = sf_storage_key stored, up_original_file_name = original_file_name,
          up_mime_type = mime_type, up_file_size_bytes = sf_file_size_bytes stored,
          up_sha256_hex = sf_sha256_hex stored, up_uploaded_by_user_id = uploaded_by,
          up_created_at = env_now env, up_expires_at = expires_at, up_consumed_at = None\<rparr>
      in tx_bind (unexpected (tx_write (\<lambda>db.
             case upload_violation db (file_uploads db) row of
               Some e \<Rightarrow> Inl e
             | None \<Rightarrow> Inr (db\<lparr>file_uploads := file_uploads db @ [row]\<rparr>))))
           (\<lambda>_. tx_return row))"

definition consume_upload :: "int \<Rightarrow> upload_row \<Rightarrow> upload_row" where
  "consume_upload now r = r\<lparr>up_consumed_at := Some now\<rparr>"

interpretation consume_upload: row_update up_upload_id "consume_upload now" for now
  by unfold_locales (simp add: consume_upload_def)

definition mark_file_upload_consumed :: "env \<Rightarrow> uuid \<Rightarrow> (handler_error, unit) tx" where
  "mark_file_upload_consumed env i =
     tx_write (\<lambda>db. Inr (db\<lparr>file_uploads :=
       update_rows (\<lambda>r. up_upload_id r = i) (consume_upload (env_now env)) (file_uploads db)\<rparr>))"

definition delete_file_upload_from_database :: "uuid \<Rightarrow> (handler_error, unit) tx" where
  "delete_file_upload_from_database i =
     tx_write (\<lambda>db. Inr (db\<lparr>file_uploads := filter (\<lambda>r. up_upload_id r \<noteq> i) (file_uploads db)\<rparr>))"

section \<open>Consuming an upload\<close>

record consumed_upload =
  cu_laboratory_id :: uuid
  cu_storage_backend :: rstr
  cu_storage_key :: rstr
  cu_original_file_name :: rstr
  cu_mime_type :: "rstr option"
  cu_file_size_bytes :: i64
  cu_sha256_hex :: rstr
  cu_uploaded_by_user_id :: uuid

definition ConsumedFileUpload_from :: "upload_row \<Rightarrow> consumed_upload" where
  "ConsumedFileUpload_from r =
     \<lparr>cu_laboratory_id = up_laboratory_id r, cu_storage_backend = up_storage_backend r,
      cu_storage_key = up_storage_key r, cu_original_file_name = up_original_file_name r,
      cu_mime_type = up_mime_type r, cu_file_size_bytes = up_file_size_bytes r,
      cu_sha256_hex = up_sha256_hex r, cu_uploaded_by_user_id = up_uploaded_by_user_id r\<rparr>"

definition consume_file_upload :: "env \<Rightarrow> uuid \<Rightarrow> (handler_error, consumed_upload) tx" where
  "consume_file_upload env upload_id =
     tx_bind (tx_read (\<lambda>db. ok_or (NotFound (lit ''File upload not found'')) (fetch_file_upload_for_update upload_id db)))
       (\<lambda>upload.
     tx_bind (tx_lift (ensure (up_consumed_at upload = None)
         (ConflictError (lit ''File upload has already been consumed'')))) (\<lambda>_.
     tx_bind (tx_lift (ensure (\<not> up_expires_at upload < env_clock env)
         (ValidationError (lit ''File upload has expired'')))) (\<lambda>_.
     tx_bind (mark_file_upload_consumed env (up_upload_id upload)) (\<lambda>_.
     tx_return (ConsumedFileUpload_from upload)))))"

section \<open>Handlers\<close>

record form_field =
  ff_name :: "rstr option"
  ff_file_name :: "rstr option"
  ff_content_type :: "rstr option"
  ff_chunks :: "(rstr, u8 list) result list"

record multipart_upload =
  mu_original_file_name :: rstr
  mu_mime_type :: "rstr option"
  mu_bytes :: "u8 list"

fun read_chunks :: "nat \<Rightarrow> u8 list \<Rightarrow> (rstr, u8 list) result list \<Rightarrow> (handler_error, u8 list) result" where
  "read_chunks limit bytes [] = Inr bytes"
| "read_chunks limit bytes (Inl e # chunks) =
     Inl (ValidationError (lit ''Failed to read multipart file: '' @ e))"
| "read_chunks limit bytes (Inr chunk # chunks) =
     (if length bytes + length chunk > limit
      then Inl (ValidationError (lit ''File upload exceeds configured size limit''))
      else read_chunks limit (bytes @ chunk) chunks)"

definition field_file_name :: "form_field \<Rightarrow> rstr" where
  "field_file_name f =
     (case ff_file_name f of
        None \<Rightarrow> lit ''file''
      | Some name \<Rightarrow> if trim name = [] then lit ''file'' else trim name)"

fun read_fields ::
    "env \<Rightarrow> nat \<Rightarrow> multipart_upload option \<Rightarrow> (rstr, form_field) result list
       \<Rightarrow> (handler_error, multipart_upload option) result" where
  "read_fields env limit upload [] = Inr upload"
| "read_fields env limit upload (Inl e # fs) = Inl (ValidationError (lit ''Invalid multipart: '' @ e))"
| "read_fields env limit upload (Inr f # fs) =
     (if ff_name f \<noteq> Some (lit ''file'')
      then Inl (ValidationError (lit ''Only multipart field `file` is supported''))
      else if upload \<noteq> None
      then Inl (ValidationError (lit ''Only one file can be uploaded at a time''))
      else
        and_then (map_err ValidationError (FileName_parse env (field_file_name f))) (\<lambda>name.
        and_then (read_chunks limit [] (ff_chunks f)) (\<lambda>bytes.
          if bytes = [] then Inl (ValidationError (lit ''File uploads cannot be empty''))
          else read_fields env limit (Some \<lparr>mu_original_file_name = name, mu_mime_type = ff_content_type f,
                 mu_bytes = bytes\<rparr>) fs)))"

definition read_single_file ::
    "env \<Rightarrow> nat \<Rightarrow> (rstr, form_field) result list \<Rightarrow> (handler_error, multipart_upload) result" where
  "read_single_file env limit payload =
     and_then (read_fields env limit None payload)
       (ok_or (ValidationError (lit ''Multipart field `file` is required'')))"

text \<open>
  The row is inserted outside any transaction; when that fails, the stored file is removed again,
  whatever becomes of the removal. Ids: the object of the storage key, then the upload.
\<close>

definition upload_file ::
    "env \<Rightarrow> file_storage \<Rightarrow> laboratory_context \<Rightarrow> (rstr, form_field) result list \<Rightarrow> database \<Rightarrow> disk
       \<Rightarrow> (handler_error, upload_row) result \<times> database \<times> disk" where
  "upload_file env fs ctx payload db disk =
     (case and_then (require_permission env (ctx_actor ctx) FileUpload_resource (Create (ctx_laboratory_id ctx))
             (lit ''You don't have permission to upload files.'') db) (\<lambda>_.
           read_single_file env (fs_max_file_size_bytes fs) payload) of
        Inl e \<Rightarrow> (Inl e, db, disk)
      | Inr upload \<Rightarrow>
          (case store_upload env fs (ctx_laboratory_id ctx) (mu_original_file_name upload) (mu_bytes upload) disk of
             (Inl e, disk') \<Rightarrow> (Inl (UnexpectedError e), db, disk')
           | (Inr stored, disk') \<Rightarrow>
               (case transaction (insert_file_upload env (env_new_v4 env 1) (ctx_laboratory_id ctx)
                       (actor_user_id (ctx_actor ctx)) (mu_original_file_name upload) (mu_mime_type upload) stored
                       (env_clock env + int (fs_upload_token_ttl_minutes fs) * 60000000)) db of
                  (Inr row, db') \<Rightarrow> (Inr row, db', disk')
                | (Inl e, db') \<Rightarrow> (Inl e, db', snd (storage_delete (fs_local fs) (sf_storage_key stored) disk')))))"

definition delete_file_upload_in_transaction :: "uuid \<Rightarrow> (handler_error, rstr) tx" where
  "delete_file_upload_in_transaction upload_id =
     tx_bind (tx_read (\<lambda>db. ok_or (NotFound (lit ''File upload not found'')) (fetch_file_upload_for_update upload_id db)))
       (\<lambda>upload.
     tx_bind (tx_lift (ensure (up_consumed_at upload = None)
         (ConflictError (lit ''File upload has already been assigned to an attachment'')))) (\<lambda>_.
     tx_bind (tx_lift (map_err UnexpectedError (FileStorageKey_parse (up_storage_key upload)))) (\<lambda>key.
     tx_bind (delete_file_upload_from_database (up_upload_id upload)) (\<lambda>_.
     tx_return key))))"

text \<open>After the commit: the stored file, whose removal may fail.\<close>

definition then_delete_object ::
    "local_storage \<Rightarrow> (handler_error, rstr) result \<times> database \<Rightarrow> disk
       \<Rightarrow> (handler_error, unit) result \<times> database \<times> disk" where
  "then_delete_object st outcome disk =
     (case outcome of
        (Inl e, db) \<Rightarrow> (Inl e, db, disk)
      | (Inr key, db) \<Rightarrow>
          (case storage_delete st key disk of
             (Inl e, disk') \<Rightarrow> (Inl (UnexpectedError e), db, disk')
           | (Inr _, disk') \<Rightarrow> (Inr (), db, disk')))"

definition delete_file_upload ::
    "env \<Rightarrow> file_storage \<Rightarrow> laboratory_context \<Rightarrow> uuid \<Rightarrow> database \<Rightarrow> disk
       \<Rightarrow> (handler_error, unit) result \<times> database \<times> disk" where
  "delete_file_upload env fs ctx upload_id db disk =
     then_delete_object (fs_local fs)
       (run_handler
         (require_permission env (authorization_actor ctx) FileUpload_resource (Delete upload_id)
            (lit ''You are not allowed to delete this file upload.'') db)
         (\<lambda>_. delete_file_upload_in_transaction upload_id) db) disk"

end
