(* ===== verification/Pagination.thy ===== *)
theory Pagination
  imports Handlers
begin

text \<open>
  \<^verbatim>\<open>routes/shared/pagination.rs\<close>: the limit and offset of a list request, and the page they cut out
  of the rows a statement selects (\<^verbatim>\<open>LIMIT\<close> and \<^verbatim>\<open>OFFSET\<close>).
\<close>

definition DEFAULT_LIMIT :: i64 where "DEFAULT_LIMIT = 50"
definition MAX_LIMIT :: i64 where "MAX_LIMIT = 200"

record pagination =
  pg_limit :: "i64 option"
  pg_offset :: "i64 option"

definition page_limit :: "pagination \<Rightarrow> (handler_error, i64) result" where
  "page_limit p =
     (let limit = (case pg_limit p of None \<Rightarrow> DEFAULT_LIMIT | Some l \<Rightarrow> l)
      in if sint limit \<le> 0 then Inl (ValidationError (lit ''limit must be positive''))
         else Inr (if sint limit \<le> sint MAX_LIMIT then limit else MAX_LIMIT))"

definition page_offset :: "pagination \<Rightarrow> (handler_error, i64) result" where
  "page_offset p =
     (let offset = (case pg_offset p of None \<Rightarrow> 0 | Some n \<Rightarrow> n)
      in if sint offset < 0 then Inl (ValidationError (lit ''offset must be non-negative''))
         else Inr offset)"

record 'a paginated_response =
  pgr_items :: "'a list"
  pgr_limit :: i64
  pgr_offset :: i64
  pgr_total :: nat

definition PaginatedResponse_new ::
    "'a list \<Rightarrow> pagination \<Rightarrow> nat \<Rightarrow> (handler_error, 'a paginated_response) result" where
  "PaginatedResponse_new items p n =
     and_then (page_limit p) (\<lambda>limit.
     and_then (page_offset p) (\<lambda>offset.
     Inr \<lparr>pgr_items = items, pgr_limit = limit, pgr_offset = offset, pgr_total = n\<rparr>))"

definition page_rows :: "i64 \<Rightarrow> i64 \<Rightarrow> 'a list \<Rightarrow> 'a list" where
  "page_rows limit offset rows = take (nat (sint limit)) (drop (nat (sint offset)) rows)"

lemma page_limit_bounds:
  assumes "page_limit p = Inr l"
  shows "0 < sint l" and "sint l \<le> 200"
  using assms by (auto simp: page_limit_def Let_def MAX_LIMIT_def DEFAULT_LIMIT_def split: if_splits option.splits)

lemma page_offset_bounds: "page_offset p = Inr n \<Longrightarrow> 0 \<le> sint n"
  by (auto simp: page_offset_def Let_def split: if_splits)

end
