(* ===== verification/Attachments.thy ===== *)
theory Attachments
  imports File_Uploads Pagination "HOL-Library.Product_Lexorder"
begin

text \<open>
  \<^verbatim>\<open>routes/attachments/\<close>: an attachment assigns a stored file to an asset or to an inventory item.
  Its file comes from an upload, which the assignment consumes.
\<close>

section \<open>Requests\<close>

definition AttachmentDisplayName_parse :: "env \<Rightarrow> rstr \<Rightarrow> (rstr, rstr) result" where
  "AttachmentDisplayName_parse env s =
     parse_plain env 256 [47, 92, 34, 60, 62, 123, 125] (lit ''attachment display name'') s"

record new_attachment =
  na_upload_id :: uuid
  na_display_name :: "rstr option"
  na_description :: "rstr option"
  na_is_public :: bool

record attachment_payload =
  aq_upload_id :: uuid
  aq_display_name :: "rstr option"
  aq_description :: "rstr option"
  aq_is_public :: "bool option"

definition NewAttachment_try_from :: "env \<Rightarrow> attachment_payload \<Rightarrow> (rstr, new_attachment) result" where
  "NewAttachment_try_from env p =
     and_then (transpose_with (AttachmentDisplayName_parse env) (aq_display_name p)) (\<lambda>display_name.
     Inr \<lparr>na_upload_id = aq_upload_id p, na_display_name = display_name, na_description = aq_description p,
          na_is_public = (aq_is_public p = Some True)\<rparr>)"

definition ensure_unique_uploads :: "new_attachment list \<Rightarrow> (rstr, unit) result" where
  "ensure_unique_uploads news =
     ensure (distinct (map na_upload_id news))
       (lit ''An upload can only be assigned once in a create request'')"

record attachment_change_payload =
  uq_display_name :: "rstr option"
  uq_description :: "rstr option option"
  uq_is_public :: "bool option"

record attachment_change =
  ua_display_name :: "rstr option"
  ua_description :: "rstr nullable_update"
  ua_is_public :: "bool option"

definition UpdateAttachment_try_from ::
    "env \<Rightarrow> attachment_change_payload \<Rightarrow> (rstr, attachment_change) result" where
  "UpdateAttachment_try_from env p =
     and_then (transpose_with (AttachmentDisplayName_parse env) (uq_display_name p)) (\<lambda>display_name.
     Inr \<lparr>ua_display_name = display_name, ua_description = into_nullable_update (uq_description p),
          ua_is_public = uq_is_public p\<rparr>)"

datatype attachment_target = Asset_target uuid | InventoryItem_target uuid

section \<open>Errors and constraints of the tables\<close>

fun map_attachment_error :: "sql_error \<Rightarrow> db_error" where
  "map_attachment_error (UniqueViolation _) = DbConflict (lit ''Attachment already exists'')"
| "map_attachment_error ForeignKeyViolation = DbValidation (lit ''Invalid referenced record'')"
| "map_attachment_error CheckViolation = DbValidation (lit ''Invalid attachment data'')"
| "map_attachment_error (OtherSqlError e) = DbUnexpected e"

definition file_checks :: "file_row \<Rightarrow> bool" where
  "file_checks f \<longleftrightarrow>
     fi_storage_backend f = lit ''local'' \<and> fi_storage_key f \<noteq> [] \<and> fi_original_file_name f \<noteq> []
     \<and> 0 < sint (fi_file_size_bytes f) \<and> sha_check (fi_sha256_hex f)"

definition same_file_key :: "file_row \<Rightarrow> file_row \<Rightarrow> bool" where
  "same_file_key f g \<longleftrightarrow> fi_storage_key f = fi_storage_key g"

definition file_violation :: "database \<Rightarrow> file_row list \<Rightarrow> file_row \<Rightarrow> sql_error option" where
  "file_violation db others f =
     (if \<not> file_checks f then Some CheckViolation
      else if \<exists>g\<in>set others. fi_file_id g = fi_file_id f \<or> same_file_key f g
      then Some (UniqueViolation (lit ''files''))
      else if \<not> (fi_laboratory_id f \<in> set (laboratories db)
                \<and> (case fi_uploaded_by_user_id f of None \<Rightarrow> True
                   | Some u \<Rightarrow> \<exists>r\<in>set (users db). us_user_id r = u))
      then Some ForeignKeyViolation
      else None)"

definition attachment_checks :: "attachment_row \<Rightarrow> bool" where
  "attachment_checks a \<longleftrightarrow>
     (at_asset_id a = None) \<noteq> (at_inventory_item_id a = None) \<and> at_display_name a \<noteq> []"

definition attachment_violation :: "database \<Rightarrow> attachment_row list \<Rightarrow> attachment_row \<Rightarrow> sql_error option" where
  "attachment_violation db others a =
     (if \<not> attachment_checks a then Some CheckViolation
      else if \<exists>b\<in>set others. at_attachment_id b = at_attachment_id a
      then Some (UniqueViolation (lit ''asset_attachment_assignments_pkey''))
      else if \<not> (at_laboratory_id a \<in> set (laboratories db)
                \<and> (\<exists>f\<in>set (files db). fi_file_id f = at_file_id a \<and> fi_laboratory_id f = at_laboratory_id a)
                \<and> (case at_asset_id a of None \<Rightarrow> True
                   | Some i \<Rightarrow> \<exists>r\<in>set (assets db). as_asset_id r = i \<and> as_laboratory_id r = at_laboratory_id a)
                \<and> (case at_inventory_item_id a of None \<Rightarrow> True
                   | Some i \<Rightarrow> \<exists>r\<in>set (inventory_items db).
                       ii_inventory_item_id r = i \<and> ii_laboratory_id r = at_laboratory_id a)
                \<and> (case at_assigned_by_user_id a of None \<Rightarrow> True
                   | Some u \<Rightarrow> \<exists>r\<in>set (users db). us_user_id r = u))
      then Some ForeignKeyViolation
      else None)"

section \<open>Statements\<close>

definition joined_attachments :: "database \<Rightarrow> attachment_view list" where
  "joined_attachments db =
     concat (map (\<lambda>a. map (\<lambda>f. \<lparr>tv_attachment = a, tv_file = f\<rparr>)
       (filter (\<lambda>f. fi_file_id f = at_file_id a) (files db))) (attachments db))"

definition fetch_attachment :: "uuid \<Rightarrow> database \<Rightarrow> attachment_view option" where
  "fetch_attachment i db = fetch_optional (\<lambda>v. at_attachment_id (tv_attachment v) = i) (joined_attachments db)"

definition fetch_attachment_for_update :: "uuid \<Rightarrow> database \<Rightarrow> attachment_view option" where
  "fetch_attachment_for_update i db = fetch_attachment i db"

definition fetch_attachment_file :: "uuid \<Rightarrow> database \<Rightarrow> file_row option" where
  "fetch_attachment_file i db = map_option tv_file (fetch_attachment i db)"

text \<open>\<^verbatim>\<open>ORDER BY created_at DESC, attachment_id\<close>, internal attachments only on demand.\<close>

definition select_attachments :: "(attachment_row \<Rightarrow> bool) \<Rightarrow> bool \<Rightarrow> database \<Rightarrow> attachment_view list" where
  "select_attachments wanted include_internal db =
     sort_key (\<lambda>v. (- at_created_at (tv_attachment v), at_attachment_id (tv_attachment v)))
       (filter (\<lambda>v. wanted (tv_attachment v) \<and> (include_internal \<or> at_is_public (tv_attachment v)))
         (joined_attachments db))"

definition fetch_asset_attachments :: "uuid \<Rightarrow> bool \<Rightarrow> database \<Rightarrow> attachment_view list" where
  "fetch_asset_attachments asset_id = select_attachments (\<lambda>a. at_asset_id a = Some asset_id)"

definition fetch_inventory_item_attachments :: "uuid \<Rightarrow> bool \<Rightarrow> database \<Rightarrow> attachment_view list" where
  "fetch_inventory_item_attachments item_id = select_attachments (\<lambda>a. at_inventory_item_id a = Some item_id)"

definition fetch_laboratory_attachments :: "uuid \<Rightarrow> bool \<Rightarrow> i64 \<Rightarrow> i64 \<Rightarrow> database \<Rightarrow> attachment_view list" where
  "fetch_laboratory_attachments lab include_internal limit offset db =
     page_rows limit offset (select_attachments (\<lambda>a. at_laboratory_id a = lab) include_internal db)"

definition count_laboratory_attachments :: "uuid \<Rightarrow> bool \<Rightarrow> database \<Rightarrow> nat" where
  "count_laboratory_attachments lab include_internal db =
     length (filter (\<lambda>a. at_laboratory_id a = lab \<and> (include_internal \<or> at_is_public a)) (attachments db))"

text \<open>Both rows in one statement; the file first, since the assignment refers to it.\<close>

definition insert_attachment ::
    "env \<Rightarrow> nat \<Rightarrow> uuid \<Rightarrow> attachment_target \<Rightarrow> consumed_upload \<Rightarrow> rstr \<Rightarrow> rstr option \<Rightarrow> bool
       \<Rightarrow> (db_error, attachment_view) tx" where
  "insert_attachment env next_id actor_user target upload display_name description is_public =
     (let file = \<lparr>fi_file_id = env_new_v4 env next_id, fi_laboratory_id = cu_laboratory_id upload,
            fi_storage_backend = cu_storage_backend upload, fi_storage_key = cu_storage_key upload,
            fi_original_file_name = cu_original_file_name upload, fi_mime_type = cu_mime_type upload,
            fi_file_size_bytes = cu_file_size_bytes upload, fi_sha256_hex = cu_sha256_hex upload,
            fi_uploaded_by_user_id = Some (cu_uploaded_by_user_id upload), fi_created_at = env_now env\<rparr>;
          row = \<lparr>at_attachment_id = env_new_v4 env (Suc next_id), at_laboratory_id = fi_laboratory_id file,
            at_file_id = fi_file_id file,
            at_asset_id = (case target of Asset_target i \<Rightarrow> Some i | InventoryItem_target _ \<Rightarrow> None),
            at_inventory_item_id = (case target of Asset_target _ \<Rightarrow> None | InventoryItem_target i \<Rightarrow> Some i),
            at_display_name = display_name, at_description = description, at_is_public = is_public,
            at_assigned_by_user_id = Some actor_user, at_created_at = env_now env, at_updated_at = env_now env\<rparr>
      in tx_bind (tx_map_err map_attachment_error (tx_write (\<lambda>db.
             case file_violation db (files db) file of
               Some e \<Rightarrow> Inl e
             | None \<Rightarrow>
                 (let db = db\<lparr>files := files db @ [file]\<rparr>
                  in case attachment_violation db (attachments db) row of
                       Some e \<Rightarrow> Inl e
                     | None \<Rightarrow> Inr (db\<lparr>attachments := attachments db @ [row]\<rparr>)))))
           (\<lambda>_. tx_return \<lparr>tv_attachment = row, tv_file = file\<rparr>))"

definition set_attachment :: "rstr \<Rightarrow> rstr option \<Rightarrow> bool \<Rightarrow> int \<Rightarrow> attachment_row \<Rightarrow> attachment_row" where
  "set_attachment display_name description is_public now a =
     a\<lparr>at_display_name := display_name, at_description := description, at_is_public := is_public,
       at_updated_at := now\<rparr>"

definition update_attachment_in_database ::
    "env \<Rightarrow> uuid \<Rightarrow> rstr \<Rightarrow> rstr option \<Rightarrow> bool \<Rightarrow> (db_error, attachment_view) tx" where
  "update_attachment_in_database env i display_name description is_public =
     tx_bind (tx_map_err map_attachment_error (tx_write (\<lambda>db.
         and_then (write_row (attachment_violation db) at_attachment_id
             (set_attachment display_name description is_public (env_now env)) i (attachments db))
           (\<lambda>rows. Inr (db\<lparr>attachments := rows\<rparr>)))))
       (\<lambda>_. tx_read (\<lambda>db. ok_or (DbUnexpected (lit ''no rows returned'')) (fetch_attachment i db)))"

text \<open>The assignment and its file; the file stays, and with it the statement fails, while another one names it.\<close>

definition delete_attachment_from_database :: "uuid \<Rightarrow> (db_error, unit) tx" where
  "delete_attachment_from_database i =
     tx_map_err map_attachment_error (tx_write (\<lambda>db.
       let gone = filter (\<lambda>a. at_attachment_id a = i) (attachments db);
           kept = filter (\<lambda>a. at_attachment_id a \<noteq> i) (attachments db)
       in if \<exists>a\<in>set kept. at_file_id a \<in> at_file_id ` set gone then Inl ForeignKeyViolation
          else Inr (db\<lparr>attachments := kept,
                       files := filter (\<lambda>f. fi_file_id f \<notin> at_file_id ` set gone) (files db)\<rparr>)))"

definition attachment_asset_laboratory :: "uuid \<Rightarrow> database \<Rightarrow> uuid option" where
  "attachment_asset_laboratory i db =
     map_option as_laboratory_id (fetch_optional (\<lambda>r. as_asset_id r = i) (assets db))"

definition attachment_item_laboratory :: "uuid \<Rightarrow> database \<Rightarrow> uuid option" where
  "attachment_item_laboratory i db =
     map_option ii_laboratory_id (fetch_optional (\<lambda>r. ii_inventory_item_id r = i) (inventory_items db))"

section \<open>Assigning uploads\<close>

definition validate_unique_uploads :: "new_attachment list \<Rightarrow> (handler_error, unit) result" where
  "validate_unique_uploads news =
     ensure (distinct (map na_upload_id news))
       (ValidationError (lit ''attachments cannot contain duplicate upload_id values''))"

text \<open>One attachment takes two ids: of its file and of itself.\<close>

definition assign_one ::
    "env \<Rightarrow> nat \<Rightarrow> uuid \<Rightarrow> attachment_target \<Rightarrow> uuid option \<Rightarrow> new_attachment
       \<Rightarrow> (handler_error, attachment_view) tx" where
  "assign_one env next_id actor_user target expected_laboratory_id attachment =
     tx_bind (consume_file_upload env (na_upload_id attachment)) (\<lambda>upload.
     tx_bind (tx_lift (ensure
         (case expected_laboratory_id of None \<Rightarrow> True | Some lab \<Rightarrow> cu_laboratory_id upload = lab)
         (ValidationError (lit ''File upload does not belong to the target laboratory'')))) (\<lambda>_.
     tx_bind (tx_map_err from_db_error (insert_attachment env next_id actor_user target upload
         (coalesce (na_display_name attachment) (cu_original_file_name upload))
         (na_description attachment) (na_is_public attachment))) (\<lambda>row.
     tx_bind (unexpected (record_audit actor_user Audit_Create Res_Attachment
         (Some (at_attachment_id (tv_attachment row)))
         (Details_create_attachment (at_attachment_id (tv_attachment row)) (fi_file_id (tv_file row))
            (fi_storage_key (tv_file row))))) (\<lambda>_.
     tx_return row))))"

fun assign_each ::
    "env \<Rightarrow> nat \<Rightarrow> uuid \<Rightarrow> attachment_target \<Rightarrow> uuid option \<Rightarrow> new_attachment list
       \<Rightarrow> (handler_error, attachment_view list) tx" where
  "assign_each env next_id actor_user target expected [] = tx_return []"
| "assign_each env next_id actor_user target expected (a # as) =
     tx_bind (assign_one env next_id actor_user target expected a) (\<lambda>row.
     tx_bind (assign_each env (next_id + 2) actor_user target expected as) (\<lambda>rows.
     tx_return (row # rows)))"

definition assign_uploaded_attachments ::
    "env \<Rightarrow> nat \<Rightarrow> uuid \<Rightarrow> attachment_target \<Rightarrow> uuid option \<Rightarrow> new_attachment list
       \<Rightarrow> (handler_error, attachment_view list) tx" where
  "assign_uploaded_attachments env next_id actor_user target expected news =
     (if news = [] then tx_return []
      else tx_bind (tx_lift (validate_unique_uploads news)) (\<lambda>_.
           assign_each env next_id actor_user target expected news))"

section \<open>Handlers\<close>

definition assign_attachment_in_transaction ::
    "env \<Rightarrow> laboratory_context \<Rightarrow> attachment_target \<Rightarrow> uuid \<Rightarrow> attachment_payload
       \<Rightarrow> (handler_error, attachment_view) tx" where
  "assign_attachment_in_transaction env ctx target lab payload =
     tx_bind (tx_lift (map_err ValidationError (NewAttachment_try_from env payload))) (\<lambda>new_attachment.
     tx_bind (assign_uploaded_attachments env 0 (actor_user_id (ctx_actor ctx)) target (Some lab)
         [new_attachment]) (\<lambda>rows.
     tx_return (hd rows)))"

definition assign_asset_attachment ::
    "env \<Rightarrow> laboratory_context \<Rightarrow> uuid \<Rightarrow> attachment_payload \<Rightarrow> database
       \<Rightarrow> (handler_error, attachment_view) result \<times> database" where
  "assign_asset_attachment env ctx asset_id payload db =
     run_handler
       (and_then (ok_or (NotFound (lit ''Asset not found'')) (attachment_asset_laboratory asset_id db)) (\<lambda>lab.
        and_then (ensure (ctx_laboratory_id ctx = lab) (NotFound (lit ''Asset not found''))) (\<lambda>_.
        and_then (require_permission env (authorization_actor ctx) Asset_resource (Update asset_id)
            (lit ''You do not have permission to assign attachments for this asset'') db) (\<lambda>_.
        and_then (require_permission env (authorization_actor ctx) FileUpload_resource
            (Assign (aq_upload_id payload)) (lit ''You do not have permission to assign this attachment'') db) (\<lambda>_.
        Inr lab)))))
       (\<lambda>lab. assign_attachment_in_transaction env ctx (Asset_target asset_id) lab payload) db"

definition assign_inventory_item_attachment ::
    "env \<Rightarrow> laboratory_context \<Rightarrow> uuid \<Rightarrow> attachment_payload \<Rightarrow> database
       \<Rightarrow> (handler_error, attachment_view) result \<times> database" where
  "assign_inventory_item_attachment env ctx item_id payload db =
     run_handler
       (and_then (ok_or (NotFound (lit ''Inventory item not found'')) (attachment_item_laboratory item_id db)) (\<lambda>lab.
        and_then (ensure (ctx_laboratory_id ctx = lab) (NotFound (lit ''Inventory item not found''))) (\<lambda>_.
        and_then (require_permission env (authorization_actor ctx) InventoryItem_resource (Update item_id)
            (lit ''You do not have permission to assign attachments for this inventory item'') db) (\<lambda>_.
        and_then (require_permission env (authorization_actor ctx) FileUpload_resource
            (Assign (aq_upload_id payload)) (lit ''You do not have permission to assign this attachment'') db) (\<lambda>_.
        Inr lab)))))
       (\<lambda>lab. assign_attachment_in_transaction env ctx (InventoryItem_target item_id) lab payload) db"

definition attachment_not_found :: handler_error where
  "attachment_not_found = NotFound (lit ''Attachment not found'')"

definition update_attachment_in_transaction ::
    "env \<Rightarrow> laboratory_context \<Rightarrow> uuid \<Rightarrow> attachment_change \<Rightarrow> (handler_error, attachment_view) tx" where
  "update_attachment_in_transaction env ctx attachment_id change =
     tx_bind (tx_read (\<lambda>db. ok_or attachment_not_found (fetch_attachment_for_update attachment_id db))) (\<lambda>existing.
     tx_bind (tx_read (require_permission env (authorization_actor ctx) AttachmentAssignment_resource
         (Update attachment_id) (lit ''You do not have permission to update this attachment''))) (\<lambda>_.
     tx_bind (tx_map_err from_db_error (update_attachment_in_database env attachment_id
         (coalesce (ua_display_name change) (at_display_name (tv_attachment existing)))
         (resolve_update (ua_description change) (at_description (tv_attachment existing)))
         (coalesce (ua_is_public change) (at_is_public (tv_attachment existing))))) (\<lambda>updated.
     tx_bind (unexpected (record_audit (actor_user_id (ctx_actor ctx)) Audit_Update Res_Attachment
         (Some (at_attachment_id (tv_attachment updated))) (Details_update_attachment existing))) (\<lambda>_.
     tx_return updated))))"

definition update_attachment ::
    "env \<Rightarrow> laboratory_context \<Rightarrow> uuid \<Rightarrow> attachment_change_payload \<Rightarrow> database
       \<Rightarrow> (handler_error, attachment_view) result \<times> database" where
  "update_attachment env ctx attachment_id payload db =
     run_handler (map_err ValidationError (UpdateAttachment_try_from env payload))
       (update_attachment_in_transaction env ctx attachment_id) db"

definition delete_attachment_in_transaction ::
    "env \<Rightarrow> laboratory_context \<Rightarrow> uuid \<Rightarrow> (handler_error, rstr) tx" where
  "delete_attachment_in_transaction env ctx attachment_id =
     tx_bind (tx_read (\<lambda>db. ok_or attachment_not_found (fetch_attachment_for_update attachment_id db))) (\<lambda>existing.
     tx_bind (tx_read (require_permission env (authorization_actor ctx) AttachmentAssignment_resource
         (Delete attachment_id) (lit ''You are not allowed to delete this attachment''))) (\<lambda>_.
     tx_bind (tx_lift (map_err UnexpectedError (FileStorageKey_parse (fi_storage_key (tv_file existing))))) (\<lambda>key.
     tx_bind (tx_map_err from_db_error (delete_attachment_from_database attachment_id)) (\<lambda>_.
     tx_bind (unexpected (record_audit (actor_user_id (ctx_actor ctx)) Audit_Delete Res_Attachment
         (Some (at_attachment_id (tv_attachment existing))) (Details_delete_attachment existing))) (\<lambda>_.
     tx_return key)))))"

definition delete_attachment ::
    "env \<Rightarrow> file_storage \<Rightarrow> laboratory_context \<Rightarrow> uuid \<Rightarrow> database \<Rightarrow> disk
       \<Rightarrow> (handler_error, unit) result \<times> database \<times> disk" where
  "delete_attachment env fs ctx attachment_id db disk =
     then_delete_object (fs_local fs) (transaction (delete_attachment_in_transaction env ctx attachment_id) db) disk"

definition get_attachment ::
    "env \<Rightarrow> laboratory_context \<Rightarrow> uuid \<Rightarrow> database \<Rightarrow> (handler_error, attachment_view) result" where
  "get_attachment env ctx attachment_id db =
     and_then (require_permission env (authorization_actor ctx) AttachmentAssignment_resource (Read attachment_id)
         (lit ''You do not have permission to view this attachment'') db) (\<lambda>_.
     ok_or attachment_not_found (fetch_attachment attachment_id db))"

definition content_disposition_filename :: "rstr \<Rightarrow> rstr" where
  "content_disposition_filename name = map (\<lambda>c. if c = 34 \<or> c = 92 \<or> is_control c then 95 else c) name"

record download =
  dl_content_type :: rstr
  dl_content_length :: nat
  dl_content_disposition :: rstr
  dl_body :: "u8 list"

definition download_attachment ::
    "env \<Rightarrow> file_storage \<Rightarrow> laboratory_context \<Rightarrow> uuid \<Rightarrow> database \<Rightarrow> disk \<Rightarrow> (handler_error, download) result" where
  "download_attachment env fs ctx attachment_id db disk =
     and_then (require_permission env (authorization_actor ctx) AttachmentAssignment_resource (Read attachment_id)
         (lit ''You do not have permission to download this attachment'') db) (\<lambda>_.
     and_then (ok_or attachment_not_found (fetch_attachment_file attachment_id db)) (\<lambda>file.
     and_then (map_err UnexpectedError (FileStorageKey_parse (fi_storage_key file))) (\<lambda>key.
     and_then (map_err UnexpectedError (storage_read (fs_local fs) key disk)) (\<lambda>bytes.
     Inr \<lparr>dl_content_type = coalesce (fi_mime_type file) (lit ''application/octet-stream''),
          dl_content_length = length bytes,
          dl_content_disposition =
            lit ''attachment; filename='' @ [34] @ content_disposition_filename (fi_original_file_name file) @ [34],
          dl_body = bytes\<rparr>))))"

text \<open>The two lists of a target, and the paginated list of a laboratory.\<close>

definition list_target_attachments ::
    "env \<Rightarrow> laboratory_context \<Rightarrow> uuid option \<Rightarrow> rstr \<Rightarrow> rstr \<Rightarrow> (bool \<Rightarrow> database \<Rightarrow> attachment_view list)
       \<Rightarrow> database \<Rightarrow> (handler_error, attachment_view list) result" where
  "list_target_attachments env ctx target_laboratory missing refused rows db =
     and_then (ok_or (NotFound missing) target_laboratory) (\<lambda>lab.
     and_then (ensure (ctx_laboratory_id ctx = lab) (NotFound missing)) (\<lambda>_.
     and_then (require_permission env (authorization_actor ctx) AttachmentAssignment_resource (Browse lab)
         refused db) (\<lambda>_.
     and_then (map_err UnexpectedError (validate_permission db (env_now env) (authorization_actor ctx)
         AttachmentAssignment_resource (BrowseInternal lab))) (\<lambda>include_internal.
     Inr (rows include_internal db)))))"

definition list_asset_attachments ::
    "env \<Rightarrow> laboratory_context \<Rightarrow> uuid \<Rightarrow> database \<Rightarrow> (handler_error, attachment_view list) result" where
  "list_asset_attachments env ctx asset_id db =
     list_target_attachments env ctx (attachment_asset_laboratory asset_id db) (lit ''Asset not found'')
       (lit ''You do not have permission to view attachments for this asset'')
       (fetch_asset_attachments asset_id) db"

definition list_inventory_item_attachments ::
    "env \<Rightarrow> laboratory_context \<Rightarrow> uuid \<Rightarrow> database \<Rightarrow> (handler_error, attachment_view list) result" where
  "list_inventory_item_attachments env ctx item_id db =
     list_target_attachments env ctx (attachment_item_laboratory item_id db) (lit ''Inventory item not found'')
       (lit ''You do not have permission to view attachments for this inventory item'')
       (fetch_inventory_item_attachments item_id) db"

definition list_laboratory_attachments ::
    "env \<Rightarrow> laboratory_context \<Rightarrow> pagination \<Rightarrow> database
       \<Rightarrow> (handler_error, attachment_view paginated_response) result" where
  "list_laboratory_attachments env ctx p db =
     (let lab = ctx_laboratory_id ctx
      in and_then (require_permission env (ctx_actor ctx) AttachmentAssignment_resource (Browse lab)
             (lit ''You do not have permission to view attachments for this laboratory'') db) (\<lambda>_.
         and_then (map_err UnexpectedError (validate_permission db (env_now env) (ctx_actor ctx)
             AttachmentAssignment_resource (BrowseInternal lab))) (\<lambda>include_internal.
         and_then (page_limit p) (\<lambda>limit.
         and_then (page_offset p) (\<lambda>offset.
         PaginatedResponse_new (fetch_laboratory_attachments lab include_internal limit offset db) p
           (count_laboratory_attachments lab include_internal db))))))"

end
