(* ===== verification/Assets.thy ===== *)
theory Assets
  imports Asset_Parameters Asset_Categories Attachments
begin

text \<open>
  \<^verbatim>\<open>routes/assets/\<close> and its types of \<^verbatim>\<open>domain/\<close>: the assets of a laboratory with their stock, their
  parameter values and their attachments. The statements of \<^verbatim>\<open>queries.rs\<close> and the flows of
  \<^verbatim>\<open>service.rs\<close>; the handlers are in \<^verbatim>\<open>Asset_Handlers\<close>. The list of assets, whose statement is
  assembled from filters, is not modelled.
\<close>

section \<open>Requests\<close>

definition AssetName_parse :: "env \<Rightarrow> rstr \<Rightarrow> (rstr, rstr) result" where
  "AssetName_parse env = parse_name env 256 forbidden_characters (lit '' is not a valid asset name.'')"

record new_asset =
  ns_category_id :: "uuid option"
  ns_tracking_mode :: asset_tracking_mode
  ns_name :: rstr
  ns_model :: "rstr option"
  ns_manufacturer :: "rstr option"
  ns_inventory_unit_id :: uuid
  ns_public_notes :: "rstr option"
  ns_internal_notes :: "rstr option"

record asset_change =
  sc_category_id :: "uuid nullable_update"
  sc_tracking_mode :: "asset_tracking_mode option"
  sc_name :: "rstr option"
  sc_model :: "rstr nullable_update"
  sc_manufacturer :: "rstr nullable_update"
  sc_inventory_unit_id :: "uuid option"
  sc_public_notes :: "rstr nullable_update"
  sc_internal_notes :: "rstr nullable_update"

text \<open>A parameter value as sent; no value asks for its removal.\<close>

record value_input =
  vi_parameter_type_id :: uuid
  vi_value :: "json option"

text \<open>\<^verbatim>\<open>empty_to_none\<close>.\<close>

definition empty_to_none :: "rstr option \<Rightarrow> rstr option" where
  "empty_to_none v = (case v of None \<Rightarrow> None | Some s \<Rightarrow> if trim s = [] then None else Some (trim s))"

section \<open>Errors and constraints of the table\<close>

definition asset_name_index :: rstr where
  "asset_name_index = lit ''idx_assets_unique_laboratory_name_model''"

fun map_asset_error :: "sql_error \<Rightarrow> db_error" where
  "map_asset_error (UniqueViolation constraint) =
     (if constraint = asset_name_index
      then DbConflict (lit ''Asset name and model already exist in this laboratory'')
      else if constraint = serial_index
      then DbConflict (lit ''Inventory item serial number already exists for this asset'')
      else if constraint = aggregate_index
      then DbConflict (lit ''Inventory item already exists for this quantity aggregate'')
      else DbConflict (lit ''Asset already exists''))"
| "map_asset_error ForeignKeyViolation = DbValidation (lit ''Invalid referenced record'')"
| "map_asset_error CheckViolation = DbValidation (lit ''Invalid asset data'')"
| "map_asset_error (OtherSqlError e) = DbUnexpected e"

definition asset_checks :: "asset_row \<Rightarrow> bool" where
  "asset_checks a \<longleftrightarrow>
     (as_tracking_mode a = lit ''serialized'' \<or> as_tracking_mode a = lit ''quantity'') \<and> as_name a \<noteq> []"

definition same_asset_name :: "asset_row \<Rightarrow> asset_row \<Rightarrow> bool" where
  "same_asset_name a b \<longleftrightarrow>
     as_laboratory_id a = as_laboratory_id b \<and> as_name a = as_name b
     \<and> coalesce (as_model a) [] = coalesce (as_model b) []"

text \<open>Neither the category nor the unit has to be of the laboratory of the asset.\<close>

definition asset_violation :: "database \<Rightarrow> asset_row list \<Rightarrow> asset_row \<Rightarrow> sql_error option" where
  "asset_violation db others a =
     (if \<not> asset_checks a then Some CheckViolation
      else if \<exists>b\<in>set others. as_asset_id b = as_asset_id a then Some (UniqueViolation (lit ''assets_pkey''))
      else if \<exists>b\<in>set others. same_asset_name a b then Some (UniqueViolation asset_name_index)
      else if \<not> (as_laboratory_id a \<in> set (laboratories db)
                \<and> (case as_category_id a of None \<Rightarrow> True
                   | Some c \<Rightarrow> \<exists>r\<in>set (asset_categories db). ca_category_id r = c)
                \<and> (\<exists>u\<in>set (units db). un_unit_id u = as_inventory_unit_id a))
      then Some ForeignKeyViolation
      else None)"

section \<open>Statements about assets\<close>

definition items_of :: "uuid \<Rightarrow> database \<Rightarrow> inventory_row list" where
  "items_of asset_id db = filter (\<lambda>r. ii_asset_id r = asset_id) (inventory_items db)"

text \<open>The projection all reads share, with the number of the items and the sums over them.\<close>

definition asset_select :: "env \<Rightarrow> database \<Rightarrow> asset_row \<Rightarrow> (rstr, asset_view) result" where
  "asset_select env db a =
     (let items = items_of (as_asset_id a) db
      in and_then (ok_or cast_error (numeric_float8 env (sum_list (map ii_quantity_on_hand items)))) (\<lambda>on_hand.
         and_then (ok_or cast_error (numeric_float8 env (sum_list (map ii_quantity_allocated items)))) (\<lambda>allocated.
         Inr \<lparr>av_asset = a, av_inventory_item_count = int (length items), av_quantity_on_hand = on_hand,
              av_quantity_allocated = allocated\<rparr>)))"

definition fetch_asset :: "env \<Rightarrow> uuid \<Rightarrow> database \<Rightarrow> (rstr, asset_view option) result" where
  "fetch_asset env i db =
     transpose_with (asset_select env db) (fetch_optional (\<lambda>a. as_asset_id a = i) (assets db))"

definition fetch_asset_for_update :: "env \<Rightarrow> uuid \<Rightarrow> database \<Rightarrow> (rstr, asset_view option) result" where
  "fetch_asset_for_update env i db = fetch_asset env i db"

definition insert_asset :: "env \<Rightarrow> uuid \<Rightarrow> uuid \<Rightarrow> new_asset \<Rightarrow> (db_error, asset_view) tx" where
  "insert_asset env i lab n =
     (let a = \<lparr>as_asset_id = i, as_laboratory_id = lab,
          as_tracking_mode = AssetTrackingMode_as_str (ns_tracking_mode n), as_category_id = ns_category_id n,
          as_name = ns_name n, as_model = ns_model n, as_manufacturer = ns_manufacturer n,
          as_inventory_unit_id = ns_inventory_unit_id n, as_public_notes = ns_public_notes n,
          as_internal_notes = ns_internal_notes n, as_created_at = env_now env, as_updated_at = env_now env\<rparr>
      in tx_bind (tx_map_err map_asset_error (tx_write (\<lambda>db.
             case asset_violation db (assets db) a of
               Some e \<Rightarrow> Inl e
             | None \<Rightarrow> Inr (db\<lparr>assets := assets db @ [a]\<rparr>))))
           (\<lambda>_. tx_return \<lparr>av_asset = a, av_inventory_item_count = 0, av_quantity_on_hand = Fin 0,
                  av_quantity_allocated = Fin 0\<rparr>))"

definition set_asset ::
    "uuid option \<Rightarrow> asset_tracking_mode \<Rightarrow> rstr \<Rightarrow> rstr option \<Rightarrow> rstr option \<Rightarrow> uuid \<Rightarrow> rstr option
       \<Rightarrow> rstr option \<Rightarrow> int \<Rightarrow> asset_row \<Rightarrow> asset_row" where
  "set_asset category mode name model manufacturer unit public_notes internal_notes now a =
     a\<lparr>as_category_id := category, as_tracking_mode := AssetTrackingMode_as_str mode, as_name := name,
       as_model := model, as_manufacturer := manufacturer, as_inventory_unit_id := unit,
       as_public_notes := public_notes, as_internal_notes := internal_notes, as_updated_at := now\<rparr>"

text \<open>The items of an asset refer to its tracking mode as well, which keeps it while there are any.\<close>

definition update_asset_in_database ::
    "env \<Rightarrow> uuid \<Rightarrow> uuid option \<Rightarrow> asset_tracking_mode \<Rightarrow> rstr \<Rightarrow> rstr option \<Rightarrow> rstr option \<Rightarrow> uuid
       \<Rightarrow> rstr option \<Rightarrow> rstr option \<Rightarrow> (db_error, unit) tx" where
  "update_asset_in_database env i category mode name model manufacturer unit public_notes internal_notes =
     tx_map_err map_asset_error (tx_write (\<lambda>db.
       and_then (write_row (asset_violation db) as_asset_id
           (set_asset category mode name model manufacturer unit public_notes internal_notes (env_now env)) i
           (assets db)) (\<lambda>rows.
       if \<exists>r\<in>set (items_of i db). ii_tracking_mode r \<noteq> AssetTrackingMode_as_str mode
       then Inl ForeignKeyViolation
       else Inr (db\<lparr>assets := rows\<rparr>))))"

text \<open>
  Everything that hangs off an asset goes with it (\<^verbatim>\<open>ON DELETE CASCADE\<close>): its items with their
  attachments and borrow requests, its attachments, its parameter values.
\<close>

definition of_item_of :: "uuid \<Rightarrow> database \<Rightarrow> uuid \<Rightarrow> bool" where
  "of_item_of asset_id db item_id \<longleftrightarrow> item_id \<in> ii_inventory_item_id ` set (items_of asset_id db)"

definition hangs_off :: "uuid \<Rightarrow> database \<Rightarrow> attachment_row \<Rightarrow> bool" where
  "hangs_off asset_id db a \<longleftrightarrow>
     at_asset_id a = Some asset_id
     \<or> (case at_inventory_item_id a of None \<Rightarrow> False | Some i \<Rightarrow> of_item_of asset_id db i)"

definition delete_asset_from_database :: "uuid \<Rightarrow> (db_error, unit) tx" where
  "delete_asset_from_database asset_id =
     tx_write (\<lambda>db. Inr (db\<lparr>
       assets := filter (\<lambda>a. as_asset_id a \<noteq> asset_id) (assets db),
       inventory_items := filter (\<lambda>r. ii_asset_id r \<noteq> asset_id) (inventory_items db),
       attachments := filter (\<lambda>a. \<not> hangs_off asset_id db a) (attachments db),
       borrow_requests := filter (\<lambda>b. \<not> of_item_of asset_id db (br_inventory_item_id b)) (borrow_requests db),
       parameter_values := filter (\<lambda>v. pv_asset_id v \<noteq> asset_id) (parameter_values db)\<rparr>))"

section \<open>Statements about the stock of an asset\<close>

definition item_of_asset :: "env \<Rightarrow> inventory_row \<Rightarrow> (rstr, asset_item) result" where
  "item_of_asset env r =
     and_then (ok_or cast_error (numeric_float8 env (ii_quantity_on_hand r))) (\<lambda>on_hand.
     and_then (ok_or cast_error (numeric_float8 env (ii_quantity_allocated r))) (\<lambda>allocated.
     Inr \<lparr>ai_item = r, ai_quantity_on_hand = on_hand, ai_quantity_allocated = allocated\<rparr>))"

definition fetch_inventory_items_for_asset :: "env \<Rightarrow> uuid \<Rightarrow> database \<Rightarrow> (rstr, asset_item list) result" where
  "fetch_inventory_items_for_asset env asset_id db =
     collect_map (item_of_asset env)
       (sort_key (\<lambda>r. (ii_created_at r, ii_inventory_item_id r)) (items_of asset_id db))"

definition fetch_inventory_items_for_asset_for_update ::
    "env \<Rightarrow> uuid \<Rightarrow> database \<Rightarrow> (rstr, asset_item list) result" where
  "fetch_inventory_items_for_asset_for_update env asset_id db = fetch_inventory_items_for_asset env asset_id db"

definition insert_asset_item_row ::
    "env \<Rightarrow> uuid \<Rightarrow> uuid \<Rightarrow> uuid \<Rightarrow> asset_tracking_mode \<Rightarrow> new_item \<Rightarrow> (db_error, asset_item) tx" where
  "insert_asset_item_row env i lab asset_id mode item =
     tx_map_err map_asset_error (\<lambda>db.
       and_then (to_numeric env (ni_quantity_on_hand item)) (\<lambda>on_hand.
       and_then (to_numeric env (ni_quantity_allocated item)) (\<lambda>allocated.
       let r = \<lparr>ii_inventory_item_id = i, ii_asset_id = asset_id, ii_laboratory_id = lab,
             ii_tracking_mode = AssetTrackingMode_as_str mode, ii_serial_number = ni_serial_number item,
             ii_batch_number = ni_batch_number item, ii_quantity_on_hand = on_hand,
             ii_quantity_allocated = allocated, ii_location_id = ni_location_id item,
             ii_status = InventoryStatus_as_str (ni_status item), ii_public_notes = ni_public_notes item,
             ii_internal_notes = ni_internal_notes item, ii_created_at = env_now env,
             ii_updated_at = env_now env, ii_last_stocktake_at = None\<rparr>
       in and_then (insert_row r db) (\<lambda>db'.
          and_then (map_err OtherSqlError (item_of_asset env r)) (\<lambda>row. Inr (row, db'))))))"

definition rescale_row :: "rat \<Rightarrow> int \<Rightarrow> inventory_row \<Rightarrow> inventory_row" where
  "rescale_row factor now r =
     r\<lparr>ii_quantity_on_hand := ii_quantity_on_hand r * factor,
       ii_quantity_allocated := ii_quantity_allocated r * factor, ii_updated_at := now\<rparr>"

text \<open>The keys of the rows stay, so only the checks can be violated.\<close>

definition rescale_inventory_quantities :: "env \<Rightarrow> uuid \<Rightarrow> f64 \<Rightarrow> (db_error, unit) tx" where
  "rescale_inventory_quantities env asset_id factor =
     tx_map_err map_asset_error (tx_write (\<lambda>db.
       and_then (if items_of asset_id db = [] then Inr 1 else to_numeric env factor) (\<lambda>q.
       if \<exists>r\<in>set (items_of asset_id db). \<not> inventory_checks (rescale_row q (env_now env) r)
       then Inl CheckViolation
       else Inr (db\<lparr>inventory_items :=
              update_rows (\<lambda>r. ii_asset_id r = asset_id) (rescale_row q (env_now env)) (inventory_items db)\<rparr>))))"

section \<open>Statements about parameter values\<close>

definition asset_value_of :: "database \<Rightarrow> value_row \<Rightarrow> parameter_type_row \<Rightarrow> asset_value" where
  "asset_value_of db v t =
     (let picked = (case vc_option_id (pv_columns v) of None \<Rightarrow> None
            | Some i \<Rightarrow> fetch_optional (\<lambda>q. po_option_id q = i) (parameter_options db))
      in \<lparr>aw_row = v, aw_code = pt_code t, aw_name = pt_name t, aw_unit_dimension = pt_unit_dimension t,
          aw_default_unit_id = pt_default_unit_id t, aw_option_code = map_option po_code picked,
          aw_option_label = map_option po_label picked\<rparr>)"

definition fetch_parameter_values_for_asset :: "env \<Rightarrow> uuid \<Rightarrow> database \<Rightarrow> asset_value list" where
  "fetch_parameter_values_for_asset env asset_id db =
     sort_key (\<lambda>w. (collation_key env (aw_name w), collation_key env (aw_code w)))
       (concat (map (\<lambda>v. map (asset_value_of db v)
            (filter (\<lambda>t. pt_parameter_type_id t = pv_parameter_type_id v) (asset_parameter_types db)))
          (filter (\<lambda>v. pv_asset_id v = asset_id) (parameter_values db))))"

definition fetch_parameter_values_for_asset_for_update :: "env \<Rightarrow> uuid \<Rightarrow> database \<Rightarrow> asset_value list" where
  "fetch_parameter_values_for_asset_for_update env asset_id db = fetch_parameter_values_for_asset env asset_id db"

text \<open>The definitions of the named parameters, as a map from their ids.\<close>

definition fetch_parameter_definitions :: "uuid \<Rightarrow> uuid list \<Rightarrow> database \<Rightarrow> uuid \<Rightarrow> value_definition option" where
  "fetch_parameter_definitions lab ids db i =
     (if i \<notin> set ids then None
      else map_option (\<lambda>t. \<lparr>pd_parameter_type_id = pt_parameter_type_id t, pd_data_type = pt_data_type t,
               pd_unit_dimension = pt_unit_dimension t, pd_default_unit_id = pt_default_unit_id t\<rparr>)
             (fetch_optional (\<lambda>t. pt_laboratory_id t = lab \<and> pt_parameter_type_id t = i)
                (asset_parameter_types db)))"

definition set_value :: "env \<Rightarrow> resolved_value \<Rightarrow> value_row \<Rightarrow> value_row" where
  "set_value env value v =
     v\<lparr>pv_data_type := rv_data_type value, pv_columns := rv_columns value, pv_updated_at := env_now env\<rparr>"

text \<open>\<^verbatim>\<open>INSERT ... ON CONFLICT (asset_id, parameter_type_id) DO UPDATE\<close>.\<close>

definition upsert_asset_parameter_value ::
    "env \<Rightarrow> uuid \<Rightarrow> uuid \<Rightarrow> uuid \<Rightarrow> resolved_value \<Rightarrow> (db_error, unit) tx" where
  "upsert_asset_parameter_value env i lab asset_id value =
     tx_map_err map_asset_error (tx_write (\<lambda>db.
       let new = \<lparr>pv_value_id = i, pv_laboratory_id = lab, pv_asset_id = asset_id,
             pv_parameter_type_id = rv_parameter_type_id value, pv_data_type = rv_data_type value,
             pv_columns = rv_columns value, pv_created_at = env_now env, pv_updated_at = env_now env\<rparr>
       in case fetch_optional (\<lambda>v. pv_asset_id v = asset_id \<and> pv_parameter_type_id v = rv_parameter_type_id value)
                (parameter_values db) of
            Some v \<Rightarrow>
              and_then (write_row (value_violation db) pv_value_id (set_value env value) (pv_value_id v)
                  (parameter_values db))
                (\<lambda>rows. Inr (db\<lparr>parameter_values := rows\<rparr>))
          | None \<Rightarrow>
              (case value_violation db (parameter_values db) new of
                 Some e \<Rightarrow> Inl e
               | None \<Rightarrow> Inr (db\<lparr>parameter_values := parameter_values db @ [new]\<rparr>))))"

definition delete_asset_parameter_value :: "uuid \<Rightarrow> uuid \<Rightarrow> (db_error, unit) tx" where
  "delete_asset_parameter_value asset_id parameter_type_id =
     tx_write (\<lambda>db. Inr (db\<lparr>parameter_values :=
       filter (\<lambda>v. \<not> (pv_asset_id v = asset_id \<and> pv_parameter_type_id v = parameter_type_id))
         (parameter_values db)\<rparr>))"

definition fetch_parameter_type_ids_with_values :: "uuid \<Rightarrow> uuid \<Rightarrow> database \<Rightarrow> uuid list" where
  "fetch_parameter_type_ids_with_values lab asset_id db =
     map pv_parameter_type_id
       (filter (\<lambda>v. pv_laboratory_id v = lab \<and> pv_asset_id v = asset_id) (parameter_values db))"

text \<open>
  What a category requires: its own required parameters, and those of the categories above it that
  apply to their descendants. \<^verbatim>\<open>DISTINCT ON (parameter_type_id) ... ORDER BY parameter_type_id\<close>.
\<close>

definition required_by :: "database \<Rightarrow> uuid \<Rightarrow> uuid \<Rightarrow> uuid \<Rightarrow> bool" where
  "required_by db lab category_id parameter_type_id \<longleftrightarrow>
     (\<exists>current\<in>set (asset_categories db). \<exists>ancestor\<in>set (asset_categories db). \<exists>g\<in>set (parameter_assignments db).
        ca_laboratory_id current = lab \<and> ca_category_id current = category_id
        \<and> category_in_tree lab (ca_path ancestor) current \<and> ca_laboratory_id ancestor = lab
        \<and> ag_category_id g = ca_category_id ancestor \<and> ag_parameter_type_id g = parameter_type_id
        \<and> ag_is_required g
        \<and> (ca_category_id ancestor = ca_category_id current \<or> ag_applies_to_descendants g))"

definition fetch_required_parameters :: "uuid \<Rightarrow> uuid \<Rightarrow> database \<Rightarrow> uuid list" where
  "fetch_required_parameters lab category_id db =
     sort (remdups (filter (required_by db lab category_id) (map ag_parameter_type_id (parameter_assignments db))))"

section \<open>Checks of references\<close>

definition validate_category :: "uuid \<Rightarrow> uuid option \<Rightarrow> database \<Rightarrow> (db_error, unit) result" where
  "validate_category lab category_id db =
     (case category_id of
        None \<Rightarrow> Inr ()
      | Some c \<Rightarrow>
          ensure (fetch_optional (\<lambda>r. ca_laboratory_id r = lab \<and> ca_category_id r = c) (asset_categories db) \<noteq> None)
            (DbValidation (lit ''Asset category does not belong to this laboratory'')))"

definition validate_item_location :: "uuid \<Rightarrow> uuid \<Rightarrow> database \<Rightarrow> (db_error, unit) result" where
  "validate_item_location lab location db =
     ensure (fetch_optional (\<lambda>l. lo_laboratory_id l = lab \<and> lo_location_id l = location) (locations db) \<noteq> None)
       (DbValidation (lit ''Inventory item location does not belong to this laboratory''))"

text \<open>The attachments of an asset and of its items, with their files; ids and storage keys.\<close>

definition delete_asset_attachments :: "uuid \<Rightarrow> uuid list \<Rightarrow> (db_error, (uuid \<times> rstr) list) tx" where
  "delete_asset_attachments asset_id item_ids = (\<lambda>db.
     let goes = (\<lambda>a. at_asset_id a = Some asset_id
               \<or> (case at_inventory_item_id a of None \<Rightarrow> False | Some i \<Rightarrow> i \<in> set item_ids));
         deleted = filter goes (attachments db); kept = filter (\<lambda>a. \<not> goes a) (attachments db);
         named = (\<lambda>f. fi_file_id f \<in> at_file_id ` set deleted)
     in if \<exists>a\<in>set kept. \<exists>f\<in>set (files db). named f \<and> at_file_id a = fi_file_id f
        then Inl (DbUnexpected (lit ''Failed to delete asset attachments''))
        else Inr (sort_key fst (concat (map (\<lambda>a. map (\<lambda>f. (at_attachment_id a, fi_storage_key f))
                     (filter (\<lambda>f. fi_file_id f = at_file_id a) (files db))) deleted)),
                  db\<lparr>attachments := kept, files := filter (\<lambda>f. \<not> named f) (files db)\<rparr>))"

section \<open>Flows\<close>

definition insert_asset_inventory_item ::
    "env \<Rightarrow> uuid \<Rightarrow> uuid \<Rightarrow> uuid \<Rightarrow> asset_tracking_mode \<Rightarrow> new_item \<Rightarrow> (db_error, asset_item) tx" where
  "insert_asset_inventory_item env i lab asset_id mode item =
     tx_bind (case ni_location_id item of
         Some l \<Rightarrow> tx_read (validate_item_location lab l) | None \<Rightarrow> tx_return ()) (\<lambda>_.
     insert_asset_item_row env i lab asset_id mode item)"

definition convert_inventory_quantities_to_unit ::
    "env \<Rightarrow> uuid \<Rightarrow> asset_tracking_mode \<Rightarrow> uuid \<Rightarrow> uuid \<Rightarrow> (db_error, unit) tx" where
  "convert_inventory_quantities_to_unit env asset_id mode source target =
     (if source = target then tx_return ()
      else tx_bind (tx_read (fetch_parameter_unit source)) (\<lambda>source_unit.
           tx_bind (tx_read (fetch_parameter_unit target)) (\<lambda>target_unit.
           tx_bind (tx_lift (ensure (un_dimension source_unit = un_dimension target_unit)
               (DbValidation (lit ''New inventory unit must measure the same dimension as the current one'')))) (\<lambda>_.
           if mode = Serialized then tx_return ()
           else rescale_inventory_quantities env asset_id
                  (f64_div (un_scale_to_base source_unit) (un_scale_to_base target_unit))))))"

definition validate_unique_parameter_inputs :: "value_input list \<Rightarrow> (db_error, unit) result" where
  "validate_unique_parameter_inputs inputs =
     ensure (distinct (map vi_parameter_type_id inputs)) (DbValidation (lit ''Asset parameter values must be unique''))"

text \<open>Each input may draw one id, the \<open>i\<close>-th the request draws from here on.\<close>

fun apply_each_update ::
    "env \<Rightarrow> nat \<Rightarrow> uuid \<Rightarrow> uuid \<Rightarrow> (uuid \<Rightarrow> value_definition option) \<Rightarrow> bool \<Rightarrow> value_input list
       \<Rightarrow> (db_error, unit) tx" where
  "apply_each_update env next_id lab asset_id definitions allow_delete [] = tx_return ()"
| "apply_each_update env next_id lab asset_id definitions allow_delete (input # inputs) =
     (case vi_value input of
        Some value \<Rightarrow>
          tx_bind (tx_lift (ok_or (DbValidation (lit ''Asset parameter does not belong to this laboratory''))
              (definitions (vi_parameter_type_id input)))) (\<lambda>d.
          tx_bind (tx_read (resolve_parameter_value env d value)) (\<lambda>resolved.
          tx_bind (upsert_asset_parameter_value env (env_new_v4 env next_id) lab asset_id resolved) (\<lambda>_.
          apply_each_update env (Suc next_id) lab asset_id definitions allow_delete inputs)))
      | None \<Rightarrow>
          tx_bind (tx_lift (ensure allow_delete (DbValidation (lit ''Asset parameter value is required'')))) (\<lambda>_.
          tx_bind (delete_asset_parameter_value asset_id (vi_parameter_type_id input)) (\<lambda>_.
          apply_each_update env next_id lab asset_id definitions allow_delete inputs)))"

definition apply_asset_parameter_updates ::
    "env \<Rightarrow> nat \<Rightarrow> uuid \<Rightarrow> uuid \<Rightarrow> value_input list \<Rightarrow> bool \<Rightarrow> (db_error, unit) tx" where
  "apply_asset_parameter_updates env next_id lab asset_id inputs allow_delete =
     tx_bind (tx_lift (validate_unique_parameter_inputs inputs)) (\<lambda>_.
     tx_bind (tx_read (\<lambda>db. Inr (fetch_parameter_definitions lab (map vi_parameter_type_id inputs) db)))
       (\<lambda>definitions.
     apply_each_update env next_id lab asset_id definitions allow_delete inputs))"

definition validate_required_parameters :: "uuid \<Rightarrow> uuid \<Rightarrow> uuid option \<Rightarrow> database \<Rightarrow> (db_error, unit) result" where
  "validate_required_parameters lab asset_id category_id db =
     (case category_id of
        None \<Rightarrow> Inr ()
      | Some c \<Rightarrow>
          (let required = fetch_required_parameters lab c db;
               existing = fetch_parameter_type_ids_with_values lab asset_id db
           in ensure (list_all (\<lambda>i. i \<in> set existing) required)
                (DbValidation (lit ''Missing required asset parameter value''))))"

end
