(* ===== verification/Asset_Handlers.thy ===== *)
theory Asset_Handlers
  imports Assets Inventory_Delete
begin

text \<open>
  The handlers of \<^verbatim>\<open>routes/assets/\<close>: \<^verbatim>\<open>create.rs\<close>, \<^verbatim>\<open>update.rs\<close>, \<^verbatim>\<open>delete.rs\<close>, \<^verbatim>\<open>get.rs\<close>, their payloads and
  the response of \<^verbatim>\<open>model.rs\<close>. A transaction ends with \<^const>\<open>commit\<close>, where the key of the values to
  their parameters is checked.
\<close>

section \<open>Creation requests\<close>

record item_payload =
  aj_serial_number :: "rstr option"
  aj_batch_number :: "rstr option"
  aj_quantity_on_hand :: "f64 option"
  aj_quantity_allocated :: "f64 option"
  aj_location_id :: "uuid option"
  aj_status :: "rstr option"
  aj_public_notes :: "rstr option"
  aj_internal_notes :: "rstr option"
  aj_attachments :: "attachment_payload list option"

record asset_payload =
  aa_category_id :: "uuid option"
  aa_tracking_mode :: rstr
  aa_name :: rstr
  aa_model :: "rstr option"
  aa_manufacturer :: "rstr option"
  aa_inventory_unit_id :: uuid
  aa_public_notes :: "rstr option"
  aa_internal_notes :: "rstr option"
  aa_inventory_items :: "item_payload list option"
  aa_parameters :: "(uuid \<times> json) list option"
  aa_attachments :: "attachment_payload list option"

definition upload_ids :: "asset_payload \<Rightarrow> uuid list" where
  "upload_ids p =
     map aq_upload_id (coalesce (aa_attachments p) [])
     @ concat (map (\<lambda>item. map aq_upload_id (coalesce (aj_attachments item) [])) (coalesce (aa_inventory_items p) []))"

record item_input =
  il_item :: new_item
  il_attachments :: "new_attachment list"

record asset_input =
  in_asset :: new_asset
  in_attachments :: "new_attachment list"
  in_parameter_values :: "value_input list"
  in_inventory_items :: "item_input list"

definition parse_attachments :: "env \<Rightarrow> attachment_payload list option \<Rightarrow> (rstr, new_attachment list) result" where
  "parse_attachments env ps = collect_map (NewAttachment_try_from env) (coalesce ps [])"

definition NewInventoryItemInput_parse ::
    "env \<Rightarrow> asset_tracking_mode \<Rightarrow> item_payload \<Rightarrow> (rstr, item_input) result" where
  "NewInventoryItemInput_parse env mode p =
     and_then (parse_attachments env (aj_attachments p)) (\<lambda>new_attachments.
     and_then (NewItem_parse_for_tracking_mode env mode (aj_serial_number p) (aj_batch_number p)
         (aj_quantity_on_hand p) (aj_quantity_allocated p) (aj_location_id p) (aj_status p) (aj_public_notes p)
         (aj_internal_notes p)) (\<lambda>item.
     Inr \<lparr>il_item = item, il_attachments = new_attachments\<rparr>))"

definition NewAsset_try_from :: "env \<Rightarrow> asset_payload \<Rightarrow> (rstr, new_asset) result" where
  "NewAsset_try_from env p =
     and_then (AssetTrackingMode_parse (aa_tracking_mode p)) (\<lambda>mode.
     and_then (AssetName_parse env (aa_name p)) (\<lambda>name.
     Inr \<lparr>ns_category_id = aa_category_id p, ns_tracking_mode = mode, ns_name = name,
          ns_model = empty_to_none (aa_model p), ns_manufacturer = empty_to_none (aa_manufacturer p),
          ns_inventory_unit_id = aa_inventory_unit_id p, ns_public_notes = empty_to_none (aa_public_notes p),
          ns_internal_notes = empty_to_none (aa_internal_notes p)\<rparr>))"

definition all_attachments :: "asset_input \<Rightarrow> new_attachment list" where
  "all_attachments input = in_attachments input @ concat (map il_attachments (in_inventory_items input))"

definition CreateAssetInput_try_from :: "env \<Rightarrow> asset_payload \<Rightarrow> (rstr, asset_input) result" where
  "CreateAssetInput_try_from env p =
     and_then (parse_attachments env (aa_attachments p)) (\<lambda>new_attachments.
     and_then (NewAsset_try_from env p) (\<lambda>asset.
     and_then (collect_map (NewInventoryItemInput_parse env (ns_tracking_mode asset))
         (coalesce (aa_inventory_items p) [])) (\<lambda>items.
     let input = \<lparr>in_asset = asset, in_attachments = new_attachments,
           in_parameter_values = map (\<lambda>(i, value). \<lparr>vi_parameter_type_id = i, vi_value = Some value\<rparr>)
             (coalesce (aa_parameters p) []),
           in_inventory_items = items\<rparr>
     in and_then (ensure_unique_uploads (all_attachments input)) (\<lambda>_. Inr input))))"

section \<open>Responses\<close>

definition item_response :: "bool \<Rightarrow> asset_item \<Rightarrow> asset_item" where
  "item_response include_internal_notes w =
     w\<lparr>ai_item := (ai_item w)\<lparr>ii_internal_notes :=
        (if include_internal_notes then ii_internal_notes (ai_item w) else None)\<rparr>\<rparr>"

text \<open>A value in a response: the row with its parameter, and its JSON.\<close>

definition asset_value_response :: "env \<Rightarrow> asset_value \<Rightarrow> asset_value \<times> json" where
  "asset_value_response env w =
     (w, parameter_value_json env (pv_data_type (aw_row w)) (pv_columns (aw_row w)) (aw_option_code w)
           (aw_option_label w))"

record asset_response =
  sr_asset :: asset_view
  sr_inventory_items :: "asset_item list option"
  sr_parameters :: "(asset_value \<times> json) list option"

definition AssetResponse_from_parts ::
    "env \<Rightarrow> asset_view \<Rightarrow> asset_item list option \<Rightarrow> asset_value list option \<Rightarrow> bool \<Rightarrow> asset_response" where
  "AssetResponse_from_parts env row items parameters include_internal_notes =
     \<lparr>sr_asset = row\<lparr>av_asset := (av_asset row)\<lparr>as_internal_notes :=
        (if include_internal_notes then as_internal_notes (av_asset row) else None)\<rparr>\<rparr>,
      sr_inventory_items = map_option (map (item_response include_internal_notes)) items,
      sr_parameters = map_option (map (asset_value_response env)) parameters\<rparr>"

section \<open>Creation\<close>

text \<open>An upload that is missing is answered as a mistake in the request.\<close>

fun create_from_assign_error :: "handler_error \<Rightarrow> handler_error" where
  "create_from_assign_error (NotFound m) = ValidationError m"
| "create_from_assign_error e = e"

definition assign_for_asset ::
    "env \<Rightarrow> nat \<Rightarrow> uuid \<Rightarrow> attachment_target \<Rightarrow> uuid \<Rightarrow> new_attachment list
       \<Rightarrow> (handler_error, attachment_view list) tx" where
  "assign_for_asset env next_id actor_user target lab news =
     tx_map_err create_from_assign_error (assign_uploaded_attachments env next_id actor_user target (Some lab) news)"

text \<open>The items in turn, each with its attachments. An item takes one id, an attachment two.\<close>

fun insert_each_item ::
    "env \<Rightarrow> nat \<Rightarrow> uuid \<Rightarrow> uuid \<Rightarrow> uuid \<Rightarrow> asset_tracking_mode \<Rightarrow> item_input list \<Rightarrow> (handler_error, nat) tx" where
  "insert_each_item env next_id actor_user lab asset_id mode [] = tx_return next_id"
| "insert_each_item env next_id actor_user lab asset_id mode (input # inputs) =
     tx_bind (tx_map_err from_db_error
         (insert_asset_inventory_item env (env_new_v4 env next_id) lab asset_id mode (il_item input))) (\<lambda>row.
     tx_bind (assign_for_asset env (Suc next_id) actor_user
         (InventoryItem_target (ii_inventory_item_id (ai_item row))) lab (il_attachments input)) (\<lambda>_.
     insert_each_item env (Suc next_id + 2 * length (il_attachments input)) actor_user lab asset_id mode inputs))"

definition insert_asset_graph :: "env \<Rightarrow> uuid \<Rightarrow> uuid \<Rightarrow> asset_input \<Rightarrow> (handler_error, uuid) tx" where
  "insert_asset_graph env actor_user lab input =
     tx_bind (tx_map_err from_db_error (tx_read (validate_category lab (ns_category_id (in_asset input))))) (\<lambda>_.
     tx_bind (tx_map_err from_db_error (insert_asset env (env_new_v4 env 0) lab (in_asset input))) (\<lambda>asset.
     let asset_id = as_asset_id (av_asset asset) in
     tx_bind (assign_for_asset env 1 actor_user (Asset_target asset_id) lab (in_attachments input)) (\<lambda>_.
     tx_bind (insert_each_item env (1 + 2 * length (in_attachments input)) actor_user lab asset_id
         (ns_tracking_mode (in_asset input)) (in_inventory_items input)) (\<lambda>next_id.
     tx_bind (tx_map_err from_db_error
         (apply_asset_parameter_updates env next_id lab asset_id (in_parameter_values input) False)) (\<lambda>_.
     tx_bind (tx_map_err from_db_error
         (tx_read (validate_required_parameters lab asset_id (as_category_id (av_asset asset))))) (\<lambda>_.
     tx_return asset_id))))))"

text \<open>The rows of an asset as they are at the end of a transaction.\<close>

definition read_asset_graph ::
    "env \<Rightarrow> uuid \<Rightarrow> rstr \<Rightarrow> (handler_error, asset_view \<times> asset_item list \<times> asset_value list) tx" where
  "read_asset_graph env asset_id missing =
     tx_bind (unexpected (tx_read (fetch_asset_for_update env asset_id))) (\<lambda>found.
     tx_bind (tx_lift (ok_or (UnexpectedError missing) found)) (\<lambda>asset.
     tx_bind (unexpected (tx_read (fetch_inventory_items_for_asset_for_update env (as_asset_id (av_asset asset)))))
       (\<lambda>items.
     tx_bind (tx_read (\<lambda>db. Inr (fetch_parameter_values_for_asset_for_update env (as_asset_id (av_asset asset)) db)))
       (\<lambda>parameters.
     tx_return (asset, items, parameters)))))"

definition create_asset_in_transaction ::
    "env \<Rightarrow> laboratory_context \<Rightarrow> asset_input \<Rightarrow> (handler_error, asset_response) tx" where
  "create_asset_in_transaction env ctx input =
     tx_bind (insert_asset_graph env (actor_user_id (ctx_actor ctx)) (ctx_laboratory_id ctx) input) (\<lambda>asset_id.
     tx_bind (read_asset_graph env asset_id (lit ''Created asset not found'')) (\<lambda>(asset, items, parameters).
     tx_bind (unexpected (record_audit (actor_user_id (ctx_actor ctx)) Audit_Create Res_Asset
         (Some (as_asset_id (av_asset asset))) (Details_create_asset (as_asset_id (av_asset asset))))) (\<lambda>_.
     tx_bind commit (\<lambda>_.
     tx_return (AssetResponse_from_parts env asset (Some items) (Some parameters) True)))))"

definition create_asset ::
    "env \<Rightarrow> laboratory_context \<Rightarrow> asset_payload \<Rightarrow> database \<Rightarrow> (handler_error, asset_response) result \<times> database" where
  "create_asset env ctx payload db =
     run_handler
       (and_then (require_permission env (ctx_actor ctx) Asset_resource (Create (ctx_laboratory_id ctx))
            (lit ''You don't have permission to create assets.'') db) (\<lambda>_.
        and_then (require_all_permissions env (ctx_actor ctx) FileUpload_resource Assign
            (lit ''You do not have permission to assign this attachment'') (upload_ids payload) db) (\<lambda>_.
        map_err ValidationError (CreateAssetInput_try_from env payload))))
       (create_asset_in_transaction env ctx) db"

section \<open>Update\<close>

record asset_change_payload =
  ax_category_id :: "uuid option option"
  ax_tracking_mode :: "rstr option"
  ax_name :: "rstr option"
  ax_model :: "rstr option option"
  ax_manufacturer :: "rstr option option"
  ax_inventory_unit_id :: "uuid option"
  ax_public_notes :: "rstr option option"
  ax_internal_notes :: "rstr option option"
  ax_parameters :: "(uuid \<times> json option option) list option"

definition parse_nullable_text :: "rstr option option \<Rightarrow> rstr nullable_update" where
  "parse_nullable_text v =
     (case v of
        Some (Some s) \<Rightarrow> if trim s = [] then Clear else Set_to (trim s)
      | Some None \<Rightarrow> Clear
      | None \<Rightarrow> Unchanged)"

definition UpdateAsset_try_from :: "env \<Rightarrow> asset_change_payload \<Rightarrow> (rstr, asset_change) result" where
  "UpdateAsset_try_from env p =
     and_then (transpose_with AssetTrackingMode_parse (ax_tracking_mode p)) (\<lambda>mode.
     and_then (transpose_with (AssetName_parse env) (ax_name p)) (\<lambda>name.
     Inr \<lparr>sc_category_id = into_nullable_update (ax_category_id p), sc_tracking_mode = mode, sc_name = name,
          sc_model = parse_nullable_text (ax_model p), sc_manufacturer = parse_nullable_text (ax_manufacturer p),
          sc_inventory_unit_id = ax_inventory_unit_id p, sc_public_notes = parse_nullable_text (ax_public_notes p),
          sc_internal_notes = parse_nullable_text (ax_internal_notes p)\<rparr>))"

definition changed_value_input :: "uuid \<times> json option option \<Rightarrow> value_input" where
  "changed_value_input p = \<lparr>vi_parameter_type_id = fst p, vi_value = coalesce (snd p) None\<rparr>"

definition resolve_tracking_mode :: "asset_change \<Rightarrow> asset_view \<Rightarrow> (handler_error, asset_tracking_mode) result" where
  "resolve_tracking_mode change existing =
     and_then (map_err ValidationError (AssetTrackingMode_parse (as_tracking_mode (av_asset existing)))) (\<lambda>current.
     let mode = coalesce (sc_tracking_mode change) current
     in if mode \<noteq> current \<and> av_inventory_item_count existing > 0
        then Inl (ValidationError (lit ''Cannot change tracking_mode while inventory items exist''))
        else Inr mode)"

definition update_asset_in_transaction ::
    "env \<Rightarrow> laboratory_context \<Rightarrow> uuid \<Rightarrow> value_input list option \<Rightarrow> asset_change
       \<Rightarrow> (handler_error, asset_response) tx" where
  "update_asset_in_transaction env ctx i value_inputs change =
     tx_bind (unexpected (tx_read (fetch_asset_for_update env i))) (\<lambda>found.
     tx_bind (tx_lift (ok_or (NotFound (lit ''Asset not found'')) found)) (\<lambda>existing.
     let old = av_asset existing; asset_id = as_asset_id old; lab = as_laboratory_id old;
         category_id = resolve_update (sc_category_id change) (as_category_id old);
         unit_id = coalesce (sc_inventory_unit_id change) (as_inventory_unit_id old) in
     tx_bind (tx_read (\<lambda>db. Inr (fetch_parameter_values_for_asset_for_update env asset_id db))) (\<lambda>existing_parameters.
     tx_bind (tx_map_err from_db_error (tx_read (validate_category lab category_id))) (\<lambda>_.
     tx_bind (tx_lift (resolve_tracking_mode change existing)) (\<lambda>mode.
     tx_bind (tx_map_err from_db_error (update_asset_in_database env asset_id category_id mode
         (coalesce (sc_name change) (as_name old)) (resolve_update (sc_model change) (as_model old))
         (resolve_update (sc_manufacturer change) (as_manufacturer old)) unit_id
         (resolve_update (sc_public_notes change) (as_public_notes old))
         (resolve_update (sc_internal_notes change) (as_internal_notes old)))) (\<lambda>_.
     tx_bind (tx_map_err from_db_error
         (convert_inventory_quantities_to_unit env asset_id mode (as_inventory_unit_id old) unit_id)) (\<lambda>_.
     tx_bind (case value_inputs of
         None \<Rightarrow> tx_return ()
       | Some inputs \<Rightarrow> tx_map_err from_db_error (apply_asset_parameter_updates env 0 lab asset_id inputs True)) (\<lambda>_.
     tx_bind (tx_map_err from_db_error (tx_read (validate_required_parameters lab asset_id category_id))) (\<lambda>_.
     tx_bind (read_asset_graph env asset_id (lit ''Updated asset not found'')) (\<lambda>(asset, items, parameters).
     tx_bind (unexpected (record_audit (actor_user_id (ctx_actor ctx)) Audit_Update Res_Asset
         (Some (as_asset_id (av_asset asset))) (Details_update_asset existing existing_parameters))) (\<lambda>_.
     tx_bind commit (\<lambda>_.
     tx_return (AssetResponse_from_parts env asset (Some items) (Some parameters) True)))))))))))))"

definition update_asset ::
    "env \<Rightarrow> laboratory_context \<Rightarrow> uuid \<Rightarrow> asset_change_payload \<Rightarrow> database
       \<Rightarrow> (handler_error, asset_response) result \<times> database" where
  "update_asset env ctx asset_id payload db =
     run_handler
       (and_then (require_permission env (authorization_actor ctx) Asset_resource (Update asset_id)
            (lit ''You don't have permission to update this asset.'') db) (\<lambda>_.
        map_err ValidationError (UpdateAsset_try_from env payload)))
       (update_asset_in_transaction env ctx asset_id (map_option (map changed_value_input) (ax_parameters payload)))
       db"

section \<open>Deletion and reading\<close>

definition delete_asset_in_transaction ::
    "env \<Rightarrow> laboratory_context \<Rightarrow> uuid \<Rightarrow> (handler_error, (uuid \<times> rstr) list) tx" where
  "delete_asset_in_transaction env ctx i =
     tx_bind (unexpected (tx_read (fetch_asset_for_update env i))) (\<lambda>found.
     tx_bind (tx_lift (ok_or (NotFound (lit ''Asset not found'')) found)) (\<lambda>asset.
     let asset_id = as_asset_id (av_asset asset) in
     tx_bind (unexpected (tx_read (fetch_inventory_items_for_asset_for_update env asset_id))) (\<lambda>items.
     tx_bind (tx_read (\<lambda>db. Inr (fetch_parameter_values_for_asset_for_update env asset_id db))) (\<lambda>values.
     tx_bind (tx_map_err delete_from_db_error
         (delete_asset_attachments asset_id (map (\<lambda>w. ii_inventory_item_id (ai_item w)) items))) (\<lambda>deleted.
     tx_bind (tx_map_err delete_from_db_error (delete_asset_from_database asset_id)) (\<lambda>_.
     tx_bind (unexpected (record_audit (actor_user_id (ctx_actor ctx)) Audit_Delete Res_Asset (Some asset_id)
         (Details_delete_asset asset items values (map fst deleted)))) (\<lambda>_.
     tx_bind commit (\<lambda>_.
     tx_return deleted))))))))"

definition delete_asset ::
    "env \<Rightarrow> local_storage \<Rightarrow> laboratory_context \<Rightarrow> uuid \<Rightarrow> database \<Rightarrow> disk
       \<Rightarrow> (handler_error, unit) result \<times> database \<times> disk" where
  "delete_asset env st ctx asset_id db disk =
     after_commit st
       (run_handler
         (require_permission env (authorization_actor ctx) Asset_resource (Delete asset_id)
            (lit ''You don't have permission to delete this asset.'') db)
         (\<lambda>_. delete_asset_in_transaction env ctx asset_id) db) disk"

text \<open>\<^verbatim>\<open>parse_include\<close>: a list of names, of which only one is known.\<close>

definition parse_include :: "rstr option \<Rightarrow> (rstr, bool) result" where
  "parse_include v =
     (case v of
        None \<Rightarrow> Inr False
      | Some s \<Rightarrow>
          (let includes = filter (\<lambda>x. x \<noteq> []) (map trim (split_at 44 s))
           in case find (\<lambda>x. x \<noteq> lit ''parameters'') includes of
                Some x \<Rightarrow> Inl (lit ''Unsupported include: '' @ x)
              | None \<Rightarrow> Inr (lit ''parameters'' \<in> set includes)))"

definition get_asset ::
    "env \<Rightarrow> laboratory_context \<Rightarrow> uuid \<Rightarrow> rstr option \<Rightarrow> database \<Rightarrow> (handler_error, asset_response) result" where
  "get_asset env ctx asset_id included db =
     and_then (require_permission env (authorization_actor ctx) Asset_resource (Read asset_id)
         (lit ''You are not allowed to get this asset'') db) (\<lambda>_.
     and_then (map_err ValidationError (parse_include included)) (\<lambda>include_parameters.
     and_then (map_err UnexpectedError (fetch_asset env asset_id db)) (\<lambda>found.
     and_then (ok_or (NotFound (lit ''Asset not found'')) found) (\<lambda>asset.
     and_then (map_err UnexpectedError (validate_permission db (env_now env) (authorization_actor ctx)
         Asset_resource (BrowseInternal (as_laboratory_id (av_asset asset))))) (\<lambda>include_internal_notes.
     and_then (map_err UnexpectedError (fetch_inventory_items_for_asset env (as_asset_id (av_asset asset)) db))
       (\<lambda>items.
     Inr (AssetResponse_from_parts env asset (Some items)
            (if include_parameters
             then Some (fetch_parameter_values_for_asset env (as_asset_id (av_asset asset)) db) else None)
            include_internal_notes)))))))"

end
