(* ===== verification/Parameter_Handlers.thy ===== *)
theory Parameter_Handlers
  imports Asset_Parameters
begin

text \<open>
  The flows of \<^verbatim>\<open>routes/asset_parameters/service.rs\<close> and the six handlers. A request that inserts
  several rows draws its ids in order: the flows carry the number of ids drawn so far.
\<close>

section \<open>Rules on options and units\<close>

definition require_option :: "bool \<Rightarrow> rstr \<Rightarrow> (db_error, unit) result" where
  "require_option b message = ensure b (DbValidation message)"

text \<open>The loops over a \<^verbatim>\<open>HashSet\<close> of seen values end at the first repetition.\<close>

definition validate_new_options :: "data_type \<Rightarrow> option_input list \<Rightarrow> (db_error, unit) result" where
  "validate_new_options dt options =
     and_then (require_option (dt = Enum \<or> options = [])
         (lit ''Options are only allowed for enum asset parameters'')) (\<lambda>_.
     and_then (require_option (dt \<noteq> Enum \<or> options \<noteq> [])
         (lit ''Enum asset parameters require at least one option'')) (\<lambda>_.
     require_option (distinct (map oi_code options)) (lit ''Option codes must be unique'')))"

fun unique_options :: "uuid list \<Rightarrow> rstr list \<Rightarrow> option_input list \<Rightarrow> (db_error, unit) result" where
  "unique_options seen_ids seen_codes [] = Inr ()"
| "unique_options seen_ids seen_codes (q # qs) =
     (let ids = (case oi_option_id q of None \<Rightarrow> seen_ids | Some i \<Rightarrow> i # seen_ids)
      in and_then (require_option (case oi_option_id q of None \<Rightarrow> True | Some i \<Rightarrow> i \<notin> set seen_ids)
             (lit ''Option ids must be unique'')) (\<lambda>_.
         and_then (require_option (oi_code q \<notin> set seen_codes) (lit ''Option codes must be unique'')) (\<lambda>_.
         unique_options ids (oi_code q # seen_codes) qs)))"

definition validate_update_option_list :: "option_input list \<Rightarrow> (db_error, unit) result" where
  "validate_update_option_list options =
     and_then (require_option (options \<noteq> []) (lit ''Enum asset parameters require at least one option''))
       (\<lambda>_. unique_options [] [] options)"

definition validate_updated_options ::
    "data_type \<Rightarrow> option_input list option \<Rightarrow> option_row list \<Rightarrow> (db_error, unit) result" where
  "validate_updated_options dt update_options existing_options =
     (if dt \<noteq> Enum then
        require_option (coalesce update_options [] = []) (lit ''Options are only allowed for enum asset parameters'')
      else
        (case update_options of
           Some options \<Rightarrow> validate_update_option_list options
         | None \<Rightarrow> require_option (existing_options \<noteq> [])
             (lit ''Enum asset parameters require at least one option'')))"

definition normalize_unit_configuration ::
    "data_type \<Rightarrow> rstr option \<Rightarrow> uuid option \<Rightarrow> database \<Rightarrow> (db_error, rstr option) result" where
  "normalize_unit_configuration dt unit_dimension default_unit_id db =
     (if \<not> (dt = Number \<or> dt = Range) then
        and_then (require_option (unit_dimension = None \<and> default_unit_id = None)
            (lit ''Units are only allowed for number or range asset parameters'')) (\<lambda>_. Inr None)
      else
        (case default_unit_id of
           None \<Rightarrow> Inr unit_dimension
         | Some i \<Rightarrow>
             and_then (ok_or (DbValidation (lit ''Default unit not found'')) (fetch_unit_dimension_for_update i db))
               (\<lambda>default_unit_dimension.
             and_then (require_option (case unit_dimension of None \<Rightarrow> True | Some d \<Rightarrow> d = default_unit_dimension)
                 (lit ''Default unit dimension does not match asset parameter unit dimension'')) (\<lambda>_.
             Inr (Some default_unit_dimension)))))"

section \<open>Writing options\<close>

text \<open>The rows sorted in the program, by code points.\<close>

definition insert_new_options ::
    "env \<Rightarrow> nat \<Rightarrow> uuid \<Rightarrow> option_input list \<Rightarrow> (db_error, option_row list) tx" where
  "insert_new_options env first parameter_id options =
     tx_bind (tx_for_each (\<lambda>(i, q). insert_new_asset_parameter_option (env_new_v4 env i) parameter_id q)
       (enumerate first options)) (\<lambda>rows.
     tx_return (sort_key (\<lambda>r. (sint (po_sort_order r), po_label r, po_code r)) rows))"

text \<open>\<^verbatim>\<open>collect\<close> into a \<^verbatim>\<open>HashMap\<close>: the last of equal keys stays.\<close>

definition hash_map :: "('k \<times> 'v) list \<Rightarrow> 'k \<Rightarrow> 'v option" where
  "hash_map entries = map_of (rev entries)"

text \<open>The stored option an incoming one is matched to: by its id, or else by its code.\<close>

definition matched_option :: "option_row list \<Rightarrow> option_input \<Rightarrow> uuid option" where
  "matched_option existing q =
     first_some (oi_option_id q)
       (map_option po_option_id (hash_map (map (\<lambda>r. (po_code r, r)) existing) (oi_code q)))"

fun write_options ::
    "env \<Rightarrow> nat \<Rightarrow> uuid \<Rightarrow> option_row list \<Rightarrow> option_input list \<Rightarrow> (db_error, nat) tx" where
  "write_options env next_id parameter_id existing [] = tx_return next_id"
| "write_options env next_id parameter_id existing (q # qs) =
     (case matched_option existing q of
        Some i \<Rightarrow>
          tx_bind (update_asset_parameter_option i q) (\<lambda>_.
          write_options env next_id parameter_id existing qs)
      | None \<Rightarrow>
          tx_bind (insert_asset_parameter_option (env_new_v4 env next_id) parameter_id q) (\<lambda>_.
          write_options env (Suc next_id) parameter_id existing qs))"

definition replace_options ::
    "env \<Rightarrow> uuid \<Rightarrow> option_row list \<Rightarrow> option_input list \<Rightarrow> (db_error, option_row list \<times> nat) tx" where
  "replace_options env parameter_id existing options =
     tx_bind (tx_lift (require_option
         (\<forall>q\<in>set options. case oi_option_id q of None \<Rightarrow> True | Some i \<Rightarrow> i \<in> po_option_id ` set existing)
         (lit ''Asset parameter option not found''))) (\<lambda>_.
     tx_bind (delete_removed_asset_parameter_options parameter_id
         (List.map_filter (matched_option existing) options)) (\<lambda>_.
     tx_bind (write_options env 0 parameter_id existing options) (\<lambda>next_id.
     tx_bind (tx_read (\<lambda>db. Inr (fetch_asset_parameter_options_for_update env parameter_id db))) (\<lambda>rows.
     tx_return (rows, next_id)))))"

definition apply_option_updates ::
    "env \<Rightarrow> uuid \<Rightarrow> data_type \<Rightarrow> option_row list \<Rightarrow> option_input list option
       \<Rightarrow> (db_error, option_row list \<times> nat) tx" where
  "apply_option_updates env parameter_id dt existing update_options =
     (if dt \<noteq> Enum then
        tx_bind (delete_asset_parameter_options parameter_id) (\<lambda>_. tx_return ([], 0))
      else
        (case update_options of
           Some options \<Rightarrow> replace_options env parameter_id existing options
         | None \<Rightarrow> tx_return (existing, 0)))"

section \<open>Migrating values\<close>

definition resolve_migration_target ::
    "env \<Rightarrow> nat \<Rightarrow> uuid \<Rightarrow> data_type \<Rightarrow> json \<Rightarrow> (db_error, json \<times> nat) tx" where
  "resolve_migration_target env next_id parameter_id dt value =
     (if dt \<noteq> Enum \<or> json_get (lit ''option_id'') value \<noteq> None \<or> json_get (lit ''option_code'') value = None
      then tx_return (value, next_id)
      else
        tx_bind (tx_lift (ok_or (DbValidation (lit ''Asset parameter option code must be a string''))
            (get_as as_str (lit ''option_code'') value))) (\<lambda>code.
        tx_bind (tx_read (\<lambda>db. Inr (fetch_asset_parameter_option_id_by_code parameter_id code db))) (\<lambda>found.
        case found of
          Some option_id \<Rightarrow> tx_return (JObject [(lit ''option_id'', json_uuid env option_id)], next_id)
        | None \<Rightarrow>
            tx_bind (tx_lift (case json_get (lit ''option_label'') value of
                 Some label \<Rightarrow> ok_or (DbValidation (lit ''Asset parameter option label must be a string'')) (as_str label)
               | None \<Rightarrow> Inr code)) (\<lambda>label.
            tx_bind (tx_lift (map_err DbValidation (AssetParameterCode_parse code))) (\<lambda>code.
            tx_bind (tx_lift (map_err DbValidation (AssetParameterOptionLabel_parse env label))) (\<lambda>label.
            tx_bind (insert_migrated_asset_parameter_option (env_new_v4 env next_id) parameter_id code label)
              (\<lambda>option_id.
            tx_return (JObject [(lit ''option_id'', json_uuid env option_id)], Suc next_id))))))))"

fun migrate_values ::
    "env \<Rightarrow> value_definition \<Rightarrow> data_type \<Rightarrow> (uuid \<Rightarrow> value_migration option) \<Rightarrow> nat \<Rightarrow> parameter_value list
       \<Rightarrow> (db_error, unit) tx" where
  "migrate_values env d dt migrations next_id [] = tx_return ()"
| "migrate_values env d dt migrations next_id (v # vs) =
     (case migrations (pv_value_id (vv_row v)) of
        None \<Rightarrow> tx_lift (Inl (DbValidation
          (lit ''All stored values must be migrated when the asset parameter data type changes'')))
      | Some (_, Some target) \<Rightarrow>
          tx_bind (resolve_migration_target env next_id (pd_parameter_type_id d) dt target) (\<lambda>(target, next_id).
          tx_bind (tx_read (resolve_parameter_value env d target)) (\<lambda>resolved.
          tx_bind (migrate_asset_parameter_value_in_database env (pv_value_id (vv_row v)) dt resolved) (\<lambda>_.
          migrate_values env d dt migrations next_id vs)))
      | Some (_, None) \<Rightarrow>
          tx_bind (delete_asset_parameter_value_from_database (pv_value_id (vv_row v))) (\<lambda>_.
          migrate_values env d dt migrations next_id vs))"

definition migrate_parameter_values ::
    "env \<Rightarrow> nat \<Rightarrow> uuid \<Rightarrow> data_type \<Rightarrow> rstr option \<Rightarrow> uuid option \<Rightarrow> parameter_value list
       \<Rightarrow> value_migration list \<Rightarrow> (db_error, unit) tx" where
  "migrate_parameter_values env next_id parameter_id dt unit_dimension default_unit_id values migrations =
     migrate_values env
       \<lparr>pd_parameter_type_id = parameter_id, pd_data_type = DataType_as_str dt,
        pd_unit_dimension = unit_dimension, pd_default_unit_id = default_unit_id\<rparr>
       dt (hash_map (map (\<lambda>m. (fst m, m)) migrations)) next_id values"

text \<open>The messages with counts are represented without the count.\<close>

fun unique_known :: "uuid set \<Rightarrow> uuid list \<Rightarrow> value_migration list \<Rightarrow> (db_error, unit) result" where
  "unique_known known seen [] = Inr ()"
| "unique_known known seen (m # ms) =
     and_then (require_option (fst m \<notin> set seen) (lit ''Asset parameter value migrations must be unique'')) (\<lambda>_.
     and_then (require_option (fst m \<in> known) (lit ''Asset parameter value not found'')) (\<lambda>_.
     unique_known known (fst m # seen) ms))"

definition validate_value_migrations ::
    "parameter_value list \<Rightarrow> value_migration list option \<Rightarrow> (db_error, unit) result" where
  "validate_value_migrations values migrations =
     (case migrations of
        None \<Rightarrow> require_option (values = [])
          (lit ''All stored values must be migrated when the asset parameter data type changes'')
      | Some ms \<Rightarrow>
          (let known = (\<lambda>v. pv_value_id (vv_row v)) ` set values
           in and_then (unique_known known [] ms) (\<lambda>_.
              require_option (card (set (map fst ms)) = card known)
                (lit ''stored values are missing from the asset parameter value migration''))))"

definition migrations_declare_options :: "value_migration list option \<Rightarrow> bool" where
  "migrations_declare_options migrations \<longleftrightarrow>
     list_ex (\<lambda>m. case snd m of None \<Rightarrow> False | Some value \<Rightarrow> get_as as_str (lit ''option_code'') value \<noteq> None)
       (coalesce migrations [])"

definition validate_enum_options_for_type_change ::
    "option_input list option \<Rightarrow> bool \<Rightarrow> option_row list \<Rightarrow> (db_error, unit) result" where
  "validate_enum_options_for_type_change update_options declared existing_options =
     (if coalesce update_options [] \<noteq> [] then validate_updated_options Enum update_options existing_options
      else require_option declared (lit ''Enum asset parameters require at least one option''))"

section \<open>Handlers\<close>

definition parameter_not_found :: handler_error where
  "parameter_not_found = NotFound (lit ''Asset parameter not found'')"

definition create_parameter_in_transaction ::
    "env \<Rightarrow> laboratory_context \<Rightarrow> new_parameter \<Rightarrow> (handler_error, parameter_type_row \<times> option_row list) tx" where
  "create_parameter_in_transaction env ctx new =
     tx_bind (tx_map_err from_db_error (tx_read (normalize_unit_configuration (np_data_type new)
         (np_unit_dimension new) (np_default_unit_id new)))) (\<lambda>dimension.
     tx_bind (tx_map_err from_db_error (insert_asset_parameter env (env_new_v4 env 0) (ctx_laboratory_id ctx)
         (np_code new) (np_name new) (np_data_type new) dimension (np_default_unit_id new)
         (np_description new))) (\<lambda>parameter.
     tx_bind (tx_map_err from_db_error (insert_new_options env 1 (pt_parameter_type_id parameter)
         (np_options new))) (\<lambda>options.
     tx_bind (unexpected (record_audit (actor_user_id (ctx_actor ctx)) Audit_Create Res_AssetParameter
         (Some (pt_parameter_type_id parameter)) (Details_create_parameter (pt_parameter_type_id parameter)))) (\<lambda>_.
     tx_bind commit (\<lambda>_.
     tx_return (parameter, options))))))"

definition create_asset_parameter ::
    "env \<Rightarrow> laboratory_context \<Rightarrow> parameter_payload \<Rightarrow> database
       \<Rightarrow> (handler_error, parameter_type_row \<times> option_row list) result \<times> database" where
  "create_asset_parameter env ctx payload db =
     run_handler
       (and_then (require_permission env (ctx_actor ctx) AssetParameter_resource (Create (ctx_laboratory_id ctx))
            (lit ''You don't have permission to create asset parameters.'') db) (\<lambda>_.
        and_then (map_err ValidationError (NewAssetParameter_try_from env payload)) (\<lambda>new.
        and_then (map_err from_db_error (validate_new_options (np_data_type new) (np_options new))) (\<lambda>_.
        Inr new))))
       (create_parameter_in_transaction env ctx) db"

definition read_values_to_migrate ::
    "env \<Rightarrow> uuid \<Rightarrow> bool \<Rightarrow> value_migration list option \<Rightarrow> (handler_error, parameter_value list) tx" where
  "read_values_to_migrate env parameter_id changed migrations =
     (if changed then
        tx_bind (tx_read (\<lambda>db. Inr (fetch_asset_parameter_values_for_update env parameter_id db))) (\<lambda>values.
        tx_bind (tx_lift (map_err from_db_error (validate_value_migrations values migrations))) (\<lambda>_.
        tx_return values))
      else
        tx_bind (tx_lift (ensure (migrations = None) (ValidationError
            (lit ''Value migrations are only allowed when the asset parameter data type changes'')))) (\<lambda>_.
        tx_return []))"

text \<open>
  A new enumeration writes its options before the values that will point at them; otherwise the
  values move first and the options after them.
\<close>

definition write_options_and_values ::
    "env \<Rightarrow> parameter_type_row \<Rightarrow> data_type \<Rightarrow> bool \<Rightarrow> rstr option \<Rightarrow> uuid option \<Rightarrow> option_row list
       \<Rightarrow> parameter_change \<Rightarrow> parameter_value list \<Rightarrow> (db_error, option_row list) tx" where
  "write_options_and_values env updated dt changed dimension default_unit existing_options change values =
     (let i = pt_parameter_type_id updated;
          migrations = coalesce (ch_value_migrations change) []
      in if changed \<and> dt = Enum then
           tx_bind (apply_option_updates env i dt existing_options (ch_options change)) (\<lambda>(_, next_id).
           tx_bind (migrate_parameter_values env next_id i dt dimension default_unit values migrations) (\<lambda>_.
           tx_read (\<lambda>db. Inr (fetch_asset_parameter_options_for_update env i db))))
         else
           tx_bind (if changed then migrate_parameter_values env 0 i dt dimension default_unit values migrations
                    else tx_return ()) (\<lambda>_.
           tx_bind (apply_option_updates env i dt existing_options (ch_options change)) (\<lambda>(options, _).
           tx_return options)))"

definition update_parameter_in_transaction ::
    "env \<Rightarrow> laboratory_context \<Rightarrow> uuid \<Rightarrow> parameter_change
       \<Rightarrow> (handler_error, parameter_type_row \<times> option_row list) tx" where
  "update_parameter_in_transaction env ctx parameter_id change =
     tx_bind (tx_read (\<lambda>db. ok_or parameter_not_found (fetch_asset_parameter_for_update parameter_id db))) (\<lambda>existing.
     tx_bind (tx_read (\<lambda>db. Inr (fetch_asset_parameter_options_for_update env (pt_parameter_type_id existing) db)))
       (\<lambda>existing_options.
     tx_bind (tx_lift (map_err UnexpectedError (DataType_parse (pt_data_type existing)))) (\<lambda>existing_type.
     let dt = coalesce (ch_data_type change) existing_type; changed = (dt \<noteq> existing_type) in
     tx_bind (tx_lift (map_err from_db_error
         (if changed \<and> dt = Enum
          then validate_enum_options_for_type_change (ch_options change)
                 (migrations_declare_options (ch_value_migrations change)) existing_options
          else validate_updated_options dt (ch_options change) existing_options))) (\<lambda>_.
     tx_bind (read_values_to_migrate env (pt_parameter_type_id existing) changed (ch_value_migrations change))
       (\<lambda>values.
     tx_bind (tx_lift (map_err ValidationError (transpose_with UnitDimension_parse (pt_unit_dimension existing))))
       (\<lambda>current_dimension.
     let default_unit = resolve_update (ch_default_unit_id change) (pt_default_unit_id existing) in
     tx_bind (tx_map_err from_db_error (tx_read (normalize_unit_configuration dt
         (resolve_update (ch_unit_dimension change) current_dimension) default_unit))) (\<lambda>dimension.
     tx_bind (tx_map_err from_db_error (update_asset_parameter_in_database env (pt_parameter_type_id existing)
         (coalesce (ch_code change) (pt_code existing)) (coalesce (ch_name change) (pt_name existing)) dt
         dimension default_unit (resolve_update (ch_description change) (pt_description existing)))) (\<lambda>updated.
     tx_bind (tx_map_err from_db_error (write_options_and_values env updated dt changed dimension default_unit
         existing_options change values)) (\<lambda>options.
     tx_bind (unexpected (record_audit (actor_user_id (ctx_actor ctx)) Audit_Update Res_AssetParameter
         (Some (pt_parameter_type_id updated)) (Details_update_parameter existing existing_options values))) (\<lambda>_.
     tx_bind commit (\<lambda>_.
     tx_return (updated, options))))))))))))"

definition update_asset_parameter ::
    "env \<Rightarrow> laboratory_context \<Rightarrow> uuid \<Rightarrow> parameter_change_payload \<Rightarrow> database
       \<Rightarrow> (handler_error, parameter_type_row \<times> option_row list) result \<times> database" where
  "update_asset_parameter env ctx parameter_id payload db =
     run_handler
       (and_then (require_permission env (authorization_actor ctx) AssetParameter_resource (Update parameter_id)
            (lit ''You are not allowed to update this asset parameter.'') db) (\<lambda>_.
        map_err ValidationError (UpdateAssetParameter_try_from env payload)))
       (update_parameter_in_transaction env ctx parameter_id) db"

definition delete_parameter_in_transaction ::
    "env \<Rightarrow> laboratory_context \<Rightarrow> uuid \<Rightarrow> (handler_error, unit) tx" where
  "delete_parameter_in_transaction env ctx parameter_id =
     tx_bind (tx_read (\<lambda>db. ok_or parameter_not_found (fetch_asset_parameter_for_update parameter_id db))) (\<lambda>existing.
     let i = pt_parameter_type_id existing in
     tx_bind (tx_read (\<lambda>db. Inr (fetch_asset_parameter_options_for_update env i db))) (\<lambda>options.
     tx_bind (tx_read (\<lambda>db. Inr (fetch_asset_parameter_assignments_for_update i db))) (\<lambda>assignments.
     tx_bind (tx_read (\<lambda>db. Inr (fetch_asset_parameter_values_for_update env i db))) (\<lambda>values.
     tx_bind (tx_map_err from_db_error (delete_asset_parameter_from_database i)) (\<lambda>_.
     tx_bind (unexpected (record_audit (actor_user_id (ctx_actor ctx)) Audit_Delete Res_AssetParameter
         (Some i) (Details_delete_parameter existing options assignments values))) (\<lambda>_.
     commit))))))"

definition delete_asset_parameter ::
    "env \<Rightarrow> laboratory_context \<Rightarrow> uuid \<Rightarrow> database \<Rightarrow> (handler_error, unit) result \<times> database" where
  "delete_asset_parameter env ctx parameter_id db =
     run_handler
       (require_permission env (authorization_actor ctx) AssetParameter_resource (Delete parameter_id)
          (lit ''You are not allowed to delete this asset parameter.'') db)
       (\<lambda>_. delete_parameter_in_transaction env ctx parameter_id) db"

definition get_asset_parameter ::
    "env \<Rightarrow> laboratory_context \<Rightarrow> uuid \<Rightarrow> database
       \<Rightarrow> (handler_error, parameter_type_row \<times> option_row list) result" where
  "get_asset_parameter env ctx parameter_id db =
     and_then (require_permission env (authorization_actor ctx) AssetParameter_resource (Read parameter_id)
         (lit ''You are not allowed to get this asset parameter.'') db) (\<lambda>_.
     and_then (ok_or parameter_not_found (fetch_asset_parameter parameter_id db)) (\<lambda>parameter.
     Inr (parameter, fetch_asset_parameter_options env (pt_parameter_type_id parameter) db)))"

definition list_asset_parameters ::
    "env \<Rightarrow> laboratory_context \<Rightarrow> database \<Rightarrow> (handler_error, (parameter_type_row \<times> option_row list) list) result" where
  "list_asset_parameters env ctx db =
     and_then (require_permission env (ctx_actor ctx) AssetParameter_resource (Browse (ctx_laboratory_id ctx))
         (lit ''You don't have permission to view asset parameters.'') db) (\<lambda>_.
     Inr (map (\<lambda>t. (t, fetch_asset_parameter_options env (pt_parameter_type_id t) db))
       (fetch_asset_parameters env (ctx_laboratory_id ctx) db)))"

text \<open>\<^verbatim>\<open>AssetParameterValueResponse\<close>: the value, its asset, and the JSON it reads as.\<close>

record value_response =
  vr_value_id :: uuid
  vr_asset_id :: uuid
  vr_asset_name :: rstr
  vr_asset_model :: "rstr option"
  vr_data_type :: rstr
  vr_value :: json

definition AssetParameterValueResponse_from :: "env \<Rightarrow> parameter_value \<Rightarrow> value_response" where
  "AssetParameterValueResponse_from env v =
     (let r = vv_row v
      in \<lparr>vr_value_id = pv_value_id r, vr_asset_id = pv_asset_id r, vr_asset_name = vv_asset_name v,
          vr_asset_model = vv_asset_model v, vr_data_type = pv_data_type r,
          vr_value = parameter_value_json env (pv_data_type r) (pv_columns r) (vv_option_code v)
            (vv_option_label v)\<rparr>)"

definition list_asset_parameter_values ::
    "env \<Rightarrow> laboratory_context \<Rightarrow> uuid \<Rightarrow> database \<Rightarrow> (handler_error, value_response list) result" where
  "list_asset_parameter_values env ctx parameter_id db =
     and_then (require_permission env (authorization_actor ctx) AssetParameter_resource (Read parameter_id)
         (lit ''You are not allowed to read this asset parameter.'') db) (\<lambda>_.
     Inr (map (AssetParameterValueResponse_from env) (fetch_asset_parameter_values env parameter_id db)))"

end
