(* ===== verification/Checked_Tables.thy ===== *)
theory Checked_Tables
  imports Path_Tree Handlers
begin

text \<open>
  Two tools the later components share. A table whose writes are checked against the other rows,
  with the facts that hold of such a table whatever is written. And a small calculus for
  transactions: a predicate of the database that every step keeps, the whole transaction keeps.
\<close>

section \<open>Tables under checks\<close>

lemma filter_update_rows:
  assumes "\<And>r. r \<in> set rows \<Longrightarrow> p r \<Longrightarrow> \<not> f r \<and> \<not> f (change r)"
  shows "filter f (update_rows p change rows) = filter f rows"
  using assms by (induction rows) (auto simp: update_rows_def)

text \<open>Keys are unique, every row passes its checks, no two rows clash in a unique index.\<close>

definition table_ok ::
    "('row \<Rightarrow> uuid) \<Rightarrow> ('row \<Rightarrow> bool) \<Rightarrow> ('row \<Rightarrow> 'row \<Rightarrow> bool) \<Rightarrow> 'row list \<Rightarrow> bool" where
  "table_ok key row_ok clash rows \<longleftrightarrow>
     distinct (map key rows) \<and> (\<forall>r\<in>set rows. row_ok r)
     \<and> (\<forall>r\<in>set rows. \<forall>s\<in>set rows. key s \<noteq> key r \<longrightarrow> \<not> clash r s)"

text \<open>
  \<open>violated others r\<close> is what a written row runs into; \<open>others\<close> are the rows of the table it is
  compared with. The other tables it refers to are part of \<open>violated\<close> and may change.
\<close>

locale checked_table =
  fixes key :: "'row \<Rightarrow> uuid"
    and row_ok :: "'row \<Rightarrow> bool"
    and clash :: "'row \<Rightarrow> 'row \<Rightarrow> bool"
    and violated :: "'db \<Rightarrow> 'row list \<Rightarrow> 'row \<Rightarrow> sql_error option"
  assumes passed: "violated db others r = None \<Longrightarrow> row_ok r \<and> (\<forall>s\<in>set others. key s \<noteq> key r \<and> \<not> clash r s)"
    and clash_sym: "clash r s \<Longrightarrow> clash s r"
begin

lemma insert:
  assumes "table_ok key row_ok clash rows" and "violated db rows r = None"
  shows "table_ok key row_ok clash (rows @ [r])"
  using assms(1) passed [OF assms(2)] clash_sym by (auto simp: table_ok_def)

lemma delete: "table_ok key row_ok clash rows \<Longrightarrow> table_ok key row_ok clash (filter p rows)"
  by (auto simp: table_ok_def distinct_map_filter)

lemma overwrite:
  assumes "table_ok key row_ok clash rows" and "write_row (violated db) key change k rows = Inr rows'"
    and "\<And>r. key (change r) = key r"
  shows "table_ok key row_ok clash rows'"
proof (cases "fetch_optional (\<lambda>r. key r = k) rows")
  case None
  with assms(1,2) show ?thesis
    by (simp add: write_row_def)
next
  case (Some x)
  note x = fetch_optional_Some [OF Some]
  from Some assms(2) have free: "violated db (filter (\<lambda>r. key r \<noteq> k) rows) (change x) = None"
      and rows': "rows' = update_rows (\<lambda>r. key r = k) change rows"
    by (auto simp: write_row_def split: option.splits)
  note p = passed [OF free]
  have only: "r = x" if "r \<in> set rows" "key r = k" for r
    using assms(1) that x by (auto simp: table_ok_def distinct_map dest: inj_onD)
  have row: "r = change x \<or> (r \<in> set rows \<and> key r \<noteq> k)" if "r \<in> set rows'" for r
    using that only by (auto simp: rows' set_update_rows)
  have keys: "map key rows' = map key rows"
    using assms(3) by (simp add: rows' update_rows_def)
  have "row_ok r" if "r \<in> set rows'" for r
    using row [OF that] p assms(1) by (auto simp: table_ok_def)
  moreover have "\<not> clash r s" if "r \<in> set rows'" "s \<in> set rows'" "key s \<noteq> key r" for r s
    using row [OF that(1)] row [OF that(2)] that(3) p assms(1) clash_sym
    by (auto simp: table_ok_def)
  ultimately show ?thesis
    using assms(1) by (simp add: table_ok_def keys)
qed

lemma overwritten:
  assumes "table_ok key row_ok clash rows" and "write_row (violated db) key change k rows = Inr rows'"
    and "r \<in> set rows'"
  shows "(r \<in> set rows \<and> key r \<noteq> k)
    \<or> (\<exists>x others. x \<in> set rows \<and> key x = k \<and> r = change x \<and> violated db others r = None)"
proof (cases "fetch_optional (\<lambda>r. key r = k) rows")
  case None
  with assms(2,3) show ?thesis
    by (auto simp: write_row_def fetch_optional_None)
next
  case (Some x)
  note x = fetch_optional_Some [OF Some]
  have only: "y = x" if "y \<in> set rows" "key y = k" for y
    using assms(1) that x by (auto simp: table_ok_def distinct_map dest: inj_onD)
  from Some assms(2) have free: "violated db (filter (\<lambda>r. key r \<noteq> k) rows) (change x) = None"
      and rows': "rows' = update_rows (\<lambda>r. key r = k) change rows"
    by (auto simp: write_row_def split: option.splits)
  from assms(3) have "r = change x \<or> (r \<in> set rows \<and> key r \<noteq> k)"
    using only by (auto simp: rows' set_update_rows)
  with free x show ?thesis
    by blast
qed

lemma unique: "table_ok key row_ok clash rows \<Longrightarrow> r \<in> set rows \<Longrightarrow> s \<in> set rows \<Longrightarrow> key r = key s \<Longrightarrow> r = s"
  by (auto simp: table_ok_def distinct_map dest: inj_onD)

end

section \<open>What a transaction keeps\<close>

named_theorems keeps_intros \<open>a composed transaction keeps what its steps keep\<close>

definition keeps :: "(database \<Rightarrow> bool) \<Rightarrow> ('e, 'a) tx \<Rightarrow> bool" where
  "keeps P m \<longleftrightarrow> (\<forall>db x db'. P db \<longrightarrow> m db = Inr (x, db') \<longrightarrow> P db')"

lemma keepsD: "keeps P m \<Longrightarrow> m db = Inr (x, db') \<Longrightarrow> P db \<Longrightarrow> P db'"
  by (auto simp: keeps_def)

lemma keeps_return [keeps_intros]: "keeps P (tx_return x)"
  by (auto simp: keeps_def tx_return_def)

lemma keeps_read [keeps_intros]: "keeps P (tx_read q)"
  by (auto simp: keeps_def tx_read_Inr)

lemma keeps_lift [keeps_intros]: "keeps P (tx_lift r)"
  by (auto simp: keeps_def tx_lift_Inr)

lemma keeps_bind [keeps_intros]: "keeps P m \<Longrightarrow> (\<And>x. keeps P (f x)) \<Longrightarrow> keeps P (tx_bind m f)"
  unfolding keeps_def tx_bind_Inr by blast

lemma keeps_map_err [keeps_intros]: "keeps P m \<Longrightarrow> keeps P (tx_map_err g m)"
  by (auto simp: keeps_def tx_map_err_Inr)

lemma keeps_for_each [keeps_intros]: "(\<And>x. keeps P (f x)) \<Longrightarrow> keeps P (tx_for_each f xs)"
  by (induction xs) (auto intro: keeps_return keeps_bind)

lemma keeps_if [keeps_intros]: "(b \<Longrightarrow> keeps P m) \<Longrightarrow> (\<not> b \<Longrightarrow> keeps P n) \<Longrightarrow> keeps P (if b then m else n)"
  by simp

lemma keeps_option [keeps_intros]:
  "keeps P m \<Longrightarrow> (\<And>x. keeps P (f x)) \<Longrightarrow> keeps P (case v of None \<Rightarrow> m | Some x \<Rightarrow> f x)"
  by (cases v) auto

lemma keeps_prod [keeps_intros]: "(\<And>a b. keeps P (f a b)) \<Longrightarrow> keeps P (case p of (a, b) \<Rightarrow> f a b)"
  by (cases p) auto

lemma keeps_let [keeps_intros]: "(\<And>x. keeps P (f x)) \<Longrightarrow> keeps P (let x = v in f x)"
  by (simp add: Let_def)

lemma keeps_write: "(\<And>db db'. P db \<Longrightarrow> w db = Inr db' \<Longrightarrow> P db') \<Longrightarrow> keeps P (tx_write w)"
  by (auto simp: keeps_def tx_write_Inr)

lemma keeps_record_audit:
  "(\<And>db es. P (db\<lparr>audit_logs := es\<rparr>) = P db) \<Longrightarrow> keeps P (record_audit a act res i d)"
  by (auto simp: keeps_def record_audit_Inr)

text \<open>A handler keeps what its body keeps: a refusal changes nothing.\<close>

lemma run_handler_outcome:
  "run_handler checked body db = (r, db') \<Longrightarrow>
     (\<exists>e. r = Inl e) \<and> db' = db \<or> (\<exists>c x. r = Inr x \<and> checked = Inr c \<and> body c db = Inr (x, db'))"
  by (cases r) (auto simp: run_handler_Inr dest: run_handler_Inl)

lemma keeps_run_handler:
  assumes "run_handler checked body db = (r, db')" and "\<And>c. keeps P (body c)" and "P db"
  shows "P db'"
  using run_handler_outcome [OF assms(1)] assms(2,3) by (auto dest: keepsD)

end
