(* ===== verification/Parameter_Invariant.thy ===== *)
theory Parameter_Invariant
  imports Parameter_Handlers Checked_Tables
begin

text \<open>
  The tables of the asset parameters stay consistent: keys and unique indexes, the checks of every
  row, the references between parameters, options and values, and the rule that exactly the
  enumerations have options. First the tables as checked tables, then what each statement keeps,
  then the flows.
\<close>

section \<open>The tables\<close>

definition same_unit_code :: "unit_row \<Rightarrow> unit_row \<Rightarrow> bool" where
  "same_unit_code r s \<longleftrightarrow> un_laboratory_id s = un_laboratory_id r \<and> un_code s = un_code r"

definition same_parameter_code :: "parameter_type_row \<Rightarrow> parameter_type_row \<Rightarrow> bool" where
  "same_parameter_code r s \<longleftrightarrow> pt_laboratory_id s = pt_laboratory_id r \<and> pt_code s = pt_code r"

definition same_option_code :: "option_row \<Rightarrow> option_row \<Rightarrow> bool" where
  "same_option_code r s \<longleftrightarrow> po_parameter_type_id s = po_parameter_type_id r \<and> po_code s = po_code r"

definition same_value_slot :: "value_row \<Rightarrow> value_row \<Rightarrow> bool" where
  "same_value_slot r s \<longleftrightarrow>
     pv_asset_id s = pv_asset_id r \<and> pv_parameter_type_id s = pv_parameter_type_id r"

definition option_checks :: "option_row \<Rightarrow> bool" where
  "option_checks r \<longleftrightarrow> po_code r \<noteq> [] \<and> po_label r \<noteq> []"

definition value_row_checks :: "value_row \<Rightarrow> bool" where
  "value_row_checks r \<longleftrightarrow> value_checks (pv_data_type r) (pv_columns r)"

interpretation unit_table: checked_table un_unit_id unit_checks same_unit_code unit_violation
  by standard (auto simp: unit_violation_def same_unit_code_def split: if_splits)

interpretation parameter_table:
  checked_table pt_parameter_type_id parameter_checks same_parameter_code parameter_violation
  by standard (auto simp: parameter_violation_def same_parameter_code_def split: if_splits)

interpretation option_table: checked_table po_option_id option_checks same_option_code option_violation
  by standard (auto simp: option_violation_def same_option_code_def option_checks_def split: if_splits)

interpretation value_table: checked_table pv_value_id value_row_checks same_value_slot value_violation
  by standard (auto simp: value_violation_def same_value_slot_def value_row_checks_def split: if_splits)

definition options_refer :: "database \<Rightarrow> bool" where
  "options_refer db \<longleftrightarrow>
     (\<forall>q\<in>set (parameter_options db). \<exists>t\<in>set (asset_parameter_types db).
        pt_parameter_type_id t = po_parameter_type_id q)"

definition values_refer :: "database \<Rightarrow> bool" where
  "values_refer db \<longleftrightarrow>
     (\<forall>v\<in>set (parameter_values db).
        (\<exists>a\<in>set (assets db). as_asset_id a = pv_asset_id v)
        \<and> (\<forall>i. vc_option_id (pv_columns v) = Some i \<longrightarrow>
              (\<exists>q\<in>set (parameter_options db). po_option_id q = i \<and> po_parameter_type_id q = pv_parameter_type_id v)))"

definition parameter_tables_ok :: "database \<Rightarrow> bool" where
  "parameter_tables_ok db \<longleftrightarrow>
     table_ok pt_parameter_type_id parameter_checks same_parameter_code (asset_parameter_types db)
     \<and> table_ok po_option_id option_checks same_option_code (parameter_options db)
     \<and> table_ok pv_value_id value_row_checks same_value_slot (parameter_values db)
     \<and> options_refer db \<and> values_refer db"

definition has_option :: "uuid \<Rightarrow> database \<Rightarrow> bool" where
  "has_option i db \<longleftrightarrow> (\<exists>q\<in>set (parameter_options db). po_parameter_type_id q = i)"

definition enum_options_ok :: "database \<Rightarrow> bool" where
  "enum_options_ok db \<longleftrightarrow>
     (\<forall>t\<in>set (asset_parameter_types db).
        pt_data_type t = DataType_as_str Enum \<longleftrightarrow> has_option (pt_parameter_type_id t) db)"

definition parameters_ok :: "database \<Rightarrow> bool" where
  "parameters_ok db \<longleftrightarrow> parameter_tables_ok db \<and> deferred_ok db \<and> enum_options_ok db"

section \<open>What the statements keep\<close>

lemma written_keys [simp]:
  "pt_parameter_type_id (set_parameter code name dt dm u description now r) = pt_parameter_type_id r"
  "po_option_id (change_option q o1) = po_option_id o1"
  "po_parameter_type_id (change_option q o1) = po_parameter_type_id o1"
  "pv_value_id (migrate_row env dt new v) = pv_value_id v"
  "pv_asset_id (migrate_row env dt new v) = pv_asset_id v"
  "pv_parameter_type_id (migrate_row env dt new v) = pv_parameter_type_id v"
  by (simp_all add: set_parameter_def change_option_def migrate_row_def)

lemma write_row_ids:
  assumes "write_row violated key change k rows = Inr rows'" and "\<And>r. f (change r) = f r"
  shows "map f rows' = map f rows"
  using write_row_Inr [OF assms(1)] assms(2) by (simp add: update_rows_def)

lemma keeps_insert_asset_parameter [keeps_intros]:
  "keeps parameter_tables_ok (insert_asset_parameter env i lab code name dt dm u description)"
  unfolding insert_asset_parameter_def Let_def
  by (intro keeps_intros keeps_write)
     (auto simp: parameter_tables_ok_def options_refer_def values_refer_def
       intro: parameter_table.insert split: option.splits)

lemma keeps_update_asset_parameter [keeps_intros]:
  "keeps parameter_tables_ok (update_asset_parameter_in_database env i code name dt dm u description)"
  unfolding update_asset_parameter_in_database_def
proof (intro keeps_intros keeps_write)
  let ?change = "set_parameter code name dt dm u description (env_now env)"
  fix db db'
  assume ok: "parameter_tables_ok db"
    and "and_then (write_row (parameter_violation db) pt_parameter_type_id ?change i (asset_parameter_types db))
           (\<lambda>rows. Inr (db\<lparr>asset_parameter_types := rows\<rparr>)) = Inr db'"
  then obtain rows where w: "write_row (parameter_violation db) pt_parameter_type_id ?change i
        (asset_parameter_types db) = Inr rows" and db': "db' = db\<lparr>asset_parameter_types := rows\<rparr>"
    by (auto simp: and_then_Inr_iff)
  have ids: "pt_parameter_type_id ` set rows = pt_parameter_type_id ` set (asset_parameter_types db)"
    using write_row_ids [OF w, of pt_parameter_type_id] by (metis list.set_map written_keys(1))
  have "table_ok pt_parameter_type_id parameter_checks same_parameter_code rows"
    using parameter_table.overwrite [OF _ w] ok by (auto simp: parameter_tables_ok_def)
  moreover have "options_refer db'"
    using ok ids by (auto simp: parameter_tables_ok_def options_refer_def db' image_iff) (metis imageE imageI)
  ultimately show "parameter_tables_ok db'"
    using ok by (simp add: parameter_tables_ok_def db' values_refer_def)
qed

lemma option_violation_refers:
  "option_violation db others r = None \<Longrightarrow>
     \<exists>t\<in>set (asset_parameter_types db). pt_parameter_type_id t = po_parameter_type_id r"
  by (auto simp: option_violation_def split: if_splits)

lemma keeps_insert_option_row [keeps_intros]:
  "keeps parameter_tables_ok (insert_option_row i parameter_id code label sort_order)"
  unfolding insert_option_row_def Let_def
proof (intro keeps_intros keeps_write)
  let ?r = "\<lparr>po_option_id = i, po_parameter_type_id = parameter_id, po_code = code, po_label = label,
          po_sort_order = sort_order\<rparr>"
  fix db db'
  assume ok: "parameter_tables_ok db"
    and "(case option_violation db (parameter_options db) ?r of
               Some e \<Rightarrow> Inl e
             | None \<Rightarrow> Inr (db\<lparr>parameter_options := parameter_options db @ [?r]\<rparr>)) = Inr db'"
  then have free: "option_violation db (parameter_options db) ?r = None"
      and db': "db' = db\<lparr>parameter_options := parameter_options db @ [?r]\<rparr>"
    by (auto split: option.splits)
  have "options_refer db'" "values_refer db'"
    using ok option_violation_refers [OF free]
    by (auto simp: parameter_tables_ok_def options_refer_def values_refer_def db')
  then show "parameter_tables_ok db'"
    using ok option_table.insert [OF _ free] by (simp add: parameter_tables_ok_def db')
qed

lemma values_refer_options:
  assumes "values_refer db"
    and "\<And>q. q \<in> set (parameter_options db) \<Longrightarrow> (\<exists>v\<in>set (parameter_values db).
           pv_parameter_type_id v = po_parameter_type_id q \<and> vc_option_id (pv_columns v) = Some (po_option_id q))
         \<Longrightarrow> \<exists>q'\<in>set qs. po_option_id q' = po_option_id q \<and> po_parameter_type_id q' = po_parameter_type_id q"
  shows "values_refer (db\<lparr>parameter_options := qs\<rparr>)"
  unfolding values_refer_def
proof (intro ballI allI impI conjI)
  fix v
  assume "v \<in> set (parameter_values (db\<lparr>parameter_options := qs\<rparr>))"
  with assms(1) show "\<exists>a\<in>set (assets (db\<lparr>parameter_options := qs\<rparr>)). as_asset_id a = pv_asset_id v"
    by (simp add: values_refer_def)
next
  fix v i
  assume v: "v \<in> set (parameter_values (db\<lparr>parameter_options := qs\<rparr>))" "vc_option_id (pv_columns v) = Some i"
  with assms(1) obtain q where q: "q \<in> set (parameter_options db)" "po_option_id q = i"
      "po_parameter_type_id q = pv_parameter_type_id v"
    by (auto simp: values_refer_def)
  with assms(2) [OF q(1)] v show "\<exists>q\<in>set (parameter_options (db\<lparr>parameter_options := qs\<rparr>)).
      po_option_id q = i \<and> po_parameter_type_id q = pv_parameter_type_id v"
    by auto
qed

lemma keeps_update_asset_parameter_option [keeps_intros]:
  "keeps parameter_tables_ok (update_asset_parameter_option i q)"
  unfolding update_asset_parameter_option_def
proof (intro keeps_intros keeps_write)
  fix db db'
  assume ok: "parameter_tables_ok db"
    and "and_then (write_row (option_violation db) po_option_id (change_option q) i (parameter_options db))
           (\<lambda>rows. Inr (db\<lparr>parameter_options := rows\<rparr>)) = Inr db'"
  then obtain rows where w: "write_row (option_violation db) po_option_id (change_option q) i
        (parameter_options db) = Inr rows" and db': "db' = db\<lparr>parameter_options := rows\<rparr>"
    by (auto simp: and_then_Inr_iff)
  have rows: "rows = update_rows (\<lambda>r. po_option_id r = i) (change_option q) (parameter_options db)"
    by (rule write_row_Inr [OF w])
  have "table_ok po_option_id option_checks same_option_code rows"
    using option_table.overwrite [OF _ w] ok by (auto simp: parameter_tables_ok_def)
  moreover have "options_refer db'"
    using ok by (auto simp: parameter_tables_ok_def options_refer_def db' rows set_update_rows)
  moreover have "values_refer db'"
    unfolding db'
  proof (rule values_refer_options)
    fix r
    assume "r \<in> set (parameter_options db)"
    then have "(if po_option_id r = i then change_option q r else r) \<in> set rows"
      by (auto simp: rows set_update_rows)
    then show "\<exists>q'\<in>set rows. po_option_id q' = po_option_id r \<and> po_parameter_type_id q' = po_parameter_type_id r"
      by (rule bexI [rotated]) auto
  qed (use ok in \<open>simp add: parameter_tables_ok_def\<close>)
  ultimately show "parameter_tables_ok db'"
    using ok by (simp add: parameter_tables_ok_def db')
qed

lemma keeps_drop_options [keeps_intros]: "keeps parameter_tables_ok (drop_options i kept)"
  unfolding drop_options_def Let_def
proof (rule keeps_write)
  let ?gone = "\<lambda>r. po_parameter_type_id r = i \<and> po_option_id r \<notin> set kept"
  fix db db'
  assume ok: "parameter_tables_ok db"
    and run: "(if \<exists>r\<in>set (parameter_options db). ?gone r
            \<and> (\<exists>v\<in>set (parameter_values db). pv_parameter_type_id v = po_parameter_type_id r
                 \<and> vc_option_id (pv_columns v) = Some (po_option_id r))
          then Inl ForeignKeyViolation
          else Inr (db\<lparr>parameter_options := filter (\<lambda>r. \<not> ?gone r) (parameter_options db)\<rparr>)) = Inr db'"
  then have db': "db' = db\<lparr>parameter_options := filter (\<lambda>r. \<not> ?gone r) (parameter_options db)\<rparr>"
    and free: "\<And>q. q \<in> set (parameter_options db) \<Longrightarrow> \<exists>v\<in>set (parameter_values db).
         pv_parameter_type_id v = po_parameter_type_id q \<and> vc_option_id (pv_columns v) = Some (po_option_id q)
       \<Longrightarrow> \<not> ?gone q"
    by (auto split: if_splits)
  have "values_refer db'"
    unfolding db' using ok free
    by (intro values_refer_options) (auto simp: parameter_tables_ok_def)
  then show "parameter_tables_ok db'"
    using ok option_table.delete by (auto simp: parameter_tables_ok_def db' options_refer_def)
qed

lemma keeps_migrate_value [keeps_intros]:
  "keeps parameter_tables_ok (migrate_asset_parameter_value_in_database env i dt value)"
  unfolding migrate_asset_parameter_value_in_database_def
proof (intro keeps_intros keeps_write)
  let ?change = "migrate_row env dt (rv_columns value)"
  fix db db'
  assume ok: "parameter_tables_ok db"
    and "and_then (write_row (value_violation db) pv_value_id ?change i (parameter_values db))
           (\<lambda>rows. Inr (db\<lparr>parameter_values := rows\<rparr>)) = Inr db'"
  then obtain rows where w: "write_row (value_violation db) pv_value_id ?change i (parameter_values db) = Inr rows"
      and db': "db' = db\<lparr>parameter_values := rows\<rparr>"
    by (auto simp: and_then_Inr_iff)
  have "table_ok pv_value_id value_row_checks same_value_slot rows"
    using value_table.overwrite [OF _ w] ok by (auto simp: parameter_tables_ok_def)
  moreover have "values_refer db'"
    unfolding values_refer_def
  proof (intro ballI allI impI conjI)
    fix v
    assume v: "v \<in> set (parameter_values db')"
    have "v \<in> set (parameter_values db) \<or> (\<exists>others. value_violation db others v = None)"
      using value_table.overwritten [OF _ w, of v] ok v by (auto simp: parameter_tables_ok_def db')
    then show "\<exists>a\<in>set (assets db'). as_asset_id a = pv_asset_id v"
      using ok by (auto simp: parameter_tables_ok_def values_refer_def value_violation_def db' split: if_splits)
  next
    fix v j
    assume v: "v \<in> set (parameter_values db')" "vc_option_id (pv_columns v) = Some j"
    have "v \<in> set (parameter_values db) \<or> (\<exists>others. value_violation db others v = None)"
      using value_table.overwritten [OF _ w, of v] ok v by (auto simp: parameter_tables_ok_def db')
    then show "\<exists>q\<in>set (parameter_options db'). po_option_id q = j \<and> po_parameter_type_id q = pv_parameter_type_id v"
      using ok v by (auto simp: parameter_tables_ok_def values_refer_def value_violation_def db' split: if_splits)
  qed
  ultimately show "parameter_tables_ok db'"
    using ok by (simp add: parameter_tables_ok_def db' options_refer_def)
qed

lemma keeps_delete_value [keeps_intros]:
  "keeps parameter_tables_ok (delete_asset_parameter_value_from_database i)"
  unfolding delete_asset_parameter_value_from_database_def
  by (rule keeps_write)
     (auto simp: parameter_tables_ok_def options_refer_def values_refer_def intro: value_table.delete)

lemma keeps_delete_parameter [keeps_intros]:
  "keeps parameter_tables_ok (delete_asset_parameter_from_database i)"
  unfolding delete_asset_parameter_from_database_def
proof (rule keeps_write)
  fix db db'
  assume ok: "parameter_tables_ok db"
    and "Inr (db\<lparr>
       asset_parameter_types := filter (\<lambda>r. pt_parameter_type_id r \<noteq> i) (asset_parameter_types db),
       parameter_options := filter (\<lambda>r. po_parameter_type_id r \<noteq> i) (parameter_options db),
       parameter_assignments := filter (\<lambda>r. ag_parameter_type_id r \<noteq> i) (parameter_assignments db),
       parameter_values := filter (\<lambda>r. pv_parameter_type_id r \<noteq> i) (parameter_values db)\<rparr>) = Inr db'"
  then have db': "db' = db\<lparr>
       asset_parameter_types := filter (\<lambda>r. pt_parameter_type_id r \<noteq> i) (asset_parameter_types db),
       parameter_options := filter (\<lambda>r. po_parameter_type_id r \<noteq> i) (parameter_options db),
       parameter_assignments := filter (\<lambda>r. ag_parameter_type_id r \<noteq> i) (parameter_assignments db),
       parameter_values := filter (\<lambda>r. pv_parameter_type_id r \<noteq> i) (parameter_values db)\<rparr>"
    by simp
  from ok have "options_refer db'" "values_refer db'"
    unfolding parameter_tables_ok_def options_refer_def values_refer_def db' by fastforce+
  then show "parameter_tables_ok db'"
    using ok by (simp add: parameter_tables_ok_def db' value_table.delete option_table.delete parameter_table.delete)
qed

section \<open>What the flows keep\<close>

text \<open>A flow keeps what its statements keep; \<open>P\<close> is any of the predicates below.\<close>

lemma keeps_write_options:
  assumes "\<And>k q. keeps P (insert_asset_parameter_option k i q)"
    and "\<And>q j. q \<in> set qs \<Longrightarrow> matched_option existing q = Some j \<Longrightarrow> keeps P (update_asset_parameter_option j q)"
  shows "keeps P (write_options env n i existing qs)"
  using assms(2)
proof (induction qs arbitrary: n)
  case (Cons q qs)
  have rest: "keeps P (write_options env m i existing qs)" for m
    by (rule Cons.IH) (simp add: Cons.prems)
  show ?case
  proof (cases "matched_option existing q")
    case None
    with rest assms(1) show ?thesis
      by (simp add: keeps_bind)
  next
    case (Some j)
    with rest Cons.prems [of q j] show ?thesis
      by (simp add: keeps_bind)
  qed
qed (simp add: keeps_return)

lemma keeps_resolve_migration_target:
  assumes "\<And>k code label. keeps P (insert_migrated_asset_parameter_option k i code label)"
  shows "keeps P (resolve_migration_target env n i dt value)"
  unfolding resolve_migration_target_def by (intro keeps_intros assms)

lemma keeps_migrate_values:
  assumes "\<And>k code label. keeps P (insert_migrated_asset_parameter_option k (pd_parameter_type_id d) code label)"
    and "\<And>v value. keeps P (migrate_asset_parameter_value_in_database env v dt value)"
    and "\<And>v. keeps P (delete_asset_parameter_value_from_database v)"
  shows "keeps P (migrate_values env d dt migrations n vs)"
proof (induction vs arbitrary: n)
  case (Cons v vs)
  show ?case
    by (simp split: option.split prod.split)
       (intro conjI allI impI keeps_intros keeps_resolve_migration_target assms Cons.IH)
qed (simp add: keeps_return)

lemma keeps_insert_options [keeps_intros]:
  "keeps parameter_tables_ok (insert_new_asset_parameter_option k i q)"
  "keeps parameter_tables_ok (insert_asset_parameter_option k i q)"
  "keeps parameter_tables_ok (insert_migrated_asset_parameter_option k i code label)"
  unfolding insert_new_asset_parameter_option_def insert_asset_parameter_option_def
    insert_migrated_asset_parameter_option_def
  by (intro keeps_intros)+

lemma keeps_apply_option_updates [keeps_intros]:
  "keeps parameter_tables_ok (apply_option_updates env i dt existing options)"
  unfolding apply_option_updates_def replace_options_def delete_asset_parameter_options_def
    delete_removed_asset_parameter_options_def
  by (intro keeps_intros keeps_write_options)

lemma keeps_migrate_parameter_values [keeps_intros]:
  "keeps parameter_tables_ok (migrate_parameter_values env n i dt dm u values migrations)"
  unfolding migrate_parameter_values_def by (intro keeps_migrate_values keeps_intros)

lemma keeps_audit [keeps_intros]: "keeps parameter_tables_ok (record_audit a act res i d)"
  by (rule keeps_record_audit) (simp add: parameter_tables_ok_def options_refer_def values_refer_def)

lemma keeps_unexpected [keeps_intros]: "keeps P m \<Longrightarrow> keeps P (unexpected m)"
  unfolding unexpected_def by (rule keeps_map_err)

lemma keeps_commit [keeps_intros]: "keeps P commit"
  unfolding commit_def by (rule keeps_read)

lemma handlers_keep_tables:
  "keeps parameter_tables_ok (create_parameter_in_transaction env ctx new)"
  "keeps parameter_tables_ok (update_parameter_in_transaction env ctx i change)"
  "keeps parameter_tables_ok (delete_parameter_in_transaction env ctx i)"
  unfolding create_parameter_in_transaction_def update_parameter_in_transaction_def
    delete_parameter_in_transaction_def insert_new_options_def write_options_and_values_def
    read_values_to_migrate_def
  by (intro keeps_intros)+

section \<open>Which options a parameter has\<close>

text \<open>The options of other parameters and the parameters themselves are left alone.\<close>

definition flow_frame ::
    "uuid \<Rightarrow> option_row list \<Rightarrow> parameter_type_row list \<Rightarrow> uuid set \<Rightarrow> database \<Rightarrow> bool" where
  "flow_frame i others types ids db \<longleftrightarrow>
     filter (\<lambda>q. po_parameter_type_id q \<noteq> i) (parameter_options db) = others
     \<and> asset_parameter_types db = types
     \<and> (\<forall>q\<in>set (parameter_options db). po_option_id q \<in> ids \<longrightarrow> po_parameter_type_id q = i)"

lemma insert_option_row_Inr:
  "insert_option_row k i code label sort_order db = Inr (r, db') \<longleftrightarrow>
     r = \<lparr>po_option_id = k, po_parameter_type_id = i, po_code = code, po_label = label, po_sort_order = sort_order\<rparr>
     \<and> option_violation db (parameter_options db) r = None
     \<and> db' = db\<lparr>parameter_options := parameter_options db @ [r]\<rparr>"
  by (auto simp: insert_option_row_def Let_def tx_unfold split: option.splits)

lemma update_asset_parameter_option_Inr:
  "update_asset_parameter_option j q db = Inr (x, db') \<Longrightarrow>
     db' = db\<lparr>parameter_options := update_rows (\<lambda>r. po_option_id r = j) (change_option q) (parameter_options db)\<rparr>"
  by (auto simp: update_asset_parameter_option_def tx_unfold and_then_Inr_iff dest: write_row_Inr)

lemma drop_options_Inr:
  "drop_options i kept db = Inr (x, db') \<Longrightarrow>
     db' = db\<lparr>parameter_options :=
       filter (\<lambda>r. \<not> (po_parameter_type_id r = i \<and> po_option_id r \<notin> set kept)) (parameter_options db)\<rparr>"
  by (auto simp: drop_options_def tx_unfold split: if_splits)

lemma migrate_value_Inr:
  "migrate_asset_parameter_value_in_database env v dt value db = Inr (x, db') \<Longrightarrow>
     db' = db\<lparr>parameter_values :=
       update_rows (\<lambda>r. pv_value_id r = v) (migrate_row env dt (rv_columns value)) (parameter_values db)\<rparr>"
  by (auto simp: migrate_asset_parameter_value_in_database_def tx_unfold and_then_Inr_iff dest: write_row_Inr)

lemma delete_value_Inr:
  "delete_asset_parameter_value_from_database v db = Inr (x, db') \<longleftrightarrow>
     db' = db\<lparr>parameter_values := filter (\<lambda>r. pv_value_id r \<noteq> v) (parameter_values db)\<rparr>"
  by (auto simp: delete_asset_parameter_value_from_database_def tx_unfold)

lemma frame_insert [keeps_intros]: "keeps (flow_frame i others types ids) (insert_option_row k i code label s)"
  by (auto simp: keeps_def flow_frame_def insert_option_row_Inr)

lemma frame_update:
  assumes "j \<in> ids"
  shows "keeps (flow_frame i others types ids) (update_asset_parameter_option j q)"
  unfolding keeps_def
proof (intro allI impI)
  fix db x db'
  assume f: "flow_frame i others types ids db" and "update_asset_parameter_option j q db = Inr (x, db')"
  then have db': "db' = db\<lparr>parameter_options := update_rows (\<lambda>r. po_option_id r = j) (change_option q) (parameter_options db)\<rparr>"
    using update_asset_parameter_option_Inr by blast
  have "filter (\<lambda>q. po_parameter_type_id q \<noteq> i)
      (update_rows (\<lambda>r. po_option_id r = j) (change_option q) (parameter_options db))
      = filter (\<lambda>q. po_parameter_type_id q \<noteq> i) (parameter_options db)"
    using f assms by (intro filter_update_rows) (auto simp: flow_frame_def)
  then show "flow_frame i others types ids db'"
    using f by (auto simp: flow_frame_def db' set_update_rows)
qed

lemma frame_drop [keeps_intros]: "keeps (flow_frame i others types ids) (drop_options i kept)"
  unfolding keeps_def
proof (intro allI impI)
  fix db x db'
  assume f: "flow_frame i others types ids db" and "drop_options i kept db = Inr (x, db')"
  then have db': "db' = db\<lparr>parameter_options :=
       filter (\<lambda>r. \<not> (po_parameter_type_id r = i \<and> po_option_id r \<notin> set kept)) (parameter_options db)\<rparr>"
    using drop_options_Inr by blast
  have "filter (\<lambda>q. po_parameter_type_id q \<noteq> i) (parameter_options db')
      = filter (\<lambda>q. po_parameter_type_id q \<noteq> i) (parameter_options db)"
    by (auto simp: db' intro: filter_cong)
  then show "flow_frame i others types ids db'"
    using f by (auto simp: flow_frame_def db')
qed

lemma frame_values [keeps_intros]:
  "keeps (flow_frame i others types ids) (migrate_asset_parameter_value_in_database env v dt value)"
  "keeps (flow_frame i others types ids) (delete_asset_parameter_value_from_database v)"
  by (auto simp: keeps_def flow_frame_def delete_value_Inr dest: migrate_value_Inr)

lemma frame_option_inserts [keeps_intros]:
  "keeps (flow_frame i others types ids) (insert_asset_parameter_option k i q)"
  "keeps (flow_frame i others types ids) (insert_migrated_asset_parameter_option k i code label)"
  unfolding insert_asset_parameter_option_def insert_migrated_asset_parameter_option_def
  by (intro keeps_intros)+

lemma matched_known:
  assumes "case oi_option_id q of None \<Rightarrow> True | Some i \<Rightarrow> i \<in> po_option_id ` set existing"
    and "matched_option existing q = Some j"
  shows "j \<in> po_option_id ` set existing"
proof (cases "oi_option_id q")
  case None
  with assms(2) obtain r where "hash_map (map (\<lambda>r. (po_code r, r)) existing) (oi_code q) = Some r" "j = po_option_id r"
    by (auto simp: matched_option_def)
  then show ?thesis
    by (auto simp: hash_map_def dest!: map_of_SomeD)
qed (use assms in \<open>simp add: matched_option_def\<close>)

lemma frame_apply_option_updates:
  assumes "po_option_id ` set existing \<subseteq> ids"
  shows "keeps (flow_frame i others types ids) (apply_option_updates env i dt existing options)"
proof -
  have replace: "keeps (flow_frame i others types ids) (replace_options env i existing qs)" for qs
    unfolding keeps_def
  proof (intro allI impI)
    fix db x db'
    assume f: "flow_frame i others types ids db" and run: "replace_options env i existing qs db = Inr (x, db')"
    let ?known = "\<forall>q\<in>set qs. case oi_option_id q of None \<Rightarrow> True | Some i \<Rightarrow> i \<in> po_option_id ` set existing"
    from run have known: ?known
      by (auto simp: replace_options_def tx_unfold require_option_def ensure_Inr_iff)
    have "keeps (flow_frame i others types ids) (write_options env 0 i existing qs)"
      using matched_known known assms by (intro keeps_write_options keeps_intros frame_update) blast
    then have "keeps (flow_frame i others types ids) (replace_options env i existing qs)"
      unfolding replace_options_def delete_removed_asset_parameter_options_def by (intro keeps_intros)
    from keepsD [OF this run f] show "flow_frame i others types ids db'" .
  qed
  show ?thesis
    unfolding apply_option_updates_def delete_asset_parameter_options_def
    by (intro keeps_intros replace)
qed

lemma frame_migrate_parameter_values [keeps_intros]:
  "keeps (flow_frame i others types ids) (migrate_parameter_values env n i dt dm u values migrations)"
  unfolding migrate_parameter_values_def
  by (rule keeps_migrate_values) (simp_all only: value_definition.simps frame_option_inserts frame_values)

section \<open>An enumeration keeps an option\<close>

lemma has_option_changed [simp]:
  "has_option i (db\<lparr>parameter_options := update_rows p (change_option q) (parameter_options db)\<rparr>) = has_option i db"
proof -
  have "map po_parameter_type_id (update_rows p (change_option q) (parameter_options db))
      = map po_parameter_type_id (parameter_options db)"
    by (simp add: update_rows_def)
  then have "po_parameter_type_id ` set (update_rows p (change_option q) (parameter_options db))
      = po_parameter_type_id ` set (parameter_options db)"
    by (metis list.set_map)
  moreover have "has_option i d \<longleftrightarrow> i \<in> po_parameter_type_id ` set (parameter_options d)" for d
    by (auto simp: has_option_def)
  ultimately show ?thesis
    by simp
qed

lemma has_option_keeps [keeps_intros]:
  "keeps (has_option i) (insert_option_row k j code label s)"
  "keeps (has_option i) (update_asset_parameter_option k q)"
  "keeps (has_option i) (migrate_asset_parameter_value_in_database env v dt value)"
  "keeps (has_option i) (delete_asset_parameter_value_from_database v)"
proof -
  show "keeps (has_option i) (update_asset_parameter_option k q)"
    by (auto simp: keeps_def dest!: update_asset_parameter_option_Inr)
qed (auto simp: keeps_def has_option_def insert_option_row_Inr delete_value_Inr dest!: migrate_value_Inr)

lemma has_option_inserts [keeps_intros]:
  "keeps (has_option i) (insert_asset_parameter_option k j q)"
  "keeps (has_option i) (insert_migrated_asset_parameter_option k j code label)"
  unfolding insert_asset_parameter_option_def insert_migrated_asset_parameter_option_def
  by (intro keeps_intros)+

lemma has_option_migration:
  "keeps (has_option j) (resolve_migration_target env n i dt value)"
  "keeps (has_option j) (migrate_values env d dt ms n vs)"
  by (intro keeps_resolve_migration_target keeps_migrate_values keeps_intros)+

lemma update_has_option:
  assumes "update_asset_parameter_option k q db = Inr (x, db')"
    and "\<exists>r\<in>set (parameter_options db). po_option_id r = k \<and> po_parameter_type_id r = i"
  shows "has_option i db'"
  unfolding update_asset_parameter_option_Inr [OF assms(1)] has_option_changed
  using assms(2) by (auto simp: has_option_def)

lemma write_options_has_option:
  assumes "write_options env n i existing qs db = Inr (m, db')" and "qs \<noteq> []"
    and "\<And>q k. q \<in> set qs \<Longrightarrow> matched_option existing q = Some k \<Longrightarrow>
           \<exists>r\<in>set (parameter_options db). po_option_id r = k \<and> po_parameter_type_id r = i"
  shows "has_option i db'"
proof -
  obtain q rest where qs: "qs = q # rest"
    using assms(2) by (cases qs) auto
  have rest: "keeps (has_option i) (write_options env k i existing rest)" for k
    by (intro keeps_write_options keeps_intros)
  show ?thesis
  proof (cases "matched_option existing q")
    case None
    with assms(1) obtain db1 where "insert_asset_parameter_option (env_new_v4 env n) i q db = Inr ((), db1)"
        and w: "write_options env (Suc n) i existing rest db1 = Inr (m, db')"
      by (auto simp: qs tx_unfold)
    then have "has_option i db1"
      by (auto simp: insert_asset_parameter_option_def tx_unfold insert_option_row_Inr has_option_def)
    then show ?thesis
      by (rule keepsD [OF rest w])
  next
    case (Some k)
    with assms(1) obtain x db1 where u: "update_asset_parameter_option k q db = Inr (x, db1)"
        and w: "write_options env n i existing rest db1 = Inr (m, db')"
      by (auto simp: qs tx_unfold)
    have "has_option i db1"
      by (rule update_has_option [OF u]) (use assms(3) [of q k] Some qs in auto)
    then show ?thesis
      by (rule keepsD [OF rest w])
  qed
qed

lemma replace_options_has_option:
  assumes "replace_options env i existing qs db = Inr ((rows, n), db')" and "qs \<noteq> []"
    and "\<And>k. k \<in> po_option_id ` set existing \<Longrightarrow>
           \<exists>r\<in>set (parameter_options db). po_option_id r = k \<and> po_parameter_type_id r = i"
  shows "has_option i db'"
proof -
  from assms(1) obtain x db1 where known: "\<forall>q\<in>set qs. case oi_option_id q of None \<Rightarrow> True | Some i \<Rightarrow> i \<in> po_option_id ` set existing"
      and d: "drop_options i (List.map_filter (matched_option existing) qs) db = Inr (x, db1)"
      and w: "write_options env 0 i existing qs db1 = Inr (n, db')"
    by (auto simp: replace_options_def delete_removed_asset_parameter_options_def tx_unfold require_option_def ensure_Inr_iff)
  show ?thesis
  proof (rule write_options_has_option [OF w assms(2)])
    fix q k
    assume q: "q \<in> set qs" "matched_option existing q = Some k"
    with known matched_known have "k \<in> po_option_id ` set existing"
      by blast
    with assms(3) obtain r where "r \<in> set (parameter_options db)" "po_option_id r = k" "po_parameter_type_id r = i"
      by blast
    moreover have "k \<in> set (List.map_filter (matched_option existing) qs)"
      using q by (auto simp: List.map_filter_def intro!: image_eqI [of _ _ q])
    ultimately show "\<exists>r\<in>set (parameter_options db1). po_option_id r = k \<and> po_parameter_type_id r = i"
      by (auto simp: drop_options_Inr [OF d])
  qed
qed

lemma resolved_enum_has_option:
  assumes "resolve_parameter_value env d value db = Inr rv" and "pd_data_type d = DataType_as_str Enum"
  shows "has_option (pd_parameter_type_id d) db"
proof -
  from assms(1) obtain dt v where v: "DataType_parse (pd_data_type d) = Inr dt"
      "AssetParameterValue_parse env dt value = Inr v" "resolve_columns d v db = Inr (rv_columns rv)"
    by (rule resolve_parameter_value_Inr)
  have "dt = Enum"
    using v(1) data_type_name.parse_as_str [of Enum] by (simp add: assms(2))
  with parsed_value_type [OF v(2)] obtain i where "v = EnumValue i"
    by (cases v) auto
  with v(3) show ?thesis
    by (auto simp: and_then_Inr_iff validate_option_def ensure_Inr_iff has_option_def dest: fetch_optional_Some)
qed

lemma migrate_values_has_option:
  assumes "migrate_values env d Enum ms n vs db = Inr (x, db')" and "pd_data_type d = DataType_as_str Enum"
    and "v \<in> set vs" and "ms (pv_value_id (vv_row v)) = Some (k, Some target)"
  shows "has_option (pd_parameter_type_id d) db'"
  using assms(1,3)
proof (induction vs arbitrary: n db)
  case (Cons w vs)
  show ?case
  proof (cases "w = v")
    case True
    with Cons.prems(1) assms(4) obtain j m db1 rv y db2
      where "resolve_migration_target env n (pd_parameter_type_id d) Enum target db = Inr ((j, m), db1)"
        and r: "resolve_parameter_value env d j db1 = Inr rv"
        and u: "migrate_asset_parameter_value_in_database env (pv_value_id (vv_row v)) Enum rv db1 = Inr (y, db2)"
        and rest: "migrate_values env d Enum ms m vs db2 = Inr (x, db')"
      by (auto simp: tx_unfold)
    have "has_option (pd_parameter_type_id d) db2"
      by (rule keepsD [OF has_option_keeps(3) u resolved_enum_has_option [OF r assms(2)]])
    then show ?thesis
      by (rule keepsD [OF has_option_migration(2) rest])
  next
    case False
    with Cons.prems obtain m db1 where "migrate_values env d Enum ms m vs db1 = Inr (x, db')" "v \<in> set vs"
      by (auto simp: tx_unfold split: option.splits prod.splits)
    then show ?thesis
      by (rule Cons.IH)
  qed
qed simp

lemma unique_known_Inr:
  "unique_known known seen ms = Inr u \<longleftrightarrow>
     distinct (map fst ms) \<and> set (map fst ms) \<inter> set seen = {} \<and> set (map fst ms) \<subseteq> known"
  by (induction ms arbitrary: seen) (auto simp: and_then_Inr_iff require_option_def ensure_Inr_iff)

text \<open>Accepted migrations name every stored value once, and nothing else.\<close>

lemma validate_value_migrations_Inr:
  assumes "validate_value_migrations values migrations = Inr u"
  defines "ms \<equiv> coalesce migrations []"
  shows "distinct (map fst ms)" and "set (map fst ms) = (\<lambda>v. pv_value_id (vv_row v)) ` set values"
proof -
  have "distinct (map fst ms) \<and> set (map fst ms) = (\<lambda>v. pv_value_id (vv_row v)) ` set values"
  proof (cases migrations)
    case (Some l)
    with assms have u: "unique_known ((\<lambda>v. pv_value_id (vv_row v)) ` set values) [] l = Inr ()"
        and c: "card (set (map fst l)) = card ((\<lambda>v. pv_value_id (vv_row v)) ` set values)"
      by (auto simp: validate_value_migrations_def Let_def and_then_Inr_iff require_option_def ensure_Inr_iff)
    then have "set (map fst l) = (\<lambda>v. pv_value_id (vv_row v)) ` set values"
      by (intro card_subset_eq) (auto simp: unique_known_Inr)
    with u Some show ?thesis
      by (simp add: ms_def coalesce_def unique_known_Inr)
  qed (use assms in \<open>simp add: validate_value_migrations_def coalesce_def require_option_def ensure_Inr_iff\<close>)
  then show "distinct (map fst ms)" and "set (map fst ms) = (\<lambda>v. pv_value_id (vv_row v)) ` set values"
    by auto
qed

lemma hash_map_mem:
  assumes "distinct (map fst ms)" and "m \<in> set ms"
  shows "hash_map (map (\<lambda>m. (fst m, m)) ms) (fst m) = Some m"
proof -
  have "distinct (map fst (rev (map (\<lambda>m. (fst m, m)) ms)))"
    using assms(1) by (simp add: rev_map [symmetric] comp_def)
  moreover have "(fst m, m) \<in> set (rev (map (\<lambda>m. (fst m, m)) ms))"
    using assms(2) by auto
  ultimately show ?thesis
    unfolding hash_map_def by (rule map_of_is_SomeI)
qed

end
