(* ===== verification/Asset_Invariant.thy ===== *)
theory Asset_Invariant
  imports Asset_Handlers Parameter_Invariant
begin

text \<open>
  What the statements and flows of the asset routes keep: the constraints of the assets, of the
  stock that refers to them and of the values that refer to them. The frames say which tables a
  flow leaves alone.
\<close>

section \<open>The tables\<close>

interpretation asset_table: checked_table as_asset_id asset_checks same_asset_name asset_violation
  by standard (auto simp: asset_violation_def same_asset_name_def split: if_splits)

interpretation set_asset: row_update as_asset_id
    "set_asset category mode name model manufacturer unit pn inn now"
    for category mode name model manufacturer unit pn inn now
  by unfold_locales (simp add: set_asset_def)

interpretation rescale_row: row_update ii_inventory_item_id "rescale_row q now" for q now
  by unfold_locales (simp add: rescale_row_def)

interpretation set_value: row_update pv_value_id "set_value env v" for env v
  by unfold_locales (simp add: set_value_def)

text \<open>Without the key of the values to their parameters, which is only checked at the commit.\<close>

definition asset_tables_ok :: "database \<Rightarrow> bool" where
  "asset_tables_ok db \<longleftrightarrow>
     table_ok as_asset_id asset_checks same_asset_name (assets db)
     \<and> inventory_ok db \<and> parameter_tables_ok db \<and> enum_options_ok db"

definition assets_ok :: "database \<Rightarrow> bool" where
  "assets_ok db \<longleftrightarrow> asset_tables_ok db \<and> deferred_ok db"

lemma asset_tables_okD:
  assumes "asset_tables_ok db"
  shows "table_ok as_asset_id asset_checks same_asset_name (assets db)" and "inventory_ok db"
    and "parameter_tables_ok db" and "enum_options_ok db" and "distinct (map as_asset_id (assets db))"
    and "table_ok pv_value_id value_row_checks same_value_slot (parameter_values db)" and "values_refer db"
  using assms by (simp_all add: asset_tables_ok_def inventory_ok_def parameter_tables_ok_def)

text \<open>The tables the predicate does not read.\<close>

lemma inventory_ok_cong:
  "inventory_items db' = inventory_items db \<Longrightarrow> assets db' = assets db \<Longrightarrow> locations db' = locations db
    \<Longrightarrow> inventory_ok db' = inventory_ok db"
  by (simp add: inventory_ok_def references_ok_def cong: option.case_cong)

lemma asset_tables_ok_cong:
  assumes "inventory_items db' = inventory_items db" and "assets db' = assets db" and "locations db' = locations db"
    and "asset_parameter_types db' = asset_parameter_types db" and "parameter_options db' = parameter_options db"
    and "parameter_values db' = parameter_values db"
  shows "asset_tables_ok db' = asset_tables_ok db"
  using assms inventory_ok_cong [OF assms(1-3)]
  by (simp add: asset_tables_ok_def parameter_tables_ok_def options_refer_def values_refer_def
      enum_options_ok_def has_option_def)

lemma asset_tables_ok_frame [simp]:
  "asset_tables_ok (db\<lparr>audit_logs := es\<rparr>) = asset_tables_ok db"
  "asset_tables_ok (db\<lparr>file_uploads := us\<rparr>) = asset_tables_ok db"
  "asset_tables_ok (db\<lparr>files := fs\<rparr>) = asset_tables_ok db"
  "asset_tables_ok (db\<lparr>attachments := as\<rparr>) = asset_tables_ok db"
  "asset_tables_ok (db\<lparr>attachments := as, files := fs\<rparr>) = asset_tables_ok db"
  by (rule asset_tables_ok_cong; simp)+

text \<open>Only the ids of the assets matter to the values.\<close>

lemma values_refer_assets:
  assumes "values_refer db" and "as_asset_id ` set (assets db) \<subseteq> as_asset_id ` set rows"
  shows "values_refer (db\<lparr>assets := rows\<rparr>)"
  using assms unfolding values_refer_def by simp (metis (no_types, lifting) image_iff subset_iff)

lemma parameter_tables_assets:
  assumes "parameter_tables_ok db" and "as_asset_id ` set (assets db) \<subseteq> as_asset_id ` set rows"
  shows "parameter_tables_ok (db\<lparr>assets := rows\<rparr>)"
  using assms values_refer_assets by (simp add: parameter_tables_ok_def options_refer_def)

lemma enum_options_ok_assets [simp]: "enum_options_ok (db\<lparr>assets := rows\<rparr>) = enum_options_ok db"
  by (simp add: enum_options_ok_def has_option_def)

section \<open>What the statements keep\<close>

lemma keeps_insert_asset [keeps_intros]: "keeps asset_tables_ok (insert_asset env i lab n)"
  unfolding insert_asset_def Let_def
proof (intro keeps_intros keeps_write)
  fix db db' :: database
  let ?a = "\<lparr>as_asset_id = i, as_laboratory_id = lab,
          as_tracking_mode = AssetTrackingMode_as_str (ns_tracking_mode n), as_category_id = ns_category_id n,
          as_name = ns_name n, as_model = ns_model n, as_manufacturer = ns_manufacturer n,
          as_inventory_unit_id = ns_inventory_unit_id n, as_public_notes = ns_public_notes n,
          as_internal_notes = ns_internal_notes n, as_created_at = env_now env, as_updated_at = env_now env\<rparr>"
  assume ok: "asset_tables_ok db"
    and "(case asset_violation db (assets db) ?a of Some e \<Rightarrow> Inl e
            | None \<Rightarrow> Inr (db\<lparr>assets := assets db @ [?a]\<rparr>)) = Inr db'"
  then have free: "asset_violation db (assets db) ?a = None" and db': "db' = db\<lparr>assets := assets db @ [?a]\<rparr>"
    by (auto split: option.splits)
  note t = asset_table.insert [OF asset_tables_okD(1) [OF ok] free]
  then have "distinct (map as_asset_id (assets db @ [?a]))"
    by (simp add: table_ok_def)
  then have "inventory_ok db'"
    using asset_tables_okD(2) [OF ok]
    by (auto simp: inventory_ok_def references_ok_def db' cong: option.case_cong)
  then show "asset_tables_ok db'"
    using t asset_tables_okD(4) [OF ok] parameter_tables_assets [OF asset_tables_okD(3) [OF ok], of "assets db @ [?a]"]
    by (simp add: asset_tables_ok_def db' subset_insertI)
qed

text \<open>An asset keeps its id and its laboratory; its items keep its tracking mode.\<close>

lemma update_asset_in_database_Inr:
  assumes "update_asset_in_database env i category mode name model manufacturer unit pn inn db = Inr (u, db')"
  obtains rows where "write_row (asset_violation db) as_asset_id
        (set_asset category mode name model manufacturer unit pn inn (env_now env)) i (assets db) = Inr rows"
    and "\<And>r. r \<in> set (inventory_items db) \<Longrightarrow> ii_asset_id r = i \<Longrightarrow> ii_tracking_mode r = AssetTrackingMode_as_str mode"
    and "db' = db\<lparr>assets := rows\<rparr>"
  using assms
  by (auto simp: update_asset_in_database_def tx_unfold and_then_Inr_iff items_of_def split: if_splits)

lemma keeps_update_asset_row [keeps_intros]:
  "keeps asset_tables_ok (update_asset_in_database env i category mode name model manufacturer unit pn inn)"
  unfolding keeps_def
proof (intro allI impI)
  let ?change = "set_asset category mode name model manufacturer unit pn inn (env_now env)"
  fix db x db'
  assume ok: "asset_tables_ok db"
    and run: "update_asset_in_database env i category mode name model manufacturer unit pn inn db = Inr (x, db')"
  obtain rows where w: "write_row (asset_violation db) as_asset_id ?change i (assets db) = Inr rows"
      and mode: "\<And>r. r \<in> set (inventory_items db) \<Longrightarrow> ii_asset_id r = i \<Longrightarrow>
          ii_tracking_mode r = AssetTrackingMode_as_str mode"
      and db': "db' = db\<lparr>assets := rows\<rparr>"
    by (rule update_asset_in_database_Inr [OF run]) blast
  have rows: "rows = update_rows (\<lambda>a. as_asset_id a = i) ?change (assets db)"
    by (rule write_row_Inr [OF w])
  have ids: "map as_asset_id rows = map as_asset_id (assets db)"
    by (simp add: rows set_asset.keys)
  then have ids': "as_asset_id ` set rows = as_asset_id ` set (assets db)"
    by (metis list.set_map)
  have refs: "references_ok db' r" if "r \<in> set (inventory_items db)" for r
  proof -
    have old: "references_ok db r"
      using asset_tables_okD(2) [OF ok] that by (simp add: inventory_ok_def)
    then obtain a where a: "a \<in> set (assets db)" "as_asset_id a = ii_asset_id r"
        "as_laboratory_id a = ii_laboratory_id r" "as_tracking_mode a = ii_tracking_mode r"
      by (auto simp: references_ok_def)
    have "\<exists>b\<in>set rows. as_asset_id b = ii_asset_id r \<and> as_laboratory_id b = ii_laboratory_id r
        \<and> as_tracking_mode b = ii_tracking_mode r"
    proof (cases "ii_asset_id r = i")
      case True
      with a mode [OF that True] show ?thesis
        by (auto simp: rows set_update_rows set_asset_def intro!: bexI [of _ "?change a"])
    next
      case False
      with a show ?thesis
        by (auto simp: rows set_update_rows)
    qed
    moreover have "assets db' = rows" "locations db' = locations db"
      by (simp_all add: db')
    ultimately show ?thesis
      using old by (simp add: references_ok_def cong: option.case_cong)
  qed
  have "inventory_ok db'"
    using asset_tables_okD(2) [OF ok] refs ids by (simp add: inventory_ok_def db')
  then show "asset_tables_ok db'"
    using asset_table.overwrite [OF asset_tables_okD(1) [OF ok] w] asset_tables_okD(3,4) [OF ok] ids'
      parameter_tables_assets [of db rows]
    by (simp add: asset_tables_ok_def db' set_asset_def)
qed

lemma delete_asset_frame:
  assumes "delete_asset_from_database i db = Inr (u, db')"
  shows "db' = db\<lparr>
       assets := filter (\<lambda>a. as_asset_id a \<noteq> i) (assets db),
       inventory_items := filter (\<lambda>r. ii_asset_id r \<noteq> i) (inventory_items db),
       attachments := filter (\<lambda>a. \<not> hangs_off i db a) (attachments db),
       borrow_requests := filter (\<lambda>b. \<not> of_item_of i db (br_inventory_item_id b)) (borrow_requests db),
       parameter_values := filter (\<lambda>v. pv_asset_id v \<noteq> i) (parameter_values db)\<rparr>"
  using assms by (simp add: delete_asset_from_database_def tx_unfold)

lemma keeps_delete_asset_row [keeps_intros]: "keeps asset_tables_ok (delete_asset_from_database i)"
  unfolding keeps_def
proof (intro allI impI)
  fix db x db'
  assume ok: "asset_tables_ok db" and run: "delete_asset_from_database i db = Inr (x, db')"
  note db' = delete_asset_frame [OF run]
  have refs: "references_ok db' r" if "r \<in> set (inventory_items db)" "ii_asset_id r \<noteq> i" for r
  proof -
    have "references_ok db r"
      using asset_tables_okD(2) [OF ok] that(1) by (simp add: inventory_ok_def)
    moreover have "locations db' = locations db" "assets db' = filter (\<lambda>a. as_asset_id a \<noteq> i) (assets db)"
      by (simp_all add: db')
    ultimately show ?thesis
      using that(2) by (auto simp: references_ok_def cong: option.case_cong)
  qed
  have inv: "inventory_ok db'"
    using asset_tables_okD(2) [OF ok] refs unfolding inventory_ok_def
    by (simp add: db' distinct_map_filter)
  have "values_refer db'"
    using asset_tables_okD(7) [OF ok] unfolding values_refer_def db' by fastforce
  then have "parameter_tables_ok db'"
    using asset_tables_okD(3) [OF ok] value_table.delete
    by (auto simp: parameter_tables_ok_def options_refer_def db')
  moreover have "enum_options_ok db'"
    using asset_tables_okD(4) [OF ok] by (simp add: enum_options_ok_def has_option_def db')
  ultimately show "asset_tables_ok db'"
    using inv asset_table.delete [OF asset_tables_okD(1) [OF ok]] by (simp add: asset_tables_ok_def db')
qed

text \<open>A new item is one more row; the columns of its asset are those of the row.\<close>

lemma insert_asset_item_row_Inr:
  assumes "insert_asset_item_row env i lab asset_id mode item db = Inr (w, db')"
  obtains r where "insert_row r db = Inr db'" and "ai_item w = r" and "ii_asset_id r = asset_id"
    and "ii_laboratory_id r = lab" and "ii_tracking_mode r = AssetTrackingMode_as_str mode"
    and "ii_inventory_item_id r = i"
proof -
  from assms obtain r where "insert_row r db = Inr db'" "item_of_asset env r = Inr w" "ii_asset_id r = asset_id"
      "ii_laboratory_id r = lab" "ii_tracking_mode r = AssetTrackingMode_as_str mode" "ii_inventory_item_id r = i"
    by (auto simp: insert_asset_item_row_def tx_map_err_Inr and_then_Inr_iff Let_def map_err_Inr_iff)
  then show thesis
    using that by (auto simp: item_of_asset_def and_then_Inr_iff)
qed

lemma keeps_insert_asset_item_row [keeps_intros]:
  "keeps asset_tables_ok (insert_asset_item_row env i lab asset_id mode item)"
  unfolding keeps_def
proof (intro allI impI)
  fix db x db'
  assume ok: "asset_tables_ok db" and run: "insert_asset_item_row env i lab asset_id mode item db = Inr (x, db')"
  obtain r where r: "insert_row r db = Inr db'"
    by (rule insert_asset_item_row_Inr [OF run])
  then have "\<exists>rows. db' = db\<lparr>inventory_items := rows\<rparr>"
    by (auto simp: insert_row_Inr)
  then show "asset_tables_ok db'"
    using ok insert_row_ok [OF asset_tables_okD(2) [OF ok] r]
    by (auto simp: asset_tables_ok_def parameter_tables_ok_def options_refer_def values_refer_def
        enum_options_ok_def has_option_def)
qed

lemma rescale_Inr:
  assumes "rescale_inventory_quantities env i factor db = Inr (u, db')"
  obtains q where "items_of i db \<noteq> [] \<Longrightarrow> float8_numeric env factor = Some q"
    and "\<And>r. r \<in> set (items_of i db) \<Longrightarrow> inventory_checks (rescale_row q (env_now env) r)"
    and "db' = db\<lparr>inventory_items :=
           update_rows (\<lambda>r. ii_asset_id r = i) (rescale_row q (env_now env)) (inventory_items db)\<rparr>"
  using assms
  by (auto simp: rescale_inventory_quantities_def tx_unfold and_then_Inr_iff to_numeric_Inr split: if_splits)

lemma keeps_rescale [keeps_intros]: "keeps asset_tables_ok (rescale_inventory_quantities env i factor)"
  unfolding keeps_def
proof (intro allI impI)
  fix db x db'
  assume ok: "asset_tables_ok db" and run: "rescale_inventory_quantities env i factor db = Inr (x, db')"
  obtain q where q: "\<And>r. r \<in> set (items_of i db) \<Longrightarrow> inventory_checks (rescale_row q (env_now env) r)"
      and db': "db' = db\<lparr>inventory_items :=
           update_rows (\<lambda>r. ii_asset_id r = i) (rescale_row q (env_now env)) (inventory_items db)\<rparr>"
    by (rule rescale_Inr [OF run]) blast
  let ?new = "\<lambda>r. if ii_asset_id r = i then rescale_row q (env_now env) r else r"
  have rows: "inventory_items db' = map ?new (inventory_items db)"
    by (simp add: db' update_rows_def)
  have same: "ii_inventory_item_id (?new r) = ii_inventory_item_id r" "serial_clash (?new r) (?new s) = serial_clash r s"
    "aggregate_clash (?new r) (?new s) = aggregate_clash r s" "references_ok db' (?new r) = references_ok db r" for r s
    by (simp_all add: rescale_row_def serial_clash_def aggregate_clash_def references_ok_def db'
        cong: option.case_cong)
  have old: "inventory_ok db"
    by (rule asset_tables_okD(2) [OF ok])
  have "inventory_checks (?new r)" if "r \<in> set (inventory_items db)" for r
    using old q that by (simp add: inventory_ok_def items_of_def)
  moreover have "distinct (map ii_inventory_item_id (inventory_items db'))"
    using old by (simp add: db' rescale_row.keys inventory_ok_def)
  moreover have "assets db' = assets db"
    by (simp add: db')
  ultimately have "inventory_ok db'"
    using old unfolding inventory_ok_def rows set_map ball_simps same by simp
  then show "asset_tables_ok db'"
    using ok by (simp add: asset_tables_ok_def parameter_tables_ok_def options_refer_def values_refer_def
        enum_options_ok_def has_option_def db')
qed

lemma keeps_item_flow [keeps_intros]:
  "keeps asset_tables_ok (insert_asset_inventory_item env i lab asset_id mode item)"
  unfolding insert_asset_inventory_item_def by (intro keeps_intros)

lemma keeps_convert [keeps_intros]:
  "keeps asset_tables_ok (convert_inventory_quantities_to_unit env asset_id mode source target)"
  unfolding convert_inventory_quantities_to_unit_def by (intro keeps_intros)

section \<open>Values\<close>

lemma value_violation_refers:
  assumes "value_violation db others v = None"
  shows "\<exists>a\<in>set (assets db). as_asset_id a = pv_asset_id v"
    and "vc_option_id (pv_columns v) = Some k \<Longrightarrow>
      \<exists>q\<in>set (parameter_options db). po_option_id q = k \<and> po_parameter_type_id q = pv_parameter_type_id v"
  using assms by (auto simp: value_violation_def split: if_splits)

text \<open>The value of a parameter of an asset is written over, or added at the end.\<close>

lemma upsert_Inr:
  assumes "upsert_asset_parameter_value env i lab asset_id value db = Inr (u, db')"
  obtains rows where "db' = db\<lparr>parameter_values := rows\<rparr>"
    and "(\<exists>v. v \<in> set (parameter_values db) \<and> pv_asset_id v = asset_id
           \<and> pv_parameter_type_id v = rv_parameter_type_id value
           \<and> write_row (value_violation db) pv_value_id (set_value env value) (pv_value_id v) (parameter_values db) = Inr rows)
      \<or> (\<exists>v. pv_asset_id v = asset_id \<and> pv_parameter_type_id v = rv_parameter_type_id value \<and> pv_laboratory_id v = lab
           \<and> value_violation db (parameter_values db) v = None \<and> rows = parameter_values db @ [v])"
proof -
  let ?found = "fetch_optional (\<lambda>v. pv_asset_id v = asset_id \<and> pv_parameter_type_id v = rv_parameter_type_id value)
                (parameter_values db)"
  show thesis
  proof (cases ?found)
    case None
    then show thesis
      using assms by (intro that) (auto simp: upsert_asset_parameter_value_def tx_unfold Let_def split: option.splits)
  next
    case (Some v)
    with assms obtain rows where
        "write_row (value_violation db) pv_value_id (set_value env value) (pv_value_id v) (parameter_values db) = Inr rows"
        "db' = db\<lparr>parameter_values := rows\<rparr>"
      by (auto simp: upsert_asset_parameter_value_def tx_unfold Let_def and_then_Inr_iff)
    then show thesis
      using fetch_optional_Some [OF Some] by (intro that) auto
  qed
qed

lemma keeps_upsert [keeps_intros]: "keeps asset_tables_ok (upsert_asset_parameter_value env i lab asset_id value)"
  unfolding keeps_def
proof (intro allI impI)
  fix db x db'
  assume ok: "asset_tables_ok db" and run: "upsert_asset_parameter_value env i lab asset_id value db = Inr (x, db')"
  note t = asset_tables_okD(6) [OF ok]
  obtain rows where db': "db' = db\<lparr>parameter_values := rows\<rparr>"
    and rows: "(\<exists>v. v \<in> set (parameter_values db) \<and> pv_asset_id v = asset_id
           \<and> pv_parameter_type_id v = rv_parameter_type_id value
           \<and> write_row (value_violation db) pv_value_id (set_value env value) (pv_value_id v) (parameter_values db) = Inr rows)
      \<or> (\<exists>v. pv_asset_id v = asset_id \<and> pv_parameter_type_id v = rv_parameter_type_id value \<and> pv_laboratory_id v = lab
           \<and> value_violation db (parameter_values db) v = None \<and> rows = parameter_values db @ [v])"
    by (rule upsert_Inr [OF run])
  have "table_ok pv_value_id value_row_checks same_value_slot rows
      \<and> (\<forall>w\<in>set rows. w \<in> set (parameter_values db) \<or> (\<exists>others. value_violation db others w = None))"
    using rows
  proof (elim disjE exE conjE)
    fix v
    assume w: "write_row (value_violation db) pv_value_id (set_value env value) (pv_value_id v) (parameter_values db) = Inr rows"
    show ?thesis
      using value_table.overwrite [OF t w] value_table.overwritten [OF t w] by (auto simp: set_value.key_change)
  next
    fix v
    assume "value_violation db (parameter_values db) v = None" "rows = parameter_values db @ [v]"
    then show ?thesis
      using value_table.insert [OF t] by auto
  qed
  then have tab: "table_ok pv_value_id value_row_checks same_value_slot rows"
    and each: "\<And>w. w \<in> set rows \<Longrightarrow> w \<in> set (parameter_values db) \<or> (\<exists>others. value_violation db others w = None)"
    by blast+
  have old: "values_refer db"
    by (rule asset_tables_okD(7) [OF ok])
  have "\<exists>a\<in>set (assets db). as_asset_id a = pv_asset_id w" if "w \<in> set rows" for w
    using each [OF that] old value_violation_refers(1) unfolding values_refer_def by blast
  moreover have "\<exists>q\<in>set (parameter_options db). po_option_id q = k \<and> po_parameter_type_id q = pv_parameter_type_id w"
    if "w \<in> set rows" "vc_option_id (pv_columns w) = Some k" for w k
    using each [OF that(1)] old that(2) value_violation_refers(2) unfolding values_refer_def by blast
  ultimately have "values_refer db'"
    by (simp add: values_refer_def db')
  moreover have "inventory_ok db'"
    using asset_tables_okD(2) [OF ok] by (simp add: db' inventory_ok_cong [of "db\<lparr>parameter_values := rows\<rparr>" db])
  ultimately show "asset_tables_ok db'"
    using ok tab by (simp add: asset_tables_ok_def parameter_tables_ok_def options_refer_def enum_options_ok_def
        has_option_def db')
qed

lemma keeps_delete_asset_value [keeps_intros]: "keeps asset_tables_ok (delete_asset_parameter_value asset_id p)"
  unfolding delete_asset_parameter_value_def
proof (rule keeps_write)
  let ?keep = "\<lambda>v. \<not> (pv_asset_id v = asset_id \<and> pv_parameter_type_id v = p)"
  fix db db' :: database
  assume ok: "asset_tables_ok db" and "Inr (db\<lparr>parameter_values := filter ?keep (parameter_values db)\<rparr>) = Inr db'"
  then have db': "db' = db\<lparr>parameter_values := filter ?keep (parameter_values db)\<rparr>"
    by simp
  have "values_refer db'"
    using asset_tables_okD(7) [OF ok] unfolding values_refer_def by (simp add: db')
  moreover have "inventory_ok db'"
    using asset_tables_okD(2) [OF ok] by (simp add: db' inventory_ok_cong [of "db\<lparr>parameter_values := _\<rparr>" db])
  ultimately show "asset_tables_ok db'"
    using ok value_table.delete
    by (simp add: asset_tables_ok_def parameter_tables_ok_def options_refer_def enum_options_ok_def has_option_def db')
qed

section \<open>The flows\<close>

text \<open>A loop keeps what its steps keep; \<open>P\<close> is any predicate of the database.\<close>

lemma keeps_each_update:
  assumes "\<And>i value. keeps P (upsert_asset_parameter_value env i lab asset_id value)"
    and "\<And>p. keeps P (delete_asset_parameter_value asset_id p)"
  shows "keeps P (apply_each_update env n lab asset_id definitions allow_delete inputs)"
proof (induction inputs arbitrary: n)
  case (Cons input inputs)
  show ?case
    by (simp split: option.split) (intro conjI allI impI keeps_intros assms Cons.IH)
qed (simp add: keeps_return)

lemma keeps_parameter_updates:
  assumes "\<And>i value. keeps P (upsert_asset_parameter_value env i lab asset_id value)"
    and "\<And>p. keeps P (delete_asset_parameter_value asset_id p)"
  shows "keeps P (apply_asset_parameter_updates env n lab asset_id inputs allow_delete)"
  unfolding apply_asset_parameter_updates_def by (intro keeps_intros keeps_each_update assms)

text \<open>Assigning uploads reads much and writes four tables.\<close>

definition ignores_attachments :: "(database \<Rightarrow> bool) \<Rightarrow> bool" where
  "ignores_attachments P \<longleftrightarrow>
     (\<forall>db x. P (db\<lparr>file_uploads := x\<rparr>) = P db) \<and> (\<forall>db x. P (db\<lparr>files := x\<rparr>) = P db)
     \<and> (\<forall>db x. P (db\<lparr>attachments := x\<rparr>) = P db)
     \<and> (\<forall>db es. P db \<longrightarrow> P (db\<lparr>audit_logs := audit_logs db @ es\<rparr>))"

lemma keeps_audit_entry:
  assumes "ignores_attachments P"
  shows "keeps P (record_audit a act res i d)"
  using assms by (auto simp: keeps_def record_audit_Inr ignores_attachments_def)

lemma keeps_consume:
  assumes "ignores_attachments P"
  shows "keeps P (consume_file_upload env i)"
  unfolding consume_file_upload_def mark_file_upload_consumed_def
  using assms by (intro keeps_intros keeps_write) (auto simp: ignores_attachments_def)

lemma keeps_insert_attachment:
  assumes "ignores_attachments P"
  shows "keeps P (insert_attachment env n actor_user target upload display_name description is_public)"
  unfolding insert_attachment_def Let_def
  using assms by (intro keeps_intros keeps_write) (auto simp: ignores_attachments_def split: option.splits)

lemma keeps_assign_one:
  assumes "ignores_attachments P"
  shows "keeps P (assign_one env n actor_user target expected a)"
  unfolding assign_one_def unexpected_def
  by (intro keeps_intros keeps_audit_entry keeps_consume keeps_insert_attachment assms)

lemma keeps_assign:
  assumes "ignores_attachments P"
  shows "keeps P (assign_uploaded_attachments env n actor_user target expected news)"
proof -
  have "keeps P (assign_each env k actor_user target expected as)" for k as
    by (induction as arbitrary: k) (simp_all, intro keeps_intros keeps_assign_one [OF assms], intro keeps_intros keeps_assign_one [OF assms])
  then show ?thesis
    unfolding assign_uploaded_attachments_def by (intro keeps_intros)
qed

lemma keeps_assign_for_asset:
  "ignores_attachments P \<Longrightarrow> keeps P (assign_for_asset env n actor_user target lab news)"
  unfolding assign_for_asset_def by (intro keeps_intros keeps_assign)

lemma keeps_items:
  assumes "ignores_attachments P"
    and "\<And>i item. keeps P (insert_asset_inventory_item env i lab asset_id mode item)"
  shows "keeps P (insert_each_item env n actor_user lab asset_id mode inputs)"
proof (induction inputs arbitrary: n)
  case (Cons input inputs)
  show ?case
    by (simp, intro keeps_intros keeps_assign_for_asset assms Cons.IH)
qed (simp add: keeps_return)

lemma ignores_asset_tables: "ignores_attachments asset_tables_ok"
  by (simp add: ignores_attachments_def)

lemma keeps_asset_graph [keeps_intros]: "keeps asset_tables_ok (insert_asset_graph env actor_user lab input)"
  unfolding insert_asset_graph_def Let_def
  by (intro keeps_intros keeps_assign_for_asset keeps_items keeps_parameter_updates ignores_asset_tables)

lemma keeps_read_graph [keeps_intros]: "keeps P (read_asset_graph env asset_id missing)"
  unfolding read_asset_graph_def unexpected_def by (intro keeps_intros)

lemma keeps_delete_attachments [keeps_intros]: "keeps asset_tables_ok (delete_asset_attachments asset_id ids)"
  unfolding keeps_def delete_asset_attachments_def Let_def by (auto split: if_splits)

lemma keeps_audit_asset [keeps_intros]: "keeps asset_tables_ok (record_audit a act res i d)"
  by (rule keeps_record_audit) simp

end
