(* ===== verification/Inventory_Creation.thy ===== *)
theory Inventory_Creation
  imports Inventory_Effects Asset_Invariant
begin

text \<open>
  The handler of \<^verbatim>\<open>routes/inventory_items/create.rs\<close>: the checks before the transaction, the rows of
  \<open>Inventory_Create\<close>, the attachments of the request, given once for the only item or once per serial
  number, and the audit entry. What it shows: a creation adds rows and nothing else to the items,
  and one large serial number stops the generation of serial numbers for its asset.
\<close>

section \<open>Requests\<close>

record serial_item_payload =
  sj_serial_number :: rstr
  sj_attachments :: "attachment_payload list option"

record creation_payload =
  cj_serial_items :: "serial_item_payload list option"
  cj_serial_numbers :: "rstr list option"
  cj_count :: "i64 option"
  cj_batch_number :: "rstr option"
  cj_quantity_on_hand :: "f64 option"
  cj_quantity_allocated :: "f64 option"
  cj_location_id :: "uuid option"
  cj_status :: "rstr option"
  cj_public_notes :: "rstr option"
  cj_internal_notes :: "rstr option"
  cj_attachments :: "attachment_payload list option"

definition creation_upload_ids :: "creation_payload \<Rightarrow> uuid list" where
  "creation_upload_ids p =
     map aq_upload_id (coalesce (cj_attachments p) [])
     @ concat (map (\<lambda>item. map aq_upload_id (coalesce (sj_attachments item) [])) (coalesce (cj_serial_items p) []))"

text \<open>The payload without its attachments.\<close>

definition creation_fields :: "creation_payload \<Rightarrow> create_payload" where
  "creation_fields p =
     \<lparr>cp_serial_items = map_option (map sj_serial_number) (cj_serial_items p),
      cp_serial_numbers = cj_serial_numbers p, cp_count = cj_count p, cp_batch_number = cj_batch_number p,
      cp_quantity_on_hand = cj_quantity_on_hand p, cp_quantity_allocated = cj_quantity_allocated p,
      cp_location_id = cj_location_id p, cp_status = cj_status p, cp_public_notes = cj_public_notes p,
      cp_internal_notes = cj_internal_notes p\<rparr>"

section \<open>Attachment groups\<close>

datatype attachment_source =
    Empty_source
  | Single_source "new_attachment list"
  | PerSerialItem_source "new_attachment list list"

definition AttachmentSource_parse ::
    "env \<Rightarrow> attachment_payload list option \<Rightarrow> attachment_payload list option list
       \<Rightarrow> (rstr, attachment_source) result" where
  "AttachmentSource_parse env whole per_serial_item =
     and_then (parse_attachments env whole) (\<lambda>whole.
     and_then (collect_map (parse_attachments env) per_serial_item) (\<lambda>groups.
     let has_per_serial_item = list_ex (\<lambda>news. news \<noteq> []) groups
     in if whole \<noteq> []
        then if has_per_serial_item
             then Inl (lit ''attachments cannot be combined with serial_items attachments'')
             else Inr (Single_source whole)
        else if has_per_serial_item then Inr (PerSerialItem_source groups) else Inr Empty_source))"

definition take_attachments :: "env \<Rightarrow> creation_payload \<Rightarrow> (rstr, attachment_source) result" where
  "take_attachments env p =
     AttachmentSource_parse env (cj_attachments p) (map sj_attachments (coalesce (cj_serial_items p) []))"

fun source_groups :: "attachment_source \<Rightarrow> new_attachment list list" where
  "source_groups Empty_source = []"
| "source_groups (Single_source news) = [news]"
| "source_groups (PerSerialItem_source groups) = groups"

text \<open>
  Each group goes to the item at its position. The errors of an assignment are turned as for
  assets, an upload that is missing into a mistake in the request.
\<close>

fun assign_each_group ::
    "env \<Rightarrow> nat \<Rightarrow> uuid \<Rightarrow> uuid \<Rightarrow> (inventory_item \<times> new_attachment list) list \<Rightarrow> (handler_error, unit) tx" where
  "assign_each_group env next_id actor_user lab [] = tx_return ()"
| "assign_each_group env next_id actor_user lab ((item, news) # rest) =
     tx_bind (assign_for_asset env next_id actor_user (InventoryItem_target (it_inventory_item_id item)) lab news)
       (\<lambda>_. assign_each_group env (next_id + 2 * length news) actor_user lab rest)"

definition assign_source ::
    "env \<Rightarrow> nat \<Rightarrow> uuid \<Rightarrow> inventory_item list \<Rightarrow> uuid \<Rightarrow> attachment_source \<Rightarrow> (handler_error, unit) tx" where
  "assign_source env next_id actor_user created lab source =
     (case source of
        Empty_source \<Rightarrow> tx_return ()
      | Single_source news \<Rightarrow>
          if length created \<noteq> 1
          then tx_lift (Inl (ValidationError
            (lit ''attachments can only be supplied when exactly one inventory item is created'')))
          else assign_each_group env next_id actor_user lab (zip created [news])
      | PerSerialItem_source groups \<Rightarrow>
          if length groups \<noteq> length created
          then tx_lift (Inl (ValidationError (lit ''serial_items attachments must match created inventory items'')))
          else assign_each_group env next_id actor_user lab (zip created groups))"

section \<open>The handler\<close>

definition creation_checks ::
    "env \<Rightarrow> laboratory_context \<Rightarrow> uuid \<Rightarrow> creation_payload \<Rightarrow> database \<Rightarrow> (handler_error, attachment_source) result" where
  "creation_checks env ctx asset_id payload db =
     and_then (ok_or (NotFound (lit ''Asset not found'')) (fetch_asset_laboratory_id asset_id db)) (\<lambda>lab.
     and_then (ensure (lab = ctx_laboratory_id ctx) (NotFound (lit ''Asset not found''))) (\<lambda>_.
     and_then (require_permission env (authorization_actor ctx) InventoryItem_resource (Create lab)
         (lit ''You don't have permission to create inventory items.'') db) (\<lambda>_.
     and_then (require_all_permissions env (ctx_actor ctx) FileUpload_resource Assign
         (lit ''You do not have permission to assign this attachment'') (creation_upload_ids payload) db) (\<lambda>_.
     and_then (map_err ValidationError (take_attachments env payload)) (\<lambda>source.
     and_then (map_err ValidationError (ensure_unique_uploads (concat (source_groups source)))) (\<lambda>_.
     Inr source))))))"

text \<open>The rows take the first ids the request draws, the attachments those after them.\<close>

definition create_in_transaction ::
    "env \<Rightarrow> laboratory_context \<Rightarrow> uuid \<Rightarrow> creation_payload \<Rightarrow> attachment_source
       \<Rightarrow> (handler_error, inventory_item list) tx" where
  "create_in_transaction env ctx asset_id payload source =
     tx_bind (tx_read (\<lambda>db. ok_or (NotFound (lit ''Asset not found''))
         (fetch_asset_for_inventory_for_update asset_id db))) (\<lambda>asset.
     tx_bind (create_rows env asset (creation_fields payload)) (\<lambda>created.
     tx_bind (assign_source env (length created) (actor_user_id (ctx_actor ctx)) created
         (af_laboratory_id asset) source) (\<lambda>_.
     tx_bind (unexpected (record_audit (actor_user_id (ctx_actor ctx)) Audit_Create Res_InventoryItem
         (Some (it_inventory_item_id (hd created))) (Details_create_items (map it_inventory_item_id created)))) (\<lambda>_.
     tx_return (map (\<lambda>item. InventoryItemResponse_from_row item True) created)))))"

definition create_inventory_items ::
    "env \<Rightarrow> laboratory_context \<Rightarrow> uuid \<Rightarrow> creation_payload \<Rightarrow> database
       \<Rightarrow> (handler_error, inventory_item list) result \<times> database" where
  "create_inventory_items env ctx asset_id payload db =
     run_handler (creation_checks env ctx asset_id payload db)
       (create_in_transaction env ctx asset_id payload) db"

section \<open>What a creation adds\<close>

lemma keeps_assign_source:
  assumes "ignores_attachments P"
  shows "keeps P (assign_source env n actor_user created lab source)"
proof -
  have "keeps P (assign_each_group env n actor_user lab xs)" for n xs
  proof (induction xs arbitrary: n)
    case (Cons x xs)
    show ?case
      by (cases x, simp, intro keeps_intros keeps_assign_for_asset assms Cons.IH)
  qed (simp add: keeps_return)
  then show ?thesis
    unfolding assign_source_def by (auto split: attachment_source.split intro: keeps_intros keeps_return)
qed

lemma creation_Inr:
  assumes "create_in_transaction env ctx asset_id payload source db = Inr (out, db')"
  obtains asset created db1 db2 and u v :: unit where "fetch_asset_for_inventory_for_update asset_id db = Some asset"
    and "create_rows env asset (creation_fields payload) db = Inr (created, db1)"
    and "assign_source env (length created) (actor_user_id (ctx_actor ctx)) created (af_laboratory_id asset) source db1
      = Inr (u, db2)"
    and "record_audit (actor_user_id (ctx_actor ctx)) Audit_Create Res_InventoryItem
         (Some (it_inventory_item_id (hd created))) (Details_create_items (map it_inventory_item_id created)) db2 = Inr (v, db')"
    and "out = map (\<lambda>item. InventoryItemResponse_from_row item True) created"
  using assms unfolding create_in_transaction_def tx_bind_Inr tx_read_Inr unexpected_Inr tx_return_Inr ok_or_Inr_iff
  by blast

text \<open>
  An accepted creation adds items and changes none: they belong to the asset of the request and to
  the laboratory of the request, the schema holds, and the response names them in order.
\<close>

lemma creation_only_adds:
  assumes "create_inventory_items env ctx asset_id payload db = (Inr out, db')" and "inventory_ok db"
  shows "inventory_ok db' \<and> out \<noteq> [] \<and> assets db' = assets db
    \<and> (\<exists>rows. inventory_items db' = inventory_items db @ rows
         \<and> map ii_inventory_item_id rows = map it_inventory_item_id out
         \<and> (\<forall>r\<in>set rows. ii_asset_id r = asset_id \<and> ii_laboratory_id r = ctx_laboratory_id ctx))"
proof -
  obtain source where checks: "creation_checks env ctx asset_id payload db = Inr source"
      and t: "create_in_transaction env ctx asset_id payload source db = Inr (out, db')"
    using assms(1) by (auto simp: create_inventory_items_def run_handler_Inr)
  obtain asset created db1 db2 and u v :: unit where
      asset: "fetch_asset_for_inventory_for_update asset_id db = Some asset"
      and rows: "create_rows env asset (creation_fields payload) db = Inr (created, db1)"
      and assign: "assign_source env (length created) (actor_user_id (ctx_actor ctx)) created (af_laboratory_id asset)
        source db1 = Inr (u, db2)"
      and log: "record_audit (actor_user_id (ctx_actor ctx)) Audit_Create Res_InventoryItem
         (Some (it_inventory_item_id (hd created))) (Details_create_items (map it_inventory_item_id created)) db2 = Inr (v, db')"
      and out: "out = map (\<lambda>item. InventoryItemResponse_from_row item True) created"
    by (rule creation_Inr [OF t])
  obtain a where a: "a \<in> set (assets db)" "as_asset_id a = asset_id"
      "extends_items db db1 asset_id (as_laboratory_id a) created" "created \<noteq> []"
    by (rule create_rows_Inr [OF rows assms(2) asset])
  have lab: "as_laboratory_id a = ctx_laboratory_id ctx"
  proof -
    have "distinct (map as_asset_id (assets db))"
      using assms(2) by (simp add: inventory_ok_def)
    then have "fetch_optional (\<lambda>x. as_asset_id x = as_asset_id a) (assets db) = Some a"
      using a(1) by (rule fetch_optional_unique)
    then show ?thesis
      using checks a(2) by (auto simp: creation_checks_def and_then_Inr_iff ok_or_Inr_iff ensure_Inr_iff
          fetch_asset_laboratory_id_def)
  qed
  define P where "P = (\<lambda>d. inventory_ok d \<and> inventory_items d = inventory_items db1 \<and> assets d = assets db1)"
  have P: "ignores_attachments P"
  proof -
    have "inventory_ok (d\<lparr>file_uploads := x\<rparr>) = inventory_ok d" "inventory_ok (d\<lparr>files := y\<rparr>) = inventory_ok d"
      "inventory_ok (d\<lparr>attachments := z\<rparr>) = inventory_ok d" for d x y z
      by (rule inventory_ok_cong; simp)+
    then show ?thesis
      by (simp add: ignores_attachments_def P_def)
  qed
  have "P db1"
    using a(3) by (simp add: P_def extends_items_def)
  then have "P db'"
    using keepsD [OF keeps_audit_entry [OF P] log] keepsD [OF keeps_assign_source [OF P] assign] by blast
  moreover have "map it_inventory_item_id out = map it_inventory_item_id created"
    by (simp add: out InventoryItemResponse_from_row_def)
  ultimately show ?thesis
    using a(3,4) out unfolding P_def extends_items_def lab by (elim conjE exE) simp
qed

section \<open>A large serial number\<close>

text \<open>A count in the request asks for generated serial numbers, or the request is refused.\<close>

lemma count_generates:
  assumes "parse_creation env (creation_fields payload) Serialized = Inr creation" and "cj_count payload = Some n"
  obtains k batch status pn inn where
    "creation = New_Serialized (Generate k) batch (cj_location_id payload) status pn inn"
proof -
  obtain source batch status pn inn where c: "creation = New_Serialized source batch (cj_location_id payload) status pn inn"
      and src: "SerialSource_parse env (cp_serial_items (creation_fields payload)) (cj_serial_numbers payload) (Some n) = Inr source"
    using assms by (auto simp: parse_creation_def creation_fields_def NewItems_parse_def and_then_Inr_iff split: if_splits)
  then obtain k where "source = Generate k"
    by (auto simp: SerialSource_parse_def SerialSource_generate_def SerialSource_explicit_def and_then_Inr_iff
        split: option.splits if_splits)
  with c show thesis
    using that by blast
qed

lemma generation_blocked:
  assumes "r \<in> set (inventory_items db)" and "ii_asset_id r = af_asset_id asset" and "ii_serial_number r = Some s"
    and "is_generated_serial s" and "2147483647 < digits_value 0 (tl s)"
  shows "insert_creation env asset (New_Serialized (Generate k) batch location status pn inn) db
    = Inl (UnexpectedError (lit ''integer out of range''))"
  using next_serial_numbers_overflow [OF assms, of k]
  by (simp add: insert_creation_def insert_serialized_items_def tx_bind_def tx_read_def)

text \<open>
  C15. One serial number of the form \<open>#N\<close> with a number above 2147483647, set on an item by any
  update that is accepted, blocks the generation of serial numbers for its asset: in the database
  the update leaves, every creation that gives a count instead of serial numbers is refused,
  whoever asks, and changes nothing. When the request is in order, so that its checks pass and
  it names no location, the refusal is an internal error from the database.
\<close>

theorem large_serial_blocks_generation:
  assumes "inventory_ok db" and "update_inventory_item env ctx i edit db = (Inr item, db1)"
    and "upl_serial_number edit = Some text" and "SerialNumber_parse env text = Inr s"
    and "is_generated_serial s" and "2147483647 < digits_value 0 (tl s)"
    and "item_row db i = Some r" and "cj_count payload = Some n"
  shows "\<exists>e. create_inventory_items env' ctx' (ii_asset_id r) payload db1 = (Inl e, db1)
    \<and> (creation_checks env' ctx' (ii_asset_id r) payload db1 = Inr source
         \<and> parse_creation env' (creation_fields payload) Serialized = Inr creation
         \<and> cj_location_id payload = None
       \<longrightarrow> e = UnexpectedError (lit ''integer out of range''))"
proof -
  obtain patch where patch: "UpdateItem_parse env (upl_serial_number edit) (upl_batch_number edit)
         (upl_quantity_on_hand edit) (upl_quantity_allocated edit) (upl_location_id edit)
         (upl_status edit) (upl_public_notes edit) (upl_internal_notes edit) = Inr patch"
      and t: "update_in_transaction env ctx i patch db = Inr (item, db1)"
    using assms(2) by (auto simp: update_inventory_item_def run_handler_Inr and_then_Inr_iff map_err_Inr_iff)
  have serial: "up_serial_number patch = Some s"
    using patch assms(3,4) by (auto simp: UpdateItem_parse_def and_then_Inr_iff transpose_with_Inr_iff)
  obtain r1 where r1: "r1 \<in> set (inventory_items db1)" "ii_asset_id r1 = ii_asset_id r" "ii_serial_number r1 = Some s"
      and ok: "inventory_ok db1"
  proof (rule update_in_transaction_Inr [OF t assms(1)], goal_cases)
    case (1 q existing h a)
    then show ?case
      using assms(7) item_row_Some [OF 1(7)]
      by (intro 1(1) [of "patched_row patch h a (env_now env) q"]) (auto simp: patched_row_keeps serial)
  qed
  have "inventory_checks r1"
    by (rule inventory_ok_row(1) [OF ok r1(1)])
  then have "ii_tracking_mode r1 = lit ''serialized''"
    using r1(3) by (auto simp: inventory_checks_def)
  moreover obtain a where a: "fetch_optional (\<lambda>x. as_asset_id x = ii_asset_id r) (assets db1) = Some a"
      "as_tracking_mode a = ii_tracking_mode r1"
    using asset_of_item [OF ok r1(1)] by (auto simp: r1(2) asset_row_of_def)
  ultimately obtain af where af: "fetch_asset_for_inventory_for_update (ii_asset_id r) db1 = Some af"
      "af_asset_id af = ii_asset_id r" "af_tracking_mode af = lit ''serialized''"
    using fetch_optional_Some [OF a(1)] by (simp add: fetch_asset_for_inventory_for_update_def)
  have mode: "AssetTrackingMode_parse (lit ''serialized'') = Inr Serialized"
    by (simp add: AssetTrackingMode_parse_def lit_def trim_def is_whitespace_def)
  have rows: "\<exists>e. create_rows env' af (creation_fields payload) db1 = Inl e
      \<and> (parse_creation env' (creation_fields payload) Serialized = Inr creation \<and> cj_location_id payload = None
          \<longrightarrow> e = UnexpectedError (lit ''integer out of range''))"
  proof (cases "parse_creation env' (creation_fields payload) Serialized")
    case (Inl m)
    then show ?thesis
      by (simp add: create_rows_def af(3) mode tx_bind_def tx_lift_def tx_read_def)
  next
    case (Inr c)
    obtain k batch status pn inn where c: "c = New_Serialized (Generate k) batch (cj_location_id payload) status pn inn"
      by (rule count_generates [OF Inr assms(8)])
    have ins: "insert_creation env' af (New_Serialized (Generate k) batch (cj_location_id payload) status pn inn) db1
        = Inl (UnexpectedError (lit ''integer out of range''))"
      by (rule generation_blocked [OF r1(1) _ r1(3) assms(5,6)]) (simp add: r1(2) af(2))
    let ?l = "cj_location_id payload"
    consider m where "validate_optional_location (af_laboratory_id af) ?l db1 = Inl m" "?l \<noteq> None"
      | "validate_optional_location (af_laboratory_id af) ?l db1 = Inr ((), db1)"
      by (cases ?l; cases "validate_location (af_laboratory_id af) (the ?l) db1")
         (auto simp: validate_optional_location_def tx_read_def tx_return_def)
    then show ?thesis
      by cases (auto simp: create_rows_def af(3) mode tx_bind_def tx_lift_def tx_read_def tx_map_err_def Inr c ins)
  qed
  show ?thesis
    using rows by (cases "creation_checks env' ctx' (ii_asset_id r) payload db1")
      (auto simp: create_inventory_items_def run_handler_def transaction_def create_in_transaction_def tx_bind_def
        tx_read_def af(1))
qed

definition number_by_hand :: update_payload where
  "number_by_hand = mark_lost\<lparr>upl_serial_number := Some (lit ''#99999999999''), upl_status := None\<rparr>"

definition one_more :: creation_payload where
  "one_more = \<lparr>cj_serial_items = None, cj_serial_numbers = None, cj_count = Some 1, cj_batch_number = None,
     cj_quantity_on_hand = None, cj_quantity_allocated = None, cj_location_id = None, cj_status = None,
     cj_public_notes = None, cj_internal_notes = None, cj_attachments = None\<rparr>"

definition numbered_1 :: "(handler_error, inventory_item) result \<times> database" where
  "numbered_1 = update_inventory_item env_1 admin_ctx 41 number_by_hand db_1"

lemma numbered: "case fst numbered_1 of Inr _ \<Rightarrow> True | Inl _ \<Rightarrow> False"
  by code_simp

lemma one_more_checked: "creation_checks env_1 admin_ctx 21 one_more (snd numbered_1) = Inr Empty_source"
proof -
  have "case creation_checks env_1 admin_ctx 21 one_more (snd numbered_1) of
      Inr Empty_source \<Rightarrow> True | _ \<Rightarrow> False"
    by code_simp
  then show ?thesis
    by (auto split: sum.splits attachment_source.splits)
qed

lemma one_more_parsed:
  "parse_creation env_1 (creation_fields one_more) Serialized
     = Inr (New_Serialized (Generate 1) None None Available None None)"
  by code_simp

theorem large_serial_blocks_generation_witness:
  "create_inventory_items env_1 admin_ctx 21 one_more (snd numbered_1)
     = (Inl (UnexpectedError (lit ''integer out of range'')), snd numbered_1)"
proof -
  obtain item where run: "update_inventory_item env_1 admin_ctx 41 number_by_hand db_1 = (Inr item, snd numbered_1)"
    using numbered by (cases "fst numbered_1") (auto simp: numbered_1_def prod_eq_iff)
  have s: "upl_serial_number number_by_hand = Some (lit ''#99999999999'')"
      "SerialNumber_parse env_1 (lit ''#99999999999'') = Inr (lit ''#99999999999'')"
      "is_generated_serial (lit ''#99999999999'')" "2147483647 < digits_value 0 (tl (lit ''#99999999999''))"
    by (simp_all add: number_by_hand_def is_generated_serial_def is_ascii_digit_def lit_def) (code_simp)?
  have row: "item_row db_1 41 = Some (balance_row 41 (lit ''#7''))" "ii_asset_id (balance_row 41 (lit ''#7'')) = 21"
    by (simp_all add: item_row_def db_1_def fetch_optional_def stock_row_def balance_row_def)
  have n: "cj_count one_more = Some 1" "cj_location_id one_more = None"
    by (simp_all add: one_more_def)
  show ?thesis
    using large_serial_blocks_generation [OF db_1_ok run s row(1) n(1), of env_1 admin_ctx Empty_source
        "New_Serialized (Generate 1) None None Available None None"] one_more_checked one_more_parsed n(2) row(2)
    by auto
qed

end
