(* ===== verification/Borrow_Queries.thy ===== *)
theory Borrow_Queries
  imports Handlers "HOL-Library.Product_Lexorder"
begin

text \<open>
  \<^verbatim>\<open>routes/borrow_requests/model.rs\<close> and \<^verbatim>\<open>queries.rs\<close>: the table of borrow requests with its
  constraints, the joined row the flows read, the responses built from it, and the statements.
  A statement that fails is an unexpected error here: the module maps no constraint.
\<close>

section \<open>Rows and responses\<close>

text \<open>\<^verbatim>\<open>BorrowRequestRow\<close>: the request with the columns of its item and asset.\<close>

record borrow_request = borrow_row +
  bv_inventory_status :: rstr
  bv_inventory_serial_number :: "rstr option"
  bv_inventory_batch_number :: "rstr option"
  bv_asset_name :: rstr
  bv_asset_model :: "rstr option"

definition view_request :: "borrow_row \<Rightarrow> inventory_row \<Rightarrow> asset_row \<Rightarrow> borrow_request" where
  "view_request b r a =
     borrow_row.extend b (borrow_request.fields (ii_status r) (ii_serial_number r) (ii_batch_number r)
       (as_name a) (as_model a))"

definition not_blank :: "rstr option \<Rightarrow> rstr option" where
  "not_blank v = (case v of Some s \<Rightarrow> if trim s \<noteq> [] then Some s else None | None \<Rightarrow> None)"

definition borrow_request_title :: "borrow_request \<Rightarrow> rstr" where
  "borrow_request_title row =
     (case not_blank (bv_inventory_serial_number row) of
        Some s \<Rightarrow> s
      | None \<Rightarrow> (case not_blank (bv_inventory_batch_number row) of Some s \<Rightarrow> s | None \<Rightarrow> bv_asset_name row))"

text \<open>\<^verbatim>\<open>BorrowRequestResponse\<close>: every column with the title; the serial and batch stay behind it.\<close>

record borrow_request_response =
  rs_row :: borrow_row
  rs_inventory_item_title :: rstr
  rs_inventory_status :: rstr
  rs_asset_name :: rstr
  rs_asset_model :: "rstr option"

definition BorrowRequestResponse_from :: "borrow_request \<Rightarrow> borrow_request_response" where
  "BorrowRequestResponse_from row =
     \<lparr>rs_row = borrow_row.truncate row, rs_inventory_item_title = borrow_request_title row,
      rs_inventory_status = bv_inventory_status row, rs_asset_name = bv_asset_name row,
      rs_asset_model = bv_asset_model row\<rparr>"

record my_borrow_request_response =
  my_borrow_request_id :: uuid
  my_laboratory_id :: uuid
  my_inventory_item_id :: uuid
  my_inventory_status :: rstr
  my_asset_name :: rstr
  my_asset_model :: "rstr option"
  my_status :: rstr
  my_request_note :: "rstr option"
  my_decision_note :: "rstr option"
  my_reviewed_at :: "int option"
  my_created_at :: int
  my_updated_at :: int

definition MyBorrowRequestResponse_from :: "borrow_request \<Rightarrow> my_borrow_request_response" where
  "MyBorrowRequestResponse_from row =
     \<lparr>my_borrow_request_id = br_borrow_request_id row, my_laboratory_id = br_local_laboratory_id row,
      my_inventory_item_id = br_inventory_item_id row, my_inventory_status = bv_inventory_status row,
      my_asset_name = bv_asset_name row, my_asset_model = bv_asset_model row,
      my_status = br_status row, my_request_note = br_request_note row,
      my_decision_note = br_decision_note row, my_reviewed_at = br_reviewed_at row,
      my_created_at = br_created_at row, my_updated_at = br_updated_at row\<rparr>"

section \<open>Constraints of the table\<close>

definition not_blank_column :: "rstr option \<Rightarrow> bool" where
  "not_blank_column v = (case v of None \<Rightarrow> True | Some s \<Rightarrow> btrim s \<noteq> [])"

definition borrow_checks :: "borrow_row \<Rightarrow> bool" where
  "borrow_checks b \<longleftrightarrow>
     not_blank_column (br_request_note b) \<and> not_blank_column (br_reviewed_by_username b)
     \<and> not_blank_column (br_reviewed_by_user_type b) \<and> not_blank_column (br_decision_note b)
     \<and> br_status b \<in> {lit ''pending'', lit ''approved'', lit ''rejected'', lit ''cancelled''}"

definition pending_clash :: "borrow_row \<Rightarrow> borrow_row \<Rightarrow> bool" where
  "pending_clash b c \<longleftrightarrow>
     br_status b = lit ''pending'' \<and> br_status c = lit ''pending''
     \<and> br_inventory_item_id b = br_inventory_item_id c"

definition user_exists :: "database \<Rightarrow> uuid option \<Rightarrow> bool" where
  "user_exists db u = (case u of None \<Rightarrow> True | Some i \<Rightarrow> \<exists>x\<in>set (users db). us_user_id x = i)"

definition borrow_references :: "database \<Rightarrow> borrow_row \<Rightarrow> bool" where
  "borrow_references db b \<longleftrightarrow>
     (\<exists>r\<in>set (inventory_items db). ii_inventory_item_id r = br_inventory_item_id b)
     \<and> user_exists db (br_requester_user_id b) \<and> user_exists db (br_reviewed_by_user_id b)
     \<and> (case br_requester_guest_link_id b of None \<Rightarrow> True
        | Some l \<Rightarrow> \<exists>x\<in>set (guest_links db). gl_link_id x = l)"

definition borrow_constraint_error :: "database \<Rightarrow> borrow_row list \<Rightarrow> borrow_row \<Rightarrow> sql_error option" where
  "borrow_constraint_error db others b =
     (if \<not> borrow_checks b then Some CheckViolation
      else if \<exists>c\<in>set others. br_borrow_request_id c = br_borrow_request_id b
      then Some (UniqueViolation (lit ''federation_borrow_requests_pkey''))
      else if \<exists>c\<in>set others. pending_clash b c
      then Some (UniqueViolation (lit ''uq_federation_borrow_requests_pending_item''))
      else if \<not> borrow_references db b then Some ForeignKeyViolation
      else None)"

definition insert_borrow_row :: "borrow_row \<Rightarrow> database \<Rightarrow> (sql_error, database) result" where
  "insert_borrow_row b db =
     (case borrow_constraint_error db (borrow_requests db) b of
        Some e \<Rightarrow> Inl e
      | None \<Rightarrow> Inr (db\<lparr>borrow_requests := borrow_requests db @ [b]\<rparr>))"

text \<open>\<^verbatim>\<open>UPDATE ... WHERE borrow_request_id = $1 AND local_laboratory_id = $2\<close>.\<close>

definition update_borrow_row ::
    "uuid \<Rightarrow> uuid \<Rightarrow> (borrow_row \<Rightarrow> borrow_row) \<Rightarrow> database \<Rightarrow> (sql_error, database) result" where
  "update_borrow_row i lab change db =
     (case fetch_optional (\<lambda>b. br_borrow_request_id b = i \<and> br_local_laboratory_id b = lab) (borrow_requests db) of
        None \<Rightarrow> Inr db
      | Some b \<Rightarrow>
          (case borrow_constraint_error db (filter (\<lambda>c. br_borrow_request_id c \<noteq> i) (borrow_requests db)) (change b) of
             Some e \<Rightarrow> Inl e
           | None \<Rightarrow> Inr (db\<lparr>borrow_requests :=
               update_rows (\<lambda>b. br_borrow_request_id b = i \<and> br_local_laboratory_id b = lab) change
                 (borrow_requests db)\<rparr>)))"

section \<open>Statements\<close>

definition joined_requests :: "database \<Rightarrow> (borrow_row \<times> inventory_row \<times> asset_row) list" where
  "joined_requests db =
     concat (map (\<lambda>(r, a). map (\<lambda>b. (b, r, a))
         (filter (\<lambda>b. br_inventory_item_id b = ii_inventory_item_id r) (borrow_requests db)))
       (joined_items db))"

definition fetch_borrow_request_for_update :: "uuid \<Rightarrow> uuid \<Rightarrow> database \<Rightarrow> borrow_request option" where
  "fetch_borrow_request_for_update lab i db =
     map_option (\<lambda>(b, r, a). view_request b r a)
       (fetch_optional (\<lambda>(b, r, a). br_local_laboratory_id b = lab \<and> br_borrow_request_id b = i)
         (joined_requests db))"

text \<open>\<^verbatim>\<open>ORDER BY created_at DESC, borrow_request_id DESC\<close>; the ids are unique, so there are no ties.\<close>

definition newest_first :: "borrow_request list \<Rightarrow> borrow_request list" where
  "newest_first rows = rev (sort_key (\<lambda>b. (br_created_at b, br_borrow_request_id b)) rows)"

definition select_requests :: "(borrow_row \<Rightarrow> bool) \<Rightarrow> rstr option \<Rightarrow> database \<Rightarrow> borrow_request list" where
  "select_requests matches status db =
     newest_first (map (\<lambda>(b, r, a). view_request b r a)
       (filter (\<lambda>(b, r, a). matches b \<and> (case status of None \<Rightarrow> True | Some s \<Rightarrow> br_status b = s))
         (joined_requests db)))"

definition fetch_borrow_requests :: "uuid \<Rightarrow> rstr option \<Rightarrow> database \<Rightarrow> borrow_request list" where
  "fetch_borrow_requests lab status db = select_requests (\<lambda>b. br_local_laboratory_id b = lab) status db"

definition MY_BORROW_REQUEST_LIMIT :: nat where "MY_BORROW_REQUEST_LIMIT = 200"

definition fetch_borrow_requests_for_guest_link ::
    "uuid \<Rightarrow> uuid \<Rightarrow> rstr option \<Rightarrow> database \<Rightarrow> borrow_request list" where
  "fetch_borrow_requests_for_guest_link lab link status db =
     take MY_BORROW_REQUEST_LIMIT
       (select_requests (\<lambda>b. br_local_laboratory_id b = lab \<and> br_requester_guest_link_id b = Some link) status db)"

definition fetch_borrow_requests_for_requester ::
    "uuid \<Rightarrow> uuid \<Rightarrow> rstr option \<Rightarrow> database \<Rightarrow> borrow_request list" where
  "fetch_borrow_requests_for_requester lab user status db =
     take MY_BORROW_REQUEST_LIMIT
       (select_requests (\<lambda>b. br_local_laboratory_id b = lab \<and> br_requester_user_id b = Some user) status db)"

definition pending_borrow_request_exists :: "uuid \<Rightarrow> database \<Rightarrow> bool" where
  "pending_borrow_request_exists item db \<longleftrightarrow>
     (\<exists>b\<in>set (borrow_requests db). br_inventory_item_id b = item \<and> br_status b = lit ''pending'')"

definition insert_borrow_request ::
    "env \<Rightarrow> uuid \<Rightarrow> uuid \<Rightarrow> uuid \<Rightarrow> uuid \<Rightarrow> rstr \<Rightarrow> rstr \<Rightarrow> uuid option \<Rightarrow> rstr option \<Rightarrow> (sql_error, unit) tx" where
  "insert_borrow_request env i lab item user username user_type link note =
     tx_write (insert_borrow_row
       \<lparr>br_borrow_request_id = i, br_local_laboratory_id = lab, br_inventory_item_id = item,
        br_requester_user_id = Some user, br_requester_username = username,
        br_requester_user_type = user_type, br_requester_guest_link_id = link,
        br_request_note = note, br_status = lit ''pending'', br_reviewed_by_user_id = None,
        br_reviewed_by_username = None, br_reviewed_by_user_type = None, br_reviewed_at = None,
        br_decision_note = None, br_created_at = env_now env, br_updated_at = env_now env\<rparr>)"

definition decide ::
    "rstr \<Rightarrow> uuid \<Rightarrow> rstr \<Rightarrow> rstr \<Rightarrow> rstr option \<Rightarrow> int \<Rightarrow> borrow_row \<Rightarrow> borrow_row" where
  "decide status reviewer username user_type note now b =
     b\<lparr>br_status := status, br_reviewed_by_user_id := Some reviewer,
       br_reviewed_by_username := Some username, br_reviewed_by_user_type := Some user_type,
       br_reviewed_at := Some now, br_decision_note := note, br_updated_at := now\<rparr>"

definition retract :: "int \<Rightarrow> borrow_row \<Rightarrow> borrow_row" where
  "retract now b = b\<lparr>br_status := lit ''cancelled'', br_updated_at := now\<rparr>"

definition mark_borrowed :: "int \<Rightarrow> inventory_row \<Rightarrow> inventory_row" where
  "mark_borrowed now r = r\<lparr>ii_status := lit ''borrowed'', ii_updated_at := now\<rparr>"

definition update_borrow_request_decision ::
    "env \<Rightarrow> uuid \<Rightarrow> uuid \<Rightarrow> rstr \<Rightarrow> uuid \<Rightarrow> rstr \<Rightarrow> rstr \<Rightarrow> rstr option \<Rightarrow> (sql_error, unit) tx" where
  "update_borrow_request_decision env i lab status reviewer username user_type note =
     tx_write (update_borrow_row i lab (decide status reviewer username user_type note (env_now env)))"

definition update_borrow_request_cancelled :: "env \<Rightarrow> uuid \<Rightarrow> uuid \<Rightarrow> (sql_error, unit) tx" where
  "update_borrow_request_cancelled env i lab = tx_write (update_borrow_row i lab (retract (env_now env)))"

definition mark_inventory_item_borrowed :: "env \<Rightarrow> uuid \<Rightarrow> (sql_error, unit) tx" where
  "mark_inventory_item_borrowed env i = tx_write (update_row_by_id i (mark_borrowed (env_now env)))"

definition fetch_guest_link_id :: "uuid \<Rightarrow> uuid \<Rightarrow> database \<Rightarrow> uuid option" where
  "fetch_guest_link_id user lab db =
     map_option gl_link_id
       (fetch_optional (\<lambda>l. gl_local_guest_user_id l = user \<and> gl_local_laboratory_id l = lab) (guest_links db))"

text \<open>The name and role of a user; an inner join, so a user without a type is not found.\<close>

definition fetch_borrow_actor :: "uuid \<Rightarrow> database \<Rightarrow> (rstr \<times> rstr) option" where
  "fetch_borrow_actor user db =
     (case fetch_optional (\<lambda>u. us_user_id u = user) (users db) of
        None \<Rightarrow> None
      | Some u \<Rightarrow> map_option (\<lambda>t. (us_username u, ut_name t))
          (fetch_optional (\<lambda>t. ut_user_type_id t = us_user_type_id u) (user_types db)))"

interpretation decide: row_update br_borrow_request_id "decide status reviewer name ty dn now"
  for status reviewer name ty dn now
  by unfold_locales (simp add: decide_def)

interpretation retract: row_update br_borrow_request_id "retract now" for now
  by unfold_locales (simp add: retract_def)

interpretation mark_borrowed: row_update ii_inventory_item_id "mark_borrowed now" for now
  by unfold_locales (simp add: mark_borrowed_def)

section \<open>What the constraints keep true\<close>

definition borrow_ok :: "database \<Rightarrow> bool" where
  "borrow_ok db \<longleftrightarrow>
     distinct (map br_borrow_request_id (borrow_requests db))
     \<and> (\<forall>b\<in>set (borrow_requests db). borrow_checks b
          \<and> (\<exists>r\<in>set (inventory_items db). ii_inventory_item_id r = br_inventory_item_id b))
     \<and> (\<forall>b\<in>set (borrow_requests db). \<forall>c\<in>set (borrow_requests db). pending_clash b c \<longrightarrow> b = c)"

definition request_row :: "database \<Rightarrow> uuid \<Rightarrow> borrow_row option" where
  "request_row db i = fetch_optional (\<lambda>b. br_borrow_request_id b = i) (borrow_requests db)"

lemma borrow_ok_ids: "borrow_ok db \<Longrightarrow> distinct (map br_borrow_request_id (borrow_requests db))"
  by (simp add: borrow_ok_def)

lemma request_row_Some:
  "request_row db i = Some b \<Longrightarrow> b \<in> set (borrow_requests db) \<and> br_borrow_request_id b = i"
  unfolding request_row_def by (rule fetch_optional_Some)

lemma request_row_mem:
  "borrow_ok db \<Longrightarrow> b \<in> set (borrow_requests db) \<Longrightarrow> request_row db (br_borrow_request_id b) = Some b"
  unfolding request_row_def by (rule fetch_optional_unique [OF borrow_ok_ids])

lemma borrow_constraint_error_None:
  "borrow_constraint_error db others b = None \<longleftrightarrow>
     borrow_checks b \<and> borrow_references db b \<and>
     (\<forall>c\<in>set others. br_borrow_request_id c \<noteq> br_borrow_request_id b \<and> \<not> pending_clash b c)"
  by (auto simp: borrow_constraint_error_def)

lemma fetch_borrow_request_Some:
  assumes "fetch_borrow_request_for_update lab i db = Some row" and "borrow_ok db"
  shows "\<exists>b r a. request_row db i = Some b \<and> br_local_laboratory_id b = lab
     \<and> r \<in> set (inventory_items db) \<and> ii_inventory_item_id r = br_inventory_item_id b
     \<and> row = view_request b r a"
proof -
  obtain b r a where m: "(b, r, a) \<in> set (joined_requests db)" "br_local_laboratory_id b = lab"
      "br_borrow_request_id b = i" "row = view_request b r a"
    using assms(1) by (auto simp: fetch_borrow_request_for_update_def dest!: fetch_optional_Some)
  then have "r \<in> set (inventory_items db)" "ii_inventory_item_id r = br_inventory_item_id b"
      "b \<in> set (borrow_requests db)"
    by (auto simp: joined_requests_def joined_items_def)
  with m request_row_mem [OF assms(2), of b] show ?thesis
    by blast
qed

lemma view_request_columns [simp]:
  "br_borrow_request_id (view_request b r a) = br_borrow_request_id b"
  "br_local_laboratory_id (view_request b r a) = br_local_laboratory_id b"
  "br_inventory_item_id (view_request b r a) = br_inventory_item_id b"
  "br_requester_user_id (view_request b r a) = br_requester_user_id b"
  "br_requester_guest_link_id (view_request b r a) = br_requester_guest_link_id b"
  "br_status (view_request b r a) = br_status b"
  "br_decision_note (view_request b r a) = br_decision_note b"
  "br_created_at (view_request b r a) = br_created_at b"
  "bv_inventory_status (view_request b r a) = ii_status r"
  by (simp_all add: view_request_def borrow_row.extend_def borrow_request.fields_def)

end
