(* ===== verification/Borrow_Requests.thy ===== *)
theory Borrow_Requests
  imports Borrow_Queries
begin

text \<open>
  \<^verbatim>\<open>routes/borrow_requests/\<close>: the rules of \<^verbatim>\<open>service.rs\<close> and the handlers that file, cancel,
  decide and list requests.
\<close>

section \<open>Who may take part\<close>

definition validate_request_actor :: "actor \<Rightarrow> uuid \<Rightarrow> (handler_error, unit) result" where
  "validate_request_actor a lab =
     (if is_guest a \<and> actor_laboratory_id a = Some lab then Inr ()
      else Inl (Forbidden (lit ''Only guest users can request borrows'')))"

definition validate_resolver_actor :: "actor \<Rightarrow> uuid \<Rightarrow> (handler_error, unit) result" where
  "validate_resolver_actor a lab =
     (if (is_lab_admin a \<or> is_regular_user a) \<and> actor_laboratory_id a = Some lab then Inr ()
      else Inl (Forbidden (lit ''Only this laboratory's administrators and users can approve or reject borrow requests'')))"

definition cancellable_by :: "borrow_request \<Rightarrow> actor \<Rightarrow> uuid option \<Rightarrow> bool" where
  "cancellable_by row a guest_link_id =
     (let by_link = (case guest_link_id of
            Some link \<Rightarrow> br_requester_guest_link_id row = Some link
          | None \<Rightarrow> False)
      in by_link \<or> br_requester_user_id row = Some (actor_user_id a))"

definition validate_borrow_request_status :: "rstr option \<Rightarrow> (handler_error, rstr option) result" where
  "validate_borrow_request_status status =
     transpose_with (\<lambda>s. map_err ValidationError
       (and_then (BorrowRequestStatus_parse s) (\<lambda>s. Inr (BorrowRequestStatus_as_str s)))) status"

section \<open>Flows\<close>

definition fetch_user_snapshot :: "uuid \<Rightarrow> database \<Rightarrow> (handler_error, rstr \<times> rstr) result" where
  "fetch_user_snapshot user db =
     ok_or (Forbidden (lit ''Actor not found in the database'')) (fetch_borrow_actor user db)"

definition record_borrow_request_audit ::
    "actor \<Rightarrow> audit_action \<Rightarrow> borrow_request \<Rightarrow> (handler_error, unit) tx" where
  "record_borrow_request_audit a act row =
     unexpected (record_audit (actor_user_id a) act Res_BorrowRequest (Some (br_borrow_request_id row))
       (Details_borrow (br_borrow_request_id row) (br_inventory_item_id row) (br_status row)
         (br_decision_note row)))"

definition request_not_found :: handler_error where
  "request_not_found = NotFound (lit ''Borrow request not found'')"

definition read_request :: "uuid \<Rightarrow> uuid \<Rightarrow> (handler_error, borrow_request) tx" where
  "read_request lab i =
     tx_read (\<lambda>db. ok_or request_not_found (fetch_borrow_request_for_update lab i db))"

definition read_item :: "env \<Rightarrow> uuid \<Rightarrow> (handler_error, inventory_item) tx" where
  "read_item env i =
     tx_bind (unexpected (tx_read (fetch_inventory_item_for_update env i)))
       (\<lambda>found. tx_lift (ok_or (NotFound (lit ''Inventory item not found'')) found))"

definition create_borrow_request_in_transaction ::
    "env \<Rightarrow> actor \<Rightarrow> uuid \<Rightarrow> uuid \<Rightarrow> uuid option \<Rightarrow> rstr option \<Rightarrow> (handler_error, borrow_request) tx" where
  "create_borrow_request_in_transaction env a lab inventory_item_id guest_link_id request_note =
     tx_bind (read_item env inventory_item_id) (\<lambda>item.
     tx_bind (tx_lift (ensure (it_laboratory_id item = lab) (NotFound (lit ''Inventory item not found'')))) (\<lambda>_.
     tx_bind (tx_lift (validate_request_actor a lab)) (\<lambda>_.
     tx_bind (tx_lift (ensure (it_status item = lit ''available'')
         (ConflictError (lit ''Only available inventory items can be borrowed'')))) (\<lambda>_.
     tx_bind (tx_read (\<lambda>db. ensure (\<not> pending_borrow_request_exists (it_inventory_item_id item) db)
         (ConflictError (lit ''This inventory item already has a pending borrow request'')))) (\<lambda>_.
     tx_bind (tx_read (fetch_user_snapshot (actor_user_id a))) (\<lambda>(username, user_type).
     tx_bind (unexpected (insert_borrow_request env (env_new_v4 env 0) lab (it_inventory_item_id item)
         (actor_user_id a) username user_type guest_link_id request_note)) (\<lambda>_.
     tx_bind (read_request lab (env_new_v4 env 0)) (\<lambda>row.
     tx_bind (record_borrow_request_audit a Audit_Create row) (\<lambda>_.
     tx_return row)))))))))"

definition cancel_borrow_request_in_transaction ::
    "env \<Rightarrow> actor \<Rightarrow> uuid \<Rightarrow> uuid \<Rightarrow> uuid option \<Rightarrow> (handler_error, borrow_request) tx" where
  "cancel_borrow_request_in_transaction env a lab i guest_link_id =
     tx_bind (tx_lift (validate_request_actor a lab)) (\<lambda>_.
     tx_bind (read_request lab i) (\<lambda>row.
     tx_bind (tx_lift (ensure (cancellable_by row a guest_link_id) request_not_found)) (\<lambda>_.
     tx_bind (tx_lift (ensure (br_status row = BorrowRequestStatus_as_str Pending)
         (ConflictError (lit ''Borrow request is no longer pending'')))) (\<lambda>_.
     tx_bind (unexpected (update_borrow_request_cancelled env i lab)) (\<lambda>_.
     tx_bind (read_request lab i) (\<lambda>row.
     tx_bind (record_borrow_request_audit a Audit_Update row) (\<lambda>_.
     tx_return row)))))))"

definition list_borrow_requests_for_guest_link ::
    "uuid \<Rightarrow> uuid \<Rightarrow> rstr option \<Rightarrow> database \<Rightarrow> (handler_error, borrow_request list) result" where
  "list_borrow_requests_for_guest_link lab link status db =
     Inr (fetch_borrow_requests_for_guest_link lab link status db)"

section \<open>Handlers\<close>

definition create_borrow_request ::
    "env \<Rightarrow> laboratory_context \<Rightarrow> uuid \<Rightarrow> rstr option \<Rightarrow> database
       \<Rightarrow> (handler_error, borrow_request_response) result \<times> database" where
  "create_borrow_request env ctx inventory_item_id request_note db =
     transaction
       (tx_bind (tx_read (\<lambda>db. Inr (fetch_guest_link_id (actor_user_id (ctx_actor ctx)) (ctx_laboratory_id ctx) db)))
         (\<lambda>link.
        tx_bind (create_borrow_request_in_transaction env (ctx_actor ctx) (ctx_laboratory_id ctx)
            inventory_item_id link (normalize_optional_text request_note))
         (\<lambda>row. tx_return (BorrowRequestResponse_from row)))) db"

definition cancel_borrow_request ::
    "env \<Rightarrow> laboratory_context \<Rightarrow> uuid \<Rightarrow> database
       \<Rightarrow> (handler_error, my_borrow_request_response) result \<times> database" where
  "cancel_borrow_request env ctx i db =
     transaction
       (tx_bind (tx_read (\<lambda>db. Inr (fetch_guest_link_id (actor_user_id (ctx_actor ctx)) (ctx_laboratory_id ctx) db)))
         (\<lambda>link.
        tx_bind (cancel_borrow_request_in_transaction env (ctx_actor ctx) (ctx_laboratory_id ctx) i link)
         (\<lambda>row. tx_return (MyBorrowRequestResponse_from row)))) db"

text \<open>An approval moves the item to borrowed before the decision is recorded.\<close>

definition approve_item :: "env \<Rightarrow> actor \<Rightarrow> inventory_item \<Rightarrow> (handler_error, unit) tx" where
  "approve_item env a item =
     tx_bind (unexpected (mark_inventory_item_borrowed env (it_inventory_item_id item))) (\<lambda>_.
     unexpected (record_audit (actor_user_id a) Audit_Update Res_InventoryItem
       (Some (it_inventory_item_id item)) (Details_update_item item)))"

definition resolve_in_transaction ::
    "env \<Rightarrow> actor \<Rightarrow> uuid \<Rightarrow> uuid \<Rightarrow> borrow_request_status \<Rightarrow> rstr option \<Rightarrow> (handler_error, borrow_request) tx" where
  "resolve_in_transaction env a lab i decision decision_note =
     tx_bind (read_request lab i) (\<lambda>request.
     tx_bind (tx_lift (ensure (br_status request = BorrowRequestStatus_as_str Pending)
         (ConflictError (lit ''Borrow request has already been resolved'')))) (\<lambda>_.
     tx_bind (read_item env (br_inventory_item_id request)) (\<lambda>item.
     tx_bind (tx_lift (ensure (\<not> (decision = Approved \<and> it_status item \<noteq> lit ''available''))
         (ConflictError (lit ''Only available inventory items can be approved for borrowing'')))) (\<lambda>_.
     tx_bind (tx_read (fetch_user_snapshot (actor_user_id a))) (\<lambda>(username, user_type).
     tx_bind (if decision = Approved then approve_item env a item else tx_return ()) (\<lambda>_.
     tx_bind (unexpected (update_borrow_request_decision env i lab (BorrowRequestStatus_as_str decision)
         (actor_user_id a) username user_type (normalize_optional_text decision_note))) (\<lambda>_.
     tx_bind (read_request lab i) (\<lambda>updated.
     tx_bind (record_borrow_request_audit a Audit_Update updated) (\<lambda>_.
     tx_return updated)))))))))"

definition resolve_borrow_request ::
    "env \<Rightarrow> laboratory_context \<Rightarrow> uuid \<Rightarrow> rstr \<Rightarrow> rstr option \<Rightarrow> database
       \<Rightarrow> (handler_error, borrow_request_response) result \<times> database" where
  "resolve_borrow_request env ctx i decision decision_note db =
     run_handler
       (and_then (validate_resolver_actor (ctx_actor ctx) (ctx_laboratory_id ctx)) (\<lambda>_.
        and_then (map_err ValidationError (BorrowRequestStatus_parse decision)) (\<lambda>decision.
        and_then (ensure (\<not> (decision = Pending \<or> decision = Cancelled))
            (ValidationError (lit ''decision must be approved or rejected''))) (\<lambda>_.
          Inr decision))))
       (\<lambda>decision.
          tx_bind (resolve_in_transaction env (ctx_actor ctx) (ctx_laboratory_id ctx) i decision decision_note)
            (\<lambda>updated. tx_return (BorrowRequestResponse_from updated))) db"

definition list_borrow_requests ::
    "laboratory_context \<Rightarrow> rstr option \<Rightarrow> database \<Rightarrow> (handler_error, borrow_request_response list) result" where
  "list_borrow_requests ctx status db =
     and_then (validate_resolver_actor (ctx_actor ctx) (ctx_laboratory_id ctx)) (\<lambda>_.
     and_then (validate_borrow_request_status status) (\<lambda>status.
       Inr (map BorrowRequestResponse_from (fetch_borrow_requests (ctx_laboratory_id ctx) status db))))"

definition list_my_borrow_requests ::
    "laboratory_context \<Rightarrow> rstr option \<Rightarrow> database \<Rightarrow> (handler_error, my_borrow_request_response list) result" where
  "list_my_borrow_requests ctx status db =
     and_then (validate_request_actor (ctx_actor ctx) (ctx_laboratory_id ctx)) (\<lambda>_.
     and_then (validate_borrow_request_status status) (\<lambda>status.
       Inr (map MyBorrowRequestResponse_from
         (fetch_borrow_requests_for_requester (ctx_laboratory_id ctx) (actor_user_id (ctx_actor ctx)) status db))))"

section \<open>Updates of a request\<close>

lemma update_borrow_row_Inr:
  assumes upd: "update_borrow_row i lab change db = Inr db'" and ok: "borrow_ok db"
    and key: "row_update br_borrow_request_id change" and b: "request_row db i = Some b"
    and lab: "br_local_laboratory_id b = lab" and item: "br_inventory_item_id (change b) = br_inventory_item_id b"
  shows "borrow_ok db'" and "request_row db' i = Some (change b)"
    and "j \<noteq> i \<Longrightarrow> request_row db' j = request_row db j"
    and "\<exists>rows. db' = db\<lparr>borrow_requests := rows\<rparr>"
proof -
  let ?rows = "update_rows (\<lambda>b. br_borrow_request_id b = i) change (borrow_requests db)"
  have only: "c = b" if "c \<in> set (borrow_requests db)" "br_borrow_request_id c = i" for c
    using request_row_mem [OF ok that(1)] b that(2) by simp
  have bm: "b \<in> set (borrow_requests db)" "br_borrow_request_id b = i"
    using request_row_Some [OF b] by auto
  have same: "(br_borrow_request_id c = i \<and> br_local_laboratory_id c = lab) = (br_borrow_request_id c = i)"
    if "c \<in> set (borrow_requests db)" for c
    using only [OF that] lab by auto
  then have rows: "update_rows (\<lambda>b. br_borrow_request_id b = i \<and> br_local_laboratory_id b = lab) change
      (borrow_requests db) = ?rows"
    by (simp add: update_rows_def)
  have "find (\<lambda>b. br_borrow_request_id b = i \<and> br_local_laboratory_id b = lab) (borrow_requests db)
      = find (\<lambda>b. br_borrow_request_id b = i) (borrow_requests db)"
    by (rule find_cong [OF refl]) (rule same)
  then have "fetch_optional (\<lambda>b. br_borrow_request_id b = i \<and> br_local_laboratory_id b = lab) (borrow_requests db)
      = Some b"
    using b by (simp add: request_row_def fetch_optional_def)
  then have c: "borrow_constraint_error db (filter (\<lambda>c. br_borrow_request_id c \<noteq> i) (borrow_requests db)) (change b) = None"
      and db': "db' = db\<lparr>borrow_requests := ?rows\<rparr>"
    using upd by (auto simp: update_borrow_row_def rows split: option.splits)
  note k = row_update.key_change [OF key]
  have cc: "borrow_checks (change b)"
      "\<And>c. c \<in> set (borrow_requests db) \<Longrightarrow> br_borrow_request_id c \<noteq> i \<Longrightarrow> \<not> pending_clash (change b) c"
    using c by (auto simp: borrow_constraint_error_None)
  have elem: "c = change b \<or> (c \<in> set (borrow_requests db) \<and> br_borrow_request_id c \<noteq> i)"
    if "c \<in> set ?rows" for c
    using that only by (auto simp: set_update_rows)
  have sym: "pending_clash x y = pending_clash y x" for x y
    by (auto simp: pending_clash_def)
  have "c = d" if "c \<in> set ?rows" "d \<in> set ?rows" "pending_clash c d" for c d
    using elem [OF that(1)] elem [OF that(2)]
  proof (elim disjE conjE)
    assume "c = change b" "d \<in> set (borrow_requests db)" "br_borrow_request_id d \<noteq> i"
    with cc(2) [of d] that(3) show ?thesis by simp
  next
    assume "d = change b" "c \<in> set (borrow_requests db)" "br_borrow_request_id c \<noteq> i"
    with cc(2) [of c] that(3) sym [of c d] show ?thesis by simp
  next
    assume "c \<in> set (borrow_requests db)" "d \<in> set (borrow_requests db)"
    with ok that(3) show ?thesis by (simp add: borrow_ok_def)
  qed simp
  moreover have "borrow_checks c \<and> (\<exists>r\<in>set (inventory_items db). ii_inventory_item_id r = br_inventory_item_id c)"
    if "c \<in> set ?rows" for c
    using elem [OF that] cc(1) ok bm(1) item by (auto simp: borrow_ok_def)
  ultimately show "borrow_ok db'"
    using ok row_update.distinct_keys [OF key] by (simp add: borrow_ok_def db')
  show "request_row db' i = Some (change b)"
    using row_update.read_back [OF key, of i "borrow_requests db"] b by (simp add: request_row_def db')
  show "j \<noteq> i \<Longrightarrow> request_row db' j = request_row db j"
    using row_update.read_other [OF key, of j i "borrow_requests db"] by (simp add: request_row_def db')
  show "\<exists>rows. db' = db\<lparr>borrow_requests := rows\<rparr>"
    using db' by blast
qed

lemma borrow_ok_frame [simp]:
  "borrow_ok (db\<lparr>audit_logs := l\<rparr>) = borrow_ok db"
  "request_row (db\<lparr>audit_logs := l\<rparr>) i = request_row db i"
  "request_row (db\<lparr>inventory_items := rows\<rparr>) i = request_row db i"
  by (simp_all add: borrow_ok_def request_row_def)

lemma inventory_frame [simp]:
  "inventory_ok (db\<lparr>audit_logs := l\<rparr>) = inventory_ok db"
  "inventory_ok (db\<lparr>borrow_requests := bs\<rparr>) = inventory_ok db"
  "item_row (db\<lparr>audit_logs := l\<rparr>) i = item_row db i"
  "item_row (db\<lparr>borrow_requests := bs\<rparr>) i = item_row db i"
  by (simp_all add: inventory_ok_def references_ok_def item_row_def split: option.split)

lemma read_request_Inr [tx_unfold]:
  "read_request lab i db = Inr (row, db') \<longleftrightarrow> db' = db \<and> fetch_borrow_request_for_update lab i db = Some row"
  by (auto simp: read_request_def tx_unfold ok_or_Inr_iff)

lemma read_item_Inr [tx_unfold]:
  "read_item env i db = Inr (item, db') \<longleftrightarrow> db' = db \<and> fetch_inventory_item env i db = Inr (Some item)"
  by (auto simp: read_item_def tx_unfold ok_or_Inr_iff fetch_inventory_item_for_update_def)

lemma validate_request_actor_Inr [tx_unfold]:
  "validate_request_actor a lab = Inr u \<longleftrightarrow> is_guest a \<and> actor_laboratory_id a = Some lab"
  by (simp add: validate_request_actor_def)

lemma validate_resolver_actor_Inr [tx_unfold]:
  "validate_resolver_actor a lab = Inr u \<longleftrightarrow>
     (is_lab_admin a \<or> is_regular_user a) \<and> actor_laboratory_id a = Some lab"
  by (simp add: validate_resolver_actor_def)

lemma record_borrow_request_audit_Inr:
  "record_borrow_request_audit a act row db = Inr (u, db') \<Longrightarrow>
     \<exists>e. db' = db\<lparr>audit_logs := audit_logs db @ [e]\<rparr> \<and> au_actor_user_id e = Some (actor_user_id a)
       \<and> au_resource_id e = Some (br_borrow_request_id row)"
  unfolding record_borrow_request_audit_def unexpected_Inr using record_audit_entry by blast

end
