(* ===== verification/Borrow_Lifecycle.thy ===== *)
theory Borrow_Lifecycle
  imports Borrow_Requests
begin

text \<open>
  The life of a borrow request: what each flow does to the tables, the step relation the three
  handlers generate, and what holds in every state they reach.
\<close>

section \<open>Filing\<close>

lemma insert_borrow_row_Inr:
  assumes "insert_borrow_row b db = Inr db'" and "borrow_ok db"
  shows "borrow_ok db'" and "request_row db (br_borrow_request_id b) = None"
    and "request_row db' (br_borrow_request_id b) = Some b"
    and "j \<noteq> br_borrow_request_id b \<Longrightarrow> request_row db' j = request_row db j"
    and "db' = db\<lparr>borrow_requests := borrow_requests db @ [b]\<rparr>"
proof -
  have c: "borrow_constraint_error db (borrow_requests db) b = None"
      and db': "db' = db\<lparr>borrow_requests := borrow_requests db @ [b]\<rparr>"
    using assms(1) by (auto simp: insert_borrow_row_def split: option.splits)
  then show "db' = db\<lparr>borrow_requests := borrow_requests db @ [b]\<rparr>" by simp
  have n: "\<forall>c\<in>set (borrow_requests db). br_borrow_request_id c \<noteq> br_borrow_request_id b \<and> \<not> pending_clash b c"
    using c by (auto simp: borrow_constraint_error_None)
  then show new: "request_row db (br_borrow_request_id b) = None"
    by (simp add: request_row_def fetch_optional_None)
  have app: "fetch_optional P (xs @ [b])
      = (case fetch_optional P xs of None \<Rightarrow> if P b then Some b else None | Some x \<Rightarrow> Some x)"
    for P :: "borrow_row \<Rightarrow> bool" and xs
    by (induction xs) (auto simp: fetch_optional_def)
  show "request_row db' (br_borrow_request_id b) = Some b"
    using new by (simp add: request_row_def db' app)
  show "j \<noteq> br_borrow_request_id b \<Longrightarrow> request_row db' j = request_row db j"
    by (auto simp: request_row_def db' app split: option.split)
  have sym: "pending_clash c b = pending_clash b c" for c
    by (auto simp: pending_clash_def)
  have "distinct (map br_borrow_request_id (borrow_requests db @ [b]))"
    using n borrow_ok_ids [OF assms(2)] by auto
  moreover have "borrow_checks c \<and> (\<exists>r\<in>set (inventory_items db). ii_inventory_item_id r = br_inventory_item_id c)"
    if "c \<in> set (borrow_requests db @ [b])" for c
    using that assms(2) c by (auto simp: borrow_ok_def borrow_constraint_error_None borrow_references_def)
  moreover have "c = d"
    if "c \<in> set (borrow_requests db @ [b])" "d \<in> set (borrow_requests db @ [b])" "pending_clash c d" for c d
  proof (cases "c = b \<or> d = b")
    case True
    then show ?thesis
      using that n sym by auto
  next
    case False
    then show ?thesis
      using that assms(2) by (simp add: borrow_ok_def)
  qed
  ultimately show "borrow_ok db'"
    by (simp add: borrow_ok_def db')
qed

lemma create_in_transaction_Inr:
  assumes "create_borrow_request_in_transaction env a lab i link dn db = Inr (row, db')"
    and ok: "inventory_ok db" "borrow_ok db"
  obtains r b where "item_row db i = Some r" and "ii_laboratory_id r = lab"
    and "ii_status r = lit ''available''" and "is_guest a" and "actor_laboratory_id a = Some lab"
    and "\<forall>c\<in>set (borrow_requests db). br_inventory_item_id c = i \<longrightarrow> br_status c \<noteq> lit ''pending''"
    and "br_borrow_request_id b = env_new_v4 env 0" and "br_inventory_item_id b = i"
    and "br_local_laboratory_id b = lab" and "br_requester_user_id b = Some (actor_user_id a)"
    and "br_status b = lit ''pending''" and "br_reviewed_by_user_id b = None"
    and "borrow_requests db' = borrow_requests db @ [b]" and "inventory_items db' = inventory_items db"
    and "inventory_ok db'" and "borrow_ok db'" and "request_row db (env_new_v4 env 0) = None"
    and "request_row db' (env_new_v4 env 0) = Some b"
    and "\<And>j. j \<noteq> env_new_v4 env 0 \<Longrightarrow> request_row db' j = request_row db j"
proof -
  obtain item name ty db1 u where f: "fetch_inventory_item env i db = Inr (Some item)"
      and lab: "it_laboratory_id item = lab" and actor: "is_guest a" "actor_laboratory_id a = Some lab"
      and st: "it_status item = lit ''available''"
      and np: "\<not> pending_borrow_request_exists (it_inventory_item_id item) db"
      and ins: "insert_borrow_request env (env_new_v4 env 0) lab (it_inventory_item_id item)
         (actor_user_id a) name ty link dn db = Inr ((), db1)"
      and log: "record_borrow_request_audit a Audit_Create row db1 = Inr (u, db')"
    using assms(1) unfolding create_borrow_request_in_transaction_def
    by (auto simp: tx_unfold ensure_Inr_iff split: prod.splits)
  obtain r where r: "item_row db i = Some r" "item_view env db r = Inr item"
    using fetch_inventory_item_Some [OF ok(1) f] by blast
  note v = item_view_columns [OF r(2)]
  have id: "it_inventory_item_id item = i"
    using item_row_Some [OF r(1)] v(1) by simp
  define b where "b =
       \<lparr>br_borrow_request_id = env_new_v4 env 0, br_local_laboratory_id = lab, br_inventory_item_id = i,
        br_requester_user_id = Some (actor_user_id a), br_requester_username = name,
        br_requester_user_type = ty, br_requester_guest_link_id = link,
        br_request_note = dn, br_status = lit ''pending'', br_reviewed_by_user_id = None,
        br_reviewed_by_username = None, br_reviewed_by_user_type = None, br_reviewed_at = None,
        br_decision_note = None, br_created_at = env_now env, br_updated_at = env_now env\<rparr>"
  have "insert_borrow_row b db = Inr db1"
    using ins by (auto simp: insert_borrow_request_def tx_unfold b_def id)
  note w = insert_borrow_row_Inr [OF this ok(2)]
  obtain l where db': "db' = db1\<lparr>audit_logs := l\<rparr>"
    using record_borrow_request_audit_Inr [OF log] by blast
  show thesis
  proof (rule that [of r b])
    show "\<forall>c\<in>set (borrow_requests db). br_inventory_item_id c = i \<longrightarrow> br_status c \<noteq> lit ''pending''"
      using np by (auto simp: pending_borrow_request_exists_def id)
    show "request_row db' j = request_row db j" if "j \<noteq> env_new_v4 env 0" for j
      using w(4) [of j] that by (simp add: db' b_def)
  qed (use r(1) v(3,8) lab st actor w ok in \<open>auto simp: b_def db'\<close>)
qed

section \<open>Cancelling\<close>

lemma cancel_in_transaction_Inr:
  assumes "cancel_borrow_request_in_transaction env a lab i link db = Inr (row, db')"
    and ok: "inventory_ok db" "borrow_ok db"
  obtains b where "request_row db i = Some b" and "br_local_laboratory_id b = lab"
    and "br_status b = lit ''pending''" and "is_guest a" and "actor_laboratory_id a = Some lab"
    and "br_requester_user_id b = Some (actor_user_id a)
         \<or> (link \<noteq> None \<and> br_requester_guest_link_id b = link)"
    and "request_row db' i = Some (retract (env_now env) b)"
    and "inventory_items db' = inventory_items db" and "inventory_ok db'" and "borrow_ok db'"
    and "\<And>j. j \<noteq> i \<Longrightarrow> request_row db' j = request_row db j"
proof -
  obtain row0 db1 u v where actor: "is_guest a" "actor_laboratory_id a = Some lab"
      and f: "fetch_borrow_request_for_update lab i db = Some row0"
      and own: "cancellable_by row0 a link" and st: "br_status row0 = lit ''pending''"
      and upd: "update_borrow_request_cancelled env i lab db = Inr (u, db1)"
      and log: "record_borrow_request_audit a Audit_Update row db1 = Inr (v, db')"
    using assms(1) unfolding cancel_borrow_request_in_transaction_def
    by (auto simp: tx_unfold ensure_Inr_iff)
  obtain b r as where b: "request_row db i = Some b" "br_local_laboratory_id b = lab" "row0 = view_request b r as"
    using fetch_borrow_request_Some [OF f ok(2)] by blast
  have upd': "update_borrow_row i lab (retract (env_now env)) db = Inr db1"
    using upd by (simp add: update_borrow_request_cancelled_def tx_unfold)
  note w = update_borrow_row_Inr [OF upd' ok(2) retract.row_update_axioms b(1,2)]
  obtain l where db': "db' = db1\<lparr>audit_logs := l\<rparr>"
    using record_borrow_request_audit_Inr [OF log] by blast
  obtain rows where db1: "db1 = db\<lparr>borrow_requests := rows\<rparr>"
    using w(4) by (auto simp: retract_def)
  show thesis
  proof (rule that [of b])
    show "br_requester_user_id b = Some (actor_user_id a) \<or> (link \<noteq> None \<and> br_requester_guest_link_id b = link)"
      using own b(3) by (auto simp: cancellable_by_def Let_def split: option.splits)
    show "request_row db' j = request_row db j" if "j \<noteq> i" for j
      using w(3) [of j] that by (simp add: db' retract_def)
    show "inventory_ok db'" "inventory_items db' = inventory_items db"
      using ok(1) by (simp_all add: db' db1)
  qed (use b st actor w(1,2) in \<open>auto simp: db' retract_def\<close>)
qed

section \<open>Deciding\<close>

lemma update_item_keeps_borrow_ok:
  assumes "update_row_by_id i change db = Inr db'" and "row_update ii_inventory_item_id change" and "borrow_ok db"
  shows "borrow_ok db'"
proof -
  obtain rows where db': "db' = db\<lparr>inventory_items := rows\<rparr>"
    using update_row_frame [OF assms(1)] by blast
  have "map ii_inventory_item_id (inventory_items db') = map ii_inventory_item_id (inventory_items db)"
    using assms(1) row_update.keys [OF assms(2)] by (auto simp: update_row_by_id_Inr split: option.splits)
  then have ids: "ii_inventory_item_id ` set rows = ii_inventory_item_id ` set (inventory_items db)"
    unfolding list.set_map [symmetric] by (simp add: db')
  have "(\<exists>r\<in>set xs. ii_inventory_item_id r = k) \<longleftrightarrow> k \<in> ii_inventory_item_id ` set xs"
    for k and xs :: "inventory_row list"
    by auto
  with ids have "(\<exists>r\<in>set rows. ii_inventory_item_id r = k)
      \<longleftrightarrow> (\<exists>r\<in>set (inventory_items db). ii_inventory_item_id r = k)" for k
    by simp
  then show ?thesis
    using assms(3) by (simp add: borrow_ok_def db')
qed

lemma approve_item_Inr:
  assumes "approve_item env a item db = Inr (u, db')" and ok: "inventory_ok db" "borrow_ok db"
  shows "inventory_ok db'" and "borrow_ok db'" and "borrow_requests db' = borrow_requests db"
    and "item_row db' (it_inventory_item_id item)
         = map_option (mark_borrowed (env_now env)) (item_row db (it_inventory_item_id item))"
    and "j \<noteq> it_inventory_item_id item \<Longrightarrow> item_row db' j = item_row db j"
proof -
  obtain v db1 where m: "mark_inventory_item_borrowed env (it_inventory_item_id item) db = Inr (v, db1)"
      and log: "record_audit (actor_user_id a) Audit_Update Res_InventoryItem
        (Some (it_inventory_item_id item)) (Details_update_item item) db1 = Inr (u, db')"
    using assms(1) unfolding approve_item_def tx_bind_Inr unexpected_Inr by blast
  have upd: "update_row_by_id (it_inventory_item_id item) (mark_borrowed (env_now env)) db = Inr db1"
    using m by (simp add: mark_inventory_item_borrowed_def tx_unfold)
  note k = mark_borrowed.row_update_axioms
  obtain l where db': "db' = db1\<lparr>audit_logs := l\<rparr>"
    using record_audit_entry [OF log] by blast
  obtain rows where db1: "db1 = db\<lparr>inventory_items := rows\<rparr>"
    using update_row_frame [OF upd] by blast
  show "inventory_ok db'" "borrow_ok db'"
    using update_row_by_id_ok [OF ok(1) upd k] update_item_keeps_borrow_ok [OF upd k ok(2)] by (simp_all add: db')
  show "borrow_requests db' = borrow_requests db"
    by (simp add: db' db1)
  show "item_row db' (it_inventory_item_id item)
         = map_option (mark_borrowed (env_now env)) (item_row db (it_inventory_item_id item))"
    "j \<noteq> it_inventory_item_id item \<Longrightarrow> item_row db' j = item_row db j"
    using update_row_read_back [OF upd k] by (simp_all add: db')
qed

lemma resolve_in_transaction_Inr:
  assumes "resolve_in_transaction env a lab i decision dn db = Inr (row, db')"
    and ok: "inventory_ok db" "borrow_ok db"
  obtains b r name ty where "request_row db i = Some b" and "br_local_laboratory_id b = lab"
    and "br_status b = lit ''pending''" and "item_row db (br_inventory_item_id b) = Some r"
    and "decision = Approved \<Longrightarrow> ii_status r = lit ''available''"
    and "item_row db' (br_inventory_item_id b)
         = Some (if decision = Approved then mark_borrowed (env_now env) r else r)"
    and "\<And>j. j \<noteq> br_inventory_item_id b \<Longrightarrow> item_row db' j = item_row db j"
    and "request_row db' i = Some (decide (BorrowRequestStatus_as_str decision) (actor_user_id a) name ty
           (normalize_optional_text dn) (env_now env) b)"
    and "\<And>j. j \<noteq> i \<Longrightarrow> request_row db' j = request_row db j"
    and "inventory_ok db'" and "borrow_ok db'"
proof -
  obtain request item name ty u db1 db2 v w where
      f: "fetch_borrow_request_for_update lab i db = Some request"
      and st: "br_status request = lit ''pending''"
      and it: "fetch_inventory_item env (br_inventory_item_id request) db = Inr (Some item)"
      and av: "decision = Approved \<Longrightarrow> it_status item = lit ''available''"
      and ap: "(if decision = Approved then approve_item env a item else tx_return ()) db = Inr (u, db1)"
      and upd: "update_borrow_request_decision env i lab (BorrowRequestStatus_as_str decision)
        (actor_user_id a) name ty (normalize_optional_text dn) db1 = Inr (v, db2)"
      and log: "record_borrow_request_audit a Audit_Update row db2 = Inr (w, db')"
  proof -
    note thesis_intro = that
    obtain request item who u db1 v db2 w where
      f: "fetch_borrow_request_for_update lab i db = Some request"
      and st: "br_status request = BorrowRequestStatus_as_str Pending"
      and it: "fetch_inventory_item env (br_inventory_item_id request) db = Inr (Some item)"
      and av: "\<not> (decision = Approved \<and> it_status item \<noteq> lit ''available'')"
      and ap: "(if decision = Approved then approve_item env a item else tx_return ()) db = Inr (u, db1)"
      and upd: "update_borrow_request_decision env i lab (BorrowRequestStatus_as_str decision)
        (actor_user_id a) (fst who) (snd who) (normalize_optional_text dn) db1 = Inr (v, db2)"
      and log: "record_borrow_request_audit a Audit_Update row db2 = Inr (w, db')"
      using assms(1) unfolding resolve_in_transaction_def split_beta tx_bind_Inr unexpected_Inr
        read_request_Inr read_item_Inr tx_lift_Inr tx_read_Inr tx_return_Inr ensure_Inr_iff
      apply (elim exE conjE)
      apply hypsubst
      apply (rule that)
      apply assumption+
      done
    show thesis
      using f st it av ap upd log by (intro thesis_intro [of request item u db1 "fst who" "snd who" v db2 w]) auto
  qed
  obtain b r0 as0 where b: "request_row db i = Some b" "br_local_laboratory_id b = lab" "request = view_request b r0 as0"
    using fetch_borrow_request_Some [OF f ok(2)] by blast
  let ?k = "br_inventory_item_id b"
  obtain r where r: "item_row db ?k = Some r" "item_view env db r = Inr item"
    using fetch_inventory_item_Some [OF ok(1) it] b(3) by auto
  note vw = item_view_columns [OF r(2)]
  have id: "it_inventory_item_id item = ?k"
    using item_row_Some [OF r(1)] vw(1) by simp
  have one: "inventory_ok db1" "borrow_ok db1" "borrow_requests db1 = borrow_requests db"
      "item_row db1 ?k = Some (if decision = Approved then mark_borrowed (env_now env) r else r)"
      "\<And>j. j \<noteq> ?k \<Longrightarrow> item_row db1 j = item_row db j"
    using approve_item_Inr [OF _ ok, of env a item u db1] ap ok r(1) id
    by (auto simp: tx_unfold split: if_splits)
  have b1: "request_row db1 i = Some b"
    using b(1) one(3) by (simp add: request_row_def)
  have upd': "update_borrow_row i lab (decide (BorrowRequestStatus_as_str decision) (actor_user_id a) name ty
       (normalize_optional_text dn) (env_now env)) db1 = Inr db2"
    using upd by (simp add: update_borrow_request_decision_def tx_unfold)
  note w = update_borrow_row_Inr [OF upd' one(2) decide.row_update_axioms b1 b(2)]
  obtain l where db': "db' = db2\<lparr>audit_logs := l\<rparr>"
    using record_borrow_request_audit_Inr [OF log] by blast
  obtain rows where db2: "db2 = db1\<lparr>borrow_requests := rows\<rparr>"
    using w(4) by (auto simp: decide_def)
  show thesis
  proof (rule that [of b r name ty])
    show "request_row db' j = request_row db j" if "j \<noteq> i" for j
      using w(3) [of j] that one(3) by (simp add: db' decide_def request_row_def)
    show "item_row db' j = item_row db j" if "j \<noteq> ?k" for j
      using one(5) [OF that] by (simp add: db' db2)
    show "decision = Approved \<Longrightarrow> ii_status r = lit ''available''"
      using av vw(8) by simp
    show "item_row db' ?k = Some (if decision = Approved then mark_borrowed (env_now env) r else r)"
      using one(4) by (simp add: db' db2)
    show "inventory_ok db'"
      using one(1) by (simp add: db' db2)
    show "borrow_ok db'" "request_row db' i = Some (decide (BorrowRequestStatus_as_str decision) (actor_user_id a)
        name ty (normalize_optional_text dn) (env_now env) b)"
      using w(1,2) by (simp_all add: db' decide_def)
  qed (use b st r(1) in auto)
qed

section \<open>The transition system\<close>

text \<open>One successful request of any caller, against any state.\<close>

inductive borrow_step :: "database \<Rightarrow> database \<Rightarrow> bool" where
  filed: "create_borrow_request env ctx i dn db = (Inr out, db') \<Longrightarrow> borrow_step db db'"
| cancel: "cancel_borrow_request env ctx i db = (Inr out', db') \<Longrightarrow> borrow_step db db'"
| resolve: "resolve_borrow_request env ctx i decision dn db = (Inr out'', db') \<Longrightarrow> borrow_step db db'"

inductive_cases borrow_stepE: "borrow_step db db'"

text \<open>A request that was decided or withdrawn stays as it is, and none disappears.\<close>

definition settled_requests_kept :: "database \<Rightarrow> database \<Rightarrow> bool" where
  "settled_requests_kept db db' \<longleftrightarrow>
     (\<forall>i b. request_row db i = Some b \<longrightarrow>
        (\<exists>b'. request_row db' i = Some b' \<and> (br_status b \<noteq> lit ''pending'' \<longrightarrow> b' = b)))"

lemma cancel_handler_Inr:
  "cancel_borrow_request env ctx i db = (Inr out, db') \<Longrightarrow>
   \<exists>row. cancel_borrow_request_in_transaction env (ctx_actor ctx) (ctx_laboratory_id ctx) i
     (fetch_guest_link_id (actor_user_id (ctx_actor ctx)) (ctx_laboratory_id ctx) db) db = Inr (row, db')"
  by (auto simp: cancel_borrow_request_def transaction_Inr tx_unfold)

lemma create_handler_Inr:
  "create_borrow_request env ctx i dn db = (Inr out, db') \<Longrightarrow>
   \<exists>row. create_borrow_request_in_transaction env (ctx_actor ctx) (ctx_laboratory_id ctx) i
     (fetch_guest_link_id (actor_user_id (ctx_actor ctx)) (ctx_laboratory_id ctx) db)
     (normalize_optional_text dn) db = Inr (row, db')"
  by (auto simp: create_borrow_request_def transaction_Inr tx_unfold)

lemma resolve_handler_Inr:
  "resolve_borrow_request env ctx i decision dn db = (Inr out, db') \<Longrightarrow>
   \<exists>row d. resolve_in_transaction env (ctx_actor ctx) (ctx_laboratory_id ctx) i d dn db = Inr (row, db')
     \<and> (d = Approved \<or> d = Rejected) \<and> BorrowRequestStatus_parse decision = Inr d
     \<and> (is_lab_admin (ctx_actor ctx) \<or> is_regular_user (ctx_actor ctx))
     \<and> actor_laboratory_id (ctx_actor ctx) = Some (ctx_laboratory_id ctx)"
  by (auto simp: resolve_borrow_request_def run_handler_Inr tx_unfold and_then_Inr_iff map_err_Inr_iff ensure_Inr_iff)
    (metis borrow_request_status.exhaust)+

lemma borrow_step_keeps:
  assumes "borrow_step db db'" and ok: "inventory_ok db \<and> borrow_ok db"
  shows "(inventory_ok db' \<and> borrow_ok db') \<and> settled_requests_kept db db'"
proof -
  have k: "settled_requests_kept db db'"
    if "\<And>j. j \<noteq> i \<Longrightarrow> request_row db' j = request_row db j" "request_row db' i \<noteq> None"
      "\<And>b. request_row db i = Some b \<Longrightarrow> br_status b = lit ''pending''" for i
    unfolding settled_requests_kept_def using that by (metis not_Some_eq)
  from assms(1) show ?thesis
  proof (rule borrow_stepE, goal_cases)
    case (1 env ctx i dn out)
    from create_handler_Inr [OF this] obtain row where
      "create_borrow_request_in_transaction env (ctx_actor ctx) (ctx_laboratory_id ctx) i
         (fetch_guest_link_id (actor_user_id (ctx_actor ctx)) (ctx_laboratory_id ctx) db)
         (normalize_optional_text dn) db = Inr (row, db')" ..
    then show ?thesis
      by (rule create_in_transaction_Inr) (use ok k [of "env_new_v4 env 0"] in auto)
  next
    case (2 env ctx i out)
    from cancel_handler_Inr [OF this] obtain row where
      "cancel_borrow_request_in_transaction env (ctx_actor ctx) (ctx_laboratory_id ctx) i
         (fetch_guest_link_id (actor_user_id (ctx_actor ctx)) (ctx_laboratory_id ctx) db) db = Inr (row, db')" ..
    then show ?thesis
      by (rule cancel_in_transaction_Inr) (use ok k [of i] in auto)
  next
    case (3 env ctx i decision dn out)
    from resolve_handler_Inr [OF this] obtain row d where
      "resolve_in_transaction env (ctx_actor ctx) (ctx_laboratory_id ctx) i d dn db = Inr (row, db')" by blast
    then show ?thesis
      by (rule resolve_in_transaction_Inr) (use ok k [of i] in auto)
  qed
qed

interpretation borrowing: invariant_system borrow_step "\<lambda>db. inventory_ok db \<and> borrow_ok db" settled_requests_kept
proof
  fix s t u
  show "settled_requests_kept s s"
    by (simp add: settled_requests_kept_def)
  show "settled_requests_kept s t \<Longrightarrow> settled_requests_kept t u \<Longrightarrow> settled_requests_kept s u"
    unfolding settled_requests_kept_def by metis
qed (use borrow_step_keeps in blast)+

end
