(* ===== verification/Borrow_Properties.thy ===== *)
theory Borrow_Properties
  imports Witness_Data Borrow_Lifecycle
begin

text \<open>
  What the life of a borrow request guarantees: who may file, decide and retract one, what each
  step changes, what no run of steps ever changes, and the approval that can never succeed.
\<close>

section \<open>A request in the small laboratory\<close>

definition db_2 :: database where
  "db_2 = snd (create_borrow_request env_1 guest_ctx 40 None db_1)"

lemma db_1_borrow_ok: "borrow_ok db_1"
  by (simp add: borrow_ok_def db_1_def)

lemma guest_files_runs: "\<exists>out. create_borrow_request env_1 guest_ctx 40 None db_1 = (Inr out, db_2)"
proof -
  have "case create_borrow_request env_1 guest_ctx 40 None db_1 of (Inr _, _) \<Rightarrow> True | _ \<Rightarrow> False"
    by code_simp
  then show ?thesis
    by (auto simp: db_2_def split: prod.splits sum.splits)
qed

lemma db_2_ok: "inventory_ok db_2" "borrow_ok db_2"
proof -
  obtain out where run: "create_borrow_request env_1 guest_ctx 40 None db_1 = (Inr out, db_2)"
    using guest_files_runs by blast
  then have "borrow_step db_1 db_2"
    by (rule borrow_step.filed)
  then show "inventory_ok db_2" "borrow_ok db_2"
    using borrow_step_keeps db_1_ok db_1_borrow_ok by blast+
qed

lemma admin_approves_runs:
  "\<exists>out db'. resolve_borrow_request env_1 admin_ctx 1000 (lit ''approved'') None db_2 = (Inr out, db')"
proof -
  have "case resolve_borrow_request env_1 admin_ctx 1000 (lit ''approved'') None db_2 of (Inr _, _) \<Rightarrow> True | _ \<Rightarrow> False"
    by code_simp
  then show ?thesis
    by (auto split: prod.splits sum.splits)
qed

lemma guest_cancels_runs: "\<exists>out db'. cancel_borrow_request env_1 guest_ctx 1000 db_2 = (Inr out, db')"
proof -
  have "case cancel_borrow_request env_1 guest_ctx 1000 db_2 of (Inr _, _) \<Rightarrow> True | _ \<Rightarrow> False"
    by code_simp
  then show ?thesis
    by (auto split: prod.splits sum.splits)
qed

section \<open>The three steps\<close>

text \<open>
  Filing: a request is only filed by a guest of the laboratory, for an available item of
  that laboratory without a pending request; it adds exactly one pending request, the guest's,
  changes no item and no other request, and the tables stay consistent.
\<close>

theorem filing_adds_one_pending_request:
  assumes "inventory_ok db" and "borrow_ok db"
    and "create_borrow_request env ctx i request_note db = (Inr out, db')"
  shows "is_guest (ctx_actor ctx) \<and> actor_laboratory_id (ctx_actor ctx) = Some (ctx_laboratory_id ctx)
    \<and> (\<exists>r. item_row db i = Some r \<and> ii_laboratory_id r = ctx_laboratory_id ctx \<and> ii_status r = lit ''available'')
    \<and> (\<forall>c\<in>set (borrow_requests db). br_inventory_item_id c = i \<longrightarrow> br_status c \<noteq> lit ''pending'')
    \<and> (\<exists>b. borrow_requests db' = borrow_requests db @ [b] \<and> br_inventory_item_id b = i
         \<and> br_status b = lit ''pending'' \<and> br_requester_user_id b = Some (actor_user_id (ctx_actor ctx))
         \<and> br_local_laboratory_id b = ctx_laboratory_id ctx \<and> br_reviewed_by_user_id b = None)
    \<and> inventory_items db' = inventory_items db \<and> inventory_ok db' \<and> borrow_ok db'"
proof -
  obtain row where t: "create_borrow_request_in_transaction env (ctx_actor ctx) (ctx_laboratory_id ctx) i
     (fetch_guest_link_id (actor_user_id (ctx_actor ctx)) (ctx_laboratory_id ctx) db)
     (normalize_optional_text request_note) db = Inr (row, db')"
    using create_handler_Inr [OF assms(3)] by blast
  show ?thesis
    by (rule create_in_transaction_Inr [OF t assms(1,2)]) blast
qed

theorem filing_adds_one_pending_request_witness:
  "\<exists>b. borrow_requests db_2 = [b] \<and> br_inventory_item_id b = 40"
proof -
  obtain out where run: "create_borrow_request env_1 guest_ctx 40 None db_1 = (Inr out, db_2)"
    using guest_files_runs by blast
  show ?thesis
    using filing_adds_one_pending_request [OF db_1_ok db_1_borrow_ok run] by (auto simp: db_1_def)
qed

text \<open>
  C16. Deciding: a request is only decided while it is pending, by an administrator or a regular
  user of its laboratory, and an approval needs the item to be available at that moment. An
  approval turns exactly that item to borrowed, a rejection changes no item; the request records
  the decision and who made it, and no other request changes.
\<close>

theorem deciding_settles_one_request:
  assumes "inventory_ok db" and "borrow_ok db"
    and "resolve_borrow_request env ctx i decision decision_note db = (Inr out, db')"
  shows "(is_lab_admin (ctx_actor ctx) \<or> is_regular_user (ctx_actor ctx))
    \<and> actor_laboratory_id (ctx_actor ctx) = Some (ctx_laboratory_id ctx)
    \<and> (\<exists>d b b' r. BorrowRequestStatus_parse decision = Inr d \<and> d \<in> {Approved, Rejected}
         \<and> request_row db i = Some b \<and> br_local_laboratory_id b = ctx_laboratory_id ctx
         \<and> br_status b = lit ''pending'' \<and> request_row db' i = Some b'
         \<and> br_status b' = BorrowRequestStatus_as_str d
         \<and> br_reviewed_by_user_id b' = Some (actor_user_id (ctx_actor ctx))
         \<and> br_inventory_item_id b' = br_inventory_item_id b
         \<and> item_row db (br_inventory_item_id b) = Some r
         \<and> (d = Approved \<longrightarrow> ii_status r = lit ''available'')
         \<and> item_row db' (br_inventory_item_id b) = Some (if d = Approved
              then r\<lparr>ii_status := lit ''borrowed'', ii_updated_at := env_now env\<rparr> else r)
         \<and> (\<forall>j. j \<noteq> br_inventory_item_id b \<longrightarrow> item_row db' j = item_row db j)
         \<and> (\<forall>j. j \<noteq> i \<longrightarrow> request_row db' j = request_row db j))
    \<and> inventory_ok db' \<and> borrow_ok db'"
proof -
  obtain row d where t: "resolve_in_transaction env (ctx_actor ctx) (ctx_laboratory_id ctx) i d decision_note db = Inr (row, db')"
      and d: "d = Approved \<or> d = Rejected" "BorrowRequestStatus_parse decision = Inr d"
      and a: "is_lab_admin (ctx_actor ctx) \<or> is_regular_user (ctx_actor ctx)"
        "actor_laboratory_id (ctx_actor ctx) = Some (ctx_laboratory_id ctx)"
    using resolve_handler_Inr [OF assms(3)] by blast
  have change: "br_status (decide s u n y dn now b) = s" "br_reviewed_by_user_id (decide s u n y dn now b) = Some u"
    "br_inventory_item_id (decide s u n y dn now b) = br_inventory_item_id b" for s u n y dn now b
    by (simp_all add: decide_def)
  obtain b r name ty where s: "request_row db i = Some b" "br_local_laboratory_id b = ctx_laboratory_id ctx"
      "br_status b = lit ''pending''" "item_row db (br_inventory_item_id b) = Some r"
      "d = Approved \<Longrightarrow> ii_status r = lit ''available''"
      "item_row db' (br_inventory_item_id b) = Some (if d = Approved then mark_borrowed (env_now env) r else r)"
      "\<And>j. j \<noteq> br_inventory_item_id b \<Longrightarrow> item_row db' j = item_row db j"
      "request_row db' i = Some (decide (BorrowRequestStatus_as_str d) (actor_user_id (ctx_actor ctx)) name ty
           (normalize_optional_text decision_note) (env_now env) b)"
      "\<And>j. j \<noteq> i \<Longrightarrow> request_row db' j = request_row db j" "inventory_ok db'" "borrow_ok db'"
    by (rule resolve_in_transaction_Inr [OF t assms(1,2)]) blast
  have "\<exists>d b b' r. BorrowRequestStatus_parse decision = Inr d \<and> d \<in> {Approved, Rejected}
         \<and> request_row db i = Some b \<and> br_local_laboratory_id b = ctx_laboratory_id ctx
         \<and> br_status b = lit ''pending'' \<and> request_row db' i = Some b'
         \<and> br_status b' = BorrowRequestStatus_as_str d
         \<and> br_reviewed_by_user_id b' = Some (actor_user_id (ctx_actor ctx))
         \<and> br_inventory_item_id b' = br_inventory_item_id b
         \<and> item_row db (br_inventory_item_id b) = Some r
         \<and> (d = Approved \<longrightarrow> ii_status r = lit ''available'')
         \<and> item_row db' (br_inventory_item_id b) = Some (if d = Approved
              then r\<lparr>ii_status := lit ''borrowed'', ii_updated_at := env_now env\<rparr> else r)
         \<and> (\<forall>j. j \<noteq> br_inventory_item_id b \<longrightarrow> item_row db' j = item_row db j)
         \<and> (\<forall>j. j \<noteq> i \<longrightarrow> request_row db' j = request_row db j)"
  proof -
    define b' where "b' = decide (BorrowRequestStatus_as_str d) (actor_user_id (ctx_actor ctx)) name ty
           (normalize_optional_text decision_note) (env_now env) b"
    have "br_status b' = BorrowRequestStatus_as_str d" "br_inventory_item_id b' = br_inventory_item_id b"
      "br_reviewed_by_user_id b' = Some (actor_user_id (ctx_actor ctx))"
      by (simp_all add: b'_def change)
    moreover have "request_row db' i = Some b'"
      using s(8) by (simp add: b'_def)
    moreover have "d \<in> {Approved, Rejected}"
      using d(1) by auto
    ultimately show ?thesis
      using s(1-7,9) d(2) unfolding mark_borrowed_def by blast
  qed
  then show ?thesis
    using a s(10,11) by blast
qed

theorem deciding_settles_one_request_witness:
  "\<exists>out db' b'. resolve_borrow_request env_1 admin_ctx 1000 (lit ''approved'') None db_2 = (Inr out, db')
     \<and> request_row db' 1000 = Some b' \<and> br_status b' \<noteq> lit ''pending''"
proof -
  obtain out db' where run: "resolve_borrow_request env_1 admin_ctx 1000 (lit ''approved'') None db_2 = (Inr out, db')"
    using admin_approves_runs by blast
  show ?thesis
    using deciding_settles_one_request [OF db_2_ok run] run by auto
qed

text \<open>
  C17. Cancelling: a request is only cancelled while it is pending, by a guest of its laboratory
  who filed it or holds the guest link it was filed through; it changes no item and no other request.
\<close>

theorem cancelling_retracts_own_request:
  assumes "inventory_ok db" and "borrow_ok db" and "cancel_borrow_request env ctx i db = (Inr out, db')"
  shows "is_guest (ctx_actor ctx) \<and> actor_laboratory_id (ctx_actor ctx) = Some (ctx_laboratory_id ctx)
    \<and> (\<exists>b. request_row db i = Some b \<and> br_local_laboratory_id b = ctx_laboratory_id ctx
         \<and> br_status b = lit ''pending''
         \<and> (br_requester_user_id b = Some (actor_user_id (ctx_actor ctx))
            \<or> (br_requester_guest_link_id b \<noteq> None \<and> br_requester_guest_link_id b
                 = fetch_guest_link_id (actor_user_id (ctx_actor ctx)) (ctx_laboratory_id ctx) db))
         \<and> request_row db' i = Some (b\<lparr>br_status := lit ''cancelled'', br_updated_at := env_now env\<rparr>))
    \<and> (\<forall>j. j \<noteq> i \<longrightarrow> request_row db' j = request_row db j)
    \<and> inventory_items db' = inventory_items db \<and> inventory_ok db' \<and> borrow_ok db'"
proof -
  obtain row where t: "cancel_borrow_request_in_transaction env (ctx_actor ctx) (ctx_laboratory_id ctx) i
     (fetch_guest_link_id (actor_user_id (ctx_actor ctx)) (ctx_laboratory_id ctx) db) db = Inr (row, db')"
    using cancel_handler_Inr [OF assms(3)] by blast
  show ?thesis
    by (rule cancel_in_transaction_Inr [OF t assms(1,2)]) (auto simp: retract_def)
qed

theorem cancelling_retracts_own_request_witness:
  "\<exists>out db' b. cancel_borrow_request env_1 guest_ctx 1000 db_2 = (Inr out, db')
     \<and> request_row db_2 1000 = Some b \<and> br_status b = lit ''pending''"
proof -
  obtain out db' where run: "cancel_borrow_request env_1 guest_ctx 1000 db_2 = (Inr out, db')"
    using guest_cancels_runs by blast
  show ?thesis
    using cancelling_retracts_own_request [OF db_2_ok run] run by blast
qed

section \<open>Runs\<close>

text \<open>
  C18. Over any run of filings, cancellations and decisions by anybody: the schema of both
  tables holds throughout, so that an item never has two pending requests, no request ever
  disappears, and a request that was approved, rejected or cancelled stays exactly as it is.
\<close>

theorem borrowing_runs_keep_history:
  assumes "borrow_step\<^sup>*\<^sup>* db db'" and "inventory_ok db" and "borrow_ok db"
  shows "inventory_ok db' \<and> borrow_ok db'
    \<and> (\<forall>b\<in>set (borrow_requests db'). \<forall>c\<in>set (borrow_requests db').
         br_inventory_item_id b = br_inventory_item_id c \<and> br_status b = lit ''pending''
         \<and> br_status c = lit ''pending'' \<longrightarrow> b = c)
    \<and> (\<forall>i b. request_row db i = Some b \<longrightarrow> (\<exists>b'. request_row db' i = Some b'
         \<and> (br_status b \<noteq> lit ''pending'' \<longrightarrow> b' = b)))"
proof -
  have k: "(inventory_ok db' \<and> borrow_ok db') \<and> settled_requests_kept db db'"
    using borrowing.run [OF assms(1)] assms(2,3) by blast
  then have "b = c" if "b \<in> set (borrow_requests db')" "c \<in> set (borrow_requests db')"
      "br_inventory_item_id b = br_inventory_item_id c" "br_status b = lit ''pending''"
      "br_status c = lit ''pending''" for b c
    using that unfolding borrow_ok_def pending_clash_def by metis
  with k show ?thesis
    unfolding settled_requests_kept_def by blast
qed

theorem borrowing_runs_keep_history_witness: "borrow_ok db_2"
proof -
  obtain out where "create_borrow_request env_1 guest_ctx 40 None db_1 = (Inr out, db_2)"
    using guest_files_runs by blast
  then have "borrow_step\<^sup>*\<^sup>* db_1 db_2"
    by (intro r_into_rtranclp borrow_step.filed)
  from borrowing_runs_keep_history [OF this db_1_ok db_1_borrow_ok] show ?thesis by blast
qed

section \<open>An approval that cannot succeed\<close>

text \<open>
  C19. Approving a request for a quantity item never succeeds while the laboratory holds a
  borrowed row of the same asset, batch and location: the unique index on quantity aggregates
  refuses the change of status, so the second loan of a batch is answered with an error and the
  database is unchanged.
\<close>

theorem second_loan_of_a_batch_fails:
  assumes "inventory_ok db" and "borrow_ok db" and "request_row db i = Some b"
    and "item_row db (br_inventory_item_id b) = Some r" and "ii_tracking_mode r = lit ''quantity''"
    and "s \<in> set (inventory_items db)" and "ii_inventory_item_id s \<noteq> br_inventory_item_id b"
    and "aggregate_clash (r\<lparr>ii_status := lit ''borrowed''\<rparr>) s"
    and "BorrowRequestStatus_parse decision = Inr Approved"
  shows "\<exists>e. resolve_borrow_request env ctx i decision decision_note db = (Inl e, db)"
proof (cases "resolve_borrow_request env ctx i decision decision_note db")
  case (Pair res db')
  show ?thesis
  proof (cases res)
    case (Inl e)
    then show ?thesis
      using Pair run_handler_Inl by (fastforce simp: resolve_borrow_request_def)
  next
    case (Inr out)
    then obtain row d where t: "resolve_in_transaction env (ctx_actor ctx) (ctx_laboratory_id ctx) i d decision_note db = Inr (row, db')"
        and d: "d = Approved"
      using resolve_handler_Inr [of env ctx i decision decision_note db out db'] Pair assms(9) by auto
    obtain b0 r0 where s: "request_row db i = Some b0" "item_row db (br_inventory_item_id b0) = Some r0"
        "item_row db' (br_inventory_item_id b0) = Some (if d = Approved then mark_borrowed (env_now env) r0 else r0)"
        "\<And>j. j \<noteq> br_inventory_item_id b0 \<Longrightarrow> item_row db' j = item_row db j" "inventory_ok db'"
      by (rule resolve_in_transaction_Inr [OF t assms(1,2)]) blast
    have eq: "b0 = b" "r0 = r"
      using s(1,2) assms(3,4) by auto
    have r': "item_row db' (br_inventory_item_id b) = Some (mark_borrowed (env_now env) r)"
      using s(3) d eq by simp
    have s': "item_row db' (ii_inventory_item_id s) = Some s"
      using s(4) [of "ii_inventory_item_id s"] item_row_mem [OF assms(1,6)] assms(7) eq by simp
    have id: "ii_inventory_item_id r = br_inventory_item_id b"
      using item_row_Some [OF assms(4)] by simp
    have "\<not> aggregate_clash (mark_borrowed (env_now env) r) s"
      using s(5) item_row_Some [OF r'] item_row_Some [OF s'] assms(7) by (auto simp: inventory_ok_def)
    then have False
      using assms(8) by (auto simp: aggregate_clash_def mark_borrowed_def)
    then show ?thesis ..
  qed
qed

definition db_3 :: database where
  "db_3 = db_2\<lparr>inventory_items := inventory_items db_2 @ [stock_row 42 5 0 (lit ''borrowed'')]\<rparr>"

lemma db_3_ok: "inventory_ok db_3" "borrow_ok db_3"
  by code_simp+

theorem second_loan_of_a_batch_fails_witness:
  "\<exists>e. resolve_borrow_request env_1 admin_ctx 1000 (lit ''approved'') None db_3 = (Inl e, db_3)"
proof -
  have rows: "inventory_items db_2 = inventory_items db_1" "map_option br_inventory_item_id (request_row db_2 1000) = Some 40"
    by code_simp+
  then obtain b where b: "request_row db_3 1000 = Some b" "br_inventory_item_id b = 40"
    by (auto simp: db_3_def)
  have r: "item_row db_3 40 = Some (stock_row 40 10 2 (lit ''available''))"
    by (simp add: item_row_def fetch_optional_def db_3_def rows db_1_def stock_row_def)
  show ?thesis
    by (rule second_loan_of_a_batch_fails [OF db_3_ok b(1) r [folded b(2)], of "stock_row 42 5 0 (lit ''borrowed'')"])
      (use borrow_status_name.parse_as_str [of Approved]
        in \<open>simp_all add: stock_row_def db_3_def b(2) aggregate_clash_def\<close>)
qed

end
