(* ===== verification/Locations.thy ===== *)
theory Locations
  imports Path_Tree Handlers
begin

text \<open>
  \<^verbatim>\<open>routes/locations/\<close> and the location types of \<^verbatim>\<open>domain/\<close>: the statements of \<^verbatim>\<open>queries.rs\<close>, the
  flows of \<^verbatim>\<open>service.rs\<close>, the five handlers. \<^verbatim>\<open>LocationDatabaseError\<close> has the cases of
  \<open>db_error\<close> but \<open>DbNotFound\<close>; \<^verbatim>\<open>LocationResponse\<close> has the fields of the row.
\<close>

section \<open>Names and codes\<close>

definition LocationName_parse :: "env \<Rightarrow> rstr \<Rightarrow> (rstr, rstr) result" where
  "LocationName_parse env s =
     (let trimmed = trim s
      in if trimmed = [] \<or> 256 < graphemes_count env trimmed
            \<or> list_ex (\<lambda>c. c \<in> set forbidden_characters) trimmed
         then Inl (s @ lit '' is not a valid location name.'')
         else Inr trimmed)"

definition LocationCode_parse :: "rstr \<Rightarrow> (rstr, rstr) result" where
  "LocationCode_parse s =
     (let code = trim s
      in case code of
           [] \<Rightarrow> Inl (lit ''code is required'')
         | first # chars \<Rightarrow>
             if \<not> is_ascii_lowercase first then Inl (s @ lit '' is not a valid location code.'')
             else if 64 < str_len code \<or> \<not> list_all is_code_char chars
             then Inl (s @ lit '' is not a valid location code.'')
             else Inr code)"

record new_location =
  nl_parent_location_id :: "uuid option"
  nl_name :: rstr
  nl_code :: rstr
  nl_description :: "rstr option"

definition NewLocation_try_from :: "env \<Rightarrow> new_location \<Rightarrow> (rstr, new_location) result" where
  "NewLocation_try_from env p =
     and_then (LocationName_parse env (nl_name p)) (\<lambda>name.
     and_then (LocationCode_parse (nl_code p)) (\<lambda>code.
     Inr (p\<lparr>nl_name := name, nl_code := code\<rparr>)))"

record location_payload =
  lp_parent_location_id :: "uuid option option"
  lp_name :: "rstr option"
  lp_code :: "rstr option"
  lp_description :: "rstr option option"

record location_change =
  ul_parent_location_id :: "uuid nullable_update"
  ul_name :: "rstr option"
  ul_code :: "rstr option"
  ul_description :: "rstr nullable_update"

definition UpdateLocation_try_from :: "env \<Rightarrow> location_payload \<Rightarrow> (rstr, location_change) result" where
  "UpdateLocation_try_from env p =
     and_then (transpose_with (LocationName_parse env) (lp_name p)) (\<lambda>name.
     and_then (transpose_with LocationCode_parse (lp_code p)) (\<lambda>code.
     Inr \<lparr>ul_parent_location_id = into_nullable_update (lp_parent_location_id p), ul_name = name,
          ul_code = code, ul_description = into_nullable_update (lp_description p)\<rparr>))"

section \<open>Errors and constraints of the table\<close>

definition location_name_index :: rstr where "location_name_index = lit ''uq_locations_sibling_name''"
definition location_code_index :: rstr where "location_code_index = lit ''uq_locations_sibling_code''"
definition location_path_index :: rstr where "location_path_index = lit ''uq_locations_path''"

fun map_location_error :: "sql_error \<Rightarrow> db_error" where
  "map_location_error (UniqueViolation constraint) =
     (if constraint = location_name_index
      then DbConflict (lit ''Location name already exists under this parent'')
      else if constraint = location_code_index
      then DbConflict (lit ''Location code already exists under this parent'')
      else if constraint = location_path_index
      then DbConflict (lit ''Location path already exists'')
      else DbConflict (lit ''Location already exists''))"
| "map_location_error ForeignKeyViolation = DbValidation (lit ''Invalid laboratory'')"
| "map_location_error CheckViolation = DbUnexpected (lit ''check violation'')"
| "map_location_error (OtherSqlError e) = DbUnexpected e"

fun map_location_delete_error :: "sql_error \<Rightarrow> db_error" where
  "map_location_delete_error ForeignKeyViolation = DbConflict (lit ''Location is referenced by other records'')"
| "map_location_delete_error e = map_location_error e"

text \<open>
  A written row against the others, in the server's order: the \<^verbatim>\<open>ltree\<close> is formed, the \<^verbatim>\<open>CHECK\<close>s,
  the unique indexes as they were created, the foreign keys.
\<close>

definition same_siblings :: "location_row \<Rightarrow> location_row \<Rightarrow> bool" where
  "same_siblings r s \<longleftrightarrow>
     lo_laboratory_id s = lo_laboratory_id r
     \<and> coalesce (lo_parent_location_id s) 0 = coalesce (lo_parent_location_id r) 0"

definition location_violation :: "env \<Rightarrow> database \<Rightarrow> location_row list \<Rightarrow> location_row \<Rightarrow> sql_error option" where
  "location_violation env db others r =
     (if \<not> ltree_storable env (path_labels (lo_path r)) then Some (OtherSqlError (lit ''invalid ltree''))
      else if lo_name r = [] \<or> \<not> code_check (lo_code r) then Some CheckViolation
      else if \<exists>s\<in>set others. lo_location_id s = lo_location_id r
      then Some (UniqueViolation (lit ''locations_pkey''))
      else if \<exists>s\<in>set others. same_siblings r s \<and> lo_name s = lo_name r
      then Some (UniqueViolation location_name_index)
      else if \<exists>s\<in>set others. same_siblings r s \<and> lo_code s = lo_code r
      then Some (UniqueViolation location_code_index)
      else if \<exists>s\<in>set others. lo_laboratory_id s = lo_laboratory_id r \<and> lo_path s = lo_path r
      then Some (UniqueViolation location_path_index)
      else if \<not> (lo_laboratory_id r \<in> set (laboratories db)
                 \<and> (case lo_parent_location_id r of None \<Rightarrow> True
                    | Some p \<Rightarrow> \<exists>s\<in>set (r # others). lo_location_id s = p))
      then Some ForeignKeyViolation
      else None)"

section \<open>Statements\<close>

definition fetch_location :: "uuid \<Rightarrow> database \<Rightarrow> location_row option" where
  "fetch_location i db = fetch_optional (\<lambda>r. lo_location_id r = i) (locations db)"

definition fetch_location_for_update :: "uuid \<Rightarrow> database \<Rightarrow> location_row option" where
  "fetch_location_for_update i db = fetch_location i db"

text \<open>\<^verbatim>\<open>laboratory_id = $1 AND path <@ $2\<close>.\<close>

definition location_in_tree :: "uuid \<Rightarrow> rstr \<Rightarrow> location_row \<Rightarrow> bool" where
  "location_in_tree lab root_path r \<longleftrightarrow>
     lo_laboratory_id r = lab \<and> prefix (path_labels root_path) (path_labels (lo_path r))"

definition fetch_locations :: "uuid \<Rightarrow> rstr option \<Rightarrow> database \<Rightarrow> location_row list" where
  "fetch_locations lab root_path db =
     sort_key (\<lambda>r. path_labels (lo_path r))
       (filter (\<lambda>r. lo_laboratory_id r = lab
          \<and> (case root_path of None \<Rightarrow> True | Some rt \<Rightarrow> location_in_tree lab rt r)) (locations db))"

definition fetch_location_tree_for_update :: "uuid \<Rightarrow> rstr \<Rightarrow> database \<Rightarrow> location_row list" where
  "fetch_location_tree_for_update lab root_path db =
     sort_key (\<lambda>r. path_labels (lo_path r)) (filter (location_in_tree lab root_path) (locations db))"

definition insert_location ::
    "env \<Rightarrow> uuid \<Rightarrow> uuid \<Rightarrow> uuid option \<Rightarrow> rstr \<Rightarrow> rstr \<Rightarrow> rstr \<Rightarrow> i32 \<Rightarrow> rstr option \<Rightarrow> (db_error, location_row) tx" where
  "insert_location env i lab parent name code path depth description =
     (let row = \<lparr>lo_location_id = i, lo_laboratory_id = lab, lo_parent_location_id = parent, lo_name = name,
          lo_code = code, lo_path = path, lo_depth = depth, lo_description = description,
          lo_created_at = env_now env, lo_updated_at = env_now env\<rparr>
      in tx_bind (tx_map_err map_location_error (tx_write (\<lambda>db.
             case location_violation env db (locations db) row of
               Some e \<Rightarrow> Inl e
             | None \<Rightarrow> Inr (db\<lparr>locations := locations db @ [row]\<rparr>))))
           (\<lambda>_. tx_return row))"

definition place_location ::
    "uuid option \<Rightarrow> rstr \<Rightarrow> rstr \<Rightarrow> rstr \<Rightarrow> i32 \<Rightarrow> rstr option \<Rightarrow> int \<Rightarrow> location_row \<Rightarrow> location_row" where
  "place_location parent name code path depth description now r =
     r\<lparr>lo_parent_location_id := parent, lo_name := name, lo_code := code, lo_path := path,
       lo_depth := depth, lo_description := description, lo_updated_at := now\<rparr>"

definition update_location_in_database ::
    "env \<Rightarrow> uuid \<Rightarrow> uuid option \<Rightarrow> rstr \<Rightarrow> rstr \<Rightarrow> rstr \<Rightarrow> i32 \<Rightarrow> rstr option \<Rightarrow> (db_error, location_row) tx" where
  "update_location_in_database env i parent name code path depth description =
     tx_bind (tx_map_err map_location_error (tx_write (\<lambda>db.
         and_then (write_row (location_violation env db) lo_location_id
             (place_location parent name code path depth description (env_now env)) i (locations db))
           (\<lambda>rows. Inr (db\<lparr>locations := rows\<rparr>)))))
       (\<lambda>_. tx_read (\<lambda>db. ok_or (DbUnexpected (lit ''no rows returned'')) (fetch_location i db)))"

text \<open>
  \<^verbatim>\<open>$2::ltree || subpath(path, nlevel($3::ltree))\<close> and the depth that follows from it. The rows
  are chosen before any is written.
\<close>

definition rehang_location :: "env \<Rightarrow> rstr list \<Rightarrow> rstr list \<Rightarrow> location_row \<Rightarrow> location_row" where
  "rehang_location env old_path new_path r =
     (let path = new_path @ drop (length old_path) (path_labels (lo_path r))
      in r\<lparr>lo_path := path_text path, lo_depth := word_of_nat (length path) - 1,
           lo_updated_at := env_now env\<rparr>)"

definition update_descendant_paths :: "env \<Rightarrow> uuid \<Rightarrow> uuid \<Rightarrow> rstr \<Rightarrow> rstr \<Rightarrow> (db_error, unit) tx" where
  "update_descendant_paths env lab i old_path new_path =
     tx_map_err map_location_error (tx_write (\<lambda>db.
       and_then (ltree_cast env new_path) (\<lambda>new_labels.
       and_then (ltree_cast env old_path) (\<lambda>old_labels.
       let ids = map lo_location_id
             (filter (\<lambda>r. location_in_tree lab old_path r \<and> lo_location_id r \<noteq> i) (locations db))
       in and_then (write_rows (location_violation env db) lo_location_id
              (rehang_location env old_labels new_labels) ids (locations db))
            (\<lambda>rows. Inr (db\<lparr>locations := rows\<rparr>))))))"

text \<open>The items in a tree of locations.\<close>

definition stored_in_tree :: "database \<Rightarrow> uuid \<Rightarrow> rstr \<Rightarrow> inventory_row \<Rightarrow> bool" where
  "stored_in_tree db lab root_path item \<longleftrightarrow>
     ii_laboratory_id item = lab
     \<and> (\<exists>r\<in>set (locations db). location_in_tree lab root_path r \<and> ii_location_id item = Some (lo_location_id r))"

definition fetch_inventory_item_ids_in_tree :: "uuid \<Rightarrow> rstr \<Rightarrow> database \<Rightarrow> uuid list" where
  "fetch_inventory_item_ids_in_tree lab root_path db =
     sort (map ii_inventory_item_id (filter (stored_in_tree db lab root_path) (inventory_items db)))"

definition clear_location :: "int \<Rightarrow> inventory_row \<Rightarrow> inventory_row" where
  "clear_location now item = item\<lparr>ii_location_id := None, ii_updated_at := now\<rparr>"

fun clear_each :: "int \<Rightarrow> uuid list \<Rightarrow> database \<Rightarrow> (sql_error, database) result" where
  "clear_each now [] db = Inr db"
| "clear_each now (i # is) db = and_then (update_row_by_id i (clear_location now) db) (clear_each now is)"

definition clear_inventory_item_locations_in_tree :: "env \<Rightarrow> uuid \<Rightarrow> rstr \<Rightarrow> (db_error, unit) tx" where
  "clear_inventory_item_locations_in_tree env lab root_path =
     tx_map_err map_location_error (tx_write (\<lambda>db.
       clear_each (env_now env)
         (map ii_inventory_item_id (filter (stored_in_tree db lab root_path) (inventory_items db))) db))"

definition delete_location_tree :: "uuid \<Rightarrow> rstr \<Rightarrow> (db_error, unit) tx" where
  "delete_location_tree lab root_path =
     tx_map_err map_location_delete_error (tx_write (\<lambda>db.
       let gone = filter (location_in_tree lab root_path) (locations db);
           kept = filter (\<lambda>r. \<not> location_in_tree lab root_path r) (locations db);
           names_gone = (\<lambda>p. case p of None \<Rightarrow> False | Some i \<Rightarrow> i \<in> lo_location_id ` set gone)
       in if (\<exists>r\<in>set kept. names_gone (lo_parent_location_id r))
             \<or> (\<exists>item\<in>set (inventory_items db). names_gone (ii_location_id item))
          then Inl ForeignKeyViolation
          else Inr (db\<lparr>locations := kept\<rparr>)))"

section \<open>Flows\<close>

text \<open>The depth of a child is an \<^verbatim>\<open>i32\<close> addition.\<close>

fun build_path_and_depth :: "location_row option \<Rightarrow> rstr \<Rightarrow> rstr \<times> i32" where
  "build_path_and_depth (Some parent) code = (lo_path parent @ lit ''.'' @ code, lo_depth parent + 1)"
| "build_path_and_depth None code = (code, 0)"

fun resolve_new_parent :: "uuid \<Rightarrow> uuid option \<Rightarrow> (db_error, location_row option) tx" where
  "resolve_new_parent lab None = tx_return None"
| "resolve_new_parent lab (Some parent_location_id) =
     tx_bind (tx_read (\<lambda>db. ok_or (DbValidation (lit ''Parent location not found''))
         (fetch_location_for_update parent_location_id db))) (\<lambda>parent.
     tx_bind (tx_lift (ensure (lo_laboratory_id parent = lab)
         (DbValidation (lit ''Parent location does not belong to this laboratory'')))) (\<lambda>_.
     tx_return (Some parent)))"

fun resolve_moved_parent :: "location_row \<Rightarrow> uuid option \<Rightarrow> (db_error, location_row option) tx" where
  "resolve_moved_parent existing None = tx_return None"
| "resolve_moved_parent existing (Some parent_location_id) =
     tx_bind (tx_lift (ensure (parent_location_id \<noteq> lo_location_id existing)
         (DbValidation (lit ''Location cannot be moved under itself'')))) (\<lambda>_.
     tx_bind (tx_read (\<lambda>db. ok_or (DbValidation (lit ''Parent location not found''))
         (fetch_location_for_update parent_location_id db))) (\<lambda>parent.
     tx_bind (tx_lift (ensure (lo_laboratory_id parent = lo_laboratory_id existing)
         (DbValidation (lit ''Parent location does not belong to this laboratory'')))) (\<lambda>_.
     tx_bind (tx_lift (ensure (\<not> path_is_self_or_descendant (lo_path parent) (lo_path existing))
         (DbValidation (lit ''Location cannot be moved under one of its descendants'')))) (\<lambda>_.
     tx_return (Some parent)))))"

definition move_location ::
    "env \<Rightarrow> location_row \<Rightarrow> uuid option \<Rightarrow> rstr \<Rightarrow> rstr \<Rightarrow> rstr \<Rightarrow> i32 \<Rightarrow> rstr option \<Rightarrow> (db_error, location_row) tx" where
  "move_location env existing parent name code path depth description =
     tx_bind (update_location_in_database env (lo_location_id existing) parent name code path depth description)
       (\<lambda>updated.
     tx_bind (if lo_path updated \<noteq> lo_path existing \<or> lo_depth updated \<noteq> lo_depth existing
              then update_descendant_paths env (lo_laboratory_id existing) (lo_location_id existing)
                     (lo_path existing) (lo_path updated)
              else tx_return ()) (\<lambda>_.
     tx_return updated))"

definition delete_location_subtree :: "env \<Rightarrow> uuid \<Rightarrow> rstr \<Rightarrow> (db_error, uuid list) tx" where
  "delete_location_subtree env lab root_path =
     tx_bind (tx_read (\<lambda>db. Inr (fetch_inventory_item_ids_in_tree lab root_path db))) (\<lambda>cleared.
     tx_bind (clear_inventory_item_locations_in_tree env lab root_path) (\<lambda>_.
     tx_bind (delete_location_tree lab root_path) (\<lambda>_.
     tx_return cleared)))"

section \<open>Handlers\<close>

definition location_not_found :: handler_error where
  "location_not_found = NotFound (lit ''Location not found'')"

definition create_location_in_transaction ::
    "env \<Rightarrow> laboratory_context \<Rightarrow> new_location \<Rightarrow> (handler_error, location_row) tx" where
  "create_location_in_transaction env ctx new =
     tx_bind (tx_map_err from_db_error
         (resolve_new_parent (ctx_laboratory_id ctx) (nl_parent_location_id new))) (\<lambda>parent.
     let (path, depth) = build_path_and_depth parent (nl_code new) in
     tx_bind (tx_map_err from_db_error (insert_location env (env_new_v4 env 0) (ctx_laboratory_id ctx)
         (nl_parent_location_id new) (nl_name new) (nl_code new) path depth (nl_description new))) (\<lambda>location.
     tx_bind (unexpected (record_audit (actor_user_id (ctx_actor ctx)) Audit_Create Res_Location
         (Some (lo_location_id location)) (Details_create_location (lo_location_id location)))) (\<lambda>_.
     tx_return location)))"

definition create_location ::
    "env \<Rightarrow> laboratory_context \<Rightarrow> new_location \<Rightarrow> database \<Rightarrow> (handler_error, location_row) result \<times> database" where
  "create_location env ctx payload db =
     run_handler
       (and_then (require_permission env (ctx_actor ctx) Location_resource
            (Create (ctx_laboratory_id ctx)) (lit ''You don't have permission to create locations.'') db) (\<lambda>_.
          map_err ValidationError (NewLocation_try_from env payload)))
       (create_location_in_transaction env ctx) db"

definition update_location_in_transaction ::
    "env \<Rightarrow> laboratory_context \<Rightarrow> uuid \<Rightarrow> location_change \<Rightarrow> (handler_error, location_row) tx" where
  "update_location_in_transaction env ctx location_id update =
     tx_bind (tx_read (\<lambda>db. ok_or location_not_found (fetch_location_for_update location_id db))) (\<lambda>existing.
     let name = coalesce (ul_name update) (lo_name existing);
         code = coalesce (ul_code update) (lo_code existing);
         parent_location_id = resolve_update (ul_parent_location_id update) (lo_parent_location_id existing);
         description = resolve_update (ul_description update) (lo_description existing)
     in
     tx_bind (tx_map_err from_db_error (resolve_moved_parent existing parent_location_id)) (\<lambda>parent.
     let (path, depth) = build_path_and_depth parent code in
     tx_bind (tx_map_err from_db_error
         (move_location env existing parent_location_id name code path depth description)) (\<lambda>updated.
     tx_bind (unexpected (record_audit (actor_user_id (ctx_actor ctx)) Audit_Update Res_Location
         (Some (lo_location_id updated)) (Details_update_location existing))) (\<lambda>_.
     tx_return updated))))"

definition update_location ::
    "env \<Rightarrow> laboratory_context \<Rightarrow> uuid \<Rightarrow> location_payload \<Rightarrow> database
       \<Rightarrow> (handler_error, location_row) result \<times> database" where
  "update_location env ctx location_id payload db =
     run_handler
       (and_then (require_permission_or env (authorization_actor ctx) Location_resource
            (Update location_id) location_not_found db) (\<lambda>_.
          map_err ValidationError (UpdateLocation_try_from env payload)))
       (update_location_in_transaction env ctx location_id) db"

definition delete_location_in_transaction ::
    "env \<Rightarrow> laboratory_context \<Rightarrow> uuid \<Rightarrow> (handler_error, unit) tx" where
  "delete_location_in_transaction env ctx location_id =
     tx_bind (tx_read (\<lambda>db. ok_or location_not_found (fetch_location_for_update location_id db))) (\<lambda>existing.
     tx_bind (tx_read (\<lambda>db. Inr (fetch_location_tree_for_update (lo_laboratory_id existing) (lo_path existing) db)))
       (\<lambda>tree.
     tx_bind (tx_map_err from_db_error
         (delete_location_subtree env (lo_laboratory_id existing) (lo_path existing))) (\<lambda>cleared.
     unexpected (record_audit (actor_user_id (ctx_actor ctx)) Audit_Delete Res_Location
         (Some (lo_location_id existing)) (Details_delete_locations tree cleared)))))"

definition delete_location ::
    "env \<Rightarrow> laboratory_context \<Rightarrow> uuid \<Rightarrow> database \<Rightarrow> (handler_error, unit) result \<times> database" where
  "delete_location env ctx location_id db =
     run_handler
       (require_permission env (authorization_actor ctx) Location_resource
          (Delete location_id) (lit ''You are not allowed to delete this location.'') db)
       (\<lambda>_. delete_location_in_transaction env ctx location_id) db"

definition get_location ::
    "env \<Rightarrow> laboratory_context \<Rightarrow> uuid \<Rightarrow> database \<Rightarrow> (handler_error, location_row) result" where
  "get_location env ctx location_id db =
     and_then (require_permission_or env (authorization_actor ctx) Location_resource
         (Read location_id) location_not_found db) (\<lambda>_.
     ok_or location_not_found (fetch_location location_id db))"

definition root_not_found :: handler_error where
  "root_not_found = NotFound (lit ''Root location not found'')"

definition list_locations ::
    "env \<Rightarrow> laboratory_context \<Rightarrow> uuid option \<Rightarrow> database \<Rightarrow> (handler_error, location_row list) result" where
  "list_locations env ctx root_location_id db =
     and_then (require_permission env (ctx_actor ctx) Location_resource (Browse (ctx_laboratory_id ctx))
         (lit ''You don't have permission to view locations.'') db) (\<lambda>_.
     and_then (case root_location_id of
           Some i \<Rightarrow>
             and_then (ok_or root_not_found (fetch_location i db)) (\<lambda>found.
             and_then (ensure (lo_laboratory_id found = ctx_laboratory_id ctx) root_not_found) (\<lambda>_.
             Inr (Some (lo_path found))))
         | None \<Rightarrow> Inr None) (\<lambda>root_path.
     Inr (fetch_locations (ctx_laboratory_id ctx) root_path db)))"

end
