(* ===== verification/Location_Tree.thy ===== *)
theory Location_Tree
  imports Locations
begin

text \<open>
  The table of locations as a tree: the invariant \<open>location_tree_ok\<close>, what the statements do to
  the nodes, and that creating, moving and deleting locations keeps the invariant.
\<close>

definition location_node :: "location_row \<Rightarrow> node" where
  "location_node r = \<lparr>nd_id = lo_location_id r, nd_laboratory_id = lo_laboratory_id r,
     nd_parent_id = lo_parent_location_id r, nd_code = lo_code r, nd_path = path_labels (lo_path r),
     nd_depth = lo_depth r\<rparr>"

definition location_tree_ok :: "database \<Rightarrow> bool" where
  "location_tree_ok db \<longleftrightarrow> tree_ok (map location_node (locations db))"

lemma location_node_simps [simp]:
  "nd_id (location_node r) = lo_location_id r" "nd_laboratory_id (location_node r) = lo_laboratory_id r"
  "nd_parent_id (location_node r) = lo_parent_location_id r" "nd_code (location_node r) = lo_code r"
  "nd_path (location_node r) = path_labels (lo_path r)" "nd_depth (location_node r) = lo_depth r"
  by (simp_all add: location_node_def)

interpretation loc: tree_table location_node "rehang_location env" for env
proof
  fix new old :: "rstr list" and r
  assume "new \<noteq> []" "\<forall>l\<in>set new. 46 \<notin> set l"
  from rehang_labels [OF this]
  show "location_node (rehang_location env old new r) = (location_node r)
          \<lparr>nd_path := rehang old new (nd_path (location_node r)),
           nd_depth := depth_of (rehang old new (nd_path (location_node r)))\<rparr>"
    by (simp add: rehang_location_def location_node_def depth_of_def Let_def rehang_def)
qed

section \<open>Reading\<close>

lemma location_tree_ids: "location_tree_ok db \<Longrightarrow> distinct (map lo_location_id (locations db))"
  by (simp add: location_tree_ok_def tree_ok_def o_def)

lemma fetch_location_Some: "fetch_location i db = Some r \<Longrightarrow> r \<in> set (locations db) \<and> lo_location_id r = i"
  unfolding fetch_location_def by (rule fetch_optional_Some)

lemma fetch_location_mem:
  "location_tree_ok db \<Longrightarrow> r \<in> set (locations db) \<Longrightarrow> fetch_location (lo_location_id r) db = Some r"
  unfolding fetch_location_def by (rule fetch_optional_unique [OF location_tree_ids])

lemma location_row_ok:
  assumes "location_tree_ok db" and "r \<in> set (locations db)"
  shows "code_check (lo_code r)" and "lo_depth r = depth_of (path_labels (lo_path r))"
    and "hangs (map location_node (locations db)) (location_node r)"
  using tree_ok_node [OF assms(1) [unfolded location_tree_ok_def], of "location_node r"] assms(2) by simp_all

lemma location_in_tree_node: "location_in_tree lab p r = in_tree lab (path_labels p) (location_node r)"
  by (simp add: location_in_tree_def in_tree_def)

section \<open>Placing\<close>

text \<open>Where \<open>build_path_and_depth\<close> puts a location is below its parent.\<close>

lemma built_path:
  assumes "build_path_and_depth parent code = (path, depth)" and "code_check code"
    and "\<And>m. parent = Some m \<Longrightarrow> lo_depth m = depth_of (path_labels (lo_path m))"
  shows "path_labels path = (case parent of None \<Rightarrow> [] | Some m \<Rightarrow> path_labels (lo_path m)) @ [code]"
    and "depth = depth_of (path_labels path)"
  using assms code_check_no_dot [OF assms(2)]
  by (cases parent; auto simp: lit_def path_labels_dot path_labels_plain depth_of_snoc depth_of_def)+

lemma location_violation_None:
  assumes "location_violation env db others r = None"
  shows "code_check (lo_code r)" and "lo_name r \<noteq> []" and "lo_laboratory_id r \<in> set (laboratories db)"
    and "\<And>s. s \<in> set others \<Longrightarrow> lo_location_id s \<noteq> lo_location_id r"
    and "\<And>s. s \<in> set others \<Longrightarrow> lo_laboratory_id s = lo_laboratory_id r \<Longrightarrow> lo_path s \<noteq> lo_path r"
    and "ltree_storable env (path_labels (lo_path r))"
  using assms by (auto simp: location_violation_def split: if_splits)

lemma resolve_new_parent_Inr:
  assumes "resolve_new_parent lab p db = Inr (parent, db')"
  shows "db' = db" and "p = map_option lo_location_id parent"
    and "parent = Some m \<Longrightarrow> m \<in> set (locations db) \<and> lo_laboratory_id m = lab"
  using assms
  by (cases p; auto simp: tx_unfold ok_or_Inr_iff ensure_Inr_iff fetch_location_for_update_def
      dest!: fetch_location_Some)+

lemma resolve_moved_parent_Inr:
  assumes "resolve_moved_parent x p db = Inr (parent, db')"
  shows "db' = db" and "p = map_option lo_location_id parent"
    and "parent = Some m \<Longrightarrow> m \<in> set (locations db) \<and> lo_laboratory_id m = lo_laboratory_id x
           \<and> \<not> prefix (path_labels (lo_path x)) (path_labels (lo_path m))"
  using assms
  by (cases p; auto simp: tx_unfold ok_or_Inr_iff ensure_Inr_iff fetch_location_for_update_def path_test_prefix
      dest!: fetch_location_Some)+

section \<open>Creating\<close>

lemma insert_location_Inr:
  "insert_location env i lab parent name code path depth description db = Inr (row, db') \<longleftrightarrow>
     row = \<lparr>lo_location_id = i, lo_laboratory_id = lab, lo_parent_location_id = parent, lo_name = name,
       lo_code = code, lo_path = path, lo_depth = depth, lo_description = description,
       lo_created_at = env_now env, lo_updated_at = env_now env\<rparr>
     \<and> location_violation env db (locations db) row = None
     \<and> db' = db\<lparr>locations := locations db @ [row]\<rparr>"
  by (auto simp: insert_location_def tx_unfold Let_def split: option.splits)

lemma created_tree_ok:
  assumes ok: "location_tree_ok db"
    and parent: "resolve_new_parent lab p db = Inr (parent, db1)"
    and path: "build_path_and_depth parent code = (path, depth)"
    and ins: "insert_location env i lab p name code path depth description db1 = Inr (row, db')"
  shows "location_tree_ok db'" and "locations db' = locations db @ [row]"
    and "path_labels (lo_path row) = (case parent of None \<Rightarrow> [] | Some m \<Rightarrow> path_labels (lo_path m)) @ [code]"
proof -
  note par = resolve_new_parent_Inr [OF parent]
  from ins have row: "lo_location_id row = i" "lo_laboratory_id row = lab" "lo_parent_location_id row = p"
      "lo_code row = code" "lo_path row = path" "lo_depth row = depth"
      and none: "location_violation env db (locations db) row = None"
      and db': "db' = db\<lparr>locations := locations db @ [row]\<rparr>"
    by (auto simp: insert_location_Inr par(1))
  note viol = location_violation_None [OF none]
  have code: "code_check code"
    using viol(1) by (simp add: row)
  have pd: "lo_depth m = depth_of (path_labels (lo_path m))" if "parent = Some m" for m
    using location_row_ok(2) [OF ok] par(3) [OF that] by blast
  note built = built_path [OF path code pd]
  show "locations db' = locations db @ [row]"
    by (simp add: db')
  show labels: "path_labels (lo_path row) = (case parent of None \<Rightarrow> [] | Some m \<Rightarrow> path_labels (lo_path m)) @ [code]"
    by (simp add: row built(1))
  have "hangs (map location_node (locations db)) (location_node row)"
  proof (cases parent)
    case None
    with par(2) labels row show ?thesis
      by (simp add: hangs_def)
  next
    case (Some m)
    with par(2,3) labels row show ?thesis
      by (intro hangs_child [of "location_node m"]) simp_all
  qed
  then show "location_tree_ok db'"
    unfolding location_tree_ok_def db'
    using tree_insert [OF ok [unfolded location_tree_ok_def], of "location_node row"] viol(1,4,5) built(2) row
    by (fastforce simp: image_iff)
qed

section \<open>Moving\<close>

lemma place_location_id [simp]:
  "lo_location_id (place_location p name code path depth d now r) = lo_location_id r"
  "lo_laboratory_id (place_location p name code path depth d now r) = lo_laboratory_id r"
  by (simp_all add: place_location_def)

interpretation place: row_update lo_location_id "place_location p name code path depth d now"
    for p name code path depth d now
  by unfold_locales simp

lemma rehang_location_keeps [simp]:
  "lo_location_id (rehang_location env old new r) = lo_location_id r"
  "lo_laboratory_id (rehang_location env old new r) = lo_laboratory_id r"
  "lo_parent_location_id (rehang_location env old new r) = lo_parent_location_id r"
  "lo_name (rehang_location env old new r) = lo_name r"
  "lo_code (rehang_location env old new r) = lo_code r"
  "lo_description (rehang_location env old new r) = lo_description r"
  by (simp_all add: rehang_location_def Let_def)

interpretation rehang: row_update lo_location_id "rehang_location env old new" for env old new
  by unfold_locales simp

lemma update_location_Inr:
  assumes "update_location_in_database env i p name code path depth d db = Inr (updated, db1)"
    and ok: "location_tree_ok db" and x: "fetch_location i db = Some x"
  defines "place \<equiv> place_location p name code path depth d (env_now env)"
  shows "updated = place x"
    and "db1 = db\<lparr>locations := update_rows (\<lambda>r. lo_location_id r = i) place (locations db)\<rparr>"
    and "location_violation env db (filter (\<lambda>s. lo_location_id s \<noteq> i) (locations db)) (place x) = None"
proof -
  from assms(1) obtain rows where w: "write_row (location_violation env db) lo_location_id place i (locations db) = Inr rows"
      and db1: "db1 = db\<lparr>locations := rows\<rparr>" and f: "fetch_location i db1 = Some updated"
    by (auto simp: update_location_in_database_def tx_unfold and_then_Inr_iff ok_or_Inr_iff place_def)
  note rows = write_row_Inr [OF w]
  show "db1 = db\<lparr>locations := update_rows (\<lambda>r. lo_location_id r = i) place (locations db)\<rparr>"
    by (simp add: db1 rows)
  show "updated = place x"
    using f x place.read_back [of i] by (simp add: db1 rows fetch_location_def place_def)
  show "location_violation env db (filter (\<lambda>s. lo_location_id s \<noteq> i) (locations db)) (place x) = None"
    using w x by (auto simp: write_row_def fetch_location_def split: option.splits)
qed

lemma update_descendant_paths_Inr:
  assumes "update_descendant_paths env lab i old new db = Inr (u, db')" and ok: "distinct (map lo_location_id (locations db))"
  shows "db' = db\<lparr>locations := update_rows (\<lambda>r. location_in_tree lab old r \<and> lo_location_id r \<noteq> i)
           (rehang_location env (path_labels old) (path_labels new)) (locations db)\<rparr>"
    and "\<And>r. r \<in> set (locations db) \<Longrightarrow> location_in_tree lab old r \<Longrightarrow> lo_location_id r \<noteq> i
           \<Longrightarrow> ltree_storable env (path_labels (lo_path (rehang_location env (path_labels old) (path_labels new) r)))"
proof -
  let ?p = "\<lambda>r. location_in_tree lab old r \<and> lo_location_id r \<noteq> i"
  let ?f = "rehang_location env (path_labels old) (path_labels new)"
  from assms(1) obtain rows where w: "write_rows (location_violation env db) lo_location_id ?f
        (map lo_location_id (filter ?p (locations db))) (locations db) = Inr rows"
      and db': "db' = db\<lparr>locations := rows\<rparr>"
    by (auto simp: update_descendant_paths_def tx_unfold and_then_Inr_iff ltree_cast_def Let_def split: if_splits)
  note written = write_selected_rows [OF w, OF ok, OF rehang_location_keeps(1)]
  show "db' = db\<lparr>locations := update_rows ?p ?f (locations db)\<rparr>"
    using written(1) by (simp add: db')
  show "ltree_storable env (path_labels (lo_path (?f r)))"
    if "r \<in> set (locations db)" "location_in_tree lab old r" "lo_location_id r \<noteq> i" for r
    using written(2) [OF that(1)] that(2,3) location_violation_None(6) by blast
qed

lemma moved_tree:
  assumes ok: "location_tree_ok db" and x: "fetch_location i db = Some x"
    and parent: "resolve_moved_parent x p db = Inr (parent, db1)"
    and path: "build_path_and_depth parent code = (path, depth)"
    and move: "move_location env x p name code path depth d db1 = Inr (updated, db')"
  shows "map location_node (locations db')
           = map (move_node (location_node x) p code (path_labels path)) (map location_node (locations db))"
    and "location_tree_ok db'" and "updated = place_location p name code path depth d (env_now env) x"
    and "fetch_location i db' = Some updated" and "\<exists>rows. db' = db\<lparr>locations := rows\<rparr>"
    and "\<forall>r\<in>set (locations db'). r \<in> set (locations db) \<or> ltree_storable env (path_labels (lo_path r))"
proof -
  let ?place = "place_location p name code path depth d (env_now env)"
  note par = resolve_moved_parent_Inr [OF parent]
  note xm = fetch_location_Some [OF x]
  from move obtain db2 where upd: "update_location_in_database env i p name code path depth d db = Inr (updated, db2)"
      and rest: "(if lo_path updated \<noteq> lo_path x \<or> lo_depth updated \<noteq> lo_depth x
            then update_descendant_paths env (lo_laboratory_id x) i (lo_path x) (lo_path updated)
            else tx_return ()) db2 = Inr ((), db')"
    using xm by (auto simp: move_location_def tx_unfold par(1))
  note u = update_location_Inr [OF upd ok x]
  show updated: "updated = ?place x"
    by (rule u(1))
  have up: "lo_path updated = path" "lo_depth updated = depth"
    by (simp_all add: updated place_location_def)
  note viol = location_violation_None [OF u(3)]
  have code: "code_check code"
    using viol(1) by (simp add: place_location_def)
  have pd: "lo_depth m = depth_of (path_labels (lo_path m))" if "parent = Some m" for m
    using location_row_ok(2) [OF ok] par(3) [OF that] by blast
  note built = built_path [OF path code pd]
  have tree: "tree_ok (map location_node (locations db))"
    using ok by (simp add: location_tree_ok_def)
  have legal: "legal_place (map location_node (locations db)) (location_node x) p code (path_labels path)"
  proof (rule legal_placeI [where q = "map_option location_node parent"])
    fix n
    assume "n \<in> set (map location_node (locations db))" "nd_id n \<noteq> nd_id (location_node x)"
      "nd_laboratory_id n = nd_laboratory_id (location_node x)"
    then show "nd_path n \<noteq> path_labels path"
      using viol(5) xm by (auto simp: place_location_def)
  qed (use code par(2,3) built(1) in \<open>auto simp: option.map_comp o_def split: option.splits\<close>)
  have eq: "location_node (?place x) = (location_node x)\<lparr>nd_parent_id := p, nd_code := code,
      nd_path := path_labels path, nd_depth := depth_of (path_labels path)\<rparr>"
    by (simp add: location_node_def place_location_def built(2))
  have i: "i = lo_location_id x"
    using xm by simp
  have no_dots: "\<forall>l\<in>set (path_labels path). 46 \<notin> set l"
    using path_labels_no_dot by blast
  let ?rows1 = "update_rows (\<lambda>r. lo_location_id r = i) ?place (locations db)"
  let ?below = "\<lambda>r. location_in_tree (lo_laboratory_id x) (lo_path x) r \<and> lo_location_id r \<noteq> i"
  let ?rehang = "rehang_location env (path_labels (lo_path x)) (path_labels path)"
  let ?fits = "\<lambda>r. ltree_storable env (path_labels (lo_path r))"
  have two: "(db' = db\<lparr>locations := ?rows1\<rparr> \<and> path = lo_path x)
    \<or> (db' = db\<lparr>locations := update_rows ?below ?rehang ?rows1\<rparr>
       \<and> (\<forall>r\<in>set ?rows1. ?below r \<longrightarrow> ?fits (?rehang r)))"
  proof (cases "lo_path updated \<noteq> lo_path x \<or> lo_depth updated \<noteq> lo_depth x")
    case True
    with rest have d: "update_descendant_paths env (lo_laboratory_id x) i (lo_path x) path db2 = Inr ((), db')"
      by (simp add: up)
    have "distinct (map lo_location_id (locations db2))"
      using location_tree_ids [OF ok] by (simp add: u(2) place.distinct_keys)
    from update_descendant_paths_Inr [OF d this] show ?thesis
      by (simp add: u(2))
  next
    case False
    with rest u(2) up show ?thesis
      by (simp add: tx_unfold)
  qed
  then show "\<exists>rows. db' = db\<lparr>locations := rows\<rparr>"
    by blast
  have fit: "?fits (?place x)"
    using viol(6) .
  from two have "(locations db' = ?rows1 \<and> path_labels path = path_labels (lo_path x))
    \<or> (locations db' = update_rows ?below ?rehang ?rows1 \<and> (\<forall>r\<in>set ?rows1. ?below r \<longrightarrow> ?fits (?rehang r)))"
    by auto
  note moved = loc.moved_table [where place = ?place and fits = ?fits and env = env, OF tree conjunct1 [OF xm] legal
      no_dots eq fit, unfolded location_node_simps, folded location_in_tree_node i, OF this]
  show "map location_node (locations db')
      = map (move_node (location_node x) p code (path_labels path)) (map location_node (locations db))"
    by (rule moved(1))
  show "location_tree_ok db'"
    unfolding location_tree_ok_def by (rule moved(2))
  show "\<forall>r\<in>set (locations db'). r \<in> set (locations db) \<or> ?fits r"
    by (rule moved(3))
  show "fetch_location i db' = Some updated"
    using moved(4) by (simp add: fetch_location_def updated)
qed

end
