(* ===== verification/Location_Delete.thy ===== *)
theory Location_Delete
  imports Location_Tree
begin

text \<open>
  Deleting a location with everything below it: what happens to the tree and to the items that
  were stored in it, and why a deletion can fail on the uniqueness of stock rows.
\<close>

section \<open>Clearing the locations of items\<close>

lemma clear_location_keeps [simp]:
  "ii_inventory_item_id (clear_location now r) = ii_inventory_item_id r"
  "ii_location_id (clear_location now r) = None"
  "ii_laboratory_id (clear_location now r) = ii_laboratory_id r"
  by (simp_all add: clear_location_def)

interpretation clear: row_update ii_inventory_item_id "clear_location now" for now
  by unfold_locales simp

lemma clear_location_checks:
  "inventory_checks (clear_location now r) = inventory_checks r"
  "serial_clash (clear_location now r) s = serial_clash r s"
  "references_ok db r \<Longrightarrow> references_ok db (clear_location now r)"
  unfolding inventory_checks_def serial_clash_def references_ok_def clear_location_def by simp_all

text \<open>One row after the other succeeds as the one statement over all of them.\<close>

lemma clear_row_eq:
  assumes "update_row_by_id i (clear_location now) db = Inr db'"
  shows "db' = db\<lparr>inventory_items :=
    update_rows (\<lambda>r. ii_inventory_item_id r = i) (clear_location now) (inventory_items db)\<rparr>"
proof (cases "item_row db i")
  case None
  then have "update_rows (\<lambda>r. ii_inventory_item_id r = i) (clear_location now) (inventory_items db) = inventory_items db"
    by (intro update_rows_id) (simp add: item_row_def fetch_optional_None)
  with None assms show ?thesis
    by (simp add: update_row_by_id_Inr)
qed (use assms in \<open>simp add: update_row_by_id_Inr\<close>)

lemma clear_each_Inr:
  assumes "clear_each now ids db = Inr db'" and "inventory_ok db" and "distinct ids"
  shows "db' = db\<lparr>inventory_items :=
           update_rows (\<lambda>r. ii_inventory_item_id r \<in> set ids) (clear_location now) (inventory_items db)\<rparr>"
    and "inventory_ok db'"
  using assms
proof (induction ids arbitrary: db)
  case Nil
  {
    case 1
    then show ?case by (simp add: update_rows_def)
  next
    case 2
    then show ?case by simp
  }
next
  case (Cons i ids)
  {
    case 1
    then obtain mid where mid: "update_row_by_id i (clear_location now) db = Inr mid"
        and rest: "clear_each now ids mid = Inr db'"
      by (auto simp: and_then_Inr_iff)
    have "inventory_ok mid"
      by (rule update_row_by_id_ok [OF 1(2) mid clear.row_update_axioms])
    from Cons.IH(1) [OF rest this] 1(3) clear_row_eq [OF mid] show ?case
      by (auto simp: update_rows_def intro!: arg_cong [where f = "\<lambda>x. inventory_items_update (\<lambda>_. x) db"])
  next
    case 2
    then obtain mid where mid: "update_row_by_id i (clear_location now) db = Inr mid"
        and rest: "clear_each now ids mid = Inr db'"
      by (auto simp: and_then_Inr_iff)
    have "inventory_ok mid"
      by (rule update_row_by_id_ok [OF 2(2) mid clear.row_update_axioms])
    from Cons.IH(2) [OF rest this] 2(3) show ?case
      by simp
  }
qed

text \<open>It can only fail on the index of stock rows.\<close>

lemma clear_row_error:
  assumes ok: "inventory_ok db" and "update_row_by_id i (clear_location now) db = Inl e"
  shows "e = UniqueViolation aggregate_index"
proof -
  let ?others = "filter (\<lambda>s. ii_inventory_item_id s \<noteq> i) (inventory_items db)"
  from assms(2) obtain r where r: "item_row db i = Some r"
      and e: "constraint_error db ?others (clear_location now r) = Some e"
    by (auto simp: update_row_by_id_def item_row_def split: option.splits)
  note rm = item_row_Some [OF r]
  have "inventory_checks (clear_location now r)" "references_ok db (clear_location now r)"
    using inventory_ok_row [OF ok conjunct1 [OF rm]] by (simp_all add: clear_location_checks)
  moreover have "\<not> serial_clash (clear_location now r) s" if "s \<in> set ?others" for s
    using ok that rm by (auto simp: clear_location_checks inventory_ok_def)
  moreover have "ii_inventory_item_id s \<noteq> ii_inventory_item_id (clear_location now r)" if "s \<in> set ?others" for s
    using that rm by auto
  ultimately show ?thesis
    using e by (auto simp: constraint_error_def split: if_splits)
qed

lemma clear_each_error:
  assumes "clear_each now ids db = Inl e" and "inventory_ok db"
  shows "e = UniqueViolation aggregate_index"
  using assms
proof (induction ids arbitrary: db)
  case (Cons i ids)
  then show ?case
    using clear_row_error update_row_by_id_ok [OF _ _ clear.row_update_axioms]
    by (auto simp: and_then_Inl_iff)
qed simp

section \<open>Deleting the rows\<close>

lemma delete_location_tree_Inr:
  assumes "delete_location_tree lab p db = Inr (u, db')"
  shows "db' = db\<lparr>locations := filter (\<lambda>r. \<not> location_in_tree lab p r) (locations db)\<rparr>"
    and "\<And>item r. item \<in> set (inventory_items db) \<Longrightarrow> r \<in> set (locations db) \<Longrightarrow> location_in_tree lab p r
           \<Longrightarrow> ii_location_id item \<noteq> Some (lo_location_id r)"
  using assms by (auto simp: delete_location_tree_def tx_unfold Let_def split: if_splits)

lemma deleted_rows_ok:
  assumes ok: "inventory_ok db" and del: "delete_location_tree lab p db = Inr (u, db')"
  shows "inventory_ok db'"
proof -
  note d = delete_location_tree_Inr [OF del]
  have "references_ok db' r" if r: "r \<in> set (inventory_items db)" for r
  proof -
    have "references_ok db r"
      using inventory_ok_row(2) [OF ok r] .
    with d(2) [OF r] show ?thesis
      by (auto simp: references_ok_def d(1) split: option.splits)
  qed
  with ok show ?thesis
    by (auto simp: inventory_ok_def d(1))
qed

lemma deleted_tree_ok:
  assumes "location_tree_ok db" and "delete_location_tree lab p db = Inr (u, db')"
  shows "location_tree_ok db'"
  using tree_prune [OF assms(1) [unfolded location_tree_ok_def], of lab "path_labels p"]
  by (simp add: location_tree_ok_def delete_location_tree_Inr(1) [OF assms(2)] location_in_tree_node
      filter_map o_def)

text \<open>The whole flow.\<close>

lemma delete_location_subtree_Inr:
  assumes "delete_location_subtree env lab p db = Inr (cleared, db')"
    and ok: "inventory_ok db" "location_tree_ok db"
  shows "inventory_ok db'" and "location_tree_ok db'"
    and "locations db' = filter (\<lambda>r. \<not> location_in_tree lab p r) (locations db)"
    and "inventory_items db' = update_rows (stored_in_tree db lab p) (clear_location (env_now env)) (inventory_items db)"
    and "\<exists>rows items. db' = db\<lparr>locations := rows, inventory_items := items\<rparr>"
    and "cleared = sort (map ii_inventory_item_id (filter (stored_in_tree db lab p) (inventory_items db)))"
proof -
  let ?ids = "map ii_inventory_item_id (filter (stored_in_tree db lab p) (inventory_items db))"
  from assms(1) obtain db1 where c: "clear_each (env_now env) ?ids db = Inr db1"
      and d: "delete_location_tree lab p db1 = Inr ((), db')"
      and "cleared = fetch_inventory_item_ids_in_tree lab p db"
    by (auto simp: delete_location_subtree_def clear_inventory_item_locations_in_tree_def tx_unfold)
  then show "cleared = sort ?ids"
    by (simp add: fetch_inventory_item_ids_in_tree_def)
  have dist: "distinct ?ids"
    using inventory_ok_ids [OF ok(1)] by (rule distinct_map_filter)
  note cl = clear_each_Inr [OF c ok(1) dist]
  have rows: "update_rows (\<lambda>r. ii_inventory_item_id r \<in> set ?ids) (clear_location (env_now env)) (inventory_items db)
      = update_rows (stored_in_tree db lab p) (clear_location (env_now env)) (inventory_items db)"
    using inventory_ok_ids [OF ok(1)] by (intro update_rows_cong) (auto simp: distinct_map dest: inj_onD)
  note db1 = cl(1) [unfolded rows]
  note del = delete_location_tree_Inr(1) [OF d]
  show "inventory_ok db'"
    by (rule deleted_rows_ok [OF cl(2) d])
  show "location_tree_ok db'"
    by (rule deleted_tree_ok [OF _ d]) (use ok(2) in \<open>simp add: location_tree_ok_def db1\<close>)
  show "locations db' = filter (\<lambda>r. \<not> location_in_tree lab p r) (locations db)"
    and "inventory_items db' = update_rows (stored_in_tree db lab p) (clear_location (env_now env)) (inventory_items db)"
    by (simp_all add: del db1)
  show "\<exists>rows items. db' = db\<lparr>locations := rows, inventory_items := items\<rparr>"
    by (rule exI [of _ "locations db'"], rule exI [of _ "inventory_items db'"]) (simp add: del db1)
qed

text \<open>Two stock rows that only their locations tell apart cannot both be cleared.\<close>

lemma delete_location_subtree_clash:
  assumes ok: "inventory_ok db" "location_tree_ok db"
    and ab: "a \<in> set (inventory_items db)" "b \<in> set (inventory_items db)"
      "ii_inventory_item_id a \<noteq> ii_inventory_item_id b"
    and stock: "ii_tracking_mode a = lit ''quantity''" "ii_tracking_mode b = lit ''quantity''"
      "ii_laboratory_id a = ii_laboratory_id b" "ii_asset_id a = ii_asset_id b"
      "coalesce (ii_batch_number a) [] = coalesce (ii_batch_number b) []" "ii_status a = ii_status b"
    and stored: "stored_in_tree db lab p a" "stored_in_tree db lab p b \<or> ii_location_id b = None"
  shows "delete_location_subtree env lab p db = Inl (DbConflict (lit ''Location already exists''))"
proof -
  let ?ids = "map ii_inventory_item_id (filter (stored_in_tree db lab p) (inventory_items db))"
  let ?f = "clear_location (env_now env)"
  have dist: "distinct ?ids"
    using inventory_ok_ids [OF ok(1)] by (rule distinct_map_filter)
  show ?thesis
  proof (cases "clear_each (env_now env) ?ids db")
    case (Inl e)
    have e: "e = UniqueViolation aggregate_index"
      by (rule clear_each_error [OF Inl ok(1)])
    have "clear_inventory_item_locations_in_tree env lab p db = Inl (DbConflict (lit ''Location already exists''))"
      by (simp add: clear_inventory_item_locations_in_tree_def tx_map_err_def tx_write_def Inl e
          aggregate_index_def location_name_index_def location_code_index_def location_path_index_def)
    then show ?thesis
      by (simp add: delete_location_subtree_def tx_step tx_read_def)
  next
    case (Inr db1)
    note cl = clear_each_Inr [OF Inr ok(1) dist]
    have only: "r = a" if "r \<in> set (inventory_items db)" "ii_inventory_item_id r = ii_inventory_item_id a" for r
      using inventory_ok_ids [OF ok(1)] that ab(1) by (auto simp: distinct_map dest: inj_onD)
    have a': "?f a \<in> set (inventory_items db1)"
      using ab(1) stored(1) by (simp add: cl(1) set_update_rows)
    obtain b' where b': "b' \<in> set (inventory_items db1)" "b' = ?f b \<or> (b' = b \<and> ii_location_id b = None)"
    proof (cases "stored_in_tree db lab p b")
      case True
      with ab(2) have "?f b \<in> set (inventory_items db1)"
        by (simp add: cl(1) set_update_rows)
      with that show thesis by blast
    next
      case False
      have "ii_inventory_item_id b \<notin> set ?ids"
        using False inventory_ok_ids [OF ok(1)] ab(2) by (auto simp: distinct_map dest: inj_onD)
      with ab(2) have "b \<in> set (inventory_items db1)"
        by (simp add: cl(1) set_update_rows)
      with that stored(2) False show thesis by blast
    qed
    have "aggregate_clash (?f a) b'"
      using b'(2) stock by (auto simp: aggregate_clash_def clear_location_def coalesce_def)
    moreover have "ii_inventory_item_id (?f a) \<noteq> ii_inventory_item_id b'"
      using b'(2) ab(3) by auto
    ultimately show ?thesis
      using cl(2) a' b'(1) by (auto simp: inventory_ok_def)
  qed
qed

end
