(* ===== verification/Location_Runs.thy ===== *)
theory Location_Runs
  imports Location_Delete
begin

text \<open>
  What a successful request for a location does, handler by handler, and any run of them as a
  transition system.
\<close>

lemma permitted_location_in_scope:
  assumes "scoped_context ctx" and "act = Read i \<or> act = Update i \<or> act = Delete i"
    and "validate_permission db now (authorization_actor ctx) Location_resource act = Inr True"
  shows "\<exists>r. fetch_location i db = Some r \<and> lo_laboratory_id r = ctx_laboratory_id ctx"
  using permitted_row_in_scope [OF assms(1) _ assms(2,3)]
  by (auto simp: owned_by_laboratory_def row_laboratory_def fetch_location_def)

text \<open>Writes to the audit log are invisible to both invariants.\<close>

lemma frame_audit [simp]:
  "location_tree_ok (db\<lparr>audit_logs := l\<rparr>) = location_tree_ok db"
  "inventory_ok (db\<lparr>audit_logs := l\<rparr>) = inventory_ok db"
  by (simp_all add: location_tree_ok_def inventory_ok_def references_ok_def cong: option.case_cong)

text \<open>Items stay valid while no location disappears or changes hands.\<close>

lemma references_ok_locations:
  assumes "references_ok db r"
    and "\<And>x. x \<in> set (locations db) \<Longrightarrow> \<exists>y\<in>set (locations db'). lo_location_id y = lo_location_id x
           \<and> lo_laboratory_id y = lo_laboratory_id x"
    and "assets db' = assets db"
  shows "references_ok db' r"
  using assms unfolding references_ok_def by (cases "ii_location_id r") (simp, fastforce)

lemma inventory_ok_locations:
  assumes "inventory_ok db" and "assets db' = assets db" and "inventory_items db' = inventory_items db"
    and "\<And>x. x \<in> set (locations db) \<Longrightarrow> \<exists>y\<in>set (locations db'). lo_location_id y = lo_location_id x
           \<and> lo_laboratory_id y = lo_laboratory_id x"
  shows "inventory_ok db'"
  using assms(1) references_ok_locations [OF _ assms(4,2)] by (simp add: inventory_ok_def assms(2,3))

section \<open>The handlers\<close>

lemma create_location_Inr:
  assumes "create_location env ctx payload db = (Inr row, db')" and ok: "location_tree_ok db"
  obtains parent where
    "location_tree_ok db'" and "locations db' = locations db @ [row]"
    and "lo_laboratory_id row = ctx_laboratory_id ctx"
    and "lo_parent_location_id row = map_option lo_location_id parent"
    and "\<forall>m. parent = Some m \<longrightarrow> m \<in> set (locations db) \<and> lo_laboratory_id m = ctx_laboratory_id ctx"
    and "path_labels (lo_path row) = (case parent of None \<Rightarrow> [] | Some m \<Rightarrow> path_labels (lo_path m)) @ [lo_code row]"
    and "ltree_storable env (path_labels (lo_path row))"
    and "inventory_ok db \<longrightarrow> inventory_ok db'" and "inventory_items db' = inventory_items db"
    and "lo_parent_location_id row = nl_parent_location_id payload"
    and "LocationName_parse env (nl_name payload) = Inr (lo_name row)"
    and "LocationCode_parse (nl_code payload) = Inr (lo_code row)"
    and "\<exists>e. audit_logs db' = audit_logs db @ [e] \<and> au_details e = Details_create_location (lo_location_id row)"
proof -
  from assms(1) obtain new parent db1 db2 path depth where
      new: "NewLocation_try_from env payload = Inr new"
      and par: "resolve_new_parent (ctx_laboratory_id ctx) (nl_parent_location_id new) db = Inr (parent, db1)"
      and path: "build_path_and_depth parent (nl_code new) = (path, depth)"
      and ins: "insert_location env (env_new_v4 env 0) (ctx_laboratory_id ctx) (nl_parent_location_id new)
          (nl_name new) (nl_code new) path depth (nl_description new) db1 = Inr (row, db2)"
      and log: "record_audit (actor_user_id (ctx_actor ctx)) Audit_Create Res_Location
          (Some (lo_location_id row)) (Details_create_location (lo_location_id row)) db2 = Inr ((), db')"
    by (auto simp: create_location_def create_location_in_transaction_def run_handler_Inr tx_unfold
        and_then_Inr_iff map_err_Inr_iff tx_case_prod simp del: record_audit_Inr split_paired_Ex)
  note p = resolve_new_parent_Inr [OF par]
  note c = created_tree_ok [OF ok par path ins]
  from ins have row: "lo_laboratory_id row = ctx_laboratory_id ctx" "lo_parent_location_id row = nl_parent_location_id new"
      "lo_name row = nl_name new" "lo_code row = nl_code new"
      and viol: "location_violation env db (locations db) row = None"
      and db2: "db2 = db\<lparr>locations := locations db @ [row]\<rparr>"
    by (auto simp: insert_location_Inr p(1))
  obtain l where db': "db' = db2\<lparr>audit_logs := l\<rparr>"
      and l: "\<exists>e. audit_logs db' = audit_logs db @ [e] \<and> au_details e = Details_create_location (lo_location_id row)"
    using log by (auto simp: record_audit_Inr db2)
  have parsed: "LocationName_parse env (nl_name payload) = Inr (nl_name new)"
      "LocationCode_parse (nl_code payload) = Inr (nl_code new)"
      "nl_parent_location_id new = nl_parent_location_id payload"
    using new by (auto simp: NewLocation_try_from_def and_then_Inr_iff)
  have inv: "inventory_ok db \<longrightarrow> inventory_ok db'"
    unfolding db' frame_audit by (intro impI, erule inventory_ok_locations) (auto simp: db2)
  show thesis
    by (rule that [of parent])
      (use c p row parsed l inv location_violation_None(6) [OF viol] in \<open>simp_all add: db' db2\<close>)
qed

lemma update_location_handler_Inr:
  assumes "update_location env ctx i payload db = (Inr updated, db')" and ok: "location_tree_ok db"
  obtains x p code path where
    "fetch_location i db = Some x" and "fetch_location i db' = Some updated"
    and "validate_permission db (env_now env) (authorization_actor ctx) Location_resource (Update i) = Inr True"
    and "map location_node (locations db')
           = map (move_node (location_node x) p code (path_labels path)) (map location_node (locations db))"
    and "location_tree_ok db'"
    and "inventory_ok db \<longrightarrow> inventory_ok db'" and "inventory_items db' = inventory_items db"
    and "\<forall>r\<in>set (locations db'). r \<in> set (locations db) \<or> ltree_storable env (path_labels (lo_path r))"
    and "lo_parent_location_id updated = resolve_update (into_nullable_update (lp_parent_location_id payload)) (lo_parent_location_id x)"
    and "lo_description updated = resolve_update (into_nullable_update (lp_description payload)) (lo_description x)"
    and "lp_name payload = None \<longrightarrow> lo_name updated = lo_name x"
    and "lp_code payload = None \<longrightarrow> lo_code updated = lo_code x"
    and "lo_laboratory_id updated = lo_laboratory_id x" and "lo_created_at updated = lo_created_at x"
    and "\<exists>e. audit_logs db' = audit_logs db @ [e] \<and> au_details e = Details_update_location x"
    and "\<exists>rows l. db' = db\<lparr>locations := rows, audit_logs := l\<rparr>"
proof -
  from assms(1) obtain u x parent db1 db2 path depth where
      perm: "validate_permission db (env_now env) (authorization_actor ctx) Location_resource (Update i) = Inr True"
      and u: "UpdateLocation_try_from env payload = Inr u"
      and x: "fetch_location i db = Some x"
      and par: "resolve_moved_parent x (resolve_update (ul_parent_location_id u) (lo_parent_location_id x)) db = Inr (parent, db1)"
      and path: "build_path_and_depth parent (coalesce (ul_code u) (lo_code x)) = (path, depth)"
      and mv: "move_location env x (resolve_update (ul_parent_location_id u) (lo_parent_location_id x))
          (coalesce (ul_name u) (lo_name x)) (coalesce (ul_code u) (lo_code x)) path depth
          (resolve_update (ul_description u) (lo_description x)) db1 = Inr (updated, db2)"
      and log: "record_audit (actor_user_id (ctx_actor ctx)) Audit_Update Res_Location
          (Some (lo_location_id updated)) (Details_update_location x) db2 = Inr ((), db')"
    by (auto simp: update_location_def update_location_in_transaction_def run_handler_Inr tx_unfold Let_def
        and_then_Inr_iff map_err_Inr_iff ok_or_Inr_iff fetch_location_for_update_def tx_case_prod simp del: record_audit_Inr split_paired_Ex)
  note m = moved_tree [OF ok x par path mv]
  obtain rows where db2: "db2 = db\<lparr>locations := rows\<rparr>"
    using m(5) by blast
  obtain l where db': "db' = db2\<lparr>audit_logs := l\<rparr>"
      and l: "\<exists>e. audit_logs db' = audit_logs db @ [e] \<and> au_details e = Details_update_location x"
    using log by (auto simp: record_audit_Inr db2)
  have same: "locations db' = locations db2" "inventory_items db' = inventory_items db"
    by (simp_all add: db' db2)
  have fields: "ul_parent_location_id u = into_nullable_update (lp_parent_location_id payload)"
      "ul_description u = into_nullable_update (lp_description payload)"
      "lp_name payload = None \<longrightarrow> ul_name u = None" "lp_code payload = None \<longrightarrow> ul_code u = None"
    using u by (auto simp: UpdateLocation_try_from_def and_then_Inr_iff)
  have inv: "inventory_ok db \<longrightarrow> inventory_ok db'"
  proof
    assume ok': "inventory_ok db"
    have "\<exists>y\<in>set (locations db'). lo_location_id y = lo_location_id r \<and> lo_laboratory_id y = lo_laboratory_id r"
      if r: "r \<in> set (locations db)" for r
    proof -
      have "move_node (location_node x) (resolve_update (ul_parent_location_id u) (lo_parent_location_id x))
          (coalesce (ul_code u) (lo_code x)) (path_labels path) (location_node r) \<in> set (map location_node (locations db'))"
        unfolding same(1) m(1) using r by simp
      then obtain y where "y \<in> set (locations db')" "location_node y = move_node (location_node x)
          (resolve_update (ul_parent_location_id u) (lo_parent_location_id x))
          (coalesce (ul_code u) (lo_code x)) (path_labels path) (location_node r)"
        by auto
      then show ?thesis
        by (intro bexI [of _ y]) (metis location_node_simps(1,2) move_node_keeps)
    qed
    with inventory_ok_locations [OF ok' _ same(2)] show "inventory_ok db'"
      by (simp add: db' db2)
  qed
  show thesis
    by (rule that [of x])
      (use x m perm l inv fields in \<open>auto simp: same fetch_location_def db' db2 place_location_def coalesce_def location_tree_ok_def\<close>)
qed

text \<open>Read through the ids: what a move makes of every row.\<close>

lemma find_node:
  "map_option location_node (fetch_location j db) = find (\<lambda>n. nd_id n = j) (map location_node (locations db))"
  by (simp add: fetch_location_def fetch_optional_def find_map o_def)

lemma moved_row:
  assumes "map location_node (locations db') = map (move_node x p code path) (map location_node (locations db))"
  shows "map_option location_node (fetch_location j db')
           = map_option (move_node x p code path) (map_option location_node (fetch_location j db))"
  unfolding find_node assms find_map by (simp add: o_def)

lemma delete_location_Inr:
  assumes "delete_location env ctx i db = (Inr u, db')" and ok: "inventory_ok db" "location_tree_ok db"
  obtains x where
    "fetch_location i db = Some x"
    and "validate_permission db (env_now env) (authorization_actor ctx) Location_resource (Delete i) = Inr True"
    and "inventory_ok db'" and "location_tree_ok db'"
    and "locations db' = filter (\<lambda>r. \<not> location_in_tree (lo_laboratory_id x) (lo_path x) r) (locations db)"
    and "inventory_items db' = update_rows (stored_in_tree db (lo_laboratory_id x) (lo_path x))
           (clear_location (env_now env)) (inventory_items db)"
    and "\<exists>e. audit_logs db' = audit_logs db @ [e] \<and> au_details e = Details_delete_locations
           (fetch_location_tree_for_update (lo_laboratory_id x) (lo_path x) db)
           (fetch_inventory_item_ids_in_tree (lo_laboratory_id x) (lo_path x) db)"
    and "\<exists>rows items l. db' = db\<lparr>locations := rows, inventory_items := items, audit_logs := l\<rparr>"
proof -
  from assms(1) obtain x cleared db1 where
      perm: "validate_permission db (env_now env) (authorization_actor ctx) Location_resource (Delete i) = Inr True"
      and x: "fetch_location i db = Some x"
      and del: "delete_location_subtree env (lo_laboratory_id x) (lo_path x) db = Inr (cleared, db1)"
      and log: "record_audit (actor_user_id (ctx_actor ctx)) Audit_Delete Res_Location (Some (lo_location_id x))
          (Details_delete_locations (fetch_location_tree_for_update (lo_laboratory_id x) (lo_path x) db) cleared) db1
          = Inr ((), db')"
    by (auto simp: delete_location_def delete_location_in_transaction_def run_handler_Inr tx_unfold
        ok_or_Inr_iff fetch_location_for_update_def simp del: record_audit_Inr)
  note d = delete_location_subtree_Inr [OF del ok]
  obtain rows items where db1: "db1 = db\<lparr>locations := rows, inventory_items := items\<rparr>"
    using d(5) by blast
  have db': "db' = db1\<lparr>audit_logs := audit_logs db'\<rparr>"
    using log by (auto simp: record_audit_Inr)
  have l: "\<exists>e. audit_logs db' = audit_logs db @ [e] \<and> au_details e = Details_delete_locations
           (fetch_location_tree_for_update (lo_laboratory_id x) (lo_path x) db)
           (fetch_inventory_item_ids_in_tree (lo_laboratory_id x) (lo_path x) db)"
    using log by (auto simp: record_audit_Inr db1 d(6) fetch_inventory_item_ids_in_tree_def)
  have same: "locations db' = locations db1" "inventory_items db' = inventory_items db1"
      "inventory_ok db' = inventory_ok db1" "location_tree_ok db' = location_tree_ok db1"
    by (subst db', simp)+
  show thesis
  proof (rule that [of x])
    show "\<exists>rows items l. db' = db\<lparr>locations := rows, inventory_items := items, audit_logs := l\<rparr>"
      using db' db1 by metis
  qed (use x perm d(1-4) l same in simp_all)
qed

section \<open>Runs\<close>

text \<open>
  Documented limit of the server: an \<^verbatim>\<open>ltree\<close> has at most 65535 labels.
\<close>

definition path_limit :: "env \<Rightarrow> bool" where
  "path_limit env \<longleftrightarrow> (\<forall>p. ltree_storable env p \<longrightarrow> length p \<le> 65535)"

definition paths_fit :: "database \<Rightarrow> bool" where
  "paths_fit db \<longleftrightarrow> (\<forall>r\<in>set (locations db). length (path_labels (lo_path r)) \<le> 65535)"

text \<open>One successful request of any caller, against any state.\<close>

inductive location_step :: "database \<Rightarrow> database \<Rightarrow> bool" where
  create: "path_limit env \<Longrightarrow> create_location env ctx payload db = (Inr out, db') \<Longrightarrow> location_step db db'"
| update: "path_limit env \<Longrightarrow> update_location env ctx i change db = (Inr out', db') \<Longrightarrow> location_step db db'"
| delete: "path_limit env \<Longrightarrow> delete_location env ctx i db = (Inr (), db') \<Longrightarrow> location_step db db'"

inductive_cases location_stepE: "location_step db db'"

definition locations_consistent :: "database \<Rightarrow> bool" where
  "locations_consistent db \<longleftrightarrow> inventory_ok db \<and> location_tree_ok db \<and> paths_fit db"

text \<open>Items are neither made nor lost, and keep all but their location and time of change.\<close>

definition items_only_moved :: "database \<Rightarrow> database \<Rightarrow> bool" where
  "items_only_moved db db' \<longleftrightarrow>
     map (\<lambda>r. r\<lparr>ii_location_id := None, ii_updated_at := 0\<rparr>) (inventory_items db')
     = map (\<lambda>r. r\<lparr>ii_location_id := None, ii_updated_at := 0\<rparr>) (inventory_items db)"

lemma location_step_keeps:
  assumes "location_step db db'" and "locations_consistent db"
  shows "locations_consistent db' \<and> items_only_moved db db'"
proof -
  have ok: "inventory_ok db" "location_tree_ok db" "paths_fit db"
    using assms(2) by (auto simp: locations_consistent_def)
  have fit: "length (path_labels (lo_path r)) \<le> 65535" if "r \<in> set (locations db)" for r
    using ok(3) that by (simp add: paths_fit_def)
  from assms(1) show ?thesis
  proof (rule location_stepE, goal_cases)
    case (1 env ctx payload out)
    from 1(2) ok(2) show ?thesis
      by (rule create_location_Inr)
        (use ok fit 1(1) in \<open>auto simp: locations_consistent_def paths_fit_def path_limit_def items_only_moved_def\<close>)
  next
    case (2 env ctx i change out)
    from 2(2) ok(2) show ?thesis
      by (rule update_location_handler_Inr)
        (use ok fit 2(1) in \<open>auto simp: locations_consistent_def paths_fit_def path_limit_def items_only_moved_def\<close>)
  next
    case (3 env ctx i)
    from 3(2) ok(1,2) show ?thesis
      by (rule delete_location_Inr)
        (use ok fit in \<open>auto simp: locations_consistent_def paths_fit_def items_only_moved_def
          update_rows_def clear_location_def\<close>)
  qed
qed

interpretation moving: invariant_system location_step locations_consistent items_only_moved
  by unfold_locales (use location_step_keeps in \<open>auto simp: items_only_moved_def\<close>)

text \<open>Depths of fitting paths do not wrap.\<close>

lemma depth_of_fits:
  assumes "p \<noteq> []" and "length p \<le> 65535"
  shows "sint (depth_of p) = int (length p) - 1" and "sint (depth_of p + 1) = int (length p)"
proof -
  have s: "sint (word_of_nat n :: i32) = int n" if "n \<le> 65536" for n
    using that by (simp add: signed_of_nat signed_take_bit_int_eq_self)
  from assms(1) have "depth_of p = word_of_nat (length p - 1)"
    by (simp add: depth_of_def of_nat_diff Suc_leI)
  with s [of "length p - 1"] s [of "length p"] assms show "sint (depth_of p) = int (length p) - 1"
      "sint (depth_of p + 1) = int (length p)"
    by (simp_all add: of_nat_diff Suc_leI depth_of_def)
qed

end
