(* ===== verification/Location_Properties.thy ===== *)
theory Location_Properties
  imports Witness_Data Location_Runs
begin

text \<open>
  What the location routes guarantee: the stored paths are the tree of parent pointers, creating,
  moving and deleting keep them so, a deletion takes exactly the subtree, and when a deletion of
  a location that holds stock fails.
\<close>

section \<open>A small building\<close>

text \<open>A cabinet (60) with a shelf (61), and a store (62); the solvent is on the shelf.\<close>

definition place_row :: "uuid \<Rightarrow> uuid option \<Rightarrow> rstr \<Rightarrow> rstr \<Rightarrow> i32 \<Rightarrow> location_row" where
  "place_row i parent code path depth =
     \<lparr>lo_location_id = i, lo_laboratory_id = lab_1, lo_parent_location_id = parent, lo_name = code,
      lo_code = code, lo_path = path, lo_depth = depth, lo_description = None, lo_created_at = 1,
      lo_updated_at = 1\<rparr>"

definition db_4 :: database where
  "db_4 = db_1\<lparr>locations := [place_row 60 None (lit ''cabinet'') (lit ''cabinet'') 0,
       place_row 61 (Some 60) (lit ''shelf'') (lit ''cabinet.shelf'') 1,
       place_row 62 None (lit ''store'') (lit ''store'') 0],
     inventory_items := [(stock_row 40 10 2 (lit ''available''))\<lparr>ii_location_id := Some 61\<rparr>,
       balance_row 41 (lit ''#7'')]\<rparr>"

text \<open>The same with more of the solvent in no place.\<close>

definition db_5 :: database where
  "db_5 = db_4\<lparr>inventory_items := inventory_items db_4 @ [stock_row 42 5 0 (lit ''available'')]\<rparr>"

lemma db_4_tree: "location_tree_ok db_4" "location_tree_ok db_5"
  unfolding location_tree_ok_def tree_ok_def hangs_def db_4_def db_5_def db_1_def place_row_def
  by code_simp+

lemma db_4_ok: "inventory_ok db_4" "inventory_ok db_5"
  by code_simp+

lemma env_1_limit: "path_limit env_1"
  by (simp add: path_limit_def env_1_def)

definition new_box :: new_location where
  "new_box = \<lparr>nl_parent_location_id = Some 61, nl_name = lit '' Box '', nl_code = lit ''box'',
     nl_description = None\<rparr>"

definition to_store :: location_payload where
  "to_store = \<lparr>lp_parent_location_id = Some (Some 62), lp_name = None, lp_code = None, lp_description = None\<rparr>"

lemma box_created: "\<exists>row db'. create_location env_1 admin_ctx new_box db_4 = (Inr row, db')"
proof -
  have "case create_location env_1 admin_ctx new_box db_4 of (Inr _, _) \<Rightarrow> True | _ \<Rightarrow> False"
    by code_simp
  then show ?thesis
    by (auto split: prod.splits sum.splits)
qed

lemma cabinet_moved: "\<exists>row db'. update_location env_1 admin_ctx 60 to_store db_4 = (Inr row, db')"
proof -
  have "case update_location env_1 admin_ctx 60 to_store db_4 of (Inr _, _) \<Rightarrow> True | _ \<Rightarrow> False"
    by code_simp
  then show ?thesis
    by (auto split: prod.splits sum.splits)
qed

lemma cabinet_deleted: "\<exists>db'. delete_location env_1 admin_ctx 60 db_4 = (Inr (), db')"
proof -
  have "case delete_location env_1 admin_ctx 60 db_4 of (Inr _, _) \<Rightarrow> True | _ \<Rightarrow> False"
    by code_simp
  then show ?thesis
    by (auto split: prod.splits sum.splits)
qed

section \<open>Reading the tree\<close>

lemma location_below:
  assumes "location_tree_ok db" and "r \<in> set (locations db)" and "x \<in> set (locations db)"
  shows "below (map location_node (locations db)) (lo_location_id r) (lo_location_id x)
     \<longleftrightarrow> location_in_tree (lo_laboratory_id x) (lo_path x) r"
  using below_iff [OF assms(1) [unfolded location_tree_ok_def], of "location_node r" "location_node x"] assms(2,3)
  by (simp add: location_in_tree_node)

text \<open>
  C20. Listing a subtree: the list under a root is exactly the set of locations that reach the
  root by following parent pointers, each once and in the order of their paths, all of the
  laboratory of the request. The prefix search on stored paths thereby refines the search along
  the pointers.
\<close>

theorem listing_follows_parents:
  assumes "location_tree_ok db" and "list_locations env ctx (Some i) db = Inr rows"
  shows "set rows = {r \<in> set (locations db). below (map location_node (locations db)) (lo_location_id r) i}
    \<and> distinct rows \<and> sorted (map (\<lambda>r. path_labels (lo_path r)) rows)
    \<and> (\<forall>r\<in>set rows. lo_laboratory_id r = ctx_laboratory_id ctx)"
proof -
  from assms(2) obtain x where x: "fetch_location i db = Some x" "lo_laboratory_id x = ctx_laboratory_id ctx"
      and rows: "rows = fetch_locations (ctx_laboratory_id ctx) (Some (lo_path x)) db"
    by (auto simp: list_locations_def and_then_Inr_iff ok_or_Inr_iff ensure_Inr_iff)
  note xm = fetch_location_Some [OF x(1)]
  have "distinct (locations db)"
    using location_tree_ids [OF assms(1)] by (simp add: distinct_map)
  then show ?thesis
    using location_below [OF assms(1) _ conjunct1 [OF xm]] xm x(2)
    by (auto simp: rows fetch_locations_def location_in_tree_def)
qed

theorem listing_follows_parents_witness:
  "\<exists>rows. list_locations env_1 guest_ctx (Some 60) db_4 = Inr rows \<and> distinct rows"
proof -
  have "case list_locations env_1 guest_ctx (Some 60) db_4 of Inr _ \<Rightarrow> True | _ \<Rightarrow> False"
    by code_simp
  then obtain rows where run: "list_locations env_1 guest_ctx (Some 60) db_4 = Inr rows"
    by (auto split: sum.splits)
  show ?thesis
    using listing_follows_parents [OF db_4_tree(1) run] run by blast
qed

section \<open>Creating\<close>

text \<open>
  Creating a location: it is added at the end of the table, in the laboratory of the request,
  under the requested parent, which belongs to that laboratory, with a trimmed name and code and
  the path of the parent extended by the code; the tree and the items stay consistent.
\<close>

theorem creating_extends_the_tree:
  assumes "location_tree_ok db" and "inventory_ok db"
    and "create_location env ctx payload db = (Inr row, db')"
  shows "location_tree_ok db' \<and> inventory_ok db' \<and> inventory_items db' = inventory_items db
    \<and> locations db' = locations db @ [row] \<and> lo_laboratory_id row = ctx_laboratory_id ctx
    \<and> lo_name row = trim (nl_name payload) \<and> lo_name row \<noteq> [] \<and> lo_code row = trim (nl_code payload)
    \<and> (case nl_parent_location_id payload of
         None \<Rightarrow> lo_path row = lo_code row
       | Some p \<Rightarrow> \<exists>m\<in>set (locations db). lo_location_id m = p \<and> lo_laboratory_id m = ctx_laboratory_id ctx
           \<and> lo_path row = lo_path m @ 46 # lo_code row)"
  using assms(3,1)
proof (rule create_location_Inr)
  fix parent
  assume c: "location_tree_ok db'" "locations db' = locations db @ [row]"
      "lo_laboratory_id row = ctx_laboratory_id ctx"
      "lo_parent_location_id row = map_option lo_location_id parent"
      "\<forall>m. parent = Some m \<longrightarrow> m \<in> set (locations db) \<and> lo_laboratory_id m = ctx_laboratory_id ctx"
      "path_labels (lo_path row) = (case parent of None \<Rightarrow> [] | Some m \<Rightarrow> path_labels (lo_path m)) @ [lo_code row]"
      "inventory_ok db \<longrightarrow> inventory_ok db'" "inventory_items db' = inventory_items db"
      "lo_parent_location_id row = nl_parent_location_id payload"
      "LocationName_parse env (nl_name payload) = Inr (lo_name row)"
      "LocationCode_parse (nl_code payload) = Inr (lo_code row)"
  have "lo_path row = path_text ((case parent of None \<Rightarrow> [] | Some m \<Rightarrow> path_labels (lo_path m)) @ [lo_code row])"
    using c(6) by (metis path_text_labels)
  then have "case nl_parent_location_id payload of
         None \<Rightarrow> lo_path row = lo_code row
       | Some p \<Rightarrow> \<exists>m\<in>set (locations db). lo_location_id m = p \<and> lo_laboratory_id m = ctx_laboratory_id ctx
           \<and> lo_path row = lo_path m @ 46 # lo_code row"
    using c(4,5,9) by (cases parent) (auto simp: path_text_append)
  moreover have "lo_name row = trim (nl_name payload)" "lo_name row \<noteq> []" "lo_code row = trim (nl_code payload)"
    using c(10,11) by (auto simp: LocationName_parse_def LocationCode_parse_def Let_def
        split: if_splits list.splits)
  ultimately show ?thesis
    using c(1-3,7,8) assms(2) by blast
qed

theorem creating_extends_the_tree_witness:
  "\<exists>row db'. create_location env_1 admin_ctx new_box db_4 = (Inr row, db') \<and> lo_code row = trim (lit ''box'')"
proof -
  obtain row db' where run: "create_location env_1 admin_ctx new_box db_4 = (Inr row, db')"
    using box_created by blast
  from creating_extends_the_tree [OF db_4_tree(1) db_4_ok(1) run] run show ?thesis
    by (auto simp: new_box_def)
qed

section \<open>Moving\<close>

text \<open>
  C21. Changing a location: it stays in its laboratory, which is that of the request, and gets the
  parent asked for; every other location keeps its parent and code, its path changes exactly when
  it is below the changed one, and then only in the part above; no location appears or goes, and
  the tree and the items stay consistent. A move that would put a location below itself never
  succeeds.
\<close>

theorem moving_carries_the_subtree:
  assumes "location_tree_ok db" and "inventory_ok db" and "LaboratoryContext_from_request parse_uuid req = Inr ctx"
    and "update_location env ctx i payload db = (Inr updated, db')"
  shows "\<exists>x. fetch_location i db = Some x \<and> fetch_location i db' = Some updated
    \<and> lo_laboratory_id x = ctx_laboratory_id ctx \<and> lo_laboratory_id updated = ctx_laboratory_id ctx
    \<and> lo_parent_location_id updated
        = resolve_update (into_nullable_update (lp_parent_location_id payload)) (lo_parent_location_id x)
    \<and> location_tree_ok db' \<and> inventory_ok db' \<and> inventory_items db' = inventory_items db
    \<and> (\<forall>p. lo_parent_location_id updated = Some p \<longrightarrow> \<not> below (map location_node (locations db')) p i)
    \<and> (\<forall>j. (fetch_location j db' = None) = (fetch_location j db = None))
    \<and> (\<forall>j y. j \<noteq> i \<and> fetch_location j db = Some y \<longrightarrow>
         (\<exists>y'. fetch_location j db' = Some y' \<and> lo_laboratory_id y' = lo_laboratory_id y
            \<and> lo_parent_location_id y' = lo_parent_location_id y \<and> lo_code y' = lo_code y
            \<and> path_labels (lo_path y')
                = (if location_in_tree (lo_laboratory_id x) (lo_path x) y
                   then path_labels (lo_path updated) @ drop (length (path_labels (lo_path x))) (path_labels (lo_path y))
                   else path_labels (lo_path y))))"
  using assms(4,1)
proof (rule update_location_handler_Inr)
  fix x p code path
  assume x: "fetch_location i db = Some x" and up: "fetch_location i db' = Some updated"
    and perm: "validate_permission db (env_now env) (authorization_actor ctx) Location_resource (Update i) = Inr True"
    and nodes: "map location_node (locations db')
        = map (move_node (location_node x) p code (path_labels path)) (map location_node (locations db))"
    and ok: "location_tree_ok db'" and rest: "inventory_ok db \<longrightarrow> inventory_ok db'" "inventory_items db' = inventory_items db"
      "lo_parent_location_id updated
        = resolve_update (into_nullable_update (lp_parent_location_id payload)) (lo_parent_location_id x)"
      "lo_laboratory_id updated = lo_laboratory_id x"
  have scoped: "scoped_context ctx"
    using assms(3) by (auto simp: scoped_context_def)
  have lab: "lo_laboratory_id x = ctx_laboratory_id ctx"
    using permitted_location_in_scope [OF scoped _ perm] x by auto
  note xm = fetch_location_Some [OF x] and um = fetch_location_Some [OF up]
  note moved = moved_row [OF nodes]
  have path: "path_labels (lo_path updated) = path_labels path"
    using arg_cong [OF moved [of i], of "map_option nd_path"] x up xm by (simp add: move_node_def)
  have none: "(fetch_location j db' = None) = (fetch_location j db = None)" for j
    using moved [of j] by (metis map_option_is_None)
  have other: "\<exists>y'. fetch_location j db' = Some y' \<and> lo_laboratory_id y' = lo_laboratory_id y
            \<and> lo_parent_location_id y' = lo_parent_location_id y \<and> lo_code y' = lo_code y
            \<and> path_labels (lo_path y')
                = (if location_in_tree (lo_laboratory_id x) (lo_path x) y
                   then path_labels (lo_path updated) @ drop (length (path_labels (lo_path x))) (path_labels (lo_path y))
                   else path_labels (lo_path y))"
    if j: "j \<noteq> i" and y: "fetch_location j db = Some y" for j y
  proof -
    from moved [of j] y obtain y' where y': "fetch_location j db' = Some y'"
        "location_node y' = move_node (location_node x) p code (path_labels path) (location_node y)"
      by auto
    have ne: "lo_location_id y \<noteq> lo_location_id x"
      using fetch_location_Some [OF y] xm j by simp
    have "lo_laboratory_id y' = lo_laboratory_id y" "lo_parent_location_id y' = lo_parent_location_id y"
        "lo_code y' = lo_code y"
      using arg_cong [OF y'(2), of nd_laboratory_id] arg_cong [OF y'(2), of nd_parent_id]
        arg_cong [OF y'(2), of nd_code] ne by (simp_all add: move_node_def)
    moreover have "path_labels (lo_path y')
        = (if location_in_tree (lo_laboratory_id x) (lo_path x) y
           then path_labels (lo_path updated) @ drop (length (path_labels (lo_path x))) (path_labels (lo_path y))
           else path_labels (lo_path y))"
      using arg_cong [OF y'(2), of nd_path] ne
      by (simp add: move_node_def location_in_tree_node rehang_def path)
    ultimately show ?thesis
      using y'(1) by blast
  qed
  have above: "\<not> below (map location_node (locations db')) q i" if q: "lo_parent_location_id updated = Some q" for q
  proof
    assume b: "below (map location_node (locations db')) q i"
    have t: "tree_ok (map location_node (locations db'))"
      using ok by (simp add: location_tree_ok_def)
    have un: "location_node updated \<in> set (map location_node (locations db'))"
      using um by simp
    obtain m where m: "m \<in> set (map location_node (locations db'))" "nd_id m = q"
        "nd_path (location_node updated) = nd_path m @ [nd_code (location_node updated)]"
      using tree_ok_parent [OF t un] q by (metis location_node_simps(3))
    have "below (map location_node (locations db')) (nd_id m) (nd_id (location_node updated))"
      using b um m(2) by simp
    then have "prefix (nd_path (location_node updated)) (nd_path m)"
      using below_iff [OF t m(1) un] by (simp add: in_tree_def)
    with m(3) show False
      using prefix_length_le by fastforce
  qed
  show ?thesis
    using x up lab rest ok assms(2) none other above by (intro exI [of _ x] conjI) simp_all
qed

theorem moving_carries_the_subtree_witness:
  "\<exists>row db' y'. update_location env_1 admin_ctx 60 to_store db_4 = (Inr row, db')
     \<and> fetch_location 61 db' = Some y' \<and> lo_parent_location_id y' = Some 60"
proof -
  obtain row db' where run: "update_location env_1 admin_ctx 60 to_store db_4 = (Inr row, db')"
    using cabinet_moved by blast
  let ?shelf = "place_row 61 (Some 60) (lit ''shelf'') (lit ''cabinet.shelf'') 1"
  have "fetch_location 61 db_4 = Some ?shelf" "lo_parent_location_id ?shelf = Some 60"
    by (simp_all add: fetch_location_def fetch_optional_def db_4_def place_row_def)
  moreover have "\<exists>y'. fetch_location 61 db' = Some y' \<and> lo_parent_location_id y' = lo_parent_location_id y"
    if "fetch_location 61 db_4 = Some y" for y
  proof -
    have "(61 :: uuid) \<noteq> 60"
      by simp
    with moving_carries_the_subtree [OF db_4_tree(1) db_4_ok(1) admin_context run] that show ?thesis
      by blast
  qed
  ultimately show ?thesis
    using run by metis
qed

section \<open>Deleting\<close>

lemma stored_in_tree_iff:
  assumes "inventory_ok db" and "location_tree_ok db" and x: "x \<in> set (locations db)"
    and item: "item \<in> set (inventory_items db)"
  shows "stored_in_tree db (lo_laboratory_id x) (lo_path x) item
     \<longleftrightarrow> (\<exists>l. ii_location_id item = Some l \<and> below (map location_node (locations db)) l (lo_location_id x))"
proof (cases "ii_location_id item")
  case None
  then show ?thesis
    by (simp add: stored_in_tree_def)
next
  case (Some l)
  obtain r where r: "r \<in> set (locations db)" "lo_location_id r = l" "lo_laboratory_id r = ii_laboratory_id item"
    using inventory_ok_row(2) [OF assms(1) item] Some by (auto simp: references_ok_def)
  have only: "s = r" if "s \<in> set (locations db)" "lo_location_id s = l" for s
    using fetch_location_mem [OF assms(2)] that r(1,2) by (metis option.inject)
  have "stored_in_tree db (lo_laboratory_id x) (lo_path x) item
      \<longleftrightarrow> location_in_tree (lo_laboratory_id x) (lo_path x) r"
  proof
    assume "stored_in_tree db (lo_laboratory_id x) (lo_path x) item"
    then obtain s where "s \<in> set (locations db)" "location_in_tree (lo_laboratory_id x) (lo_path x) s"
        "lo_location_id s = l"
      using Some by (auto simp: stored_in_tree_def)
    then show "location_in_tree (lo_laboratory_id x) (lo_path x) r"
      using only by blast
  next
    assume t: "location_in_tree (lo_laboratory_id x) (lo_path x) r"
    then have "ii_laboratory_id item = lo_laboratory_id x"
      using r(3) by (simp add: location_in_tree_def)
    with t r(1,2) Some show "stored_in_tree db (lo_laboratory_id x) (lo_path x) item"
      unfolding stored_in_tree_def by blast
  qed
  then show ?thesis
    using location_below [OF assms(2) r(1) x] r(2) Some by simp
qed

text \<open>
  C22. Deleting a location: exactly the location and everything below it, by the parent pointers,
  goes; the items stored there stay and lose their location, all other items are untouched; the
  tree and the items stay consistent, and the audit entry lists the deleted rows.
\<close>

theorem deleting_takes_the_subtree:
  assumes "location_tree_ok db" and "inventory_ok db" and "LaboratoryContext_from_request parse_uuid req = Inr ctx"
    and "delete_location env ctx i db = (Inr (), db')"
  shows "location_tree_ok db' \<and> inventory_ok db'
    \<and> (\<exists>x. fetch_location i db = Some x \<and> lo_laboratory_id x = ctx_laboratory_id ctx)
    \<and> locations db' = filter (\<lambda>r. \<not> below (map location_node (locations db)) (lo_location_id r) i) (locations db)
    \<and> inventory_items db' = map (\<lambda>item.
         if \<exists>l. ii_location_id item = Some l \<and> below (map location_node (locations db)) l i
         then item\<lparr>ii_location_id := None, ii_updated_at := env_now env\<rparr> else item) (inventory_items db)
    \<and> (\<exists>e tree cleared. audit_logs db' = audit_logs db @ [e] \<and> au_details e = Details_delete_locations tree cleared
         \<and> set tree = {r \<in> set (locations db). below (map location_node (locations db)) (lo_location_id r) i})"
  using assms(4,2,1)
proof (rule delete_location_Inr)
  fix x
  assume x: "fetch_location i db = Some x"
    and perm: "validate_permission db (env_now env) (authorization_actor ctx) Location_resource (Delete i) = Inr True"
    and ok: "inventory_ok db'" "location_tree_ok db'"
    and rows: "locations db' = filter (\<lambda>r. \<not> location_in_tree (lo_laboratory_id x) (lo_path x) r) (locations db)"
    and items: "inventory_items db' = update_rows (stored_in_tree db (lo_laboratory_id x) (lo_path x))
           (clear_location (env_now env)) (inventory_items db)"
    and log: "\<exists>e. audit_logs db' = audit_logs db @ [e] \<and> au_details e = Details_delete_locations
           (fetch_location_tree_for_update (lo_laboratory_id x) (lo_path x) db)
           (fetch_inventory_item_ids_in_tree (lo_laboratory_id x) (lo_path x) db)"
  have "scoped_context ctx"
    using assms(3) by (auto simp: scoped_context_def)
  then have lab: "lo_laboratory_id x = ctx_laboratory_id ctx"
    using permitted_location_in_scope [OF _ _ perm] x by auto
  have xm: "x \<in> set (locations db)" "lo_location_id x = i"
    using fetch_location_Some [OF x] by auto
  note below = location_below [OF assms(1) _ xm(1), unfolded xm(2)]
  have "locations db' = filter (\<lambda>r. \<not> below (map location_node (locations db)) (lo_location_id r) i) (locations db)"
    unfolding rows by (rule filter_cong [OF refl]) (simp add: below)
  moreover have "inventory_items db' = map (\<lambda>item.
         if \<exists>l. ii_location_id item = Some l \<and> below (map location_node (locations db)) l i
         then item\<lparr>ii_location_id := None, ii_updated_at := env_now env\<rparr> else item) (inventory_items db)"
    unfolding items update_rows_def
    by (rule map_cong [OF refl])
      (auto simp: stored_in_tree_iff [OF assms(2,1) xm(1)] xm(2) clear_location_def)
  moreover have "set (fetch_location_tree_for_update (lo_laboratory_id x) (lo_path x) db)
      = {r \<in> set (locations db). below (map location_node (locations db)) (lo_location_id r) i}"
    using below by (auto simp: fetch_location_tree_for_update_def)
  ultimately show ?thesis
    using ok x lab log by blast
qed

theorem deleting_takes_the_subtree_witness:
  "\<exists>db'. delete_location env_1 admin_ctx 60 db_4 = (Inr (), db') \<and> location_tree_ok db'
     \<and> length (inventory_items db') = 2"
proof -
  obtain db' where run: "delete_location env_1 admin_ctx 60 db_4 = (Inr (), db')"
    using cabinet_deleted by blast
  have "length (inventory_items db_4) = 2"
    by (simp add: db_4_def)
  with deleting_takes_the_subtree [OF db_4_tree(1) db_4_ok(1) admin_context run] run show ?thesis
    by auto
qed

text \<open>
  C23. When stock blocks a deletion: if the subtree holds a stock row of an asset and the same
  laboratory holds another of the same asset, batch and status, in the subtree or in no location,
  then clearing the locations would make the two rows indistinguishable. The deletion is refused
  with 409 and the message that the location already exists, and nothing changes.
\<close>

theorem stock_blocks_location_deletion:
  assumes "location_tree_ok db" and "inventory_ok db" and "fetch_location i db = Some x"
    and "validate_permission db (env_now env) (authorization_actor ctx) Location_resource (Delete i) = Inr True"
    and "a \<in> set (inventory_items db)" and "b \<in> set (inventory_items db)"
    and "ii_inventory_item_id a \<noteq> ii_inventory_item_id b"
    and "ii_tracking_mode a = lit ''quantity''" and "ii_tracking_mode b = lit ''quantity''"
    and "ii_laboratory_id a = ii_laboratory_id b" and "ii_asset_id a = ii_asset_id b"
    and "ii_batch_number a = ii_batch_number b" and "ii_status a = ii_status b"
    and "stored_in_tree db (lo_laboratory_id x) (lo_path x) a"
    and "stored_in_tree db (lo_laboratory_id x) (lo_path x) b \<or> ii_location_id b = None"
  shows "delete_location env ctx i db = (Inl (ConflictError (lit ''Location already exists'')), db)
    \<and> status_code (ConflictError (lit ''Location already exists'')) = 409"
proof -
  have "coalesce (ii_batch_number a) [] = coalesce (ii_batch_number b) []"
    using assms(12) by simp
  note clash = delete_location_subtree_clash [OF assms(2,1,5,6,7,8,9,10,11) this assms(13,14,15), of env]
  have "require_permission env (authorization_actor ctx) Location_resource (Delete i) m db = Inr ()" for m
    using assms(4) by (simp add: require_permission_Inr)
  then show ?thesis
    by (simp add: delete_location_def run_handler_def transaction_def delete_location_in_transaction_def
        tx_step tx_read_def fetch_location_for_update_def assms(3) tx_map_err_def clash)
qed

theorem stock_blocks_location_deletion_witness:
  "delete_location env_1 admin_ctx 60 db_5 = (Inl (ConflictError (lit ''Location already exists'')), db_5)"
proof -
  let ?x = "place_row 60 None (lit ''cabinet'') (lit ''cabinet'') 0"
  let ?a = "(stock_row 40 10 2 (lit ''available''))\<lparr>ii_location_id := Some 61\<rparr>"
  let ?b = "stock_row 42 5 0 (lit ''available'')"
  have x: "fetch_location 60 db_5 = Some ?x"
    by (simp add: fetch_location_def fetch_optional_def db_4_def db_5_def place_row_def)
  have perm: "validate_permission db_5 (env_now env_1) (authorization_actor admin_ctx) Location_resource (Delete 60) = Inr True"
    unfolding admin_authorization by code_simp
  have a: "?a \<in> set (inventory_items db_5)" and b: "?b \<in> set (inventory_items db_5)"
    by (simp_all add: db_4_def db_5_def)
  have stored: "stored_in_tree db_5 (lo_laboratory_id ?x) (lo_path ?x) ?a"
    by code_simp
  from stock_blocks_location_deletion [OF db_4_tree(2) db_4_ok(2) x perm a b _ _ _ _ _ _ _ stored]
  show ?thesis
    by (simp add: stock_row_def)
qed

section \<open>Runs\<close>

text \<open>
  C24. Over any run of creations, changes and deletions by anybody: the paths stay those of the
  parent pointers and items keep everything but their location; a depth is the number of dots in
  the path and the addition that computes a child's depth never wraps, given the server's limit on
  labels; and following parents always ends, so no location is ever above itself.
\<close>

theorem location_runs_keep_the_tree:
  assumes "location_step\<^sup>*\<^sup>* db db'" and "locations_consistent db"
  shows "inventory_ok db' \<and> location_tree_ok db' \<and> items_only_moved db db'
    \<and> (\<forall>r\<in>set (locations db'). sint (lo_depth r) = int (length (path_labels (lo_path r))) - 1
         \<and> sint (snd (build_path_and_depth (Some r) code)) = sint (lo_depth r) + 1)
    \<and> wf {(m, n). n \<in> set (map location_node (locations db')) \<and> m \<in> set (map location_node (locations db'))
            \<and> nd_parent_id n = Some (nd_id m)}"
proof -
  have k: "locations_consistent db'" "items_only_moved db db'"
    using moving.run [OF assms] by auto
  then have ok: "inventory_ok db'" "location_tree_ok db'" "paths_fit db'"
    by (auto simp: locations_consistent_def)
  have "sint (lo_depth r) = int (length (path_labels (lo_path r))) - 1
      \<and> sint (snd (build_path_and_depth (Some r) code)) = sint (lo_depth r) + 1"
    if r: "r \<in> set (locations db')" for r
  proof -
    have "length (path_labels (lo_path r)) \<le> 65535"
      using ok(3) r by (simp add: paths_fit_def)
    note d = depth_of_fits [OF path_labels_ne this]
    have "lo_depth r = depth_of (path_labels (lo_path r))"
      by (rule location_row_ok(2) [OF ok(2) r])
    with d show ?thesis
      by simp
  qed
  then show ?thesis
    using ok k(2) parents_wf [OF ok(2) [unfolded location_tree_ok_def]] by blast
qed

theorem location_runs_keep_the_tree_witness:
  "\<exists>db'. location_step\<^sup>*\<^sup>* db_4 db' \<and> db' \<noteq> db_4 \<and> location_tree_ok db'"
proof -
  obtain db' where run: "delete_location env_1 admin_ctx 60 db_4 = (Inr (), db')"
    using cabinet_deleted by blast
  have step: "location_step\<^sup>*\<^sup>* db_4 db'"
    by (intro r_into_rtranclp) (rule location_step.delete [OF env_1_limit run])
  have "paths_fit db_4"
    by (simp add: paths_fit_def db_4_def place_row_def lit_def)
  then have "locations_consistent db_4"
    using db_4_ok(1) db_4_tree(1) by (simp add: locations_consistent_def)
  with location_runs_keep_the_tree [OF step] have "location_tree_ok db'"
    by blast
  moreover have "db' \<noteq> db_4"
    using delete_location_Inr [OF run db_4_ok(1) db_4_tree(1)] by (metis append_self_conv not_Cons_self2)
  ultimately show ?thesis
    using step by blast
qed

end
