(* ===== verification/Category_Tree.thy ===== *)
theory Category_Tree
  imports Asset_Categories
begin

text \<open>
  The table of asset categories as a tree: the invariant \<open>category_tree_ok\<close>, what the statements do to
  the nodes, and that creating, moving and deleting categories keeps the invariant.
\<close>

definition category_node :: "category_row \<Rightarrow> node" where
  "category_node r = \<lparr>nd_id = ca_category_id r, nd_laboratory_id = ca_laboratory_id r,
     nd_parent_id = ca_parent_category_id r, nd_code = ca_code r, nd_path = path_labels (ca_path r),
     nd_depth = ca_depth r\<rparr>"

definition category_tree_ok :: "database \<Rightarrow> bool" where
  "category_tree_ok db \<longleftrightarrow> tree_ok (map category_node (asset_categories db))"

lemma category_node_simps [simp]:
  "nd_id (category_node r) = ca_category_id r" "nd_laboratory_id (category_node r) = ca_laboratory_id r"
  "nd_parent_id (category_node r) = ca_parent_category_id r" "nd_code (category_node r) = ca_code r"
  "nd_path (category_node r) = path_labels (ca_path r)" "nd_depth (category_node r) = ca_depth r"
  by (simp_all add: category_node_def)

interpretation cat: tree_table category_node "rehang_category env" for env
proof
  fix new old :: "rstr list" and r
  assume "new \<noteq> []" "\<forall>l\<in>set new. 46 \<notin> set l"
  from rehang_labels [OF this]
  show "category_node (rehang_category env old new r) = (category_node r)
          \<lparr>nd_path := rehang old new (nd_path (category_node r)),
           nd_depth := depth_of (rehang old new (nd_path (category_node r)))\<rparr>"
    by (simp add: rehang_category_def category_node_def depth_of_def Let_def rehang_def)
qed

section \<open>Reading\<close>

lemma category_tree_ids: "category_tree_ok db \<Longrightarrow> distinct (map ca_category_id (asset_categories db))"
  by (simp add: category_tree_ok_def tree_ok_def o_def)

lemma fetch_category_Some: "fetch_category i db = Some r \<Longrightarrow> r \<in> set (asset_categories db) \<and> ca_category_id r = i"
  unfolding fetch_category_def by (rule fetch_optional_Some)

lemma fetch_category_mem:
  "category_tree_ok db \<Longrightarrow> r \<in> set (asset_categories db) \<Longrightarrow> fetch_category (ca_category_id r) db = Some r"
  unfolding fetch_category_def by (rule fetch_optional_unique [OF category_tree_ids])

lemma category_row_ok:
  assumes "category_tree_ok db" and "r \<in> set (asset_categories db)"
  shows "code_check (ca_code r)" and "ca_depth r = depth_of (path_labels (ca_path r))"
    and "hangs (map category_node (asset_categories db)) (category_node r)"
  using tree_ok_node [OF assms(1) [unfolded category_tree_ok_def], of "category_node r"] assms(2) by simp_all

lemma category_in_tree_node: "category_in_tree lab p r = in_tree lab (path_labels p) (category_node r)"
  by (simp add: category_in_tree_def in_tree_def)

section \<open>Placing\<close>

text \<open>Where \<open>build_category_path_and_depth\<close> puts a category is below its parent.\<close>

lemma built_category_path:
  assumes "build_category_path_and_depth parent code = (path, depth)" and "code_check code"
    and "\<And>m. parent = Some m \<Longrightarrow> ca_depth m = depth_of (path_labels (ca_path m))"
  shows "path_labels path = (case parent of None \<Rightarrow> [] | Some m \<Rightarrow> path_labels (ca_path m)) @ [code]"
    and "depth = depth_of (path_labels path)"
  using assms code_check_no_dot [OF assms(2)]
  by (cases parent; auto simp: lit_def path_labels_dot path_labels_plain depth_of_snoc depth_of_def)+

lemma category_violation_None:
  assumes "category_violation env db others r = None"
  shows "code_check (ca_code r)" and "ca_name r \<noteq> []" and "ca_laboratory_id r \<in> set (laboratories db)"
    and "\<And>s. s \<in> set others \<Longrightarrow> ca_category_id s \<noteq> ca_category_id r"
    and "\<And>s. s \<in> set others \<Longrightarrow> ca_laboratory_id s = ca_laboratory_id r \<Longrightarrow> ca_path s \<noteq> ca_path r"
    and "ltree_storable env (path_labels (ca_path r))"
  using assms by (auto simp: category_violation_def split: if_splits)

lemma resolve_new_category_parent_Inr:
  assumes "resolve_new_category_parent lab p db = Inr (parent, db')"
  shows "db' = db" and "p = map_option ca_category_id parent"
    and "parent = Some m \<Longrightarrow> m \<in> set (asset_categories db) \<and> ca_laboratory_id m = lab"
  using assms
  by (cases p; auto simp: tx_unfold ok_or_Inr_iff ensure_Inr_iff fetch_category_for_update_def
      dest!: fetch_category_Some)+

lemma resolve_moved_category_parent_Inr:
  assumes "resolve_moved_category_parent x p db = Inr (parent, db')"
  shows "db' = db" and "p = map_option ca_category_id parent"
    and "parent = Some m \<Longrightarrow> m \<in> set (asset_categories db) \<and> ca_laboratory_id m = ca_laboratory_id x
           \<and> \<not> prefix (path_labels (ca_path x)) (path_labels (ca_path m))"
  using assms
  by (cases p; auto simp: tx_unfold ok_or_Inr_iff ensure_Inr_iff fetch_category_for_update_def path_test_prefix
      dest!: fetch_category_Some)+

section \<open>Creating\<close>

lemma insert_category_Inr:
  "insert_category env i lab parent name code path depth description db = Inr (row, db') \<longleftrightarrow>
     row = \<lparr>ca_category_id = i, ca_laboratory_id = lab, ca_parent_category_id = parent, ca_name = name,
       ca_code = code, ca_path = path, ca_depth = depth, ca_description = description,
       ca_created_at = env_now env, ca_updated_at = env_now env\<rparr>
     \<and> category_violation env db (asset_categories db) row = None
     \<and> db' = db\<lparr>asset_categories := asset_categories db @ [row]\<rparr>"
  by (auto simp: insert_category_def tx_unfold Let_def split: option.splits)

lemma created_category_ok:
  assumes ok: "category_tree_ok db"
    and parent: "resolve_new_category_parent lab p db = Inr (parent, db1)"
    and path: "build_category_path_and_depth parent code = (path, depth)"
    and ins: "insert_category env i lab p name code path depth description db1 = Inr (row, db')"
  shows "category_tree_ok db'" and "asset_categories db' = asset_categories db @ [row]"
    and "path_labels (ca_path row) = (case parent of None \<Rightarrow> [] | Some m \<Rightarrow> path_labels (ca_path m)) @ [code]"
proof -
  note par = resolve_new_category_parent_Inr [OF parent]
  from ins have row: "ca_category_id row = i" "ca_laboratory_id row = lab" "ca_parent_category_id row = p"
      "ca_code row = code" "ca_path row = path" "ca_depth row = depth"
      and none: "category_violation env db (asset_categories db) row = None"
      and db': "db' = db\<lparr>asset_categories := asset_categories db @ [row]\<rparr>"
    by (auto simp: insert_category_Inr par(1))
  note viol = category_violation_None [OF none]
  have code: "code_check code"
    using viol(1) by (simp add: row)
  have pd: "ca_depth m = depth_of (path_labels (ca_path m))" if "parent = Some m" for m
    using category_row_ok(2) [OF ok] par(3) [OF that] by blast
  note built = built_category_path [OF path code pd]
  show "asset_categories db' = asset_categories db @ [row]"
    by (simp add: db')
  show labels: "path_labels (ca_path row) = (case parent of None \<Rightarrow> [] | Some m \<Rightarrow> path_labels (ca_path m)) @ [code]"
    by (simp add: row built(1))
  have "hangs (map category_node (asset_categories db)) (category_node row)"
  proof (cases parent)
    case None
    with par(2) labels row show ?thesis
      by (simp add: hangs_def)
  next
    case (Some m)
    with par(2,3) labels row show ?thesis
      by (intro hangs_child [of "category_node m"]) simp_all
  qed
  then show "category_tree_ok db'"
    unfolding category_tree_ok_def db'
    using tree_insert [OF ok [unfolded category_tree_ok_def], of "category_node row"] viol(1,4,5) built(2) row
    by (fastforce simp: image_iff)
qed

section \<open>Moving\<close>

lemma place_category_id [simp]:
  "ca_category_id (place_category p name code path depth d now r) = ca_category_id r"
  "ca_laboratory_id (place_category p name code path depth d now r) = ca_laboratory_id r"
  by (simp_all add: place_category_def)

interpretation place_cat: row_update ca_category_id "place_category p name code path depth d now"
    for p name code path depth d now
  by unfold_locales simp

lemma rehang_category_keeps [simp]:
  "ca_category_id (rehang_category env old new r) = ca_category_id r"
  "ca_laboratory_id (rehang_category env old new r) = ca_laboratory_id r"
  "ca_parent_category_id (rehang_category env old new r) = ca_parent_category_id r"
  "ca_name (rehang_category env old new r) = ca_name r"
  "ca_code (rehang_category env old new r) = ca_code r"
  "ca_description (rehang_category env old new r) = ca_description r"
  by (simp_all add: rehang_category_def Let_def)

interpretation rehang_cat: row_update ca_category_id "rehang_category env old new" for env old new
  by unfold_locales simp

lemma update_category_Inr:
  assumes "update_category_in_database env i p name code path depth d db = Inr (updated, db1)"
    and ok: "category_tree_ok db" and x: "fetch_category i db = Some x"
  defines "place \<equiv> place_category p name code path depth d (env_now env)"
  shows "updated = place x"
    and "db1 = db\<lparr>asset_categories := update_rows (\<lambda>r. ca_category_id r = i) place (asset_categories db)\<rparr>"
    and "category_violation env db (filter (\<lambda>s. ca_category_id s \<noteq> i) (asset_categories db)) (place x) = None"
proof -
  from assms(1) obtain rows where w: "write_row (category_violation env db) ca_category_id place i (asset_categories db) = Inr rows"
      and db1: "db1 = db\<lparr>asset_categories := rows\<rparr>" and f: "fetch_category i db1 = Some updated"
    by (auto simp: update_category_in_database_def tx_unfold and_then_Inr_iff ok_or_Inr_iff place_def)
  note rows = write_row_Inr [OF w]
  show "db1 = db\<lparr>asset_categories := update_rows (\<lambda>r. ca_category_id r = i) place (asset_categories db)\<rparr>"
    by (simp add: db1 rows)
  show "updated = place x"
    using f x place_cat.read_back [of i] by (simp add: db1 rows fetch_category_def place_def)
  show "category_violation env db (filter (\<lambda>s. ca_category_id s \<noteq> i) (asset_categories db)) (place x) = None"
    using w x by (auto simp: write_row_def fetch_category_def split: option.splits)
qed

lemma update_category_descendant_paths_Inr:
  assumes "update_category_descendant_paths env lab i old new db = Inr (u, db')" and ok: "distinct (map ca_category_id (asset_categories db))"
  shows "db' = db\<lparr>asset_categories := update_rows (\<lambda>r. category_in_tree lab old r \<and> ca_category_id r \<noteq> i)
           (rehang_category env (path_labels old) (path_labels new)) (asset_categories db)\<rparr>"
    and "\<And>r. r \<in> set (asset_categories db) \<Longrightarrow> category_in_tree lab old r \<Longrightarrow> ca_category_id r \<noteq> i
           \<Longrightarrow> ltree_storable env (path_labels (ca_path (rehang_category env (path_labels old) (path_labels new) r)))"
proof -
  let ?p = "\<lambda>r. category_in_tree lab old r \<and> ca_category_id r \<noteq> i"
  let ?f = "rehang_category env (path_labels old) (path_labels new)"
  from assms(1) obtain rows where w: "write_rows (category_violation env db) ca_category_id ?f
        (map ca_category_id (filter ?p (asset_categories db))) (asset_categories db) = Inr rows"
      and db': "db' = db\<lparr>asset_categories := rows\<rparr>"
    by (auto simp: update_category_descendant_paths_def tx_unfold and_then_Inr_iff ltree_cast_def Let_def split: if_splits)
  note written = write_selected_rows [OF w, OF ok, OF rehang_category_keeps(1)]
  show "db' = db\<lparr>asset_categories := update_rows ?p ?f (asset_categories db)\<rparr>"
    using written(1) by (simp add: db')
  show "ltree_storable env (path_labels (ca_path (?f r)))"
    if "r \<in> set (asset_categories db)" "category_in_tree lab old r" "ca_category_id r \<noteq> i" for r
    using written(2) [OF that(1)] that(2,3) category_violation_None(6) by blast
qed

lemma moved_category:
  assumes ok: "category_tree_ok db" and x: "fetch_category i db = Some x"
    and parent: "resolve_moved_category_parent x p db = Inr (parent, db1)"
    and path: "build_category_path_and_depth parent code = (path, depth)"
    and move: "move_category env x p name code path depth d db1 = Inr (updated, db')"
  shows "map category_node (asset_categories db')
           = map (move_node (category_node x) p code (path_labels path)) (map category_node (asset_categories db))"
    and "category_tree_ok db'" and "updated = place_category p name code path depth d (env_now env) x"
    and "fetch_category i db' = Some updated" and "\<exists>rows. db' = db\<lparr>asset_categories := rows\<rparr>"
    and "\<forall>r\<in>set (asset_categories db'). r \<in> set (asset_categories db) \<or> ltree_storable env (path_labels (ca_path r))"
proof -
  let ?place = "place_category p name code path depth d (env_now env)"
  note par = resolve_moved_category_parent_Inr [OF parent]
  note xm = fetch_category_Some [OF x]
  from move obtain db2 where upd: "update_category_in_database env i p name code path depth d db = Inr (updated, db2)"
      and rest: "(if ca_path updated \<noteq> ca_path x \<or> ca_depth updated \<noteq> ca_depth x
            then update_category_descendant_paths env (ca_laboratory_id x) i (ca_path x) (ca_path updated)
            else tx_return ()) db2 = Inr ((), db')"
    using xm by (auto simp: move_category_def tx_unfold par(1))
  note u = update_category_Inr [OF upd ok x]
  show updated: "updated = ?place x"
    by (rule u(1))
  have up: "ca_path updated = path" "ca_depth updated = depth"
    by (simp_all add: updated place_category_def)
  note viol = category_violation_None [OF u(3)]
  have code: "code_check code"
    using viol(1) by (simp add: place_category_def)
  have pd: "ca_depth m = depth_of (path_labels (ca_path m))" if "parent = Some m" for m
    using category_row_ok(2) [OF ok] par(3) [OF that] by blast
  note built = built_category_path [OF path code pd]
  have tree: "tree_ok (map category_node (asset_categories db))"
    using ok by (simp add: category_tree_ok_def)
  have legal: "legal_place (map category_node (asset_categories db)) (category_node x) p code (path_labels path)"
  proof (rule legal_placeI [where q = "map_option category_node parent"])
    fix n
    assume "n \<in> set (map category_node (asset_categories db))" "nd_id n \<noteq> nd_id (category_node x)"
      "nd_laboratory_id n = nd_laboratory_id (category_node x)"
    then show "nd_path n \<noteq> path_labels path"
      using viol(5) xm by (auto simp: place_category_def)
  qed (use code par(2,3) built(1) in \<open>auto simp: option.map_comp o_def split: option.splits\<close>)
  have eq: "category_node (?place x) = (category_node x)\<lparr>nd_parent_id := p, nd_code := code,
      nd_path := path_labels path, nd_depth := depth_of (path_labels path)\<rparr>"
    by (simp add: category_node_def place_category_def built(2))
  have i: "i = ca_category_id x"
    using xm by simp
  have no_dots: "\<forall>l\<in>set (path_labels path). 46 \<notin> set l"
    using path_labels_no_dot by blast
  let ?rows1 = "update_rows (\<lambda>r. ca_category_id r = i) ?place (asset_categories db)"
  let ?below = "\<lambda>r. category_in_tree (ca_laboratory_id x) (ca_path x) r \<and> ca_category_id r \<noteq> i"
  let ?rehang = "rehang_category env (path_labels (ca_path x)) (path_labels path)"
  let ?fits = "\<lambda>r. ltree_storable env (path_labels (ca_path r))"
  have two: "(db' = db\<lparr>asset_categories := ?rows1\<rparr> \<and> path = ca_path x)
    \<or> (db' = db\<lparr>asset_categories := update_rows ?below ?rehang ?rows1\<rparr>
       \<and> (\<forall>r\<in>set ?rows1. ?below r \<longrightarrow> ?fits (?rehang r)))"
  proof (cases "ca_path updated \<noteq> ca_path x \<or> ca_depth updated \<noteq> ca_depth x")
    case True
    with rest have d: "update_category_descendant_paths env (ca_laboratory_id x) i (ca_path x) path db2 = Inr ((), db')"
      by (simp add: up)
    have "distinct (map ca_category_id (asset_categories db2))"
      using category_tree_ids [OF ok] by (simp add: u(2) place_cat.distinct_keys)
    from update_category_descendant_paths_Inr [OF d this] show ?thesis
      by (simp add: u(2))
  next
    case False
    with rest u(2) up show ?thesis
      by (simp add: tx_unfold)
  qed
  then show "\<exists>rows. db' = db\<lparr>asset_categories := rows\<rparr>"
    by blast
  have fit: "?fits (?place x)"
    using viol(6) .
  from two have "(asset_categories db' = ?rows1 \<and> path_labels path = path_labels (ca_path x))
    \<or> (asset_categories db' = update_rows ?below ?rehang ?rows1 \<and> (\<forall>r\<in>set ?rows1. ?below r \<longrightarrow> ?fits (?rehang r)))"
    by auto
  note moved = cat.moved_table [where place = ?place and fits = ?fits and env = env, OF tree conjunct1 [OF xm] legal
      no_dots eq fit, unfolded category_node_simps, folded category_in_tree_node i, OF this]
  show "map category_node (asset_categories db')
      = map (move_node (category_node x) p code (path_labels path)) (map category_node (asset_categories db))"
    by (rule moved(1))
  show "category_tree_ok db'"
    unfolding category_tree_ok_def by (rule moved(2))
  show "\<forall>r\<in>set (asset_categories db'). r \<in> set (asset_categories db) \<or> ?fits r"
    by (rule moved(3))
  show "fetch_category i db' = Some updated"
    using moved(4) by (simp add: fetch_category_def updated)
qed

end
