(* ===== verification/Category_Changes.thy ===== *)
theory Category_Changes
  imports Category_Tree
begin

text \<open>
  What a successful request for an asset category does, handler by handler: the tree, the
  parameter assignments, the assets filed under a deleted category.
\<close>

section \<open>Assignments\<close>

lemma parse_assignments_loop_Inr:
  "parse_assignments_loop seen parsed as = Inr out \<Longrightarrow>
     \<exists>rest. out = parsed @ rest \<and> map gi_parameter_type_id rest = map gp_parameter_type_id as
       \<and> distinct (map gp_parameter_type_id as) \<and> (\<forall>a\<in>set as. gp_parameter_type_id a \<notin> set seen)"
proof (induction seen parsed as rule: parse_assignments_loop.induct)
  case (2 seen parsed a as)
  from 2(2) have new: "gp_parameter_type_id a \<notin> set seen"
    by (auto split: if_splits)
  with 2 obtain rest where "out = (parsed @ [\<lparr>gi_parameter_type_id = gp_parameter_type_id a,
                gi_applies_to_descendants = coalesce (gp_applies_to_descendants a) True,
                gi_is_required = coalesce (gp_is_required a) True,
                gi_sort_order = coalesce (gp_sort_order a) 0\<rparr>]) @ rest"
      "map gi_parameter_type_id rest = map gp_parameter_type_id as"
      "distinct (map gp_parameter_type_id as)"
      "\<forall>b\<in>set as. gp_parameter_type_id b \<notin> set (gp_parameter_type_id a # seen)"
    by auto
  with new show ?case
    by auto
qed auto

text \<open>Accepted assignments name each parameter once, in the order of the request.\<close>

lemma parse_parameter_assignments_Inr:
  assumes "parse_parameter_assignments as = Inr inputs"
  shows "map gi_parameter_type_id inputs = map gp_parameter_type_id as"
    and "distinct (map gi_parameter_type_id inputs)"
  using parse_assignments_loop_Inr [of "[]" "[]" as inputs] assms by (auto simp: parse_parameter_assignments_def)

text \<open>A row as it is stored for an input.\<close>

definition assigns :: "uuid \<Rightarrow> uuid \<Rightarrow> assignment_input \<Rightarrow> assignment_row \<Rightarrow> bool" where
  "assigns lab category_id a r \<longleftrightarrow>
     ag_laboratory_id r = lab \<and> ag_category_id r = category_id
     \<and> ag_parameter_type_id r = gi_parameter_type_id a
     \<and> ag_applies_to_descendants r = gi_applies_to_descendants a
     \<and> ag_is_required r = gi_is_required a \<and> ag_sort_order r = gi_sort_order a"

lemma insert_category_assignment_Inr:
  assumes "insert_category_assignment env i lab c a db = Inr (r, db')"
  shows "db' = db\<lparr>parameter_assignments := parameter_assignments db @ [r]\<rparr>" and "assigns lab c a r"
    and "assignment_violation db r = None"
  using assms by (auto simp: insert_category_assignment_def tx_unfold Let_def assigns_def split: option.splits)

lemma assignment_loop_Inr:
  assumes "tx_for_each (\<lambda>(i, a). insert_category_assignment env (env_new_v4 env i) lab c a) (enumerate n as) db
      = Inr (rows, db')"
  shows "db' = db\<lparr>parameter_assignments := parameter_assignments db @ rows\<rparr> \<and> list_all2 (assigns lab c) as rows"
  using assms
proof (induction as arbitrary: n db rows)
  case Nil
  then show ?case
    by (simp add: tx_unfold)
next
  case (Cons a as)
  then obtain r db1 rest where r: "insert_category_assignment env (env_new_v4 env n) lab c a db = Inr (r, db1)"
      and rest: "tx_for_each (\<lambda>(i, a). insert_category_assignment env (env_new_v4 env i) lab c a)
        (enumerate (Suc n) as) db1 = Inr (rest, db')" and rows: "rows = r # rest"
    by (auto simp: tx_unfold)
  from Cons.IH [OF rest] insert_category_assignment_Inr [OF r] show ?case
    by (simp add: rows)
qed

lemma insert_parameter_assignments_Inr:
  assumes "insert_parameter_assignments env n lab c as db = Inr (out, db')"
  obtains rows where "db' = db\<lparr>parameter_assignments := parameter_assignments db @ rows\<rparr>"
    and "list_all2 (assigns lab c) as rows" and "out = sort_key assignment_order rows"
  using assms assignment_loop_Inr [of env lab c n as db] by (auto simp: insert_parameter_assignments_def tx_unfold)

lemma replace_parameter_assignments_Inr:
  assumes "replace_parameter_assignments env lab c as db = Inr (out, db')"
  obtains rows where "db' = db\<lparr>parameter_assignments :=
        filter (\<lambda>r. ag_category_id r \<noteq> c) (parameter_assignments db) @ rows\<rparr>"
    and "list_all2 (assigns lab c) as rows" and "out = sort_key assignment_order rows"
proof -
  from assms have "insert_parameter_assignments env 0 lab c as
      (db\<lparr>parameter_assignments := filter (\<lambda>r. ag_category_id r \<noteq> c) (parameter_assignments db)\<rparr>) = Inr (out, db')"
    by (auto simp: replace_parameter_assignments_def delete_category_assignments_def tx_unfold)
  then show thesis
    by (rule insert_parameter_assignments_Inr) (use that in simp)
qed

text \<open>Accepted assignments are parameters of the laboratory.\<close>

lemma validate_parameter_assignments_Inr:
  assumes "validate_parameter_assignments lab as db = Inr (u, db')"
    and "distinct (map gi_parameter_type_id as)" and "distinct (map pt_parameter_type_id (asset_parameter_types db))"
  shows "db' = db" and "\<forall>a\<in>set as. \<exists>t\<in>set (asset_parameter_types db).
           pt_parameter_type_id t = gi_parameter_type_id a \<and> pt_laboratory_id t = lab"
proof -
  let ?ids = "map gi_parameter_type_id as"
  let ?found = "fetch_asset_parameter_ids_for_laboratory lab ?ids db"
  show "db' = db"
    using assms(1) by (auto simp: validate_parameter_assignments_def Let_def tx_unfold)
  have "length ?found = length ?ids"
    using assms(1) by (auto simp: validate_parameter_assignments_def Let_def tx_unfold ensure_Inr_iff)
  moreover have "distinct ?found"
    using assms(3) by (simp add: fetch_asset_parameter_ids_for_laboratory_def distinct_map_filter)
  moreover have "set ?found \<subseteq> set ?ids"
    by (auto simp: fetch_asset_parameter_ids_for_laboratory_def)
  ultimately have found: "set ?found = set ?ids"
    using distinct_card [OF assms(2)] distinct_card [of ?found] by (intro card_subset_eq) simp_all
  show "\<forall>a\<in>set as. \<exists>t\<in>set (asset_parameter_types db).
           pt_parameter_type_id t = gi_parameter_type_id a \<and> pt_laboratory_id t = lab"
  proof
    fix a
    assume "a \<in> set as"
    then have "gi_parameter_type_id a \<in> set ?found"
      by (simp only: found set_map imageI)
    then show "\<exists>t\<in>set (asset_parameter_types db). pt_parameter_type_id t = gi_parameter_type_id a \<and> pt_laboratory_id t = lab"
      by (auto simp: fetch_asset_parameter_ids_for_laboratory_def)
  qed
qed

text \<open>What the stored rows are, put together.\<close>

lemma assigned_rows:
  assumes "list_all2 (assigns lab c) inputs rows" and "distinct (map gi_parameter_type_id inputs)"
    and "\<forall>a\<in>set inputs. \<exists>t\<in>set types. pt_parameter_type_id t = gi_parameter_type_id a \<and> pt_laboratory_id t = lab"
  shows "map ag_parameter_type_id rows = map gi_parameter_type_id inputs"
    and "distinct (map ag_parameter_type_id rows)"
    and "\<forall>r\<in>set rows. ag_category_id r = c
           \<and> (\<exists>t\<in>set types. pt_parameter_type_id t = ag_parameter_type_id r \<and> pt_laboratory_id t = lab)"
proof -
  show ids: "map ag_parameter_type_id rows = map gi_parameter_type_id inputs"
    using assms(1) by (induction rule: list_all2_induct) (auto simp: assigns_def)
  then show "distinct (map ag_parameter_type_id rows)"
    using assms(2) by simp
  show "\<forall>r\<in>set rows. ag_category_id r = c
           \<and> (\<exists>t\<in>set types. pt_parameter_type_id t = ag_parameter_type_id r \<and> pt_laboratory_id t = lab)"
    using assms(1,3) by (induction rule: list_all2_induct) (auto simp: assigns_def)
qed

section \<open>Clearing and deleting\<close>

lemma delete_category_subtree_Inr:
  assumes "delete_category_subtree env lab p db = Inr (cleared, db')" and ok: "category_tree_ok db"
  shows "category_tree_ok db'"
    and "db' = db\<lparr>asset_categories := filter (\<lambda>r. \<not> category_in_tree lab p r) (asset_categories db),
           assets := update_rows (filed_in_tree db lab p) (clear_category (env_now env)) (assets db),
           parameter_assignments := filter (\<lambda>r. \<not> (\<exists>c\<in>set (asset_categories db).
             category_in_tree lab p c \<and> ca_category_id c = ag_category_id r)) (parameter_assignments db)\<rparr>"
    and "cleared = sort (map as_asset_id (filter (filed_in_tree db lab p) (assets db)))"
proof -
  have eq: "(\<lambda>r. \<not> (ag_category_id r \<in> ca_category_id ` {x. x \<in> set (asset_categories db) \<and> category_in_tree lab p x}))
      = (\<lambda>r. \<not> (\<exists>c\<in>set (asset_categories db). category_in_tree lab p c \<and> ca_category_id c = ag_category_id r))"
    by (auto simp: fun_eq_iff image_iff)
  show db': "db' = db\<lparr>asset_categories := filter (\<lambda>r. \<not> category_in_tree lab p r) (asset_categories db),
           assets := update_rows (filed_in_tree db lab p) (clear_category (env_now env)) (assets db),
           parameter_assignments := filter (\<lambda>r. \<not> (\<exists>c\<in>set (asset_categories db).
             category_in_tree lab p c \<and> ca_category_id c = ag_category_id r)) (parameter_assignments db)\<rparr>"
    using assms(1)
    by (auto simp: delete_category_subtree_def clear_asset_categories_in_tree_def delete_category_tree_def
        tx_unfold Let_def eq split: if_splits)
  show "cleared = sort (map as_asset_id (filter (filed_in_tree db lab p) (assets db)))"
    using assms(1) by (auto simp: delete_category_subtree_def tx_unfold fetch_asset_ids_in_tree_def)
  show "category_tree_ok db'"
    using tree_prune [OF ok [unfolded category_tree_ok_def], of lab "path_labels p"]
    by (simp add: category_tree_ok_def db' category_in_tree_node filter_map o_def)
qed

section \<open>The handlers\<close>

lemma permitted_category_in_scope:
  assumes "scoped_context ctx" and "act = Read i \<or> act = Update i \<or> act = Delete i"
    and "validate_permission db now (authorization_actor ctx) AssetCategory_resource act = Inr True"
  shows "\<exists>r. fetch_category i db = Some r \<and> ca_laboratory_id r = ctx_laboratory_id ctx"
  using permitted_row_in_scope [OF assms(1) _ assms(2,3)]
  by (auto simp: owned_by_laboratory_def row_laboratory_def fetch_category_def)

lemma category_audit_frame [simp]:
  "category_tree_ok (db\<lparr>audit_logs := l\<rparr>) = category_tree_ok db"
  "category_tree_ok (db\<lparr>parameter_assignments := as\<rparr>) = category_tree_ok db"
  by (simp_all add: category_tree_ok_def)

lemma create_asset_category_Inr:
  assumes "create_asset_category env ctx payload assignments db = (Inr (row, shown), db')" and ok: "category_tree_ok db"
  obtains parent inputs rows l where
    "category_tree_ok db'"
    and "db' = db\<lparr>asset_categories := asset_categories db @ [row],
           parameter_assignments := parameter_assignments db @ rows, audit_logs := l\<rparr>"
    and "ca_laboratory_id row = ctx_laboratory_id ctx"
    and "ca_parent_category_id row = nc_parent_category_id payload"
    and "nc_parent_category_id payload = map_option ca_category_id parent"
    and "\<forall>m. parent = Some m \<longrightarrow> m \<in> set (asset_categories db) \<and> ca_laboratory_id m = ctx_laboratory_id ctx"
    and "path_labels (ca_path row) = (case parent of None \<Rightarrow> [] | Some m \<Rightarrow> path_labels (ca_path m)) @ [ca_code row]"
    and "parse_parameter_assignments (coalesce assignments []) = Inr inputs"
    and "list_all2 (assigns (ctx_laboratory_id ctx) (ca_category_id row)) inputs rows"
    and "shown = map AssignmentResponse_from (sort_key assignment_order rows)"
    and "validate_parameter_assignments (ctx_laboratory_id ctx) inputs db = Inr ((), db)"
proof -
  from assms(1) obtain new inputs parent db1 db1' db2 db3 path depth cat out where
      inputs: "parse_parameter_assignments (coalesce assignments []) = Inr inputs"
      and new: "NewAssetCategory_try_from env payload = Inr new"
      and par: "resolve_new_category_parent (ctx_laboratory_id ctx) (nc_parent_category_id new) db = Inr (parent, db1)"
      and val: "validate_parameter_assignments (ctx_laboratory_id ctx) inputs db1 = Inr ((), db1')"
      and path: "build_category_path_and_depth parent (nc_code new) = (path, depth)"
      and ins: "insert_category env (env_new_v4 env 0) (ctx_laboratory_id ctx) (nc_parent_category_id new)
          (nc_name new) (nc_code new) path depth (nc_description new) db1' = Inr (cat, db2)"
      and asg: "insert_parameter_assignments env 1 (ca_laboratory_id cat) (ca_category_id cat) inputs db2 = Inr (out, db3)"
      and log: "record_audit (actor_user_id (ctx_actor ctx)) Audit_Create Res_AssetCategory
          (Some (ca_category_id cat)) (Details_create_category (ca_category_id cat)) db3 = Inr ((), db')"
      and res: "AssetCategoryResponse_from_parts cat out = (row, shown)"
    by (auto simp: create_asset_category_def create_category_in_transaction_def run_handler_Inr tx_unfold
        and_then_Inr_iff map_err_Inr_iff tx_case_prod simp del: record_audit_Inr split_paired_Ex)
  have cat: "cat = row" and shown: "shown = map AssignmentResponse_from out"
    using res by (auto simp: AssetCategoryResponse_from_parts_def)
  note p = resolve_new_category_parent_Inr [OF par]
  have db1': "db1' = db"
    using val by (auto simp: p(1) validate_parameter_assignments_def Let_def tx_unfold)
  note ins' = ins [unfolded db1' cat]
  note c = created_category_ok [OF ok par [unfolded p(1)] path ins' ]
  from ins' have row: "ca_laboratory_id row = ctx_laboratory_id ctx" "ca_parent_category_id row = nc_parent_category_id new"
      "ca_code row = nc_code new" and db2: "db2 = db\<lparr>asset_categories := asset_categories db @ [row]\<rparr>"
    by (auto simp: insert_category_Inr)
  obtain rows where rows: "db3 = db2\<lparr>parameter_assignments := parameter_assignments db2 @ rows\<rparr>"
      "list_all2 (assigns (ctx_laboratory_id ctx) (ca_category_id row)) inputs rows" "out = sort_key assignment_order rows"
    using insert_parameter_assignments_Inr [OF asg [unfolded cat row(1)]] by blast
  obtain l where db': "db' = db3\<lparr>audit_logs := l\<rparr>"
    using log by (auto simp: record_audit_Inr)
  have par_eq: "nc_parent_category_id new = nc_parent_category_id payload"
    using new by (auto simp: NewAssetCategory_try_from_def and_then_Inr_iff)
  have pre: "ca_parent_category_id row = nc_parent_category_id payload"
      "nc_parent_category_id payload = map_option ca_category_id parent"
      "\<forall>m. parent = Some m \<longrightarrow> m \<in> set (asset_categories db) \<and> ca_laboratory_id m = ctx_laboratory_id ctx"
      "path_labels (ca_path row) = (case parent of None \<Rightarrow> [] | Some m \<Rightarrow> path_labels (ca_path m)) @ [ca_code row]"
      "shown = map AssignmentResponse_from (sort_key assignment_order rows)"
      "validate_parameter_assignments (ctx_laboratory_id ctx) inputs db = Inr ((), db)"
    using row(2,3) par_eq p(2,3) c(3) shown rows(3) val db1' by (simp_all add: p(1))
  have "category_tree_ok db'"
    using c(1) by (simp add: db' rows(1))
  moreover have "db' = db\<lparr>asset_categories := asset_categories db @ [row],
           parameter_assignments := parameter_assignments db @ rows, audit_logs := l\<rparr>"
    by (simp add: db' rows(1) db2)
  ultimately show thesis
    by (rule that) (fact row(1) pre inputs rows(2))+
qed

lemma update_asset_category_Inr:
  assumes "update_asset_category env ctx i payload assignments db = (Inr (updated, shown), db')"
    and ok: "category_tree_ok db"
  obtains x p code path where
    "fetch_category i db = Some x" and "fetch_category i db' = Some updated"
    and "validate_permission db (env_now env) (authorization_actor ctx) AssetCategory_resource (Update i) = Inr True"
    and "map category_node (asset_categories db')
           = map (move_node (category_node x) p code (path_labels path)) (map category_node (asset_categories db))"
    and "category_tree_ok db'"
    and "ca_parent_category_id updated = resolve_update (into_nullable_update (cp_parent_category_id payload)) (ca_parent_category_id x)"
    and "ca_laboratory_id updated = ca_laboratory_id x"
    and "assets db' = assets db" and "inventory_items db' = inventory_items db"
    and "case assignments of
          None \<Rightarrow> parameter_assignments db' = parameter_assignments db
            \<and> shown = map AssignmentResponse_from (fetch_category_assignments i db)
        | Some as \<Rightarrow> \<exists>inputs rows. parse_parameter_assignments as = Inr inputs
            \<and> validate_parameter_assignments (ca_laboratory_id x) inputs db = Inr ((), db)
            \<and> list_all2 (assigns (ca_laboratory_id x) i) inputs rows
            \<and> parameter_assignments db' = filter (\<lambda>r. ag_category_id r \<noteq> i) (parameter_assignments db) @ rows
            \<and> shown = map AssignmentResponse_from (sort_key assignment_order rows)"
proof -
  from assms(1) obtain inputs u x parent db0 db1 db2 db3 path depth cat out where
      perm: "validate_permission db (env_now env) (authorization_actor ctx) AssetCategory_resource (Update i) = Inr True"
      and inputs: "transpose_with parse_parameter_assignments assignments = Inr inputs"
      and u: "UpdateAssetCategory_try_from env payload = Inr u"
      and x: "fetch_category i db = Some x"
      and val: "(case inputs of Some as \<Rightarrow> tx_map_err from_db_error (validate_parameter_assignments (ca_laboratory_id x) as)
            | None \<Rightarrow> tx_return ()) db = Inr ((), db0)"
      and par: "resolve_moved_category_parent x (resolve_update (uc_parent_category_id u) (ca_parent_category_id x)) db0 = Inr (parent, db1)"
      and path: "build_category_path_and_depth parent (coalesce (uc_code u) (ca_code x)) = (path, depth)"
      and mv: "move_category env x (resolve_update (uc_parent_category_id u) (ca_parent_category_id x))
          (coalesce (uc_name u) (ca_name x)) (coalesce (uc_code u) (ca_code x)) path depth
          (resolve_update (uc_description u) (ca_description x)) db1 = Inr (cat, db2)"
      and asg: "(case inputs of Some as \<Rightarrow> tx_map_err from_db_error
               (replace_parameter_assignments env (ca_laboratory_id cat) (ca_category_id cat) as)
            | None \<Rightarrow> tx_return (fetch_category_assignments (ca_category_id x) db)) db2 = Inr (out, db3)"
      and log: "record_audit (actor_user_id (ctx_actor ctx)) Audit_Update Res_AssetCategory (Some (ca_category_id cat))
          (Details_update_category x (fetch_category_assignments (ca_category_id x) db)) db3 = Inr ((), db')"
      and res: "AssetCategoryResponse_from_parts cat out = (updated, shown)"
    by (auto simp: update_asset_category_def update_category_in_transaction_def run_handler_Inr tx_unfold Let_def
        and_then_Inr_iff map_err_Inr_iff ok_or_Inr_iff fetch_category_for_update_def tx_case_prod
        simp del: record_audit_Inr split_paired_Ex)
  have cat: "cat = updated" and shown: "shown = map AssignmentResponse_from out"
    using res by (auto simp: AssetCategoryResponse_from_parts_def)
  have db0: "db0 = db"
    using val by (auto simp: validate_parameter_assignments_def Let_def tx_unfold split: option.splits)
  note m = moved_category [OF ok x par [unfolded db0] path mv [unfolded cat]]
  have ids: "ca_category_id updated = i" "ca_category_id x = i"
    using fetch_category_Some [OF m(4)] fetch_category_Some [OF x] by auto
  have lab: "ca_laboratory_id updated = ca_laboratory_id x"
    by (simp add: m(3))
  obtain rows where db2: "db2 = db\<lparr>asset_categories := rows\<rparr>"
    using m(5) by blast
  obtain l where db': "db' = db3\<lparr>audit_logs := l\<rparr>"
    using log by (auto simp: record_audit_Inr)
  obtain as where db3: "db3 = db2\<lparr>parameter_assignments := as\<rparr>"
      and assigned: "case assignments of
          None \<Rightarrow> as = parameter_assignments db \<and> shown = map AssignmentResponse_from (fetch_category_assignments i db)
        | Some as' \<Rightarrow> \<exists>inputs rows. parse_parameter_assignments as' = Inr inputs
            \<and> validate_parameter_assignments (ca_laboratory_id x) inputs db = Inr ((), db)
            \<and> list_all2 (assigns (ca_laboratory_id x) i) inputs rows
            \<and> as = filter (\<lambda>r. ag_category_id r \<noteq> i) (parameter_assignments db) @ rows
            \<and> shown = map AssignmentResponse_from (sort_key assignment_order rows)"
  proof (cases assignments)
    case None
    with inputs asg have "db3 = db2" "out = fetch_category_assignments i db"
      by (auto simp: tx_unfold ids)
    then show thesis
      by (intro that [of "parameter_assignments db"]) (simp_all add: db2 shown None)
  next
    case (Some as')
    with inputs obtain inp where inp: "inputs = Some inp" "parse_parameter_assignments as' = Inr inp"
      by (auto simp: and_then_Inr_iff)
    with asg have rep: "replace_parameter_assignments env (ca_laboratory_id x) i inp db2 = Inr (out, db3)"
      by (simp add: tx_unfold cat ids lab)
    have v: "validate_parameter_assignments (ca_laboratory_id x) inp db = Inr ((), db)"
      using val inp(1) by (simp add: tx_unfold db0)
    from rep show thesis
    proof (rule replace_parameter_assignments_Inr)
      fix new
      assume n: "db3 = db2\<lparr>parameter_assignments := filter (\<lambda>r. ag_category_id r \<noteq> i) (parameter_assignments db2) @ new\<rparr>"
        "list_all2 (assigns (ca_laboratory_id x) i) inp new" "out = sort_key assignment_order new"
      show thesis
        by (rule that [OF n(1)]) (use inp(2) v n(2,3) Some shown in \<open>auto simp: db2\<close>)
    qed
  qed
  have par_eq: "ca_parent_category_id updated
      = resolve_update (into_nullable_update (cp_parent_category_id payload)) (ca_parent_category_id x)"
    using u by (auto simp: m(3) place_category_def UpdateAssetCategory_try_from_def and_then_Inr_iff)
  have tables: "asset_categories db' = asset_categories db2" "assets db' = assets db"
      "inventory_items db' = inventory_items db" "parameter_assignments db' = as"
    by (simp_all add: db' db3 db2)
  have read: "fetch_category i db' = Some updated" and tree: "category_tree_ok db'"
    using m(2,4) by (simp_all add: fetch_category_def category_tree_ok_def tables)
  show thesis
    by (rule that [OF x read perm m(1) [folded tables(1)] tree par_eq lab tables(2,3)
          assigned [folded tables(4)]])
qed

lemma delete_asset_category_Inr:
  assumes "delete_asset_category env ctx i db = (Inr u, db')" and ok: "category_tree_ok db"
  obtains x l where
    "fetch_category i db = Some x" and "category_tree_ok db'"
    and "validate_permission db (env_now env) (authorization_actor ctx) AssetCategory_resource (Delete i) = Inr True"
    and "db' = db\<lparr>asset_categories := filter (\<lambda>r. \<not> category_in_tree (ca_laboratory_id x) (ca_path x) r) (asset_categories db),
           assets := update_rows (filed_in_tree db (ca_laboratory_id x) (ca_path x)) (clear_category (env_now env)) (assets db),
           parameter_assignments := filter (\<lambda>r. \<not> (\<exists>c\<in>set (asset_categories db).
             category_in_tree (ca_laboratory_id x) (ca_path x) c \<and> ca_category_id c = ag_category_id r)) (parameter_assignments db),
           audit_logs := l\<rparr>"
proof -
  from assms(1) obtain x cleared db1 d where
      perm: "validate_permission db (env_now env) (authorization_actor ctx) AssetCategory_resource (Delete i) = Inr True"
      and x: "fetch_category i db = Some x"
      and del: "delete_category_subtree env (ca_laboratory_id x) (ca_path x) db = Inr (cleared, db1)"
      and log: "record_audit (actor_user_id (ctx_actor ctx)) Audit_Delete Res_AssetCategory (Some (ca_category_id x)) d db1
          = Inr ((), db')"
    by (auto simp: delete_asset_category_def delete_category_in_transaction_def run_handler_Inr tx_unfold
        ok_or_Inr_iff fetch_category_for_update_def simp del: record_audit_Inr)
  note d = delete_category_subtree_Inr [OF del ok]
  obtain l where db': "db' = db1\<lparr>audit_logs := l\<rparr>"
    using log by (auto simp: record_audit_Inr)
  show thesis
    by (rule that [of x l, OF x _ perm]) (use d(1) in \<open>simp_all add: db' d(2)\<close>)
qed

end
