(* ===== verification/Category_Properties.thy ===== *)
theory Category_Properties
  imports Witness_Data Category_Changes
begin

text \<open>
  What the asset category routes guarantee: the tree of categories, the parameters a category
  assigns, and what a deletion takes along.
\<close>

section \<open>A small catalogue\<close>

text \<open>Chemicals (70) with solvents (71) below; the solvent is filed there; purity is a parameter.\<close>

definition shelf_mark :: "uuid \<Rightarrow> uuid option \<Rightarrow> rstr \<Rightarrow> rstr \<Rightarrow> i32 \<Rightarrow> category_row" where
  "shelf_mark i parent code path depth =
     \<lparr>ca_category_id = i, ca_laboratory_id = lab_1, ca_parent_category_id = parent, ca_name = code,
      ca_code = code, ca_path = path, ca_depth = depth, ca_description = None, ca_created_at = 1,
      ca_updated_at = 1\<rparr>"

definition purity_of_solvents :: assignment_row where
  "purity_of_solvents = \<lparr>ag_assignment_id = 90, ag_laboratory_id = lab_1, ag_parameter_type_id = 80,
     ag_category_id = 71, ag_applies_to_descendants = True, ag_is_required = True, ag_sort_order = 0,
     ag_created_at = 1\<rparr>"

definition db_6 :: database where
  "db_6 = db_1\<lparr>asset_categories := [shelf_mark 70 None (lit ''chemicals'') (lit ''chemicals'') 0,
       shelf_mark 71 (Some 70) (lit ''solvents'') (lit ''chemicals.solvents'') 1],
     asset_parameter_types := [plain_parameter 80 (lit ''purity'') (lit ''text''),
       plain_parameter 81 (lit ''grade'') (lit ''text'')],
     parameter_assignments := [purity_of_solvents],
     assets := [solvent\<lparr>as_category_id := Some 71\<rparr>, balance]\<rparr>"

definition grade :: assignment_payload where
  "grade = \<lparr>gp_parameter_type_id = 81, gp_applies_to_descendants = None, gp_is_required = Some False,
     gp_sort_order = None\<rparr>"

definition new_acids :: new_category where
  "new_acids = \<lparr>nc_parent_category_id = Some 70, nc_name = lit ''Acids'', nc_code = lit ''acids'',
     nc_description = None\<rparr>"

definition no_change :: category_payload where
  "no_change = \<lparr>cp_parent_category_id = None, cp_name = None, cp_code = None, cp_description = None\<rparr>"

lemma db_6_tree: "category_tree_ok db_6"
  unfolding category_tree_ok_def tree_ok_def hangs_def db_6_def db_1_def shelf_mark_def
  by code_simp

lemma db_6_parameters: "distinct (map pt_parameter_type_id (asset_parameter_types db_6))"
  by (simp add: db_6_def plain_parameter_def)

lemma acids_created: "\<exists>row shown db'. create_asset_category env_1 admin_ctx new_acids (Some [grade]) db_6 = (Inr (row, shown), db')"
proof -
  have "case create_asset_category env_1 admin_ctx new_acids (Some [grade]) db_6 of (Inr _, _) \<Rightarrow> True | _ \<Rightarrow> False"
    by code_simp
  then show ?thesis
    by (auto split: prod.splits sum.splits)
qed

lemma solvents_regraded: "\<exists>row shown db'. update_asset_category env_1 admin_ctx 71 no_change (Some [grade]) db_6 = (Inr (row, shown), db')"
proof -
  have "case update_asset_category env_1 admin_ctx 71 no_change (Some [grade]) db_6 of (Inr _, _) \<Rightarrow> True | _ \<Rightarrow> False"
    by code_simp
  then show ?thesis
    by (auto split: prod.splits sum.splits)
qed

lemma chemicals_deleted: "\<exists>db'. delete_asset_category env_1 admin_ctx 70 db_6 = (Inr (), db')"
proof -
  have "case delete_asset_category env_1 admin_ctx 70 db_6 of (Inr _, _) \<Rightarrow> True | _ \<Rightarrow> False"
    by code_simp
  then show ?thesis
    by (auto split: prod.splits sum.splits)
qed

section \<open>Creating\<close>

text \<open>
  Creating a category: it is added under a parent of the laboratory of the request, with the
  path of the parent extended by its code; exactly the requested parameters are assigned to it, each
  once, each a parameter of that laboratory, shown in the order of their sort order; the tree
  stays consistent.
\<close>

theorem created_category_assigns_own_parameters:
  assumes "category_tree_ok db" and "distinct (map pt_parameter_type_id (asset_parameter_types db))"
    and "create_asset_category env ctx payload assignments db = (Inr (row, shown), db')"
  shows "category_tree_ok db' \<and> asset_categories db' = asset_categories db @ [row]
    \<and> ca_laboratory_id row = ctx_laboratory_id ctx
    \<and> (case nc_parent_category_id payload of
         None \<Rightarrow> path_labels (ca_path row) = [ca_code row]
       | Some p \<Rightarrow> \<exists>m\<in>set (asset_categories db). ca_category_id m = p \<and> ca_laboratory_id m = ctx_laboratory_id ctx
           \<and> path_labels (ca_path row) = path_labels (ca_path m) @ [ca_code row])
    \<and> (\<exists>rows. parameter_assignments db' = parameter_assignments db @ rows
         \<and> map ag_parameter_type_id rows = map gp_parameter_type_id (coalesce assignments [])
         \<and> distinct (map ag_parameter_type_id rows)
         \<and> (\<forall>r\<in>set rows. ag_category_id r = ca_category_id row
              \<and> (\<exists>t\<in>set (asset_parameter_types db). pt_parameter_type_id t = ag_parameter_type_id r
                   \<and> pt_laboratory_id t = ctx_laboratory_id ctx))
         \<and> shown = map AssignmentResponse_from (sort_key assignment_order rows))"
  using assms(3,1)
proof (rule create_asset_category_Inr)
  fix parent inputs rows l
  assume ok: "category_tree_ok db'"
    and db': "db' = db\<lparr>asset_categories := asset_categories db @ [row],
           parameter_assignments := parameter_assignments db @ rows, audit_logs := l\<rparr>"
    and lab: "ca_laboratory_id row = ctx_laboratory_id ctx"
    and par: "nc_parent_category_id payload = map_option ca_category_id parent"
      "\<forall>m. parent = Some m \<longrightarrow> m \<in> set (asset_categories db) \<and> ca_laboratory_id m = ctx_laboratory_id ctx"
      "path_labels (ca_path row) = (case parent of None \<Rightarrow> [] | Some m \<Rightarrow> path_labels (ca_path m)) @ [ca_code row]"
    and inputs: "parse_parameter_assignments (coalesce assignments []) = Inr inputs"
    and rows: "list_all2 (assigns (ctx_laboratory_id ctx) (ca_category_id row)) inputs rows"
    and shown: "shown = map AssignmentResponse_from (sort_key assignment_order rows)"
    and val: "validate_parameter_assignments (ctx_laboratory_id ctx) inputs db = Inr ((), db)"
  note parsed = parse_parameter_assignments_Inr [OF inputs]
  note stored = assigned_rows [OF rows parsed(2) validate_parameter_assignments_Inr(2) [OF val parsed(2) assms(2)]]
  have "case nc_parent_category_id payload of
         None \<Rightarrow> path_labels (ca_path row) = [ca_code row]
       | Some p \<Rightarrow> \<exists>m\<in>set (asset_categories db). ca_category_id m = p \<and> ca_laboratory_id m = ctx_laboratory_id ctx
           \<and> path_labels (ca_path row) = path_labels (ca_path m) @ [ca_code row]"
    using par by (cases parent) auto
  with ok lab shown stored parsed(1) show ?thesis
    by (simp add: db')
qed

theorem created_category_assigns_own_parameters_witness:
  "\<exists>row shown db'. create_asset_category env_1 admin_ctx new_acids (Some [grade]) db_6 = (Inr (row, shown), db')
     \<and> length (parameter_assignments db') = 2"
proof -
  obtain row shown db' where run: "create_asset_category env_1 admin_ctx new_acids (Some [grade]) db_6 = (Inr (row, shown), db')"
    using acids_created by blast
  from created_category_assigns_own_parameters [OF db_6_tree db_6_parameters run]
  obtain rows where rows: "parameter_assignments db' = parameter_assignments db_6 @ rows"
      "map ag_parameter_type_id rows = map gp_parameter_type_id (coalesce (Some [grade]) [])"
    by blast
  have "length rows = 1"
    using arg_cong [OF rows(2), of length] by (simp add: coalesce_def)
  then show ?thesis
    using run rows(1) by (auto simp: db_6_def)
qed

section \<open>Changing\<close>

text \<open>
  Changing a category: the tree stays consistent, the category stays in its laboratory, which
  is that of the request, no asset or item changes, and the assignments of other categories stay.
  Those of the category are replaced as a whole when the request states a list, which then holds
  each requested parameter once and only parameters of the laboratory; otherwise they stay, and
  the answer shows them as they are.
\<close>

theorem category_update_replaces_assignments:
  assumes "category_tree_ok db" and "distinct (map pt_parameter_type_id (asset_parameter_types db))"
    and "LaboratoryContext_from_request parse_uuid req = Inr ctx"
    and "update_asset_category env ctx i payload assignments db = (Inr (updated, shown), db')"
  shows "category_tree_ok db' \<and> fetch_category i db' = Some updated
    \<and> ca_laboratory_id updated = ctx_laboratory_id ctx
    \<and> (\<exists>x. fetch_category i db = Some x \<and> ca_laboratory_id x = ctx_laboratory_id ctx)
    \<and> assets db' = assets db \<and> inventory_items db' = inventory_items db
    \<and> filter (\<lambda>r. ag_category_id r \<noteq> i) (parameter_assignments db')
        = filter (\<lambda>r. ag_category_id r \<noteq> i) (parameter_assignments db)
    \<and> shown = map AssignmentResponse_from (fetch_category_assignments i db')
    \<and> (case assignments of
         None \<Rightarrow> parameter_assignments db' = parameter_assignments db
       | Some as \<Rightarrow> map ag_parameter_type_id (filter (\<lambda>r. ag_category_id r = i) (parameter_assignments db'))
             = map gp_parameter_type_id as \<and> distinct (map gp_parameter_type_id as)
           \<and> (\<forall>r\<in>set (parameter_assignments db'). ag_category_id r = i \<longrightarrow>
                (\<exists>t\<in>set (asset_parameter_types db). pt_parameter_type_id t = ag_parameter_type_id r
                   \<and> pt_laboratory_id t = ctx_laboratory_id ctx)))"
  using assms(4,1)
proof (rule update_asset_category_Inr)
  fix x p code path
  assume x: "fetch_category i db = Some x" and up: "fetch_category i db' = Some updated"
    and perm: "validate_permission db (env_now env) (authorization_actor ctx) AssetCategory_resource (Update i) = Inr True"
    and ok: "category_tree_ok db'" and lab: "ca_laboratory_id updated = ca_laboratory_id x"
    and frame: "assets db' = assets db" "inventory_items db' = inventory_items db"
    and assigned: "case assignments of
          None \<Rightarrow> parameter_assignments db' = parameter_assignments db
            \<and> shown = map AssignmentResponse_from (fetch_category_assignments i db)
        | Some as \<Rightarrow> \<exists>inputs rows. parse_parameter_assignments as = Inr inputs
            \<and> validate_parameter_assignments (ca_laboratory_id x) inputs db = Inr ((), db)
            \<and> list_all2 (assigns (ca_laboratory_id x) i) inputs rows
            \<and> parameter_assignments db' = filter (\<lambda>r. ag_category_id r \<noteq> i) (parameter_assignments db) @ rows
            \<and> shown = map AssignmentResponse_from (sort_key assignment_order rows)"
  have "scoped_context ctx"
    using assms(3) by (auto simp: scoped_context_def)
  then have scope: "ca_laboratory_id x = ctx_laboratory_id ctx"
    using permitted_category_in_scope [OF _ _ perm] x by auto
  have base: "category_tree_ok db'" "fetch_category i db' = Some updated"
      "ca_laboratory_id updated = ctx_laboratory_id ctx"
      "\<exists>x. fetch_category i db = Some x \<and> ca_laboratory_id x = ctx_laboratory_id ctx"
    using ok up lab scope x by auto
  show ?thesis
  proof (cases assignments)
    case None
    with assigned base frame show ?thesis
      by (simp add: fetch_category_assignments_def)
  next
    case (Some as)
    with assigned obtain inputs rows where inputs: "parse_parameter_assignments as = Inr inputs"
        and val: "validate_parameter_assignments (ctx_laboratory_id ctx) inputs db = Inr ((), db)"
        and rows: "list_all2 (assigns (ctx_laboratory_id ctx) i) inputs rows"
        and db': "parameter_assignments db' = filter (\<lambda>r. ag_category_id r \<noteq> i) (parameter_assignments db) @ rows"
        and shown: "shown = map AssignmentResponse_from (sort_key assignment_order rows)"
      by (auto simp: scope)
    note parsed = parse_parameter_assignments_Inr [OF inputs]
    note stored = assigned_rows [OF rows parsed(2) validate_parameter_assignments_Inr(2) [OF val parsed(2) assms(2)]]
    have mine: "filter (\<lambda>r. ag_category_id r = i) rows = rows" "filter (\<lambda>r. ag_category_id r \<noteq> i) rows = []"
      using stored(3) by (auto simp: filter_id_conv filter_empty_conv)
    have split: "filter (\<lambda>r. ag_category_id r = i) (parameter_assignments db') = rows"
        "filter (\<lambda>r. ag_category_id r \<noteq> i) (parameter_assignments db')
          = filter (\<lambda>r. ag_category_id r \<noteq> i) (parameter_assignments db)"
      by (simp_all add: db' mine)
    have "\<forall>r\<in>set (parameter_assignments db'). ag_category_id r = i \<longrightarrow>
                (\<exists>t\<in>set (asset_parameter_types db). pt_parameter_type_id t = ag_parameter_type_id r
                   \<and> pt_laboratory_id t = ctx_laboratory_id ctx)"
      using stored(3) by (auto simp: db')
    then show ?thesis
      using base frame split stored(1,2) parsed shown by (simp add: Some fetch_category_assignments_def)
  qed
qed

theorem category_update_replaces_assignments_witness:
  "\<exists>row shown db'. update_asset_category env_1 admin_ctx 71 no_change (Some [grade]) db_6 = (Inr (row, shown), db')
     \<and> map ag_parameter_type_id (filter (\<lambda>r. ag_category_id r = 71) (parameter_assignments db')) = [81]"
proof -
  obtain row shown db' where run: "update_asset_category env_1 admin_ctx 71 no_change (Some [grade]) db_6 = (Inr (row, shown), db')"
    using solvents_regraded by blast
  from category_update_replaces_assignments [OF db_6_tree db_6_parameters admin_context run] run show ?thesis
    by (simp add: grade_def)
qed

section \<open>Deleting\<close>

lemma category_below:
  assumes "category_tree_ok db" and "r \<in> set (asset_categories db)" and "x \<in> set (asset_categories db)"
  shows "below (map category_node (asset_categories db)) (ca_category_id r) (ca_category_id x)
     \<longleftrightarrow> category_in_tree (ca_laboratory_id x) (ca_path x) r"
  using below_iff [OF assms(1) [unfolded category_tree_ok_def], of "category_node r" "category_node x"] assms(2,3)
  by (simp add: category_in_tree_node)

lemma below_is_row: "below ns i j \<Longrightarrow> \<exists>n\<in>set ns. nd_id n = i"
  by (induction rule: below.induct) auto

text \<open>
  C25. Deleting a category: exactly the category and everything below it, by the parent pointers,
  goes, with the parameters assigned to those categories and no others; the assets of the
  laboratory filed there stay and become unfiled, all other assets are untouched, and no
  inventory item changes.
\<close>

theorem deleting_a_category_unfiles_assets:
  assumes "category_tree_ok db" and "LaboratoryContext_from_request parse_uuid req = Inr ctx"
    and "delete_asset_category env ctx i db = (Inr (), db')"
  shows "category_tree_ok db'
    \<and> (\<exists>x. fetch_category i db = Some x \<and> ca_laboratory_id x = ctx_laboratory_id ctx)
    \<and> asset_categories db'
        = filter (\<lambda>r. \<not> below (map category_node (asset_categories db)) (ca_category_id r) i) (asset_categories db)
    \<and> parameter_assignments db'
        = filter (\<lambda>r. \<not> below (map category_node (asset_categories db)) (ag_category_id r) i) (parameter_assignments db)
    \<and> assets db' = map (\<lambda>a.
         if as_laboratory_id a = ctx_laboratory_id ctx
            \<and> (\<exists>c. as_category_id a = Some c \<and> below (map category_node (asset_categories db)) c i)
         then a\<lparr>as_category_id := None, as_updated_at := env_now env\<rparr> else a) (assets db)
    \<and> inventory_items db' = inventory_items db"
  using assms(3,1)
proof (rule delete_asset_category_Inr)
  fix x l
  assume x: "fetch_category i db = Some x" and ok: "category_tree_ok db'"
    and perm: "validate_permission db (env_now env) (authorization_actor ctx) AssetCategory_resource (Delete i) = Inr True"
    and db': "db' = db\<lparr>asset_categories := filter (\<lambda>r. \<not> category_in_tree (ca_laboratory_id x) (ca_path x) r) (asset_categories db),
           assets := update_rows (filed_in_tree db (ca_laboratory_id x) (ca_path x)) (clear_category (env_now env)) (assets db),
           parameter_assignments := filter (\<lambda>r. \<not> (\<exists>c\<in>set (asset_categories db).
             category_in_tree (ca_laboratory_id x) (ca_path x) c \<and> ca_category_id c = ag_category_id r)) (parameter_assignments db),
           audit_logs := l\<rparr>"
  have "scoped_context ctx"
    using assms(2) by (auto simp: scoped_context_def)
  then have lab: "ca_laboratory_id x = ctx_laboratory_id ctx"
    using permitted_category_in_scope [OF _ _ perm] x by auto
  have xm: "x \<in> set (asset_categories db)" "ca_category_id x = i"
    using fetch_category_Some [OF x] by auto
  note below = category_below [OF assms(1) _ xm(1), unfolded xm(2)]
  have gone: "(\<exists>c\<in>set (asset_categories db). category_in_tree (ca_laboratory_id x) (ca_path x) c \<and> ca_category_id c = k)
      \<longleftrightarrow> below (map category_node (asset_categories db)) k i" for k
    using below below_is_row [of "map category_node (asset_categories db)" k i] by fastforce
  have "asset_categories db' = filter (\<lambda>r. \<not> below (map category_node (asset_categories db)) (ca_category_id r) i) (asset_categories db)"
    by (simp add: db') (rule filter_cong [OF refl], simp add: below)
  moreover have "assets db' = map (\<lambda>a.
         if as_laboratory_id a = ctx_laboratory_id ctx
            \<and> (\<exists>c. as_category_id a = Some c \<and> below (map category_node (asset_categories db)) c i)
         then a\<lparr>as_category_id := None, as_updated_at := env_now env\<rparr> else a) (assets db)"
    unfolding gone [symmetric] by (auto simp: db' update_rows_def filed_in_tree_def clear_category_def lab)
  moreover have "parameter_assignments db'
      = filter (\<lambda>r. \<not> below (map category_node (asset_categories db)) (ag_category_id r) i) (parameter_assignments db)"
    by (simp add: db' gone)
  ultimately show ?thesis
    using ok x lab by (simp add: db')
qed

theorem deleting_a_category_unfiles_assets_witness:
  "\<exists>db'. delete_asset_category env_1 admin_ctx 70 db_6 = (Inr (), db') \<and> category_tree_ok db'
     \<and> length (assets db') = 2"
proof -
  obtain db' where run: "delete_asset_category env_1 admin_ctx 70 db_6 = (Inr (), db')"
    using chemicals_deleted by blast
  have "length (assets db_6) = 2"
    by (simp add: db_6_def plain_parameter_def)
  with deleting_a_category_unfiles_assets [OF db_6_tree admin_context run] run show ?thesis
    by auto
qed

end
