(* ===== verification/Parameter_Lifecycle.thy ===== *)
theory Parameter_Lifecycle
  imports Parameter_Invariant
begin

text \<open>
  The handlers that write asset parameters, read backwards from a success: what they found, what
  they wrote, and that the invariant \<open>parameters_ok\<close> survives.
\<close>

lemma deferred_ok_audit [simp]: "deferred_ok (db\<lparr>audit_logs := es\<rparr>) = deferred_ok db"
  by (simp add: deferred_ok_def)

lemma has_option_audit [simp]: "has_option i (db\<lparr>audit_logs := es\<rparr>) = has_option i db"
  by (simp add: has_option_def)

lemma enum_options_audit [simp]: "enum_options_ok (db\<lparr>audit_logs := es\<rparr>) = enum_options_ok db"
  by (simp add: enum_options_ok_def)

section \<open>Updating\<close>

lemma fetch_options_set:
  "set (fetch_asset_parameter_options_for_update env i db)
     = {q \<in> set (parameter_options db). po_parameter_type_id q = i}"
  by (auto simp: fetch_asset_parameter_options_for_update_def fetch_asset_parameter_options_def)

lemma fetch_parameter_Some:
  "fetch_asset_parameter i db = Some t \<Longrightarrow> t \<in> set (asset_parameter_types db) \<and> pt_parameter_type_id t = i"
  by (auto simp: fetch_asset_parameter_def dest: fetch_optional_Some)

lemma update_parameter_row:
  assumes "update_asset_parameter_in_database env i code name dt dm u description db = Inr (updated, db')"
    and "fetch_asset_parameter i db = Some t"
  shows "updated = set_parameter code name dt dm u description (env_now env) t"
    and "db' = db\<lparr>asset_parameter_types := update_rows (\<lambda>r. pt_parameter_type_id r = i)
           (set_parameter code name dt dm u description (env_now env)) (asset_parameter_types db)\<rparr>"
proof -
  let ?change = "set_parameter code name dt dm u description (env_now env)"
  from assms(1) obtain rows where w: "write_row (parameter_violation db) pt_parameter_type_id ?change i
        (asset_parameter_types db) = Inr rows"
      and db': "db' = db\<lparr>asset_parameter_types := rows\<rparr>" and f: "fetch_asset_parameter i db' = Some updated"
    by (auto simp: update_asset_parameter_in_database_def tx_unfold and_then_Inr_iff ok_or_Inr_iff)
  have rows: "rows = update_rows (\<lambda>r. pt_parameter_type_id r = i) ?change (asset_parameter_types db)"
    by (rule write_row_Inr [OF w])
  then show "db' = db\<lparr>asset_parameter_types := update_rows (\<lambda>r. pt_parameter_type_id r = i) ?change (asset_parameter_types db)\<rparr>"
    by (simp add: db')
  have "fetch_optional (\<lambda>r. pt_parameter_type_id r = i) rows = Some (?change t)"
    using assms(2) fetch_parameter_Some [OF assms(2)]
    unfolding rows by (intro fetch_written_row) (simp_all add: fetch_asset_parameter_def)
  with f show "updated = ?change t"
    by (simp add: fetch_asset_parameter_def db')
qed

lemma read_values_to_migrate_Inr:
  "read_values_to_migrate env i changed migrations db = Inr (vals, db') \<longleftrightarrow>
     db' = db \<and> vals = (if changed then fetch_asset_parameter_values_for_update env i db else [])
     \<and> (if changed then validate_value_migrations vals migrations = Inr () else migrations = None)"
  by (auto simp: read_values_to_migrate_def tx_unfold map_err_Inr_iff ensure_Inr_iff)

text \<open>What an update that succeeded has done, in order.\<close>

lemma update_asset_parameter_Inr:
  assumes "update_asset_parameter env ctx i payload db = (Inr (updated, options), db')"
  obtains change t old dt dm vals db1 db2 es
  where "validate_permission db (env_now env) (authorization_actor ctx) AssetParameter_resource (Update i) = Inr True"
    and "UpdateAssetParameter_try_from env payload = Inr change"
    and "fetch_asset_parameter i db = Some t" "DataType_parse (pt_data_type t) = Inr old"
    and "dt = coalesce (ch_data_type change) old"
    and "(if dt \<noteq> old \<and> dt = Enum
          then validate_enum_options_for_type_change (ch_options change)
                 (migrations_declare_options (ch_value_migrations change)) (fetch_asset_parameter_options_for_update env i db)
          else validate_updated_options dt (ch_options change) (fetch_asset_parameter_options_for_update env i db)) = Inr ()"
    and "vals = (if dt \<noteq> old then fetch_asset_parameter_values_for_update env i db else [])"
    and "dt \<noteq> old \<Longrightarrow> validate_value_migrations vals (ch_value_migrations change) = Inr ()"
    and "db1 = db\<lparr>asset_parameter_types := update_rows (\<lambda>r. pt_parameter_type_id r = i)
          (set_parameter (coalesce (ch_code change) (pt_code t)) (coalesce (ch_name change) (pt_name t)) dt dm
             (resolve_update (ch_default_unit_id change) (pt_default_unit_id t))
             (resolve_update (ch_description change) (pt_description t)) (env_now env)) (asset_parameter_types db)\<rparr>"
    and "updated = set_parameter (coalesce (ch_code change) (pt_code t)) (coalesce (ch_name change) (pt_name t)) dt dm
             (resolve_update (ch_default_unit_id change) (pt_default_unit_id t))
             (resolve_update (ch_description change) (pt_description t)) (env_now env) t"
    and "write_options_and_values env updated dt (dt \<noteq> old) dm
           (resolve_update (ch_default_unit_id change) (pt_default_unit_id t))
           (fetch_asset_parameter_options_for_update env i db) change vals db1 = Inr (options, db2)"
    and "db' = db2\<lparr>audit_logs := es\<rparr>" "deferred_ok db2"
proof -
  from assms obtain change where p: "validate_permission db (env_now env) (authorization_actor ctx) AssetParameter_resource (Update i) = Inr True"
      and c: "UpdateAssetParameter_try_from env payload = Inr change"
      and run: "update_parameter_in_transaction env ctx i change db = Inr ((updated, options), db')"
    by (auto simp: update_asset_parameter_def run_handler_Inr and_then_Inr_iff map_err_Inr_iff require_permission_Inr)
  from run obtain t old vals dimension db0 db1 db2 where
      t: "fetch_asset_parameter i db = Some t" "DataType_parse (pt_data_type t) = Inr old"
      and checks: "(if coalesce (ch_data_type change) old \<noteq> old \<and> coalesce (ch_data_type change) old = Enum
          then validate_enum_options_for_type_change (ch_options change)
                 (migrations_declare_options (ch_value_migrations change)) (fetch_asset_parameter_options_for_update env (pt_parameter_type_id t) db)
          else validate_updated_options (coalesce (ch_data_type change) old) (ch_options change)
                 (fetch_asset_parameter_options_for_update env (pt_parameter_type_id t) db)) = Inr ()"
      and vals: "read_values_to_migrate env (pt_parameter_type_id t) (coalesce (ch_data_type change) old \<noteq> old)
                     (ch_value_migrations change) db = Inr (vals, db0)"
      and u: "update_asset_parameter_in_database env (pt_parameter_type_id t)
             (coalesce (ch_code change) (pt_code t)) (coalesce (ch_name change) (pt_name t))
             (coalesce (ch_data_type change) old) dimension
             (resolve_update (ch_default_unit_id change) (pt_default_unit_id t))
             (resolve_update (ch_description change) (pt_description t)) db0 = Inr (updated, db1)"
      and w: "write_options_and_values env updated (coalesce (ch_data_type change) old)
             (coalesce (ch_data_type change) old \<noteq> old) dimension
             (resolve_update (ch_default_unit_id change) (pt_default_unit_id t))
             (fetch_asset_parameter_options_for_update env (pt_parameter_type_id t) db) change vals db1 = Inr (options, db2)"
      and fin: "\<exists>es. db' = db2\<lparr>audit_logs := es\<rparr>" "deferred_ok db2"
    unfolding update_parameter_in_transaction_def Let_def tx_unfold map_err_Inr_iff ok_or_Inr_iff fetch_asset_parameter_for_update_def
    by (auto simp: tx_unfold map_err_Inr_iff ok_or_Inr_iff simp del: record_audit_Inr split_paired_Ex if_split
        dest!: record_audit_entry)
       (rule that; (assumption | (rule exI, assumption) | simp))
  have i: "pt_parameter_type_id t = i"
    using fetch_parameter_Some [OF t(1)] by simp
  from vals have db0: "db0 = db" and v: "vals = (if coalesce (ch_data_type change) old \<noteq> old then fetch_asset_parameter_values_for_update env i db else [])"
      "coalesce (ch_data_type change) old \<noteq> old \<Longrightarrow> validate_value_migrations vals (ch_value_migrations change) = Inr ()"
    by (auto simp: read_values_to_migrate_Inr i split: if_splits)
  from fin(1) obtain es where es: "db' = db2\<lparr>audit_logs := es\<rparr>" ..
  note rows = update_parameter_row [OF u [unfolded i db0] t(1)]
  show ?thesis
    by (rule that [OF p c t refl checks [unfolded i] v rows(2,1) w [unfolded i] es fin(2)])
qed

lemma frame_write_options_and_values:
  assumes "pt_parameter_type_id updated = i" and "po_option_id ` set existing \<subseteq> ids"
  shows "keeps (flow_frame i others types ids)
    (write_options_and_values env updated dt changed dm u existing change vals)"
  unfolding write_options_and_values_def Let_def assms(1)
  by (intro keeps_intros frame_apply_option_updates assms(2))

lemma drop_all_no_option:
  assumes "delete_asset_parameter_options i db = Inr (x, db')"
  shows "\<not> has_option i db'"
  using assms by (auto simp: delete_asset_parameter_options_def tx_unfold has_option_def dest!: drop_options_Inr)

lemma validated_options:
  assumes "validate_updated_options Enum (Some qs) existing = Inr u"
  shows "qs \<noteq> []"
  using assms by (auto simp: validate_updated_options_def validate_update_option_list_def and_then_Inr_iff
      require_option_def ensure_Inr_iff)

text \<open>After the options and values are written, the parameter has options just when it is an enumeration.\<close>

lemma write_options_and_values_enum:
  assumes run: "write_options_and_values env updated dt (dt \<noteq> old) dm u existing change vals db1 = Inr (options, db2)"
    and i: "pt_parameter_type_id updated = i"
    and valid: "(if dt \<noteq> old \<and> dt = Enum
          then validate_enum_options_for_type_change (ch_options change)
                 (migrations_declare_options (ch_value_migrations change)) existing
          else validate_updated_options dt (ch_options change) existing) = Inr ()"
    and migrations: "dt \<noteq> old \<Longrightarrow> validate_value_migrations vals (ch_value_migrations change) = Inr ()"
    and known: "\<And>k. k \<in> po_option_id ` set existing \<Longrightarrow>
           \<exists>r\<in>set (parameter_options db1). po_option_id r = k \<and> po_parameter_type_id r = i"
  shows "has_option i db2 \<longleftrightarrow> dt = Enum"
proof (cases "dt = Enum")
  case False
  with run obtain db' x where "delete_asset_parameter_options i db' = Inr (x, db2)"
    by (auto simp: write_options_and_values_def Let_def apply_option_updates_def i tx_unfold)
  with False show ?thesis
    using drop_all_no_option by blast
next
  case True
  note dt = this
  let ?ms = "coalesce (ch_value_migrations change) []"
  show ?thesis
  proof (cases "old = Enum")
    case True
    from run dt True obtain n where a: "apply_option_updates env i Enum existing (ch_options change) db1 = Inr ((options, n), db2)"
      by (auto simp: write_options_and_values_def Let_def i tx_unfold)
    show ?thesis
    proof (cases "ch_options change")
      case None
      with a valid dt True have "db2 = db1" "existing \<noteq> []"
        by (auto simp: apply_option_updates_def tx_unfold validate_updated_options_def require_option_def ensure_Inr_iff)
      then obtain q where "q \<in> set existing"
        by (cases existing) auto
      with known [of "po_option_id q"] dt show ?thesis
        by (auto simp: has_option_def \<open>db2 = db1\<close>)
    next
      case (Some qs)
      with a valid dt True have "replace_options env i existing qs db1 = Inr ((options, n), db2)" "qs \<noteq> []"
        using validated_options [of qs existing "()"] by (auto simp: apply_option_updates_def)
      from replace_options_has_option [OF this known] dt show ?thesis
        by simp
    qed
  next
    case False
    with run dt obtain rows n db' x where a: "apply_option_updates env i Enum existing (ch_options change) db1 = Inr ((rows, n), db')"
        and m: "migrate_parameter_values env n i Enum dm u vals ?ms db' = Inr (x, db2)"
      by (auto simp: write_options_and_values_def Let_def i tx_unfold)
    have rest: "keeps (has_option i) (migrate_parameter_values env n i Enum dm u vals ?ms)"
      unfolding migrate_parameter_values_def by (rule has_option_migration(2))
    show ?thesis
    proof (cases "coalesce (ch_options change) [] = []")
      case False
      then obtain qs where qs: "ch_options change = Some qs" "qs \<noteq> []"
        by (cases "ch_options change") (auto simp: coalesce_def)
      with a have "replace_options env i existing qs db1 = Inr ((rows, n), db')"
        by (simp add: apply_option_updates_def)
      then have "has_option i db'"
        by (rule replace_options_has_option [OF _ qs(2) known])
      with keepsD [OF rest m] dt show ?thesis
        by simp
    next
      case True
      with valid dt False obtain k target where d: "(k, Some target) \<in> set ?ms"
        by (auto simp: validate_enum_options_for_type_change_def require_option_def ensure_Inr_iff
            migrations_declare_options_def list_ex_iff split: option.splits)
      note valid_ms = validate_value_migrations_Inr [OF migrations]
      have "k \<in> (\<lambda>v. pv_value_id (vv_row v)) ` set vals"
        using valid_ms(2) d dt False by force
      then obtain v where v: "v \<in> set vals" "pv_value_id (vv_row v) = k"
        by blast
      have "hash_map (map (\<lambda>m. (fst m, m)) ?ms) k = Some (k, Some target)"
        using hash_map_mem [OF _ d] valid_ms(1) dt False by simp
      then have "has_option i db2"
        using migrate_values_has_option [OF m [unfolded migrate_parameter_values_def] _ v(1)] v(2) by simp
      with dt show ?thesis
        by simp
    qed
  qed
qed

lemma flow_frame_has_option:
  assumes "flow_frame i others types ids db" and "flow_frame i others types ids db'" and "j \<noteq> i"
  shows "has_option j db' \<longleftrightarrow> has_option j db"
proof -
  have "has_option j d \<longleftrightarrow> (\<exists>q\<in>set others. po_parameter_type_id q = j)" if "flow_frame i others types ids d" for d
    using that assms(3) by (auto simp: flow_frame_def has_option_def)
  with assms(1,2) show ?thesis
    by blast
qed

lemma as_str_enum [simp]: "DataType_as_str dt = lit ''enum'' \<longleftrightarrow> dt = Enum"
  using data_type_name.as_str_eq_iff [of dt Enum] by simp

lemma update_keeps_enum_options:
  assumes run: "update_asset_parameter env ctx i payload db = (Inr (updated, options), db')"
    and ok: "parameters_ok db"
  shows "enum_options_ok db'"
proof -
  from run obtain change t old dt dm vals db1 db2 es u description code name
    where t: "fetch_asset_parameter i db = Some t"
    and valid: "(if dt \<noteq> old \<and> dt = Enum
          then validate_enum_options_for_type_change (ch_options change)
                 (migrations_declare_options (ch_value_migrations change)) (fetch_asset_parameter_options_for_update env i db)
          else validate_updated_options dt (ch_options change) (fetch_asset_parameter_options_for_update env i db)) = Inr ()"
    and ms: "dt \<noteq> old \<Longrightarrow> validate_value_migrations vals (ch_value_migrations change) = Inr ()"
    and db1: "db1 = db\<lparr>asset_parameter_types := update_rows (\<lambda>r. pt_parameter_type_id r = i)
          (set_parameter code name dt dm u description (env_now env)) (asset_parameter_types db)\<rparr>"
    and updated: "updated = set_parameter code name dt dm u description (env_now env) t"
    and w: "write_options_and_values env updated dt (dt \<noteq> old) dm u
           (fetch_asset_parameter_options_for_update env i db) change vals db1 = Inr (options, db2)"
    and db': "db' = db2\<lparr>audit_logs := es\<rparr>"
    by (rule update_asset_parameter_Inr) (rule that, assumption+)
  have i: "pt_parameter_type_id updated = i"
    using fetch_parameter_Some [OF t] by (simp add: updated)
  let ?existing = "fetch_asset_parameter_options_for_update env i db"
  let ?frame = "flow_frame i (filter (\<lambda>q. po_parameter_type_id q \<noteq> i) (parameter_options db))
      (asset_parameter_types db1) (po_option_id ` set ?existing)"
  have known: "\<exists>r\<in>set (parameter_options db1). po_option_id r = k \<and> po_parameter_type_id r = i"
    if "k \<in> po_option_id ` set ?existing" for k
    using that by (auto simp: fetch_options_set db1)
  have opts: "table_ok po_option_id option_checks same_option_code (parameter_options db)"
    using ok by (simp add: parameters_ok_def parameter_tables_ok_def)
  have f1: "?frame db1"
    unfolding flow_frame_def
  proof (intro conjI ballI impI)
    fix q
    assume q: "q \<in> set (parameter_options db1)" "po_option_id q \<in> po_option_id ` set ?existing"
    then obtain q' where "q' \<in> set (parameter_options db)" "po_parameter_type_id q' = i" "po_option_id q = po_option_id q'"
      by (auto simp: fetch_options_set)
    moreover from this q have "q = q'"
      by (intro option_table.unique [OF opts]) (simp_all add: db1)
    ultimately show "po_parameter_type_id q = i"
      by blast
  qed (simp_all add: db1)
  have f2: "?frame db2"
    by (rule keepsD [OF frame_write_options_and_values [OF i subset_refl] w f1])
  have own: "has_option i db2 \<longleftrightarrow> dt = Enum"
    by (rule write_options_and_values_enum [OF w i valid ms known])
  have types: "asset_parameter_types db2 = update_rows (\<lambda>r. pt_parameter_type_id r = i)
      (set_parameter code name dt dm u description (env_now env)) (asset_parameter_types db)"
    using f2 by (simp add: flow_frame_def db1)
  have own_type: "\<forall>r\<in>set (asset_parameter_types db2). pt_parameter_type_id r = i \<longrightarrow> pt_data_type r = DataType_as_str dt"
  proof (intro ballI impI)
    fix r
    assume "r \<in> set (asset_parameter_types db2)" and j: "pt_parameter_type_id r = i"
    then consider x where "r = set_parameter code name dt dm u description (env_now env) x"
      | "r \<in> set (asset_parameter_types db)" "pt_parameter_type_id r \<noteq> i"
      unfolding types set_update_rows by blast
    then show "pt_data_type r = DataType_as_str dt"
      using j by cases (simp_all add: set_parameter_def)
  qed
  have "pt_data_type r = DataType_as_str Enum \<longleftrightarrow> has_option (pt_parameter_type_id r) db2"
    if r: "r \<in> set (asset_parameter_types db2)" for r
  proof (cases "pt_parameter_type_id r = i")
    case True
    with r own_type show ?thesis
      by (simp add: own data_type_name.as_str_eq_iff)
  next
    case False
    with r have "r \<in> set (asset_parameter_types db)"
      by (auto simp: types set_update_rows)
    with ok False flow_frame_has_option [OF f1 f2] show ?thesis
      by (simp add: parameters_ok_def enum_options_ok_def db1 has_option_def)
  qed
  then show ?thesis
    by (simp add: db' enum_options_ok_def has_option_def)
qed

lemma update_keeps_parameters_ok:
  assumes run: "update_asset_parameter env ctx i payload db = (Inr (updated, options), db')"
    and ok: "parameters_ok db"
  shows "parameters_ok db'"
proof -
  from run obtain change where "update_parameter_in_transaction env ctx i change db = Inr ((updated, options), db')"
    by (auto simp: update_asset_parameter_def run_handler_Inr)
  from keepsD [OF handlers_keep_tables(2) this] ok have "parameter_tables_ok db'"
    by (simp add: parameters_ok_def)
  moreover have "deferred_ok db'"
    using run by (rule update_asset_parameter_Inr) simp
  ultimately show ?thesis
    using update_keeps_enum_options [OF run ok] by (simp add: parameters_ok_def)
qed

section \<open>Creating and deleting\<close>

lemma insert_new_options_Inr:
  assumes "insert_new_options env n i qs db = Inr (rows, db')"
  shows "asset_parameter_types db' = asset_parameter_types db
    \<and> (\<forall>j. has_option j db' \<longleftrightarrow> has_option j db \<or> (j = i \<and> qs \<noteq> []))"
proof -
  have "asset_parameter_types db' = asset_parameter_types db
    \<and> (\<forall>j. has_option j db' \<longleftrightarrow> has_option j db \<or> (j = i \<and> ps \<noteq> []))"
    if "tx_for_each (\<lambda>(k, q). insert_new_asset_parameter_option (env_new_v4 env k) i q) ps db = Inr (xs, db')"
    for ps xs
    using that
  proof (induction ps arbitrary: xs db)
    case (Cons p ps)
    obtain k q where p: "p = (k, q)"
      by (cases p)
    from Cons.prems obtain r db1 ys where
        new: "insert_new_asset_parameter_option (env_new_v4 env k) i q db = Inr (r, db1)"
      and rest: "tx_for_each (\<lambda>(k, q). insert_new_asset_parameter_option (env_new_v4 env k) i q) ps db1 = Inr (ys, db')"
      by (auto simp: p tx_unfold)
    have "asset_parameter_types db1 = asset_parameter_types db" "\<forall>j. has_option j db1 \<longleftrightarrow> has_option j db \<or> j = i"
      using new by (auto simp: insert_new_asset_parameter_option_def insert_option_row_Inr has_option_def)
    with Cons.IH [OF rest] show ?case
      by simp blast
  qed (auto simp: tx_unfold)
  moreover from assms obtain xs where
      "tx_for_each (\<lambda>(k, q). insert_new_asset_parameter_option (env_new_v4 env k) i q) (enumerate n qs) db = Inr (xs, db')"
    by (auto simp: insert_new_options_def tx_unfold)
  moreover have "enumerate n qs = [] \<longleftrightarrow> qs = []"
    by (cases qs) simp_all
  ultimately show ?thesis
    by blast
qed

lemma create_keeps_parameters_ok:
  assumes run: "create_asset_parameter env ctx payload db = (Inr (parameter, options), db')"
    and ok: "parameters_ok db"
  shows "parameters_ok db'"
proof -
  from run obtain new where v: "validate_new_options (np_data_type new) (np_options new) = Inr ()"
      and c: "create_parameter_in_transaction env ctx new db = Inr ((parameter, options), db')"
    by (auto simp: create_asset_parameter_def run_handler_Inr and_then_Inr_iff map_err_Inr_iff)
  from c obtain dm db1 db2 es where
      i: "insert_asset_parameter env (env_new_v4 env 0) (ctx_laboratory_id ctx) (np_code new) (np_name new)
            (np_data_type new) dm (np_default_unit_id new) (np_description new) db = Inr (parameter, db1)"
      and q: "insert_new_options env 1 (pt_parameter_type_id parameter) (np_options new) db1 = Inr (options, db2)"
      and d: "deferred_ok db2" and e: "\<exists>es. db' = db2\<lparr>audit_logs := es\<rparr>"
    by (auto simp: create_parameter_in_transaction_def tx_unfold simp del: record_audit_Inr split_paired_Ex
        dest!: record_audit_entry) (metis that)
  let ?i = "pt_parameter_type_id parameter"
  from i have p: "parameter_violation db (asset_parameter_types db) parameter = None"
      "pt_data_type parameter = DataType_as_str (np_data_type new)"
      "db1 = db\<lparr>asset_parameter_types := asset_parameter_types db @ [parameter]\<rparr>"
    by (auto simp: insert_asset_parameter_def Let_def tx_unfold split: option.splits)
  have fresh: "pt_parameter_type_id t \<noteq> ?i" if "t \<in> set (asset_parameter_types db)" for t
    using p(1) that by (auto simp: parameter_violation_def split: if_splits)
  have "\<not> has_option ?i db"
    using ok fresh by (auto simp: parameters_ok_def parameter_tables_ok_def options_refer_def has_option_def)
  moreover have "np_data_type new = Enum \<longleftrightarrow> np_options new \<noteq> []"
    using v by (auto simp: validate_new_options_def and_then_Inr_iff require_option_def ensure_Inr_iff)
  moreover note own = calculation
  have "pt_data_type t = DataType_as_str Enum \<longleftrightarrow> has_option (pt_parameter_type_id t) db2"
    if "t \<in> set (asset_parameter_types db2)" for t
  proof (cases "t = parameter")
    case True
    with own insert_new_options_Inr [OF q] show ?thesis
      by (simp add: p has_option_def data_type_name.as_str_eq_iff)
  next
    case False
    with that insert_new_options_Inr [OF q] have "t \<in> set (asset_parameter_types db)"
      by (simp add: p)
    with ok fresh [of t] insert_new_options_Inr [OF q] show ?thesis
      by (simp add: p has_option_def parameters_ok_def enum_options_ok_def)
  qed
  then have "enum_options_ok db2"
    by (simp add: enum_options_ok_def)
  moreover have "parameter_tables_ok db'"
    using keepsD [OF handlers_keep_tables(1) c] ok by (simp add: parameters_ok_def)
  ultimately show ?thesis
    using d e by (auto simp: parameters_ok_def)
qed

lemma delete_keeps_parameters_ok:
  assumes run: "delete_asset_parameter env ctx i db = (Inr (), db')" and ok: "parameters_ok db"
  shows "parameters_ok db'"
proof -
  from run have d: "delete_parameter_in_transaction env ctx i db = Inr ((), db')"
    by (auto simp: delete_asset_parameter_def run_handler_Inr)
  then obtain t :: parameter_type_row and db1 x es where r: "delete_asset_parameter_from_database (pt_parameter_type_id t) db = Inr (x, db1)"
      and c: "deferred_ok db'" and e: "db' = db1\<lparr>audit_logs := es\<rparr>"
    unfolding delete_parameter_in_transaction_def Let_def tx_unfold unexpected_def by metis
  from r ok have "enum_options_ok db1"
    by (fastforce simp: delete_asset_parameter_from_database_def tx_unfold enum_options_ok_def has_option_def parameters_ok_def)
  moreover have "parameter_tables_ok db'"
    using keepsD [OF handlers_keep_tables(3) d] ok by (simp add: parameters_ok_def)
  ultimately show ?thesis
    using c e by (auto simp: parameters_ok_def)
qed

end
