(* ===== verification/Parameter_Migration.thy ===== *)
theory Parameter_Migration
  imports Parameter_Lifecycle
begin

text \<open>
  What a change of the data type makes of the stored values: the rows a migration writes, read
  back, against the targets the request names for them.
\<close>

text \<open>
  A stored value says what a target asks for. A target that names an option by its code, and not
  by its id, is kept as the option with that code, which the migration inserts when there is none.
\<close>

definition says :: "env \<Rightarrow> value_definition \<Rightarrow> data_type \<Rightarrow> option_row list \<Rightarrow> json \<Rightarrow> value_columns \<Rightarrow> bool" where
  "says env d dt options target c \<longleftrightarrow>
     (if dt = Enum \<and> json_get (lit ''option_id'') target = None \<and> json_get (lit ''option_code'') target \<noteq> None
      then (\<exists>code. get_as as_str (lit ''option_code'') target = Some code
              \<and> (\<exists>q\<in>set options. vc_option_id c = Some (po_option_id q)
                   \<and> po_parameter_type_id q = pd_parameter_type_id d
                   \<and> (po_code q = code \<or> AssetParameterCode_parse code = Inr (po_code q))))
      else (\<exists>v. AssetParameterValue_parse env dt target = Inr v \<and> read_columns dt c = Some (in_stored_unit d v)))"

definition uuid_text :: "env \<Rightarrow> bool" where
  "uuid_text env \<longleftrightarrow> (\<forall>i. Uuid_parse_str env (Uuid_to_string env i) = Some i)"

lemma read_migrated [simp]: "read_columns dt (migrate_columns dt new c) = read_columns dt new"
  by (cases dt) (simp_all add: migrate_columns_def split: option.split)

lemma migrated_option [simp]: "vc_option_id (migrate_columns Enum new c) = vc_option_id new"
  by (simp add: migrate_columns_def)

lemma says_more:
  assumes "says env d dt options target c" and "set options \<subseteq> set options'"
  shows "says env d dt options' target c"
proof (cases "dt = Enum \<and> json_get (lit ''option_id'') target = None \<and> json_get (lit ''option_code'') target \<noteq> None")
  case True
  with assms show ?thesis
    unfolding says_def by (simp del: not_None_eq) blast
next
  case False
  with assms(1) show ?thesis
    unfolding says_def by (simp only: if_False)
qed

lemma says_migrated [simp]: "says env d dt options target (migrate_columns dt new c) = says env d dt options target new"
  by (auto simp: says_def)

definition same_place :: "value_row \<Rightarrow> value_row \<Rightarrow> bool" where
  "same_place r w \<longleftrightarrow> pv_value_id r = pv_value_id w \<and> pv_laboratory_id r = pv_laboratory_id w
     \<and> pv_asset_id r = pv_asset_id w \<and> pv_parameter_type_id r = pv_parameter_type_id w"

lemma same_place_migrate [simp]: "same_place (migrate_row env dt new w) w"
  by (simp add: same_place_def migrate_row_def)

lemma same_place_trans: "same_place r s \<Longrightarrow> same_place s t \<Longrightarrow> same_place r t"
  by (simp add: same_place_def)

section \<open>One value\<close>

text \<open>What a migration adds to the options, and what it leaves alone.\<close>

definition only_adds_options :: "option_row list \<Rightarrow> database \<Rightarrow> bool" where
  "only_adds_options options db \<longleftrightarrow> set options \<subseteq> set (parameter_options db)"

lemma only_adds_keeps [keeps_intros]:
  "keeps (only_adds_options qs) (insert_migrated_asset_parameter_option k i code label)"
  "keeps (only_adds_options qs) (migrate_asset_parameter_value_in_database env v dt value)"
  "keeps (only_adds_options qs) (delete_asset_parameter_value_from_database v)"
  by (auto simp: keeps_def only_adds_options_def insert_migrated_asset_parameter_option_def tx_unfold
      insert_option_row_Inr delete_value_Inr dest!: migrate_value_Inr)

definition values_are :: "value_row list \<Rightarrow> database \<Rightarrow> bool" where
  "values_are rows db \<longleftrightarrow> parameter_values db = rows"

lemma insert_option_row_values [keeps_intros]: "keeps (values_are rows) (insert_option_row k i code label n)"
  by (auto simp: keeps_def values_are_def insert_option_row_Inr)

lemma values_are_keeps [keeps_intros]:
  "keeps (values_are rows) (insert_asset_parameter_option k i q)"
  "keeps (values_are rows) (insert_migrated_asset_parameter_option k i code label)"
  "keeps (values_are rows) (update_asset_parameter_option j q)"
  "keeps (values_are rows) (drop_options i kept)"
proof -
  show "keeps (values_are rows) (update_asset_parameter_option j q)"
    by (auto simp: keeps_def values_are_def dest!: update_asset_parameter_option_Inr)
  show "keeps (values_are rows) (drop_options i kept)"
    by (auto simp: keeps_def values_are_def dest!: drop_options_Inr)
qed (unfold insert_asset_parameter_option_def insert_migrated_asset_parameter_option_def, (intro keeps_intros)+)

lemma values_are_apply [keeps_intros]: "keeps (values_are rows) (apply_option_updates env i dt existing options)"
  unfolding apply_option_updates_def replace_options_def delete_asset_parameter_options_def
    delete_removed_asset_parameter_options_def
  by (intro keeps_intros keeps_write_options)

lemma parse_option_object:
  assumes "uuid_text env"
  shows "AssetParameterValue_parse env Enum (JObject [(lit ''option_id'', json_uuid env k)]) = Inr (EnumValue k)"
  using assms by (simp add: uuid_text_def parse_option_def parse_uuid_field_def json_uuid_def Let_def)

text \<open>A target is resolved to one that asks for an option by its id.\<close>

lemma resolve_migration_target_Inr:
  assumes run: "resolve_migration_target env n i dt target db = Inr ((target', m), db')"
  shows "target' = target \<and> db' = db
       \<and> \<not> (dt = Enum \<and> json_get (lit ''option_id'') target = None \<and> json_get (lit ''option_code'') target \<noteq> None)
     \<or> dt = Enum \<and> json_get (lit ''option_id'') target = None \<and> json_get (lit ''option_code'') target \<noteq> None
       \<and> (\<exists>code. get_as as_str (lit ''option_code'') target = Some code
            \<and> (\<exists>q\<in>set (parameter_options db'). target' = JObject [(lit ''option_id'', json_uuid env (po_option_id q))]
                 \<and> po_parameter_type_id q = i \<and> (po_code q = code \<or> AssetParameterCode_parse code = Inr (po_code q))))"
proof (cases "dt = Enum \<and> json_get (lit ''option_id'') target = None \<and> json_get (lit ''option_code'') target \<noteq> None")
  case False
  with run show ?thesis
    by (auto simp: resolve_migration_target_def tx_unfold)
next
  case True
  then obtain field where field: "dt = Enum" "json_get (lit ''option_id'') target = None"
      "json_get (lit ''option_code'') target = Some field"
    by auto
  from run field obtain code where code: "get_as as_str (lit ''option_code'') target = Some code"
    by (auto simp: resolve_migration_target_def tx_unfold ok_or_Inr_iff)
  show ?thesis
  proof (cases "fetch_asset_parameter_option_id_by_code i code db")
    case (Some k)
    with run field code have "target' = JObject [(lit ''option_id'', json_uuid env k)]" "db' = db"
      by (auto simp: resolve_migration_target_def tx_unfold)
    moreover from Some obtain q where "q \<in> set (parameter_options db)" "po_option_id q = k"
        "po_parameter_type_id q = i" "po_code q = code"
      by (auto simp: fetch_asset_parameter_option_id_by_code_def dest!: fetch_optional_Some)
    ultimately show ?thesis
      using field code by auto
  next
    case None
    with run field code obtain parsed label where "AssetParameterCode_parse code = Inr parsed"
        and "db' = db\<lparr>parameter_options := parameter_options db @ [\<lparr>po_option_id = env_new_v4 env n,
          po_parameter_type_id = i, po_code = parsed, po_label = label, po_sort_order = 0\<rparr>]\<rparr>"
        and "target' = JObject [(lit ''option_id'', json_uuid env (env_new_v4 env n))]"
      by (auto simp: resolve_migration_target_def tx_unfold insert_migrated_asset_parameter_option_def
          map_err_Inr_iff insert_option_row_Inr)
    with field code show ?thesis
      by simp
  qed
qed

lemma migrated_says:
  assumes ids: "uuid_text env" and dt: "pd_data_type d = DataType_as_str dt"
    and t: "resolve_migration_target env n (pd_parameter_type_id d) dt target db = Inr ((target', m), db1)"
    and r: "resolve_parameter_value env d target' db1 = Inr rv"
  shows "says env d dt (parameter_options db1) target (rv_columns rv)"
proof -
  from r obtain k v where v: "DataType_parse (pd_data_type d) = Inr k" "AssetParameterValue_parse env k target' = Inr v"
      "read_columns k (rv_columns rv) = Some (in_stored_unit d v)"
    by (rule resolve_parameter_value_Inr)
  have k: "k = dt"
    using v(1) data_type_name.parse_as_str [of dt] by (simp add: dt)
  show ?thesis
  proof (cases "dt = Enum \<and> json_get (lit ''option_id'') target = None \<and> json_get (lit ''option_code'') target \<noteq> None")
    case False
    with resolve_migration_target_Inr [OF t] v k show ?thesis
      unfolding says_def by auto
  next
    case True
    with resolve_migration_target_Inr [OF t] obtain code q
      where code: "get_as as_str (lit ''option_code'') target = Some code"
        and q: "q \<in> set (parameter_options db1)" "target' = JObject [(lit ''option_id'', json_uuid env (po_option_id q))]"
          "po_parameter_type_id q = pd_parameter_type_id d" "po_code q = code \<or> AssetParameterCode_parse code = Inr (po_code q)"
      by blast
    from v k q True parse_option_object [OF ids, of "po_option_id q"] have "vc_option_id (rv_columns rv) = Some (po_option_id q)"
      by auto
    with code q True show ?thesis
      unfolding says_def by auto
  qed
qed

section \<open>All values\<close>

lemma set_migrated_rows:
  assumes "migrate_asset_parameter_value_in_database env k dt rv db = Inr (x, db')"
  shows "parameter_values db' = map (\<lambda>w. if pv_value_id w = k then migrate_row env dt (rv_columns rv) w else w) (parameter_values db)"
  using migrate_value_Inr [OF assms] by (simp add: update_rows_def)

lemma migrate_values_options:
  assumes "migrate_values env d dt ms n vs db = Inr (x, db')"
  shows "set (parameter_options db) \<subseteq> set (parameter_options db')"
proof -
  have "keeps (only_adds_options (parameter_options db)) (migrate_values env d dt ms n vs)"
    by (intro keeps_migrate_values keeps_intros)
  from keepsD [OF this assms] show ?thesis
    by (simp add: only_adds_options_def)
qed

abbreviation migrated_ids :: "parameter_value list \<Rightarrow> uuid set" where
  "migrated_ids vs \<equiv> (\<lambda>v. pv_value_id (vv_row v)) ` set vs"

text \<open>
  After a migration: the values it does not name are as they were; of those it names, exactly the
  ones with a target are there, in their place, and say what the target asks for.
\<close>

definition migrated ::
    "env \<Rightarrow> value_definition \<Rightarrow> data_type \<Rightarrow> (uuid \<Rightarrow> value_migration option) \<Rightarrow> uuid set
       \<Rightarrow> value_row list \<Rightarrow> option_row list \<Rightarrow> value_row list \<Rightarrow> bool" where
  "migrated env d dt ms ids rows options rows' \<longleftrightarrow>
     filter (\<lambda>r. pv_value_id r \<notin> ids) rows' = filter (\<lambda>r. pv_value_id r \<notin> ids) rows
     \<and> pv_value_id ` set rows'
         = {k \<in> pv_value_id ` set rows. k \<in> ids \<longrightarrow> (\<exists>j target. ms k = Some (j, Some target))}
     \<and> (\<forall>r\<in>set rows'. pv_value_id r \<in> ids \<longrightarrow>
          pv_data_type r = DataType_as_str dt
          \<and> (\<exists>w\<in>set rows. same_place r w)
          \<and> (\<exists>j target. ms (pv_value_id r) = Some (j, Some target) \<and> says env d dt options target (pv_columns r)))"

lemma migrated_nil: "migrated env d dt ms {} rows options rows"
  by (simp add: migrated_def)

text \<open>One row moved or removed first, then the rest.\<close>

lemma migrated_after_move:
  assumes rest: "migrated env d dt ms ids rows1 options rows'"
    and rows1: "rows1 = map (\<lambda>w. if pv_value_id w = k then migrate_row env dt new w else w) rows"
    and ms: "ms k = Some (j, Some target)" and says: "says env d dt options target new"
  shows "migrated env d dt ms (insert k ids) rows options rows'"
proof -
  have ids1: "pv_value_id ` set rows1 = pv_value_id ` set rows"
  proof -
    have "map pv_value_id rows1 = map pv_value_id rows"
      by (simp add: rows1 migrate_row_def)
    then show ?thesis
      by (metis list.set_map)
  qed
  have "filter (\<lambda>r. pv_value_id r \<notin> insert k ids) rows' = filter (\<lambda>r. pv_value_id r \<noteq> k) (filter (\<lambda>r. pv_value_id r \<notin> ids) rows')"
    by (simp add: conj_commute)
  also have "\<dots> = filter (\<lambda>r. pv_value_id r \<noteq> k) (filter (\<lambda>r. pv_value_id r \<notin> ids) rows1)"
    using rest by (simp add: migrated_def)
  also have "\<dots> = filter (\<lambda>r. pv_value_id r \<notin> insert k ids) rows"
    unfolding rows1 by (induction rows) auto
  finally have others: "filter (\<lambda>r. pv_value_id r \<notin> insert k ids) rows' = filter (\<lambda>r. pv_value_id r \<notin> insert k ids) rows" .
  have ids': "pv_value_id ` set rows' = {i \<in> pv_value_id ` set rows. i \<in> ids \<longrightarrow> (\<exists>j target. ms i = Some (j, Some target))}"
    using rest by (simp add: migrated_def ids1)
  have keys: "pv_value_id ` set rows' = {i \<in> pv_value_id ` set rows. i \<in> insert k ids \<longrightarrow> (\<exists>j target. ms i = Some (j, Some target))}"
    unfolding ids' using ms by auto
  have earlier: "\<exists>w\<in>set rows. same_place r w" if "w1 \<in> set rows1" "same_place r w1" for r w1
  proof -
    from that(1) obtain w where "w \<in> set rows" "w1 = migrate_row env dt new w \<or> w1 = w"
      by (auto simp: rows1)
    with that(2) show ?thesis
      using same_place_trans [OF that(2), of w] by (auto simp: same_place_def migrate_row_def)
  qed
  have "pv_data_type r = DataType_as_str dt
      \<and> (\<exists>w\<in>set rows. same_place r w)
      \<and> (\<exists>j target. ms (pv_value_id r) = Some (j, Some target) \<and> says env d dt options target (pv_columns r))"
    if r: "r \<in> set rows'" "pv_value_id r \<in> insert k ids" for r
  proof (cases "pv_value_id r \<in> ids")
    case True
    with rest r(1) obtain w1 where "pv_data_type r = DataType_as_str dt" "w1 \<in> set rows1" "same_place r w1"
        "\<exists>j target. ms (pv_value_id r) = Some (j, Some target) \<and> says env d dt options target (pv_columns r)"
      by (auto simp: migrated_def)
    with earlier [of w1 r] show ?thesis
      by blast
  next
    case False
    with r have "r \<in> set (filter (\<lambda>r. pv_value_id r \<notin> ids) rows')" "pv_value_id r = k"
      by auto
    with rest have "r \<in> set rows1" "pv_value_id r = k"
      by (auto simp: migrated_def)
    then obtain w where w: "w \<in> set rows" "pv_value_id w = k" "r = migrate_row env dt new w"
      by (auto simp: rows1 split: if_splits)
    then have "pv_data_type r = DataType_as_str dt" "says env d dt options target (pv_columns r)" "same_place r w"
      using says by (simp_all add: migrate_row_def same_place_def)
    with w(1) ms \<open>pv_value_id r = k\<close> show ?thesis
      by blast
  qed
  with others keys show ?thesis
    by (simp add: migrated_def)
qed

lemma migrated_after_removal:
  assumes rest: "migrated env d dt ms ids (filter (\<lambda>w. pv_value_id w \<noteq> k) rows) options rows'"
    and ms: "ms k = Some (j, None)"
  shows "migrated env d dt ms (insert k ids) rows options rows'"
proof -
  let ?rows1 = "filter (\<lambda>w. pv_value_id w \<noteq> k) rows"
  have ids': "pv_value_id ` set rows' = {i \<in> pv_value_id ` set ?rows1. i \<in> ids \<longrightarrow> (\<exists>j target. ms i = Some (j, Some target))}"
    using rest by (simp add: migrated_def)
  have gone: "pv_value_id r \<noteq> k" if "r \<in> set rows'" for r
  proof -
    have "pv_value_id r \<in> pv_value_id ` set ?rows1"
      using ids' that by blast
    then show ?thesis
      by auto
  qed
  have "filter (\<lambda>r. pv_value_id r \<notin> insert k ids) rows' = filter (\<lambda>r. pv_value_id r \<notin> ids) rows'"
    using gone by (intro filter_cong) auto
  also have "\<dots> = filter (\<lambda>r. pv_value_id r \<notin> insert k ids) rows"
    using rest by (simp add: migrated_def conj_commute)
  finally have others: "filter (\<lambda>r. pv_value_id r \<notin> insert k ids) rows' = filter (\<lambda>r. pv_value_id r \<notin> insert k ids) rows" .
  have keys: "pv_value_id ` set rows' = {i \<in> pv_value_id ` set rows. i \<in> insert k ids \<longrightarrow> (\<exists>j target. ms i = Some (j, Some target))}"
    unfolding ids' using ms by auto
  have "pv_data_type r = DataType_as_str dt
      \<and> (\<exists>w\<in>set rows. same_place r w)
      \<and> (\<exists>j target. ms (pv_value_id r) = Some (j, Some target) \<and> says env d dt options target (pv_columns r))"
    if r: "r \<in> set rows'" "pv_value_id r \<in> insert k ids" for r
    using rest r gone [OF r(1)] by (auto simp: migrated_def)
  with others keys show ?thesis
    by (simp add: migrated_def)
qed

lemma migrate_values_migrated:
  assumes ids: "uuid_text env" and d: "pd_data_type d = DataType_as_str dt"
    and run: "migrate_values env d dt ms n vs db = Inr (x, db')"
  shows "migrated env d dt ms (migrated_ids vs) (parameter_values db) (parameter_options db') (parameter_values db')"
  using run
proof (induction vs arbitrary: n db)
  case Nil
  then show ?case
    by (simp add: tx_unfold migrated_nil)
next
  case (Cons v vs)
  let ?k = "pv_value_id (vv_row v)"
  from Cons.prems obtain j goal where ms: "ms ?k = Some (j, goal)"
    by (auto simp: tx_unfold split: option.splits)
  show ?case
  proof (cases goal)
    case None
    with Cons.prems ms obtain y db1 where gone: "delete_asset_parameter_value_from_database ?k db = Inr (y, db1)"
        and rest: "migrate_values env d dt ms n vs db1 = Inr (x, db')"
      by (auto simp: tx_unfold)
    have "migrated env d dt ms (insert ?k (migrated_ids vs)) (parameter_values db) (parameter_options db') (parameter_values db')"
      using Cons.IH [OF rest] gone ms None
      by (intro migrated_after_removal [where k = ?k and j = j]) (simp_all add: delete_value_Inr)
    then show ?thesis
      by simp
  next
    case (Some target)
    with Cons.prems ms obtain target' m db1 rv y db2
      where t: "resolve_migration_target env n (pd_parameter_type_id d) dt target db = Inr ((target', m), db1)"
        and r: "resolve_parameter_value env d target' db1 = Inr rv"
        and w: "migrate_asset_parameter_value_in_database env ?k dt rv db1 = Inr (y, db2)"
        and rest: "migrate_values env d dt ms m vs db2 = Inr (x, db')"
      by (auto simp: tx_unfold)
    have "keeps (values_are (parameter_values db)) (resolve_migration_target env n (pd_parameter_type_id d) dt target)"
      by (intro keeps_resolve_migration_target keeps_intros)
    from keepsD [OF this t] have v1: "parameter_values db1 = parameter_values db"
      by (simp add: values_are_def)
    have "parameter_options db2 = parameter_options db1"
      using migrate_value_Inr [OF w] by simp
    with migrate_values_options [OF rest] have "says env d dt (parameter_options db') target (rv_columns rv)"
      by (intro says_more [OF migrated_says [OF ids d t r]]) simp
    then have "migrated env d dt ms (insert ?k (migrated_ids vs)) (parameter_values db) (parameter_options db') (parameter_values db')"
      using Cons.IH [OF rest] set_migrated_rows [OF w] ms
      unfolding v1 Some by (elim migrated_after_move)
    then show ?thesis
      by simp
  qed
qed

section \<open>The update of a parameter\<close>

text \<open>The definition the values of a parameter are resolved against, as its row has it.\<close>

definition definition_of :: "parameter_type_row \<Rightarrow> value_definition" where
  "definition_of t =
     \<lparr>pd_parameter_type_id = pt_parameter_type_id t, pd_data_type = pt_data_type t,
      pd_unit_dimension = pt_unit_dimension t, pd_default_unit_id = pt_default_unit_id t\<rparr>"

lemma migrated_options:
  assumes "migrated env d dt ms ids rows options rows'" and "dt \<noteq> Enum"
  shows "migrated env d dt ms ids rows options' rows'"
proof -
  have "says env d dt options target c = says env d dt options' target c" for target c
    using assms(2) by (simp add: says_def)
  with assms(1) show ?thesis
    by (simp add: migrated_def)
qed

lemma written_values_migrated:
  assumes ids: "uuid_text env"
    and run: "write_options_and_values env updated dt True dm u existing change vals db1 = Inr (options, db2)"
    and d: "definition_of updated = \<lparr>pd_parameter_type_id = i, pd_data_type = DataType_as_str dt,
              pd_unit_dimension = dm, pd_default_unit_id = u\<rparr>"
  shows "migrated env (definition_of updated) dt (hash_map (map (\<lambda>m. (fst m, m)) (coalesce (ch_value_migrations change) [])))
           (migrated_ids vals) (parameter_values db1) (parameter_options db2) (parameter_values db2)"
proof -
  let ?ms = "hash_map (map (\<lambda>m. (fst m, m)) (coalesce (ch_value_migrations change) []))"
  have i: "pt_parameter_type_id updated = i" and dt: "pd_data_type (definition_of updated) = DataType_as_str dt"
    using d by (simp_all add: definition_of_def)
  have same: "parameter_values db'' = parameter_values db'"
    if "apply_option_updates env i k existing opts db' = Inr (x, db'')" for k opts x db' db''
    using keepsD [OF values_are_apply [of "parameter_values db'"] that] by (simp add: values_are_def)
  show ?thesis
  proof (cases "dt = Enum")
    case True
    with run obtain x n y db' where a: "apply_option_updates env i dt existing (ch_options change) db1 = Inr ((x, n), db')"
        and m: "migrate_values env (definition_of updated) dt ?ms n vals db' = Inr (y, db2)"
      by (auto simp: write_options_and_values_def Let_def migrate_parameter_values_def d i tx_unfold)
    from migrate_values_migrated [OF ids dt m] show ?thesis
      by (simp add: same [OF a])
  next
    case False
    with run obtain y n db' x where m: "migrate_values env (definition_of updated) dt ?ms 0 vals db1 = Inr (y, db')"
        and a: "apply_option_updates env i dt existing (ch_options change) db' = Inr ((x, n), db2)"
      by (auto simp: write_options_and_values_def Let_def migrate_parameter_values_def d i tx_unfold)
    from migrated_options [OF migrate_values_migrated [OF ids dt m] False] show ?thesis
      by (simp add: same [OF a])
  qed
qed

lemma fetched_value_ids:
  assumes "values_refer db"
  shows "migrated_ids (fetch_asset_parameter_values_for_update env i db)
    = pv_value_id ` {w \<in> set (parameter_values db). pv_parameter_type_id w = i}" (is "?l = ?r")
proof
  show "?l \<subseteq> ?r"
    by (auto simp: fetch_asset_parameter_values_for_update_def fetch_asset_parameter_values_def value_with_asset_def Let_def)
  show "?r \<subseteq> ?l"
  proof (intro subsetI)
    fix k
    assume "k \<in> ?r"
    then obtain w where w: "w \<in> set (parameter_values db)" "pv_parameter_type_id w = i" "k = pv_value_id w"
      by auto
    with assms obtain a where "a \<in> set (assets db)" "as_asset_id a = pv_asset_id w"
      by (auto simp: values_refer_def)
    with w have "value_with_asset db w a \<in> set (fetch_asset_parameter_values_for_update env i db)"
      by (auto simp: fetch_asset_parameter_values_for_update_def fetch_asset_parameter_values_def)
    then have "pv_value_id (vv_row (value_with_asset db w a)) \<in> ?l"
      by blast
    then show "k \<in> ?l"
      by (simp add: w(3) value_with_asset_def Let_def)
  qed
qed

text \<open>The migration of an update that changes the type, over all stored values.\<close>

lemma update_migrated:
  assumes ok: "parameters_ok db" and ids: "uuid_text env"
    and run: "update_asset_parameter env ctx i payload db = (Inr (updated, options), db')"
    and payload: "UpdateAssetParameter_try_from env payload = Inr change"
    and t: "fetch_asset_parameter i db = Some t" and changed: "pt_data_type updated \<noteq> pt_data_type t"
  defines "ms \<equiv> coalesce (ch_value_migrations change) []"
    and "stored \<equiv> {w \<in> set (parameter_values db). pv_parameter_type_id w = i}"
  obtains dt where "pt_data_type updated = DataType_as_str dt" "pt_parameter_type_id updated = i"
    "distinct (map fst ms)" "set (map fst ms) = pv_value_id ` stored"
    "migrated env (definition_of updated) dt (hash_map (map (\<lambda>m. (fst m, m)) ms)) (pv_value_id ` stored)
       (parameter_values db) (parameter_options db') (parameter_values db')"
proof -
  from run obtain change' t' old dt dm vals db1 db2 es u description code name
    where c: "UpdateAssetParameter_try_from env payload = Inr change'"
    and t': "fetch_asset_parameter i db = Some t'" and old: "DataType_parse (pt_data_type t') = Inr old"
    and vals: "vals = (if dt \<noteq> old then fetch_asset_parameter_values_for_update env i db else [])"
    and valid: "dt \<noteq> old \<Longrightarrow> validate_value_migrations vals (ch_value_migrations change') = Inr ()"
    and db1: "db1 = db\<lparr>asset_parameter_types := update_rows (\<lambda>r. pt_parameter_type_id r = i)
          (set_parameter code name dt dm u description (env_now env)) (asset_parameter_types db)\<rparr>"
    and updated: "updated = set_parameter code name dt dm u description (env_now env) t'"
    and w: "write_options_and_values env updated dt (dt \<noteq> old) dm u
           (fetch_asset_parameter_options_for_update env i db) change' vals db1 = Inr (options, db2)"
    and db': "db' = db2\<lparr>audit_logs := es\<rparr>"
    by (rule update_asset_parameter_Inr) (assumption | rule that)+
  have same: "change' = change" "t' = t"
    using c payload t' t by auto
  have i: "pt_parameter_type_id updated = i"
    using fetch_parameter_Some [OF t'] by (simp add: updated)
  have type: "pt_data_type updated = DataType_as_str dt"
    by (simp add: updated set_parameter_def)
  have "parameter_checks t"
    using ok fetch_parameter_Some [OF t] by (auto simp: parameters_ok_def parameter_tables_ok_def table_ok_def)
  then obtain x where x: "pt_data_type t = DataType_as_str x"
    unfolding parameter_checks_def by blast
  with old data_type_name.parse_as_str [of x] have "pt_data_type t = DataType_as_str old"
    by (simp add: same)
  with changed type have dt: "dt \<noteq> old"
    by auto
  have "values_refer db"
    using ok by (simp add: parameters_ok_def parameter_tables_ok_def)
  then have stored: "migrated_ids vals = pv_value_id ` stored"
    using dt by (simp add: vals fetched_value_ids stored_def)
  note ms = validate_value_migrations_Inr [OF valid [OF dt, unfolded same]]
  show ?thesis
  proof (rule that [OF type i])
    show "distinct (map fst ms)" "set (map fst ms) = pv_value_id ` stored"
      using ms stored by (simp_all add: ms_def)
    have d: "definition_of updated = \<lparr>pd_parameter_type_id = i, pd_data_type = DataType_as_str dt,
        pd_unit_dimension = dm, pd_default_unit_id = u\<rparr>"
      using i type by (simp add: definition_of_def updated set_parameter_def)
    show "migrated env (definition_of updated) dt (hash_map (map (\<lambda>m. (fst m, m)) ms)) (pv_value_id ` stored)
       (parameter_values db) (parameter_options db') (parameter_values db')"
      using written_values_migrated [OF ids w [unfolded eqTrueI [OF dt]] d]
      by (simp add: same ms_def stored [symmetric] db' db1)
  qed
qed

text \<open>The same over the list of migrations of a request, when it names the stored values once each.\<close>

lemma hash_map_target:
  assumes "distinct (map fst ms)"
  shows "(\<exists>j. hash_map (map (\<lambda>m. (fst m, m)) ms) k = Some (j, Some target)) \<longleftrightarrow> (k, Some target) \<in> set ms"
proof
  assume "\<exists>j. hash_map (map (\<lambda>m. (fst m, m)) ms) k = Some (j, Some target)"
  then obtain j where "(k, (j, Some target)) \<in> set (map (\<lambda>m. (fst m, m)) ms)"
    by (auto simp: hash_map_def dest!: map_of_SomeD)
  then show "(k, Some target) \<in> set ms"
    by auto
next
  assume "(k, Some target) \<in> set ms"
  from hash_map_mem [OF assms this] show "\<exists>j. hash_map (map (\<lambda>m. (fst m, m)) ms) k = Some (j, Some target)"
    by simp
qed

lemma migrated_by_list:
  assumes m: "migrated env d dt (hash_map (map (\<lambda>m. (fst m, m)) ms)) (pv_value_id ` stored) rows options rows'"
    and ms: "distinct (map fst ms)" "set (map fst ms) = pv_value_id ` stored"
    and stored: "stored = {w \<in> set rows. pv_parameter_type_id w = i}"
    and keys: "distinct (map pv_value_id rows)"
  shows "pv_value_id ` {r \<in> set rows'. pv_parameter_type_id r = i} = {k. \<exists>target. (k, Some target) \<in> set ms}
    \<and> (\<forall>r\<in>set rows'. pv_parameter_type_id r = i \<longrightarrow>
         pv_data_type r = DataType_as_str dt \<and> (\<exists>w\<in>set rows. same_place r w)
         \<and> (\<exists>target. (pv_value_id r, Some target) \<in> set ms \<and> says env d dt options target (pv_columns r)))
    \<and> filter (\<lambda>r. pv_parameter_type_id r \<noteq> i) rows' = filter (\<lambda>r. pv_parameter_type_id r \<noteq> i) rows"
proof -
  let ?ids = "pv_value_id ` stored"
  have only: "pv_value_id w \<in> ?ids \<longleftrightarrow> pv_parameter_type_id w = i" if "w \<in> set rows" for w
    using that keys by (auto simp: stored distinct_map dest: inj_onD)
  have old: "r \<in> set rows" if "r \<in> set rows'" "pv_value_id r \<notin> ?ids" for r
  proof -
    have "r \<in> set (filter (\<lambda>r. pv_value_id r \<notin> ?ids) rows')"
      using that by simp
    also have "filter (\<lambda>r. pv_value_id r \<notin> ?ids) rows' = filter (\<lambda>r. pv_value_id r \<notin> ?ids) rows"
      using m unfolding migrated_def by blast
    finally show ?thesis
      by simp
  qed
  have only': "pv_value_id r \<in> ?ids \<longleftrightarrow> pv_parameter_type_id r = i" if r: "r \<in> set rows'" for r
  proof (cases "pv_value_id r \<in> ?ids")
    case True
    with m r obtain w where "w \<in> set rows" "same_place r w"
      by (auto simp: migrated_def)
    with only [of w] True show ?thesis
      by (simp add: same_place_def)
  qed (use only old r in blast)
  have "filter (\<lambda>r. pv_parameter_type_id r \<noteq> i) rows' = filter (\<lambda>r. pv_value_id r \<notin> ?ids) rows'"
    using only' by (intro filter_cong) auto
  also have "\<dots> = filter (\<lambda>r. pv_value_id r \<notin> ?ids) rows"
    using m by (simp add: migrated_def)
  also have "\<dots> = filter (\<lambda>r. pv_parameter_type_id r \<noteq> i) rows"
    using only by (intro filter_cong) auto
  finally have others: "filter (\<lambda>r. pv_parameter_type_id r \<noteq> i) rows' = filter (\<lambda>r. pv_parameter_type_id r \<noteq> i) rows" .
  have "pv_value_id ` {r \<in> set rows'. pv_parameter_type_id r = i} = {k \<in> pv_value_id ` set rows'. k \<in> ?ids}"
    using only' by auto
  also have "\<dots> = {k \<in> ?ids. \<exists>j target. hash_map (map (\<lambda>m. (fst m, m)) ms) k = Some (j, Some target)}"
    using m by (auto simp: migrated_def stored)
  also have "\<dots> = {k. \<exists>target. (k, Some target) \<in> set ms}"
    using hash_map_target [OF ms(1)] unfolding ms(2) [symmetric] by force
  finally have kept: "pv_value_id ` {r \<in> set rows'. pv_parameter_type_id r = i} = {k. \<exists>target. (k, Some target) \<in> set ms}" .
  have "pv_data_type r = DataType_as_str dt \<and> (\<exists>w\<in>set rows. same_place r w)
      \<and> (\<exists>target. (pv_value_id r, Some target) \<in> set ms \<and> says env d dt options target (pv_columns r))"
    if r: "r \<in> set rows'" "pv_parameter_type_id r = i" for r
    using m r only' [OF r(1)] hash_map_target [OF ms(1)] unfolding migrated_def by blast
  with others kept show ?thesis
    by blast
qed

end
