(* ===== verification/Parameter_Runs.thy ===== *)
theory Parameter_Runs
  imports Parameter_Migration
begin

text \<open>
  Any number of creations, changes and deletions of parameters, by anybody and each in its own
  surroundings, as a transition system; and what the list of options an update asks for becomes.
\<close>

section \<open>Runs\<close>

inductive parameter_step :: "database \<Rightarrow> database \<Rightarrow> bool" where
  created: "create_asset_parameter env ctx payload db = (r, db') \<Longrightarrow> parameter_step db db'"
| changed: "update_asset_parameter env ctx i change db = (s, db') \<Longrightarrow> parameter_step db db'"
| deleted: "delete_asset_parameter env ctx i db = (t, db') \<Longrightarrow> parameter_step db db'"

inductive_cases parameter_stepE: "parameter_step db db'"

text \<open>The rest of the database, and what only a deletion may touch besides.\<close>

definition beside :: "database \<Rightarrow> database" where
  "beside db = db\<lparr>asset_parameter_types := [], parameter_options := [], parameter_values := [], audit_logs := []\<rparr>"

definition elsewhere :: "database \<Rightarrow> database" where
  "elsewhere db = (beside db)\<lparr>parameter_assignments := []\<rparr>"

definition parameter_ids :: "database \<Rightarrow> uuid set" where
  "parameter_ids db = pt_parameter_type_id ` set (asset_parameter_types db)"

text \<open>Parameters are only added, the log only grows, and nothing changes but the tables of parameters.\<close>

definition grown_from :: "database \<Rightarrow> database \<Rightarrow> bool" where
  "grown_from base db \<longleftrightarrow>
     beside db = beside base \<and> parameter_ids base \<subseteq> parameter_ids db \<and> prefix (audit_logs base) (audit_logs db)"

lemma grown_from_refl: "grown_from db db"
  by (simp add: grown_from_def)

lemma grown_write [keeps_intros]:
  "keeps (grown_from base) (insert_asset_parameter env k lab code name dt dm u description)"
  "keeps (grown_from base) (update_asset_parameter_in_database env i code name dt dm u description)"
  "keeps (grown_from base) (insert_option_row k i code label n)"
  "keeps (grown_from base) (update_asset_parameter_option j q)"
  "keeps (grown_from base) (drop_options i kept)"
  "keeps (grown_from base) (migrate_asset_parameter_value_in_database env v dt value)"
proof -
  show "keeps (grown_from base) (insert_asset_parameter env k lab code name dt dm u description)"
    by (auto simp: keeps_def grown_from_def beside_def parameter_ids_def insert_asset_parameter_def Let_def tx_unfold
        split: option.splits)
  have "pt_parameter_type_id (set_parameter code name dt dm u description now r) = pt_parameter_type_id r" for now r
    by (simp add: set_parameter_def)
  then have "pt_parameter_type_id ` set (update_rows p (set_parameter code name dt dm u description now) rows)
      = pt_parameter_type_id ` set rows" for p now rows
    by (induction rows) (auto simp: update_rows_def)
  then show "keeps (grown_from base) (update_asset_parameter_in_database env i code name dt dm u description)"
    by (auto simp: keeps_def grown_from_def beside_def parameter_ids_def update_asset_parameter_in_database_def
        tx_unfold and_then_Inr_iff dest!: write_row_Inr)
qed (auto simp: keeps_def grown_from_def beside_def parameter_ids_def insert_option_row_Inr
    dest!: update_asset_parameter_option_Inr drop_options_Inr migrate_value_Inr)

lemma grown_delete_value [keeps_intros]: "keeps (grown_from base) (delete_asset_parameter_value_from_database v)"
  by (simp add: keeps_def grown_from_def beside_def parameter_ids_def delete_value_Inr)

lemma grown_inserts [keeps_intros]:
  "keeps (grown_from base) (insert_new_asset_parameter_option k i q)"
  "keeps (grown_from base) (insert_asset_parameter_option k i q)"
  "keeps (grown_from base) (insert_migrated_asset_parameter_option k i code label)"
  unfolding insert_new_asset_parameter_option_def insert_asset_parameter_option_def
    insert_migrated_asset_parameter_option_def
  by (intro keeps_intros)+

lemma grown_audit [keeps_intros]: "keeps (grown_from base) (record_audit a act res i d)"
  by (auto simp: keeps_def record_audit_Inr grown_from_def beside_def parameter_ids_def)

lemma handlers_grow:
  "keeps (grown_from base) (create_parameter_in_transaction env ctx new)"
  "keeps (grown_from base) (update_parameter_in_transaction env ctx i change)"
  unfolding create_parameter_in_transaction_def update_parameter_in_transaction_def
    insert_new_options_def write_options_and_values_def
    read_values_to_migrate_def migrate_parameter_values_def apply_option_updates_def replace_options_def
    delete_asset_parameter_options_def delete_removed_asset_parameter_options_def
  by (intro keeps_intros keeps_write_options keeps_migrate_values)+

text \<open>A deletion that is accepted takes the parameter and its assignments.\<close>

lemma deletion_takes:
  assumes "delete_asset_parameter env ctx i db = (r, db')"
  shows "db' = db \<or> (r = Inr () \<and> i \<in> parameter_ids db \<and> parameter_ids db' = parameter_ids db - {i}
    \<and> elsewhere db' = elsewhere db \<and> prefix (audit_logs db) (audit_logs db')
    \<and> parameter_assignments db' = filter (\<lambda>g. ag_parameter_type_id g \<noteq> i) (parameter_assignments db))"
proof -
  have "i \<in> parameter_ids db \<and> parameter_ids db' = parameter_ids db - {i}
    \<and> elsewhere db' = elsewhere db \<and> prefix (audit_logs db) (audit_logs db')
    \<and> parameter_assignments db' = filter (\<lambda>g. ag_parameter_type_id g \<noteq> i) (parameter_assignments db)"
    if run: "delete_parameter_in_transaction env ctx i db = Inr (u, db')" for u
  proof -
    obtain t x db1 es where t: "fetch_asset_parameter i db = Some t"
        and d: "delete_asset_parameter_from_database (pt_parameter_type_id t) db = Inr (x, db1)"
        and db': "db' = db1\<lparr>audit_logs := audit_logs db1 @ es\<rparr>"
      using run unfolding delete_parameter_in_transaction_def Let_def tx_unfold unexpected_def ok_or_Inr_iff
        fetch_asset_parameter_for_update_def by metis
    have i: "pt_parameter_type_id t = i" "i \<in> parameter_ids db"
      using fetch_optional_Some [OF t [unfolded fetch_asset_parameter_def]] by (auto simp: parameter_ids_def)
    then have "db1 = db\<lparr>
       asset_parameter_types := filter (\<lambda>r. pt_parameter_type_id r \<noteq> i) (asset_parameter_types db),
       parameter_options := filter (\<lambda>r. po_parameter_type_id r \<noteq> i) (parameter_options db),
       parameter_assignments := filter (\<lambda>r. ag_parameter_type_id r \<noteq> i) (parameter_assignments db),
       parameter_values := filter (\<lambda>r. pv_parameter_type_id r \<noteq> i) (parameter_values db)\<rparr>"
      using d by (simp add: delete_asset_parameter_from_database_def tx_unfold)
    then show ?thesis
      using i(2) by (auto simp: db' elsewhere_def beside_def parameter_ids_def)
  qed
  then show ?thesis
    using run_handler_outcome [OF assms [unfolded delete_asset_parameter_def]] by auto
qed

lemma step_keeps_rest:
  assumes "parameter_step db db'"
  shows "grown_from db db' \<or> (\<exists>env ctx i. delete_asset_parameter env ctx i db = (Inr (), db'))"
  using assms
proof (rule parameter_stepE)
  fix env ctx payload r
  assume "create_asset_parameter env ctx payload db = (r, db')"
  then show ?thesis
    unfolding create_asset_parameter_def using grown_from_refl
    by (intro disjI1) (rule keeps_run_handler [OF _ handlers_grow(1)])
next
  fix env ctx i change r
  assume "update_asset_parameter env ctx i change db = (r, db')"
  then show ?thesis
    unfolding update_asset_parameter_def using grown_from_refl
    by (intro disjI1) (rule keeps_run_handler [OF _ handlers_grow(2)])
next
  fix env ctx i r
  assume "delete_asset_parameter env ctx i db = (r, db')"
  then show ?thesis
    using deletion_takes [of env ctx i db r db'] grown_from_refl by auto
qed

text \<open>Over a run: the assignments that are gone are those of parameters some request of the run deleted.\<close>

definition deleted_between :: "database \<Rightarrow> database \<Rightarrow> uuid set" where
  "deleted_between db db' = {p. \<exists>env ctx d d'. parameter_step\<^sup>*\<^sup>* db d \<and> p \<in> parameter_ids d
     \<and> delete_asset_parameter env ctx p d = (Inr (), d') \<and> parameter_step\<^sup>*\<^sup>* d' db'}"

definition only_parameters_change :: "database \<Rightarrow> database \<Rightarrow> bool" where
  "only_parameters_change db db' \<longleftrightarrow> elsewhere db' = elsewhere db \<and> prefix (audit_logs db) (audit_logs db')
     \<and> (\<exists>gone. parameter_assignments db' = filter (\<lambda>g. ag_parameter_type_id g \<notin> gone) (parameter_assignments db)
          \<and> gone \<subseteq> deleted_between db db' \<and> parameter_ids db - parameter_ids db' \<subseteq> gone)"

lemma deleted_later:
  assumes "parameter_step d d'"
  shows "deleted_between db d \<subseteq> deleted_between db d'"
  using assms unfolding deleted_between_def by (blast intro: rtranclp.rtrancl_into_rtrancl)

lemma runs_change_only_parameters:
  assumes "parameter_step\<^sup>*\<^sup>* db db'"
  shows "only_parameters_change db db'"
  using assms
proof (induction rule: rtranclp_induct)
  case base
  show ?case
    by (auto simp: only_parameters_change_def intro!: exI [of _ "{}"])
next
  case (step d d')
  obtain gone where g: "parameter_assignments d = filter (\<lambda>g. ag_parameter_type_id g \<notin> gone) (parameter_assignments db)"
      "gone \<subseteq> deleted_between db d" "parameter_ids db - parameter_ids d \<subseteq> gone"
    using step.IH by (auto simp: only_parameters_change_def)
  note later = deleted_later [OF step.hyps(2), of db]
  from step_keeps_rest [OF step.hyps(2)] show ?case
  proof (elim disjE exE)
    assume grown: "grown_from d d'"
    then have "parameter_assignments (beside d') = parameter_assignments (beside d)"
      by (simp add: grown_from_def)
    then have "parameter_assignments d' = parameter_assignments d"
      by (simp add: beside_def)
    then show ?thesis
      using step.IH g later grown unfolding only_parameters_change_def grown_from_def elsewhere_def
      by (auto intro!: exI [of _ gone] intro: prefix_order.trans)
  next
    fix env ctx i
    assume del: "delete_asset_parameter env ctx i d = (Inr (), d')"
    show ?thesis
    proof (cases "d' = d")
      case True
      then show ?thesis
        using step.IH by simp
    next
      case False
      with deletion_takes [OF del] have t: "i \<in> parameter_ids d" "parameter_ids d' = parameter_ids d - {i}"
          "elsewhere d' = elsewhere d" "prefix (audit_logs d) (audit_logs d')"
          "parameter_assignments d' = filter (\<lambda>g. ag_parameter_type_id g \<noteq> i) (parameter_assignments d)"
        by auto
      have "i \<in> deleted_between db d'"
        using step.hyps(1) t(1) del by (auto simp: deleted_between_def)
      moreover have "parameter_assignments d' = filter (\<lambda>g. ag_parameter_type_id g \<notin> insert i gone) (parameter_assignments db)"
        by (auto simp: t(5) g(1) intro: filter_cong)
      ultimately show ?thesis
        using step.IH g(2,3) later t unfolding only_parameters_change_def
        by (intro conjI exI [of _ "insert i gone"]) (auto intro: prefix_order.trans)
    qed
  qed
qed

lemma step_keeps_parameters_ok:
  assumes ok: "parameters_ok db" and "parameter_step db db'"
  shows "parameters_ok db'"
  using assms(2)
proof (rule parameter_stepE)
  fix env ctx payload r
  assume run: "create_asset_parameter env ctx payload db = (r, db')"
  from run_handler_outcome [OF run [unfolded create_asset_parameter_def]] show ?thesis
    using ok run create_keeps_parameters_ok [of env ctx payload db "fst (projr r)" "snd (projr r)" db'] by auto
next
  fix env ctx i change r
  assume run: "update_asset_parameter env ctx i change db = (r, db')"
  from run_handler_outcome [OF run [unfolded update_asset_parameter_def]] show ?thesis
    using ok run update_keeps_parameters_ok [of env ctx i change db "fst (projr r)" "snd (projr r)" db'] by auto
next
  fix env ctx i r
  assume run: "delete_asset_parameter env ctx i db = (r, db')"
  from run_handler_outcome [OF run [unfolded delete_asset_parameter_def]] show ?thesis
    using ok run delete_keeps_parameters_ok [of env ctx i db db'] by auto
qed

interpretation parameter_runs: invariant_system parameter_step parameters_ok
    "\<lambda>s t. elsewhere t = elsewhere s \<and> prefix (audit_logs s) (audit_logs t)"
  by unfold_locales (use runs_change_only_parameters in \<open>auto intro: step_keeps_parameters_ok prefix_order.trans
      simp: only_parameters_change_def\<close>)

section \<open>The options an update asks for\<close>

definition options_of :: "uuid \<Rightarrow> database \<Rightarrow> option_row list" where
  "options_of i db = filter (\<lambda>q. po_parameter_type_id q = i) (parameter_options db)"

lemma update_option_count [simp]:
  "length (filter (\<lambda>q. po_parameter_type_id q = i) (update_rows p (change_option o') rows))
     = length (filter (\<lambda>q. po_parameter_type_id q = i) rows)"
  by (induction rows) (simp_all add: update_rows_def)

lemma write_options_count:
  assumes "write_options env n i existing qs db = Inr (m, db')"
  shows "length (options_of i db') = length (options_of i db) + length (filter (\<lambda>q. matched_option existing q = None) qs)"
  using assms
proof (induction qs arbitrary: n db)
  case Nil
  then show ?case
    by (simp add: tx_unfold)
next
  case (Cons q qs)
  show ?case
  proof (cases "matched_option existing q")
    case None
    with Cons.prems obtain db1 where "insert_asset_parameter_option (env_new_v4 env n) i q db = Inr ((), db1)"
        and rest: "write_options env (Suc n) i existing qs db1 = Inr (m, db')"
      by (auto simp: tx_unfold)
    then have "length (options_of i db1) = Suc (length (options_of i db))"
      by (auto simp: insert_asset_parameter_option_def tx_unfold insert_option_row_Inr options_of_def)
    with Cons.IH [OF rest] None show ?thesis
      by simp
  next
    case (Some k)
    with Cons.prems obtain x db1 where "update_asset_parameter_option k q db = Inr (x, db1)"
        and rest: "write_options env n i existing qs db1 = Inr (m, db')"
      by (auto simp: tx_unfold)
    then have "length (options_of i db1) = length (options_of i db)"
      by (auto simp: options_of_def dest!: update_asset_parameter_option_Inr)
    with Cons.IH [OF rest] Some show ?thesis
      by simp
  qed
qed

lemma matched_count:
  "length qs = length (List.map_filter f qs) + length (filter (\<lambda>q. f q = None) qs)"
  by (induction qs) (auto simp: List.map_filter_def)

text \<open>An update keeps the stored options it matches, once each, and adds one for each it does not match.\<close>

lemma replace_options_count:
  assumes run: "replace_options env i existing qs db = Inr ((rows, n), db')"
    and existing: "\<And>q. q \<in> set existing \<Longrightarrow> q \<in> set (parameter_options db) \<and> po_parameter_type_id q = i"
    and keys: "distinct (map po_option_id (parameter_options db))"
  shows "length rows = card (set (List.map_filter (matched_option existing) qs))
           + length (filter (\<lambda>q. matched_option existing q = None) qs)"
proof -
  let ?kept = "List.map_filter (matched_option existing) qs"
  from run obtain x db1 where known: "\<forall>q\<in>set qs. case oi_option_id q of None \<Rightarrow> True | Some i \<Rightarrow> i \<in> po_option_id ` set existing"
      and d: "drop_options i ?kept db = Inr (x, db1)"
      and w: "write_options env 0 i existing qs db1 = Inr (n, db')"
      and rows: "rows = fetch_asset_parameter_options_for_update env i db'"
    by (auto simp: replace_options_def delete_removed_asset_parameter_options_def tx_unfold require_option_def ensure_Inr_iff)
  have "length rows = length (options_of i db')"
    by (simp add: rows options_of_def fetch_asset_parameter_options_for_update_def fetch_asset_parameter_options_def)
  moreover have "length (options_of i db1) = card (set ?kept)"
  proof -
    have o1: "options_of i db1 = filter (\<lambda>q. po_parameter_type_id q = i \<and> po_option_id q \<in> set ?kept) (parameter_options db)"
      by (auto simp: options_of_def drop_options_Inr [OF d] intro: filter_cong)
    have "po_option_id ` set (options_of i db1) = set ?kept"
    proof
      show "set ?kept \<subseteq> po_option_id ` set (options_of i db1)"
      proof
        fix k
        assume k: "k \<in> set ?kept"
        then obtain q where "q \<in> set qs" "matched_option existing q = Some k"
          by (auto simp: List.map_filter_def)
        with matched_known known have "k \<in> po_option_id ` set existing"
          by blast
        with existing k show "k \<in> po_option_id ` set (options_of i db1)"
          by (auto simp: o1)
      qed
    qed (auto simp: o1)
    moreover have "distinct (map po_option_id (options_of i db1))"
      using keys by (simp add: o1 distinct_map_filter)
    ultimately show ?thesis
      by (metis distinct_card length_map list.set_map)
  qed
  ultimately show ?thesis
    using write_options_count [OF w] by simp
qed

end
