(* ===== verification/Parameter_Properties.thy ===== *)
theory Parameter_Properties
  imports Parameter_Runs Witness_Data
begin

text \<open>Units, asset parameters, their options and the stored values: the properties.\<close>

section \<open>A laboratory with parameters\<close>

definition kilogram :: unit_row where
  "kilogram = \<lparr>un_unit_id = 5, un_laboratory_id = lab_1, un_code = lit ''kg'', un_name = lit ''kilogram'',
     un_symbol = lit ''kg'', un_dimension = lit ''mass'', un_scale_to_base = Fin 1000,
     un_allow_decimal = True, un_created_at = 1\<rparr>"

definition weight :: parameter_type_row where
  "weight = (plain_parameter 50 (lit ''weight'') (lit ''number''))
     \<lparr>pt_unit_dimension := Some (lit ''mass''), pt_default_unit_id := Some 5\<rparr>"

definition hazard :: parameter_type_row where
  "hazard = plain_parameter 51 (lit ''hazard'') (lit ''enum'')"

definition option_1 :: "uuid \<Rightarrow> rstr \<Rightarrow> option_row" where
  "option_1 i code = \<lparr>po_option_id = i, po_parameter_type_id = 51, po_code = code, po_label = code, po_sort_order = 0\<rparr>"

definition value_1 :: "uuid \<Rightarrow> uuid \<Rightarrow> parameter_type_row \<Rightarrow> value_columns \<Rightarrow> value_row" where
  "value_1 i asset t c = \<lparr>pv_value_id = i, pv_laboratory_id = lab_1, pv_asset_id = asset,
     pv_parameter_type_id = pt_parameter_type_id t, pv_data_type = pt_data_type t, pv_columns = c,
     pv_created_at = 1, pv_updated_at = 1\<rparr>"

definition db_7 :: database where
  "db_7 = db_1\<lparr>unit_dimensions := [lit ''mass''], units := [kilogram],
     asset_parameter_types := [weight, hazard],
     parameter_options := [option_1 60 (lit ''a''), option_1 61 (lit ''b'')],
     parameter_values := [
       value_1 70 20 weight (no_columns\<lparr>vc_number := Some (Fin 2), vc_number_in_base := Some (Fin 2000),
         vc_unit_id := Some 5\<rparr>),
       value_1 71 21 hazard (no_columns\<lparr>vc_option_id := Some 61\<rparr>)]\<rparr>"

lemmas parameter_data = db_7_def kilogram_def weight_def hazard_def plain_parameter_def option_1_def value_1_def
  no_columns_def witness_data

lemma db_7_checks:
  "table_ok pt_parameter_type_id parameter_checks same_parameter_code (asset_parameter_types db_7)"
  "table_ok po_option_id option_checks same_option_code (parameter_options db_7)"
  "table_ok pv_value_id value_row_checks same_value_slot (parameter_values db_7)"
  by (simp_all add: parameter_data table_ok_def parameter_checks_def option_checks_def value_row_checks_def
      value_checks_def DataType_parse_def same_parameter_code_def same_option_code_def same_value_slot_def
      code_check_def is_ascii_lowercase_def is_code_char_def numeric_type_def trim_def is_whitespace_def lit_def)

lemma db_7_ok: "parameters_ok db_7"
  unfolding parameters_ok_def parameter_tables_ok_def
  by (simp add: db_7_checks options_refer_def values_refer_def deferred_ok_def enum_options_ok_def has_option_def)
     (simp add: parameter_data lit_def)

lemma env_1_uuid_text: "uuid_text env_1"
  by (simp add: uuid_text_def env_1_def)

definition no_change :: parameter_change_payload where
  "no_change = \<lparr>cq_code = None, cq_name = None, cq_data_type = None, cq_unit_dimension = None,
     cq_default_unit_id = None, cq_description = None, cq_options = None, cq_value_migrations = None\<rparr>"

definition to_text :: parameter_change_payload where
  "to_text = no_change\<lparr>cq_data_type := Some (lit ''text''), cq_unit_dimension := Some None,
     cq_default_unit_id := Some None,
     cq_value_migrations := Some [(70, JString (lit ''two kilos''))]\<rparr>"

definition renamed :: parameter_change_payload where
  "renamed = no_change\<lparr>cq_options := Some [
     \<lparr>op_option_id = Some 60, op_code = lit ''c'', op_label = lit ''C'', op_sort_order = None\<rparr>,
     \<lparr>op_option_id = Some 61, op_code = lit ''b'', op_label = lit ''B'', op_sort_order = None\<rparr>,
     \<lparr>op_option_id = None, op_code = lit ''a'', op_label = lit ''A'', op_sort_order = None\<rparr>]\<rparr>"

section \<open>Runs\<close>

text \<open>
  C26. Over any run of creations, changes and deletions of parameters by anybody, accepted or
  refused: keys and unique indexes of parameters, options and values hold, every row passes its
  checks, every option belongs to a parameter, every value to an asset and to a parameter of its
  own data type, an enumeration value to an option of its parameter, and exactly the enumerations
  have options. Of the assignments of parameters to categories, exactly those of a set of
  parameters are gone, each of which a deletion in the run accepted, and among them all that are
  missing at the end; the others are as they were. The audit log only grows, and no other table
  changes.
\<close>

theorem parameter_runs_stay_consistent:
  assumes "parameters_ok db" and "parameter_step\<^sup>*\<^sup>* db db'"
  shows "parameters_ok db' \<and> elsewhere db' = elsewhere db \<and> prefix (audit_logs db) (audit_logs db')
    \<and> (\<exists>gone. parameter_assignments db' = filter (\<lambda>g. ag_parameter_type_id g \<notin> gone) (parameter_assignments db)
         \<and> gone \<subseteq> deleted_between db db' \<and> parameter_ids db - parameter_ids db' \<subseteq> gone)"
  using parameter_runs.run [OF assms(2,1)] runs_change_only_parameters [OF assms(2)]
  unfolding only_parameters_change_def by blast

theorem parameter_runs_stay_consistent_witness:
  "parameters_ok (snd (update_asset_parameter env_1 admin_ctx 50 to_text db_7))"
proof -
  have "parameter_step db_7 (snd (update_asset_parameter env_1 admin_ctx 50 to_text db_7))"
    by (rule parameter_step.changed) (rule prod.collapse [symmetric])
  then show ?thesis
    using parameter_runs_stay_consistent [OF db_7_ok r_into_rtranclp] by blast
qed

section \<open>Changing the data type\<close>

text \<open>
  C27. Changing the data type of a parameter migrates every stored value: the request names each
  of its values exactly once; the values it gives no target for are gone, each of the others is
  where it was, has the new type and says what its target asks for, read through the definition as
  changed, in the unit of the target or the default one; the values of other parameters are as
  they were.
\<close>

theorem type_change_migrates_every_value:
  assumes "parameters_ok db" and "uuid_text env"
    and "update_asset_parameter env ctx i payload db = (Inr (updated, options), db')"
    and "UpdateAssetParameter_try_from env payload = Inr change" and "fetch_asset_parameter i db = Some t"
    and "pt_data_type updated \<noteq> pt_data_type t"
  shows "\<exists>dt ms. coalesce (ch_value_migrations change) [] = ms \<and> pt_data_type updated = DataType_as_str dt
    \<and> distinct (map fst ms)
    \<and> set (map fst ms) = pv_value_id ` {w \<in> set (parameter_values db). pv_parameter_type_id w = i}
    \<and> pv_value_id ` {r \<in> set (parameter_values db'). pv_parameter_type_id r = i} = {k. \<exists>target. (k, Some target) \<in> set ms}
    \<and> (\<forall>r\<in>set (parameter_values db'). pv_parameter_type_id r = i \<longrightarrow>
         pv_data_type r = DataType_as_str dt \<and> (\<exists>w\<in>set (parameter_values db). same_place r w)
         \<and> (\<exists>target. (pv_value_id r, Some target) \<in> set ms
              \<and> says env (definition_of updated) dt (parameter_options db') target (pv_columns r)))
    \<and> filter (\<lambda>r. pv_parameter_type_id r \<noteq> i) (parameter_values db')
        = filter (\<lambda>r. pv_parameter_type_id r \<noteq> i) (parameter_values db)"
proof -
  define ms where "ms = coalesce (ch_value_migrations change) []"
  define stored where "stored = {w \<in> set (parameter_values db). pv_parameter_type_id w = i}"
  obtain dt where dt: "pt_data_type updated = DataType_as_str dt"
      and ms: "distinct (map fst ms)" "set (map fst ms) = pv_value_id ` stored"
      and m: "migrated env (definition_of updated) dt (hash_map (map (\<lambda>m. (fst m, m)) ms)) (pv_value_id ` stored)
         (parameter_values db) (parameter_options db') (parameter_values db')"
    by (rule update_migrated [OF assms, folded ms_def stored_def])
  have "distinct (map pv_value_id (parameter_values db))"
    using assms(1) by (simp add: parameters_ok_def parameter_tables_ok_def table_ok_def)
  note all = migrated_by_list [OF m ms stored_def this]
  note parts = all [THEN conjunct1] all [THEN conjunct2, THEN conjunct1] all [THEN conjunct2, THEN conjunct2]
  show ?thesis
    unfolding ms_def [symmetric]
    by (rule exI [of _ dt], rule exI [of _ ms])
       (intro conjI refl dt ms(1) ms(2) [unfolded stored_def] parts)
qed

theorem type_change_migrates_every_value_witness:
  "case update_asset_parameter env_1 admin_ctx 50 to_text db_7 of
     (Inr (updated, _), db') \<Rightarrow>
       pv_value_id ` {r \<in> set (parameter_values db'). pv_parameter_type_id r = 50} = {70}
     | _ \<Rightarrow> False"
proof -
  have "case update_asset_parameter env_1 admin_ctx 50 to_text db_7 of
     (Inr (updated, _), db') \<Rightarrow> pt_data_type updated = lit ''text'' | _ \<Rightarrow> False"
    by code_simp
  then obtain updated options db' where run: "update_asset_parameter env_1 admin_ctx 50 to_text db_7 = (Inr (updated, options), db')"
      and type: "pt_data_type updated = lit ''text''"
    by (auto split: prod.splits sum.splits)
  obtain change where change: "UpdateAssetParameter_try_from env_1 to_text = Inr change"
      "ch_value_migrations change = Some [(70, Some (JString (lit ''two kilos'')))]"
    by (auto simp: UpdateAssetParameter_try_from_def to_text_def no_change_def DataType_parse_def ValueMigration_from_def
        and_then_Inr_iff trim_def is_whitespace_def lit_def)
  have t: "fetch_asset_parameter 50 db_7 = Some weight"
    by (simp add: fetch_asset_parameter_def fetch_optional_def parameter_data)
  have "pt_data_type updated \<noteq> pt_data_type weight"
    by (simp add: type weight_def plain_parameter_def lit_def)
  from type_change_migrates_every_value [OF db_7_ok env_1_uuid_text run change(1) t this]
  have "pv_value_id ` {r \<in> set (parameter_values db'). pv_parameter_type_id r = 50} = {70}"
    by (auto simp: change(2) coalesce_def)
  then show ?thesis
    by (simp add: run)
qed

section \<open>Changing the options\<close>

text \<open>
  C28. What becomes of the options an update of an enumeration sends: it answers with one option
  for each stored option that some of them matches, by its id or by its old code, and one for each
  that matches none. So all of them are kept exactly when no two match the same stored option; an
  option that takes over the code another one is renamed from is lost in it, although the codes
  sent are distinct.
\<close>

theorem update_keeps_matched_options:
  assumes "parameters_ok db" and "update_asset_parameter env ctx i payload db = (Inr (updated, options), db')"
    and "UpdateAssetParameter_try_from env payload = Inr change" and "ch_options change = Some qs"
    and "fetch_asset_parameter i db = Some t" and "pt_data_type t = lit ''enum''" and "pt_data_type updated = lit ''enum''"
  shows "\<exists>matched. matched = List.map_filter (matched_option (fetch_asset_parameter_options_for_update env i db)) qs
    \<and> length options = card (set matched) + (length qs - length matched)
    \<and> (length options = length qs \<longleftrightarrow> distinct matched)"
proof -
  let ?existing = "fetch_asset_parameter_options_for_update env i db"
  from assms(2) obtain change' t' old dt dm vals db1 db2 es u description code name
    where c: "UpdateAssetParameter_try_from env payload = Inr change'"
    and t': "fetch_asset_parameter i db = Some t'" and old: "DataType_parse (pt_data_type t') = Inr old"
    and db1: "db1 = db\<lparr>asset_parameter_types := update_rows (\<lambda>r. pt_parameter_type_id r = i)
          (set_parameter code name dt dm u description (env_now env)) (asset_parameter_types db)\<rparr>"
    and updated: "updated = set_parameter code name dt dm u description (env_now env) t'"
    and w: "write_options_and_values env updated dt (dt \<noteq> old) dm u ?existing change' vals db1 = Inr (options, db2)"
    by (rule update_asset_parameter_Inr) (assumption | rule that)+
  have same: "change' = change" "t' = t"
    using c assms(3,5) t' by auto
  have "dt = Enum"
    using assms(7) by (simp add: updated set_parameter_def)
  moreover have "old = Enum"
    using old assms(6) data_type_name.parse_as_str [of Enum] by (simp add: same)
  moreover have i: "pt_parameter_type_id updated = i"
    using fetch_parameter_Some [OF t'] by (simp add: updated)
  ultimately obtain n where r: "replace_options env i ?existing qs db1 = Inr ((options, n), db2)"
    using w assms(4) by (auto simp: write_options_and_values_def Let_def apply_option_updates_def same tx_unfold)
  have "table_ok po_option_id option_checks same_option_code (parameter_options db)"
    using assms(1) by (simp add: parameters_ok_def parameter_tables_ok_def)
  then have "length options = card (set (List.map_filter (matched_option ?existing) qs))
      + length (filter (\<lambda>q. matched_option ?existing q = None) qs)"
    by (intro replace_options_count [OF r]) (auto simp: fetch_options_set db1 table_ok_def)
  moreover note matched_count [of qs "matched_option ?existing"]
  ultimately show ?thesis
    by (auto simp: distinct_card intro!: card_distinct)
qed

theorem update_keeps_matched_options_witness:
  "case update_asset_parameter env_1 admin_ctx 51 renamed db_7 of
     (Inr (_, options), _) \<Rightarrow> length options = 2 | _ \<Rightarrow> False"
proof -
  have "case update_asset_parameter env_1 admin_ctx 51 renamed db_7 of
     (Inr (updated, _), db') \<Rightarrow> pt_data_type updated = lit ''enum'' | _ \<Rightarrow> False"
    by code_simp
  then obtain updated options db' where run: "update_asset_parameter env_1 admin_ctx 51 renamed db_7 = (Inr (updated, options), db')"
      and type: "pt_data_type updated = lit ''enum''"
    by (auto split: prod.splits sum.splits)
  obtain change where change: "UpdateAssetParameter_try_from env_1 renamed = Inr change"
      "ch_options change = Some [\<lparr>oi_option_id = Some 60, oi_code = lit ''c'', oi_label = lit ''C'', oi_sort_order = 0\<rparr>,
        \<lparr>oi_option_id = Some 61, oi_code = lit ''b'', oi_label = lit ''B'', oi_sort_order = 0\<rparr>,
        \<lparr>oi_option_id = None, oi_code = lit ''a'', oi_label = lit ''A'', oi_sort_order = 0\<rparr>]"
    by (auto simp: UpdateAssetParameter_try_from_def renamed_def no_change_def AssetParameterOption_try_from_def
        AssetParameterCode_parse_def parse_identifier_def AssetParameterOptionLabel_parse_def parse_name_def
        env_1_def coalesce_def is_ascii_lowercase_def is_code_char_def str_len_def utf8_len_def
        and_then_Inr_iff trim_def is_whitespace_def lit_def)
  have t: "fetch_asset_parameter 51 db_7 = Some hazard"
    by (simp add: fetch_asset_parameter_def fetch_optional_def parameter_data)
  have m: "List.map_filter (matched_option (fetch_asset_parameter_options_for_update env_1 51 db_7)) (the (ch_options change)) = [60, 61, 60]"
    unfolding change(2) by code_simp
  have "card {60 :: uuid, 61, 60} = 2"
    by (simp add: card_insert_if)
  with update_keeps_matched_options [OF db_7_ok run change t _ type] m show ?thesis
    by (simp add: run change(2) hazard_def plain_parameter_def)
qed

section \<open>Values in responses\<close>

definition date_text :: "env \<Rightarrow> bool" where
  "date_text env \<longleftrightarrow> (\<forall>d. NaiveDate_parse env (NaiveDate_to_string env d) = Some d)"

fun finite_value :: "parameter_input \<Rightarrow> bool" where
  "finite_value (NumberValue n _) = is_finite n"
| "finite_value (RangeValue s e _) = (is_finite s \<and> is_finite e)"
| "finite_value _ = True"

lemma map_sum_Inr_iff: "map_sum f g r = Inr y \<longleftrightarrow> (\<exists>x. r = Inr x \<and> y = g x)"
  by (cases r) auto

lemma env_1_date_text: "date_text env_1"
proof -
  have "hd (replicate n (48 :: nat) @ [48]) = 48" for n
    by (cases n) simp_all
  then show ?thesis
    by (simp add: date_text_def env_1_def)
qed

text \<open>
  C29. A stored value is shown as JSON that the program reads back as the same value, when it has
  the columns of its type and its numbers are finite, but for numbers and ranges without a unit:
  these are shown with the unit \<^verbatim>\<open>null\<close>, which is refused as not being a UUID. The JSON is a
  parsed value: the decimal text of its numbers is left to the library.
\<close>

theorem shown_value_is_read_back:
  assumes "uuid_text env" and "date_text env"
    and "columns_present dt c" and "read_columns dt c = Some v" and "finite_value v"
  shows "AssetParameterValue_parse env dt (parameter_value_json env (DataType_as_str dt) c code label)
    = (if (dt = Number \<or> dt = Range) \<and> vc_unit_id c = None then Inl (lit ''unit_id must be a uuid string'') else Inr v)"
proof -
  have neq: "lit ''number_in_base'' \<noteq> lit ''number''" "lit ''range_start'' \<noteq> lit ''range_end''"
    by (simp_all add: lit_def)
  have fin: "is_finite n \<longleftrightarrow> (\<exists>q. n = Fin q)" for n
    by (cases n) simp_all
  show ?thesis
    using assms
    by (cases dt)
       (auto simp: parameter_value_json_def json_opt_def json_uuid_def uuid_text_def date_text_def fin
          parse_text_def parse_number_def parse_range_def parse_boolean_def parse_date_def parse_option_def
          parse_unit_id_def parse_uuid_field_def get_as_def lit_def f64_less_eq_def Let_def split: option.splits)
qed

theorem shown_value_is_read_back_witness:
  "AssetParameterValue_parse env_1 Number (parameter_value_json env_1 (lit ''number'')
     (no_columns\<lparr>vc_number := Some (Fin 2)\<rparr>) None None) = Inl (lit ''unit_id must be a uuid string'')"
  using shown_value_is_read_back [OF env_1_uuid_text env_1_date_text, of Number "no_columns\<lparr>vc_number := Some (Fin 2)\<rparr>"
      "NumberValue (Fin 2) None" None None]
  by (simp add: no_columns_def del: AssetParameterValue_parse.simps)

section \<open>Changing a unit\<close>

interpretation unit_change: row_update un_unit_id "set_unit change"
  by unfold_locales (simp add: set_unit_def)

text \<open>The columns with the base values recomputed for a unit.\<close>

definition in_base_of :: "unit_row \<Rightarrow> value_columns \<Rightarrow> value_columns" where
  "in_base_of u c = c\<lparr>
     vc_number_in_base := map_option (\<lambda>n. f64_mul n (un_scale_to_base u)) (vc_number c),
     vc_range_start_in_base := map_option (\<lambda>n. f64_mul n (un_scale_to_base u)) (vc_range_start c),
     vc_range_end_in_base := map_option (\<lambda>n. f64_mul n (un_scale_to_base u)) (vc_range_end c)\<rparr>"

lemma same_base:
  "in_base_of w c = in_base_of u c \<longleftrightarrow>
     map_option (\<lambda>n. f64_mul n (un_scale_to_base w)) (vc_number c) = map_option (\<lambda>n. f64_mul n (un_scale_to_base u)) (vc_number c)
     \<and> map_option (\<lambda>n. f64_mul n (un_scale_to_base w)) (vc_range_start c) = map_option (\<lambda>n. f64_mul n (un_scale_to_base u)) (vc_range_start c)
     \<and> map_option (\<lambda>n. f64_mul n (un_scale_to_base w)) (vc_range_end c) = map_option (\<lambda>n. f64_mul n (un_scale_to_base u)) (vc_range_end c)"
  by (cases c) (simp add: in_base_of_def)

text \<open>A number or a range that names its unit is resolved by that unit alone.\<close>

lemma resolve_measured:
  assumes "input = NumberValue n (Some i) \<or> input = RangeValue s e (Some i)" and "fetch_unit i db = Some u"
    and "un_unit_id u = i"
  shows "resolve_columns d input db =
    (case pd_unit_dimension d of
       None \<Rightarrow> Inl (DbValidation (lit ''Parameter value unit is not allowed for this parameter''))
     | Some dimension \<Rightarrow>
         if dimension = un_dimension u
         then Inr (in_base_of u (case input of NumberValue n _ \<Rightarrow> no_columns\<lparr>vc_number := Some n, vc_unit_id := Some i\<rparr>
                | RangeValue s e _ \<Rightarrow> no_columns\<lparr>vc_range_start := Some s, vc_range_end := Some e, vc_unit_id := Some i\<rparr>
                | _ \<Rightarrow> no_columns))
         else Inl (DbValidation (lit ''Parameter value unit dimension does not match parameter definition'')))"
  using assms
  by (auto simp: normalize_unit_value_def fetch_parameter_unit_def fetch_unit_def in_base_of_def no_columns_def
      split: option.splits)

text \<open>
  C30. A change of a unit leaves the values stored in it as they are, numbers and ranges: their
  base values stay those of the unit as it was. The same number or range given again after the
  change is stored with the base values of the changed unit, or refused when the unit no longer
  has the dimension of the parameter; so the stored value agrees with its unit exactly if giving
  it again would store the same columns. Otherwise two values that were given alike differ in
  the columns that make values of different units comparable.
\<close>

theorem unit_change_leaves_base_values:
  assumes "table_ok un_unit_id unit_checks same_unit_code (units db)"
    and "update_unit env ctx i change db = (Inr w, db')" and "fetch_unit i db = Some u"
    and "input = NumberValue n (Some i) \<or> input = RangeValue s e (Some i)"
    and "v \<in> set (parameter_values db)" and "resolve_columns d input db = Inr (pv_columns v)"
  shows "parameter_values db' = parameter_values db
    \<and> un_scale_to_base w = coalesce (uu_scale_to_base change) (un_scale_to_base u)
    \<and> pv_columns v = in_base_of u (pv_columns v)
    \<and> (case resolve_columns d input db' of
         Inr c \<Rightarrow> pd_unit_dimension d = Some (un_dimension w) \<and> c = in_base_of w (pv_columns v)
       | Inl _ \<Rightarrow> pd_unit_dimension d \<noteq> Some (un_dimension w))
    \<and> (base_columns_ok db' (pd_unit_dimension d) (pv_columns v)
         \<longleftrightarrow> resolve_columns d input db' = Inr (pv_columns v))"
proof -
  from assms(2) obtain change' x where c: "UpdateUnit_try_from env change = Inr change'"
      and run: "update_unit_in_transaction ctx i change' db = Inr (w, db')"
    by (auto simp: update_unit_def run_handler_Inr and_then_Inr_iff map_err_Inr_iff)
  have scale: "uu_scale_to_base change' = uu_scale_to_base change"
    using c by (auto simp: UpdateUnit_try_from_def and_then_Inr_iff)
  have i: "u \<in> set (units db)" "un_unit_id u = i"
    using assms(3) by (auto simp: fetch_unit_def dest!: fetch_optional_Some)
  from run assms(3) i obtain rows where wr: "write_row (unit_violation db) un_unit_id (set_unit change') i (units db) = Inr rows"
      and w: "fetch_optional (\<lambda>r. un_unit_id r = i) rows = Some w"
      and db': "parameter_values db' = parameter_values db" "units db' = rows"
    by (auto simp: update_unit_in_transaction_def fetch_unit_for_update_def update_unit_in_database_def tx_unfold
        fetch_unit_def ok_or_Inr_iff map_sum_Inr_iff)
  have rows: "rows = update_rows (\<lambda>r. un_unit_id r = i) (set_unit change') (units db)"
    by (rule write_row_Inr [OF wr])
  have ids: "map un_unit_id rows = map un_unit_id (units db)"
    by (rule write_row_ids [OF wr]) (simp add: set_unit_def)
  have "w = set_unit change' u"
    using w fetch_optional_Some [OF w] assms(3) by (auto simp: rows fetch_unit_def unit_change.read_back)
  then have s: "un_scale_to_base w = coalesce (uu_scale_to_base change) (un_scale_to_base u)"
    by (simp add: set_unit_def scale)
  have only: "y = w" if "y \<in> set rows" "un_unit_id y = i" for y
    using that fetch_optional_Some [OF w] assms(1) ids
    by (auto simp: table_ok_def distinct_map dest: inj_onD) (metis distinct_map inj_onD)
  have new: "fetch_unit i db' = Some w" "un_unit_id w = i"
    using w fetch_optional_Some [OF w] by (simp_all add: fetch_unit_def db')
  note old = resolve_measured [OF assms(4,3) i(2), of d] and again = resolve_measured [OF assms(4) new, of d]
  define c where "c = (case input of NumberValue n _ \<Rightarrow> no_columns\<lparr>vc_number := Some n, vc_unit_id := Some i\<rparr>
      | RangeValue s e _ \<Rightarrow> no_columns\<lparr>vc_range_start := Some s, vc_range_end := Some e, vc_unit_id := Some i\<rparr>
      | _ \<Rightarrow> no_columns)"
  have v: "pv_columns v = in_base_of u c" "vc_unit_id c = Some i"
    using assms(4,6) unfolding old c_def [symmetric] by (auto simp: c_def split: option.splits if_splits)
  have twice: "in_base_of x (in_base_of y c) = in_base_of x c" for x y
    by (simp add: in_base_of_def)
  have agrees: "base_columns_ok db' (pd_unit_dimension d) (in_base_of u c)
      \<longleftrightarrow> pd_unit_dimension d = Some (un_dimension w) \<and> in_base_of w c = in_base_of u c"
  proof -
    have the: "(\<exists>y\<in>set rows. un_unit_id y = i \<and> P y) = P w" for P
      using only new(2) fetch_optional_Some [OF w] by blast
    have "vc_unit_id (in_base_of u c) = Some i"
      by (simp add: in_base_of_def v(2))
    then show ?thesis
      unfolding base_columns_ok_def db' by (simp add: the) (auto simp: in_base_of_def same_base [unfolded in_base_of_def])
  qed
  show ?thesis
    unfolding again c_def [symmetric] v(1) twice agrees
    by (auto simp: db' s split: option.splits)
qed

definition grams :: unit_change where
  "grams = \<lparr>uu_code = None, uu_name = None, uu_symbol = None, uu_dimension = None,
     uu_scale_to_base = Some (Fin 1), uu_allow_decimal = None\<rparr>"

theorem unit_change_leaves_base_values_witness:
  "case update_unit env_1 admin_ctx 5 grams db_7 of
     (Inr _, db') \<Rightarrow> \<not> base_columns_ok db' (Some (lit ''mass'')) (pv_columns (hd (parameter_values db_7))) | _ \<Rightarrow> False"
proof -
  have "case update_unit env_1 admin_ctx 5 grams db_7 of (Inr _, _) \<Rightarrow> True | _ \<Rightarrow> False"
    by code_simp
  then obtain w db' where run: "update_unit env_1 admin_ctx 5 grams db_7 = (Inr w, db')"
    by (auto split: prod.splits sum.splits)
  have exact: "f64_mul (Fin 2) (Fin 1000) = Fin 2000" "f64_mul (Fin 2) (Fin 1) = Fin 2"
    using round_f64_of_int [of 2000] round_f64_of_int [of 2] by simp_all
  have u: "fetch_unit 5 db_7 = Some kilogram"
    by (simp add: fetch_unit_def fetch_optional_def parameter_data)
  define d where "d = \<lparr>pd_parameter_type_id = 50, pd_data_type = lit ''number'', pd_unit_dimension = Some (lit ''mass''),
      pd_default_unit_id = Some 5\<rparr>"
  have v: "hd (parameter_values db_7) \<in> set (parameter_values db_7)"
      "resolve_columns d (NumberValue (Fin 2) (Some 5)) db_7 = Inr (pv_columns (hd (parameter_values db_7)))"
      "vc_number (pv_columns (hd (parameter_values db_7))) = Some (Fin 2)"
      "vc_number_in_base (pv_columns (hd (parameter_values db_7))) = Some (Fin 2000)"
    using exact by (simp_all add: d_def parameter_data normalize_unit_value_def fetch_parameter_unit_def
        fetch_optional_def)
  have t: "table_ok un_unit_id unit_checks same_unit_code (units db_7)"
    by (simp add: parameter_data table_ok_def unit_checks_def same_unit_code_def lit_def)
  have "in_base_of w (pv_columns (hd (parameter_values db_7))) \<noteq> pv_columns (hd (parameter_values db_7))"
    if "un_scale_to_base w = Fin 1"
  proof -
    have "vc_number_in_base (in_base_of w (pv_columns (hd (parameter_values db_7)))) = Some (Fin 2)"
      unfolding in_base_of_def value_columns.simps v(3) that using exact(2) by simp
    then show ?thesis
      using v(4) by (auto simp del: f64_mul.simps)
  qed
  with unit_change_leaves_base_values [OF t run u disjI1 [OF refl] v(1,2)]
  have "\<not> base_columns_ok db' (Some (lit ''mass'')) (pv_columns (hd (parameter_values db_7)))"
    by (auto simp: grams_def coalesce_def d_def split: sum.splits)
  then show ?thesis
    by (simp add: run)
qed

end
