(* ===== verification/Attachment_Storage.thy ===== *)
theory Attachment_Storage
  imports Attachments Checked_Tables
begin

text \<open>
  What ties the rows of uploads, files and attachments to the disk: every file an attachment
  names and every upload that waits for one has its bytes stored under its key, with the size and
  the digest of the row. The operations of both routes keep this, whoever calls them and whether
  they succeed or not.
\<close>

section \<open>Tables\<close>

interpretation upload_table: checked_table up_upload_id upload_checks same_upload_key upload_violation
  by unfold_locales (auto simp: upload_violation_def same_upload_key_def split: if_splits)

interpretation file_table: checked_table fi_file_id file_checks same_file_key file_violation
  by unfold_locales (auto simp: file_violation_def same_file_key_def split: if_splits)

interpretation attachment_table: checked_table at_attachment_id attachment_checks "\<lambda>_ _. False" attachment_violation
  by unfold_locales (auto simp: attachment_violation_def split: if_splits)

section \<open>Objects on disk\<close>

text \<open>Different keys are different paths.\<close>

lemma split_at_inj: "split_at sep s = split_at sep t \<Longrightarrow> s = t"
proof (induction s arbitrary: t)
  case Nil
  then show ?case
    by (cases t) (auto split: if_splits list.splits dest: sym)
next
  case (Cons c s)
  then show ?case
    by (cases t) (auto split: if_splits list.splits dest: sym)
qed

lemma path_for_key_inj: "path_for_key st k = Inr p \<Longrightarrow> path_for_key st l = Inr p \<Longrightarrow> k = l"
  by (auto simp: path_for_key_Inr dest: split_at_inj)

definition object_stored ::
    "(u8 list \<Rightarrow> rstr) \<Rightarrow> local_storage \<Rightarrow> disk \<Rightarrow> rstr \<Rightarrow> i64 \<Rightarrow> rstr \<Rightarrow> bool" where
  "object_stored digest st disk key n sha \<longleftrightarrow>
     (\<exists>p bytes. FileStorageKey_parse key = Inr key \<and> path_for_key st key = Inr p \<and> disk p = Some bytes
        \<and> n = of_nat (length bytes) \<and> FileSha256_parse (digest bytes) = Inr sha)"

lemma object_stored_other:
  assumes "object_stored digest st disk key n sha" and "path_for_key st other = Inr p" and "other \<noteq> key"
  shows "object_stored digest st (disk(p := b)) key n sha"
  using assms path_for_key_inj [of st key _ other] by (fastforce simp: object_stored_def)

lemma FileStorageKey_parse_again: "FileStorageKey_parse s = Inr key \<Longrightarrow> FileStorageKey_parse key = Inr key"
  by (auto simp: FileStorageKey_parse_def Let_def split: if_splits)

lemma storage_delete_cases:
  assumes "storage_delete st key disk = (r, disk')" and "FileStorageKey_parse s = Inr key"
  shows "disk' = disk \<or> (\<exists>p. path_for_key st key = Inr p \<and> disk' = disk(p := None))"
  using assms by (auto simp: storage_delete_def split: sum.splits if_splits)

section \<open>The invariant\<close>

definition storage_ok :: "(u8 list \<Rightarrow> rstr) \<Rightarrow> local_storage \<Rightarrow> database \<times> disk \<Rightarrow> bool" where
  "storage_ok digest st s \<longleftrightarrow>
     (case s of (db, disk) \<Rightarrow>
        table_ok up_upload_id upload_checks same_upload_key (file_uploads db)
        \<and> table_ok fi_file_id file_checks same_file_key (files db)
        \<and> table_ok at_attachment_id attachment_checks (\<lambda>_ _. False) (attachments db)
        \<and> (\<forall>a\<in>set (attachments db). \<exists>f\<in>set (files db). fi_file_id f = at_file_id a \<and> fi_laboratory_id f = at_laboratory_id a)
        \<and> (\<forall>f\<in>set (files db). object_stored digest st disk (fi_storage_key f) (fi_file_size_bytes f) (fi_sha256_hex f))
        \<and> (\<forall>r\<in>set (file_uploads db). up_consumed_at r = None \<longrightarrow>
             object_stored digest st disk (up_storage_key r) (up_file_size_bytes r) (up_sha256_hex r)
             \<and> up_storage_key r \<notin> fi_storage_key ` set (files db)))"

text \<open>An object id is fresh when no stored key is one of its keys.\<close>

definition fresh_object :: "env \<Rightarrow> uuid \<Rightarrow> database \<Rightarrow> bool" where
  "fresh_object env lab db \<longleftrightarrow>
     (\<forall>name key. FileStorageKey_parse (object_key env lab (env_new_v4 env 0) name) = Inr key \<longrightarrow>
        key \<notin> up_storage_key ` set (file_uploads db) \<union> fi_storage_key ` set (files db))"

lemma storage_ok_rest:
  assumes "storage_ok digest st (db, disk)"
    and "file_uploads db' = file_uploads db" and "files db' = files db" and "attachments db' = attachments db"
  shows "storage_ok digest st (db', disk)"
  using assms by (simp add: storage_ok_def)

section \<open>Uploading\<close>

lemma store_upload_cases:
  assumes "store_upload env fs lab name bytes disk = (r, disk')" and "bytes \<noteq> []"
  shows "disk' = disk \<and> (\<exists>e. r = Inl e)
    \<or> (\<exists>file_name key p sha. FileStorageKey_parse (object_key env lab (env_new_v4 env 0) file_name) = Inr key
         \<and> path_for_key (fs_local fs) key = Inr p \<and> disk' = disk(p \<mapsto> bytes)
         \<and> FileSha256_parse (sha256_hex env bytes) = Inr sha
         \<and> (\<forall>stored. r = Inr stored \<longrightarrow> stored = \<lparr>sf_storage_backend = Local, sf_storage_key = key,
              sf_file_size_bytes = of_nat (length bytes), sf_sha256_hex = sha\<rparr>))"
proof (cases "length bytes > fs_max_file_size_bytes fs")
  case True
  with assms show ?thesis
    by (auto simp: store_upload_def)
next
  case False
  then have l: "local_store_upload env (fs_local fs) lab name bytes disk = (r, disk')"
    using assms by (cases "fs_backend fs") (simp add: store_upload_def)
  note d = l [unfolded local_store_upload_def Let_def]
  show ?thesis
  proof (cases "and_then (FileSha256_parse (sha256_hex env bytes)) (\<lambda>sha.
      and_then (FileStorageKey_parse (object_key env lab (env_new_v4 env 0)
        (case file_extension name of None \<Rightarrow> sha | Some extension \<Rightarrow> sha @ lit ''.'' @ extension))) (\<lambda>key.
      and_then (path_for_key (fs_local fs) key) (\<lambda>p. Inr (sha, key, p))))")
    case (Inl e)
    with d show ?thesis
      by auto
  next
    case (Inr x)
    obtain sha key p where x: "x = (sha, key, p)"
      by (cases x)
    from Inr x obtain file_name where k: "FileSha256_parse (sha256_hex env bytes) = Inr sha"
        "FileStorageKey_parse (object_key env lab (env_new_v4 env 0) file_name) = Inr key"
        "path_for_key (fs_local fs) key = Inr p"
      by (auto simp: and_then_Inr_iff)
    show ?thesis
    proof (cases "st_refused (fs_local fs) p")
      case True
      with d Inr x show ?thesis
        by auto
    next
      case False
      then have "disk' = disk(p \<mapsto> bytes)" "\<forall>stored. r = Inr stored \<longrightarrow> stored = \<lparr>sf_storage_backend = Local,
           sf_storage_key = key, sf_file_size_bytes = of_nat (length bytes), sf_sha256_hex = sha\<rparr>"
        using d Inr x by (auto simp: and_then_Inr_iff FileSize_parse_def split: if_splits)
      with k show ?thesis
        by blast
    qed
  qed
qed

lemma insert_file_upload_Inr:
  "insert_file_upload env i lab u name mime stored expires db = Inr (row, db') \<Longrightarrow>
     upload_violation db (file_uploads db) row = None \<and> db' = db\<lparr>file_uploads := file_uploads db @ [row]\<rparr>
     \<and> row = \<lparr>up_upload_id = i, up_laboratory_id = lab,
          up_storage_backend = StorageBackend_as_str (sf_storage_backend stored),
          up_storage_key = sf_storage_key stored, up_original_file_name = name,
          up_mime_type = mime, up_file_size_bytes = sf_file_size_bytes stored,
          up_sha256_hex = sf_sha256_hex stored, up_uploaded_by_user_id = u,
          up_created_at = env_now env, up_expires_at = expires, up_consumed_at = None\<rparr>"
  by (auto simp: insert_file_upload_def Let_def tx_unfold split: option.splits)

lemma read_fields_bytes:
  "read_fields env limit upload payload = Inr (Some m) \<Longrightarrow> upload = None \<or> mu_bytes (the upload) \<noteq> [] \<Longrightarrow> mu_bytes m \<noteq> []"
  by (induction env limit upload payload rule: read_fields.induct) (auto simp: and_then_Inr_iff split: if_splits)

lemma read_single_file_bytes: "read_single_file env limit payload = Inr m \<Longrightarrow> mu_bytes m \<noteq> []"
  by (auto simp: read_single_file_def and_then_Inr_iff ok_or_Inr_iff dest: read_fields_bytes)

text \<open>An upload either leaves both states, or leaves bytes behind under a fresh key, with a row or without one.\<close>

lemma upload_file_cases:
  assumes "upload_file env fs ctx payload db disk = (r, db', disk')"
  obtains (unchanged) "db' = db" "disk' = disk" "\<And>row. r \<noteq> Inr row"
  | (leftover) name key p b where "db' = db" "disk' = disk(p := b)" "\<And>row. r \<noteq> Inr row"
      "FileStorageKey_parse (object_key env (ctx_laboratory_id ctx) (env_new_v4 env 0) name) = Inr key"
      "path_for_key (fs_local fs) key = Inr p"
  | (stored) name key p bytes sha row where "r = Inr row" "disk' = disk(p \<mapsto> bytes)"
      "FileStorageKey_parse (object_key env (ctx_laboratory_id ctx) (env_new_v4 env 0) name) = Inr key"
      "path_for_key (fs_local fs) key = Inr p" "FileSha256_parse (sha256_hex env bytes) = Inr sha"
      "upload_violation db (file_uploads db) row = None" "db' = db\<lparr>file_uploads := file_uploads db @ [row]\<rparr>"
      "up_storage_key row = key" "up_file_size_bytes row = of_nat (length bytes)" "up_sha256_hex row = sha"
      "up_consumed_at row = None" "up_laboratory_id row = ctx_laboratory_id ctx"
      "up_uploaded_by_user_id row = actor_user_id (ctx_actor ctx)"
      "\<exists>m. read_single_file env (fs_max_file_size_bytes fs) payload = Inr m \<and> bytes = mu_bytes m
         \<and> up_original_file_name row = mu_original_file_name m \<and> up_mime_type row = mu_mime_type m"
      "up_upload_id row = env_new_v4 env 1"
      "up_expires_at row = env_clock env + int (fs_upload_token_ttl_minutes fs) * 60000000"
proof -
  note d = assms [unfolded upload_file_def]
  show thesis
  proof (cases "and_then (require_permission env (ctx_actor ctx) FileUpload_resource (Create (ctx_laboratory_id ctx))
             (lit ''You don't have permission to upload files.'') db) (\<lambda>_.
           read_single_file env (fs_max_file_size_bytes fs) payload)")
    case (Inl e)
    then show thesis
      using d by (intro unchanged) auto
  next
    case (Inr m)
    then have m: "read_single_file env (fs_max_file_size_bytes fs) payload = Inr m"
      by (auto simp: and_then_Inr_iff)
    obtain sr disk1 where s: "store_upload env fs (ctx_laboratory_id ctx) (mu_original_file_name m) (mu_bytes m) disk = (sr, disk1)"
      by fastforce
    note c = store_upload_cases [OF s read_single_file_bytes [OF m]]
    show thesis
    proof (cases sr)
      case (Inl e)
      from c show thesis
      proof (elim disjE exE conjE)
        assume "disk1 = disk"
        then show thesis
          using d Inr s Inl by (intro unchanged) auto
      next
        fix name key p sha
        assume "FileStorageKey_parse (object_key env (ctx_laboratory_id ctx) (env_new_v4 env 0) name) = Inr key"
          "path_for_key (fs_local fs) key = Inr p" "disk1 = disk(p \<mapsto> mu_bytes m)"
        then show thesis
          using d Inr s Inl by (intro leftover [of p "Some (mu_bytes m)"]) auto
      qed
    next
      case stored_r: (Inr st)
      from c stored_r obtain name key p sha where k:
          "FileStorageKey_parse (object_key env (ctx_laboratory_id ctx) (env_new_v4 env 0) name) = Inr key"
          "path_for_key (fs_local fs) key = Inr p" "disk1 = disk(p \<mapsto> mu_bytes m)"
          "FileSha256_parse (sha256_hex env (mu_bytes m)) = Inr sha"
          and st: "st = \<lparr>sf_storage_backend = Local, sf_storage_key = key,
              sf_file_size_bytes = of_nat (length (mu_bytes m)), sf_sha256_hex = sha\<rparr>"
        by auto
      obtain ir db1 where i: "transaction (insert_file_upload env (env_new_v4 env 1) (ctx_laboratory_id ctx)
             (actor_user_id (ctx_actor ctx)) (mu_original_file_name m) (mu_mime_type m) st
             (env_clock env + int (fs_upload_token_ttl_minutes fs) * 60000000)) db = (ir, db1)"
        by fastforce
      show thesis
      proof (cases ir)
        case ie: (Inl e)
        then have "db1 = db"
          using i by (simp add: transaction_Inl)
        moreover have "disk' = disk(p := snd (storage_delete (fs_local fs) key disk1) p)"
          using d Inr s stored_r i ie st k(2,3)
          by (auto simp: storage_delete_def split: if_splits)
        ultimately show thesis
          using d Inr s stored_r i ie k by (intro leftover) auto
      next
        case row: (Inr row)
        then have "insert_file_upload env (env_new_v4 env 1) (ctx_laboratory_id ctx)
             (actor_user_id (ctx_actor ctx)) (mu_original_file_name m) (mu_mime_type m) st
             (env_clock env + int (fs_upload_token_ttl_minutes fs) * 60000000) db = Inr (row, db1)"
          using i by (simp add: transaction_Inr)
        note ins = insert_file_upload_Inr [OF this]
        show thesis
          using d Inr s stored_r i row k ins st m by (intro stored [OF _ _ k(1,2,4)]) auto
      qed
    qed
  qed
qed


lemma storage_ok_disk:
  assumes "storage_ok digest st (db, disk)" and "path_for_key st key = Inr p"
    and "key \<notin> fi_storage_key ` set (files db)"
    and "\<And>r. r \<in> set (file_uploads db) \<Longrightarrow> up_consumed_at r = None \<Longrightarrow> up_storage_key r \<noteq> key"
  shows "storage_ok digest st (db, disk(p := b))"
  using assms unfolding storage_ok_def prod.case
  by (auto intro!: object_stored_other [OF _ assms(2)])

lemma storage_ok_new_upload:
  assumes "storage_ok digest st (db, disk)" and "upload_violation db (file_uploads db) row = None"
    and "object_stored digest st disk (up_storage_key row) (up_file_size_bytes row) (up_sha256_hex row)"
    and "up_storage_key row \<notin> fi_storage_key ` set (files db)"
  shows "storage_ok digest st (db\<lparr>file_uploads := file_uploads db @ [row]\<rparr>, disk)"
  using assms upload_table.insert [of "file_uploads db" db row]
  by (auto simp: storage_ok_def)

lemma upload_keeps:
  assumes ok: "storage_ok (sha256_hex env) (fs_local fs) (db, disk)" and fresh: "fresh_object env (ctx_laboratory_id ctx) db"
    and run: "upload_file env fs ctx payload db disk = (r, db', disk')"
  shows "storage_ok (sha256_hex env) (fs_local fs) (db', disk')"
  using run
proof (cases rule: upload_file_cases)
  case unchanged
  with ok show ?thesis by simp
next
  case (leftover name key p b)
  then show ?thesis
    using fresh storage_ok_disk [OF ok leftover(5), of b] by (fastforce simp: fresh_object_def)
next
  case (stored name key p bytes sha row)
  have new: "key \<notin> up_storage_key ` set (file_uploads db) \<union> fi_storage_key ` set (files db)"
    using fresh stored(3) by (auto simp: fresh_object_def)
  then have "storage_ok (sha256_hex env) (fs_local fs) (db, disk(p \<mapsto> bytes))"
    by (intro storage_ok_disk [OF ok stored(4)]) auto
  moreover have "object_stored (sha256_hex env) (fs_local fs) (disk(p \<mapsto> bytes)) key (of_nat (length bytes)) sha"
    using stored(3-5) by (auto simp: object_stored_def FileStorageKey_parse_again)
  ultimately show ?thesis
    unfolding stored(2,7) using new stored(6,8-11) by (intro storage_ok_new_upload) auto
qed

section \<open>Deleting an upload\<close>

lemma delete_upload_keeps:
  assumes ok: "storage_ok digest (fs_local fs) (db, disk)"
    and run: "delete_file_upload env fs ctx i db disk = (r, db', disk')"
  shows "storage_ok digest (fs_local fs) (db', disk')"
proof -
  obtain tr db1 where t: "run_handler
         (require_permission env (authorization_actor ctx) FileUpload_resource (Delete i)
            (lit ''You are not allowed to delete this file upload.'') db)
         (\<lambda>_. delete_file_upload_in_transaction i) db = (tr, db1)"
    by fastforce
  show ?thesis
  proof (cases tr)
    case (Inl e)
    with t run ok show ?thesis
      by (auto simp: delete_file_upload_def then_delete_object_def dest: run_handler_Inl)
  next
    case (Inr key)
    with t obtain r where r: "r \<in> set (file_uploads db)" "up_upload_id r = i" "up_consumed_at r = None"
        "FileStorageKey_parse (up_storage_key r) = Inr key"
        and db1: "db1 = db\<lparr>file_uploads := filter (\<lambda>r. up_upload_id r \<noteq> i) (file_uploads db)\<rparr>"
      by (auto simp: run_handler_Inr delete_file_upload_in_transaction_def delete_file_upload_from_database_def
          fetch_file_upload_for_update_def tx_unfold result_unfold dest!: fetch_optional_Some)
    have same: "key = up_storage_key r"
      using ok r by (auto simp: storage_ok_def object_stored_def)
    have "up_storage_key s \<noteq> key" if "s \<in> set (file_uploads db1)" for s
      using ok r that same by (auto simp: storage_ok_def table_ok_def same_upload_key_def db1)
    moreover have ok1: "storage_ok digest (fs_local fs) (db1, disk)"
      using ok by (auto simp: storage_ok_def db1 intro: upload_table.delete)
    moreover have "key \<notin> fi_storage_key ` set (files db1)"
      using ok r same by (auto simp: storage_ok_def db1)
    moreover have "db' = db1" and "disk' = disk \<or> (\<exists>p. path_for_key (fs_local fs) key = Inr p \<and> disk' = disk(p := None))"
      using run t Inr storage_delete_cases [OF _ r(4), of "fs_local fs" disk]
      by (auto simp: delete_file_upload_def then_delete_object_def split: prod.splits sum.splits)
    ultimately show ?thesis
      using storage_ok_disk by blast
  qed
qed

section \<open>Assigning an upload\<close>

lemma consume_file_upload_Inr:
  "consume_file_upload env i db = Inr (u, db') \<longleftrightarrow>
     (\<exists>r. fetch_optional (\<lambda>r. up_upload_id r = i) (file_uploads db) = Some r \<and> up_consumed_at r = None
        \<and> \<not> up_expires_at r < env_clock env \<and> u = ConsumedFileUpload_from r
        \<and> db' = db\<lparr>file_uploads := update_rows (\<lambda>r. up_upload_id r = i) (consume_upload (env_now env)) (file_uploads db)\<rparr>)"
  unfolding consume_file_upload_def fetch_file_upload_for_update_def mark_file_upload_consumed_def tx_unfold result_unfold
  by (auto dest: fetch_optional_Some)

text \<open>The file and the attachment an upload becomes.\<close>

definition file_of_upload :: "env \<Rightarrow> nat \<Rightarrow> upload_row \<Rightarrow> file_row" where
  "file_of_upload env k r =
     \<lparr>fi_file_id = env_new_v4 env k, fi_laboratory_id = up_laboratory_id r,
      fi_storage_backend = up_storage_backend r, fi_storage_key = up_storage_key r,
      fi_original_file_name = up_original_file_name r, fi_mime_type = up_mime_type r,
      fi_file_size_bytes = up_file_size_bytes r, fi_sha256_hex = up_sha256_hex r,
      fi_uploaded_by_user_id = Some (up_uploaded_by_user_id r), fi_created_at = env_now env\<rparr>"

definition attachment_of_upload ::
    "env \<Rightarrow> nat \<Rightarrow> uuid \<Rightarrow> attachment_target \<Rightarrow> new_attachment \<Rightarrow> upload_row \<Rightarrow> attachment_row" where
  "attachment_of_upload env k u target n r =
     \<lparr>at_attachment_id = env_new_v4 env (Suc k), at_laboratory_id = up_laboratory_id r,
      at_file_id = env_new_v4 env k,
      at_asset_id = (case target of Asset_target i \<Rightarrow> Some i | InventoryItem_target _ \<Rightarrow> None),
      at_inventory_item_id = (case target of Asset_target _ \<Rightarrow> None | InventoryItem_target i \<Rightarrow> Some i),
      at_display_name = coalesce (na_display_name n) (up_original_file_name r), at_description = na_description n,
      at_is_public = na_is_public n, at_assigned_by_user_id = Some u, at_created_at = env_now env,
      at_updated_at = env_now env\<rparr>"

lemma assign_one_Inr:
  assumes "assign_one env k u target expected n db = Inr (v, db')"
  obtains r where "fetch_optional (\<lambda>r. up_upload_id r = na_upload_id n) (file_uploads db) = Some r"
    "up_consumed_at r = None" "\<not> up_expires_at r < env_clock env"
    "\<And>lab. expected = Some lab \<Longrightarrow> up_laboratory_id r = lab"
    "file_violation db (files db) (file_of_upload env k r) = None"
    "attachment_violation (db\<lparr>files := files db @ [file_of_upload env k r]\<rparr>) (attachments db)
       (attachment_of_upload env k u target n r) = None"
    "v = \<lparr>tv_attachment = attachment_of_upload env k u target n r, tv_file = file_of_upload env k r\<rparr>"
    "file_uploads db' = update_rows (\<lambda>r. up_upload_id r = na_upload_id n) (consume_upload (env_now env)) (file_uploads db)"
    "files db' = files db @ [file_of_upload env k r]"
    "attachments db' = attachments db @ [attachment_of_upload env k u target n r]"
proof -
  have f: "file_violation (db\<lparr>file_uploads := x\<rparr>) = file_violation db" for x
    by (intro ext) (simp add: file_violation_def cong: option.case_cong)
  have a: "attachment_violation (db\<lparr>file_uploads := x, files := y\<rparr>) = attachment_violation (db\<lparr>files := y\<rparr>)" for x y
    by (intro ext) (simp add: attachment_violation_def cong: option.case_cong)
  from assms obtain c db1 db2 where c: "consume_file_upload env (na_upload_id n) db = Inr (c, db1)"
      and l: "\<And>lab. expected = Some lab \<Longrightarrow> cu_laboratory_id c = lab"
      and i: "insert_attachment env k u target c (coalesce (na_display_name n) (cu_original_file_name c))
         (na_description n) (na_is_public n) db1 = Inr (v, db2)"
      and e: "\<exists>es. db' = db2\<lparr>audit_logs := es\<rparr>"
    by (fastforce simp: assign_one_def tx_unfold result_unfold)
  from c obtain r where r: "fetch_optional (\<lambda>r. up_upload_id r = na_upload_id n) (file_uploads db) = Some r"
      "up_consumed_at r = None" "\<not> up_expires_at r < env_clock env" "c = ConsumedFileUpload_from r"
      "db1 = db\<lparr>file_uploads := update_rows (\<lambda>r. up_upload_id r = na_upload_id n) (consume_upload (env_now env)) (file_uploads db)\<rparr>"
    by (auto simp: consume_file_upload_Inr)
  note i' = i [unfolded r(4,5) insert_attachment_def ConsumedFileUpload_from_def Let_def consumed_upload.simps
      file_row.simps, folded file_of_upload_def attachment_of_upload_def]
  then have "file_violation db (files db) (file_of_upload env k r) = None"
    "attachment_violation (db\<lparr>files := files db @ [file_of_upload env k r]\<rparr>) (attachments db)
       (attachment_of_upload env k u target n r) = None"
    "v = \<lparr>tv_attachment = attachment_of_upload env k u target n r, tv_file = file_of_upload env k r\<rparr>"
    "db2 = db1\<lparr>files := files db @ [file_of_upload env k r], attachments := attachments db @ [attachment_of_upload env k u target n r]\<rparr>"
    by (auto simp: tx_unfold r(5) f a split: option.splits)
  with r l e show thesis
    by (intro that [OF r(1-3)]) (auto simp: ConsumedFileUpload_from_def)
qed

lemma assign_one_keeps: "keeps (\<lambda>db. storage_ok digest st (db, disk)) (assign_one env k u target expected n)"
  unfolding keeps_def
proof (intro allI impI)
  fix db v db'
  assume ok: "storage_ok digest st (db, disk)" and run: "assign_one env k u target expected n db = Inr (v, db')"
  from run show "storage_ok digest st (db', disk)"
  proof (rule assign_one_Inr)
    fix r
    assume r: "fetch_optional (\<lambda>r. up_upload_id r = na_upload_id n) (file_uploads db) = Some r"
      "up_consumed_at r = None"
      and new: "file_violation db (files db) (file_of_upload env k r) = None"
       "attachment_violation (db\<lparr>files := files db @ [file_of_upload env k r]\<rparr>) (attachments db)
         (attachment_of_upload env k u target n r) = None"
      and db': "file_uploads db' = update_rows (\<lambda>r. up_upload_id r = na_upload_id n) (consume_upload (env_now env)) (file_uploads db)"
       "files db' = files db @ [file_of_upload env k r]"
       "attachments db' = attachments db @ [attachment_of_upload env k u target n r]"
    note mem = fetch_optional_Some [OF r(1)]
    have keys: "map up_upload_id (file_uploads db') = map up_upload_id (file_uploads db)"
      by (simp add: db' consume_upload.keys)
    have "table_ok up_upload_id upload_checks same_upload_key (file_uploads db')"
      using ok unfolding storage_ok_def table_ok_def keys
      by (auto simp: db' set_update_rows consume_upload_def upload_checks_def same_upload_key_def)
    moreover have "table_ok fi_file_id file_checks same_file_key (files db')"
      using ok file_table.insert [OF _ new(1)] by (simp add: storage_ok_def db')
    moreover have "table_ok at_attachment_id attachment_checks (\<lambda>_ _. False) (attachments db')"
      using ok attachment_table.insert [OF _ new(2)] by (simp add: storage_ok_def db')
    moreover have "object_stored digest st disk (up_storage_key r) (up_file_size_bytes r) (up_sha256_hex r)"
      using ok r mem by (auto simp: storage_ok_def)
    moreover have "up_storage_key s \<noteq> up_storage_key r" if "s \<in> set (file_uploads db)" "up_upload_id s \<noteq> na_upload_id n" for s
      using ok that mem by (auto simp: storage_ok_def table_ok_def same_upload_key_def)
    ultimately show "storage_ok digest st (db', disk)"
      using ok unfolding storage_ok_def prod.case
      by (auto simp: db' file_of_upload_def attachment_of_upload_def set_update_rows consume_upload_def)
  qed
qed

end
