(* ===== verification/Attachment_Runs.thy ===== *)
theory Attachment_Runs
  imports Attachment_Storage Inventory_Delete
begin

text \<open>
  Any number of uploads, assignments, changes and deletions, by anybody and each in its own
  surroundings, as a transition system on the database and the disk. The deletions of inventory
  items take part, because they delete attachments and stored files as well.
\<close>

section \<open>Transactions that delete files\<close>

lemma storage_ok_file:
  "storage_ok digest st (db, disk) \<Longrightarrow> a \<in> set (attachments db) \<Longrightarrow>
     \<exists>f\<in>set (files db). fi_file_id f = at_file_id a \<and> fi_laboratory_id f = at_laboratory_id a"
  by (simp add: storage_ok_def)

text \<open>A key is free when no file and no waiting upload is stored under it.\<close>

definition free_key :: "database \<Rightarrow> rstr \<Rightarrow> bool" where
  "free_key db key \<longleftrightarrow>
     FileStorageKey_parse key = Inr key \<and> key \<notin> fi_storage_key ` set (files db)
     \<and> (\<forall>r\<in>set (file_uploads db). up_consumed_at r = None \<longrightarrow> up_storage_key r \<noteq> key)"

lemma delete_free_object:
  assumes "storage_ok digest st (db, disk)" and "free_key db key" and "storage_delete st key disk = (r, disk')"
  shows "storage_ok digest st (db, disk')"
proof -
  have "disk' = disk \<or> (\<exists>p. path_for_key st key = Inr p \<and> disk' = disk(p := None))"
    using assms(2) by (intro storage_delete_cases [OF assms(3), of key]) (simp add: free_key_def)
  then show ?thesis
    using assms(1,2) by (auto simp: free_key_def intro!: storage_ok_disk)
qed

lemma delete_free_objects:
  assumes "storage_ok digest st (db, disk)" and "\<forall>k\<in>set ks. free_key db k" and "delete_storage_objects st ks disk = (r, disk')"
  shows "storage_ok digest st (db, disk')"
  using assms
proof (induction st ks disk rule: delete_storage_objects.induct)
  case (2 st k ks disk)
  then have k: "FileStorageKey_parse k = Inr k" "free_key db k"
    by (auto simp: free_key_def)
  obtain r1 disk1 where d: "storage_delete st k disk = (r1, disk1)"
    by fastforce
  note ok1 = delete_free_object [OF "2.prems"(1) k(2) d]
  show ?case
  proof (cases r1)
    case (Inl e)
    then show ?thesis
      using "2.prems"(3) ok1 k d by auto
  next
    case (Inr u)
    then show ?thesis
      using "2.IH" [OF k(1) d [symmetric] Inr ok1] "2.prems"(2,3) k d by auto
  qed
qed simp

text \<open>
  Some rows go, and with them the keys in a list: what is left is consistent, and the keys are
  free afterwards. Two such steps in a row are one.
\<close>

definition removes :: "(u8 list \<Rightarrow> rstr) \<Rightarrow> local_storage \<Rightarrow> disk \<Rightarrow> database \<Rightarrow> rstr list \<Rightarrow> database \<Rightarrow> bool" where
  "removes digest st disk db ks db' \<longleftrightarrow>
     storage_ok digest st (db', disk) \<and> set (files db') \<subseteq> set (files db) \<and> set (file_uploads db') \<subseteq> set (file_uploads db)
     \<and> (\<forall>k\<in>set ks. free_key db' k)"

lemma free_key_mono:
  "free_key db k \<Longrightarrow> set (files db') \<subseteq> set (files db) \<Longrightarrow> set (file_uploads db') \<subseteq> set (file_uploads db) \<Longrightarrow> free_key db' k"
  by (auto simp: free_key_def)

lemma removes_trans: "removes digest st disk db ks db1 \<Longrightarrow> removes digest st disk db1 ls db2 \<Longrightarrow> removes digest st disk db (ks @ ls) db2"
  by (auto simp: removes_def intro: free_key_mono)

text \<open>Attachments go together with the files they name, unless another attachment names one of these.\<close>

lemma removes_attachments:
  fixes gone :: "attachment_row \<Rightarrow> bool"
  assumes ok: "storage_ok digest st (db, disk)" and named: "named = at_file_id ` {a \<in> set (attachments db). gone a}"
    and free: "\<forall>a\<in>set (attachments db). \<not> gone a \<longrightarrow> at_file_id a \<notin> named"
    and db': "attachments db' = filter (\<lambda>a. \<not> gone a) (attachments db)"
      "files db' = filter (\<lambda>f. fi_file_id f \<notin> named) (files db)" "file_uploads db' = file_uploads db"
    and ks: "set ks \<subseteq> fi_storage_key ` {f \<in> set (files db). fi_file_id f \<in> named}"
  shows "removes digest st disk db ks db'"
proof -
  have "storage_ok digest st (db', disk)"
    unfolding storage_ok_def prod.case db'
  proof (intro conjI ballI impI)
    fix a
    assume "a \<in> set (filter (\<lambda>a. \<not> gone a) (attachments db))"
    then show "\<exists>f\<in>set (filter (\<lambda>f. fi_file_id f \<notin> named) (files db)).
        fi_file_id f = at_file_id a \<and> fi_laboratory_id f = at_laboratory_id a"
      using ok free unfolding storage_ok_def by fastforce
  qed (use ok in \<open>auto simp: storage_ok_def intro: attachment_table.delete file_table.delete\<close>)
  moreover have "free_key db' k" if k: "k \<in> set ks" for k
  proof -
    obtain f where f: "f \<in> set (files db)" "fi_file_id f \<in> named" "k = fi_storage_key f"
      using ks k by auto
    have other: "fi_storage_key g \<noteq> k" if "g \<in> set (files db')" for g
    proof -
      have "g \<in> set (files db)" "fi_file_id g \<noteq> fi_file_id f"
        using that f(2) by (auto simp: db')
      then show ?thesis
        using ok f(1,3) unfolding storage_ok_def table_ok_def same_file_key_def prod.case by metis
    qed
    have "k \<notin> fi_storage_key ` set (files db')"
      using other by blast
    moreover have "FileStorageKey_parse k = Inr k"
      using ok f(1,3) by (auto simp: storage_ok_def object_stored_def)
    moreover have "up_storage_key r \<noteq> k" if "r \<in> set (file_uploads db)" "up_consumed_at r = None" for r
      using ok f(1,3) that by (auto simp: storage_ok_def)
    ultimately show ?thesis
      by (auto simp: free_key_def db')
  qed
  ultimately show ?thesis
    by (simp add: removes_def db')
qed

lemma removes_audit: "removes digest st disk db ks db' \<Longrightarrow> removes digest st disk db ks (db'\<lparr>audit_logs := es\<rparr>)"
  by (simp add: removes_def free_key_def storage_ok_def)

section \<open>Deleting an attachment\<close>

lemma fetch_attachment_Some:
  "fetch_attachment i db = Some v \<Longrightarrow>
     tv_attachment v \<in> set (attachments db) \<and> at_attachment_id (tv_attachment v) = i
     \<and> tv_file v \<in> set (files db) \<and> fi_file_id (tv_file v) = at_file_id (tv_attachment v)"
  by (auto simp: fetch_attachment_def joined_attachments_def dest!: fetch_optional_Some)

lemma delete_attachment_removes:
  assumes ok: "storage_ok digest st (db, disk)" and run: "delete_attachment_in_transaction env ctx i db = Inr (key, db')"
  shows "removes digest st disk db [key] db'"
proof -
  define gone where "gone a \<longleftrightarrow> at_attachment_id a = i" for a :: attachment_row
  from run obtain v u db1 es where v: "fetch_attachment i db = Some v" "FileStorageKey_parse (fi_storage_key (tv_file v)) = Inr key"
      and d: "delete_attachment_from_database i db = Inr (u, db1)" and db': "db' = db1\<lparr>audit_logs := es\<rparr>"
    unfolding delete_attachment_in_transaction_def fetch_attachment_for_update_def tx_unfold result_unfold by metis
  note m = fetch_attachment_Some [OF v(1)]
  from d have free: "\<forall>a\<in>set (attachments db). \<not> gone a \<longrightarrow> at_file_id a \<notin> at_file_id ` {a \<in> set (attachments db). gone a}"
      and db1: "db1 = db\<lparr>attachments := filter (\<lambda>a. \<not> gone a) (attachments db),
         files := filter (\<lambda>f. fi_file_id f \<notin> at_file_id ` {a \<in> set (attachments db). gone a}) (files db)\<rparr>"
    by (auto simp: delete_attachment_from_database_def Let_def tx_unfold gone_def image_def split: if_splits)
  have "key = fi_storage_key (tv_file v)"
    using ok m v(2) by (auto simp: storage_ok_def object_stored_def)
  with m have ks: "set [key] \<subseteq> fi_storage_key ` {f \<in> set (files db). fi_file_id f \<in> at_file_id ` {a \<in> set (attachments db). gone a}}"
    by (auto simp: gone_def)
  have "removes digest st disk db [key] db1"
    by (rule removes_attachments [OF ok refl free]) (use ks in \<open>auto simp: db1\<close>)
  then show ?thesis
    by (simp add: db' removes_audit)
qed

lemma then_delete_object_keeps:
  assumes "storage_ok digest st (db, disk)" and "then_delete_object st (outcome, db1) disk = (r, db', disk')"
    and "\<And>key. outcome = Inr key \<Longrightarrow> removes digest st disk db [key] db1" and "\<And>e. outcome = Inl e \<Longrightarrow> db1 = db"
  shows "storage_ok digest st (db', disk')"
proof (cases outcome)
  case (Inl e)
  with assms show ?thesis
    by (auto simp: then_delete_object_def)
next
  case (Inr key)
  with assms(3) have ok1: "storage_ok digest st (db1, disk)" "free_key db1 key"
    by (auto simp: removes_def)
  obtain dr disk1 where d: "storage_delete st key disk = (dr, disk1)"
    by fastforce
  have "db' = db1" "disk' = disk1"
    using assms(2) Inr d by (auto simp: then_delete_object_def split: sum.splits)
  then show ?thesis
    using delete_free_object [OF ok1 d] by simp
qed

lemma delete_attachment_keeps:
  assumes ok: "storage_ok digest (fs_local fs) (db, disk)" and run: "delete_attachment env fs ctx i db disk = (r, db', disk')"
  shows "storage_ok digest (fs_local fs) (db', disk')"
proof -
  obtain out db1 where t: "transaction (delete_attachment_in_transaction env ctx i) db = (out, db1)"
    by fastforce
  show ?thesis
    by (rule then_delete_object_keeps [OF ok run [unfolded delete_attachment_def t]])
       (use t delete_attachment_removes [OF ok] in \<open>auto simp: transaction_Inr transaction_Inl\<close>)
qed

section \<open>Deleting inventory items\<close>

lemma delete_one_item_removes:
  assumes ok: "storage_ok digest st (db, disk)" and run: "delete_one_item ctx item db = Inr (deleted, db')"
  shows "removes digest st disk db (map snd deleted) db'"
proof -
  define gone where "gone a \<longleftrightarrow> at_inventory_item_id a = Some (it_inventory_item_id item)" for a :: attachment_row
  from run obtain db1 u db2 es where a: "delete_inventory_item_attachments (it_inventory_item_id item) db = Inr (deleted, db1)"
      and d: "delete_inventory_item_from_database (it_inventory_item_id item) db1 = Inr (u, db2)"
      and db': "db' = db2\<lparr>audit_logs := es\<rparr>"
    unfolding delete_one_item_def tx_unfold by metis
  have apart: "\<not> (\<exists>a\<in>set (filter (\<lambda>a. \<not> gone a) (attachments db)). \<exists>f\<in>set (files db).
      fi_file_id f \<in> at_file_id ` set (filter gone (attachments db)) \<and> at_file_id a = fi_file_id f)" (is "\<not> ?clash")
  proof
    assume ?clash
    with a show False
      unfolding delete_inventory_item_attachments_def Let_def gone_def by (simp only: if_True sum.simps Inl_Inr_False)
  qed
  from a have db1: "attachments db1 = filter (\<lambda>a. \<not> gone a) (attachments db)" "file_uploads db1 = file_uploads db"
         "files db1 = filter (\<lambda>f. fi_file_id f \<notin> at_file_id ` {a \<in> set (attachments db). gone a}) (files db)"
    by (auto simp: delete_inventory_item_attachments_def Let_def gone_def image_def split: if_splits)
  from a have ks: "set (map snd deleted) \<subseteq> fi_storage_key ` {f \<in> set (files db). fi_file_id f \<in> at_file_id ` {a \<in> set (attachments db). gone a}}"
    by (auto simp: delete_inventory_item_attachments_def Let_def gone_def split: if_splits)
  have free: "at_file_id a \<notin> at_file_id ` {a \<in> set (attachments db). gone a}"
    if kept: "a \<in> set (attachments db)" "\<not> gone a" for a
  proof
    assume named: "at_file_id a \<in> at_file_id ` {a \<in> set (attachments db). gone a}"
    obtain f where f: "f \<in> set (files db)" "fi_file_id f = at_file_id a"
      using storage_ok_file [OF ok kept(1)] by blast
    with named have "fi_file_id f \<in> at_file_id ` set (filter gone (attachments db))"
      by simp
    moreover have "a \<in> set (filter (\<lambda>a. \<not> gone a) (attachments db))"
      using kept by simp
    ultimately show False
      using apart f(1) f(2) [symmetric] by blast
  qed
  have db2: "attachments db2 = filter (\<lambda>a. \<not> gone a) (attachments db)" "file_uploads db2 = file_uploads db"
         "files db2 = filter (\<lambda>f. fi_file_id f \<notin> at_file_id ` {a \<in> set (attachments db). gone a}) (files db)"
    using d db1 by (auto simp: delete_inventory_item_from_database_def tx_unfold gone_def split: if_splits)
  have "removes digest st disk db (map snd deleted) db2"
    by (rule removes_attachments [OF ok refl _ db2(1,3,2) ks]) (use free in blast)
  then show ?thesis
    by (simp add: db' removes_audit)
qed

lemma delete_items_removes:
  "storage_ok digest st (db, disk) \<Longrightarrow> tx_for_each (delete_one_item ctx) items db = Inr (deleted, db') \<Longrightarrow>
     removes digest st disk db (map snd (concat deleted)) db'"
proof (induction items arbitrary: db deleted)
  case Nil
  then show ?case
    by (simp add: tx_unfold removes_def)
next
  case (Cons item items)
  from Cons.prems(2) obtain d db1 ds where i: "delete_one_item ctx item db = Inr (d, db1)"
      and rest: "tx_for_each (delete_one_item ctx) items db1 = Inr (ds, db')" and deleted: "deleted = d # ds"
    by (auto simp: tx_unfold)
  note r = delete_one_item_removes [OF Cons.prems(1) i]
  then have "storage_ok digest st (db1, disk)"
    by (simp add: removes_def)
  from removes_trans [OF r Cons.IH [OF this rest]] show ?case
    by (simp add: deleted)
qed

lemma after_commit_keeps:
  assumes "storage_ok digest st (db, disk)" and "after_commit st (outcome, db1) disk = (r, db', disk')"
    and "\<And>deleted. outcome = Inr deleted \<Longrightarrow> removes digest st disk db (map snd deleted) db1" and "\<And>e. outcome = Inl e \<Longrightarrow> db1 = db"
  shows "storage_ok digest st (db', disk')"
proof (cases outcome)
  case (Inl e)
  with assms show ?thesis
    by (auto simp: after_commit_def)
next
  case (Inr deleted)
  with assms(3) have ok1: "storage_ok digest st (db1, disk)" "\<forall>k\<in>set (map snd deleted). free_key db1 k"
    by (auto simp: removes_def)
  obtain dr disk1 where d: "delete_storage_objects st (map snd deleted) disk = (dr, disk1)"
    by fastforce
  have "db' = db1" "disk' = disk1"
    using assms(2) Inr d by (auto simp: after_commit_def split: sum.splits)
  then show ?thesis
    using delete_free_objects [OF ok1 d] by simp
qed

lemma delete_items_keep:
  assumes ok: "storage_ok digest st (db, disk)"
    and run: "delete_inventory_item env st ctx i db disk = (r, db', disk')
      \<or> batch_delete_inventory_items env st ctx ids db disk = (r, db', disk')"
  shows "storage_ok digest st (db', disk')"
proof -
  have "storage_ok digest st (db', disk')"
    if run: "after_commit st (run_handler checked body db) disk = (r, db', disk')"
    and body: "\<And>c deleted db1. body c db = Inr (deleted, db1) \<Longrightarrow> removes digest st disk db (map snd deleted) db1"
    for checked :: "(handler_error, 'c) result" and body
  proof -
    obtain out db1 where t: "run_handler checked body db = (out, db1)"
      by fastforce
    show ?thesis
      by (rule after_commit_keeps [OF ok run [unfolded t]])
         (use t body in \<open>auto simp: run_handler_Inr dest: run_handler_Inl\<close>)
  qed
  note step = this
  from run show ?thesis
  proof
    assume "delete_inventory_item env st ctx i db disk = (r, db', disk')"
    then show ?thesis
      unfolding delete_inventory_item_def
      by (rule step) (auto simp: delete_in_transaction_def tx_unfold intro: delete_one_item_removes [OF ok])
  next
    assume "batch_delete_inventory_items env st ctx ids db disk = (r, db', disk')"
    then show ?thesis
      unfolding batch_delete_inventory_items_def
      by (rule step) (auto simp: batch_delete_in_transaction_def tx_unfold intro!: delete_items_removes [OF ok, simplified])
  qed
qed

section \<open>Assigning and changing attachments\<close>

lemma storage_audit: "storage_ok digest st (db\<lparr>audit_logs := es\<rparr>, disk) = storage_ok digest st (db, disk)"
  by (simp add: storage_ok_def)

lemma storage_keeps_audit [keeps_intros]: "keeps (\<lambda>db. storage_ok digest st (db, disk)) (record_audit a act res i d)"
  by (rule keeps_record_audit) (rule storage_audit)

lemma storage_keeps_unexpected [keeps_intros]:
  "keeps (\<lambda>db. storage_ok digest st (db, disk)) m \<Longrightarrow> keeps (\<lambda>db. storage_ok digest st (db, disk)) (unexpected m)"
  by (simp add: unexpected_def keeps_map_err)

lemma assign_each_keeps: "keeps (\<lambda>db. storage_ok digest st (db, disk)) (assign_each env k u target expected news)"
  by (induction news arbitrary: k) (auto intro!: keeps_intros assign_one_keeps)

lemma assign_uploaded_keeps:
  "keeps (\<lambda>db. storage_ok digest st (db, disk)) (assign_uploaded_attachments env k u target expected news)"
  unfolding assign_uploaded_attachments_def by (intro keeps_intros assign_each_keeps)

lemma assign_in_transaction_keeps:
  "keeps (\<lambda>db. storage_ok digest st (db, disk)) (assign_attachment_in_transaction env ctx target lab payload)"
  unfolding assign_attachment_in_transaction_def by (intro keeps_intros assign_uploaded_keeps)

lemma set_attachment_keys:
  "at_attachment_id (set_attachment n d p now a) = at_attachment_id a"
  "at_file_id (set_attachment n d p now a) = at_file_id a"
  "at_laboratory_id (set_attachment n d p now a) = at_laboratory_id a"
  by (simp_all add: set_attachment_def)

lemma storage_keeps_update_attachment [keeps_intros]:
  "keeps (\<lambda>db. storage_ok digest st (db, disk)) (update_attachment_in_database env i n d p)"
  unfolding update_attachment_in_database_def
proof (intro keeps_intros keeps_write)
  fix db db'
  assume ok: "storage_ok digest st (db, disk)"
    and run: "and_then (write_row (attachment_violation db) at_attachment_id (set_attachment n d p (env_now env)) i
       (attachments db)) (\<lambda>rows. Inr (db\<lparr>attachments := rows\<rparr>)) = Inr db'"
  then obtain rows where w: "write_row (attachment_violation db) at_attachment_id (set_attachment n d p (env_now env)) i
       (attachments db) = Inr rows" and db': "db' = db\<lparr>attachments := rows\<rparr>"
    by (auto simp: and_then_Inr_iff)
  have t: "table_ok at_attachment_id attachment_checks (\<lambda>_ _. False) (attachments db)"
    using ok by (simp add: storage_ok_def)
  have "\<exists>f\<in>set (files db). fi_file_id f = at_file_id a \<and> fi_laboratory_id f = at_laboratory_id a" if "a \<in> set rows" for a
    using attachment_table.overwritten [OF t w that] storage_ok_file [OF ok] by (auto simp: set_attachment_keys)
  then show "storage_ok digest st (db', disk)"
    using ok attachment_table.overwrite [OF t w] by (simp add: storage_ok_def db' set_attachment_keys)
qed

lemma update_in_transaction_keeps:
  "keeps (\<lambda>db. storage_ok digest st (db, disk)) (update_attachment_in_transaction env ctx i change)"
  unfolding update_attachment_in_transaction_def by (intro keeps_intros)

section \<open>Runs\<close>

text \<open>
  Requests of anybody, each with its own clock, ids and payload, against one storage directory.
  The digest is one function throughout, and the object id of an upload is a new one.
\<close>

inductive storage_step :: "(u8 list \<Rightarrow> rstr) \<Rightarrow> local_storage \<Rightarrow> database \<times> disk \<Rightarrow> database \<times> disk \<Rightarrow> bool"
  for digest and st where
  uploaded: "sha256_hex env = digest \<Longrightarrow> fs_local fs = st \<Longrightarrow> fresh_object env (ctx_laboratory_id ctx) db \<Longrightarrow>
     upload_file env fs ctx payload db disk = (up, db', disk') \<Longrightarrow> storage_step digest st (db, disk) (db', disk')"
| upload_deleted: "fs_local fs = st \<Longrightarrow> delete_file_upload env fs ctx i db disk = (un, db', disk') \<Longrightarrow>
     storage_step digest st (db, disk) (db', disk')"
| asset_assigned: "assign_asset_attachment env ctx i new db = (aa, db') \<Longrightarrow> storage_step digest st (db, disk) (db', disk)"
| item_assigned: "assign_inventory_item_attachment env ctx i new db = (ai, db') \<Longrightarrow>
     storage_step digest st (db, disk) (db', disk)"
| changed: "update_attachment env ctx i change db = (ch, db') \<Longrightarrow> storage_step digest st (db, disk) (db', disk)"
| deleted: "fs_local fs = st \<Longrightarrow> delete_attachment env fs ctx i db disk = (de, db', disk') \<Longrightarrow>
     storage_step digest st (db, disk) (db', disk')"
| item_deleted: "delete_inventory_item env st ctx i db disk = (di, db', disk') \<Longrightarrow>
     storage_step digest st (db, disk) (db', disk')"
| items_deleted: "batch_delete_inventory_items env st ctx ids db disk = (ds, db', disk') \<Longrightarrow>
     storage_step digest st (db, disk) (db', disk')"

lemma storage_step_keeps: "storage_step digest st s s' \<Longrightarrow> storage_ok digest st s \<Longrightarrow> storage_ok digest st s'"
proof (induction rule: storage_step.induct)
  case (uploaded env fs ctx db payload disk up db' disk')
  then show ?case
    using upload_keeps [of env fs db disk ctx payload up db' disk'] by simp
next
  case (upload_deleted fs env ctx i db disk un db' disk')
  then show ?case
    using delete_upload_keeps [of digest fs db disk env ctx i un db' disk'] by simp
next
  case (asset_assigned env ctx i new db aa db' disk)
  show ?case
    by (rule keeps_run_handler [OF asset_assigned(1) [unfolded assign_asset_attachment_def]])
       (rule assign_in_transaction_keeps asset_assigned(2))+
next
  case (item_assigned env ctx i new db ai db' disk)
  show ?case
    by (rule keeps_run_handler [OF item_assigned(1) [unfolded assign_inventory_item_attachment_def]])
       (rule assign_in_transaction_keeps item_assigned(2))+
next
  case (changed env ctx i change db ch db' disk)
  show ?case
    by (rule keeps_run_handler [OF changed(1) [unfolded update_attachment_def]])
       (rule update_in_transaction_keeps changed(2))+
next
  case (deleted fs env ctx i db disk de db' disk')
  then show ?case
    using delete_attachment_keeps [of digest fs db disk env ctx i de db' disk'] by simp
next
  case (item_deleted env ctx i db disk di db' disk')
  then show ?case
    using delete_items_keep by blast
next
  case (items_deleted env ctx ids db disk ds db' disk')
  then show ?case
    using delete_items_keep by blast
qed

text \<open>Meanwhile the audit log only grows.\<close>

definition log_extends :: "audit_row list \<Rightarrow> database \<Rightarrow> bool" where
  "log_extends es db \<longleftrightarrow> (\<exists>more. audit_logs db = es @ more)"

lemma log_record [keeps_intros]: "keeps (log_extends es) (record_audit a act res i d)"
  by (auto simp: keeps_def log_extends_def record_audit_Inr)

lemma log_unexpected [keeps_intros]: "keeps (log_extends es) m \<Longrightarrow> keeps (log_extends es) (unexpected m)"
  by (simp add: unexpected_def keeps_map_err)

lemma log_writes [keeps_intros]:
  "keeps (log_extends es) (insert_file_upload env i lab u name mime stored expires)"
  "keeps (log_extends es) (mark_file_upload_consumed env i)"
  "keeps (log_extends es) (delete_file_upload_from_database i)"
  "keeps (log_extends es) (insert_attachment env k u target c name d p)"
  "keeps (log_extends es) (update_attachment_in_database env i name d p)"
  "keeps (log_extends es) (delete_attachment_from_database i)"
  "keeps (log_extends es) (delete_inventory_item_attachments i)"
  "keeps (log_extends es) (delete_inventory_item_from_database i)"
proof -
  show "keeps (log_extends es) (insert_file_upload env i lab u name mime stored expires)"
    by (auto simp: keeps_def log_extends_def dest!: insert_file_upload_Inr)
  show "keeps (log_extends es) (mark_file_upload_consumed env i)"
    unfolding mark_file_upload_consumed_def by (rule keeps_write) (auto simp: log_extends_def)
  show "keeps (log_extends es) (delete_file_upload_from_database i)"
    unfolding delete_file_upload_from_database_def by (rule keeps_write) (auto simp: log_extends_def)
  show "keeps (log_extends es) (insert_attachment env k u target c name d p)"
    unfolding insert_attachment_def by (intro keeps_intros keeps_write) (auto simp: log_extends_def Let_def split: option.splits)
  show "keeps (log_extends es) (update_attachment_in_database env i name d p)"
    unfolding update_attachment_in_database_def by (intro keeps_intros keeps_write) (auto simp: log_extends_def and_then_Inr_iff)
  show "keeps (log_extends es) (delete_attachment_from_database i)"
    unfolding delete_attachment_from_database_def
    by (intro keeps_intros keeps_write) (auto simp: log_extends_def Let_def split: if_splits)
  show "keeps (log_extends es) (delete_inventory_item_attachments i)"
    by (auto simp: keeps_def delete_inventory_item_attachments_def log_extends_def Let_def split: if_splits)
  show "keeps (log_extends es) (delete_inventory_item_from_database i)"
    by (auto simp: keeps_def delete_inventory_item_from_database_def log_extends_def tx_unfold split: if_splits)
qed

lemma log_assign: "keeps (log_extends es) (assign_attachment_in_transaction env ctx target lab payload)"
proof -
  have "keeps (log_extends es) (assign_each env k u target expected news)" for k u expected news
    by (induction news arbitrary: k) (auto simp: assign_one_def consume_file_upload_def intro!: keeps_intros)
  then show ?thesis
    unfolding assign_attachment_in_transaction_def assign_uploaded_attachments_def by (intro keeps_intros)
qed

lemma log_transactions:
  "keeps (log_extends es) (update_attachment_in_transaction env ctx i change)"
  "keeps (log_extends es) (delete_attachment_in_transaction env ctx i)"
  "keeps (log_extends es) (delete_file_upload_in_transaction i)"
  "keeps (log_extends es) (delete_in_transaction env ctx i)"
  "keeps (log_extends es) (batch_delete_in_transaction env ctx ids)"
  unfolding update_attachment_in_transaction_def delete_attachment_in_transaction_def
    delete_file_upload_in_transaction_def delete_in_transaction_def batch_delete_in_transaction_def delete_one_item_def
  by (intro keeps_intros)+

lemma then_delete_object_database: "then_delete_object st p disk = (r, db', disk') \<Longrightarrow> db' = snd p"
  by (cases p) (auto simp: then_delete_object_def split: sum.splits prod.splits)

lemma after_commit_database: "after_commit st p disk = (r, db', disk') \<Longrightarrow> db' = snd p"
  by (cases p) (auto simp: after_commit_def split: sum.splits prod.splits)

lemma transaction_keeps: "keeps P m \<Longrightarrow> P db \<Longrightarrow> P (snd (transaction m db))"
  by (auto simp: transaction_def dest: keepsD split: sum.splits)

lemma run_handler_keeps: "(\<And>c. keeps P (body c)) \<Longrightarrow> P db \<Longrightarrow> P (snd (run_handler checked body db))"
  by (cases checked) (auto simp: run_handler_def transaction_keeps)

lemma log_own: "log_extends (audit_logs db) db"
  by (simp add: log_extends_def)

lemma storage_step_log: "storage_step digest st s s' \<Longrightarrow> log_extends (audit_logs (fst s)) (fst s')"
proof (induction rule: storage_step.induct)
  case (uploaded env fs ctx db payload disk up db' disk')
  from uploaded(4) show ?case
    by (rule upload_file_cases) (auto simp: log_extends_def)
next
  case (upload_deleted fs env ctx i db disk un db' disk')
  then show ?case
    using then_delete_object_database [OF upload_deleted(2) [unfolded delete_file_upload_def]]
    by (simp add: run_handler_keeps transaction_keeps log_transactions log_own)
next
  case (asset_assigned env ctx i new db aa db' disk)
  then show ?case
    using keeps_run_handler [OF asset_assigned(1) [unfolded assign_asset_attachment_def] log_assign, of "audit_logs db"]
    by (simp add: log_extends_def)
next
  case (item_assigned env ctx i new db ai db' disk)
  then show ?case
    using keeps_run_handler [OF item_assigned(1) [unfolded assign_inventory_item_attachment_def] log_assign, of "audit_logs db"]
    by (simp add: log_extends_def)
next
  case (changed env ctx i change db ch db' disk)
  then show ?case
    using keeps_run_handler [OF changed(1) [unfolded update_attachment_def] log_transactions(1), of "audit_logs db"]
    by (simp add: log_extends_def)
next
  case (deleted fs env ctx i db disk de db' disk')
  then show ?case
    using then_delete_object_database [OF deleted(2) [unfolded delete_attachment_def]]
    by (simp add: run_handler_keeps transaction_keeps log_transactions log_own)
next
  case (item_deleted env ctx i db disk di db' disk')
  then show ?case
    using after_commit_database [OF item_deleted(1) [unfolded delete_inventory_item_def]]
    by (simp add: run_handler_keeps transaction_keeps log_transactions log_own)
next
  case (items_deleted env ctx ids db disk ds db' disk')
  then show ?case
    using after_commit_database [OF items_deleted(1) [unfolded batch_delete_inventory_items_def]]
    by (simp add: run_handler_keeps transaction_keeps log_transactions log_own)
qed

interpretation storing: invariant_system "storage_step digest st" "storage_ok digest st"
    "\<lambda>s t. log_extends (audit_logs (fst s)) (fst t)" for digest st
  by unfold_locales (auto simp: log_extends_def dest: storage_step_keeps storage_step_log)

end
