(* ===== verification/Attachment_Properties.thy ===== *)
theory Attachment_Properties
  imports Attachment_Runs Witness_Data
begin

text \<open>
  What a user of uploads and attachments can rely on: a stored file stays readable and unchanged
  as long as an attachment names it, an upload becomes an attachment at most once and only for its
  laboratory, and what was uploaded is what is downloaded.
\<close>

section \<open>Reading an attachment\<close>

lemma stored_object_read:
  assumes "object_stored digest st disk key n sha" and "\<And>p. \<not> st_refused st p"
  obtains bytes where "FileStorageKey_parse key = Inr key" "storage_read st key disk = Inr bytes"
    "n = of_nat (length bytes)" "FileSha256_parse (digest bytes) = Inr sha"
  using assms by (auto simp: object_stored_def storage_read_def)

lemma download_attachment_Inr:
  assumes "fetch_attachment i db = Some v" and "FileStorageKey_parse (fi_storage_key (tv_file v)) = Inr key"
    and "storage_read (fs_local fs) key disk = Inr bytes"
    and "validate_permission db (env_now env) (authorization_actor ctx) AttachmentAssignment_resource (Read i) = Inr True"
  shows "\<exists>d. download_attachment env fs ctx i db disk = Inr d \<and> dl_body d = bytes
    \<and> dl_content_type d = coalesce (fi_mime_type (tv_file v)) (lit ''application/octet-stream'')"
  using assms by (simp add: download_attachment_def require_permission_def fetch_attachment_file_def)

lemma assign_in_transaction_Inr:
  assumes "assign_attachment_in_transaction env ctx target lab payload db = Inr (v, db')"
  obtains n where "NewAttachment_try_from env payload = Inr n" "na_upload_id n = aq_upload_id payload"
    "assign_one env 0 (actor_user_id (ctx_actor ctx)) target (Some lab) n db = Inr (v, db')"
proof -
  from assms obtain n rows where n: "NewAttachment_try_from env payload = Inr n"
      and a: "assign_uploaded_attachments env 0 (actor_user_id (ctx_actor ctx)) target (Some lab) [n] db = Inr (rows, db')"
      and v: "v = hd rows"
    by (auto simp: assign_attachment_in_transaction_def tx_unfold result_unfold)
  from a v have "assign_one env 0 (actor_user_id (ctx_actor ctx)) target (Some lab) n db = Inr (v, db')"
    by (auto simp: assign_uploaded_attachments_def tx_unfold)
  moreover have "na_upload_id n = aq_upload_id payload"
    using n by (auto simp: NewAttachment_try_from_def result_unfold)
  ultimately show thesis
    using n by (intro that)
qed

lemma assigned_Inr:
  assumes "assign_asset_attachment env ctx i payload db = (Inr v, db')
    \<or> assign_inventory_item_attachment env ctx i payload db = (Inr v, db')"
  obtains target n where "na_upload_id n = aq_upload_id payload"
    "assign_one env 0 (actor_user_id (ctx_actor ctx)) target (Some (ctx_laboratory_id ctx)) n db = Inr (v, db')"
    "can_assign_file_upload db (env_now env) (authorization_actor ctx) (aq_upload_id payload)"
  using assms
  by (auto simp: assign_asset_attachment_def assign_inventory_item_attachment_def run_handler_Inr and_then_Inr_iff
      ok_or_Inr_iff ensure_Inr_iff require_permission_Inr validate_permission_def permit_file_upload_def
      elim!: assign_in_transaction_Inr intro: that)

text \<open>
  C31. However many uploads, assignments, changes and deletions have run, whoever sent them and
  whether they succeeded or failed, every attachment can still be downloaded by whoever may read
  it, with as many bytes as its row says and with the digest of its row; and the audit log has
  only grown.
\<close>

theorem attachments_stay_readable:
  assumes "(storage_step digest st)\<^sup>*\<^sup>* (db, disk) (db', disk')" and "storage_ok digest st (db, disk)"
    and "fetch_attachment i db' = Some v" and "fs_local fs = st" and "\<And>p. \<not> st_refused st p"
    and "validate_permission db' (env_now env) (authorization_actor ctx) AttachmentAssignment_resource (Read i) = Inr True"
  shows "(\<exists>d. download_attachment env fs ctx i db' disk' = Inr d
        \<and> of_nat (length (dl_body d)) = fi_file_size_bytes (tv_file v)
        \<and> FileSha256_parse (digest (dl_body d)) = Inr (fi_sha256_hex (tv_file v)))
    \<and> (\<exists>more. audit_logs db' = audit_logs db @ more)"
proof -
  from storing.run [OF assms(1,2)] have ok: "storage_ok digest st (db', disk')"
    and log: "\<exists>more. audit_logs db' = audit_logs db @ more"
    by (simp_all add: log_extends_def)
  have "object_stored digest st disk' (fi_storage_key (tv_file v)) (fi_file_size_bytes (tv_file v)) (fi_sha256_hex (tv_file v))"
    using ok fetch_attachment_Some [OF assms(3)] by (simp add: storage_ok_def)
  then obtain bytes where b: "FileStorageKey_parse (fi_storage_key (tv_file v)) = Inr (fi_storage_key (tv_file v))"
      "storage_read st (fi_storage_key (tv_file v)) disk' = Inr bytes"
      "fi_file_size_bytes (tv_file v) = of_nat (length bytes)" "FileSha256_parse (digest bytes) = Inr (fi_sha256_hex (tv_file v))"
    using assms(5) by (rule stored_object_read)
  with download_attachment_Inr [OF assms(3) b(1) b(2) [folded assms(4)] assms(6)] log show ?thesis
    by auto
qed

section \<open>Consuming an upload\<close>

lemma fetch_optional_narrow: "fetch_optional p xs = Some x \<Longrightarrow> q x \<Longrightarrow> fetch_optional (\<lambda>r. p r \<and> q r) xs = Some x"
  by (induction xs) (auto simp: fetch_optional_def split: if_splits)

lemma consumed_not_assigned:
  assumes "fetch_optional (\<lambda>r. up_upload_id r = aq_upload_id payload) (file_uploads db) = Some r" and "up_consumed_at r \<noteq> None"
  shows "assign_asset_attachment env ctx i payload db \<noteq> (Inr v, db') \<and> assign_inventory_item_attachment env ctx i payload db \<noteq> (Inr v, db')"
proof (rule ccontr)
  assume "\<not> ?thesis"
  then have "assign_asset_attachment env ctx i payload db = (Inr v, db') \<or> assign_inventory_item_attachment env ctx i payload db = (Inr v, db')"
    by blast
  then show False
    by (rule assigned_Inr) (use assms in \<open>auto elim!: assign_one_Inr\<close>)
qed

text \<open>
  C32. An assignment that succeeds consumes an upload of the laboratory it acts in, one that was
  waiting and not past its expiry by the program's clock, and uploaded by the acting user unless it
  had expired by the database's clock already; its file is the new attachment's file. In the
  database that leaves, the upload cannot be assigned again, by anybody.
\<close>

theorem uploads_are_consumed_once:
  assumes "scoped_context ctx"
    and "assign_asset_attachment env ctx i payload db = (Inr v, db') \<or> assign_inventory_item_attachment env ctx i payload db = (Inr v, db')"
  shows "\<exists>r\<in>set (file_uploads db). up_upload_id r = aq_upload_id payload \<and> up_laboratory_id r = ctx_laboratory_id ctx
      \<and> up_consumed_at r = None \<and> env_clock env \<le> up_expires_at r
      \<and> (up_uploaded_by_user_id r = actor_user_id (ctx_actor ctx) \<or> up_expires_at r \<le> env_now env)
      \<and> fi_storage_key (tv_file v) = up_storage_key r
      \<and> (\<forall>env' ctx' j again w db''. aq_upload_id again = aq_upload_id payload \<longrightarrow>
           assign_asset_attachment env' ctx' j again db' \<noteq> (Inr w, db'')
           \<and> assign_inventory_item_attachment env' ctx' j again db' \<noteq> (Inr w, db''))"
proof -
  from assms(1) obtain parse_uuid req where req: "LaboratoryContext_from_request parse_uuid req = Inr ctx"
    by (auto simp: scoped_context_def)
  have same: "actor_user_id (authorization_actor ctx) = actor_user_id (ctx_actor ctx)"
    by (simp add: authorization_actor_def)
  from assms(2) obtain target n where n: "na_upload_id n = aq_upload_id payload"
      and a: "assign_one env 0 (actor_user_id (ctx_actor ctx)) target (Some (ctx_laboratory_id ctx)) n db = Inr (v, db')"
      and may: "can_assign_file_upload db (env_now env) (authorization_actor ctx) (aq_upload_id payload)"
    by (rule assigned_Inr)
  from a obtain r where r: "fetch_optional (\<lambda>r. up_upload_id r = aq_upload_id payload) (file_uploads db) = Some r"
      "up_consumed_at r = None" "\<not> up_expires_at r < env_clock env" "up_laboratory_id r = ctx_laboratory_id ctx"
      and v: "tv_file v = file_of_upload env 0 r"
      and db': "file_uploads db' = update_rows (\<lambda>r. up_upload_id r = aq_upload_id payload) (consume_upload (env_now env)) (file_uploads db)"
    by (rule assign_one_Inr) (auto simp: n)
  have "fetch_optional (\<lambda>r. up_upload_id r = aq_upload_id payload) (file_uploads db') = Some (consume_upload (env_now env) r)"
    using consume_upload.read_back r(1) by (simp add: db')
  then have again: "assign_asset_attachment env' ctx' j again db' \<noteq> (Inr w, db'')
       \<and> assign_inventory_item_attachment env' ctx' j again db' \<noteq> (Inr w, db'')"
    if "aq_upload_id again = aq_upload_id payload" for env' ctx' j again w db''
    using that by (intro consumed_not_assigned) (auto simp: consume_upload_def)
  have "up_uploaded_by_user_id r = actor_user_id (ctx_actor ctx)" if "env_now env < up_expires_at r"
  proof -
    have "fetch_optional (\<lambda>r. up_upload_id r = aq_upload_id payload \<and> up_consumed_at r = None \<and> env_now env < up_expires_at r)
        (file_uploads db) = Some r"
      by (rule fetch_optional_narrow [OF r(1)]) (use r(2) that in simp)
    then show ?thesis
      using may authorization_actor_scoped(1) [OF req] same by (simp add: can_assign_file_upload_def)
  qed
  moreover note mem = fetch_optional_Some [OF r(1)]
  ultimately show ?thesis
    using r v again by (intro bexI [of _ r]) (auto simp: file_of_upload_def not_less)
qed

section \<open>From upload to download\<close>

lemma fetch_optional_last: "\<forall>s\<in>set xs. \<not> p s \<Longrightarrow> p x \<Longrightarrow> fetch_optional p (xs @ [x]) = Some x"
  by (induction xs) (auto simp: fetch_optional_def)

lemma fetch_attachment_of_new:
  assumes "attachments db' = attachments db @ [tv_attachment v]" and "files db' = files db @ [tv_file v]"
    and "fi_file_id (tv_file v) = at_file_id (tv_attachment v)"
    and "at_attachment_id (tv_attachment v) \<notin> at_attachment_id ` set (attachments db)"
    and "fi_file_id (tv_file v) \<notin> fi_file_id ` set (files db)"
  shows "fetch_attachment (at_attachment_id (tv_attachment v)) db' = Some v"
proof -
  have "filter (\<lambda>f. fi_file_id f = at_file_id (tv_attachment v)) (files db') = [tv_file v]"
    using assms(2,3,5) by (auto simp: filter_empty_conv image_iff)
  then have "joined_attachments db' = concat (map (\<lambda>a. map (\<lambda>f. \<lparr>tv_attachment = a, tv_file = f\<rparr>)
       (filter (\<lambda>f. fi_file_id f = at_file_id a) (files db'))) (attachments db)) @ [v]"
    by (simp add: joined_attachments_def assms(1))
  moreover have "\<forall>w\<in>set (concat (map (\<lambda>a. map (\<lambda>f. \<lparr>tv_attachment = a, tv_file = f\<rparr>)
       (filter (\<lambda>f. fi_file_id f = at_file_id a) (files db'))) (attachments db))).
       at_attachment_id (tv_attachment w) \<noteq> at_attachment_id (tv_attachment v)"
    using assms(4) by (auto simp: image_iff)
  ultimately show ?thesis
    by (simp add: fetch_attachment_def fetch_optional_last)
qed

lemma assign_one_runs:
  assumes r: "fetch_optional (\<lambda>r. up_upload_id r = na_upload_id n) (file_uploads db) = Some r"
    and ready: "up_consumed_at r = None" "\<not> up_expires_at r < env_clock env" "expected = Some (up_laboratory_id r)"
    and new_file: "file_violation db (files db) (file_of_upload env k r) = None"
    and row: "attachment_violation (db\<lparr>files := files db @ [file_of_upload env k r]\<rparr>) (attachments db)
      (attachment_of_upload env k u target n r) = None"
    and actor: "\<exists>x\<in>set (users db). us_user_id x = u"
  shows "\<exists>v db'. assign_one env k u target expected n db = Inr (v, db')"
proof -
  have f: "file_violation (db\<lparr>file_uploads := x\<rparr>) = file_violation db" for x
    by (intro ext) (simp add: file_violation_def cong: option.case_cong)
  have a: "attachment_violation (db\<lparr>file_uploads := x, files := y\<rparr>) = attachment_violation (db\<lparr>files := y\<rparr>)" for x y
    by (intro ext) (simp add: attachment_violation_def cong: option.case_cong)
  define db1 where "db1 = db\<lparr>file_uploads :=
    update_rows (\<lambda>r. up_upload_id r = na_upload_id n) (consume_upload (env_now env)) (file_uploads db)\<rparr>"
  have c: "consume_file_upload env (na_upload_id n) db = Inr (ConsumedFileUpload_from r, db1)"
    using r ready by (auto simp: consume_file_upload_Inr db1_def)
  obtain v db2 where i: "insert_attachment env k u target (ConsumedFileUpload_from r)
      (coalesce (na_display_name n) (cu_original_file_name (ConsumedFileUpload_from r))) (na_description n) (na_is_public n) db1
      = Inr (v, db2)" and u: "users db2 = users db"
  proof -
    have "\<exists>v db2. insert_attachment env k u target (ConsumedFileUpload_from r)
      (coalesce (na_display_name n) (cu_original_file_name (ConsumedFileUpload_from r))) (na_description n) (na_is_public n) db1
      = Inr (v, db2) \<and> users db2 = users db"
      unfolding insert_attachment_def ConsumedFileUpload_from_def Let_def consumed_upload.simps file_row.simps
      unfolding file_of_upload_def [symmetric] attachment_of_upload_def [symmetric]
      using new_file row by (auto simp: tx_unfold db1_def f a)
    then show thesis
      using that by blast
  qed
  have l: "cu_laboratory_id (ConsumedFileUpload_from r) = up_laboratory_id r"
    by (simp add: ConsumedFileUpload_from_def)
  show ?thesis
    using actor c i u by (simp add: assign_one_def tx_unfold ready(3) ensure_Inr_iff l)
qed

text \<open>
  C33. An upload that succeeded can be assigned by its uploader to an inventory item of the same
  laboratory that the uploader may change, under no name of its own, as long as it has not expired,
  the ids drawn are new and the operating system refuses no path of the store; and with the
  database and the disk as they are then, whoever may read the attachment downloads exactly the
  bytes that were sent, under the type they were sent with.
\<close>

theorem fresh_uploads_reach_their_readers:
  assumes up: "upload_file env fs ctx payload db disk = (Inr row, db1, disk1)"
    and sent: "read_single_file env (fs_max_file_size_bytes fs) payload = Inr m"
    and new_object: "fresh_object env (ctx_laboratory_id ctx) db" and allowed: "\<And>p. \<not> st_refused (fs_local fs) p"
    and later: "scoped_context ctx'" "ctx_laboratory_id ctx' = ctx_laboratory_id ctx"
      "actor_user_id (ctx_actor ctx') = actor_user_id (ctx_actor ctx)"
    and request: "aq_upload_id new = up_upload_id row" "aq_display_name new = None"
    and item: "attachment_item_laboratory i db1 = Some (ctx_laboratory_id ctx)"
    and may: "validate_permission db1 (env_now env') (authorization_actor ctx') InventoryItem_resource (Update i) = Inr True"
    and in_time: "env_clock env' \<le> up_expires_at row"
    and new_ids: "env_new_v4 env' 0 \<notin> fi_file_id ` set (files db)" "env_new_v4 env' 1 \<notin> at_attachment_id ` set (attachments db)"
  shows "\<exists>v db2. assign_inventory_item_attachment env' ctx' i new db1 = (Inr v, db2)
    \<and> (\<forall>env'' reader. validate_permission db2 (env_now env'') (authorization_actor reader) AttachmentAssignment_resource
            (Read (at_attachment_id (tv_attachment v))) = Inr True \<longrightarrow>
          (\<exists>d. download_attachment env'' fs reader (at_attachment_id (tv_attachment v)) db2 disk1 = Inr d
             \<and> dl_body d = mu_bytes m
             \<and> dl_content_type d = coalesce (mu_mime_type m) (lit ''application/octet-stream'')))"
proof -
  from later(1) obtain parse_uuid req where req: "LaboratoryContext_from_request parse_uuid req = Inr ctx'"
    by (auto simp: scoped_context_def)
  have same: "actor_user_id (authorization_actor ctx') = actor_user_id (ctx_actor ctx)"
    by (simp add: authorization_actor_def later(3))
  from up obtain name key p sha where stored:
      "disk1 = disk(p \<mapsto> mu_bytes m)"
      "FileStorageKey_parse (object_key env (ctx_laboratory_id ctx) (env_new_v4 env 0) name) = Inr key"
      "path_for_key (fs_local fs) key = Inr p"
      "upload_violation db (file_uploads db) row = None" "db1 = db\<lparr>file_uploads := file_uploads db @ [row]\<rparr>"
      "up_storage_key row = key" "up_consumed_at row = None" "up_laboratory_id row = ctx_laboratory_id ctx"
      "up_uploaded_by_user_id row = actor_user_id (ctx_actor ctx)" "up_mime_type row = mu_mime_type m"
    by (rule upload_file_cases) (auto simp: sent)
  define n where "n = \<lparr>na_upload_id = aq_upload_id new, na_display_name = None,
    na_description = aq_description new, na_is_public = (aq_is_public new = Some True)\<rparr>"
  have n: "NewAttachment_try_from env' new = Inr n"
    by (simp add: NewAttachment_try_from_def request(2) n_def)
  have waiting: "fetch_optional (\<lambda>r. up_upload_id r = up_upload_id row) (file_uploads db1) = Some row"
  proof -
    have "\<forall>s\<in>set (file_uploads db). up_upload_id s \<noteq> up_upload_id row"
      using upload_table.passed [OF stored(4)] by blast
    then show ?thesis
      by (simp add: stored(5) fetch_optional_last)
  qed
  have may_assign: "can_assign_file_upload db1 (env_now env') (authorization_actor ctx') (up_upload_id row)"
  proof (cases "env_now env' < up_expires_at row")
    case True
    with fetch_optional_narrow [OF waiting, of "\<lambda>r. up_consumed_at r = None \<and> env_now env' < up_expires_at r"]
    show ?thesis
      using authorization_actor_scoped(2) [OF req] same stored later(2)
      by (simp add: can_assign_file_upload_def)
  next
    case False
    then have "fetch_optional (\<lambda>r. up_upload_id r = up_upload_id row \<and> up_consumed_at r = None \<and> env_now env' < up_expires_at r)
        (file_uploads db1) = None"
      using upload_table.passed [OF stored(4)] by (auto simp: fetch_optional_None stored(5))
    then show ?thesis
      by (simp add: can_assign_file_upload_def)
  qed
  have f_ok: "file_violation db1 (files db1) (file_of_upload env' 0 row) = None"
    using stored(4) new_ids(1) new_object stored(2,6)
    by (auto simp: file_violation_def upload_violation_def file_checks_def upload_checks_def file_of_upload_def
        same_file_key_def fresh_object_def stored(5) image_iff split: if_splits)
  have a_ok: "attachment_violation (db1\<lparr>files := files db1 @ [file_of_upload env' 0 row]\<rparr>) (attachments db1)
      (attachment_of_upload env' 0 (actor_user_id (ctx_actor ctx')) (InventoryItem_target i) n row) = None"
    using stored(4,8) new_ids(2) item later(2,3) stored(9)
    by (auto simp: attachment_violation_def upload_violation_def attachment_checks_def upload_checks_def n_def
        attachment_of_upload_def file_of_upload_def attachment_item_laboratory_def coalesce_def stored(5) image_iff
        split: if_splits dest!: fetch_optional_Some)
  obtain v db2 where a: "assign_one env' 0 (actor_user_id (ctx_actor ctx')) (InventoryItem_target i)
      (Some (ctx_laboratory_id ctx)) n db1 = Inr (v, db2)"
    using assign_one_runs [of n db1 row env' "Some (ctx_laboratory_id ctx)" 0, OF _ _ _ _ f_ok a_ok] waiting stored in_time later request
    by (auto simp: n_def upload_violation_def split: if_splits)
  have "assign_inventory_item_attachment env' ctx' i new db1 = (Inr v, db2)"
    using a n may may_assign later request
    by (simp add: assign_inventory_item_attachment_def run_handler_Inr and_then_Inr_iff ok_or_Inr_iff ensure_Inr_iff
        require_permission_Inr validate_permission_def permit_file_upload_def item
        assign_attachment_in_transaction_def assign_uploaded_attachments_def tx_unfold result_unfold validate_unique_uploads_def)
  moreover have "\<exists>d. download_attachment env'' fs reader (at_attachment_id (tv_attachment v)) db2 disk1 = Inr d
      \<and> dl_body d = mu_bytes m \<and> dl_content_type d = coalesce (mu_mime_type m) (lit ''application/octet-stream'')"
    if "validate_permission db2 (env_now env'') (authorization_actor reader) AttachmentAssignment_resource
            (Read (at_attachment_id (tv_attachment v))) = Inr True" for env'' reader
  proof -
    from a have v: "tv_file v = file_of_upload env' 0 row" "fetch_attachment (at_attachment_id (tv_attachment v)) db2 = Some v"
      by (rule assign_one_Inr, use waiting request new_ids in \<open>auto simp: n_def stored(5) attachment_of_upload_def file_of_upload_def
            intro!: fetch_attachment_of_new [of db2 db1]\<close>)+
    show ?thesis
      using download_attachment_Inr [OF v(2) _ _ that, of key fs disk1 "mu_bytes m"] v(1) stored FileStorageKey_parse_again allowed
      by (simp add: file_of_upload_def storage_read_def)
  qed
  ultimately show ?thesis
    by blast
qed

definition env_5 :: env where
  "env_5 = env_1\<lparr>env_new_v4 := (\<lambda>i. 500 + of_nat i), Uuid_to_string := (\<lambda>i. if i = lab_1 then [48] else [49]),
     sha256_hex := (\<lambda>_. replicate 64 97)\<rparr>"

definition store_1 :: file_storage where
  "store_1 = \<lparr>fs_backend = Local, fs_local = \<lparr>st_root = [], st_refused = (\<lambda>_. False)\<rparr>,
     fs_max_file_size_bytes = 4, fs_upload_token_ttl_minutes = 1\<rparr>"

definition data_sheet :: "(rstr, form_field) result list" where
  "data_sheet = [Inr \<lparr>ff_name = Some (lit ''file''), ff_file_name = Some (lit ''sds.TXT''),
     ff_content_type = Some (lit ''text/plain''), ff_chunks = [Inr [7, 8], Inr [9]]\<rparr>]"

definition uploaded_1 :: "(handler_error, upload_row) result \<times> database \<times> disk" where
  "uploaded_1 = upload_file env_5 store_1 admin_ctx data_sheet db_1 (\<lambda>_. None)"

definition sheet_row :: upload_row where
  "sheet_row = \<lparr>up_upload_id = 501, up_laboratory_id = lab_1, up_storage_backend = lit ''local'',
     up_storage_key = lit ''labs/0/objects/1/'' @ replicate 64 97 @ lit ''.txt'',
     up_original_file_name = lit ''sds.TXT'', up_mime_type = Some (lit ''text/plain''), up_file_size_bytes = 3,
     up_sha256_hex = replicate 64 97, up_uploaded_by_user_id = 11, up_created_at = 100, up_expires_at = 60000100,
     up_consumed_at = None\<rparr>"

lemma sheet_uploaded: "fst uploaded_1 = Inr sheet_row \<and> fst (snd uploaded_1) = db_1\<lparr>file_uploads := [sheet_row]\<rparr>"
  by code_simp

lemma uploaded_eq: "upload_file env_5 store_1 admin_ctx data_sheet db_1 (\<lambda>_. None)
    = (Inr sheet_row, db_1\<lparr>file_uploads := [sheet_row]\<rparr>, snd (snd uploaded_1))"
  using sheet_uploaded by (metis prod.collapse uploaded_1_def)

definition env_6 :: env where
  "env_6 = env_5\<lparr>env_new_v4 := (\<lambda>i. 600 + of_nat i)\<rparr>"

definition sheet_payload :: attachment_payload where
  "sheet_payload = \<lparr>aq_upload_id = 501, aq_display_name = None, aq_description = None, aq_is_public = Some True\<rparr>"

lemma new_object_5: "fresh_object env_5 (ctx_laboratory_id admin_ctx) db_1"
  by (simp add: fresh_object_def db_1_def)

lemma item_41_may_change:
  "validate_permission (db_1\<lparr>file_uploads := [sheet_row]\<rparr>) (env_now env_6) (authorization_actor admin_ctx)
     InventoryItem_resource (Update 41) = Inr True"
  by code_simp

lemma data_sheet_read: "read_single_file env_5 (fs_max_file_size_bytes store_1) data_sheet
    = Inr \<lparr>mu_original_file_name = lit ''sds.TXT'', mu_mime_type = Some (lit ''text/plain''), mu_bytes = [7, 8, 9]\<rparr>"
  by code_simp

theorem fresh_uploads_reach_their_readers_witness:
  "\<exists>v db2. assign_inventory_item_attachment env_6 admin_ctx 41 sheet_payload (db_1\<lparr>file_uploads := [sheet_row]\<rparr>) = (Inr v, db2)"
  using fresh_uploads_reach_their_readers [OF uploaded_eq data_sheet_read new_object_5 _ admin_scoped refl refl, of sheet_payload 41 env_6]
    item_41_may_change
  by (simp add: store_1_def sheet_payload_def sheet_row_def attachment_item_laboratory_def fetch_optional_def
      db_1_def balance_row_def stock_row_def admin_ctx_def env_6_def env_5_def env_1_def) blast

definition assigned_1 :: "(handler_error, attachment_view) result \<times> database" where
  "assigned_1 = assign_inventory_item_attachment env_6 admin_ctx 41 sheet_payload (db_1\<lparr>file_uploads := [sheet_row]\<rparr>)"

definition sheet_view :: attachment_view where
  "sheet_view = \<lparr>tv_attachment = \<lparr>at_attachment_id = 601, at_laboratory_id = lab_1, at_file_id = 600, at_asset_id = None,
       at_inventory_item_id = Some 41, at_display_name = lit ''sds.TXT'', at_description = None, at_is_public = True,
       at_assigned_by_user_id = Some 11, at_created_at = 100, at_updated_at = 100\<rparr>,
     tv_file = file_of_upload env_6 0 sheet_row\<rparr>"

lemma sheet_assigned: "fst assigned_1 = Inr sheet_view"
  by code_simp

lemma assigned_eq: "assign_inventory_item_attachment env_6 admin_ctx 41 sheet_payload (db_1\<lparr>file_uploads := [sheet_row]\<rparr>)
    = (Inr sheet_view, snd assigned_1)"
  using sheet_assigned by (metis prod.collapse assigned_1_def)

theorem uploads_are_consumed_once_witness:
  "fi_storage_key (tv_file sheet_view) = up_storage_key sheet_row
     \<and> (\<forall>w db''. assign_asset_attachment env_6 guest_ctx 20 sheet_payload (snd assigned_1) \<noteq> (Inr w, db''))"
  using uploads_are_consumed_once [OF admin_scoped, of env_6 41 sheet_payload "db_1\<lparr>file_uploads := [sheet_row]\<rparr>" sheet_view
      "snd assigned_1"] assigned_eq
  by (auto simp: sheet_view_def)

lemma sheet_run: "(storage_step (sha256_hex env_5) (fs_local store_1))\<^sup>*\<^sup>* (db_1, \<lambda>_. None) (snd assigned_1, snd (snd uploaded_1))"
proof -
  have "storage_step (sha256_hex env_5) (fs_local store_1) (db_1, \<lambda>_. None) (db_1\<lparr>file_uploads := [sheet_row]\<rparr>, snd (snd uploaded_1))"
    using new_object_5 uploaded_eq by (intro storage_step.uploaded [of env_5 _ store_1]) auto
  moreover have "storage_step (sha256_hex env_5) (fs_local store_1)
      (db_1\<lparr>file_uploads := [sheet_row]\<rparr>, snd (snd uploaded_1)) (snd assigned_1, snd (snd uploaded_1))"
    using assigned_eq by (rule storage_step.item_assigned)
  ultimately show ?thesis
    by auto
qed

theorem attachments_stay_readable_witness:
  "\<exists>d. download_attachment env_6 store_1 admin_ctx 601 (snd assigned_1) (snd (snd uploaded_1)) = Inr d
     \<and> of_nat (length (dl_body d)) = (3 :: i64)"
proof -
  have "storage_ok (sha256_hex env_5) (fs_local store_1) (db_1, \<lambda>_. None)"
    by (simp add: storage_ok_def table_ok_def db_1_def)
  moreover have "fetch_attachment 601 (snd assigned_1) = Some sheet_view"
    by code_simp
  moreover have "validate_permission (snd assigned_1) (env_now env_6) (authorization_actor admin_ctx)
      AttachmentAssignment_resource (Read 601) = Inr True"
    by code_simp
  ultimately show ?thesis
    using attachments_stay_readable [OF sheet_run, of 601 sheet_view store_1 env_6 admin_ctx]
    by (auto simp: store_1_def sheet_view_def file_of_upload_def sheet_row_def)
qed

end
