(* ===== verification/Asset_Runs.thy ===== *)
theory Asset_Runs
  imports Asset_Invariant
begin

text \<open>
  Runs of the asset handlers: whatever assets are created, changed and deleted, the constraints
  hold, no table beside those of the assets changes, and the audit log only grows.
\<close>

section \<open>Transactions that end with a commit\<close>

definition commits :: "('e, 'a) tx \<Rightarrow> bool" where
  "commits m \<longleftrightarrow> (\<forall>db x db'. m db = Inr (x, db') \<longrightarrow> deferred_ok db')"

named_theorems commits_intros \<open>a transaction whose last write passes the deferred check\<close>

lemma commits_commit [commits_intros]: "commits (tx_bind commit (\<lambda>_. tx_return x))"
  by (auto simp: commits_def tx_bind_Inr commit_Inr tx_return_Inr)

lemma commits_bind [commits_intros]: "(\<And>x. commits (f x)) \<Longrightarrow> commits (tx_bind m f)"
  unfolding commits_def tx_bind_Inr by blast

lemma commits_prod [commits_intros]: "(\<And>a b. commits (f a b)) \<Longrightarrow> commits (case p of (a, b) \<Rightarrow> f a b)"
  by (cases p) auto

lemma commits_let [commits_intros]: "(\<And>x. commits (f x)) \<Longrightarrow> commits (let x = v in f x)"
  by (simp add: Let_def)

lemma create_commits: "commits (create_asset_in_transaction env ctx input)"
  unfolding create_asset_in_transaction_def
  by (rule commits_commit commits_bind commits_prod)+

lemma delete_commits: "commits (delete_asset_in_transaction env ctx i)"
  unfolding delete_asset_in_transaction_def Let_def
  by (rule commits_commit commits_bind)+

lemma update_commits: "commits (update_asset_in_transaction env ctx i inputs change)"
  unfolding update_asset_in_transaction_def Let_def
  by (rule commits_commit commits_bind commits_prod)+

section \<open>What a handler keeps\<close>

text \<open>\<open>P\<close> is any predicate that the statements of the asset routes keep.\<close>

definition kept_by_assets :: "(database \<Rightarrow> bool) \<Rightarrow> bool" where
  "kept_by_assets P \<longleftrightarrow>
     ignores_attachments P
     \<and> (\<forall>env i lab n. keeps P (insert_asset env i lab n))
     \<and> (\<forall>env i c m name model maker unit pn inn. keeps P (update_asset_in_database env i c m name model maker unit pn inn))
     \<and> (\<forall>i. keeps P (delete_asset_from_database i))
     \<and> (\<forall>env i lab a m item. keeps P (insert_asset_item_row env i lab a m item))
     \<and> (\<forall>env i q. keeps P (rescale_inventory_quantities env i q))
     \<and> (\<forall>env i lab a v. keeps P (upsert_asset_parameter_value env i lab a v))
     \<and> (\<forall>a p. keeps P (delete_asset_parameter_value a p))
     \<and> (\<forall>a ids. keeps P (delete_asset_attachments a ids))"

lemma keeps_graph:
  assumes "kept_by_assets P"
  shows "keeps P (insert_asset_graph env actor_user lab input)"
proof -
  have "keeps P (insert_asset_inventory_item env i lab a m item)" for i a m item
    unfolding insert_asset_inventory_item_def using assms
    by (intro keeps_intros) (simp add: kept_by_assets_def)
  then show ?thesis
    unfolding insert_asset_graph_def Let_def using assms
    by (intro keeps_intros keeps_assign_for_asset keeps_items keeps_parameter_updates)
       (simp_all add: kept_by_assets_def)
qed

lemma keeps_create:
  assumes "kept_by_assets P"
  shows "keeps P (create_asset_in_transaction env ctx input)"
  unfolding create_asset_in_transaction_def unexpected_def commit_def using assms
  by (intro keeps_intros keeps_graph keeps_audit_entry) (simp_all add: kept_by_assets_def)

lemma keeps_update:
  assumes "kept_by_assets P"
  shows "keeps P (update_asset_in_transaction env ctx i inputs change)"
proof -
  have "keeps P (convert_inventory_quantities_to_unit env a m source target)" for a m source target
    unfolding convert_inventory_quantities_to_unit_def using assms
    by (intro keeps_intros) (simp add: kept_by_assets_def)
  then show ?thesis
    unfolding update_asset_in_transaction_def unexpected_def commit_def Let_def using assms
    by (intro keeps_intros keeps_parameter_updates keeps_audit_entry) (simp_all add: kept_by_assets_def)
qed

lemma keeps_delete:
  assumes "kept_by_assets P"
  shows "keeps P (delete_asset_in_transaction env ctx i)"
  unfolding delete_asset_in_transaction_def unexpected_def commit_def Let_def using assms
  by (intro keeps_intros keeps_audit_entry) (simp_all add: kept_by_assets_def)

lemma tables_kept: "kept_by_assets asset_tables_ok"
  by (simp add: kept_by_assets_def ignores_asset_tables keeps_intros)

section \<open>The other tables\<close>

text \<open>\<open>same_rest db db'\<close>: no asset route writes these tables, and the log only grows.\<close>

definition same_rest :: "database \<Rightarrow> database \<Rightarrow> bool" where
  "same_rest db db' \<longleftrightarrow>
     laboratory_rows db' = laboratory_rows db \<and> user_types db' = user_types db \<and> users db' = users db
     \<and> unit_dimensions db' = unit_dimensions db \<and> units db' = units db \<and> locations db' = locations db
     \<and> asset_categories db' = asset_categories db \<and> asset_parameter_types db' = asset_parameter_types db
     \<and> parameter_options db' = parameter_options db \<and> parameter_assignments db' = parameter_assignments db
     \<and> label_printers db' = label_printers db \<and> guest_links db' = guest_links db
     \<and> registration_codes db' = registration_codes db \<and> prefix (audit_logs db) (audit_logs db')"

lemma same_rest_refl [simp]: "same_rest db db"
  by (simp add: same_rest_def)

lemma same_rest_trans: "same_rest db db' \<Longrightarrow> same_rest db' db'' \<Longrightarrow> same_rest db db''"
  unfolding same_rest_def by (metis prefix_order.trans)

lemma same_rest_frame [simp]:
  "same_rest db (db'\<lparr>assets := r1\<rparr>) = same_rest db db'"
  "same_rest db (db'\<lparr>inventory_items := r2\<rparr>) = same_rest db db'"
  "same_rest db (db'\<lparr>parameter_values := r3\<rparr>) = same_rest db db'"
  "same_rest db (db'\<lparr>file_uploads := r4\<rparr>) = same_rest db db'"
  "same_rest db (db'\<lparr>files := r5\<rparr>) = same_rest db db'"
  "same_rest db (db'\<lparr>attachments := r6\<rparr>) = same_rest db db'"
  "same_rest db (db'\<lparr>attachments := r6, files := r5\<rparr>) = same_rest db db'"
  by (simp_all add: same_rest_def)

lemma same_rest_deleted [simp]:
  "same_rest db (db'\<lparr>assets := r1, inventory_items := r2, attachments := r3, borrow_requests := r4,
     parameter_values := r5\<rparr>) = same_rest db db'"
  by (simp add: same_rest_def)

lemma rest_kept: "kept_by_assets (same_rest db)"
  unfolding kept_by_assets_def
proof (intro conjI allI)
  show "ignores_attachments (same_rest db)"
    unfolding ignores_attachments_def by (auto simp: same_rest_def)
  show "keeps (same_rest db) (insert_asset env i lab n)" for env i lab n
    unfolding insert_asset_def Let_def by (intro keeps_intros keeps_write) (auto split: option.splits)
  show "keeps (same_rest db) (update_asset_in_database env i c m name model maker unit pn inn)"
    for env i c m name model maker unit pn inn
    unfolding keeps_def by (auto elim!: update_asset_in_database_Inr)
  show "keeps (same_rest db) (delete_asset_from_database i)" for i
    unfolding keeps_def using delete_asset_frame same_rest_deleted by metis
  show "keeps (same_rest db) (insert_asset_item_row env i lab a m item)" for env i lab a m item
    unfolding keeps_def by (auto simp: insert_row_Inr elim!: insert_asset_item_row_Inr)
  show "keeps (same_rest db) (rescale_inventory_quantities env i q)" for env i q
    unfolding keeps_def by (auto elim!: rescale_Inr)
  show "keeps (same_rest db) (upsert_asset_parameter_value env i lab a v)" for env i lab a v
    unfolding keeps_def using upsert_Inr same_rest_frame(3) by metis
  show "keeps (same_rest db) (delete_asset_parameter_value a p)" for a p
    unfolding delete_asset_parameter_value_def by (rule keeps_write) auto
  show "keeps (same_rest db) (delete_asset_attachments a ids)" for a ids
    unfolding keeps_def delete_asset_attachments_def Let_def by (auto split: if_splits)
qed

section \<open>Runs\<close>

inductive asset_step :: "database \<Rightarrow> database \<Rightarrow> bool" where
  creation: "create_asset env ctx payload db = (r, db') \<Longrightarrow> asset_step db db'"
| change: "update_asset env ctx i payload db = (r, db') \<Longrightarrow> asset_step db db'"
| deletion: "delete_asset env st ctx i db disk = (r, db', disk') \<Longrightarrow> asset_step db db'"

lemma after_commit_db: "fst (snd (after_commit st outcome disk)) = snd outcome"
  by (auto simp: after_commit_def split: prod.splits sum.splits)

text \<open>A handler keeps what is kept, and ends with a database in which the deferred key holds.\<close>

lemma asset_handler:
  assumes "run_handler checked body db = (r, db')" and "\<And>c. keeps P (body c)" and "\<And>c. commits (body c)"
    and "P db" and "deferred_ok db"
  shows "P db' \<and> deferred_ok db'"
  using run_handler_outcome [OF assms(1)] assms(2-5) by (auto dest: keepsD simp: commits_def)

lemma asset_step_keeps:
  assumes "asset_step db db'" and "kept_by_assets P" and "P db" and "deferred_ok db"
  shows "P db' \<and> deferred_ok db'"
  using assms(1)
proof cases
  case (creation env ctx payload r)
  show ?thesis
    by (rule asset_handler [OF creation [unfolded create_asset_def]])
       (use assms(2-4) in \<open>blast intro: keeps_create create_commits\<close>)+
next
  case (change env ctx i payload r)
  show ?thesis
    by (rule asset_handler [OF change [unfolded update_asset_def]])
       (use assms(2-4) in \<open>blast intro: keeps_update update_commits\<close>)+
next
  case (deletion env st ctx i disk r disk')
  let ?run = "run_handler (require_permission env (authorization_actor ctx) Asset_resource (Delete i)
            (lit ''You don't have permission to delete this asset.'') db)
         (\<lambda>_. delete_asset_in_transaction env ctx i) db"
  have "db' = snd ?run"
    using deletion after_commit_db [of st ?run disk] by (simp add: delete_asset_def)
  then have "?run = (fst ?run, db')"
    by simp
  then show ?thesis
    by (rule asset_handler) (use assms(2-4) in \<open>blast intro: keeps_delete delete_commits\<close>)+
qed

interpretation asset_runs: invariant_system asset_step assets_ok same_rest
proof
  fix s t :: database
  assume ok: "assets_ok s" and step: "asset_step s t"
  show "assets_ok t"
    using asset_step_keeps [OF step tables_kept] ok by (simp add: assets_ok_def)
  show "same_rest s t"
    using asset_step_keeps [OF step rest_kept, of s] ok by (simp add: assets_ok_def)
qed (auto intro: same_rest_trans)

end
