(* ===== verification/Asset_Traces.thy ===== *)
theory Asset_Traces
  imports Asset_Runs
begin

text \<open>
  Successful requests of the asset routes read backwards: what a creation added, what a change
  wrote and what a deletion took away.
\<close>

section \<open>Creation\<close>

lemma ignores_columns:
  "(\<And>db x. f (db\<lparr>file_uploads := x\<rparr>) = f db) \<Longrightarrow> (\<And>db x. f (db\<lparr>files := x\<rparr>) = f db)
    \<Longrightarrow> (\<And>db x. f (db\<lparr>attachments := x\<rparr>) = f db) \<Longrightarrow> (\<And>db x. f (db\<lparr>audit_logs := x\<rparr>) = f db)
    \<Longrightarrow> ignores_attachments (\<lambda>db. f db = c)"
  by (simp add: ignores_attachments_def)

lemma keeps_columns:
  assumes "keeps (\<lambda>db. f db = f d) m" and "m d = Inr (x, d')"
  shows "f d' = f d"
  using keepsD [OF assms] by simp

text \<open>What the assignment of uploads, the insertion of items and the writing of values leave alone.\<close>

lemma assign_frame:
  assumes "assign_for_asset env n actor_user target lab news db = Inr (x, db')"
  shows "assets db' = assets db" and "inventory_items db' = inventory_items db"
    and "parameter_values db' = parameter_values db" and "units db' = units db"
    and "parameter_options db' = parameter_options db" and "asset_parameter_types db' = asset_parameter_types db"
  by (rule keeps_columns [OF keeps_assign_for_asset [OF ignores_columns] assms]; simp)+

text \<open>The row that holds a parsed item: every column the request gives, the quantities as the database casts them.\<close>

definition stores_item :: "env \<Rightarrow> new_item \<Rightarrow> inventory_row \<Rightarrow> bool" where
  "stores_item env n r \<longleftrightarrow>
     ii_serial_number r = ni_serial_number n \<and> ii_batch_number r = ni_batch_number n
     \<and> float8_numeric env (ni_quantity_on_hand n) = Some (ii_quantity_on_hand r)
     \<and> float8_numeric env (ni_quantity_allocated n) = Some (ii_quantity_allocated r)
     \<and> ii_location_id r = ni_location_id n \<and> ii_status r = InventoryStatus_as_str (ni_status n)
     \<and> ii_public_notes r = ni_public_notes n \<and> ii_internal_notes r = ni_internal_notes n"

lemma insert_row_appends:
  "insert_row r db = Inr db' \<Longrightarrow> db' = db\<lparr>inventory_items := inventory_items db @ [r]\<rparr>"
  by (simp add: insert_row_Inr)

lemma item_flow_Inr:
  assumes "insert_asset_inventory_item env i lab asset_id mode item db = Inr (w, db')"
  obtains r where "db' = db\<lparr>inventory_items := inventory_items db @ [r]\<rparr>" and "ii_asset_id r = asset_id"
    and "ii_laboratory_id r = lab" and "ii_tracking_mode r = AssetTrackingMode_as_str mode" and "stores_item env item r"
proof -
  have "insert_asset_item_row env i lab asset_id mode item db = Inr (w, db')"
    using assms by (auto simp: insert_asset_inventory_item_def tx_bind_Inr tx_read_Inr tx_return_Inr split: option.splits)
  then obtain q a where q: "float8_numeric env (ni_quantity_on_hand item) = Some q"
      "float8_numeric env (ni_quantity_allocated item) = Some a"
      and ins: "insert_row \<lparr>ii_inventory_item_id = i, ii_asset_id = asset_id, ii_laboratory_id = lab,
          ii_tracking_mode = AssetTrackingMode_as_str mode, ii_serial_number = ni_serial_number item,
          ii_batch_number = ni_batch_number item, ii_quantity_on_hand = q, ii_quantity_allocated = a,
          ii_location_id = ni_location_id item, ii_status = InventoryStatus_as_str (ni_status item),
          ii_public_notes = ni_public_notes item, ii_internal_notes = ni_internal_notes item,
          ii_created_at = env_now env, ii_updated_at = env_now env, ii_last_stocktake_at = None\<rparr> db = Inr db'"
    by (auto simp: insert_asset_item_row_def tx_map_err_Inr and_then_Inr_iff Let_def map_err_Inr_iff to_numeric_Inr)
  show thesis
    by (rule that [OF insert_row_appends [OF ins]]) (simp_all add: stores_item_def q)
qed

lemma items_Inr:
  assumes "insert_each_item env n actor_user lab asset_id mode inputs db = Inr (m, db')"
  shows "\<exists>rows. inventory_items db' = inventory_items db @ rows
    \<and> list_all2 (\<lambda>input. stores_item env (il_item input)) inputs rows
    \<and> (\<forall>r\<in>set rows. ii_asset_id r = asset_id \<and> ii_laboratory_id r = lab
         \<and> ii_tracking_mode r = AssetTrackingMode_as_str mode)
    \<and> assets db' = assets db \<and> parameter_values db' = parameter_values db \<and> units db' = units db
    \<and> parameter_options db' = parameter_options db \<and> asset_parameter_types db' = asset_parameter_types db"
  using assms
proof (induction inputs arbitrary: n db)
  case Nil
  then show ?case
    by (simp add: tx_return_Inr)
next
  case (Cons input inputs)
  obtain w db1 x db2 where item: "insert_asset_inventory_item env (env_new_v4 env n) lab asset_id mode (il_item input) db
        = Inr (w, db1)"
      and assign: "assign_for_asset env (Suc n) actor_user (InventoryItem_target (ii_inventory_item_id (ai_item w))) lab
        (il_attachments input) db1 = Inr (x, db2)"
      and rest: "insert_each_item env (Suc n + 2 * length (il_attachments input)) actor_user lab asset_id mode inputs db2
        = Inr (m, db')"
    using Cons.prems unfolding insert_each_item.simps tx_bind_Inr tx_map_err_Inr by blast
  obtain r where r: "db1 = db\<lparr>inventory_items := inventory_items db @ [r]\<rparr>" "ii_asset_id r = asset_id"
      "ii_laboratory_id r = lab" "ii_tracking_mode r = AssetTrackingMode_as_str mode" "stores_item env (il_item input) r"
    by (rule item_flow_Inr [OF item])
  obtain rows where rows: "inventory_items db' = inventory_items db2 @ rows"
      "list_all2 (\<lambda>input. stores_item env (il_item input)) inputs rows"
      "\<forall>r\<in>set rows. ii_asset_id r = asset_id \<and> ii_laboratory_id r = lab \<and> ii_tracking_mode r = AssetTrackingMode_as_str mode"
      "assets db' = assets db2" "parameter_values db' = parameter_values db2" "units db' = units db2"
      "parameter_options db' = parameter_options db2" "asset_parameter_types db' = asset_parameter_types db2"
    using Cons.IH [OF rest] by blast
  show ?case
    using r rows assign_frame [OF assign] by (intro exI [of _ "r # rows"]) simp
qed

text \<open>Values of other assets are not touched.\<close>

definition others_values :: "uuid \<Rightarrow> value_row list \<Rightarrow> database \<Rightarrow> bool" where
  "others_values i vs db \<longleftrightarrow>
     asset_tables_ok db \<and> filter (\<lambda>v. pv_asset_id v \<noteq> i) (parameter_values db) = vs"

lemma keeps_others_upsert: "keeps (others_values i vs) (upsert_asset_parameter_value env k lab i value)"
  unfolding keeps_def
proof (intro allI impI)
  fix db x db'
  assume o: "others_values i vs db" and run: "upsert_asset_parameter_value env k lab i value db = Inr (x, db')"
  have ok: "asset_tables_ok db"
    using o by (simp add: others_values_def)
  obtain rows where db': "db' = db\<lparr>parameter_values := rows\<rparr>"
    and rows: "(\<exists>v. v \<in> set (parameter_values db) \<and> pv_asset_id v = i
           \<and> pv_parameter_type_id v = rv_parameter_type_id value
           \<and> write_row (value_violation db) pv_value_id (set_value env value) (pv_value_id v) (parameter_values db) = Inr rows)
      \<or> (\<exists>v. pv_asset_id v = i \<and> pv_parameter_type_id v = rv_parameter_type_id value \<and> pv_laboratory_id v = lab
           \<and> value_violation db (parameter_values db) v = None \<and> rows = parameter_values db @ [v])"
    by (rule upsert_Inr [OF run])
  have "filter (\<lambda>v. pv_asset_id v \<noteq> i) rows = filter (\<lambda>v. pv_asset_id v \<noteq> i) (parameter_values db)"
    using rows
  proof (elim disjE exE conjE)
    fix v
    assume v: "v \<in> set (parameter_values db)" "pv_asset_id v = i"
      and w: "write_row (value_violation db) pv_value_id (set_value env value) (pv_value_id v) (parameter_values db) = Inr rows"
    have "pv_asset_id u = i" if "u \<in> set (parameter_values db)" "pv_value_id u = pv_value_id v" for u
      using value_table.unique [OF asset_tables_okD(6) [OF ok] that(1) v(1) that(2)] v(2) by simp
    then show ?thesis
      unfolding write_row_Inr [OF w] by (intro filter_update_rows) (simp add: set_value_def)
  qed simp
  then show "others_values i vs db'"
    using o keepsD [OF keeps_upsert run ok] by (simp add: others_values_def db')
qed

lemma keeps_others_delete: "keeps (others_values i vs) (delete_asset_parameter_value i p)"
  unfolding keeps_def
proof (intro allI impI)
  fix db x db'
  assume o: "others_values i vs db" and run: "delete_asset_parameter_value i p db = Inr (x, db')"
  then have "asset_tables_ok db'"
    using keepsD [OF keeps_delete_asset_value run] by (simp add: others_values_def)
  moreover have "parameter_values db' = filter (\<lambda>v. \<not> (pv_asset_id v = i \<and> pv_parameter_type_id v = p)) (parameter_values db)"
    using run by (auto simp: delete_asset_parameter_value_def tx_unfold)
  ultimately show "others_values i vs db'"
    using o by (simp add: others_values_def) (auto intro!: filter_cong)
qed

lemma keeps_but_values:
  assumes "\<And>d x. f (d\<lparr>parameter_values := x\<rparr>) = f d"
  shows "keeps (\<lambda>db. f db = c) (apply_asset_parameter_updates env n lab i inputs allow)"
proof (rule keeps_parameter_updates)
  show "keeps (\<lambda>db. f db = c) (upsert_asset_parameter_value env k lab i w)" for k w
    unfolding keeps_def by (auto elim!: upsert_Inr simp: assms)
  show "keeps (\<lambda>db. f db = c) (delete_asset_parameter_value i p)" for p
    unfolding delete_asset_parameter_value_def by (rule keeps_write) (auto simp: assms)
qed

lemma updates_frame:
  assumes "apply_asset_parameter_updates env n lab i inputs allow db = Inr (x, db')"
  shows "assets db' = assets db" and "inventory_items db' = inventory_items db"
  by (rule keeps_columns [OF keeps_but_values assms]; simp)+

text \<open>
  The row that holds a given value: it belongs to the asset and to a parameter of the laboratory,
  and its columns are those the JSON resolves to under that parameter.
\<close>

definition stores_value :: "env \<Rightarrow> database \<Rightarrow> uuid \<Rightarrow> uuid \<Rightarrow> uuid \<Rightarrow> json \<Rightarrow> value_row \<Rightarrow> bool" where
  "stores_value env db lab asset_id p value v \<longleftrightarrow>
     pv_asset_id v = asset_id \<and> pv_laboratory_id v = lab \<and> pv_parameter_type_id v = p
     \<and> (\<exists>d dt input. fetch_parameter_definitions lab [p] db p = Some d \<and> pv_data_type v = pd_data_type d
          \<and> DataType_parse (pd_data_type d) = Inr dt \<and> AssetParameterValue_parse env dt value = Inr input
          \<and> resolve_columns d input db = Inr (pv_columns v))"

lemma resolve_columns_cong:
  assumes "units db' = units db" and "parameter_options db' = parameter_options db"
  shows "resolve_columns d input db' = resolve_columns d input db"
  using assms
  by (cases "(d, input, db)" rule: resolve_columns.cases) (simp_all add: normalize_unit_value_def validate_option_def
      fetch_parameter_unit_def cong: option.case_cong)

lemma definition_id:
  "fetch_parameter_definitions lab ps db p = Some d \<Longrightarrow> pd_parameter_type_id d = p"
  by (auto simp: fetch_parameter_definitions_def split: if_splits dest: fetch_optional_Some)

lemma upsert_fresh:
  assumes "upsert_asset_parameter_value env k lab i value db = Inr (u, db')"
    and "\<forall>v\<in>set (parameter_values db). \<not> (pv_asset_id v = i \<and> pv_parameter_type_id v = rv_parameter_type_id value)"
  obtains v where "db' = db\<lparr>parameter_values := parameter_values db @ [v]\<rparr>" and "pv_asset_id v = i" and "pv_laboratory_id v = lab"
    and "pv_parameter_type_id v = rv_parameter_type_id value" and "pv_data_type v = rv_data_type value"
    and "pv_columns v = rv_columns value"
proof -
  have "fetch_optional (\<lambda>v. pv_asset_id v = i \<and> pv_parameter_type_id v = rv_parameter_type_id value) (parameter_values db) = None"
    using assms(2) fetch_optional_Some by (metis (mono_tags, lifting) not_None_eq)
  then show thesis
    using assms(1) by (intro that) (auto simp: upsert_asset_parameter_value_def tx_unfold Let_def split: option.splits)
qed

lemma new_values:
  assumes "apply_each_update env n lab i defs False (map (\<lambda>(p, j). \<lparr>vi_parameter_type_id = p, vi_value = Some j\<rparr>) vs) db = Inr (x, db')"
    and "distinct (map fst vs)" and "\<forall>v\<in>set (parameter_values db). pv_asset_id v = i \<longrightarrow> pv_parameter_type_id v \<notin> fst ` set vs"
    and "\<And>p. p \<in> fst ` set vs \<Longrightarrow> defs p = fetch_parameter_definitions lab [p] db0 p"
    and "units db = units db0" and "parameter_options db = parameter_options db0"
  shows "\<exists>rows. parameter_values db' = parameter_values db @ rows
    \<and> list_all2 (\<lambda>(p, j). stores_value env db0 lab i p j) vs rows"
  using assms
proof (induction vs arbitrary: n db)
  case Nil
  then show ?case
    by (simp add: tx_return_Inr)
next
  case (Cons pj vs)
  obtain p j where pj: "pj = (p, j)"
    by fastforce
  obtain d w db1 and u :: unit where d: "defs p = Some d" and res: "resolve_parameter_value env d j db = Inr w"
      and up: "upsert_asset_parameter_value env (env_new_v4 env n) lab i w db = Inr (u, db1)"
      and rest: "apply_each_update env (Suc n) lab i defs False (map (\<lambda>(p, j). \<lparr>vi_parameter_type_id = p, vi_value = Some j\<rparr>) vs) db1 = Inr (x, db')"
    using Cons.prems(1) unfolding pj by (auto simp: tx_bind_Inr tx_lift_Inr tx_read_Inr ok_or_Inr_iff)
  have def: "fetch_parameter_definitions lab [p] db0 p = Some d"
    using d Cons.prems(4) [of p] pj by simp
  obtain dt input columns where r: "DataType_parse (pd_data_type d) = Inr dt" "AssetParameterValue_parse env dt j = Inr input"
      "resolve_columns d input db = Inr columns"
      "w = \<lparr>rv_parameter_type_id = pd_parameter_type_id d, rv_data_type = pd_data_type d, rv_columns = columns\<rparr>"
    using res by (auto simp: resolve_parameter_value_def and_then_Inr_iff map_err_Inr_iff)
  have p: "rv_parameter_type_id w = p"
    using r(4) definition_id [OF def] by simp
  obtain v where v: "db1 = db\<lparr>parameter_values := parameter_values db @ [v]\<rparr>" "pv_asset_id v = i" "pv_laboratory_id v = lab"
      "pv_parameter_type_id v = p" "pv_data_type v = rv_data_type w" "pv_columns v = rv_columns w"
    using upsert_fresh [OF up] Cons.prems(3) pj p by auto
  have "stores_value env db0 lab i p j v"
    using v(2-6) def r resolve_columns_cong [OF Cons.prems(5,6)] by (auto simp: stores_value_def)
  moreover have d': "distinct (map fst vs)" "p \<notin> fst ` set vs"
    using Cons.prems(2) by (auto simp: pj)
  moreover have fresh: "\<forall>v\<in>set (parameter_values db1). pv_asset_id v = i \<longrightarrow> pv_parameter_type_id v \<notin> fst ` set vs"
    using Cons.prems(3) d'(2) v(4) by (auto simp: v(1))
  moreover have "defs q = fetch_parameter_definitions lab [q] db0 q" if "q \<in> fst ` set vs" for q
    using Cons.prems(4) [of q] that by auto
  moreover have "units db1 = units db0" "parameter_options db1 = parameter_options db0"
    using Cons.prems(5,6) by (simp_all add: v(1))
  moreover obtain rows where "parameter_values db' = parameter_values db1 @ rows"
      "list_all2 (\<lambda>(p, j). stores_value env db0 lab i p j) vs rows"
    using Cons.IH [OF rest calculation(2) calculation(4-7)] by blast
  ultimately show ?case
    using v(1) by (intro exI [of _ "v # rows"]) (simp add: pj)
qed

lemma updates_others:
  assumes "apply_asset_parameter_updates env n lab i inputs allow db = Inr (x, db')" and "asset_tables_ok db"
  shows "filter (\<lambda>v. pv_asset_id v \<noteq> i) (parameter_values db') = filter (\<lambda>v. pv_asset_id v \<noteq> i) (parameter_values db)"
    and "asset_tables_ok db'"
  using keepsD [OF keeps_parameter_updates assms(1), of "others_values i (filter (\<lambda>v. pv_asset_id v \<noteq> i) (parameter_values db))"]
    keeps_others_upsert keeps_others_delete assms(2)
  by (auto simp: others_values_def)

text \<open>The row that holds a parsed asset.\<close>

definition stores_asset :: "new_asset \<Rightarrow> asset_row \<Rightarrow> bool" where
  "stores_asset n a \<longleftrightarrow>
     as_category_id a = ns_category_id n \<and> as_tracking_mode a = AssetTrackingMode_as_str (ns_tracking_mode n)
     \<and> as_name a = ns_name n \<and> as_model a = ns_model n \<and> as_manufacturer a = ns_manufacturer n
     \<and> as_inventory_unit_id a = ns_inventory_unit_id n \<and> as_public_notes a = ns_public_notes n
     \<and> as_internal_notes a = ns_internal_notes n"

lemma insert_asset_Inr:
  assumes "insert_asset env i lab n db = Inr (v, db')"
  shows "as_asset_id (av_asset v) = i" and "as_laboratory_id (av_asset v) = lab"
    and "as_category_id (av_asset v) = ns_category_id n" and "as_name (av_asset v) = ns_name n"
    and "stores_asset n (av_asset v)" and "as_tracking_mode (av_asset v) = AssetTrackingMode_as_str (ns_tracking_mode n)"
    and "asset_violation db (assets db) (av_asset v) = None" and "db' = db\<lparr>assets := assets db @ [av_asset v]\<rparr>"
  using assms by (auto simp: insert_asset_def Let_def tx_unfold stores_asset_def split: option.splits)

lemma validate_required_Inr:
  "validate_required_parameters lab i (Some c) db = Inr u \<longleftrightarrow>
     (\<forall>p. required_by db lab c p \<longrightarrow>
        (\<exists>v\<in>set (parameter_values db). pv_laboratory_id v = lab \<and> pv_asset_id v = i \<and> pv_parameter_type_id v = p))"
proof -
  have "required_by db lab c p \<Longrightarrow> p \<in> set (map ag_parameter_type_id (parameter_assignments db))" for p
    by (auto simp: required_by_def)
  then have "set (fetch_required_parameters lab c db) = {p. required_by db lab c p}"
    by (auto simp: fetch_required_parameters_def)
  then show ?thesis
    by (auto simp: validate_required_parameters_def ensure_Inr_iff Let_def list_all_iff
        fetch_parameter_type_ids_with_values_def)
qed

lemma graph_Inr:
  assumes run: "insert_asset_graph env actor_user lab input db = Inr (i, db')" and ok: "asset_tables_ok db"
  obtains a rows where "assets db' = assets db @ [a]" and "as_asset_id a = i" and "as_laboratory_id a = lab"
    and "stores_asset (in_asset input) a"
    and "asset_violation db (assets db) a = None"
    and "validate_category lab (as_category_id a) db = Inr ()"
    and "validate_required_parameters lab i (as_category_id a) db' = Inr ()"
    and "inventory_items db' = inventory_items db @ rows" 
    and "list_all2 (\<lambda>x. stores_item env (il_item x)) (in_inventory_items input) rows"
    and "\<forall>r\<in>set rows. ii_asset_id r = i \<and> ii_laboratory_id r = lab \<and> ii_tracking_mode r = as_tracking_mode a"
    and "\<And>vs. in_parameter_values input = map (\<lambda>(p, j). \<lparr>vi_parameter_type_id = p, vi_value = Some j\<rparr>) vs \<Longrightarrow>
       \<exists>rows. parameter_values db' = parameter_values db @ rows
         \<and> list_all2 (\<lambda>(p, j). stores_value env db lab i p j) vs rows"
    and "asset_tables_ok db'"
proof -
  obtain u v db1 x1 db2 n db3 x3 where cat: "validate_category lab (ns_category_id (in_asset input)) db = Inr u"
      and ins: "insert_asset env (env_new_v4 env 0) lab (in_asset input) db = Inr (v, db1)"
      and assign: "assign_for_asset env 1 actor_user (Asset_target (as_asset_id (av_asset v))) lab
        (in_attachments input) db1 = Inr (x1, db2)"
      and items: "insert_each_item env (1 + 2 * length (in_attachments input)) actor_user lab (as_asset_id (av_asset v))
        (ns_tracking_mode (in_asset input)) (in_inventory_items input) db2 = Inr (n, db3)"
      and upd: "apply_asset_parameter_updates env n lab (as_asset_id (av_asset v)) (in_parameter_values input) False db3
        = Inr (x3, db')"
      and req: "validate_required_parameters lab (as_asset_id (av_asset v)) (as_category_id (av_asset v)) db' = Inr ()"
      and i: "i = as_asset_id (av_asset v)"
    using run unfolding insert_asset_graph_def Let_def tx_bind_Inr tx_map_err_Inr tx_read_Inr tx_return_Inr
    by (metis old.unit.exhaust)
  note a = insert_asset_Inr [OF ins]
  have ok3: "asset_tables_ok db3"
  proof -
    have "asset_tables_ok db1"
      by (rule keepsD [OF keeps_insert_asset ins ok])
    then have "asset_tables_ok db2"
      by (rule keepsD [OF keeps_assign_for_asset [OF ignores_asset_tables] assign])
    then show ?thesis
      by (rule keepsD [OF keeps_items [OF ignores_asset_tables keeps_item_flow] items])
  qed
  obtain rows where rows: "inventory_items db3 = inventory_items db2 @ rows"
      "list_all2 (\<lambda>x. stores_item env (il_item x)) (in_inventory_items input) rows"
      "\<forall>r\<in>set rows. ii_asset_id r = i \<and> ii_laboratory_id r = lab
         \<and> ii_tracking_mode r = AssetTrackingMode_as_str (ns_tracking_mode (in_asset input))"
      "assets db3 = assets db2" "parameter_values db3 = parameter_values db2" "units db3 = units db2"
      "parameter_options db3 = parameter_options db2" "asset_parameter_types db3 = asset_parameter_types db2"
    using items_Inr [OF items] i by blast
  have "pv_asset_id w \<noteq> i" if "w \<in> set (parameter_values db)" for w
  proof -
    have "i \<notin> as_asset_id ` set (assets db)"
      using a(7) i by (auto simp: asset_violation_def split: if_splits)
    then show ?thesis
      using asset_tables_okD(7) [OF ok] that unfolding values_refer_def by force
  qed
  note unused = this
  have same: "parameter_values db3 = parameter_values db" "units db3 = units db"
      "parameter_options db3 = parameter_options db" "asset_parameter_types db3 = asset_parameter_types db"
    using rows assign_frame [OF assign] a(8) by simp_all
  have vals: "\<exists>rows. parameter_values db' = parameter_values db @ rows
       \<and> list_all2 (\<lambda>(p, j). stores_value env db lab i p j) vs rows"
    if vs: "in_parameter_values input = map (\<lambda>(p, j). \<lparr>vi_parameter_type_id = p, vi_value = Some j\<rparr>) vs" for vs
  proof -
    have ids: "map vi_parameter_type_id (in_parameter_values input) = map fst vs"
      by (auto simp: vs)
    have d: "distinct (map vi_parameter_type_id (in_parameter_values input))"
      and loop: "apply_each_update env n lab i
        (fetch_parameter_definitions lab (map vi_parameter_type_id (in_parameter_values input)) db3) False
        (in_parameter_values input) db3 = Inr (x3, db')"
      using upd unfolding apply_asset_parameter_updates_def tx_bind_Inr tx_lift_Inr tx_read_Inr i [symmetric]
      by (auto simp: validate_unique_parameter_inputs_def ensure_Inr_iff)
    show ?thesis
      using new_values [OF loop [unfolded ids, unfolded vs] d [unfolded ids], of db] unused same by (auto simp: fetch_parameter_definitions_def)
  qed
  have frame: "assets db' = assets db @ [av_asset v]" "inventory_items db' = inventory_items db @ rows"
    using rows assign_frame [OF assign] updates_frame [OF upd] a(8) by simp_all
  show thesis
    by (rule that [OF frame(1) _ _ _ _ _ _ frame(2) rows(2) _ vals])
       (use a i cat req rows(3) updates_others(2) [OF upd ok3] in simp_all)
qed

section \<open>The end of a transaction\<close>

lemma read_graph_Inr:
  assumes "read_asset_graph env i missing db = Inr ((w, items, values), db')"
  shows "db' = db" and "fetch_optional (\<lambda>a. as_asset_id a = i) (assets db) = Some (av_asset w)"
  using assms
  by (auto simp: read_asset_graph_def tx_unfold ok_or_Inr_iff fetch_asset_for_update_def fetch_asset_def
      transpose_with_Inr_iff asset_select_def and_then_Inr_iff Let_def split: option.splits)

lemma response_asset [simp]:
  "av_asset (sr_asset (AssetResponse_from_parts env w items values True)) = av_asset w"
  by (simp add: AssetResponse_from_parts_def)

lemma create_asset_Inr:
  assumes "create_asset env ctx payload db = (Inr r, db')"
  obtains input i db1 w where "CreateAssetInput_try_from env payload = Inr input"
    and "insert_asset_graph env (actor_user_id (ctx_actor ctx)) (ctx_laboratory_id ctx) input db = Inr (i, db1)"
    and "fetch_optional (\<lambda>a. as_asset_id a = i) (assets db1) = Some (av_asset (w :: asset_view))"
    and "av_asset (sr_asset r) = av_asset w" and "\<exists>es. db' = db1\<lparr>audit_logs := es\<rparr>"
proof -
  obtain input where input: "CreateAssetInput_try_from env payload = Inr input"
      and t: "create_asset_in_transaction env ctx input db = Inr (r, db')"
    using assms by (auto simp: create_asset_def run_handler_Inr and_then_Inr_iff map_err_Inr_iff)
  obtain i db1 w items vals db2 x db3 where
      g: "insert_asset_graph env (actor_user_id (ctx_actor ctx)) (ctx_laboratory_id ctx) input db = Inr (i, db1)"
      and rd: "read_asset_graph env i (lit ''Created asset not found'') db1 = Inr ((w, items, vals), db2)"
      and log: "record_audit (actor_user_id (ctx_actor ctx)) Audit_Create Res_Asset (Some (as_asset_id (av_asset w)))
         (Details_create_asset (as_asset_id (av_asset w))) db2 = Inr (x, db3)"
      and out: "db' = db3" "r = AssetResponse_from_parts env w (Some items) (Some vals) True"
    using t unfolding create_asset_in_transaction_def tx_bind_Inr tx_case_prod unexpected_Inr commit_Inr tx_return_Inr
    by blast
  show thesis
    using that [OF input g, of w] read_graph_Inr [OF rd] record_audit_entry [OF log] out by auto
qed

section \<open>Change\<close>

lemma fetch_asset_Some:
  assumes "fetch_asset env i db = Inr (Some v)"
  shows "asset_row_of db i = Some (av_asset v)" and "as_asset_id (av_asset v) = i"
    and "av_inventory_item_count v = int (length (items_of i db))"
proof -
  have row: "asset_row_of db i = Some (av_asset v)" and n: "av_inventory_item_count v
      = int (length (items_of (as_asset_id (av_asset v)) db))"
    using assms by (auto simp: fetch_asset_def asset_row_of_def transpose_with_Inr_iff asset_select_def
        and_then_Inr_iff Let_def split: option.splits)
  show "asset_row_of db i = Some (av_asset v)"
    by (rule row)
  show "as_asset_id (av_asset v) = i"
    using fetch_optional_Some [OF row [unfolded asset_row_of_def]] by simp
  with n show "av_inventory_item_count v = int (length (items_of i db))"
    by simp
qed

lemma resolve_tracking_mode_Inr:
  assumes "resolve_tracking_mode change existing = Inr mode" and "av_inventory_item_count existing > 0"
  shows "trim (as_tracking_mode (av_asset existing)) = AssetTrackingMode_as_str mode"
proof -
  obtain current where c: "AssetTrackingMode_parse (as_tracking_mode (av_asset existing)) = Inr current"
      and m: "mode = current"
    using assms by (auto simp: resolve_tracking_mode_def and_then_Inr_iff map_err_Inr_iff Let_def split: if_splits)
  then show ?thesis
    by (auto simp: AssetTrackingMode_parse_def split: if_splits)
qed

lemma update_asset_in_transaction_Inr:
  assumes "update_asset_in_transaction env ctx i inputs change db = Inr (r, db')"
  obtains existing mode db1 db2 db3 x w items vals db4 y and u1 u2 :: unit where
      "fetch_asset env i db = Inr (Some existing)" and "resolve_tracking_mode change existing = Inr mode"
      and "update_asset_in_database env (as_asset_id (av_asset existing))
         (resolve_update (sc_category_id change) (as_category_id (av_asset existing))) mode
         (coalesce (sc_name change) (as_name (av_asset existing)))
         (resolve_update (sc_model change) (as_model (av_asset existing)))
         (resolve_update (sc_manufacturer change) (as_manufacturer (av_asset existing)))
         (coalesce (sc_inventory_unit_id change) (as_inventory_unit_id (av_asset existing)))
         (resolve_update (sc_public_notes change) (as_public_notes (av_asset existing)))
         (resolve_update (sc_internal_notes change) (as_internal_notes (av_asset existing))) db = Inr (u1, db1)"
      and "convert_inventory_quantities_to_unit env (as_asset_id (av_asset existing)) mode
         (as_inventory_unit_id (av_asset existing))
         (coalesce (sc_inventory_unit_id change) (as_inventory_unit_id (av_asset existing))) db1 = Inr (u2, db2)"
      and "(case inputs of None \<Rightarrow> tx_return () | Some inputs \<Rightarrow>
         tx_map_err from_db_error (apply_asset_parameter_updates env 0 (as_laboratory_id (av_asset existing))
           (as_asset_id (av_asset existing)) inputs True)) db2 = Inr (x, db3)"
      and "read_asset_graph env (as_asset_id (av_asset existing)) (lit ''Updated asset not found'') db3
         = Inr ((w, items, vals), db4)"
      and "\<exists>act res k d. record_audit (actor_user_id (ctx_actor ctx)) act res k d db4 = Inr (y, db')"
  using assms unfolding update_asset_in_transaction_def Let_def tx_bind_Inr tx_map_err_Inr tx_read_Inr tx_lift_Inr
    unexpected_Inr commit_Inr tx_return_Inr tx_case_prod fetch_asset_for_update_def ok_or_Inr_iff
  by blast

lemma update_asset_Inr:
  assumes "update_asset env ctx i payload db = (Inr r, db')"
  obtains change db1 db2 and existing :: asset_view where "UpdateAsset_try_from env payload = Inr change"
    and "validate_permission db (env_now env) (authorization_actor ctx) Asset_resource (Update i) = Inr True"
    and "asset_row_of db i = Some (av_asset existing)" and "as_asset_id (av_asset existing) = i"
    and "\<exists>mode c name model maker pn inn. (items_of i db \<noteq> [] \<longrightarrow> trim (as_tracking_mode (av_asset existing)) = AssetTrackingMode_as_str mode)
        \<and> update_asset_in_database env i c mode name model maker
            (coalesce (sc_inventory_unit_id change) (as_inventory_unit_id (av_asset existing))) pn inn db = Inr ((), db1)
        \<and> convert_inventory_quantities_to_unit env i mode (as_inventory_unit_id (av_asset existing))
            (coalesce (sc_inventory_unit_id change) (as_inventory_unit_id (av_asset existing))) db1 = Inr ((), db2)"
    and "assets db' = assets db2" and "inventory_items db' = inventory_items db2"
proof -
  obtain change where c: "UpdateAsset_try_from env payload = Inr change"
      and perm: "validate_permission db (env_now env) (authorization_actor ctx) Asset_resource (Update i) = Inr True"
      and "update_asset_in_transaction env ctx i (map_option (map changed_value_input) (ax_parameters payload)) change db
        = Inr (r, db')"
    using assms by (auto simp: update_asset_def run_handler_Inr and_then_Inr_iff map_err_Inr_iff require_permission_Inr)
  then obtain inputs where t: "update_asset_in_transaction env ctx i inputs change db = Inr (r, db')"
    by blast
  obtain existing mode db1 db2 db3 x w items vals db4 y and u1 u2 :: unit where e: "fetch_asset env i db = Inr (Some existing)"
      and mode: "resolve_tracking_mode change existing = Inr mode"
      and raw: "update_asset_in_database env (as_asset_id (av_asset existing))
         (resolve_update (sc_category_id change) (as_category_id (av_asset existing))) mode
         (coalesce (sc_name change) (as_name (av_asset existing)))
         (resolve_update (sc_model change) (as_model (av_asset existing)))
         (resolve_update (sc_manufacturer change) (as_manufacturer (av_asset existing)))
         (coalesce (sc_inventory_unit_id change) (as_inventory_unit_id (av_asset existing)))
         (resolve_update (sc_public_notes change) (as_public_notes (av_asset existing)))
         (resolve_update (sc_internal_notes change) (as_internal_notes (av_asset existing))) db = Inr (u1, db1)"
        "convert_inventory_quantities_to_unit env (as_asset_id (av_asset existing)) mode
         (as_inventory_unit_id (av_asset existing))
         (coalesce (sc_inventory_unit_id change) (as_inventory_unit_id (av_asset existing))) db1 = Inr (u2, db2)"
      and par: "(case inputs of None \<Rightarrow> tx_return () | Some inputs \<Rightarrow>
         tx_map_err from_db_error (apply_asset_parameter_updates env 0 (as_laboratory_id (av_asset existing))
           (as_asset_id (av_asset existing)) inputs True)) db2 = Inr (x, db3)"
      and rd: "read_asset_graph env (as_asset_id (av_asset existing)) (lit ''Updated asset not found'') db3
         = Inr ((w, items, vals), db4)"
      and log: "\<exists>act res k d. record_audit (actor_user_id (ctx_actor ctx)) act res k d db4 = Inr (y, db')"
    by (rule update_asset_in_transaction_Inr [OF t])
  note v = fetch_asset_Some [OF e]
  let ?old = "av_asset existing"
  let ?unit = "coalesce (sc_inventory_unit_id change) (as_inventory_unit_id ?old)"
  note up = raw(1) [unfolded v(2)] and conv = raw(2) [unfolded v(2)]
  have f3: "assets db3 = assets db2" "inventory_items db3 = inventory_items db2"
    using par by (auto simp: tx_map_err_Inr tx_return_Inr dest: updates_frame split: option.splits)
  have f4: "assets db' = assets db3" "inventory_items db' = inventory_items db3"
    using read_graph_Inr(1) [OF rd] log by (auto dest!: record_audit_entry)
  show thesis
  proof (rule that [OF c perm v(1) v(2)])
    show "\<exists>mode c name model maker pn inn. (items_of i db \<noteq> [] \<longrightarrow> trim (as_tracking_mode ?old) = AssetTrackingMode_as_str mode)
        \<and> update_asset_in_database env i c mode name model maker ?unit pn inn db = Inr ((), db1)
        \<and> convert_inventory_quantities_to_unit env i mode (as_inventory_unit_id ?old) ?unit db1 = Inr ((), db2)"
      using up conv resolve_tracking_mode_Inr [OF mode] v(3) unfolding old.unit.exhaust [of u1] by fastforce
  qed (use f3 f4 in simp_all)
qed

text \<open>The conversion: nothing for the same unit, otherwise a factor on every row of the asset.\<close>

lemma convert_Inr:
  assumes "convert_inventory_quantities_to_unit env i mode source target db = Inr (u, db')" and "source \<noteq> target"
  obtains s t where "fetch_unit source db = Some s" and "fetch_unit target db = Some t"
    and "un_dimension s = un_dimension t" and "assets db' = assets db"
    and "mode = Serialized \<longrightarrow> inventory_items db' = inventory_items db"
    and "mode \<noteq> Serialized \<longrightarrow> (\<exists>q. (items_of i db \<noteq> [] \<longrightarrow>
          float8_numeric env (f64_div (un_scale_to_base s) (un_scale_to_base t)) = Some q)
        \<and> inventory_items db' = update_rows (\<lambda>r. ii_asset_id r = i) (rescale_row q (env_now env)) (inventory_items db))"
proof -
  obtain s t where st: "fetch_unit source db = Some s" "fetch_unit target db = Some t" "un_dimension s = un_dimension t"
      and rest: "(if mode = Serialized then tx_return ()
         else rescale_inventory_quantities env i (f64_div (un_scale_to_base s) (un_scale_to_base t))) db = Inr (u, db')"
    using assms by (auto simp: convert_inventory_quantities_to_unit_def tx_unfold fetch_parameter_unit_def
        fetch_unit_def ok_or_Inr_iff ensure_Inr_iff)
  have "assets db' = assets db"
    using rest by (auto simp: tx_return_Inr elim!: rescale_Inr split: if_splits)
  moreover have "inventory_items db' = inventory_items db" if "mode = Serialized"
    using rest that by (simp add: tx_return_Inr)
  moreover have "\<exists>q. (items_of i db \<noteq> [] \<longrightarrow>
          float8_numeric env (f64_div (un_scale_to_base s) (un_scale_to_base t)) = Some q)
        \<and> inventory_items db' = update_rows (\<lambda>r. ii_asset_id r = i) (rescale_row q (env_now env)) (inventory_items db)"
    if "mode \<noteq> Serialized"
  proof -
    have run: "rescale_inventory_quantities env i (f64_div (un_scale_to_base s) (un_scale_to_base t)) db = Inr (u, db')"
      using rest that by simp
    show ?thesis
      by (rule rescale_Inr [OF run]) auto
  qed
  ultimately show thesis
    using that st by blast
qed

section \<open>Deletion\<close>

lemma items_read:
  assumes "fetch_inventory_items_for_asset env i db = Inr ws"
  shows "set (map (\<lambda>w. ii_inventory_item_id (ai_item w)) ws) = ii_inventory_item_id ` set (items_of i db)"
proof -
  have "map ai_item ws = sort_key (\<lambda>r. (ii_created_at r, ii_inventory_item_id r)) (items_of i db)"
    if "collect_map (item_of_asset env) rs = Inr ws" "rs = sort_key (\<lambda>r. (ii_created_at r, ii_inventory_item_id r)) (items_of i db)"
    for rs
  proof -
    have "map ai_item ws = rs"
      using that(1)
      by (induction rs arbitrary: ws) (auto simp: item_of_asset_def and_then_Inr_iff)
    with that(2) show ?thesis
      by simp
  qed
  then have "map ai_item ws = sort_key (\<lambda>r. (ii_created_at r, ii_inventory_item_id r)) (items_of i db)"
    using assms by (simp add: fetch_inventory_items_for_asset_def)
  then have "set (map ai_item ws) = set (items_of i db)"
    by simp
  then show ?thesis
    by (simp flip: image_image)
qed

lemma delete_attachments_of_asset:
  assumes "delete_asset_attachments i ids db = Inr (deleted, db')"
    and "set ids = ii_inventory_item_id ` set (items_of i db)"
  shows "db' = db\<lparr>attachments := filter (\<lambda>a. \<not> hangs_off i db a) (attachments db),
      files := filter (\<lambda>f. fi_file_id f \<notin> at_file_id ` {a \<in> set (attachments db). hangs_off i db a}) (files db)\<rparr>"
    and "\<And>f. f \<in> set (files db) \<Longrightarrow> f \<notin> set (files db') \<Longrightarrow> fi_storage_key f \<in> set (map snd deleted)"
proof -
  have goes: "(at_asset_id a = Some i
      \<or> (case at_inventory_item_id a of None \<Rightarrow> False | Some k \<Rightarrow> k \<in> set ids)) = hangs_off i db a" for a
    by (cases "at_inventory_item_id a") (simp_all add: hangs_off_def of_item_of_def assms(2))
  have sets: "set (filter (hangs_off i db) (attachments db)) = {a \<in> set (attachments db). hangs_off i db a}"
    by auto
  show db': "db' = db\<lparr>attachments := filter (\<lambda>a. \<not> hangs_off i db a) (attachments db),
      files := filter (\<lambda>f. fi_file_id f \<notin> at_file_id ` {a \<in> set (attachments db). hangs_off i db a}) (files db)\<rparr>"
    using assms(1) unfolding delete_asset_attachments_def Let_def goes
    by (auto simp: sets split: if_splits)
  have d: "(at_attachment_id a, fi_storage_key f) \<in> set deleted"
    if "a \<in> set (attachments db)" "hangs_off i db a" "f \<in> set (files db)" "fi_file_id f = at_file_id a" for a f
  proof -
    have "deleted = sort_key fst (concat (map (\<lambda>a. map (\<lambda>f. (at_attachment_id a, fi_storage_key f))
        (filter (\<lambda>f. fi_file_id f = at_file_id a) (files db))) (filter (hangs_off i db) (attachments db))))"
      using assms(1) unfolding delete_asset_attachments_def Let_def goes by (auto split: if_splits)
    then show ?thesis
      using that by auto
  qed
  show "fi_storage_key f \<in> set (map snd deleted)" if f: "f \<in> set (files db)" "f \<notin> set (files db')" for f
  proof -
    obtain a where "a \<in> set (attachments db)" "hangs_off i db a" "fi_file_id f = at_file_id a"
      using f by (auto simp: db')
    then show ?thesis
      using d [OF _ _ f(1)] by force
  qed
qed

end
