(* ===== verification/Asset_Properties.thy ===== *)
theory Asset_Properties
  imports Asset_Traces Parameter_Properties
begin

text \<open>Assets with their stock, their parameter values and their files: the properties.\<close>

section \<open>Creation\<close>

text \<open>What a payload asks for: one parsed item per entry, one value per parameter it names.\<close>

definition asks_for_item :: "env \<Rightarrow> asset_tracking_mode \<Rightarrow> item_payload \<Rightarrow> inventory_row \<Rightarrow> bool" where
  "asks_for_item env mode p w \<longleftrightarrow>
     (\<exists>n. NewItem_parse_for_tracking_mode env mode (aj_serial_number p) (aj_batch_number p)
         (aj_quantity_on_hand p) (aj_quantity_allocated p) (aj_location_id p) (aj_status p) (aj_public_notes p)
         (aj_internal_notes p) = Inr n \<and> stores_item env n w)"

lemma collect_map_all2:
  "collect_map f xs = Inr ys \<Longrightarrow> list_all2 (\<lambda>x y. f x = Inr y) xs ys"
  by (induction xs arbitrary: ys) (auto simp: and_then_Inr_iff)

lemma create_input:
  assumes "CreateAssetInput_try_from env payload = Inr input"
  shows "NewAsset_try_from env payload = Inr (in_asset input)"
    and "in_parameter_values input = map (\<lambda>(p, j). \<lparr>vi_parameter_type_id = p, vi_value = Some j\<rparr>) (coalesce (aa_parameters payload) [])"
    and "list_all2 (\<lambda>p x. NewInventoryItemInput_parse env (ns_tracking_mode (in_asset input)) p = Inr x)
      (coalesce (aa_inventory_items payload) []) (in_inventory_items input)"
  using assms by (auto simp: CreateAssetInput_try_from_def and_then_Inr_iff Let_def collect_map_all2)

lemma asked_asset:
  assumes "NewAsset_try_from env p = Inr n" and "stores_asset n a"
  shows "AssetTrackingMode_parse (aa_tracking_mode p) = Inr (ns_tracking_mode n)"
    and "as_tracking_mode a = AssetTrackingMode_as_str (ns_tracking_mode n)"
    and "AssetName_parse env (aa_name p) = Inr (as_name a)" and "as_category_id a = aa_category_id p"
    and "as_inventory_unit_id a = aa_inventory_unit_id p" and "as_model a = empty_to_none (aa_model p)"
    and "as_manufacturer a = empty_to_none (aa_manufacturer p)"
    and "as_public_notes a = empty_to_none (aa_public_notes p)"
    and "as_internal_notes a = empty_to_none (aa_internal_notes p)"
  using assms by (auto simp: NewAsset_try_from_def and_then_Inr_iff stores_asset_def)

lemma asked_items:
  assumes "list_all2 (\<lambda>p x. NewInventoryItemInput_parse env mode p = Inr x) ps xs"
    and "list_all2 (\<lambda>x. stores_item env (il_item x)) xs rows"
  shows "list_all2 (asks_for_item env mode) ps rows"
proof -
  have each: "(\<lambda>p x. NewInventoryItemInput_parse env mode p = Inr x) OO (\<lambda>x. stores_item env (il_item x)) \<le> asks_for_item env mode"
    by (auto simp: NewInventoryItemInput_parse_def and_then_Inr_iff asks_for_item_def)
  have "list_all2 ((\<lambda>p x. NewInventoryItemInput_parse env mode p = Inr x) OO (\<lambda>x. stores_item env (il_item x))) ps rows"
    using assms by (auto simp: list.rel_compp)
  then show ?thesis
    by (rule list_all2_mono) (rule each [THEN predicate2D])
qed

text \<open>
  C37. An asset that is created gets an id, the laboratory of the request and the columns of the
  payload: category, unit, tracking mode, name, and the texts that are not empty. Its items are
  those of the payload, one each, in order and no others, with the parsed serial and batch number,
  location, status and notes and both quantities as cast by the database, under the asset's
  laboratory and tracking mode. Its parameter values are those of the payload, one each, in order
  and no others, resolved under the parameter they name, and there is exactly one for every
  parameter the category requires, by itself or through an ancestor. Items and values of other
  assets stay, and the tables keep their constraints.
\<close>

theorem created_asset_has_what_its_category_requires:
  assumes "assets_ok db" and "create_asset env ctx payload db = (Inr r, db')"
  shows "\<exists>a rows vs mode. assets db' = assets db @ [a] \<and> av_asset (sr_asset r) = a
     \<and> as_laboratory_id a = ctx_laboratory_id ctx \<and> as_category_id a = aa_category_id payload
     \<and> AssetTrackingMode_parse (aa_tracking_mode payload) = Inr mode
     \<and> as_tracking_mode a = AssetTrackingMode_as_str mode
     \<and> AssetName_parse env (aa_name payload) = Inr (as_name a)
     \<and> as_inventory_unit_id a = aa_inventory_unit_id payload
     \<and> as_model a = empty_to_none (aa_model payload) \<and> as_manufacturer a = empty_to_none (aa_manufacturer payload)
     \<and> as_public_notes a = empty_to_none (aa_public_notes payload)
     \<and> as_internal_notes a = empty_to_none (aa_internal_notes payload)
     \<and> inventory_items db' = inventory_items db @ rows
     \<and> list_all2 (asks_for_item env mode) (coalesce (aa_inventory_items payload) []) rows
     \<and> (\<forall>w\<in>set rows. ii_asset_id w = as_asset_id a \<and> ii_laboratory_id w = as_laboratory_id a
          \<and> ii_tracking_mode w = as_tracking_mode a)
     \<and> parameter_values db' = parameter_values db @ vs
     \<and> list_all2 (\<lambda>(p, j). stores_value env db (as_laboratory_id a) (as_asset_id a) p j)
          (coalesce (aa_parameters payload) []) vs
     \<and> (\<forall>c p. as_category_id a = Some c \<and> required_by db' (as_laboratory_id a) c p \<longrightarrow>
          (\<exists>!v. v \<in> set (parameter_values db') \<and> pv_asset_id v = as_asset_id a \<and> pv_parameter_type_id v = p))
     \<and> assets_ok db'"
proof -
  obtain input i db1 and w :: asset_view where input: "CreateAssetInput_try_from env payload = Inr input"
      and g: "insert_asset_graph env (actor_user_id (ctx_actor ctx)) (ctx_laboratory_id ctx) input db = Inr (i, db1)"
      and w: "fetch_optional (\<lambda>a. as_asset_id a = i) (assets db1) = Some (av_asset w)" "av_asset (sr_asset r) = av_asset w"
      and log: "\<exists>es. db' = db1\<lparr>audit_logs := es\<rparr>"
    by (rule create_asset_Inr [OF assms(2)])
  note asked = create_input [OF input]
  obtain a rows where a: "assets db1 = assets db @ [a]" "as_asset_id a = i" "as_laboratory_id a = ctx_laboratory_id ctx"
      "stores_asset (in_asset input) a"
      and fresh: "asset_violation db (assets db) a = None"
      and req: "validate_required_parameters (ctx_laboratory_id ctx) i (as_category_id a) db1 = Inr ()"
      and rows: "inventory_items db1 = inventory_items db @ rows"
        "list_all2 (\<lambda>x. stores_item env (il_item x)) (in_inventory_items input) rows"
        "\<forall>r\<in>set rows. ii_asset_id r = i \<and> ii_laboratory_id r = ctx_laboratory_id ctx \<and> ii_tracking_mode r = as_tracking_mode a"
      and given: "\<exists>vs. parameter_values db1 = parameter_values db @ vs
        \<and> list_all2 (\<lambda>(p, j). stores_value env db (ctx_laboratory_id ctx) i p j) (coalesce (aa_parameters payload) []) vs"
      and ok1: "asset_tables_ok db1"
  proof (rule graph_Inr [OF g], goal_cases)
    case 1
    then show ?case
      using assms(1) by (simp add: assets_ok_def)
  next
    case (2 a rows)
    show ?case
      by (rule 2(1) [OF 2(2-6,8-11) 2(12) [OF asked(2)] 2(13)])
  qed
  obtain vs where vs: "parameter_values db1 = parameter_values db @ vs"
      "list_all2 (\<lambda>(p, j). stores_value env db (ctx_laboratory_id ctx) i p j) (coalesce (aa_parameters payload) []) vs"
    using given by blast
  have items: "list_all2 (asks_for_item env (ns_tracking_mode (in_asset input))) (coalesce (aa_inventory_items payload) []) rows"
    by (rule asked_items [OF asked(3) rows(2)])
  have same: "av_asset w = a"
    using fetch_optional_Some [OF w(1)] a fresh by (auto simp: asset_violation_def split: if_splits)
  have ok': "assets_ok db'"
    using asset_runs.run [OF r_into_rtranclp [of asset_step, OF asset_step.creation [OF assms(2)]] assms(1)] by simp
  have one: "\<exists>!v. v \<in> set (parameter_values db1) \<and> pv_asset_id v = i \<and> pv_parameter_type_id v = p"
    if "as_category_id a = Some c" "required_by db1 (ctx_laboratory_id ctx) c p" for c p
  proof -
    have "\<exists>v\<in>set (parameter_values db1). pv_laboratory_id v = ctx_laboratory_id ctx \<and> pv_asset_id v = i \<and> pv_parameter_type_id v = p"
      using req that unfolding that(1) validate_required_Inr by blast
    moreover have "u = v" if "u \<in> set (parameter_values db1)" "v \<in> set (parameter_values db1)" "same_value_slot u v" for u v
      using asset_tables_okD(6) [OF ok1] that unfolding table_ok_def
      by (metis value_table.unique [OF asset_tables_okD(6) [OF ok1]])
    ultimately show ?thesis
      unfolding same_value_slot_def by (metis (no_types, lifting))
  qed
  have frame: "required_by db' = required_by db1" "assets db' = assets db1" "inventory_items db' = inventory_items db1"
      "parameter_values db' = parameter_values db1"
    using log by (elim exE, simp add: required_by_def fun_eq_iff)+
  have each: "\<forall>c p. as_category_id a = Some c \<and> required_by db' (as_laboratory_id a) c p \<longrightarrow>
      (\<exists>!v. v \<in> set (parameter_values db') \<and> pv_asset_id v = as_asset_id a \<and> pv_parameter_type_id v = p)"
    unfolding frame a(2,3) using one by blast
  show ?thesis
    by (intro exI [of _ a] exI [of _ rows] exI [of _ vs] exI [of _ "ns_tracking_mode (in_asset input)"] conjI each)
       (use a(1-3) rows(1,3) vs items w(2) asked_asset [OF asked(1) a(4)] ok' frame(2-4) same in simp_all)
qed

section \<open>Changing the unit of an asset\<close>

text \<open>The rows of an asset before and after: nothing of another asset moves, its own are measured in another unit.\<close>

definition same_stock :: "uuid \<Rightarrow> rat \<Rightarrow> rat \<Rightarrow> inventory_row list \<Rightarrow> inventory_row list \<Rightarrow> bool" where
  "same_stock i p q rows rows' \<longleftrightarrow> list_all2 (\<lambda>x y.
     if ii_asset_id x = i
     then ii_quantity_on_hand y * q = ii_quantity_on_hand x * p \<and> ii_quantity_allocated y * q = ii_quantity_allocated x * p
       \<and> ii_inventory_item_id y = ii_inventory_item_id x \<and> ii_asset_id y = i
     else y = x) rows rows'"

lemma rescaled_rows:
  "q \<noteq> 0 \<Longrightarrow> same_stock i p q rows (update_rows (\<lambda>r. ii_asset_id r = i) (rescale_row (p / q) now) rows)"
  by (simp add: same_stock_def update_rows_def rescale_row_def list.rel_map list_all2_same)

lemma untouched_rows:
  assumes "p = q \<or> (\<forall>x\<in>set rows. ii_asset_id x \<noteq> i)"
  shows "same_stock i p q rows rows"
  using assms by (auto simp: same_stock_def list_all2_same)

lemma converted_stock:
  assumes "convert_inventory_quantities_to_unit env i mode source u db = Inr (x, db')"
    and "items_of i db \<noteq> [] \<Longrightarrow> mode \<noteq> Serialized"
    and "fetch_unit source db = Some s" and "un_scale_to_base s = Fin p"
    and "fetch_unit u db = Some t" and "un_scale_to_base t = Fin q" and "q \<noteq> 0"
    and "float8_numeric env (f64_div (Fin p) (Fin q)) = Some (p / q)"
  shows "un_dimension t = un_dimension s \<and> assets db' = assets db
    \<and> same_stock i p q (inventory_items db) (inventory_items db')"
proof (cases "source = u")
  case True
  then have "db' = db" "t = s"
    using assms(1,3,5) by (simp_all add: convert_inventory_quantities_to_unit_def tx_return_Inr)
  then show ?thesis
    using assms(4,6) by (simp add: untouched_rows)
next
  case False
  obtain s' t' where st: "fetch_unit source db = Some s'" "fetch_unit u db = Some t'"
      "un_dimension s' = un_dimension t'" "assets db' = assets db"
    and kept: "mode = Serialized \<longrightarrow> inventory_items db' = inventory_items db"
    and rows: "mode \<noteq> Serialized \<longrightarrow> (\<exists>q. (items_of i db \<noteq> [] \<longrightarrow>
        float8_numeric env (f64_div (un_scale_to_base s') (un_scale_to_base t')) = Some q)
      \<and> inventory_items db' = update_rows (\<lambda>r. ii_asset_id r = i) (rescale_row q (env_now env)) (inventory_items db))"
    by (rule convert_Inr [OF assms(1) False])
  have eqs: "s' = s" "t' = t"
    using st(1,2) assms(3,5) by simp_all
  have "same_stock i p q (inventory_items db) (inventory_items db')"
  proof (cases "items_of i db = []")
    case True
    then have idle: "\<forall>x\<in>set (inventory_items db). ii_asset_id x \<noteq> i"
      by (simp add: items_of_def filter_empty_conv)
    then have "update_rows (\<lambda>r. ii_asset_id r = i) (rescale_row x (env_now env)) (inventory_items db) = inventory_items db" for x
      by (auto simp: update_rows_def intro!: map_idI)
    then have "inventory_items db' = inventory_items db"
      using kept rows by (cases "mode = Serialized") auto
    then show ?thesis
      using idle by (simp add: untouched_rows)
  next
    case False
    then show ?thesis
      using rows assms(2,4,6,7,8) by (auto simp: eqs rescaled_rows)
  qed
  then show ?thesis
    using st(3,4) by (simp add: eqs)
qed

lemma updated_asset:
  assumes "update_asset_in_database env i c mode name model maker unit pn inn db = Inr ((), db1)"
    and "asset_row_of db i = Some a"
  shows "inventory_items db1 = inventory_items db" and "units db1 = units db"
    and "\<exists>b. asset_row_of db1 i = Some b \<and> as_inventory_unit_id b = unit"
proof -
  obtain rows where w: "write_row (asset_violation db) as_asset_id (set_asset c mode name model maker unit pn inn (env_now env))
        i (assets db) = Inr rows" and db1: "db1 = db\<lparr>assets := rows\<rparr>"
    by (rule update_asset_in_database_Inr [OF assms(1)])
  show "inventory_items db1 = inventory_items db" "units db1 = units db"
    by (simp_all add: db1)
  show "\<exists>b. asset_row_of db1 i = Some b \<and> as_inventory_unit_id b = unit"
    using assms(2) unfolding asset_row_of_def db1 write_row_Inr [OF w]
    by (simp add: set_asset.read_back) (simp add: set_asset_def)
qed

text \<open>
  C38. When the unit of an asset tracked by quantity changes, the new unit has the dimension of
  the old one and every quantity of the asset's items is converted: on hand and allocated,
  measured in the base unit, are what they were. Items of other assets are untouched. (The
  quotient of the two scales is taken as a double, so it has to be one for this to be exact.)
\<close>

theorem unit_change_conserves_stock:
  assumes "update_asset env ctx i payload db = (Inr r, db')" and "ax_inventory_unit_id payload = Some u"
    and "asset_row_of db i = Some a" and "as_tracking_mode a = lit ''quantity''"
    and "fetch_unit (as_inventory_unit_id a) db = Some s" and "un_scale_to_base s = Fin p"
    and "fetch_unit u db = Some t" and "un_scale_to_base t = Fin q" and "q \<noteq> 0"
    and "float8_numeric env (f64_div (Fin p) (Fin q)) = Some (p / q)"
  shows "un_dimension t = un_dimension s
    \<and> (\<exists>b. asset_row_of db' i = Some b \<and> as_inventory_unit_id b = u)
    \<and> same_stock i p q (inventory_items db) (inventory_items db')"
proof -
  obtain change db1 db2 and existing :: asset_view where change: "UpdateAsset_try_from env payload = Inr change"
      and old: "asset_row_of db i = Some (av_asset existing)"
      and steps: "\<exists>mode c name model maker pn inn. (items_of i db \<noteq> [] \<longrightarrow> trim (as_tracking_mode (av_asset existing)) = AssetTrackingMode_as_str mode)
        \<and> update_asset_in_database env i c mode name model maker
            (coalesce (sc_inventory_unit_id change) (as_inventory_unit_id (av_asset existing))) pn inn db = Inr ((), db1)
        \<and> convert_inventory_quantities_to_unit env i mode (as_inventory_unit_id (av_asset existing))
            (coalesce (sc_inventory_unit_id change) (as_inventory_unit_id (av_asset existing))) db1 = Inr ((), db2)"
      and db': "assets db' = assets db2" "inventory_items db' = inventory_items db2"
    by (rule update_asset_Inr [OF assms(1)])
  have u: "coalesce (sc_inventory_unit_id change) (as_inventory_unit_id (av_asset existing)) = u"
    using change assms(2) by (auto simp: UpdateAsset_try_from_def and_then_Inr_iff coalesce_def)
  have a: "av_asset existing = a"
    using old assms(3) by simp
  obtain mode c name model maker pn inn where
      mode: "items_of i db \<noteq> [] \<longrightarrow> trim (as_tracking_mode a) = AssetTrackingMode_as_str mode"
      and up: "update_asset_in_database env i c mode name model maker u pn inn db = Inr ((), db1)"
      and conv: "convert_inventory_quantities_to_unit env i mode (as_inventory_unit_id a) u db1 = Inr ((), db2)"
    using steps unfolding u unfolding a by blast
  note db1 = updated_asset [OF up assms(3)]
  have tracked: "mode \<noteq> Serialized" if "items_of i db1 \<noteq> []"
    using mode that assms(4) tracking_mode_name.norm_as_str [of Quantity] tracking_mode_name.as_str_eq_iff [of Quantity mode]
    by (auto simp: items_of_def db1(1))
  have units: "fetch_unit (as_inventory_unit_id a) db1 = Some s" "fetch_unit u db1 = Some t"
    using assms(5,7) db1(2) by (simp_all add: fetch_unit_def)
  from converted_stock [OF conv tracked units(1) assms(6) units(2) assms(8-10)] db1(3) show ?thesis
    by (simp add: db' db1(1) asset_row_of_def)
qed

section \<open>Deletion\<close>

lemma delete_asset_in_transaction_Inr:
  assumes "delete_asset_in_transaction env ctx i db = Inr (deleted, db')"
  shows "asset_row_of db i \<noteq> None"
    and "\<exists>e. db' = db\<lparr>assets := filter (\<lambda>a. as_asset_id a \<noteq> i) (assets db),
           inventory_items := filter (\<lambda>r. ii_asset_id r \<noteq> i) (inventory_items db),
           files := filter (\<lambda>f. fi_file_id f \<notin> at_file_id ` {a \<in> set (attachments db). hangs_off i db a}) (files db),
           attachments := filter (\<lambda>a. \<not> hangs_off i db a) (attachments db),
           borrow_requests := filter (\<lambda>b. \<not> of_item_of i db (br_inventory_item_id b)) (borrow_requests db),
           parameter_values := filter (\<lambda>v. pv_asset_id v \<noteq> i) (parameter_values db),
           audit_logs := audit_logs db @ [e]\<rparr>"
    and "\<And>f. f \<in> set (files db) \<Longrightarrow> f \<notin> set (files db') \<Longrightarrow> fi_storage_key f \<in> set (map snd deleted)"
proof -
  obtain asset items db1 db2 and u x :: unit where found: "fetch_asset env i db = Inr (Some asset)"
      and raw: "fetch_inventory_items_for_asset env (as_asset_id (av_asset asset)) db = Inr items"
        "delete_asset_attachments (as_asset_id (av_asset asset)) (map (\<lambda>w. ii_inventory_item_id (ai_item w)) items) db
          = Inr (deleted, db1)"
        "delete_asset_from_database (as_asset_id (av_asset asset)) db1 = Inr (u, db2)"
      and log: "\<exists>act res k d. record_audit (actor_user_id (ctx_actor ctx)) act res k d db2 = Inr (x, db')"
    using assms unfolding delete_asset_in_transaction_def Let_def tx_bind_Inr tx_map_err_Inr tx_read_Inr tx_lift_Inr
      unexpected_Inr commit_Inr tx_return_Inr fetch_asset_for_update_def fetch_inventory_items_for_asset_for_update_def
      ok_or_Inr_iff by blast
  note i = fetch_asset_Some [OF found]
  note items = raw(1) [unfolded i(2)] and atts = raw(2) [unfolded i(2)] and row = raw(3) [unfolded i(2)]
  show "asset_row_of db i \<noteq> None"
    by (simp add: i(1))
  note db1 = delete_attachments_of_asset [OF atts items_read [OF items]]
  have same: "hangs_off i db1 = hangs_off i db" "of_item_of i db1 = of_item_of i db"
    by (simp_all add: db1(1) fun_eq_iff hangs_off_def of_item_of_def items_of_def cong: option.case_cong)
  obtain e where e: "db' = db2\<lparr>audit_logs := audit_logs db2 @ [e]\<rparr>"
    using log by (auto dest!: record_audit_entry)
  have db2: "db2 = db1\<lparr>assets := filter (\<lambda>a. as_asset_id a \<noteq> i) (assets db1),
       inventory_items := filter (\<lambda>r. ii_asset_id r \<noteq> i) (inventory_items db1),
       attachments := filter (\<lambda>a. \<not> hangs_off i db a) (attachments db1),
       borrow_requests := filter (\<lambda>b. \<not> of_item_of i db (br_inventory_item_id b)) (borrow_requests db1),
       parameter_values := filter (\<lambda>v. pv_asset_id v \<noteq> i) (parameter_values db1)\<rparr>"
    using delete_asset_frame [OF row] by (simp add: same)
  show "\<exists>e. db' = db\<lparr>assets := filter (\<lambda>a. as_asset_id a \<noteq> i) (assets db),
           inventory_items := filter (\<lambda>r. ii_asset_id r \<noteq> i) (inventory_items db),
           files := filter (\<lambda>f. fi_file_id f \<notin> at_file_id ` {a \<in> set (attachments db). hangs_off i db a}) (files db),
           attachments := filter (\<lambda>a. \<not> hangs_off i db a) (attachments db),
           borrow_requests := filter (\<lambda>b. \<not> of_item_of i db (br_inventory_item_id b)) (borrow_requests db),
           parameter_values := filter (\<lambda>v. pv_asset_id v \<noteq> i) (parameter_values db),
           audit_logs := audit_logs db @ [e]\<rparr>"
    unfolding e db2 by (intro exI [of _ e]) (simp add: db1(1))
  show "fi_storage_key f \<in> set (map snd deleted)" if "f \<in> set (files db)" "f \<notin> set (files db')" for f
    using that db1(2) by (simp add: e db2)
qed

text \<open>
  C39. Deleting an asset is all or nothing in the database. It takes the asset, its items, its
  values, the borrow requests for its items, and the attachments of the asset and of its items
  with their files, nothing of another asset, and it leaves one entry in the audit log. If it
  reports success, the objects of the files that were removed are gone from the store.
\<close>

theorem deleting_an_asset_takes_all_of_it:
  assumes "delete_asset env st ctx i db disk = (r, db', disk')"
  shows "(r \<noteq> Inr () \<and> db' = db \<and> disk' = disk)
     \<or> (asset_row_of db i \<noteq> None
        \<and> (\<exists>e. db' = db\<lparr>assets := filter (\<lambda>a. as_asset_id a \<noteq> i) (assets db),
             inventory_items := filter (\<lambda>r. ii_asset_id r \<noteq> i) (inventory_items db),
             files := filter (\<lambda>f. fi_file_id f \<notin> at_file_id ` {a \<in> set (attachments db). hangs_off i db a}) (files db),
             attachments := filter (\<lambda>a. \<not> hangs_off i db a) (attachments db),
             borrow_requests := filter (\<lambda>b. \<not> of_item_of i db (br_inventory_item_id b)) (borrow_requests db),
             parameter_values := filter (\<lambda>v. pv_asset_id v \<noteq> i) (parameter_values db),
             audit_logs := audit_logs db @ [e]\<rparr>)
        \<and> (r = Inr () \<longrightarrow> (\<forall>f key p. f \<in> set (files db) \<and> f \<notin> set (files db')
             \<and> FileStorageKey_parse (fi_storage_key f) = Inr key \<and> path_for_key st key = Inr p \<longrightarrow> disk' p = None)))"
proof -
  let ?run = "run_handler (require_permission env (authorization_actor ctx) Asset_resource (Delete i)
            (lit ''You don't have permission to delete this asset.'') db)
         (\<lambda>_. delete_asset_in_transaction env ctx i) db"
  obtain r1 db1 where run: "?run = (r1, db1)"
    by fastforce
  show ?thesis
  proof (cases r1)
    case (Inl e)
    then show ?thesis
      using assms run run_handler_Inl [of _ _ db e db1] by (auto simp: delete_asset_def after_commit_def)
  next
    case (Inr deleted)
    then have t: "delete_asset_in_transaction env ctx i db = Inr (deleted, db1)"
      using run by (auto simp: run_handler_Inr)
    obtain dr disk1 where d: "delete_storage_objects st (map snd deleted) disk = (dr, disk1)"
      by fastforce
    have out: "db' = db1" "disk' = disk1" "r = Inr () \<Longrightarrow> dr = Inr ()"
      using assms run Inr d by (auto simp: delete_asset_def after_commit_def split: sum.splits)
    have gone: "disk' p = None" if "r = Inr ()" "f \<in> set (files db)" "f \<notin> set (files db')"
        "FileStorageKey_parse (fi_storage_key f) = Inr key" "path_for_key st key = Inr p" for f key p
      using storage_objects_gone [OF d [unfolded out(3) [OF that(1)]] _ object_path_iff [THEN iffD2]]
        delete_asset_in_transaction_Inr(3) [OF t] that out by metis
    have "\<forall>f key p. f \<in> set (files db) \<and> f \<notin> set (files db')
             \<and> FileStorageKey_parse (fi_storage_key f) = Inr key \<and> path_for_key st key = Inr p \<longrightarrow> disk' p = None"
      if "r = Inr ()"
      using gone that by blast
    then show ?thesis
      by (intro disjI2 conjI impI delete_asset_in_transaction_Inr(1,2) [OF t, folded out(1)])
  qed
qed

section \<open>Runs\<close>

text \<open>
  C40. Whatever assets are created, changed and deleted, in any order: the constraints of the
  tables stay, so every item is of an asset of its laboratory and tracking mode, an asset has at
  most one value of a parameter, and the name and model of an asset are unique in its laboratory.
  Laboratories, accounts, units, locations, categories and parameters are not touched, and the
  audit log only grows.
\<close>

theorem asset_runs_stay_consistent:
  assumes "asset_step\<^sup>*\<^sup>* db db'" and "assets_ok db"
  shows "assets_ok db' \<and> same_rest db db'
     \<and> (\<forall>w\<in>set (inventory_items db'). \<exists>a\<in>set (assets db'). as_asset_id a = ii_asset_id w
          \<and> as_laboratory_id a = ii_laboratory_id w \<and> as_tracking_mode a = ii_tracking_mode w)
     \<and> (\<forall>u\<in>set (parameter_values db'). \<forall>v\<in>set (parameter_values db').
          pv_asset_id u = pv_asset_id v \<and> pv_parameter_type_id u = pv_parameter_type_id v \<longrightarrow> u = v)
     \<and> (\<forall>a\<in>set (assets db'). \<forall>b\<in>set (assets db'). same_asset_name a b \<longrightarrow> a = b)"
proof -
  have ok: "assets_ok db' \<and> same_rest db db'"
    by (rule asset_runs.run [OF assms])
  then have t: "asset_tables_ok db'"
    by (simp add: assets_ok_def)
  have "\<exists>a\<in>set (assets db'). as_asset_id a = ii_asset_id w
          \<and> as_laboratory_id a = ii_laboratory_id w \<and> as_tracking_mode a = ii_tracking_mode w"
    if "w \<in> set (inventory_items db')" for w
    using asset_tables_okD(2) [OF t] that by (simp add: inventory_ok_def references_ok_def)
  moreover have "u = v" if "u \<in> set (parameter_values db')" "v \<in> set (parameter_values db')"
      "pv_asset_id u = pv_asset_id v" "pv_parameter_type_id u = pv_parameter_type_id v" for u v
    using asset_tables_okD(6) [OF t] that value_table.unique [OF asset_tables_okD(6) [OF t], of u v]
    unfolding table_ok_def same_value_slot_def by metis
  moreover have "a = b" if "a \<in> set (assets db')" "b \<in> set (assets db')" "same_asset_name a b" for a b
    using asset_tables_okD(1) [OF t] that asset_table.unique [OF asset_tables_okD(1) [OF t], of a b]
    unfolding table_ok_def by metis
  ultimately show ?thesis
    using ok by blast
qed

section \<open>A laboratory with assets\<close>

definition gram :: unit_row where
  "gram = kilogram\<lparr>un_unit_id := 6, un_code := lit ''g'', un_name := lit ''gram'', un_symbol := lit ''g'',
     un_scale_to_base := Fin 1\<rparr>"

definition reagents :: category_row where
  "reagents = \<lparr>ca_category_id = 30, ca_laboratory_id = lab_1, ca_parent_category_id = None, ca_name = lit ''reagents'',
     ca_code = lit ''reagents'', ca_path = lit ''reagents'', ca_depth = 0, ca_description = None, ca_created_at = 1,
     ca_updated_at = 1\<rparr>"

definition purity_required :: assignment_row where
  "purity_required = \<lparr>ag_assignment_id = 90, ag_laboratory_id = lab_1, ag_parameter_type_id = 52,
     ag_category_id = 30, ag_applies_to_descendants = True, ag_is_required = True, ag_sort_order = 0, ag_created_at = 1\<rparr>"

definition db_9 :: database where
  "db_9 = db_7\<lparr>units := [kilogram, gram], asset_categories := [reagents],
     asset_parameter_types := [weight, hazard, plain_parameter 52 (lit ''purity'') (lit ''text'')],
     parameter_assignments := [purity_required]\<rparr>"

lemma db_9_ok: "assets_ok db_9"
proof -
  have "table_ok as_asset_id asset_checks same_asset_name (assets db_9)"
    by (simp add: db_9_def parameter_data table_ok_def asset_checks_def same_asset_name_def lit_def)
  moreover have "inventory_ok db_9"
    using db_1_ok inventory_ok_cong [of db_9 db_1] by (simp add: db_9_def db_7_def)
  moreover have "table_ok pt_parameter_type_id parameter_checks same_parameter_code (asset_parameter_types db_9)"
    by (simp add: db_9_def parameter_data table_ok_def parameter_checks_def DataType_parse_def same_parameter_code_def
        code_check_def is_ascii_lowercase_def is_code_char_def numeric_type_def trim_def is_whitespace_def lit_def)
  moreover have "parameter_options db_9 = parameter_options db_7" "parameter_values db_9 = parameter_values db_7"
    by (simp_all add: db_9_def)
  ultimately show ?thesis
    using db_7_checks unfolding assets_ok_def asset_tables_ok_def parameter_tables_ok_def
    by (simp add: options_refer_def values_refer_def deferred_ok_def enum_options_ok_def has_option_def)
       (simp add: db_9_def parameter_data lit_def)
qed

definition ethanol :: asset_payload where
  "ethanol = \<lparr>aa_category_id = Some 30, aa_tracking_mode = lit ''quantity'', aa_name = lit ''ethanol'', aa_model = None,
     aa_manufacturer = None, aa_inventory_unit_id = 6, aa_public_notes = None, aa_internal_notes = None,
     aa_inventory_items = Some [\<lparr>aj_serial_number = None, aj_batch_number = Some (lit ''b''), aj_quantity_on_hand = Some (Fin 5),
       aj_quantity_allocated = None, aj_location_id = None, aj_status = None, aj_public_notes = None,
       aj_internal_notes = None, aj_attachments = None\<rparr>],
     aa_parameters = Some [(52, JString (lit ''p.a.''))], aa_attachments = None\<rparr>"

definition created_1 :: "(handler_error, asset_response) result \<times> database" where
  "created_1 = create_asset env_1 admin_ctx ethanol db_9"

lemma ethanol_created:
  "case fst created_1 of
     Inr r \<Rightarrow> as_category_id (av_asset (sr_asset r)) = Some 30 \<and> as_laboratory_id (av_asset (sr_asset r)) = lab_1
       \<and> required_by (snd created_1) lab_1 30 52 | Inl _ \<Rightarrow> False"
  by code_simp

theorem created_asset_has_what_its_category_requires_witness:
  "\<exists>a. assets (snd created_1) = assets db_9 @ [a]
     \<and> (\<exists>!v. v \<in> set (parameter_values (snd created_1)) \<and> pv_asset_id v = as_asset_id a \<and> pv_parameter_type_id v = 52)"
proof -
  obtain r where r: "create_asset env_1 admin_ctx ethanol db_9 = (Inr r, snd created_1)"
      "as_category_id (av_asset (sr_asset r)) = Some 30" "as_laboratory_id (av_asset (sr_asset r)) = lab_1"
      "required_by (snd created_1) lab_1 30 52"
    using ethanol_created unfolding created_1_def by (cases "create_asset env_1 admin_ctx ethanol db_9") (auto split: sum.splits)
  obtain a where a: "assets (snd created_1) = assets db_9 @ [a]" "av_asset (sr_asset r) = a"
      "\<forall>c p. as_category_id a = Some c \<and> required_by (snd created_1) (as_laboratory_id a) c p \<longrightarrow>
         (\<exists>!v. v \<in> set (parameter_values (snd created_1)) \<and> pv_asset_id v = as_asset_id a \<and> pv_parameter_type_id v = p)"
    using created_asset_has_what_its_category_requires [OF db_9_ok r(1)] by (elim exE conjE) (rule that; assumption)
  have "\<exists>!v. v \<in> set (parameter_values (snd created_1)) \<and> pv_asset_id v = as_asset_id a \<and> pv_parameter_type_id v = 52"
    by (rule a(3) [rule_format, of 30]) (use r(2-4) a(2) in simp)
  with a(1) show ?thesis
    by blast
qed

definition to_grams :: asset_change_payload where
  "to_grams = \<lparr>ax_category_id = None, ax_tracking_mode = None, ax_name = None, ax_model = None, ax_manufacturer = None,
     ax_inventory_unit_id = Some 6, ax_public_notes = None, ax_internal_notes = None, ax_parameters = None\<rparr>"

theorem unit_change_conserves_stock_witness:
  "case update_asset env_1 admin_ctx 20 to_grams db_9 of
     (Inr _, db') \<Rightarrow> map ii_quantity_on_hand (inventory_items db') = [10000, 1] | _ \<Rightarrow> False"
proof -
  have "case update_asset env_1 admin_ctx 20 to_grams db_9 of (Inr _, _) \<Rightarrow> True | _ \<Rightarrow> False"
    by code_simp
  then obtain r db' where run: "update_asset env_1 admin_ctx 20 to_grams db_9 = (Inr r, db')"
    by (auto split: prod.splits sum.splits)
  have rows: "asset_row_of db_9 20 = Some solvent" "fetch_unit 5 db_9 = Some kilogram" "fetch_unit 6 db_9 = Some gram"
    by (simp_all add: asset_row_of_def fetch_unit_def fetch_optional_def db_9_def gram_def parameter_data)
  have exact: "float8_numeric env_1 (f64_div (Fin 1000) (Fin 1)) = Some (1000 / 1)"
    using round_f64_of_int [of 1000] by (simp add: env_1_def)
  have items: "inventory_items db_9 = [stock_row 40 10 2 (lit ''available''), balance_row 41 (lit ''#7'')]"
    by (simp add: db_9_def db_7_def db_1_def)
  from unit_change_conserves_stock [OF run _ rows(1), of 6 kilogram 1000 gram 1] rows exact
  have "map ii_quantity_on_hand (inventory_items db') = [10000, 1]"
    unfolding items by (auto simp: same_stock_def to_grams_def solvent_def kilogram_def gram_def list_all2_Cons1 stock_row_def balance_row_def)
  then show ?thesis
    by (simp add: run)
qed

definition discarded_1 :: "(handler_error, unit) result \<times> database \<times> disk" where
  "discarded_1 = delete_asset env_1 \<lparr>st_root = [], st_refused = (\<lambda>_. False)\<rparr> admin_ctx 20 db_9 (\<lambda>_. None)"

theorem deleting_an_asset_takes_all_of_it_witness:
  "assets (fst (snd discarded_1)) = [balance] \<and> inventory_items (fst (snd discarded_1)) = [balance_row 41 (lit ''#7'')]"
proof -
  have ok: "fst discarded_1 = Inr ()"
    by code_simp
  obtain r db' disk' where run: "discarded_1 = (r, db', disk')"
    by (cases discarded_1) auto
  show ?thesis
    using deleting_an_asset_takes_all_of_it [of env_1 "\<lparr>st_root = [], st_refused = (\<lambda>_. False)\<rparr>" admin_ctx 20 db_9 "\<lambda>_. None" r db' disk'] run ok
    by (auto simp: discarded_1_def db_9_def db_7_def db_1_def solvent_def balance_def stock_row_def balance_row_def)
qed

theorem asset_runs_stay_consistent_witness:
  "assets_ok (snd created_1) \<and> length (inventory_items (snd created_1)) = 3"
proof -
  have "asset_step db_9 (snd created_1)"
    using asset_step.creation [of env_1 admin_ctx ethanol db_9 "fst created_1" "snd created_1"] by (simp add: created_1_def)
  moreover have "length (inventory_items (snd created_1)) = 3"
    by code_simp
  ultimately show ?thesis
    using asset_runs_stay_consistent [OF r_into_rtranclp [of asset_step] db_9_ok] by blast
qed

end
