(* ===== verification/Users.thy ===== *)
theory Users
  imports Path_Tree Handlers
begin

text \<open>
  \<^verbatim>\<open>routes/users/\<close> and the user types of \<^verbatim>\<open>domain/\<close>: the rules for names, passwords, addresses and
  roles, the statements over accounts, and the five handlers. How a password is hashed and what
  counts as an e-mail address are parameters of the surroundings.
\<close>

section \<open>Fields of an account\<close>

definition user_name_forbidden :: "nat list" where
  "user_name_forbidden = [47, 40, 41, 34, 60, 62, 92, 123, 125]"

definition UserName_parse :: "env \<Rightarrow> rstr \<Rightarrow> (rstr, rstr) result" where
  "UserName_parse env s =
     (if trim s = [] \<or> graphemes_count env s > 256 \<or> list_ex (\<lambda>c. c \<in> set user_name_forbidden) s
      then Inl (s @ lit '' is not a valid subscriber name.'') else Inr s)"

definition validate_password :: "rstr \<Rightarrow> bool" where
  "validate_password password \<longleftrightarrow> str_len (trim password) \<ge> 8"

definition UserPassword_parse :: "rstr \<Rightarrow> (rstr, rstr) result" where
  "UserPassword_parse s =
     (if validate_password s then Inr s else Inl (lit ''Password must be at least 8 characters long.''))"

definition UserEmail_parse :: "env \<Rightarrow> rstr \<Rightarrow> (rstr, rstr) result" where
  "UserEmail_parse env s =
     (if validate_email env s then Inr s else Inl (s @ lit '' is not a valid subscriber email.''))"

definition PhoneNumber_parse :: "rstr \<Rightarrow> (rstr, rstr) result" where
  "PhoneNumber_parse s =
     (if str_len s = 11 \<and> list_all is_ascii_digit s then Inr s
      else Inl (s @ lit '' is not a valid phone number.''))"

definition UserDescription_parse :: "env \<Rightarrow> rstr \<Rightarrow> (rstr, rstr) result" where
  "UserDescription_parse env s =
     (let trimmed = trim s
      in if trimmed = [] then Inl (lit ''user description cannot be empty'')
         else if graphemes_count env trimmed > 500 then Inl (lit ''user description is too long'')
         else Inr trimmed)"

definition UserDescription_parse_optional :: "env \<Rightarrow> rstr \<Rightarrow> (rstr, rstr option) result" where
  "UserDescription_parse_optional env s =
     (if trim s = [] then Inr None else and_then (UserDescription_parse env s) (\<lambda>d. Inr (Some d)))"

definition parse_optional_description :: "env \<Rightarrow> rstr option \<Rightarrow> (rstr, rstr option) result" where
  "parse_optional_description env description =
     (case description of None \<Rightarrow> Inr None | Some s \<Rightarrow> UserDescription_parse_optional env s)"

section \<open>New and changed accounts\<close>

record new_user =
  nw_username :: rstr
  nw_password :: rstr
  nw_user_type :: user_type
  nw_laboratory_id :: "uuid option"
  nw_email :: "rstr option"
  nw_phone_number :: "rstr option"
  nw_description :: "rstr option"

text \<open>Everybody but the system administrators belongs to a laboratory.\<close>

definition needs_laboratory :: "user_type \<Rightarrow> bool" where
  "needs_laboratory ty \<longleftrightarrow> \<not> (ty = SuperAdmin \<or> ty = Root)"

definition NewUser_new ::
    "rstr \<Rightarrow> rstr \<Rightarrow> user_type \<Rightarrow> uuid option \<Rightarrow> rstr option \<Rightarrow> rstr option \<Rightarrow> rstr option
       \<Rightarrow> (rstr, new_user) result" where
  "NewUser_new username password user_type lab email phone_number description =
     (if needs_laboratory user_type \<and> lab = None
      then Inl (lit ''Laboratory ID is required for '' @ UserType_as_str user_type @ lit ''.'')
      else Inr \<lparr>nw_username = username, nw_password = password, nw_user_type = user_type,
                nw_laboratory_id = lab, nw_email = email, nw_phone_number = phone_number,
                nw_description = description\<rparr>)"

record user_payload =
  cp_username :: rstr
  cp_password :: rstr
  cp_user_type :: rstr
  cp_laboratory_id :: "uuid option"
  cp_email :: "rstr option"
  cp_phone_number :: "rstr option"
  cp_description :: "rstr option"

definition NewUser_try_from :: "env \<Rightarrow> user_payload \<Rightarrow> (rstr, new_user) result" where
  "NewUser_try_from env p =
     and_then (UserName_parse env (cp_username p)) (\<lambda>username.
     and_then (UserPassword_parse (cp_password p)) (\<lambda>password.
     and_then (UserType_parse (cp_user_type p)) (\<lambda>user_type.
     and_then (transpose_with (UserEmail_parse env) (cp_email p)) (\<lambda>email.
     and_then (transpose_with PhoneNumber_parse (cp_phone_number p)) (\<lambda>phone_number.
     and_then (parse_optional_description env (cp_description p)) (\<lambda>description.
     NewUser_new username password user_type (cp_laboratory_id p) email phone_number description))))))"

record user_change =
  xu_username :: "rstr option"
  xu_user_type :: user_type
  xu_user_type_changed :: bool
  xu_laboratory_id :: "uuid option"
  xu_laboratory_id_changed :: bool
  xu_email :: "rstr nullable_update"
  xu_phone_number :: "rstr nullable_update"
  xu_description :: "rstr nullable_update"

definition UpdateUser_new ::
    "rstr option \<Rightarrow> user_type option \<Rightarrow> uuid nullable_update \<Rightarrow> rstr nullable_update \<Rightarrow> rstr nullable_update
       \<Rightarrow> rstr nullable_update \<Rightarrow> user_type \<Rightarrow> uuid option \<Rightarrow> (rstr, user_change) result" where
  "UpdateUser_new username user_type lab email phone_number description current_type current_lab =
     (let ty = coalesce user_type current_type; laboratory_id = resolve_update lab current_lab
      in if needs_laboratory ty \<and> laboratory_id = None
         then Inl (lit ''Laboratory ID is required for '' @ UserType_as_str ty @ lit ''.'')
         else Inr \<lparr>xu_username = username, xu_user_type = ty, xu_user_type_changed = (user_type \<noteq> None),
                   xu_laboratory_id = laboratory_id, xu_laboratory_id_changed = is_changed lab,
                   xu_email = email, xu_phone_number = phone_number, xu_description = description\<rparr>)"

text \<open>\<^verbatim>\<open>NullableUpdate::parse\<close>.\<close>

fun parse_nullable :: "('a \<Rightarrow> (rstr, 'b) result) \<Rightarrow> 'a option option \<Rightarrow> (rstr, 'b nullable_update) result" where
  "parse_nullable parse (Some (Some v)) = and_then (parse v) (\<lambda>x. Inr (Set_to x))"
| "parse_nullable parse (Some None) = Inr Clear"
| "parse_nullable parse None = Inr Unchanged"

record user_change_payload =
  xp_username :: "rstr option"
  xp_user_type :: "rstr option"
  xp_laboratory_id :: "uuid option option"
  xp_email :: "rstr option option"
  xp_phone_number :: "rstr option option"
  xp_description :: "rstr option option"

definition updates_role_or_laboratory :: "user_change_payload \<Rightarrow> bool" where
  "updates_role_or_laboratory p \<longleftrightarrow> xp_user_type p \<noteq> None \<or> xp_laboratory_id p \<noteq> None"

definition into_update_user ::
    "env \<Rightarrow> user_change_payload \<Rightarrow> user_type \<Rightarrow> uuid option \<Rightarrow> (rstr, user_change) result" where
  "into_update_user env p current_type current_lab =
     and_then (transpose_with (UserName_parse env) (xp_username p)) (\<lambda>username.
     and_then (transpose_with UserType_parse (xp_user_type p)) (\<lambda>user_type.
     and_then (parse_nullable (UserEmail_parse env) (xp_email p)) (\<lambda>email.
     and_then (parse_nullable PhoneNumber_parse (xp_phone_number p)) (\<lambda>phone_number.
     and_then (parse_nullable (UserDescription_parse env)
         (case xp_description p of
            Some (Some s) \<Rightarrow> if trim s = [] then Some None else Some (Some s)
          | other \<Rightarrow> other)) (\<lambda>description.
     UpdateUser_new username user_type (into_nullable_update (xp_laboratory_id p)) email phone_number
       description current_type current_lab)))))"

section \<open>Errors and constraints of the table\<close>

definition username_key :: rstr where "username_key = lit ''users_username_key''"
definition email_key :: rstr where "email_key = lit ''users_email_key''"
definition phone_number_key :: rstr where "phone_number_key = lit ''users_phone_number_key''"
definition user_laboratory_fkey :: rstr where "user_laboratory_fkey = lit ''users_laboratory_id_fkey''"
definition user_type_fkey :: rstr where "user_type_fkey = lit ''users_user_type_id_fkey''"

fun map_user_error :: "rstr option \<Rightarrow> sql_error \<Rightarrow> db_error" where
  "map_user_error fkey (UniqueViolation constraint) =
     (if constraint = username_key then DbConflict (lit ''Username already exists'')
      else if constraint = email_key then DbConflict (lit ''Email already exists'')
      else if constraint = phone_number_key then DbConflict (lit ''Phone number already exists'')
      else DbConflict (lit ''User already exists''))"
| "map_user_error fkey ForeignKeyViolation =
     (if fkey = Some user_laboratory_fkey then DbValidation (lit ''Invalid laboratory'')
      else if fkey = Some user_type_fkey then DbValidation (lit ''Invalid user type'')
      else DbValidation (lit ''Invalid referenced record''))"
| "map_user_error fkey CheckViolation = DbUnexpected (lit ''check violation'')"
| "map_user_error fkey (OtherSqlError e) = DbUnexpected e"

fun map_user_delete_error :: "sql_error \<Rightarrow> db_error" where
  "map_user_delete_error ForeignKeyViolation = DbConflict (lit ''User is referenced by other records'')"
| "map_user_delete_error e = map_user_error None e"

text \<open>Two values clash in a unique column when both are there and equal.\<close>

definition same_value :: "'a option \<Rightarrow> 'a option \<Rightarrow> bool" where
  "same_value x y \<longleftrightarrow> x \<noteq> None \<and> x = y"

definition same_user_value :: "user_row \<Rightarrow> user_row \<Rightarrow> bool" where
  "same_user_value u v \<longleftrightarrow>
     us_username u = us_username v \<or> same_value (us_email u) (us_email v)
     \<or> same_value (us_phone_number u) (us_phone_number v)"

definition user_fkey :: "database \<Rightarrow> user_row \<Rightarrow> rstr option" where
  "user_fkey db u =
     (if \<not> (\<exists>t\<in>set (user_types db). ut_user_type_id t = us_user_type_id u) then Some user_type_fkey
      else (case us_laboratory_id u of
              None \<Rightarrow> None
            | Some lab \<Rightarrow> if lab \<in> set (laboratories db) then None else Some user_laboratory_fkey))"

text \<open>A phone number has at most 15 characters.\<close>

definition user_checks :: "user_row \<Rightarrow> bool" where
  "user_checks u \<longleftrightarrow> (case us_phone_number u of None \<Rightarrow> True | Some n \<Rightarrow> length n \<le> 15)"

definition user_violation :: "database \<Rightarrow> user_row list \<Rightarrow> user_row \<Rightarrow> sql_error option" where
  "user_violation db others u =
     (if \<not> user_checks u then Some (OtherSqlError (lit ''value too long for type character varying(15)''))
      else if \<exists>v\<in>set others. us_user_id v = us_user_id u then Some (UniqueViolation (lit ''users_pkey''))
      else if \<exists>v\<in>set others. us_username v = us_username u then Some (UniqueViolation username_key)
      else if \<exists>v\<in>set others. same_value (us_email v) (us_email u) then Some (UniqueViolation email_key)
      else if \<exists>v\<in>set others. same_value (us_phone_number v) (us_phone_number u)
      then Some (UniqueViolation phone_number_key)
      else if user_fkey db u \<noteq> None then Some ForeignKeyViolation
      else None)"

section \<open>Statements\<close>

text \<open>An account whose type is missing is not in the join; a laboratory that is missing leaves no id.\<close>

definition user_view_of :: "database \<Rightarrow> user_row \<Rightarrow> user_view option" where
  "user_view_of db u =
     (case fetch_optional (\<lambda>t. ut_user_type_id t = us_user_type_id u) (user_types db) of
        None \<Rightarrow> None
      | Some t \<Rightarrow>
          (let lab = fetch_optional (\<lambda>l. Some (la_laboratory_id l) = us_laboratory_id u) (laboratory_rows db)
           in Some \<lparr>uv_user = u\<lparr>us_laboratory_id := map_option la_laboratory_id lab\<rparr>,
                    uv_user_type_name = ut_name t, uv_laboratory_name = map_option la_name lab\<rparr>))"

definition fetch_user :: "uuid \<Rightarrow> database \<Rightarrow> (handler_error, user_view) result" where
  "fetch_user i db =
     ok_or (UnexpectedError (lit ''User not found''))
       (Option.bind (fetch_optional (\<lambda>u. us_user_id u = i) (users db)) (user_view_of db))"

definition fetch_users :: "database \<Rightarrow> user_view list" where
  "fetch_users db = List.map_filter (user_view_of db) (users db)"

definition user_type_id :: "rstr \<Rightarrow> database \<Rightarrow> uuid option" where
  "user_type_id name db = map_option ut_user_type_id (fetch_optional (\<lambda>t. ut_name t = name) (user_types db))"

text \<open>Without a type of that name nothing is inserted, and the statement returns no row.\<close>

definition insert_user :: "env \<Rightarrow> new_user \<Rightarrow> rstr \<Rightarrow> (db_error, user_view) tx" where
  "insert_user env n password_hash = (\<lambda>db.
     case user_type_id (UserType_as_str (nw_user_type n)) db of
       None \<Rightarrow> Inl (DbUnexpected (lit ''no rows returned''))
     | Some ty \<Rightarrow>
         (let u = \<lparr>us_user_id = env_new_v4 env 0, us_username = nw_username n, us_password_hash = password_hash,
                us_user_type_id = ty, us_laboratory_id = nw_laboratory_id n, us_email = nw_email n,
                us_phone_number = nw_phone_number n, us_description = nw_description n,
                us_created_at = env_now env, us_last_login_at = None, us_is_federation_shadow = False\<rparr>
          in tx_bind (tx_map_err (map_user_error (user_fkey db u)) (tx_write (\<lambda>db.
                 case user_violation db (users db) u of
                   Some e \<Rightarrow> Inl e
                 | None \<Rightarrow> Inr (db\<lparr>users := users db @ [u]\<rparr>))))
               (\<lambda>_. tx_read (\<lambda>db. ok_or (DbUnexpected (lit ''no rows returned'')) (user_view_of db u))) db))"

definition set_user ::
    "rstr option \<Rightarrow> uuid \<Rightarrow> uuid option \<Rightarrow> rstr option \<Rightarrow> rstr option \<Rightarrow> rstr option \<Rightarrow> user_row \<Rightarrow> user_row" where
  "set_user username ty lab email phone_number description u =
     u\<lparr>us_username := coalesce username (us_username u), us_user_type_id := ty, us_laboratory_id := lab,
       us_email := email, us_phone_number := phone_number, us_description := description\<rparr>"

definition update_user_in_database ::
    "uuid \<Rightarrow> rstr option \<Rightarrow> rstr \<Rightarrow> uuid option \<Rightarrow> rstr option \<Rightarrow> rstr option \<Rightarrow> rstr option
       \<Rightarrow> (db_error, user_view) tx" where
  "update_user_in_database i username user_type_name lab email phone_number description = (\<lambda>db.
     case (user_type_id user_type_name db, fetch_optional (\<lambda>u. us_user_id u = i) (users db)) of
       (_, None) \<Rightarrow> Inl (DbUnexpected (lit ''no rows returned''))
     | (None, Some _) \<Rightarrow> Inl (DbUnexpected (lit ''null value in column user_type_id''))
     | (Some ty, Some u) \<Rightarrow>
         (let change = set_user username ty lab email phone_number description
          in tx_bind (tx_map_err (map_user_error (user_fkey db (change u))) (tx_write (\<lambda>db.
                 and_then (write_row (user_violation db) us_user_id change i (users db))
                   (\<lambda>rows. Inr (db\<lparr>users := rows\<rparr>)))))
               (\<lambda>_. tx_read (\<lambda>db. ok_or (DbUnexpected (lit ''no rows returned'')) (user_view_of db (change u)))) db))"

text \<open>
  What a foreign key does when an account goes: the uploads of the account prevent it; its
  registration codes and federation links go as well; elsewhere the reference becomes null.
\<close>

definition forget_user :: "uuid \<Rightarrow> uuid option \<Rightarrow> uuid option" where
  "forget_user i reference = (if reference = Some i then None else reference)"

definition delete_user_from_database :: "uuid \<Rightarrow> (db_error, user_view) tx" where
  "delete_user_from_database i = (\<lambda>db.
     case Option.bind (fetch_optional (\<lambda>u. us_user_id u = i) (users db)) (user_view_of db) of
       None \<Rightarrow> Inl (DbUnexpected (lit ''no rows returned''))
     | Some v \<Rightarrow>
         tx_bind (tx_map_err map_user_delete_error (tx_write (\<lambda>db.
             if \<exists>r\<in>set (file_uploads db). up_uploaded_by_user_id r = i then Inl ForeignKeyViolation
             else
               (let gone_links = filter (\<lambda>l. gl_local_guest_user_id l = i) (guest_links db);
                    forget_link = (\<lambda>reference. case reference of
                        None \<Rightarrow> None
                      | Some k \<Rightarrow> if k \<in> gl_link_id ` set gone_links then None else Some k)
                in Inr (db\<lparr>users := filter (\<lambda>u. us_user_id u \<noteq> i) (users db),
                     files := map (\<lambda>f. f\<lparr>fi_uploaded_by_user_id := forget_user i (fi_uploaded_by_user_id f)\<rparr>) (files db),
                     attachments := map (\<lambda>a. a\<lparr>at_assigned_by_user_id := forget_user i (at_assigned_by_user_id a)\<rparr>)
                       (attachments db),
                     guest_links := filter (\<lambda>l. gl_local_guest_user_id l \<noteq> i) (guest_links db),
                     registration_codes := filter (\<lambda>c. rc_created_by_user_id c \<noteq> i) (registration_codes db),
                     borrow_requests := map (\<lambda>r. r\<lparr>
                         br_requester_user_id := forget_user i (br_requester_user_id r),
                         br_reviewed_by_user_id := forget_user i (br_reviewed_by_user_id r),
                         br_requester_guest_link_id := forget_link (br_requester_guest_link_id r)\<rparr>) (borrow_requests db),
                     audit_logs := map (\<lambda>e. e\<lparr>au_actor_user_id := forget_user i (au_actor_user_id e)\<rparr>) (audit_logs db)\<rparr>)))))
           (\<lambda>_. tx_return v) db)"

section \<open>Handlers\<close>

record user_response =
  ur_user_id :: uuid
  ur_username :: rstr
  ur_email :: "rstr option"
  ur_phone_number :: "rstr option"
  ur_description :: "rstr option"
  ur_user_type :: "uuid \<times> rstr"
  ur_laboratory :: "(uuid \<times> rstr) option"
  ur_created_at :: int
  ur_last_login_at :: "int option"

definition UserResponse_from :: "user_view \<Rightarrow> user_response" where
  "UserResponse_from v =
     \<lparr>ur_user_id = us_user_id (uv_user v), ur_username = us_username (uv_user v), ur_email = us_email (uv_user v),
      ur_phone_number = us_phone_number (uv_user v), ur_description = us_description (uv_user v),
      ur_user_type = (us_user_type_id (uv_user v), uv_user_type_name v),
      ur_laboratory = (case (us_laboratory_id (uv_user v), uv_laboratory_name v) of
         (Some i, Some name) \<Rightarrow> Some (i, name) | _ \<Rightarrow> None),
      ur_created_at = us_created_at (uv_user v), ur_last_login_at = us_last_login_at (uv_user v)\<rparr>"

definition hashed_password :: "env \<Rightarrow> rstr \<Rightarrow> (handler_error, rstr) result" where
  "hashed_password env password =
     ok_or (UnexpectedError (lit ''Failed to hash password'')) (hash_password env password)"

definition create_user_in_transaction :: "env \<Rightarrow> actor \<Rightarrow> new_user \<Rightarrow> rstr \<Rightarrow> (handler_error, user_response) tx" where
  "create_user_in_transaction env actor n password_hash =
     tx_bind (tx_map_err from_db_error (insert_user env n password_hash)) (\<lambda>created.
     tx_bind (unexpected (record_audit (actor_user_id actor) Audit_Create Res_User
         (Some (us_user_id (uv_user created))) (Details_create_user (us_user_id (uv_user created))))) (\<lambda>_.
     tx_return (UserResponse_from created)))"

definition create_user ::
    "env \<Rightarrow> actor \<Rightarrow> user_payload \<Rightarrow> database \<Rightarrow> (handler_error, user_response) result \<times> database" where
  "create_user env actor payload db =
     run_handler
       (and_then (map_err ValidationError (NewUser_try_from env payload)) (\<lambda>n.
        and_then (require_permission env actor User_resource
            (CreateUser \<lparr>role_user_type = nw_user_type n, role_laboratory_id = nw_laboratory_id n\<rparr>)
            (lit ''You don't have permission to create this user.'') db) (\<lambda>_.
        and_then (hashed_password env (nw_password n)) (\<lambda>password_hash.
        Inr (n, password_hash)))))
       (\<lambda>(n, password_hash). create_user_in_transaction env actor n password_hash) db"

definition view_role :: "user_view \<Rightarrow> (handler_error, user_role) result" where
  "view_role v =
     and_then (map_err ValidationError (UserType_parse (uv_user_type_name v))) (\<lambda>ty.
     Inr \<lparr>role_user_type = ty, role_laboratory_id = us_laboratory_id (uv_user v)\<rparr>)"

definition update_user_in_transaction ::
    "env \<Rightarrow> actor \<Rightarrow> user_view \<Rightarrow> user_change \<Rightarrow> (handler_error, user_response) tx" where
  "update_user_in_transaction env actor target change =
     tx_bind (tx_map_err from_db_error (update_user_in_database (us_user_id (uv_user target)) (xu_username change)
         (UserType_as_str (xu_user_type change)) (xu_laboratory_id change)
         (resolve_update (xu_email change) (us_email (uv_user target)))
         (resolve_update (xu_phone_number change) (us_phone_number (uv_user target)))
         (resolve_update (xu_description change) (us_description (uv_user target))))) (\<lambda>user.
     tx_bind (unexpected (record_audit (actor_user_id actor) Audit_Update Res_User
         (Some (us_user_id (uv_user user))) (Details_update_user target))) (\<lambda>_.
     tx_return (UserResponse_from user)))"

definition update_user ::
    "env \<Rightarrow> actor \<Rightarrow> uuid \<Rightarrow> user_change_payload \<Rightarrow> database
       \<Rightarrow> (handler_error, user_response) result \<times> database" where
  "update_user env actor i payload db =
     run_handler
       (and_then (fetch_user i db) (\<lambda>target.
        and_then (view_role target) (\<lambda>role.
        and_then (ensure (\<not> (actor_user_id actor = us_user_id (uv_user target) \<and> updates_role_or_laboratory payload))
            (ValidationError (lit ''Users cannot change their own role or laboratory''))) (\<lambda>_.
        and_then (map_err ValidationError (into_update_user env payload (role_user_type role) (role_laboratory_id role)))
          (\<lambda>change.
        and_then (if actor_user_id actor \<noteq> us_user_id (uv_user target)
            then require_permission env actor User_resource
              (UpdateUser role \<lparr>role_user_type = xu_user_type change, role_laboratory_id = xu_laboratory_id change\<rparr>)
              (lit ''You don't have permission to update this user.'') db
            else Inr ()) (\<lambda>_.
        Inr (target, change)))))))
       (\<lambda>(target, change). update_user_in_transaction env actor target change) db"

definition delete_user_in_transaction :: "env \<Rightarrow> actor \<Rightarrow> uuid \<Rightarrow> (handler_error, unit) tx" where
  "delete_user_in_transaction env actor i =
     tx_bind (tx_map_err from_db_error (delete_user_from_database i)) (\<lambda>deleted.
     unexpected (record_audit (actor_user_id actor) Audit_Delete Res_User
       (Some (us_user_id (uv_user deleted))) (Details_delete_user deleted)))"

definition delete_user ::
    "env \<Rightarrow> actor \<Rightarrow> uuid \<Rightarrow> database \<Rightarrow> (handler_error, unit) result \<times> database" where
  "delete_user env actor i db =
     run_handler
       (and_then (fetch_user i db) (\<lambda>target.
        and_then (view_role target) (\<lambda>role.
        and_then (ensure (actor_user_id actor \<noteq> us_user_id (uv_user target))
            (ValidationError (lit ''Users cannot delete themselves''))) (\<lambda>_.
        and_then (require_permission env actor User_resource (DeleteUser role)
            (lit ''You don't have permission to delete this user.'') db) (\<lambda>_.
        Inr (us_user_id (uv_user target)))))))
       (delete_user_in_transaction env actor) db"

definition get_user :: "env \<Rightarrow> actor \<Rightarrow> uuid \<Rightarrow> database \<Rightarrow> (handler_error, user_response) result" where
  "get_user env actor i db =
     and_then (fetch_user i db) (\<lambda>target.
     and_then (ensure (is_system_admin actor \<or> actor_laboratory_id actor = us_laboratory_id (uv_user target))
         (NotFound (lit ''User not found''))) (\<lambda>_.
     and_then (require_permission env actor User_resource (Read i)
         (lit ''You don't have permission to view this user.'') db) (\<lambda>_.
     Inr (UserResponse_from target))))"

text \<open>Every account is checked in turn; the first check that fails to run fails the request.\<close>

fun visible_users :: "env \<Rightarrow> actor \<Rightarrow> user_view list \<Rightarrow> database \<Rightarrow> (handler_error, user_response list) result" where
  "visible_users env actor [] db = Inr []"
| "visible_users env actor (v # vs) db =
     and_then (map_err UnexpectedError (validate_permission db (env_now env) actor User_resource
         (Read (us_user_id (uv_user v))))) (\<lambda>visible.
     and_then (visible_users env actor vs db) (\<lambda>rest.
     Inr (if visible then UserResponse_from v # rest else rest)))"

definition list_users :: "env \<Rightarrow> actor \<Rightarrow> database \<Rightarrow> (handler_error, user_response list) result" where
  "list_users env actor db = visible_users env actor (fetch_users db) db"

end
