(* ===== verification/Guests.thy ===== *)
theory Guests
  imports Users
begin

text \<open>
  \<^verbatim>\<open>routes/guests/\<close> and \<^verbatim>\<open>domain/guest_registration_code.rs\<close>: a member of a laboratory draws a code, and
  whoever knows it registers as a guest there. A code is kept as its digest under the secret of
  the server; the digest and the draws are parameters of the surroundings. The limit on attempts
  per address lives in Redis and is not modelled.
\<close>

section \<open>Codes\<close>

text \<open>\<^verbatim>\<open>format!("{value:06}")\<close> of a number below a million.\<close>

definition six_digits :: "nat \<Rightarrow> rstr" where
  "six_digits n = map (\<lambda>k. 48 + (n div 10 ^ k) mod 10) [5, 4, 3, 2, 1, 0]"

definition GuestRegistrationCode_parse :: "rstr \<Rightarrow> (rstr, rstr) result" where
  "GuestRegistrationCode_parse s =
     (if str_len s = 6 \<and> list_all is_ascii_digit s then Inr s
      else Inl (lit ''Registration code must contain exactly 6 digits.''))"

definition GuestRegistrationCode_generate :: "env \<Rightarrow> nat \<Rightarrow> rstr" where
  "GuestRegistrationCode_generate env k = six_digits (draw_code env k)"

section \<open>Constraints of the table\<close>

definition outstanding :: "code_row \<Rightarrow> bool" where
  "outstanding c \<longleftrightarrow> rc_consumed_at c = None \<and> rc_revoked_at c = None"

definition is_hex_digest :: "rstr \<Rightarrow> bool" where
  "is_hex_digest s \<longleftrightarrow> length s = 64 \<and> list_all (\<lambda>c. is_ascii_digit c \<or> (97 \<le> c \<and> c \<le> 102)) s"

definition code_checks :: "code_row \<Rightarrow> bool" where
  "code_checks c \<longleftrightarrow>
     is_hex_digest (rc_code_hmac c) \<and> rc_created_at c < rc_expires_at c
     \<and> \<not> (rc_consumed_at c \<noteq> None \<and> rc_revoked_at c \<noteq> None)"

text \<open>The two partial indexes: one outstanding code per laboratory, and no outstanding code twice.\<close>

definition same_outstanding :: "code_row \<Rightarrow> code_row \<Rightarrow> bool" where
  "same_outstanding c d \<longleftrightarrow>
     outstanding c \<and> outstanding d
     \<and> (rc_laboratory_id c = rc_laboratory_id d \<or> rc_code_hmac c = rc_code_hmac d)"

definition code_violation :: "database \<Rightarrow> code_row list \<Rightarrow> code_row \<Rightarrow> sql_error option" where
  "code_violation db others c =
     (if \<not> code_checks c then Some CheckViolation
      else if \<exists>d\<in>set others. rc_registration_code_id d = rc_registration_code_id c \<or> same_outstanding c d
      then Some (UniqueViolation (lit ''guest_registration_codes''))
      else if \<not> (rc_laboratory_id c \<in> set (laboratories db)
                \<and> (\<exists>u\<in>set (users db). us_user_id u = rc_created_by_user_id c))
      then Some ForeignKeyViolation
      else None)"

section \<open>Statements\<close>

definition lock_laboratory :: "uuid \<Rightarrow> database \<Rightarrow> bool" where
  "lock_laboratory lab db \<longleftrightarrow> lab \<in> set (laboratories db)"

definition revoke_code :: "int \<Rightarrow> code_row \<Rightarrow> code_row" where
  "revoke_code now c = c\<lparr>rc_revoked_at := Some now\<rparr>"

definition consume_code :: "int \<Rightarrow> code_row \<Rightarrow> code_row" where
  "consume_code now c = c\<lparr>rc_consumed_at := Some now\<rparr>"

definition revoke_expired_registration_code :: "env \<Rightarrow> rstr \<Rightarrow> (handler_error, unit) tx" where
  "revoke_expired_registration_code env code_hmac =
     tx_write (\<lambda>db. Inr (db\<lparr>registration_codes :=
       update_rows (\<lambda>c. rc_code_hmac c = code_hmac \<and> outstanding c \<and> rc_expires_at c \<le> env_now env)
         (revoke_code (env_now env)) (registration_codes db)\<rparr>))"

definition revoke_laboratory_registration_code :: "env \<Rightarrow> uuid \<Rightarrow> (handler_error, code_row option) tx" where
  "revoke_laboratory_registration_code env lab = (\<lambda>db.
     Inr (fetch_optional (\<lambda>c. rc_laboratory_id c = lab \<and> outstanding c) (registration_codes db),
          db\<lparr>registration_codes := update_rows (\<lambda>c. rc_laboratory_id c = lab \<and> outstanding c)
               (revoke_code (env_now env)) (registration_codes db)\<rparr>))"

text \<open>\<^verbatim>\<open>ON CONFLICT DO NOTHING\<close>: no row when a unique index is in the way.\<close>

definition insert_registration_code ::
    "env \<Rightarrow> uuid \<Rightarrow> uuid \<Rightarrow> rstr \<Rightarrow> uuid \<Rightarrow> int \<Rightarrow> (handler_error, code_row option) tx" where
  "insert_registration_code env i lab code_hmac user_id expires_at =
     (let c = \<lparr>rc_registration_code_id = i, rc_laboratory_id = lab, rc_code_hmac = code_hmac,
          rc_created_by_user_id = user_id, rc_created_at = env_now env, rc_expires_at = expires_at,
          rc_consumed_at = None, rc_revoked_at = None\<rparr>
      in (\<lambda>db. case code_violation db (registration_codes db) c of
            None \<Rightarrow> Inr (Some c, db\<lparr>registration_codes := registration_codes db @ [c]\<rparr>)
          | Some (UniqueViolation _) \<Rightarrow> Inr (None, db)
          | Some _ \<Rightarrow> Inl (UnexpectedError (lit ''guest_registration_codes''))))"

text \<open>The issuer still belongs to the laboratory of the code, as an administrator or a user of it.\<close>

definition issuer_ok :: "database \<Rightarrow> code_row \<Rightarrow> bool" where
  "issuer_ok db c \<longleftrightarrow>
     (\<exists>u\<in>set (users db). us_user_id u = rc_created_by_user_id c \<and> us_laboratory_id u = Some (rc_laboratory_id c)
        \<and> (\<exists>t\<in>set (user_types db). ut_user_type_id t = us_user_type_id u
             \<and> (ut_name t = lit ''lab_admin'' \<or> ut_name t = lit ''user'')))"

definition usable_code :: "env \<Rightarrow> rstr \<Rightarrow> database \<Rightarrow> code_row \<Rightarrow> bool" where
  "usable_code env code_hmac db c \<longleftrightarrow>
     rc_code_hmac c = code_hmac \<and> outstanding c \<and> env_now env < rc_expires_at c \<and> issuer_ok db c"

definition consume_registration_code :: "env \<Rightarrow> rstr \<Rightarrow> (handler_error, code_row option) tx" where
  "consume_registration_code env code_hmac = (\<lambda>db.
     let candidates = filter (usable_code env code_hmac db) (registration_codes db)
     in Inr (map_option (consume_code (env_now env)) (fetch_optional (\<lambda>_. True) candidates),
             db\<lparr>registration_codes := update_rows
                  (\<lambda>c. rc_registration_code_id c \<in> rc_registration_code_id ` set candidates)
                  (consume_code (env_now env)) (registration_codes db)\<rparr>))"

section \<open>Drawing a code\<close>

definition REGISTRATION_CODE_TTL_MINUTES :: nat where "REGISTRATION_CODE_TTL_MINUTES = 10"
definition REGISTRATION_CODE_GENERATION_ATTEMPTS :: nat where "REGISTRATION_CODE_GENERATION_ATTEMPTS = 32"

text \<open>\<open>k\<close> draws have been made; at most \<open>limit\<close> are.\<close>

function draw_registration_code ::
    "env \<Rightarrow> uuid \<Rightarrow> uuid \<Rightarrow> int \<Rightarrow> nat \<Rightarrow> nat \<Rightarrow> (handler_error, (rstr \<times> code_row) option) tx" where
  "draw_registration_code env lab user_id expires_at limit k =
     (if k < limit then
        (let code = GuestRegistrationCode_generate env k; code_hmac = hash_code env code
         in tx_bind (revoke_expired_registration_code env code_hmac) (\<lambda>_.
            tx_bind (insert_registration_code env (env_new_v4 env k) lab code_hmac user_id expires_at) (\<lambda>inserted.
            case inserted of
              Some row \<Rightarrow> tx_return (Some (code, row))
            | None \<Rightarrow> draw_registration_code env lab user_id expires_at limit (Suc k))))
      else tx_return None)"
  by pat_completeness auto
termination
  by (relation "measure (\<lambda>(env, lab, user_id, expires_at, limit, k). limit - k)") auto

declare draw_registration_code.simps [simp del]

record registration_code_response =
  rr_registration_code_id :: uuid
  rr_registration_code :: rstr
  rr_laboratory_id :: uuid
  rr_expires_at :: int

definition create_code_in_transaction ::
    "env \<Rightarrow> laboratory_context \<Rightarrow> (handler_error, registration_code_response) tx" where
  "create_code_in_transaction env ctx =
     (let lab = ctx_laboratory_id ctx; actor = actor_user_id (ctx_actor ctx)
      in tx_bind (tx_read (\<lambda>db. ensure (lock_laboratory lab db) (ValidationError (lit ''Invalid laboratory'')))) (\<lambda>_.
         tx_bind (revoke_laboratory_registration_code env lab) (\<lambda>replaced.
         tx_bind (draw_registration_code env lab actor
             (env_clock env + int REGISTRATION_CODE_TTL_MINUTES * 60000000)
             REGISTRATION_CODE_GENERATION_ATTEMPTS 0) (\<lambda>generated.
         tx_bind (tx_lift (ok_or (UnexpectedError (lit ''Failed to allocate a unique guest registration code''))
             generated)) (\<lambda>(code, row).
         tx_bind (case replaced of
             None \<Rightarrow> tx_return ()
           | Some c \<Rightarrow> unexpected (record_audit actor Audit_Update Res_GuestRegistrationCode
               (Some (rc_registration_code_id c)) (Details_replaced_code (rc_laboratory_id c) (rc_expires_at c)))) (\<lambda>_.
         tx_bind (unexpected (record_audit actor Audit_Create Res_GuestRegistrationCode
             (Some (rc_registration_code_id row))
             (Details_create_code (rc_registration_code_id row) (rc_laboratory_id row) (rc_expires_at row)))) (\<lambda>_.
         tx_return \<lparr>rr_registration_code_id = rc_registration_code_id row, rr_registration_code = code,
           rr_laboratory_id = rc_laboratory_id row, rr_expires_at = rc_expires_at row\<rparr>)))))))"

definition create_guest_registration_code ::
    "env \<Rightarrow> laboratory_context \<Rightarrow> database \<Rightarrow> (handler_error, registration_code_response) result \<times> database" where
  "create_guest_registration_code env ctx db =
     run_handler
       (require_permission env (ctx_actor ctx) GuestRegistrationCode_resource (Create (ctx_laboratory_id ctx))
          (lit ''You don't have permission to create a guest registration code.'') db)
       (\<lambda>_. create_code_in_transaction env ctx) db"

section \<open>Registering\<close>

record registration_payload =
  gp_username :: rstr
  gp_password :: rstr
  gp_email :: rstr
  gp_phone_number :: rstr
  gp_registration_code :: rstr
  gp_description :: "rstr option"

record guest_registration =
  gr_username :: rstr
  gr_password :: rstr
  gr_email :: rstr
  gr_phone_number :: rstr
  gr_registration_code :: rstr
  gr_description :: "rstr option"

definition GuestRegistration_try_from :: "env \<Rightarrow> registration_payload \<Rightarrow> (rstr, guest_registration) result" where
  "GuestRegistration_try_from env p =
     and_then (UserName_parse env (gp_username p)) (\<lambda>username.
     and_then (UserPassword_parse (gp_password p)) (\<lambda>password.
     and_then (UserEmail_parse env (gp_email p)) (\<lambda>email.
     and_then (PhoneNumber_parse (gp_phone_number p)) (\<lambda>phone_number.
     and_then (GuestRegistrationCode_parse (gp_registration_code p)) (\<lambda>code.
     and_then (parse_optional_description env (gp_description p)) (\<lambda>description.
     Inr \<lparr>gr_username = username, gr_password = password, gr_email = email, gr_phone_number = phone_number,
          gr_registration_code = code, gr_description = description\<rparr>))))))"

text \<open>\<^verbatim>\<open>store_new_user\<close> of \<^verbatim>\<open>routes/users/service.rs\<close> is \<^const>\<open>insert_user\<close>, its response and its audit details.\<close>

definition register_in_transaction :: "env \<Rightarrow> guest_registration \<Rightarrow> rstr \<Rightarrow> (handler_error, user_response) tx" where
  "register_in_transaction env g password_hash =
     tx_bind (consume_registration_code env (hash_code env (gr_registration_code g))) (\<lambda>consumed.
     tx_bind (tx_lift (ok_or (ValidationError (lit ''Registration code is invalid or expired'')) consumed)) (\<lambda>c.
     tx_bind (tx_lift (map_err ValidationError (NewUser_new (gr_username g) (gr_password g) Guest
         (Some (rc_laboratory_id c)) (Some (gr_email g)) (Some (gr_phone_number g)) (gr_description g)))) (\<lambda>n.
     tx_bind (tx_map_err from_db_error (insert_user env n password_hash)) (\<lambda>created.
     let user_id = us_user_id (uv_user created)
     in tx_bind (unexpected (record_audit user_id Audit_Update Res_GuestRegistrationCode
            (Some (rc_registration_code_id c)) (Details_consumed_code (rc_laboratory_id c) (rc_created_by_user_id c)))) (\<lambda>_.
        tx_bind (unexpected (record_audit user_id Audit_Create Res_User (Some user_id)
            (Details_register_guest user_id (rc_registration_code_id c) (rc_created_by_user_id c)
               (rc_laboratory_id c)))) (\<lambda>_.
        tx_return (UserResponse_from created)))))))"

definition register_guest ::
    "env \<Rightarrow> registration_payload \<Rightarrow> database \<Rightarrow> (handler_error, user_response) result \<times> database" where
  "register_guest env payload db =
     run_handler
       (and_then (map_err ValidationError (GuestRegistration_try_from env payload)) (\<lambda>g.
        and_then (hashed_password env (gr_password g)) (\<lambda>password_hash.
        Inr (g, password_hash))))
       (\<lambda>(g, password_hash). register_in_transaction env g password_hash) db"

end
