(* ===== verification/Account_Runs.thy ===== *)
theory Account_Runs
  imports Guests Checked_Tables
begin

text \<open>
  Accounts and registration codes under any number of requests: what the two tables promise, and
  that nobody but a root account touches a root account.
\<close>

section \<open>Tables\<close>

lemma same_value_sym: "same_value x y = same_value y x"
  by (auto simp: same_value_def)

interpretation user_table: checked_table us_user_id user_checks same_user_value user_violation
proof
  fix u v
  show "same_user_value u v \<Longrightarrow> same_user_value v u"
    by (auto simp: same_user_value_def same_value_sym [of "us_email u"] same_value_sym [of "us_phone_number u"])
qed (auto simp: user_violation_def same_user_value_def same_value_sym split: if_splits)

interpretation code_table: checked_table rc_registration_code_id code_checks same_outstanding code_violation
  by unfold_locales (auto simp: code_violation_def same_outstanding_def split: if_splits)

definition type_name :: "database \<Rightarrow> user_row \<Rightarrow> rstr option" where
  "type_name db u = map_option ut_name (fetch_optional (\<lambda>t. ut_user_type_id t = us_user_type_id u) (user_types db))"

text \<open>An account has a type, and a laboratory unless its type needs none.\<close>

definition account_ok :: "database \<Rightarrow> user_row \<Rightarrow> bool" where
  "account_ok db u \<longleftrightarrow>
     type_name db u \<noteq> None
     \<and> (case us_laboratory_id u of Some lab \<Rightarrow> lab \<in> set (laboratories db) | None \<Rightarrow> True)
     \<and> (\<forall>ty. type_name db u = Some (UserType_as_str ty) \<longrightarrow> needs_laboratory ty \<longrightarrow> us_laboratory_id u \<noteq> None)"

definition accounts_ok :: "database \<Rightarrow> bool" where
  "accounts_ok db \<longleftrightarrow>
     distinct (map ut_user_type_id (user_types db))
     \<and> table_ok us_user_id user_checks same_user_value (users db)
     \<and> (\<forall>u\<in>set (users db). account_ok db u)
     \<and> table_ok rc_registration_code_id code_checks same_outstanding (registration_codes db)
     \<and> (\<forall>c\<in>set (registration_codes db). rc_laboratory_id c \<in> set (laboratories db)
          \<and> (\<exists>u\<in>set (users db). us_user_id u = rc_created_by_user_id c))"

lemma account_ok_cong:
  "user_types db' = user_types db \<Longrightarrow> laboratory_rows db' = laboratory_rows db \<Longrightarrow> account_ok db' u = account_ok db u"
  by (simp add: account_ok_def type_name_def cong: option.case_cong)

lemma user_view_users [simp]: "user_view_of (db\<lparr>users := x\<rparr>) = user_view_of db"
  by (intro ext) (simp add: user_view_of_def cong: option.case_cong)

lemma user_view_Some:
  "user_view_of db u = Some v \<Longrightarrow>
     type_name db u = Some (uv_user_type_name v) \<and> us_user_id (uv_user v) = us_user_id u
     \<and> us_user_type_id (uv_user v) = us_user_type_id u \<and> us_email (uv_user v) = us_email u"
  by (auto simp: user_view_of_def type_name_def Let_def split: option.splits)

lemma user_view_laboratory:
  assumes "user_view_of db u = Some v" and "account_ok db u"
  shows "us_laboratory_id (uv_user v) = us_laboratory_id u"
proof (cases "us_laboratory_id u")
  case None
  then have "fetch_optional (\<lambda>l. Some (la_laboratory_id l) = us_laboratory_id u) (laboratory_rows db) = None"
    by (simp add: fetch_optional_None)
  with assms(1) None show ?thesis
    by (auto simp: user_view_of_def Let_def split: option.splits)
next
  case (Some lab)
  with assms(2) obtain l where "l \<in> set (laboratory_rows db)" "la_laboratory_id l = lab"
    by (auto simp: account_ok_def)
  then have "fetch_optional (\<lambda>l. Some (la_laboratory_id l) = us_laboratory_id u) (laboratory_rows db) \<noteq> None"
    using Some by (auto simp: fetch_optional_None)
  then obtain l where l: "fetch_optional (\<lambda>l. Some (la_laboratory_id l) = us_laboratory_id u) (laboratory_rows db) = Some l"
    by blast
  with assms(1) fetch_optional_Some [OF l] show ?thesis
    by (auto simp: user_view_of_def Let_def split: option.splits)
qed

lemma user_type_id_name:
  assumes "user_type_id name db = Some ty" and "distinct (map ut_user_type_id (user_types db))" and "us_user_type_id u = ty"
  shows "type_name db u = Some name"
proof -
  from assms(1) obtain t where t: "fetch_optional (\<lambda>t. ut_name t = name) (user_types db) = Some t" "ut_user_type_id t = ty"
    by (auto simp: user_type_id_def)
  note m = fetch_optional_Some [OF t(1)]
  have "fetch_optional (\<lambda>t. ut_user_type_id t = us_user_type_id u) (user_types db) = Some t"
    using fetch_optional_unique [of "ut_user_type_id" "user_types db" t] assms(2,3) t(2) m by auto
  with m show ?thesis
    by (simp add: type_name_def)
qed

section \<open>Statements\<close>

lemma insert_user_Inr:
  assumes "insert_user env n h db = Inr (v, db')"
  obtains u where "user_violation db (users db) u = None" "db' = db\<lparr>users := users db @ [u]\<rparr>"
    "user_type_id (UserType_as_str (nw_user_type n)) db = Some (us_user_type_id u)" "us_laboratory_id u = nw_laboratory_id n"
    "us_user_id u = env_new_v4 env 0" "us_password_hash u = h" "us_username u = nw_username n"
    "user_view_of db u = Some v"
proof -
  from assms obtain ty where ty: "user_type_id (UserType_as_str (nw_user_type n)) db = Some ty"
    by (auto simp: insert_user_def split: option.splits)
  define u where "u = \<lparr>us_user_id = env_new_v4 env 0, us_username = nw_username n, us_password_hash = h,
                us_user_type_id = ty, us_laboratory_id = nw_laboratory_id n, us_email = nw_email n,
                us_phone_number = nw_phone_number n, us_description = nw_description n,
                us_created_at = env_now env, us_last_login_at = None, us_is_federation_shadow = False\<rparr>"
  have "user_violation db (users db) u = None" "db' = db\<lparr>users := users db @ [u]\<rparr>" "user_view_of db u = Some v"
    using assms ty by (auto simp: insert_user_def Let_def tx_unfold ok_or_Inr_iff u_def [symmetric] split: option.splits)
  then show thesis
    using ty by (intro that [of u]) (auto simp: u_def)
qed

lemma update_user_in_database_Inr:
  assumes "update_user_in_database i name ty_name lab email phone d db = Inr (v, db')"
  obtains u ty rows where "fetch_optional (\<lambda>u. us_user_id u = i) (users db) = Some u" "user_type_id ty_name db = Some ty"
    "write_row (user_violation db) us_user_id (set_user name ty lab email phone d) i (users db) = Inr rows"
    "db' = db\<lparr>users := rows\<rparr>"
  using assms
  by (auto simp: update_user_in_database_def Let_def tx_unfold and_then_Inr_iff split: option.splits)

lemma set_user_id: "us_user_id (set_user name ty lab email phone d u) = us_user_id u"
  by (simp add: set_user_def)

text \<open>The statements over codes.\<close>

lemma revoked_table:
  assumes "table_ok rc_registration_code_id code_checks same_outstanding rows"
  shows "table_ok rc_registration_code_id code_checks same_outstanding
    (update_rows (\<lambda>c. p c \<and> outstanding c) (revoke_code now) rows)"
proof -
  have "map rc_registration_code_id (update_rows (\<lambda>c. p c \<and> outstanding c) (revoke_code now) rows) = map rc_registration_code_id rows"
    by (simp add: update_rows_def revoke_code_def)
  then show ?thesis
    using assms unfolding table_ok_def
    by (auto simp: set_update_rows revoke_code_def code_checks_def same_outstanding_def outstanding_def)
qed

lemma code_checks_consumed: "code_checks c \<Longrightarrow> outstanding c \<Longrightarrow> code_checks (consume_code now c)"
  by (auto simp: code_checks_def outstanding_def consume_code_def)

lemma consumed_table:
  assumes ok: "table_ok rc_registration_code_id code_checks same_outstanding rows"
    and ids: "ids = rc_registration_code_id ` {c \<in> set rows. p c}" and p: "\<And>c. p c \<Longrightarrow> outstanding c"
  shows "table_ok rc_registration_code_id code_checks same_outstanding
    (update_rows (\<lambda>c. rc_registration_code_id c \<in> ids) (consume_code now) rows)"
proof -
  have same: "update_rows (\<lambda>c. rc_registration_code_id c \<in> ids) (consume_code now) rows = update_rows p (consume_code now) rows"
    using code_table.unique [OF ok] by (auto simp: update_rows_def ids)
  have "map rc_registration_code_id (update_rows p (consume_code now) rows) = map rc_registration_code_id rows"
    by (simp add: update_rows_def consume_code_def)
  moreover have "code_checks r" if "r \<in> set (update_rows p (consume_code now) rows)" for r
    using that ok p by (auto simp: set_update_rows table_ok_def code_checks_consumed)
  moreover have "\<not> same_outstanding r s" if "r \<in> set (update_rows p (consume_code now) rows)"
      "s \<in> set (update_rows p (consume_code now) rows)" "rc_registration_code_id s \<noteq> rc_registration_code_id r" for r s
  proof -
    have kept: "q \<in> set rows" if "q \<in> set (update_rows p (consume_code now) rows)" "outstanding q" for q
      using that by (auto simp: set_update_rows outstanding_def consume_code_def)
    then show ?thesis
      using that ok by (auto simp: table_ok_def same_outstanding_def)
  qed
  ultimately show ?thesis
    using ok unfolding same by (simp add: table_ok_def)
qed

lemma consume_registration_code_Inr:
  assumes "consume_registration_code env h db = Inr (Some c, db')"
    and ok: "table_ok rc_registration_code_id code_checks same_outstanding (registration_codes db)"
  obtains d where "d \<in> set (registration_codes db)" "usable_code env h db d" "c = consume_code (env_now env) d"
    "db' = db\<lparr>registration_codes :=
       update_rows (\<lambda>c. rc_registration_code_id c = rc_registration_code_id d) (consume_code (env_now env)) (registration_codes db)\<rparr>"
proof -
  define ds where "ds = filter (usable_code env h db) (registration_codes db)"
  from assms(1) obtain d where d: "fetch_optional (\<lambda>_. True) ds = Some d" "c = consume_code (env_now env) d"
      and db': "db' = db\<lparr>registration_codes := update_rows (\<lambda>c. rc_registration_code_id c \<in> rc_registration_code_id ` set ds)
         (consume_code (env_now env)) (registration_codes db)\<rparr>"
    by (auto simp: consume_registration_code_def Let_def ds_def)
  have m: "d \<in> set (registration_codes db)" "usable_code env h db d"
    using fetch_optional_Some [OF d(1)] by (auto simp: ds_def)
  have only: "rc_registration_code_id e = rc_registration_code_id d" if "e \<in> set ds" for e
  proof (rule ccontr)
    assume ne: "rc_registration_code_id e \<noteq> rc_registration_code_id d"
    have e: "e \<in> set (registration_codes db)" "usable_code env h db e"
      using that by (auto simp: ds_def)
    have "\<not> same_outstanding d e"
      using ok m(1) e(1) ne unfolding table_ok_def by blast
    with m(2) e(2) show False
      by (simp add: same_outstanding_def usable_code_def)
  qed
  have "d \<in> set ds"
    using fetch_optional_Some [OF d(1)] by simp
  have ids: "rc_registration_code_id ` set ds = {rc_registration_code_id d}"
  proof
    show "rc_registration_code_id ` set ds \<subseteq> {rc_registration_code_id d}"
      using only by (intro image_subsetI) simp
  qed (use \<open>d \<in> set ds\<close> in simp)
  have "db' = db\<lparr>registration_codes :=
       update_rows (\<lambda>c. rc_registration_code_id c = rc_registration_code_id d) (consume_code (env_now env)) (registration_codes db)\<rparr>"
    unfolding db' ids by simp
  with m d(2) show thesis
    by (rule that)
qed

text \<open>
  What drawing a code comes to: some draw within the limit is new among the outstanding codes
  that have not expired, or every one of them is taken. The codes only change by expired ones
  being revoked.
\<close>

definition taken :: "env \<Rightarrow> database \<Rightarrow> nat \<Rightarrow> bool" where
  "taken env db k \<longleftrightarrow>
     (\<exists>c\<in>set (registration_codes db). outstanding c \<and> env_now env < rc_expires_at c
        \<and> rc_code_hmac c = hash_code env (GuestRegistrationCode_generate env k))"

definition drawn_row :: "env \<Rightarrow> uuid \<Rightarrow> uuid \<Rightarrow> int \<Rightarrow> nat \<Rightarrow> code_row" where
  "drawn_row env lab u expires k =
     \<lparr>rc_registration_code_id = env_new_v4 env k, rc_laboratory_id = lab,
      rc_code_hmac = hash_code env (GuestRegistrationCode_generate env k), rc_created_by_user_id = u,
      rc_created_at = env_now env, rc_expires_at = expires, rc_consumed_at = None, rc_revoked_at = None\<rparr>"

definition revoke_expired :: "env \<Rightarrow> nat \<Rightarrow> database \<Rightarrow> database" where
  "revoke_expired env k db = db\<lparr>registration_codes :=
     update_rows (\<lambda>c. rc_code_hmac c = hash_code env (GuestRegistrationCode_generate env k) \<and> outstanding c
        \<and> rc_expires_at c \<le> env_now env) (revoke_code (env_now env)) (registration_codes db)\<rparr>"

lemma draw_step:
  assumes "k < limit"
  shows "draw_registration_code env lab u expires limit k db =
    (case code_violation (revoke_expired env k db) (registration_codes (revoke_expired env k db)) (drawn_row env lab u expires k) of
       None \<Rightarrow> Inr (Some (GuestRegistrationCode_generate env k, drawn_row env lab u expires k),
                 (revoke_expired env k db)\<lparr>registration_codes :=
                    registration_codes (revoke_expired env k db) @ [drawn_row env lab u expires k]\<rparr>)
     | Some (UniqueViolation _) \<Rightarrow> draw_registration_code env lab u expires limit (Suc k) (revoke_expired env k db)
     | Some _ \<Rightarrow> Inl (UnexpectedError (lit ''guest_registration_codes'')))"
proof -
  have e: "revoke_expired_registration_code env (hash_code env (GuestRegistrationCode_generate env k)) db = Inr ((), revoke_expired env k db)"
    by (simp add: revoke_expired_registration_code_def tx_write_def revoke_expired_def)
  have i: "insert_registration_code env (env_new_v4 env k) lab (hash_code env (GuestRegistrationCode_generate env k)) u expires db1
    = (case code_violation db1 (registration_codes db1) (drawn_row env lab u expires k) of
          None \<Rightarrow> Inr (Some (drawn_row env lab u expires k),
             db1\<lparr>registration_codes := registration_codes db1 @ [drawn_row env lab u expires k]\<rparr>)
        | Some (UniqueViolation _) \<Rightarrow> Inr (None, db1)
        | Some _ \<Rightarrow> Inl (UnexpectedError (lit ''guest_registration_codes'')))" for db1
    by (simp only: insert_registration_code_def drawn_row_def Let_def)
  show ?thesis
    using assms by (subst draw_registration_code.simps)
      (simp add: Let_def tx_bind_def e i tx_return_def split: option.splits sql_error.splits)
qed

lemma revoke_expired_mem:
  "c \<in> set (registration_codes (revoke_expired env k db)) \<Longrightarrow> outstanding c \<Longrightarrow> c \<in> set (registration_codes db)"
  by (auto simp: revoke_expired_def set_update_rows revoke_code_def outstanding_def)

lemma revoke_expired_keeps:
  "c \<in> set (registration_codes db) \<Longrightarrow> env_now env < rc_expires_at c \<Longrightarrow> c \<in> set (registration_codes (revoke_expired env k db))"
  by (auto simp: revoke_expired_def set_update_rows)

lemma taken_revoke_expired: "taken env (revoke_expired env k db) j = taken env db j"
  using revoke_expired_mem revoke_expired_keeps unfolding taken_def by blast

text \<open>What the loop finds in place and may count on.\<close>

definition draw_ready :: "env \<Rightarrow> uuid \<Rightarrow> uuid \<Rightarrow> int \<Rightarrow> database \<Rightarrow> bool" where
  "draw_ready env lab u expires db \<longleftrightarrow>
     env_now env < expires \<and> lab \<in> set (laboratories db) \<and> (\<exists>v\<in>set (users db). us_user_id v = u)
     \<and> (\<forall>k. is_hex_digest (hash_code env (GuestRegistrationCode_generate env k)))
     \<and> (\<forall>k. env_new_v4 env k \<notin> rc_registration_code_id ` set (registration_codes db))
     \<and> (\<forall>c\<in>set (registration_codes db). outstanding c \<longrightarrow> rc_laboratory_id c \<noteq> lab)"

lemma revoke_expired_ids:
  "rc_registration_code_id ` set (registration_codes (revoke_expired env k db)) = rc_registration_code_id ` set (registration_codes db)"
proof -
  have "map rc_registration_code_id (registration_codes (revoke_expired env k db)) = map rc_registration_code_id (registration_codes db)"
    by (simp add: revoke_expired_def update_rows_def revoke_code_def)
  then show ?thesis
    by (metis list.set_map)
qed

lemma revoke_expired_rest:
  "laboratory_rows (revoke_expired env k db) = laboratory_rows db" "users (revoke_expired env k db) = users db"
  by (simp_all add: revoke_expired_def)

lemma draw_ready_revoke: "draw_ready env lab u expires db \<Longrightarrow> draw_ready env lab u expires (revoke_expired env k db)"
  using revoke_expired_mem [of _ env k db] unfolding draw_ready_def revoke_expired_ids revoke_expired_rest by blast

lemma drawn_violation:
  assumes "draw_ready env lab u expires db"
  shows "code_violation (revoke_expired env k db) (registration_codes (revoke_expired env k db)) (drawn_row env lab u expires k)
    = (if taken env db k then Some (UniqueViolation (lit ''guest_registration_codes'')) else None)"
proof -
  have r: "draw_ready env lab u expires (revoke_expired env k db)"
    using assms by (rule draw_ready_revoke)
  have "code_checks (drawn_row env lab u expires k)" "outstanding (drawn_row env lab u expires k)"
    using assms by (auto simp: draw_ready_def code_checks_def drawn_row_def outstanding_def)
  moreover have "(\<exists>d\<in>set (registration_codes (revoke_expired env k db)).
      rc_registration_code_id d = rc_registration_code_id (drawn_row env lab u expires k)
      \<or> same_outstanding (drawn_row env lab u expires k) d) = taken env db k"
  proof
    assume "taken env db k"
    then obtain c where "c \<in> set (registration_codes db)" "outstanding c" "env_now env < rc_expires_at c"
        "rc_code_hmac c = hash_code env (GuestRegistrationCode_generate env k)"
      by (auto simp: taken_def)
    then show "\<exists>d\<in>set (registration_codes (revoke_expired env k db)).
      rc_registration_code_id d = rc_registration_code_id (drawn_row env lab u expires k)
      \<or> same_outstanding (drawn_row env lab u expires k) d"
      using revoke_expired_keeps [of c db env k]
      by (intro bexI [of _ c]) (auto simp: same_outstanding_def drawn_row_def outstanding_def)
  next
    assume "\<exists>d\<in>set (registration_codes (revoke_expired env k db)).
      rc_registration_code_id d = rc_registration_code_id (drawn_row env lab u expires k)
      \<or> same_outstanding (drawn_row env lab u expires k) d"
    then obtain d where d: "d \<in> set (registration_codes (revoke_expired env k db))" "outstanding d"
        "rc_code_hmac d = hash_code env (GuestRegistrationCode_generate env k)"
    proof -
      assume that: "\<And>d. d \<in> set (registration_codes (revoke_expired env k db)) \<Longrightarrow> outstanding d \<Longrightarrow>
          rc_code_hmac d = hash_code env (GuestRegistrationCode_generate env k) \<Longrightarrow> thesis"
      from \<open>\<exists>d\<in>_. _\<close> obtain d where d: "d \<in> set (registration_codes (revoke_expired env k db))"
        "rc_registration_code_id d = env_new_v4 env k \<or> same_outstanding (drawn_row env lab u expires k) d"
        by (auto simp: drawn_row_def)
      have "same_outstanding (drawn_row env lab u expires k) d"
        using r d unfolding draw_ready_def by (metis image_eqI)
      moreover have "outstanding d \<longrightarrow> rc_laboratory_id d \<noteq> lab"
        using r d unfolding draw_ready_def by blast
      ultimately show thesis
        using d(1) by (intro that) (auto simp: same_outstanding_def drawn_row_def)
    qed
    moreover have "env_now env < rc_expires_at d"
      using d by (auto simp: revoke_expired_def set_update_rows revoke_code_def outstanding_def)
    ultimately show "taken env db k"
      using revoke_expired_mem [OF d(1,2)] by (auto simp: taken_def)
  qed
  moreover have "\<not> code_violation (revoke_expired env k db) [] (drawn_row env lab u expires k) \<noteq> None"
    using r by (auto simp: code_violation_def draw_ready_def code_checks_def drawn_row_def)
  ultimately show ?thesis
    by (auto simp: code_violation_def split: if_splits)
qed

text \<open>Rows are kept but for expired ones becoming revoked.\<close>

definition expiring :: "int \<Rightarrow> code_row list \<Rightarrow> code_row list \<Rightarrow> bool" where
  "expiring now rows rows' \<longleftrightarrow>
     (table_ok rc_registration_code_id code_checks same_outstanding rows \<longrightarrow>
        table_ok rc_registration_code_id code_checks same_outstanding rows')
     \<and> (\<forall>c\<in>set rows'. outstanding c \<longrightarrow> c \<in> set rows)
     \<and> (\<forall>c\<in>set rows'. \<exists>d\<in>set rows. rc_laboratory_id c = rc_laboratory_id d
          \<and> rc_created_by_user_id c = rc_created_by_user_id d)
     \<and> (\<forall>c\<in>set rows. now < rc_expires_at c \<longrightarrow> c \<in> set rows')"

definition only_expires :: "env \<Rightarrow> database \<Rightarrow> database \<Rightarrow> bool" where
  "only_expires env db db' \<longleftrightarrow>
     db'\<lparr>registration_codes := []\<rparr> = db\<lparr>registration_codes := []\<rparr>
     \<and> expiring (env_now env) (registration_codes db) (registration_codes db')"

lemma same_but_codes:
  "db'\<lparr>registration_codes := []\<rparr> = db\<lparr>registration_codes := []\<rparr> \<longleftrightarrow> db' = db\<lparr>registration_codes := registration_codes db'\<rparr>"
  by (cases db; cases db') simp

lemma only_expires_refl: "only_expires env db db"
  by (auto simp: only_expires_def expiring_def)

lemma only_expires_step: "only_expires env db (revoke_expired env k db)"
  unfolding only_expires_def expiring_def
proof (intro conjI ballI impI)
  show "(revoke_expired env k db)\<lparr>registration_codes := []\<rparr> = db\<lparr>registration_codes := []\<rparr>"
    by (simp add: revoke_expired_def)
  show "table_ok rc_registration_code_id code_checks same_outstanding (registration_codes (revoke_expired env k db))"
    if "table_ok rc_registration_code_id code_checks same_outstanding (registration_codes db)"
    using revoked_table [OF that, of "\<lambda>c. rc_code_hmac c = hash_code env (GuestRegistrationCode_generate env k)
        \<and> rc_expires_at c \<le> env_now env" "env_now env"]
    by (simp add: revoke_expired_def conj_ac)
  fix c
  show "c \<in> set (registration_codes db)" if "c \<in> set (registration_codes (revoke_expired env k db))" "outstanding c"
    using that by (rule revoke_expired_mem)
  show "c \<in> set (registration_codes (revoke_expired env k db))" if "c \<in> set (registration_codes db)" "env_now env < rc_expires_at c"
    using that by (rule revoke_expired_keeps)
  show "\<exists>d\<in>set (registration_codes db). rc_laboratory_id c = rc_laboratory_id d \<and> rc_created_by_user_id c = rc_created_by_user_id d"
    if "c \<in> set (registration_codes (revoke_expired env k db))"
    using that by (auto simp: revoke_expired_def set_update_rows revoke_code_def)
qed

lemma expiring_trans: "expiring now rows rows1 \<Longrightarrow> expiring now rows1 rows2 \<Longrightarrow> expiring now rows rows2"
  unfolding expiring_def
proof (elim conjE, intro conjI ballI impI)
  assume a: "\<forall>c\<in>set rows1. \<exists>d\<in>set rows. rc_laboratory_id c = rc_laboratory_id d \<and> rc_created_by_user_id c = rc_created_by_user_id d"
    "\<forall>c\<in>set rows2. \<exists>d\<in>set rows1. rc_laboratory_id c = rc_laboratory_id d \<and> rc_created_by_user_id c = rc_created_by_user_id d"
  fix c
  assume "c \<in> set rows2"
  with a(2) obtain d where d: "d \<in> set rows1" "rc_laboratory_id c = rc_laboratory_id d" "rc_created_by_user_id c = rc_created_by_user_id d"
    by blast
  from a(1) d(1) obtain e where "e \<in> set rows" "rc_laboratory_id d = rc_laboratory_id e" "rc_created_by_user_id d = rc_created_by_user_id e"
    by blast
  with d show "\<exists>d\<in>set rows. rc_laboratory_id c = rc_laboratory_id d \<and> rc_created_by_user_id c = rc_created_by_user_id d"
    by (intro bexI [of _ e]) auto
qed blast+

lemma only_expires_trans: "only_expires env db db1 \<Longrightarrow> only_expires env db1 db2 \<Longrightarrow> only_expires env db db2"
  using expiring_trans by (auto simp: only_expires_def)

lemma draw_outcome:
  assumes "draw_ready env lab u expires db" and "k \<le> limit"
  shows "\<exists>db1. only_expires env db db1 \<and>
    draw_registration_code env lab u expires limit k db =
      (case find (\<lambda>j. \<not> taken env db j) [k..<limit] of
         Some j \<Rightarrow> Inr (Some (GuestRegistrationCode_generate env j, drawn_row env lab u expires j),
           db1\<lparr>registration_codes := registration_codes db1 @ [drawn_row env lab u expires j]\<rparr>)
       | None \<Rightarrow> Inr (None, db1))
    \<and> (\<forall>j. find (\<lambda>j. \<not> taken env db j) [k..<limit] = Some j \<longrightarrow>
         code_violation db1 (registration_codes db1) (drawn_row env lab u expires j) = None)"
  using assms
proof (induction "limit - k" arbitrary: k db)
  case 0
  then show ?case
    using only_expires_refl by (auto simp: draw_registration_code.simps tx_return_def)
next
  case (Suc n)
  then have k: "k < limit"
    by simp
  note step = draw_step [OF k, of env lab u expires db] drawn_violation [OF Suc.prems(1), of k]
  have upt: "[k..<limit] = k # [Suc k..<limit]"
    using k by (rule upt_conv_Cons)
  show ?case
  proof (cases "taken env db k")
    case False
    then show ?thesis
      using step only_expires_step [of env db k] by (intro exI [of _ "revoke_expired env k db"]) (simp add: upt)
  next
    case True
    have "\<exists>db1. only_expires env (revoke_expired env k db) db1 \<and>
        draw_registration_code env lab u expires limit (Suc k) (revoke_expired env k db) =
          (case find (\<lambda>j. \<not> taken env (revoke_expired env k db) j) [Suc k..<limit] of
             Some j \<Rightarrow> Inr (Some (GuestRegistrationCode_generate env j, drawn_row env lab u expires j),
               db1\<lparr>registration_codes := registration_codes db1 @ [drawn_row env lab u expires j]\<rparr>)
           | None \<Rightarrow> Inr (None, db1))
        \<and> (\<forall>j. find (\<lambda>j. \<not> taken env (revoke_expired env k db) j) [Suc k..<limit] = Some j \<longrightarrow>
             code_violation db1 (registration_codes db1) (drawn_row env lab u expires j) = None)"
      using Suc.hyps(2) k draw_ready_revoke [OF Suc.prems(1)] by (intro Suc.hyps(1)) auto
    then obtain db1 where "only_expires env (revoke_expired env k db) db1"
      and d: "draw_registration_code env lab u expires limit (Suc k) (revoke_expired env k db) =
        (case find (\<lambda>j. \<not> taken env db j) [Suc k..<limit] of
           Some j \<Rightarrow> Inr (Some (GuestRegistrationCode_generate env j, drawn_row env lab u expires j),
             db1\<lparr>registration_codes := registration_codes db1 @ [drawn_row env lab u expires j]\<rparr>)
         | None \<Rightarrow> Inr (None, db1))"
      and v: "\<forall>j. find (\<lambda>j. \<not> taken env db j) [Suc k..<limit] = Some j \<longrightarrow>
         code_violation db1 (registration_codes db1) (drawn_row env lab u expires j) = None"
      unfolding taken_revoke_expired by blast
    then have "only_expires env db db1"
      using only_expires_step only_expires_trans by blast
    with True d v step show ?thesis
      by (intro exI [of _ db1]) (simp add: upt)
  qed
qed

section \<open>Requests keep the tables\<close>

lemma accounts_audit [simp]: "accounts_ok (db\<lparr>audit_logs := es\<rparr>) = accounts_ok db"
  by (simp add: accounts_ok_def account_ok_def type_name_def cong: option.case_cong)

lemma same_type_name: "UserType_as_str ty = UserType_as_str ty' \<longleftrightarrow> ty = ty'"
  by (cases ty; cases ty') simp_all

lemma NewUser_new_Inr:
  "NewUser_new name pw ty lab email phone d = Inr n \<longleftrightarrow>
     \<not> (needs_laboratory ty \<and> lab = None)
     \<and> n = \<lparr>nw_username = name, nw_password = pw, nw_user_type = ty, nw_laboratory_id = lab, nw_email = email,
             nw_phone_number = phone, nw_description = d\<rparr>"
  by (auto simp: NewUser_new_def)

lemma NewUser_try_from_Inr:
  "NewUser_try_from env p = Inr n \<Longrightarrow> needs_laboratory (nw_user_type n) \<longrightarrow> nw_laboratory_id n \<noteq> None"
  by (auto simp: NewUser_try_from_def and_then_Inr_iff NewUser_new_Inr)

lemma into_update_user_Inr:
  assumes "into_update_user env p ty lab = Inr c"
  shows "needs_laboratory (xu_user_type c) \<longrightarrow> xu_laboratory_id c \<noteq> None"
    and "\<not> updates_role_or_laboratory p \<Longrightarrow> xu_user_type c = ty"
  using assms
  by (auto simp: into_update_user_def and_then_Inr_iff UpdateUser_new_def Let_def updates_role_or_laboratory_def
      coalesce_def transpose_with_Inr_iff split: if_splits)

text \<open>A row that passed the checks of the table and has a type and, if it needs one, a laboratory.\<close>

lemma checked_account_ok:
  assumes "distinct (map ut_user_type_id (user_types db))" and "user_type_id (UserType_as_str ty) db = Some (us_user_type_id u)"
    and "user_violation db others u = None" and "needs_laboratory ty \<longrightarrow> us_laboratory_id u \<noteq> None"
  shows "account_ok db u" and "type_name db u = Some (UserType_as_str ty)"
proof -
  show t: "type_name db u = Some (UserType_as_str ty)"
    using user_type_id_name [OF assms(2,1)] by simp
  show "account_ok db u"
    using assms(3,4) by (auto simp: account_ok_def t same_type_name user_violation_def user_fkey_def split: if_splits option.splits)
qed

definition root_rows :: "database \<Rightarrow> user_row list" where
  "root_rows db = filter (\<lambda>u. type_name db u = Some (lit ''root'')) (users db)"

lemma type_name_frame [simp]: "type_name (db\<lparr>users := x\<rparr>) = type_name db" "type_name (db\<lparr>audit_logs := y\<rparr>) = type_name db"
    "type_name (db\<lparr>registration_codes := z\<rparr>) = type_name db"
  by (intro ext; simp add: type_name_def)+

lemma insert_user_keeps:
  assumes ok: "accounts_ok db" and run: "insert_user env n h db = Inr (v, db')"
    and lab: "needs_laboratory (nw_user_type n) \<longrightarrow> nw_laboratory_id n \<noteq> None"
  shows "accounts_ok db'" and "nw_user_type n \<noteq> Root \<Longrightarrow> root_rows db' = root_rows db"
proof -
  from run obtain u where u: "user_violation db (users db) u = None" "db' = db\<lparr>users := users db @ [u]\<rparr>"
      "user_type_id (UserType_as_str (nw_user_type n)) db = Some (us_user_type_id u)" "us_laboratory_id u = nw_laboratory_id n"
    by (rule insert_user_Inr)
  have d: "distinct (map ut_user_type_id (user_types db))"
    using ok by (simp add: accounts_ok_def)
  note a = checked_account_ok [OF d u(3,1)] lab u(4)
  show "accounts_ok db'"
    using ok a user_table.insert [of "users db" db u] u(1)
    by (auto simp: accounts_ok_def u(2) account_ok_cong [of "db\<lparr>users := _\<rparr>" db])
  show "root_rows db' = root_rows db" if "nw_user_type n \<noteq> Root"
    using that a same_type_name [of "nw_user_type n" Root] by (simp add: root_rows_def u(2))
qed

lemma update_user_keeps:
  assumes ok: "accounts_ok db" and run: "update_user_in_database i name (UserType_as_str ty) lab email phone d db = Inr (v, db')"
    and lab: "needs_laboratory ty \<longrightarrow> lab \<noteq> None"
  shows "accounts_ok db'"
    and "ty \<noteq> Root \<Longrightarrow> (\<And>u. u \<in> set (users db) \<Longrightarrow> us_user_id u = i \<Longrightarrow> type_name db u \<noteq> Some (lit ''root''))
      \<Longrightarrow> root_rows db' = root_rows db"
proof -
  from run obtain u t rows where u: "fetch_optional (\<lambda>u. us_user_id u = i) (users db) = Some u"
      "user_type_id (UserType_as_str ty) db = Some t"
      "write_row (user_violation db) us_user_id (set_user name t lab email phone d) i (users db) = Inr rows"
      "db' = db\<lparr>users := rows\<rparr>"
    by (rule update_user_in_database_Inr)
  have d: "distinct (map ut_user_type_id (user_types db))" and t: "table_ok us_user_id user_checks same_user_value (users db)"
    using ok by (simp_all add: accounts_ok_def)
  have new: "account_ok db (set_user name t lab email phone d x) \<and> type_name db (set_user name t lab email phone d x) = Some (UserType_as_str ty)"
    if "user_violation db others (set_user name t lab email phone d x) = None" for x others
    using checked_account_ok [OF d _ that, of ty] u(2) lab by (simp add: set_user_def)
  have "account_ok db r" if "r \<in> set rows" for r
    using user_table.overwritten [OF t u(3) that] ok new by (auto simp: accounts_ok_def)
  note rows_ok = this
  have "map us_user_id rows = map us_user_id (users db)"
    using write_row_Inr [OF u(3)] by (simp add: update_rows_def set_user_def)
  then have "us_user_id ` set rows = us_user_id ` set (users db)"
    by (metis list.set_map)
  moreover have in_ids: "(\<exists>u\<in>A. us_user_id u = k) = (k \<in> us_user_id ` A)" for A k
    by auto
  ultimately have "(\<exists>u\<in>set rows. us_user_id u = k) = (\<exists>u\<in>set (users db). us_user_id u = k)" for k
    unfolding in_ids by simp
  with rows_ok show "accounts_ok db'"
    using ok user_table.overwrite [OF t u(3)]
    by (auto simp: accounts_ok_def u(4) account_ok_cong [of "db\<lparr>users := _\<rparr>" db] set_user_id)
  show "root_rows db' = root_rows db"
    if "ty \<noteq> Root" "\<And>u. u \<in> set (users db) \<Longrightarrow> us_user_id u = i \<Longrightarrow> type_name db u \<noteq> Some (lit ''root'')"
  proof -
    have "type_name db (set_user name t lab email phone d x) = Some (UserType_as_str ty)" for x
      using user_type_id_name [OF u(2) d] by (simp add: set_user_def)
    then show ?thesis
      using that same_type_name [of ty Root] unfolding root_rows_def u(4) write_row_Inr [OF u(3)]
      by (simp add: filter_update_rows)
  qed
qed

lemma delete_user_keeps:
  assumes ok: "accounts_ok db" and run: "delete_user_from_database i db = Inr (v, db')"
  shows "accounts_ok db'"
    and "(\<And>u. u \<in> set (users db) \<Longrightarrow> us_user_id u = i \<Longrightarrow> type_name db u \<noteq> Some (lit ''root'')) \<Longrightarrow> root_rows db' = root_rows db"
proof -
  from run have db': "user_types db' = user_types db" "laboratory_rows db' = laboratory_rows db"
      "users db' = filter (\<lambda>u. us_user_id u \<noteq> i) (users db)"
      "registration_codes db' = filter (\<lambda>c. rc_created_by_user_id c \<noteq> i) (registration_codes db)"
    by (auto simp: delete_user_from_database_def Let_def tx_unfold split: option.splits if_splits)
  have same: "type_name db' = type_name db"
    by (intro ext) (simp add: type_name_def db')
  show "accounts_ok db'"
    using ok unfolding accounts_ok_def db'
    by (auto simp: account_ok_cong [OF db'(1,2)] intro: user_table.delete code_table.delete) (metis)
  show "root_rows db' = root_rows db"
    if "\<And>u. u \<in> set (users db) \<Longrightarrow> us_user_id u = i \<Longrightarrow> type_name db u \<noteq> Some (lit ''root'')"
    using that by (auto simp: root_rows_def same db' intro: filter_cong)
qed

lemma codes_change_keeps:
  assumes "accounts_ok db" and "table_ok rc_registration_code_id code_checks same_outstanding rows"
    and "\<And>c. c \<in> set rows \<Longrightarrow> rc_laboratory_id c \<in> set (laboratories db) \<and> (\<exists>u\<in>set (users db). us_user_id u = rc_created_by_user_id c)"
  shows "accounts_ok (db\<lparr>registration_codes := rows\<rparr>)" and "root_rows (db\<lparr>registration_codes := rows\<rparr>) = root_rows db"
  using assms by (auto simp: accounts_ok_def root_rows_def account_ok_cong [of "db\<lparr>registration_codes := _\<rparr>" db])

lemma consume_keeps:
  assumes ok: "accounts_ok db" and run: "consume_registration_code env h db = Inr (c, db')"
  shows "accounts_ok db' \<and> root_rows db' = root_rows db"
proof -
  define ids where "ids = rc_registration_code_id ` {c \<in> set (registration_codes db). usable_code env h db c}"
  have db': "db' = db\<lparr>registration_codes := update_rows (\<lambda>c. rc_registration_code_id c \<in> ids)
      (consume_code (env_now env)) (registration_codes db)\<rparr>"
    using run by (auto simp: consume_registration_code_def Let_def ids_def)
  have t: "table_ok rc_registration_code_id code_checks same_outstanding (registration_codes db)"
    using ok by (simp add: accounts_ok_def)
  show ?thesis
    unfolding db' using ok consumed_table [OF t ids_def]
    by (intro conjI codes_change_keeps) (auto simp: usable_code_def accounts_ok_def set_update_rows consume_code_def)
qed

lemma revoke_laboratory_keeps:
  assumes ok: "accounts_ok db" and run: "revoke_laboratory_registration_code env lab db = Inr (c, db')"
  shows "accounts_ok db' \<and> root_rows db' = root_rows db"
proof -
  have t: "table_ok rc_registration_code_id code_checks same_outstanding (registration_codes db)"
    using ok by (simp add: accounts_ok_def)
  have db': "db' = db\<lparr>registration_codes := update_rows (\<lambda>c. rc_laboratory_id c = lab \<and> outstanding c)
      (revoke_code (env_now env)) (registration_codes db)\<rparr>"
    using run by (simp add: revoke_laboratory_registration_code_def)
  show ?thesis
    unfolding db' using ok revoked_table [OF t]
    by (intro conjI codes_change_keeps) (auto simp: accounts_ok_def set_update_rows revoke_code_def)
qed

lemma insert_code_keeps:
  assumes ok: "accounts_ok db" and v: "code_violation db (registration_codes db) c = None"
  shows "accounts_ok (db\<lparr>registration_codes := registration_codes db @ [c]\<rparr>)"
    "root_rows (db\<lparr>registration_codes := registration_codes db @ [c]\<rparr>) = root_rows db"
proof -
  have t: "table_ok rc_registration_code_id code_checks same_outstanding (registration_codes db @ [c])"
    using ok v code_table.insert by (simp add: accounts_ok_def)
  have refs: "rc_laboratory_id d \<in> set (laboratories db) \<and> (\<exists>u\<in>set (users db). us_user_id u = rc_created_by_user_id d)"
    if "d \<in> set (registration_codes db @ [c])" for d
    using that ok v by (auto simp: accounts_ok_def code_violation_def split: if_splits)
  show "accounts_ok (db\<lparr>registration_codes := registration_codes db @ [c]\<rparr>)"
    "root_rows (db\<lparr>registration_codes := registration_codes db @ [c]\<rparr>) = root_rows db"
    using codes_change_keeps [OF ok t refs] by simp_all
qed

lemma only_expires_keeps:
  assumes ok: "accounts_ok db" and run: "only_expires env db db'"
  shows "accounts_ok db' \<and> root_rows db' = root_rows db"
proof -
  from run have e: "expiring (env_now env) (registration_codes db) (registration_codes db')"
      and db': "db' = db\<lparr>registration_codes := registration_codes db'\<rparr>"
    by (simp_all add: only_expires_def same_but_codes)
  have t: "table_ok rc_registration_code_id code_checks same_outstanding (registration_codes db')"
    using e ok by (simp add: expiring_def accounts_ok_def)
  have refs: "rc_laboratory_id c \<in> set (laboratories db) \<and> (\<exists>u\<in>set (users db). us_user_id u = rc_created_by_user_id c)"
    if "c \<in> set (registration_codes db')" for c
  proof -
    from e that obtain d where "d \<in> set (registration_codes db)" "rc_laboratory_id c = rc_laboratory_id d"
        "rc_created_by_user_id c = rc_created_by_user_id d"
      unfolding expiring_def by blast
    then show ?thesis
      using ok unfolding accounts_ok_def by simp
  qed
  show ?thesis
    using codes_change_keeps [OF ok t refs] db' by metis
qed

lemma draw_keeps:
  assumes "accounts_ok db" and "draw_registration_code env lab u expires limit k db = Inr (x, db')"
  shows "accounts_ok db' \<and> root_rows db' = root_rows db"
  using assms
proof (induction "limit - k" arbitrary: k db)
  case 0
  then show ?case
    by (simp add: draw_registration_code.simps tx_return_def)
next
  case (Suc n)
  then have k: "k < limit"
    by simp
  have r: "accounts_ok (revoke_expired env k db)" "root_rows (revoke_expired env k db) = root_rows db"
    using only_expires_keeps [OF Suc.prems(1) only_expires_step] by simp_all
  show ?case
    using Suc.prems(2) Suc.hyps(1) [of "Suc k" "revoke_expired env k db"] Suc.hyps(2) r k insert_code_keeps [OF r(1)]
    by (auto simp: draw_step [OF k] split: option.splits sql_error.splits)
qed

section \<open>Runs\<close>

lemma root_rows_audit [simp]: "root_rows (db\<lparr>audit_logs := es\<rparr>) = root_rows db"
  by (simp add: root_rows_def)

definition accounts_kept :: "database \<Rightarrow> database \<Rightarrow> bool" where
  "accounts_kept db db' \<longleftrightarrow> accounts_ok db' \<and> root_rows db' = root_rows db"

lemma can_manage_root: "can_manage_user a role \<Longrightarrow> \<not> is_root a \<Longrightarrow> role_user_type role \<noteq> Root"
  by (auto simp: can_manage_user_def actor_roles split: if_splits)

lemma create_user_kept:
  assumes ok: "accounts_ok db" and a: "\<not> is_root a" and run: "create_user env a payload db = (r, db')"
  shows "accounts_kept db db'"
  using run_handler_outcome [OF run [unfolded create_user_def]]
proof (elim disjE conjE exE)
  fix c x
  assume "(\<lambda>(n, password_hash). create_user_in_transaction env a n password_hash) c db = Inr (x, db')"
    and "and_then (map_err ValidationError (NewUser_try_from env payload)) (\<lambda>n.
        and_then (require_permission env a User_resource
            (CreateUser \<lparr>role_user_type = nw_user_type n, role_laboratory_id = nw_laboratory_id n\<rparr>)
            (lit ''You don't have permission to create this user.'') db) (\<lambda>_.
        and_then (hashed_password env (nw_password n)) (\<lambda>password_hash. Inr (n, password_hash)))) = Inr c"
  then obtain n h v db1 es where n: "NewUser_try_from env payload = Inr n"
      and may: "can_manage_user a \<lparr>role_user_type = nw_user_type n, role_laboratory_id = nw_laboratory_id n\<rparr>"
      and i: "insert_user env n h db = Inr (v, db1)" and db': "db' = db1\<lparr>audit_logs := es\<rparr>"
    by (force simp: create_user_in_transaction_def tx_unfold and_then_Inr_iff map_err_Inr_iff validate_permission_def permit_user_def)
  then show "accounts_kept db db'"
    using insert_user_keeps [OF ok i] NewUser_try_from_Inr [OF n] can_manage_root [OF may a] by (auto simp: accounts_kept_def)
qed (use ok in \<open>simp add: accounts_kept_def\<close>)

lemma fetch_user_Inr:
  assumes "fetch_user i db = Inr v" and "accounts_ok db"
  obtains u where "u \<in> set (users db)" "us_user_id u = i" "us_user_id (uv_user v) = i"
    "type_name db u = Some (uv_user_type_name v)" "us_laboratory_id (uv_user v) = us_laboratory_id u"
    "\<And>x. x \<in> set (users db) \<Longrightarrow> us_user_id x = i \<Longrightarrow> x = u"
proof -
  from assms(1) obtain u where u: "fetch_optional (\<lambda>u. us_user_id u = i) (users db) = Some u" "user_view_of db u = Some v"
    by (auto simp: fetch_user_def ok_or_Inr_iff bind_eq_Some_conv)
  note m = fetch_optional_Some [OF u(1)]
  have "account_ok db u" and t: "table_ok us_user_id user_checks same_user_value (users db)"
    using assms(2) m by (auto simp: accounts_ok_def)
  then show thesis
    using that [of u] m user_view_Some [OF u(2)] user_view_laboratory [OF u(2)] user_table.unique [OF t] by metis
qed

lemma view_role_Inr:
  "view_role v = Inr role \<longleftrightarrow> UserType_parse (uv_user_type_name v) = Inr (role_user_type role)
     \<and> role_laboratory_id role = us_laboratory_id (uv_user v)"
  by (cases role) (auto simp: view_role_def and_then_Inr_iff map_err_Inr_iff)

lemma UserType_parse_Inr: "UserType_parse s = Inr ty \<longleftrightarrow> s = UserType_as_str ty"
  using user_type_name.parse_iff [of s ty] by simp

lemma own_type_not_root:
  assumes "get_actor db (actor_user_id a) = Inr (Some a)" and "\<not> is_root a" and "fetch_optional (\<lambda>u. us_user_id u = actor_user_id a) (users db) = Some u"
  shows "type_name db u \<noteq> Some (lit ''root'')"
  using assms
  by (auto simp: get_actor_def type_name_def and_then_Inr_iff ok_or_Inr_iff actor_roles UserType_parse_def split: option.splits)

lemma update_user_in_transaction_Inr:
  assumes "update_user_in_transaction env a target change db = Inr (x, db')"
  obtains v db1 es where "update_user_in_database (us_user_id (uv_user target)) (xu_username change)
         (UserType_as_str (xu_user_type change)) (xu_laboratory_id change)
         (resolve_update (xu_email change) (us_email (uv_user target)))
         (resolve_update (xu_phone_number change) (us_phone_number (uv_user target)))
         (resolve_update (xu_description change) (us_description (uv_user target))) db = Inr (v, db1)"
    "db' = db1\<lparr>audit_logs := es\<rparr>"
  using assms unfolding update_user_in_transaction_def tx_unfold by blast

lemma update_user_kept:
  assumes ok: "accounts_ok db" and a: "get_actor db (actor_user_id a) = Inr (Some a)" "\<not> is_root a"
    and run: "update_user env a i payload db = (r, db')"
  shows "accounts_kept db db'"
proof (cases r)
  case (Inl e)
  then show ?thesis
    using run ok by (auto simp: update_user_def accounts_kept_def dest: run_handler_Inl)
next
  case (Inr x)
  have run': "update_user env a i payload db = (Inr x, db')"
    using run Inr by simp
  obtain target role change where t: "fetch_user i db = Inr target" and role: "view_role target = Inr role"
      and self: "\<not> (actor_user_id a = us_user_id (uv_user target) \<and> updates_role_or_laboratory payload)"
      and c: "into_update_user env payload (role_user_type role) (role_laboratory_id role) = Inr change"
      and may: "actor_user_id a \<noteq> us_user_id (uv_user target) \<longrightarrow> can_manage_user a role
         \<and> can_manage_user a \<lparr>role_user_type = xu_user_type change, role_laboratory_id = xu_laboratory_id change\<rparr>"
      and body: "update_user_in_transaction env a target change db = Inr (x, db')"
    using run' unfolding update_user_def run_handler_Inr and_then_Inr_iff map_err_Inr_iff ensure_Inr_iff
    by (auto simp: validate_permission_def permit_user_def require_permission_Inr split: if_splits)
  from body obtain v db1 es where u: "update_user_in_database (us_user_id (uv_user target)) (xu_username change)
         (UserType_as_str (xu_user_type change)) (xu_laboratory_id change)
         (resolve_update (xu_email change) (us_email (uv_user target)))
         (resolve_update (xu_phone_number change) (us_phone_number (uv_user target)))
         (resolve_update (xu_description change) (us_description (uv_user target))) db = Inr (v, db1)"
      and db': "db' = db1\<lparr>audit_logs := es\<rparr>"
    by (rule update_user_in_transaction_Inr)
  from t ok obtain w where w: "w \<in> set (users db)" "us_user_id w = i" "us_user_id (uv_user target) = i"
      "type_name db w = Some (uv_user_type_name target)" "us_laboratory_id (uv_user target) = us_laboratory_id w"
      "\<And>x. x \<in> set (users db) \<Longrightarrow> us_user_id x = i \<Longrightarrow> x = w"
    by (rule fetch_user_Inr) blast
  have ty: "type_name db w = Some (UserType_as_str (role_user_type role))"
    using role w(4) by (simp add: view_role_Inr UserType_parse_Inr)
  have "role_user_type role \<noteq> Root \<and> xu_user_type change \<noteq> Root"
  proof (cases "actor_user_id a = i")
    case True
    have "fetch_optional (\<lambda>u. us_user_id u = actor_user_id a) (users db) = Some w"
      using fetch_optional_unique [of us_user_id "users db" w] w(1,2) True ok unfolding accounts_ok_def table_ok_def by simp
    then have "role_user_type role \<noteq> Root"
      using own_type_not_root [OF a] ty by fastforce
    then show ?thesis
      using self True w(3) into_update_user_Inr(2) [OF c] by simp
  next
    case False
    then show ?thesis
      using may w(3) can_manage_root [OF _ a(2)] by fastforce
  qed
  then have nr: "type_name db w \<noteq> Some (lit ''root'')" "xu_user_type change \<noteq> Root"
    using ty same_type_name [of "role_user_type role" Root] by auto
  then have "root_rows db1 = root_rows db"
    using w(3,6) by (intro update_user_keeps(2) [OF ok u into_update_user_Inr(1) [OF c]]) blast+
  then show ?thesis
    using update_user_keeps(1) [OF ok u into_update_user_Inr(1) [OF c]] by (simp add: accounts_kept_def db')
qed

lemma delete_user_kept:
  assumes ok: "accounts_ok db" and a: "\<not> is_root a" and run: "delete_user env a i db = (r, db')"
  shows "accounts_kept db db'"
proof (cases r)
  case (Inl e)
  then show ?thesis
    using run ok by (auto simp: delete_user_def accounts_kept_def dest: run_handler_Inl)
next
  case (Inr x)
  with run obtain target role v db1 es where t: "fetch_user i db = Inr target" and role: "view_role target = Inr role"
      and may: "can_manage_user a role" and d: "delete_user_from_database (us_user_id (uv_user target)) db = Inr (v, db1)"
      and db': "db' = db1\<lparr>audit_logs := es\<rparr>"
    by (auto simp: delete_user_def run_handler_Inr delete_user_in_transaction_def tx_unfold and_then_Inr_iff map_err_Inr_iff
        ensure_Inr_iff validate_permission_def permit_user_def)
  from t ok obtain w where w: "us_user_id (uv_user target) = i" "type_name db w = Some (uv_user_type_name target)"
      "\<And>x. x \<in> set (users db) \<Longrightarrow> us_user_id x = i \<Longrightarrow> x = w"
    by (rule fetch_user_Inr) blast
  have "type_name db w \<noteq> Some (lit ''root'')"
    using role w(2) can_manage_root [OF may a] same_type_name [of "role_user_type role" Root]
    by (simp add: view_role_Inr UserType_parse_Inr)
  then have "root_rows db1 = root_rows db"
    using w(1,3) by (intro delete_user_keeps(2) [OF ok d]) blast
  then show ?thesis
    using delete_user_keeps(1) [OF ok d] by (simp add: accounts_kept_def db')
qed

lemma create_code_kept:
  assumes ok: "accounts_ok db" and run: "create_guest_registration_code env ctx db = (r, db')"
  shows "accounts_kept db db'"
proof (cases r)
  case (Inl e)
  then show ?thesis
    using run ok by (auto simp: create_guest_registration_code_def accounts_kept_def dest: run_handler_Inl)
next
  case (Inr x)
  with run obtain replaced db1 generated db2 es where
      r: "revoke_laboratory_registration_code env (ctx_laboratory_id ctx) db = Inr (replaced, db1)"
      and d: "draw_registration_code env (ctx_laboratory_id ctx) (actor_user_id (ctx_actor ctx))
             (env_clock env + int REGISTRATION_CODE_TTL_MINUTES * 60000000) REGISTRATION_CODE_GENERATION_ATTEMPTS 0 db1
             = Inr (generated, db2)"
      and db': "db' = db2\<lparr>audit_logs := es\<rparr>"
    by (auto simp: create_guest_registration_code_def run_handler_Inr create_code_in_transaction_def Let_def tx_unfold
        tx_case_prod split: option.splits)
  show ?thesis
    using revoke_laboratory_keeps [OF ok r] draw_keeps [OF _ d] by (auto simp: accounts_kept_def db')
qed

lemma register_in_transaction_Inr:
  assumes "register_in_transaction env g h db = Inr (x, db')"
  obtains c db1 n v db2 es where "consume_registration_code env (hash_code env (gr_registration_code g)) db = Inr (Some c, db1)"
    "n = \<lparr>nw_username = gr_username g, nw_password = gr_password g, nw_user_type = Guest,
       nw_laboratory_id = Some (rc_laboratory_id c), nw_email = Some (gr_email g), nw_phone_number = Some (gr_phone_number g),
       nw_description = gr_description g\<rparr>"
    "insert_user env n h db1 = Inr (v, db2)" "db' = db2\<lparr>audit_logs := es\<rparr>" "x = UserResponse_from v"
  using assms
  by (auto simp: register_in_transaction_def Let_def tx_unfold ok_or_Inr_iff map_err_Inr_iff NewUser_new_Inr)

lemma register_kept:
  assumes ok: "accounts_ok db" and run: "register_guest env payload db = (r, db')"
  shows "accounts_kept db db'"
proof (cases r)
  case (Inl e)
  then show ?thesis
    using run ok by (auto simp: register_guest_def accounts_kept_def dest: run_handler_Inl)
next
  case (Inr x)
  with run obtain g h where "register_in_transaction env g h db = Inr (x, db')"
    by (auto simp: register_guest_def run_handler_Inr)
  then show ?thesis
  proof (rule register_in_transaction_Inr)
    fix c db1 n v db2 es
    assume c: "consume_registration_code env (hash_code env (gr_registration_code g)) db = Inr (Some c, db1)"
      and n: "n = \<lparr>nw_username = gr_username g, nw_password = gr_password g, nw_user_type = Guest,
       nw_laboratory_id = Some (rc_laboratory_id c), nw_email = Some (gr_email g), nw_phone_number = Some (gr_phone_number g),
       nw_description = gr_description g\<rparr>"
      and i: "insert_user env n h db1 = Inr (v, db2)" and db': "db' = db2\<lparr>audit_logs := es\<rparr>"
    show ?thesis
      using consume_keeps [OF ok c] insert_user_keeps [OF _ i] by (auto simp: accounts_kept_def db' n)
  qed
qed

text \<open>
  Requests on accounts of anybody but a root account: the acting account is the one the session
  names, as the database has it. Drawing a code and registering need no such account.
\<close>

inductive account_step :: "database \<Rightarrow> database \<Rightarrow> bool" where
  created: "get_actor db (actor_user_id a) = Inr (Some a) \<Longrightarrow> \<not> is_root a \<Longrightarrow>
     create_user env a payload db = (r, db') \<Longrightarrow> account_step db db'"
| changed: "get_actor db (actor_user_id a) = Inr (Some a) \<Longrightarrow> \<not> is_root a \<Longrightarrow>
     update_user env a i change db = (r, db') \<Longrightarrow> account_step db db'"
| deleted: "get_actor db (actor_user_id a) = Inr (Some a) \<Longrightarrow> \<not> is_root a \<Longrightarrow>
     delete_user env a i db = (d, db') \<Longrightarrow> account_step db db'"
| code_drawn: "create_guest_registration_code env ctx db = (c, db') \<Longrightarrow> account_step db db'"
| registered: "register_guest env registration db = (r, db') \<Longrightarrow> account_step db db'"

lemma account_step_kept: "account_step db db' \<Longrightarrow> accounts_ok db \<Longrightarrow> accounts_kept db db'"
  by (induction rule: account_step.induct)
     (auto intro: create_user_kept update_user_kept delete_user_kept create_code_kept register_kept)

interpretation account_runs: invariant_system account_step accounts_ok "\<lambda>s t. root_rows t = root_rows s"
  by unfold_locales (auto simp: accounts_kept_def dest: account_step_kept)

end
