(* ===== verification/Account_Properties.thy ===== *)
theory Account_Properties
  imports Account_Runs Witness_Data
begin

text \<open>
  Accounts, registration codes and guests: what the administration of accounts cannot reach, what
  a code is good for, and how a code is drawn.
\<close>

section \<open>Runs\<close>

text \<open>
  C34. Whatever accounts are created, changed and deleted, codes drawn and guests registered, by
  anybody but root accounts: the rows of all root accounts stay as they are, user names, e-mail
  addresses and phone numbers stay unique, and everybody but system administrators keeps
  belonging to a laboratory.
\<close>

theorem root_accounts_are_out_of_reach:
  assumes "account_step\<^sup>*\<^sup>* db db'" and "accounts_ok db"
  shows "accounts_ok db' \<and> root_rows db' = root_rows db"
  using account_runs.run [OF assms] .

section \<open>Registering\<close>

lemma register_guest_Inr:
  assumes "register_guest env payload db = (Inr x, db')"
  obtains g h where "GuestRegistration_try_from env payload = Inr g" "register_in_transaction env g h db = Inr (x, db')"
    "gr_registration_code g = gp_registration_code payload"
proof -
  have "GuestRegistration_try_from env payload = Inr g \<Longrightarrow> gr_registration_code g = gp_registration_code payload" for g
    by (auto simp: GuestRegistration_try_from_def and_then_Inr_iff GuestRegistrationCode_parse_def split: if_splits)
  then show thesis
    using assms that by (auto simp: register_guest_def run_handler_Inr and_then_Inr_iff map_err_Inr_iff)
qed

lemma no_usable_code:
  assumes "\<forall>c\<in>set (registration_codes db). \<not> (rc_code_hmac c = hash_code env (gp_registration_code payload) \<and> outstanding c)"
  shows "register_guest env payload db \<noteq> (Inr x, db')"
proof
  assume "register_guest env payload db = (Inr x, db')"
  then obtain g h where g: "gr_registration_code g = gp_registration_code payload"
      and r: "register_in_transaction env g h db = Inr (x, db')"
    by (rule register_guest_Inr)
  from r obtain c db1 where "consume_registration_code env (hash_code env (gr_registration_code g)) db = Inr (Some c, db1)"
    by (rule register_in_transaction_Inr)
  then show False
    using assms g by (auto simp: consume_registration_code_def Let_def usable_code_def dest!: fetch_optional_Some)
qed

text \<open>
  C35. A registration that succeeds used a code that was outstanding, not expired, and issued by
  somebody who still belongs to its laboratory as an administrator or a user. It adds one
  account, a guest of that laboratory, and with that the code is spent: in the
  database that leaves, no registration with the same code succeeds.
\<close>

theorem guests_register_with_a_live_code:
  assumes ok: "accounts_ok db" and run: "register_guest env payload db = (Inr x, db')"
  shows "\<exists>d\<in>set (registration_codes db). rc_code_hmac d = hash_code env (gp_registration_code payload) \<and> outstanding d
      \<and> env_now env < rc_expires_at d \<and> issuer_ok db d
      \<and> (\<exists>u. users db' = users db @ [u] \<and> us_user_id u = ur_user_id x \<and> type_name db' u = Some (lit ''guest'')
           \<and> us_laboratory_id u = Some (rc_laboratory_id d))
      \<and> (\<forall>env' again y db''. hash_code env' (gp_registration_code again) = rc_code_hmac d \<longrightarrow>
           register_guest env' again db' \<noteq> (Inr y, db''))"
proof -
  have t: "table_ok rc_registration_code_id code_checks same_outstanding (registration_codes db)"
      and types: "distinct (map ut_user_type_id (user_types db))"
    using ok by (simp_all add: accounts_ok_def)
  from run obtain g h where g: "gr_registration_code g = gp_registration_code payload"
      and r: "register_in_transaction env g h db = Inr (x, db')"
    by (rule register_guest_Inr)
  from r obtain c db1 n v db2 es where c: "consume_registration_code env (hash_code env (gr_registration_code g)) db = Inr (Some c, db1)"
      and n': "n = \<lparr>nw_username = gr_username g, nw_password = gr_password g, nw_user_type = Guest,
        nw_laboratory_id = Some (rc_laboratory_id c), nw_email = Some (gr_email g), nw_phone_number = Some (gr_phone_number g),
        nw_description = gr_description g\<rparr>"
      and i: "insert_user env n h db1 = Inr (v, db2)" and db': "db' = db2\<lparr>audit_logs := es\<rparr>" "x = UserResponse_from v"
    by (rule register_in_transaction_Inr)
  from n' have n: "nw_user_type n = Guest" "nw_laboratory_id n = Some (rc_laboratory_id c)"
    by simp_all
  from c t obtain d where d: "d \<in> set (registration_codes db)" "usable_code env (hash_code env (gr_registration_code g)) db d"
      "c = consume_code (env_now env) d"
      and db1: "db1 = db\<lparr>registration_codes :=
       update_rows (\<lambda>c. rc_registration_code_id c = rc_registration_code_id d) (consume_code (env_now env)) (registration_codes db)\<rparr>"
    by (rule consume_registration_code_Inr)
  from i obtain u where u: "db2 = db1\<lparr>users := users db1 @ [u]\<rparr>"
      "user_type_id (UserType_as_str Guest) db1 = Some (us_user_type_id u)"
      "us_laboratory_id u = Some (rc_laboratory_id c)" "user_view_of db1 u = Some v"
    unfolding n [symmetric] by (rule insert_user_Inr)
  have "type_name db1 u = Some (lit ''guest'')"
    using user_type_id_name [OF u(2)] types by (simp add: db1)
  then have "\<exists>u. users db' = users db @ [u] \<and> us_user_id u = ur_user_id x \<and> type_name db' u = Some (lit ''guest'')
       \<and> us_laboratory_id u = Some (rc_laboratory_id d)"
    using u user_view_Some [OF u(4)] by (intro exI [of _ u]) (simp add: db' db1 d(3) consume_code_def UserResponse_from_def)
  moreover have "\<not> (rc_code_hmac e = rc_code_hmac d \<and> outstanding e)" if e: "e \<in> set (registration_codes db')" for e
  proof (cases "rc_registration_code_id e = rc_registration_code_id d")
    case True
    then have "rc_consumed_at e \<noteq> None"
      using e code_table.unique [OF t _ d(1)] by (auto simp: db' u(1) db1 set_update_rows consume_code_def)
    then show ?thesis
      by (simp add: outstanding_def)
  next
    case False
    then have "e \<in> set (registration_codes db)"
      using e by (auto simp: db' u(1) db1 set_update_rows consume_code_def)
    then have "\<not> same_outstanding d e"
      using t d(1) False unfolding table_ok_def by blast
    then show ?thesis
      using d(2) by (auto simp: same_outstanding_def usable_code_def)
  qed
  then have "register_guest env' again db' \<noteq> (Inr y, db'')" if "hash_code env' (gp_registration_code again) = rc_code_hmac d"
    for env' again y db''
    using that by (intro no_usable_code) auto
  ultimately show ?thesis
    using d g by (intro bexI [of _ d]) (auto simp: usable_code_def)
qed

section \<open>Drawing a code\<close>

text \<open>The codes of other laboratories decide which draws can be used.\<close>

definition taken_elsewhere :: "env \<Rightarrow> uuid \<Rightarrow> database \<Rightarrow> nat \<Rightarrow> bool" where
  "taken_elsewhere env lab db k \<longleftrightarrow>
     (\<exists>c\<in>set (registration_codes db). rc_laboratory_id c \<noteq> lab \<and> outstanding c \<and> env_now env < rc_expires_at c
        \<and> rc_code_hmac c = hash_code env (GuestRegistrationCode_generate env k))"

definition without_code :: "env \<Rightarrow> uuid \<Rightarrow> database \<Rightarrow> database" where
  "without_code env lab db = db\<lparr>registration_codes := update_rows (\<lambda>c. rc_laboratory_id c = lab \<and> outstanding c)
      (revoke_code (env_now env)) (registration_codes db)\<rparr>"

lemma without_code_facts:
  shows "taken env (without_code env lab db) k = taken_elsewhere env lab db k"
    and "c \<in> set (registration_codes (without_code env lab db)) \<Longrightarrow> outstanding c \<Longrightarrow>
       c \<in> set (registration_codes db) \<and> rc_laboratory_id c \<noteq> lab"
    and "c \<in> set (registration_codes db) \<Longrightarrow> rc_laboratory_id c \<noteq> lab \<Longrightarrow> c \<in> set (registration_codes (without_code env lab db))"
  unfolding taken_def taken_elsewhere_def without_code_def
  by (auto simp: set_update_rows revoke_code_def outstanding_def)

lemma without_code_ready:
  assumes "draw_ready env lab u expires (db\<lparr>registration_codes := []\<rparr>)"
    and "\<And>k. env_new_v4 env k \<notin> rc_registration_code_id ` set (registration_codes db)"
  shows "draw_ready env lab u expires (without_code env lab db)"
proof -
  have "rc_registration_code_id ` set (registration_codes (without_code env lab db)) = rc_registration_code_id ` set (registration_codes db)"
  proof -
    have "map rc_registration_code_id (registration_codes (without_code env lab db)) = map rc_registration_code_id (registration_codes db)"
      by (simp add: without_code_def update_rows_def revoke_code_def)
    then show ?thesis
      by (metis list.set_map)
  qed
  then show ?thesis
    using assms without_code_facts(2) unfolding draw_ready_def by (auto simp: without_code_def)
qed

lemma expired_codes:
  assumes "only_expires env (without_code env lab db) db1"
  shows "c \<in> set (registration_codes db1) \<Longrightarrow> outstanding c \<Longrightarrow> rc_laboratory_id c \<noteq> lab"
    and "c \<in> set (registration_codes db) \<Longrightarrow> rc_laboratory_id c \<noteq> lab \<Longrightarrow> env_now env < rc_expires_at c \<Longrightarrow> c \<in> set (registration_codes db1)"
  using assms without_code_facts(2,3) [where env = env and lab = lab and db = db] unfolding only_expires_def expiring_def by blast+

text \<open>
  C36. A member of the laboratory who may draw a code gets one after at most 32 draws, or an error
  that leaves everything as it was: the first draw that no other laboratory has outstanding is
  taken, and the request fails exactly when there is none among the 32. The new code is then the
  only one of its laboratory that is outstanding, it expires ten minutes from now by the program's
  clock, and the outstanding codes of the other laboratories that have not expired are untouched.
\<close>

theorem a_code_is_drawn:
  assumes may: "can_create_guest_registration_code (ctx_actor ctx) (ctx_laboratory_id ctx)"
    and lab: "ctx_laboratory_id ctx \<in> set (laboratories db)"
    and actor: "\<exists>v\<in>set (users db). us_user_id v = actor_user_id (ctx_actor ctx)"
    and clock: "env_now env < env_clock env + 600000000"
    and digests: "\<And>k. is_hex_digest (hash_code env (GuestRegistrationCode_generate env k))"
    and new_ids: "\<And>k. env_new_v4 env k \<notin> rc_registration_code_id ` set (registration_codes db)"
  shows "case find (\<lambda>k. \<not> taken_elsewhere env (ctx_laboratory_id ctx) db k) [0..<32] of
      None \<Rightarrow> create_guest_registration_code env ctx db
        = (Inl (UnexpectedError (lit ''Failed to allocate a unique guest registration code'')), db)
    | Some k \<Rightarrow> \<exists>r db' c. create_guest_registration_code env ctx db = (Inr r, db')
        \<and> rr_registration_code r = GuestRegistrationCode_generate env k
        \<and> filter (\<lambda>d. rc_laboratory_id d = ctx_laboratory_id ctx \<and> outstanding d) (registration_codes db') = [c]
        \<and> rc_registration_code_id c = rr_registration_code_id r \<and> rc_code_hmac c = hash_code env (rr_registration_code r)
        \<and> rc_expires_at c = env_clock env + 600000000
        \<and> (\<forall>d\<in>set (registration_codes db). rc_laboratory_id d \<noteq> ctx_laboratory_id ctx \<longrightarrow> outstanding d
             \<longrightarrow> env_now env < rc_expires_at d \<longrightarrow> d \<in> set (registration_codes db'))"
proof -
  define lab where "lab = ctx_laboratory_id ctx"
  define u where "u = actor_user_id (ctx_actor ctx)"
  define expires where "expires = env_clock env + int REGISTRATION_CODE_TTL_MINUTES * 60000000"
  have e: "expires = env_clock env + 600000000"
    by (simp add: expires_def REGISTRATION_CODE_TTL_MINUTES_def)
  have ready: "draw_ready env lab u expires (without_code env lab db)"
    using assms by (intro without_code_ready) (auto simp: draw_ready_def lab_def u_def e)
  have revoke: "revoke_laboratory_registration_code env lab db
      = Inr (fetch_optional (\<lambda>c. rc_laboratory_id c = lab \<and> outstanding c) (registration_codes db), without_code env lab db)"
    by (simp add: revoke_laboratory_registration_code_def without_code_def)
  obtain db1 where x: "only_expires env (without_code env lab db) db1"
    and d: "draw_registration_code env lab u expires 32 0 (without_code env lab db) =
      (case find (\<lambda>j. \<not> taken_elsewhere env lab db j) [0..<32] of
         Some j \<Rightarrow> Inr (Some (GuestRegistrationCode_generate env j, drawn_row env lab u expires j),
           db1\<lparr>registration_codes := registration_codes db1 @ [drawn_row env lab u expires j]\<rparr>)
       | None \<Rightarrow> Inr (None, db1))"
    using draw_outcome [OF ready, of 0 32] unfolding without_code_facts(1) by blast
  note run = create_guest_registration_code_def run_handler_def transaction_def create_code_in_transaction_def
    Let_def lab_def [symmetric] u_def [symmetric] expires_def [symmetric] REGISTRATION_CODE_GENERATION_ATTEMPTS_def
  have permitted: "require_permission env (ctx_actor ctx) GuestRegistrationCode_resource (Create lab) m db = Inr ()" for m
    using may by (simp add: require_permission_Inr validate_permission_def permit_guest_registration_code_def lab_def)
  from x have same: "db1 = (without_code env lab db)\<lparr>registration_codes := registration_codes db1\<rparr>"
    by (simp add: only_expires_def same_but_codes)
  have u_there: "\<exists>v\<in>set (users db1). us_user_id v = u"
    using actor arg_cong [OF same, of users] by (simp add: without_code_def u_def)
  have locked: "lock_laboratory lab db"
    using assms(2) by (simp add: lock_laboratory_def lab_def)
  show ?thesis
  proof (cases "find (\<lambda>k. \<not> taken_elsewhere env lab db k) [0..<32]")
    case None
    then show ?thesis
      unfolding lab_def [symmetric]
      using d by (simp add: run permitted tx_bind_def tx_read_def tx_lift_def locked revoke)
  next
    case (Some k)
    define row where "row = drawn_row env lab u expires k"
    have "\<exists>es. create_guest_registration_code env ctx db = (Inr \<lparr>rr_registration_code_id = env_new_v4 env k,
        rr_registration_code = GuestRegistrationCode_generate env k, rr_laboratory_id = lab, rr_expires_at = expires\<rparr>,
      db1\<lparr>registration_codes := registration_codes db1 @ [row], audit_logs := es\<rparr>)"
      using d u_there Some
      by (cases "fetch_optional (\<lambda>c. rc_laboratory_id c = lab \<and> outstanding c) (registration_codes db)")
         (simp add: run permitted tx_bind_def tx_read_def tx_lift_def locked revoke unexpected_def
            tx_map_err_def record_audit_def tx_write_def tx_return_def drawn_row_def row_def, blast)+
    then obtain es where created: "create_guest_registration_code env ctx db = (Inr \<lparr>rr_registration_code_id = env_new_v4 env k,
        rr_registration_code = GuestRegistrationCode_generate env k, rr_laboratory_id = lab, rr_expires_at = expires\<rparr>,
      db1\<lparr>registration_codes := registration_codes db1 @ [row], audit_logs := es\<rparr>)"
      by blast
    have "filter (\<lambda>d. rc_laboratory_id d = lab \<and> outstanding d) (registration_codes db1 @ [row]) = [row]"
    proof -
      have "filter (\<lambda>d. rc_laboratory_id d = lab \<and> outstanding d) (registration_codes db1) = []"
        using expired_codes(1) [OF x] by (intro filter_False) blast
      then show ?thesis
        by (simp add: row_def drawn_row_def outstanding_def)
    qed
    moreover have "rc_registration_code_id row = env_new_v4 env k" "rc_expires_at row = expires"
        "rc_code_hmac row = hash_code env (GuestRegistrationCode_generate env k)"
      by (simp_all add: row_def drawn_row_def)
    ultimately show ?thesis
      unfolding lab_def [symmetric] e [symmetric] Some option.case
      using expired_codes(2) [OF x] by (simp add: created)
  qed
qed

section \<open>Witnesses\<close>

definition env_7 :: env where
  "env_7 = env_1\<lparr>hash_code := (\<lambda>s. s @ replicate 58 48)\<rparr>"

definition code_000000 :: code_row where
  "code_000000 = \<lparr>rc_registration_code_id = 70, rc_laboratory_id = lab_1, rc_code_hmac = replicate 64 48,
     rc_created_by_user_id = 11, rc_created_at = 1, rc_expires_at = 500, rc_consumed_at = None, rc_revoked_at = None\<rparr>"

definition db_8 :: database where
  "db_8 = db_1\<lparr>registration_codes := [code_000000]\<rparr>"

definition eve :: registration_payload where
  "eve = \<lparr>gp_username = lit ''eve'', gp_password = lit ''12345678'', gp_email = lit ''e@x'',
     gp_phone_number = lit ''01234567890'', gp_registration_code = lit ''000000'', gp_description = None\<rparr>"

definition new_member :: user_payload where
  "new_member = \<lparr>cp_username = lit ''max'', cp_password = lit ''12345678'', cp_user_type = lit ''guest'',
     cp_laboratory_id = Some lab_1, cp_email = None, cp_phone_number = None, cp_description = None\<rparr>"

lemma db_8_accounts: "accounts_ok db_8"
proof -
  have "account_ok db_8 u" if "u \<in> set (users db_8)" for u
    using that by (auto simp: account_ok_def type_name_def fetch_optional_def db_8_def db_1_def plain_user_def needs_laboratory_def
        same_type_name [symmetric] simp del: lit_eq_iff)
  then show ?thesis
    by (auto simp: accounts_ok_def table_ok_def db_8_def db_1_def plain_user_def user_checks_def same_user_value_def
        same_value_def code_000000_def code_checks_def is_hex_digest_def is_ascii_digit_def list_all_iff lab_1_def)
qed

lemma eve_registers: "case fst (register_guest env_7 eve db_8) of Inr _ \<Rightarrow> True | _ \<Rightarrow> False"
  by code_simp

lemma max_created: "case fst (create_user env_7 admin_1 new_member db_8) of Inr _ \<Rightarrow> True | _ \<Rightarrow> False"
  by code_simp

theorem root_accounts_are_out_of_reach_witness:
  "root_rows (snd (create_user env_7 admin_1 new_member db_8)) = root_rows db_8
     \<and> (case fst (create_user env_7 admin_1 new_member db_8) of Inr _ \<Rightarrow> True | _ \<Rightarrow> False)"
proof -
  have "get_actor db_8 (actor_user_id admin_1) = Inr (Some admin_1)"
    by code_simp
  moreover have "\<not> is_root admin_1"
    by code_simp
  ultimately have "account_step db_8 (snd (create_user env_7 admin_1 new_member db_8))"
    by (rule account_step.created) (rule prod.collapse [symmetric])
  then show ?thesis
    using root_accounts_are_out_of_reach [OF r_into_rtranclp db_8_accounts] max_created by blast
qed

theorem guests_register_with_a_live_code_witness:
  "\<exists>x db'. register_guest env_7 eve db_8 = (Inr x, db') \<and> (\<forall>y db''. register_guest env_7 eve db' \<noteq> (Inr y, db''))"
proof -
  obtain x db' where run: "register_guest env_7 eve db_8 = (Inr x, db')"
    using eve_registers by (cases "register_guest env_7 eve db_8"; cases "fst (register_guest env_7 eve db_8)") auto
  from guests_register_with_a_live_code [OF db_8_accounts run] obtain d :: code_row where
      "rc_code_hmac d = hash_code env_7 (gp_registration_code eve)"
      "\<forall>env' again y db''. hash_code env' (gp_registration_code again) = rc_code_hmac d \<longrightarrow>
           register_guest env' again db' \<noteq> (Inr y, db'')"
    by blast
  then have "register_guest env_7 eve db' \<noteq> (Inr y, db'')" for y db''
    by simp
  with run show ?thesis
    by blast
qed

lemma digests_7: "is_hex_digest (hash_code env_7 (GuestRegistrationCode_generate env_7 k))"
proof -
  have "n mod 10 \<le> 9" for n :: nat
    by presburger
  then show ?thesis
    by (simp add: is_hex_digest_def env_7_def GuestRegistrationCode_generate_def six_digits_def is_ascii_digit_def
      list_all_iff)
qed

theorem a_code_is_drawn_witness:
  "\<exists>r db'. create_guest_registration_code env_7 admin_ctx db_1 = (Inr r, db') \<and> rr_registration_code r = lit ''000000''"
proof -
  have zero: "GuestRegistrationCode_generate env_7 0 = lit ''000000''"
    by (simp add: GuestRegistrationCode_generate_def six_digits_def env_7_def env_1_def lit_def)
  have "[0..<32] = 0 # [1..<32]"
    by (simp add: upt_conv_Cons del: upt_rec_numeral)
  moreover have "taken_elsewhere env_7 (ctx_laboratory_id admin_ctx) db_1 0 = False"
    by (simp add: taken_elsewhere_def db_1_def)
  ultimately have "find (\<lambda>k. \<not> taken_elsewhere env_7 (ctx_laboratory_id admin_ctx) db_1 k) [0..<32] = Some 0"
    by (simp only: find.simps not_False_eq_True if_True)
  moreover have "can_create_guest_registration_code (ctx_actor admin_ctx) (ctx_laboratory_id admin_ctx)"
    by code_simp
  moreover have "ctx_laboratory_id admin_ctx \<in> set (laboratories db_1)"
    by (simp add: admin_ctx_def db_1_def)
  moreover have "\<exists>v\<in>set (users db_1). us_user_id v = actor_user_id (ctx_actor admin_ctx)"
    by (simp add: admin_ctx_def admin_1_def db_1_def plain_user_def)
  moreover have "env_now env_7 < env_clock env_7 + 600000000"
    by (simp add: env_7_def env_1_def)
  moreover have "env_new_v4 env_7 k \<notin> rc_registration_code_id ` set (registration_codes db_1)" for k
    by (simp add: db_1_def)
  ultimately have "case Some 0 of
      None \<Rightarrow> create_guest_registration_code env_7 admin_ctx db_1
        = (Inl (UnexpectedError (lit ''Failed to allocate a unique guest registration code'')), db_1)
    | Some k \<Rightarrow> \<exists>r db'. create_guest_registration_code env_7 admin_ctx db_1 = (Inr r, db')
        \<and> rr_registration_code r = GuestRegistrationCode_generate env_7 k"
    using a_code_is_drawn [of admin_ctx db_1 env_7, OF _ _ _ _ digests_7] by (simp del: One_nat_def) metis
  then show ?thesis
    by (simp add: zero)
qed

end
