(* ===== verification/Spec2Isabelle.thy ===== *)
theory Spec2Isabelle
  imports Label_Properties Permission_Properties Inventory_Properties Inventory_Effects Inventory_Creation Borrow_Properties
    Location_Properties Category_Properties Parameter_Properties Attachment_Properties Asset_Properties Account_Properties
begin

text \<open>
  A verification library for the Rust backend of the laboratory inventory, the program under
  \<^verbatim>\<open>src/backend/src\<close>. All paths below are relative to that directory.

  \<^bold>\<open>The program.\<close> A web server keeps the stock of several laboratories in one PostgreSQL database.
  A request passes the authentication middleware, which says who is acting; the route's extractor
  turns the actor and the laboratory of the request into a \<^verbatim>\<open>LaboratoryContext\<close>; the handler asks
  \<^verbatim>\<open>validate_permission\<close> (\<^verbatim>\<open>access_control.rs\<close>), parses its payload into a command (\<^verbatim>\<open>domain/\<close>), opens a
  transaction, runs statements (\<^verbatim>\<open>queries.rs\<close>) chained by flows (\<^verbatim>\<open>service.rs\<close>), writes an entry of the
  audit log and commits. Deletions and uploads also touch a file store on disk, printing talks to
  label printers over TCP.

  \<^bold>\<open>How it is modelled.\<close> The code is translated function by function, names kept where the logic
  allows it. A table row is a record and a table a list of rows; a statement is a function from
  the database to an error or the next database; the constraints of the migration (checks, unique
  indexes, foreign keys, cascades, the deferred key of values to their parameters) are part of the
  statement that may violate them. A request is a function from the database (and disk) to a result
  and the next database; a transaction that fails leaves the database it found. Text is a list of
  code points, a machine integer a word of its width, an \<^verbatim>\<open>f64\<close> the rational it denotes, an infinity
  or NaN, rounded as IEEE 754 prescribes; a panic is \<open>None\<close>. What the code only calls is a
  parameter, most of it a field of the record \<open>env\<close>.

  \<^bold>\<open>Foundations.\<close>
    \<^item> \<open>Prelude\<close>: text, results and the lemmas the components share; \<open>Float64\<close>: binary64.
    \<^item> \<open>Database\<close>: rows, transactions (\<open>tx\<close>), \<^verbatim>\<open>audit.rs\<close>; the locales \<open>row_update\<close> (an update that keeps the
      key reads back as written) and \<open>invariant_system\<close> (what every step keeps, every run keeps).
    \<^item> \<open>Checked_Tables\<close>: the locale \<open>checked_table\<close> (a write that passes the checks keeps keys, unique
      indexes and checks of a table) and the calculus \<open>keeps\<close> for transactions.
    \<^item> \<open>Path_Tree\<close>: trees stored as \<^verbatim>\<open>ltree\<close> paths; the locale \<open>tree_table\<close>, with what creating, moving and
      deleting a node does, for any table of that shape.
    \<^item> \<open>Wire_Names\<close>: the closed enumerations of \<^verbatim>\<open>domain/\<close> with their printers and parsers (locale \<open>wire_name\<close>).
    \<^item> \<open>Handlers\<close>, \<open>Pagination\<close>: what the handlers share; \<open>Witness_Data\<close>: a small concrete laboratory.

  \<^bold>\<open>Components, their sources and what is shown.\<close>
    \<^item> Labels (\<open>Label_Media\<close>, \<open>Label_PackBits\<close>, \<open>Label_Raster\<close>, \<open>Label_Status\<close>, \<open>Label_Transport\<close>, \<open>Label_Print\<close>
      for \<^verbatim>\<open>label_printing/\<close> and \<^verbatim>\<open>routes/label_printers/service.rs\<close>, \<open>Label_Properties\<close>): an independent reader of
      the command language finds exactly the pages in an encoded job; PackBits is lossless; a job is
      sent only to a ready printer with the right stock and never to a forbidden address. A request
      has at most 500 labels, which bounds the expansion of copies.
    \<^item> Permissions (\<open>Access_Control\<close>, \<open>Permissions\<close> for \<^verbatim>\<open>access_control.rs\<close> and \<^verbatim>\<open>authentication/middleware.rs\<close>,
      \<open>Permission_Properties\<close>): every predicate of the table is interpreted as a \<open>laboratory_gate\<close> or
      \<open>staff_gate\<close>, from which confinement to the laboratory, the limits of guests and the ranks of
      accounts follow for the whole table.
    \<^item> Stock (\<open>Inventory_Domain\<close> to \<open>Inventory_Creation\<close> for \<^verbatim>\<open>routes/inventory_items/\<close> and the inventory types of
      \<^verbatim>\<open>domain/\<close>): the schema is an invariant (\<open>inventory_ok\<close>), a split conserves stock, a patch writes only what
      it names, batches are all or nothing, a deletion takes exactly the item's attachments, files and
      objects, generated serial numbers are new; merging never succeeds on this schema, and one large
      serial number stops generation.
    \<^item> Borrow requests (\<open>Borrow_Queries\<close>, \<open>Borrow_Requests\<close>, \<open>Borrow_Lifecycle\<close> for \<^verbatim>\<open>routes/borrow_requests/\<close>,
      \<open>Borrow_Properties\<close>): the life of a request as a transition system.
    \<^item> Locations and categories (\<open>Locations\<close>, \<open>Location_Tree\<close>, \<open>Location_Delete\<close>, \<open>Location_Runs\<close>,
      \<open>Location_Properties\<close>; \<open>Asset_Categories\<close>, \<open>Category_Tree\<close>, \<open>Category_Changes\<close>, \<open>Category_Properties\<close> for
      \<^verbatim>\<open>routes/locations/\<close>, \<^verbatim>\<open>routes/asset_categories/\<close>): both are \<open>tree_table\<close>s; listings refine reachability along parents, subtrees
      move and go as a whole, no run of requests breaks the tree.
    \<^item> Units and parameters (\<open>Units\<close>, \<open>Parameter_Values\<close>, \<open>Asset_Parameters\<close>, \<open>Parameter_Handlers\<close> with
      \<open>Parameter_Invariant\<close>, \<open>Parameter_Lifecycle\<close>, \<open>Parameter_Migration\<close>, \<open>Parameter_Runs\<close>, \<open>Parameter_Properties\<close> for \<^verbatim>\<open>routes/units/\<close>,
      \<^verbatim>\<open>routes/asset_parameters/\<close>, \<^verbatim>\<open>routes/shared/parameter_values.rs\<close>): values are read back as shown, a change of type
      migrates every value as asked, runs keep the tables consistent.
    \<^item> Assets (\<open>Assets\<close>, \<open>Asset_Handlers\<close>, \<open>Asset_Invariant\<close>, \<open>Asset_Runs\<close>, \<open>Asset_Traces\<close>, \<open>Asset_Properties\<close> for
      \<^verbatim>\<open>routes/assets/\<close>): what a creation stores, conversion of stock with the unit, deletion, runs.
    \<^item> Files (\<open>File_Storage\<close>, \<open>File_Uploads\<close>, \<open>Attachments\<close>, \<open>Attachment_Storage\<close>, \<open>Attachment_Runs\<close>,
      \<open>Attachment_Properties\<close> for \<^verbatim>\<open>file_storage/\<close>, \<^verbatim>\<open>routes/file_uploads/\<close>, \<^verbatim>\<open>routes/attachments/\<close>): database and disk agree after any run,
      an upload is consumed once and read back as sent.
    \<^item> Accounts (\<open>Users\<close>, \<open>Guests\<close>, \<open>Account_Runs\<close>, \<open>Account_Properties\<close> for \<^verbatim>\<open>routes/users/\<close>, \<^verbatim>\<open>routes/guests/\<close>): root accounts are
      out of reach, guests need a live code, and drawing a code ends after at most 32 draws.

  \<^bold>\<open>Hypotheses about code that is not here\<close>, each stated in the property that uses it: \<open>casts_exact\<close>, the casts
  between \<^verbatim>\<open>double precision\<close> and \<^verbatim>\<open>numeric\<close> are exact on whole numbers below 10^15; \<open>path_limit\<close>, an \<^verbatim>\<open>ltree\<close>
  has at most 65535 labels; \<open>uuid_text\<close> and \<open>date_text\<close>, printing and parsing of the libraries round-trip;
  \<open>fresh_object\<close> and the freshness of ids, what random UUIDs are drawn for; \<open>draw_ready\<close>, a keyed digest is a hex digest.

  \<^bold>\<open>Bounds and termination.\<close> No definition has fuel. The loops the code bounds recurse over that bound (32 draws of a code,
  500 labels in a request, 200 serial numbers); every other recursion is structural or has a measure.

  \<^bold>\<open>Not modelled.\<close> Handlers run one after another: row locks and the interleaving of transactions are not represented. The
  server answers every statement: no lost connection, no refusal of NUL characters, no infinite or NaN \<^verbatim>\<open>numeric\<close>. A refused
  write leaves the disk as it was; a write that is cut short is not represented. The text of JSON and of its numbers is left to
  the library. Left out as components: the filtered lists of items and assets, which are SQL text assembled from the request;
  the administration of label printers and of laboratories; sessions, login and password hashing; the rate limiter in Redis;
  federation; idempotency keys; the listing of the audit log; configuration and startup; the frontend.
\<close>

end
